(* ===== verification/Js_Prelude.thy ===== *)
theory Js_Prelude
  imports Main "HOL-Library.Char_ord"
begin

text \<open>
  The prelude of the development: what the TypeScript sources use of their language and of its
  standard library, as far as the components need it.

  \<^item> \<open>js_error\<close> has one constructor per error class that the modelled code throws.
  \<^item> \<open>'a result\<close> is a computation that returns or throws. \<open>('e, 'a) io\<close> adds the
    list of externally visible actions (of type \<open>'e\<close>) performed before that: a promise
    chain that is awaited runs its actions in order and stops at the first rejection.
  \<^item> The string functions follow the ECMAScript library on ASCII strings.
\<close>

section \<open>Error classes\<close>

text \<open>
  The classes are grouped by the directory that declares them: the domain's errors
  (\<open>domain/context\<close>), the commands' (\<open>app/usecase/command\<close>), the holds', the requests'
  (\<open>port/in/request/error\<close>) and those of the connection of wallets; \<open>js_error\<close> joins them with the language's own
  and the adapters'.
\<close>

datatype domain_error =
    NameEmpty
  | NameLength string nat
  | SymbolEmpty
  | SymbolLength string nat
  | MemoLength string nat
  | InvalidDecimalRange string int "int option"
  | InvalidAmount string string
  | InitSupplyInvalid string "string option"
  | InitSupplyLargerThanMaxSupply string string
  | InitSupplyLargerThanReserveAmount string string
  | InvalidMaxSupplySupplyType string
  | MaxSupplyOverLimit string string
  | ReserveAmountOverLimit string string
  | CashInAllowanceInvalid string
  | InvalidAutoRenewPeriod int int int
  | InvalidExpirationTimestamp int int int
  | InvalidRole string
  | InvalidSupplierType string

datatype id_error =
    InvalidIdFormat string
  | InvalidContractId string
  | InvalidEvmAddress string
  | AccountIdNotValid string
  | UnsupportedKeyType string
  | InvalidWalletTypeError string

datatype command_error =
    AccountsIdNotExists "string list"
  | StableCoinNotFound string
  | StableCoinNotAssociated string string
  | StableCoinMaxAutoAssociationReached string int
  | AccountFreeze string
  | AccountNotKyc string
  | KycNotActive string
  | DecimalsOverRange int
  | OperationNotAllowed string
  | InvalidRequest string
  | MissingProxySupplyKey
  | MissingProxyWipeKey
  | CustomFeeWithoutCollectorId string
  | BurnableAmountExceeded

datatype hold_error =
    InsufficientHoldBalance
  | InvalidHoldId
  | NotEscrow string string
  | InvalidHoldDestination
  | ExpiredHold
  | HoldNotExpired

datatype request_error =
    InvalidType string
  | InvalidLength string nat "nat option"
  | InvalidRange string "string option" "string option"
  | EmptyValue string
  | InvalidFormatHedera string
  | InvalidBytes32 string
  | InvalidDate string
  | InvalidValue string

datatype wallet_error =
    WalletConnectError string
  | WalletConnectRejectedError string
  | InvalidWalletTypeError string
  | EventNotFound string
  | EventListenerNotFound string

datatype js_error =
    JsError string                       \<comment> \<open>\<open>Error\<close> with its message\<close>
  | TypeError                            \<comment> \<open>property access on \<open>undefined\<close> and the like\<close>
  | RuntimeError string
  | NumericFault                         \<comment> \<open>a \<open>FixedNumber\<close> operation throws\<close>
  | SigningError string js_error
  | TransactionResponseError string "string option"   \<comment> \<open>message and transaction id\<close>
  | CapabilityError string string string
  | InvalidResponse "js_error option"
  | EmptyResponse string
  | BackendError string
  | DomainError domain_error
  | IdError id_error
  | CommandError command_error
  | HoldError hold_error
  | RequestError request_error
  | WalletError wallet_error
  | ValidationError string "(string \<times> js_error list) list"   \<comment> \<open>request and its validations\<close>
  | ProviderError "(string \<times> string) list"
      \<comment> \<open>what the library ethers throws: the properties that it has, by their path\<close>

section \<open>Computations that return or throw\<close>

type_synonym 'a result = "js_error + 'a"

fun bindR :: "'a result \<Rightarrow> ('a \<Rightarrow> 'b result) \<Rightarrow> 'b result" where
  "bindR (Inl e) f = Inl e"
| "bindR (Inr x) f = f x"

definition of_option :: "js_error \<Rightarrow> 'a option \<Rightarrow> 'a result" where
  "of_option e v = (case v of None \<Rightarrow> Inl e | Some x \<Rightarrow> Inr x)"

text \<open>\<open>await\<close> in a loop over a list, or a \<open>map\<close> that throws at the first failure.\<close>

fun mapR :: "('a \<Rightarrow> 'b result) \<Rightarrow> 'a list \<Rightarrow> 'b list result" where
  "mapR f [] = Inr []"
| "mapR f (x # xs) = bindR (f x) (\<lambda>y. bindR (mapR f xs) (\<lambda>ys. Inr (y # ys)))"

lemma bindR_Inr_iff: "bindR m f = Inr y \<longleftrightarrow> (\<exists>x. m = Inr x \<and> f x = Inr y)"
  by (cases m) auto

lemma bindR_Inl_iff:
  "bindR m f = Inl e \<longleftrightarrow> m = Inl e \<or> (\<exists>x. m = Inr x \<and> f x = Inl e)"
  by (cases m) auto

lemma bindR_assoc: "bindR (bindR m f) g = bindR m (\<lambda>x. bindR (f x) g)"
  by (cases m) auto

lemma bindR_return [simp]: "bindR m Inr = m"
  by (cases m) auto

lemma bindR_cong [fundef_cong]:
  "m = m' \<Longrightarrow> (\<And>x. m' = Inr x \<Longrightarrow> f x = f' x) \<Longrightarrow> bindR m f = bindR m' f'"
  by (cases m') auto

lemma of_option_Inr [simp]: "of_option e v = Inr x \<longleftrightarrow> v = Some x"
  by (cases v) (auto simp: of_option_def)

lemma of_option_Inl [simp]: "of_option e v = Inl e' \<longleftrightarrow> v = None \<and> e = e'"
  by (cases v) (auto simp: of_option_def)

lemma of_option_simps [simp]: "of_option e (Some x) = Inr x" "of_option e None = Inl e"
  by (simp_all add: of_option_def)

lemma mapR_Inr_iff: "mapR f xs = Inr ys \<longleftrightarrow> list_all2 (\<lambda>x y. f x = Inr y) xs ys"
proof (induction xs arbitrary: ys)
  case Nil
  then show ?case by auto
next
  case (Cons x xs)
  then show ?case by (cases ys) (auto simp: bindR_Inr_iff)
qed

lemma mapR_length: "mapR f xs = Inr ys \<Longrightarrow> length ys = length xs"
  by (auto simp: mapR_Inr_iff dest: list_all2_lengthD)

lemma mapR_map: "(\<And>x. x \<in> set xs \<Longrightarrow> f x = Inr (g x)) \<Longrightarrow> mapR f xs = Inr (map g xs)"
  by (induction xs) auto

section \<open>Computations with actions\<close>

type_synonym ('e, 'a) io = "'e list \<times> 'a result"

definition ret :: "'a \<Rightarrow> ('e, 'a) io" where
  "ret x = ([], Inr x)"

definition throw :: "js_error \<Rightarrow> ('e, 'a) io" where
  "throw e = ([], Inl e)"

definition act :: "'e \<Rightarrow> 'a result \<Rightarrow> ('e, 'a) io" where
  "act ev r = ([ev], r)"

definition withR :: "'a result \<Rightarrow> ('a \<Rightarrow> ('e, 'b) io) \<Rightarrow> ('e, 'b) io" where
  "withR r f = (case r of Inl e \<Rightarrow> throw e | Inr x \<Rightarrow> f x)"

definition bindIO :: "('e, 'a) io \<Rightarrow> ('a \<Rightarrow> ('e, 'b) io) \<Rightarrow> ('e, 'b) io" where
  "bindIO m f =
     (case snd m of
        Inl e \<Rightarrow> (fst m, Inl e)
      | Inr x \<Rightarrow> (fst m @ fst (f x), snd (f x)))"

text \<open>\<open>try { m } catch (error) { throw h(error) }\<close>\<close>

definition rethrow :: "('e, 'a) io \<Rightarrow> (js_error \<Rightarrow> js_error) \<Rightarrow> ('e, 'a) io" where
  "rethrow m h = (fst m, (case snd m of Inl e \<Rightarrow> Inl (h e) | Inr x \<Rightarrow> Inr x))"

abbreviation actions :: "('e, 'a) io \<Rightarrow> 'e list" where
  "actions \<equiv> fst"

abbreviation outcome :: "('e, 'a) io \<Rightarrow> 'a result" where
  "outcome \<equiv> snd"

lemma io_simps [simp]:
  "actions (ret x) = []" "outcome (ret x) = Inr x"
  "actions (throw e) = []" "outcome (throw e) = Inl e"
  "actions (act ev r) = [ev]" "outcome (act ev r) = r"
  "withR (Inl e) f = throw e" "withR (Inr x) f = f x"
  "bindIO (ret x) f = f x" "bindIO (throw e) g = throw e"
  "actions (rethrow m h) = actions m"
  "rethrow (ret x) h = ret x" "rethrow (throw e) h = throw (h e)"
  by (simp_all add: ret_def throw_def act_def withR_def bindIO_def rethrow_def)

lemma outcome_withR_Inr:
  "outcome (withR r f) = Inr y \<longleftrightarrow> (\<exists>x. r = Inr x \<and> outcome (f x) = Inr y)"
  by (cases r) auto

lemma outcome_bindIO_Inr:
  "outcome (bindIO m f) = Inr y \<longleftrightarrow> (\<exists>x. outcome m = Inr x \<and> outcome (f x) = Inr y)"
  by (auto simp: bindIO_def split: sum.splits)

lemma outcome_rethrow_Inr [simp]: "outcome (rethrow m h) = Inr y \<longleftrightarrow> outcome m = Inr y"
  by (auto simp: rethrow_def split: sum.splits)

lemma outcome_rethrow_Inl:
  "outcome (rethrow m h) = Inl e \<longleftrightarrow> (\<exists>e'. outcome m = Inl e' \<and> e = h e')"
  by (auto simp: rethrow_def split: sum.splits)

lemma actions_bindIO:
  "actions (bindIO m f) =
     actions m @ (case outcome m of Inl e \<Rightarrow> [] | Inr x \<Rightarrow> actions (f x))"
  by (auto simp: bindIO_def split: sum.splits)

lemma actions_bindIO_ret [simp]: "actions (bindIO m (\<lambda>x. ret (g x))) = actions m"
  by (auto simp: bindIO_def split: sum.splits)

lemma actions_bindIO_pure: "(\<And>x. actions (f x) = []) \<Longrightarrow> actions (bindIO m f) = actions m"
  by (auto simp: bindIO_def split: sum.splits)

text \<open>An action occurs only when the computations before it returned.\<close>

lemma actions_withR_nonempty:
  "actions (withR r f) \<noteq> [] \<longleftrightarrow> (\<exists>x. r = Inr x \<and> actions (f x) \<noteq> [])"
  by (cases r) auto

lemma actions_if_throw:
  "actions (if c then throw e else m) \<noteq> [] \<longleftrightarrow> \<not> c \<and> actions m \<noteq> []"
  by simp

lemma withR_bindR: "withR (bindR r f) g = withR r (\<lambda>x. withR (f x) g)"
  by (cases r) auto

section \<open>Strings\<close>

definition char_code :: "char \<Rightarrow> nat" where
  "char_code c = of_char c"

definition is_digit :: "char \<Rightarrow> bool" where
  "is_digit c \<longleftrightarrow> 48 \<le> char_code c \<and> char_code c \<le> 57"

definition is_lower :: "char \<Rightarrow> bool" where
  "is_lower c \<longleftrightarrow> 97 \<le> char_code c \<and> char_code c \<le> 122"

definition is_upper :: "char \<Rightarrow> bool" where
  "is_upper c \<longleftrightarrow> 65 \<le> char_code c \<and> char_code c \<le> 90"

definition is_hex :: "char \<Rightarrow> bool" where
  "is_hex c \<longleftrightarrow> is_digit c \<or> (97 \<le> char_code c \<and> char_code c \<le> 102)
     \<or> (65 \<le> char_code c \<and> char_code c \<le> 70)"

definition digit_char :: "nat \<Rightarrow> char" where
  "digit_char d = char_of (48 + d)"

definition digit_val :: "char \<Rightarrow> nat" where
  "digit_val c = char_code c - 48"

fun nat_str :: "nat \<Rightarrow> string" where
  "nat_str n = (if n < 10 then [digit_char n] else nat_str (n div 10) @ [digit_char (n mod 10)])"

declare nat_str.simps [simp del]

definition int_str :: "int \<Rightarrow> string" where
  "int_str i = (if i < 0 then ''-'' @ nat_str (nat (- i)) else nat_str (nat i))"

definition str_nat :: "string \<Rightarrow> nat" where
  "str_nat s = foldl (\<lambda>a c. a * 10 + digit_val c) 0 s"

definition js_toLowerCase :: "string \<Rightarrow> string" where
  "js_toLowerCase s = map (\<lambda>c. if is_upper c then char_of (char_code c + 32) else c) s"

definition js_toUpperCase :: "string \<Rightarrow> string" where
  "js_toUpperCase s = map (\<lambda>c. if is_lower c then char_of (char_code c - 32) else c) s"

definition js_startsWith :: "string \<Rightarrow> string \<Rightarrow> bool" where
  "js_startsWith s p \<longleftrightarrow> take (length p) s = p"

definition js_endsWith :: "string \<Rightarrow> string \<Rightarrow> bool" where
  "js_endsWith s p \<longleftrightarrow> js_startsWith (rev s) (rev p)"

text \<open>\<open>s.substring(a, b)\<close>: the bounds are clamped to the length and swapped when \<open>a > b\<close>.\<close>

definition js_substring :: "string \<Rightarrow> nat \<Rightarrow> nat \<Rightarrow> string" where
  "js_substring s a b =
     (let a' = min a (length s); b' = min b (length s);
          lo = min a' b'; hi = max a' b' in take (hi - lo) (drop lo s))"

definition js_padStart :: "string \<Rightarrow> nat \<Rightarrow> char \<Rightarrow> string" where
  "js_padStart s n c = replicate (n - length s) c @ s"

definition js_padEnd :: "string \<Rightarrow> nat \<Rightarrow> char \<Rightarrow> string" where
  "js_padEnd s n c = s @ replicate (n - length s) c"

text \<open>\<open>s.split(c)\<close> for a one-character separator.\<close>

fun js_split :: "char \<Rightarrow> string \<Rightarrow> string list" where
  "js_split c [] = [[]]"
| "js_split c (x # xs) =
     (if x = c then [] # js_split c xs
      else case js_split c xs of [] \<Rightarrow> [[x]] | w # ws \<Rightarrow> (x # w) # ws)"

end
