(* ===== verification/Ids.thy ===== *)
theory Ids
  imports Js_Prelude "HOL-Library.Word"
begin

text \<open>
  Identifiers, addresses and keys: \<open>domain/context/shared/HederaId.ts\<close>,
  \<open>domain/context/contract\<close>, \<open>domain/context/account\<close> and the string checks under
  \<open>core\<close> (all under \<open>sdk/src\<close>). A class that only wraps a validated string is a
  \<open>datatype\<close> with one constructor, its TypeScript constructor a function that returns or throws.
  What the Hedera SDK and the protobuf package do (the type of a raw key, the decoding of a key's
  bytes, the public key of a private key) is an argument.
\<close>

section \<open>String checks\<close>

definition isNotEmpty :: "string option \<Rightarrow> bool" where
  "isNotEmpty value = (case value of None \<Rightarrow> False | Some v \<Rightarrow> length v \<noteq> 0)"

definition isLengthUnder :: "string \<Rightarrow> nat \<Rightarrow> bool" where
  "isLengthUnder value maxLength = (if maxLength < length value then False else True)"

definition isLengthBetween :: "string \<Rightarrow> nat \<Rightarrow> nat \<Rightarrow> bool" where
  "isLengthBetween value lo hi =
     (if hi < length value \<or> length value < lo then False else True)"

section \<open>HederaId\<close>

datatype hedera_id = HederaId (id_value: string)

text \<open>\<open>(0|(?:[1-9]\d*))\<close>, three times, with an optional checksum of five letters.\<close>

definition id_number :: "string \<Rightarrow> bool" where
  "id_number p \<longleftrightarrow> p = ''0'' \<or> (p \<noteq> [] \<and> list_all is_digit p \<and> hd p \<noteq> CHR ''0'')"

definition hedera_format :: "string \<Rightarrow> bool" where
  "hedera_format value \<longleftrightarrow>
     (case js_split (CHR ''.'') value of
        [a, b, c] \<Rightarrow> id_number a \<and> id_number b \<and>
          (case js_split (CHR ''-'') c of
             [n] \<Rightarrow> id_number n
           | [n, k] \<Rightarrow> id_number n \<and> length k = 5 \<and> list_all is_lower k
           | _ \<Rightarrow> False)
      | _ \<Rightarrow> False)"

definition new_HederaId :: "string \<Rightarrow> hedera_id result" where
  "new_HederaId value =
     (if \<not> hedera_format value then Inl (IdError (InvalidIdFormat value)) else Inr (HederaId value))"

definition HederaId_from :: "string option \<Rightarrow> hedera_id result" where
  "HederaId_from value = new_HederaId (case value of None \<Rightarrow> [] | Some v \<Rightarrow> v)"

definition HederaId_NULL :: hedera_id where
  "HederaId_NULL = HederaId ''0.0.0''"

definition id_isNull :: "hedera_id \<Rightarrow> bool" where
  "id_isNull i \<longleftrightarrow> id_value i = ''0.0.0''"

definition isAccountId :: "string \<Rightarrow> bool" where
  "isAccountId value = (case HederaId_from (Some value) of Inl _ \<Rightarrow> False | Inr _ \<Rightarrow> True)"

section \<open>Contract identifiers and EVM addresses\<close>

datatype contract_id = ContractId (contract_value: string)

definition new_ContractId :: "string \<Rightarrow> contract_id result" where
  "new_ContractId value =
     (if length value = 42 \<and> js_startsWith value ''0x'' then Inl (IdError (InvalidContractId value))
      else bindR (new_HederaId value) (\<lambda>i. Inr (ContractId (id_value i))))"

text \<open>\<open>validate\<close>: \<open>parses\<close> is \<open>HContractId.fromString\<close> not throwing.\<close>

definition ContractId_validate :: "(string \<Rightarrow> bool) \<Rightarrow> string \<Rightarrow> js_error list" where
  "ContractId_validate parses i =
     (if \<not> isNotEmpty (Some i) then [IdError (InvalidContractId i)]
      else if \<not> (length i = 42 \<and> js_startsWith i ''0x'') \<and> \<not> parses i
      then [IdError (InvalidContractId i)] else [])"

datatype evm_address = EvmAddress (evm_value: string)

definition new_EvmAddress :: "string \<Rightarrow> evm_address result" where
  "new_EvmAddress value =
     (if length value = 42 \<and> js_startsWith value ''0x'' then Inr (EvmAddress value)
      else if length value = 40 then Inr (EvmAddress (''0x'' @ value))
      else Inl (IdError (InvalidEvmAddress value)))"

text \<open>\<open>CheckEvmAddress\<close>: the expression asks for 42 hexadecimal digits after the prefix.\<close>

definition isEvmAddress :: "string \<Rightarrow> bool" where
  "isEvmAddress value \<longleftrightarrow>
     js_startsWith value ''0x'' \<and> length (drop 2 value) = 42 \<and> list_all is_hex (drop 2 value)"

definition toEvmAddress :: "string \<Rightarrow> string" where
  "toEvmAddress value = (if isEvmAddress value then value else ''0x'' @ js_toLowerCase value)"

definition EVM_ZERO_ADDRESS :: string where
  "EVM_ZERO_ADDRESS = ''0x'' @ replicate 40 (CHR ''0'')"

section \<open>Keys\<close>

record public_key =
  pk_key :: string
  pk_type :: string

definition KeyType_ECDSA :: string where "KeyType_ECDSA = ''ECDSA''"
definition KeyType_ED25519 :: string where "KeyType_ED25519 = ''ED25519''"
definition KeyType_NULL :: string where "KeyType_NULL = ''null''"

definition PublicKey_NULL :: public_key where
  "PublicKey_NULL = \<lparr>pk_key = ''null'', pk_type = KeyType_NULL\<rparr>"

text \<open>\<open>case 66 | 68\<close> is the bitwise or of the two numbers, one case.\<close>

definition getTypeFromLength :: "string \<Rightarrow> string" where
  "getTypeFromLength params =
     (if length params = (or) 66 68 then KeyType_ECDSA else KeyType_ED25519)"

definition formatKey :: "string \<Rightarrow> string" where
  "formatKey key = (if 0 < length key \<and> js_startsWith key ''0x'' then drop 2 key else key)"

definition PublicKey_of_string :: "string \<Rightarrow> public_key" where
  "PublicKey_of_string params =
     (let key = formatKey params in \<lparr>pk_key = key, pk_type = getTypeFromLength key\<rparr>)"

text \<open>\<open>sdk_type\<close> is \<open>HPublicKey.fromString(key)._key._type\<close>, which may throw.\<close>

definition new_PublicKey ::
  "(string \<Rightarrow> string result) \<Rightarrow> string option \<Rightarrow> string option \<Rightarrow> public_key result" where
  "new_PublicKey sdk_type key type =
     (case key of
        None \<Rightarrow> Inl (RuntimeError ''Invalid public key'')
      | Some k \<Rightarrow>
          if k = [] then Inl (RuntimeError ''Invalid public key'')
          else (let k' = formatKey k in
            case type of
              Some t \<Rightarrow> Inr \<lparr>pk_key = k', pk_type = t\<rparr>
            | None \<Rightarrow> bindR (sdk_type k') (\<lambda>t. Inr \<lparr>pk_key = k', pk_type = t\<rparr>)))"

definition PublicKey_isNull :: "public_key option \<Rightarrow> bool" where
  "PublicKey_isNull val =
     (case val of None \<Rightarrow> False
      | Some k \<Rightarrow> pk_key k = pk_key PublicKey_NULL \<and> pk_type k = pk_type PublicKey_NULL)"

text \<open>\<open>JSON.stringify\<close> of the two fields; keys and types hold no character that it escapes.\<close>

definition json_pair :: "string \<Rightarrow> string \<Rightarrow> string \<Rightarrow> string \<Rightarrow> string" where
  "json_pair k1 v1 k2 v2 =
     [CHR ''{'', CHR 0x22] @ k1 @ [CHR 0x22, CHR '':'', CHR 0x22] @ v1 @ [CHR 0x22, CHR '','', CHR 0x22] @
     k2 @ [CHR 0x22, CHR '':'', CHR 0x22] @ v2 @ [CHR 0x22, CHR ''}'']"

definition PublicKey_toString :: "public_key \<Rightarrow> string" where
  "PublicKey_toString k = json_pair ''key'' (pk_key k) ''_type'' (pk_type k)"

text \<open>A key of a token is a public key or a contract; \<open>toString()\<close> of either.\<close>

datatype token_key = KeyPublic public_key | KeyContract contract_id

fun token_key_toString :: "token_key \<Rightarrow> string" where
  "token_key_toString (KeyPublic k) = PublicKey_toString k"
| "token_key_toString (KeyContract c) = contract_value c"

record private_key =
  priv_key :: string
  priv_type :: string
  priv_publicKey :: public_key

definition validateType :: "string option \<Rightarrow> string" where
  "validateType type =
     (case type of None \<Rightarrow> KeyType_NULL
      | Some t \<Rightarrow> if t = ''ECDSA'' then KeyType_ECDSA
                 else if t = ''ED25519'' then KeyType_ED25519 else KeyType_NULL)"

text \<open>
  \<open>derive ed key\<close> is \<open>HPrivateKey.fromStringED25519\<close> (if \<open>ed\<close>) or \<open>fromStringECDSA\<close>, then the
  raw string and the type of its public key.
\<close>

definition new_PrivateKey ::
  "(bool \<Rightarrow> string \<Rightarrow> (string \<times> string) result) \<Rightarrow> (string \<Rightarrow> string result) \<Rightarrow>
     string \<Rightarrow> string option \<Rightarrow> private_key result" where
  "new_PrivateKey derive sdk_type key type =
     (let t = validateType type in
      bindR (derive (t = KeyType_ED25519) key) (\<lambda>(raw, ktype).
      bindR (new_PublicKey sdk_type (Some raw) (Some ktype)) (\<lambda>pk.
        Inr \<lparr>priv_key = key, priv_type = t, priv_publicKey = pk\<rparr>)))"

definition PrivateKey_toString :: "private_key \<Rightarrow> string" where
  "PrivateKey_toString k = json_pair ''key'' (priv_key k) ''type'' (priv_type k)"

section \<open>Hexadecimal notation of bytes\<close>

type_synonym byte = "8 word"

definition hex_char :: "nat \<Rightarrow> char" where
  "hex_char d = (if d < 10 then char_of (48 + d) else char_of (87 + d))"

text \<open>\<open>byte.toString(16)\<close>, then \<open>('0' + _).slice(-2)\<close>.\<close>

definition byte_toString16 :: "byte \<Rightarrow> string" where
  "byte_toString16 b =
     (if unat b < 16 then [hex_char (unat b)] else [hex_char (unat b div 16), hex_char (unat b mod 16)])"

definition fromUint8Array :: "byte list \<Rightarrow> string" where
  "fromUint8Array bs =
     concat (map (\<lambda>b. let s = CHR ''0'' # byte_toString16 b in drop (length s - 2) s) bs)"

definition hex_val :: "char \<Rightarrow> nat" where
  "hex_val c =
     (if is_digit c then char_code c - 48
      else if 97 \<le> char_code c then char_code c - 87 else char_code c - 55)"

text \<open>\<open>Buffer.from(hex, 'hex')\<close> stops before the first pair that is not hexadecimal.\<close>

fun toUint8Array :: "string \<Rightarrow> byte list" where
  "toUint8Array (a # b # r) =
     (if is_hex a \<and> is_hex b then word_of_nat (16 * hex_val a + hex_val b) # toUint8Array r else [])"
| "toUint8Array _ = []"

section \<open>Multiple keys\<close>

text \<open>
  A decoded protobuf key, as far as \<open>MultiKey.ts\<close> reads it: \<open>None\<close> is a missing or null field
  (an empty byte array is an object, hence present).
\<close>

record proto_leaf =
  leaf_ed25519 :: "byte list option"
  leaf_ecdsa :: "byte list option"

record proto_threshold =
  th_threshold :: "nat option"
  th_keys :: "proto_leaf list option option"

record proto_key =
  proto_keyList :: "proto_leaf list option option"
  proto_thresholdKey :: "proto_threshold option"
  proto_kind :: "string option"

record multi_key =
  mk_keys :: "public_key list"
  mk_threshold :: nat

definition isMultiKey :: "(byte list \<Rightarrow> proto_key) \<Rightarrow> string \<Rightarrow> bool" where
  "isMultiKey decode protobuf =
     (let k = decode (toUint8Array protobuf)
      in proto_keyList k \<noteq> None \<or> proto_thresholdKey k \<noteq> None)"

definition getPublicKey :: "proto_leaf \<Rightarrow> public_key result" where
  "getPublicKey k =
     (let pk = (\<lambda>bs t. new_PublicKey (\<lambda>_. Inl TypeError) (Some (fromUint8Array bs)) (Some t)) in
      case leaf_ed25519 k of
        Some bs \<Rightarrow> pk bs KeyType_ED25519
      | None \<Rightarrow>
          (case leaf_ecdsa k of
             Some bs \<Rightarrow> pk bs KeyType_ECDSA
           | None \<Rightarrow> Inl (IdError (UnsupportedKeyType ''Only ECDSASecp256k1 and ed25519 are supported''))))"

definition MultiKey_fromProtobuf :: "(byte list \<Rightarrow> proto_key) \<Rightarrow> string \<Rightarrow> multi_key result" where
  "MultiKey_fromProtobuf decode protobuf =
     (let k = decode (toUint8Array protobuf);
          unsupported = (\<lambda>m. Inl (IdError (UnsupportedKeyType m))) in
      case proto_keyList k of
        Some kl \<Rightarrow>
          (case kl of
             None \<Rightarrow> unsupported ''No Keys found in key list''
           | Some ks \<Rightarrow> bindR (mapR getPublicKey ks) (\<lambda>pks.
               Inr \<lparr>mk_keys = pks, mk_threshold = length pks\<rparr>))
      | None \<Rightarrow>
          (case proto_thresholdKey k of
             Some t \<Rightarrow>
               (if th_threshold t = None \<or> th_threshold t = Some 0
                then unsupported ''Threshold undefined in threshold key''
                else case th_keys t of
                  None \<Rightarrow> unsupported ''No Keys found in threshold key''
                | Some None \<Rightarrow> unsupported ''No key list found in threshold key''
                | Some (Some ks) \<Rightarrow> bindR (mapR getPublicKey ks) (\<lambda>pks.
                    Inr \<lparr>mk_keys = pks, mk_threshold = the (th_threshold t)\<rparr>))
           | None \<Rightarrow> unsupported (case proto_kind k of None \<Rightarrow> ''empty'' | Some m \<Rightarrow> m)))"

section \<open>Account\<close>

record account =
  acc_id :: hedera_id
  acc_evmAddress :: "string option"
  acc_privateKey :: "private_key option"
  acc_publicKey :: "public_key option"
  acc_multiKey :: "multi_key option"

definition new_Account ::
  "string \<Rightarrow> string option \<Rightarrow> private_key option \<Rightarrow> public_key option \<Rightarrow> multi_key option \<Rightarrow>
     account result" where
  "new_Account i evm priv pub multi =
     bindR (HederaId_from (Some i)) (\<lambda>hid.
       Inr \<lparr>acc_id = hid, acc_evmAddress = evm, acc_privateKey = priv, acc_publicKey = pub,
            acc_multiKey = multi\<rparr>)"

section \<open>Lemmas\<close>

lemma hedera_null: "hedera_format ''0.0.0''"
  by code_simp

lemma new_HederaId_Inr [simp]: "new_HederaId v = Inr i \<longleftrightarrow> hedera_format v \<and> i = HederaId v"
  by (auto simp: new_HederaId_def)

lemma new_ContractId_Inr:
  "new_ContractId v = Inr c \<longleftrightarrow>
     hedera_format v \<and> \<not> (length v = 42 \<and> js_startsWith v ''0x'') \<and> c = ContractId v"
  by (auto simp: new_ContractId_def bindR_Inr_iff)

lemma new_EvmAddress_length: "new_EvmAddress v = Inr a \<Longrightarrow>
    length (evm_value a) = 42 \<and> js_startsWith (evm_value a) ''0x''"
  by (auto simp: new_EvmAddress_def js_startsWith_def split: if_splits)

lemma hex_char_hex: "d < 16 \<Longrightarrow> is_hex (hex_char d) \<and> hex_val (hex_char d) = d"
  by (auto simp: hex_char_def is_hex_def hex_val_def is_digit_def char_code_def)

lemma byte_hex: "drop (length (CHR ''0'' # byte_toString16 b) - 2) (CHR ''0'' # byte_toString16 b) =
    [hex_char (unat b div 16), hex_char (unat b mod 16)]"
proof (cases "unat b < 16")
  case True
  moreover have "hex_char 0 = CHR ''0''" by code_simp
  ultimately show ?thesis by (simp add: byte_toString16_def)
next
  case False
  then show ?thesis by (simp add: byte_toString16_def)
qed

lemma toUint8Array_byte:
  "toUint8Array (hex_char (unat b div 16) # hex_char (unat b mod 16) # r) = b # toUint8Array r"
proof -
  have "unat b < 256" using unsigned_less [where 'a = nat, of b] by simp
  then have "unat b div 16 < 16" by simp
  moreover have "16 * (unat b div 16) + unat b mod 16 = unat b" by simp
  ultimately show ?thesis
    using hex_char_hex [of "unat b div 16"] hex_char_hex [of "unat b mod 16"] by simp
qed

lemma hex_roundtrip: "toUint8Array (fromUint8Array bs) = bs"
proof (induction bs)
  case (Cons b bs)
  have "fromUint8Array (b # bs) =
      [hex_char (unat b div 16), hex_char (unat b mod 16)] @ fromUint8Array bs"
    by (simp only: fromUint8Array_def list.map concat.simps Let_def byte_hex)
  with Cons show ?case by (simp only: toUint8Array_byte append_Cons append_Nil)
qed (simp add: fromUint8Array_def)

end
