(* ===== verification/Backend_Transactions.thy ===== *)
theory Backend_Transactions
  imports Ids "HOL-Library.AList"
begin

text \<open>
  The multisignature backend: \<open>backend/src/transaction\<close> (the entity and the service) and
  \<open>backend/src/utils/utils.ts\<close>. A transaction waits for the signatures of the keys of its list;
  when enough of them have signed, the job of \<open>Backend_Job\<close> submits it.

  The database is the record \<open>repository\<close> of the operations of TypeORM's \<open>Repository\<close> that the
  service calls, with the locale \<open>tx_repository\<close> for what the service relies on; the cryptographic
  libraries and the SDK's deserialisation are the record \<open>crypto\<close>.
\<close>

section \<open>The entity\<close>

datatype network = MAINNET | TESTNET | PREVIEWNET
datatype transaction_status = SIGNED | PENDING | EXPIRED | ERROR | EXECUTED

record transaction =
  t_id :: string
  t_transaction_message :: string
  t_description :: string
  t_hedera_account_id :: string
  t_signatures :: "string list"
  t_key_list :: "string list"
  t_signed_keys :: "string list"
  t_status :: transaction_status
  t_threshold :: nat
  t_network :: network
  t_start_date :: int             \<comment> \<open>milliseconds since the epoch\<close>

record create_dto =
  d_transaction_message :: string
  d_description :: string
  d_hedera_account_id :: string
  d_key_list :: "string list"
  d_threshold :: nat
  d_network :: network
  d_start_date :: int

record sign_dto =
  d_signature :: string
  d_public_key :: string

text \<open>The exceptions of the service; \<open>HttpExceptionFilter\<close> maps them to the status of the response.\<close>

datatype backend_exception =
    HttpException string int
  | TransactionNotFound
  | MessageAlreadySigned
  | UnauthorizedKey
  | InvalidSignature
  | PlainError string

fun exception_status :: "backend_exception \<Rightarrow> int" where
  "exception_status (HttpException m s) = s"
| "exception_status TransactionNotFound = 404"
| "exception_status MessageAlreadySigned = 409"
| "exception_status UnauthorizedKey = 401"
| "exception_status InvalidSignature = 400"
| "exception_status (PlainError m) = 500"

section \<open>Utilities\<close>

text \<open>\<open>/^[0-9a-fA-F]{8}-[0-9a-fA-F]{4}-[0-9a-fA-F]{4}-[0-9a-fA-F]{4}-[0-9a-fA-F]{12}$/\<close>\<close>

definition uuidRegex :: "string \<Rightarrow> bool" where
  "uuidRegex s \<longleftrightarrow>
     (let parts = js_split (CHR ''-'') s in
      map length parts = [8, 4, 4, 4, 12] \<and> list_all (list_all is_hex) parts)"

definition removeHexPrefix :: "string \<Rightarrow> string" where
  "removeHexPrefix value = (if js_startsWith (js_toLowerCase value) ''0x'' then drop 2 value else value)"

text \<open>\<open>hexToUint8Array\<close>; \<open>None\<close> when it throws. A last odd digit is dropped by the pattern.\<close>

definition hexToUint8Array :: "string \<Rightarrow> byte list option" where
  "hexToUint8Array hexString =
     (let clean = removeHexPrefix hexString in
      if clean = [] \<or> \<not> list_all is_hex clean \<or> length clean < 2 then None
      else Some (toUint8Array clean))"

text \<open>\<open>Array.from(new Set(array))\<close> keeps the first occurrences, in order.\<close>

definition removeDuplicates :: "string list \<Rightarrow> string list" where
  "removeDuplicates xs = rev (remdups (rev xs))"

text \<open>
  The libraries. \<open>cr_nacl\<close> is \<open>nacl.sign.detached.verify\<close>, \<open>cr_ecdsa key hash r s\<close> the verification of
  \<open>elliptic\<close> on secp256k1, both \<open>None\<close> when they throw; \<open>cr_body\<close> gives the body bytes of the first
  signed transaction of a deserialised and frozen message.
\<close>

record crypto =
  cr_nacl :: "byte list \<Rightarrow> byte list \<Rightarrow> byte list \<Rightarrow> bool option"
  cr_ecdsa :: "string \<Rightarrow> byte list \<Rightarrow> string \<Rightarrow> string \<Rightarrow> bool option"
  cr_keccak256 :: "byte list \<Rightarrow> byte list"
  cr_body :: "byte list \<Rightarrow> network \<Rightarrow> byte list option"

definition verifySignature :: "crypto \<Rightarrow> string \<Rightarrow> byte list \<Rightarrow> string \<Rightarrow> bool" where
  "verifySignature C publicKeyHex bytesToSign signatureHex =
     (let ed = (case (hexToUint8Array publicKeyHex, hexToUint8Array signatureHex) of
                  (Some k, Some s) \<Rightarrow> cr_nacl C bytesToSign s k = Some True
                | _ \<Rightarrow> False)
      in ed \<or>
         cr_ecdsa C publicKeyHex (cr_keccak256 C bytesToSign)
           (take 64 signatureHex) (take 64 (drop 64 signatureHex)) = Some True)"

definition message_body :: "crypto \<Rightarrow> transaction \<Rightarrow> byte list option" where
  "message_body C t =
     (case hexToUint8Array (t_transaction_message t) of
        None \<Rightarrow> None
      | Some bytes \<Rightarrow> cr_body C bytes (t_network t))"

section \<open>The repository\<close>

record 'r repository =
  rp_findOne :: "'r \<Rightarrow> string \<Rightarrow> transaction option"
  rp_save :: "'r \<Rightarrow> transaction \<Rightarrow> 'r"
  rp_delete :: "'r \<Rightarrow> string \<Rightarrow> 'r"
  rp_clear :: "'r \<Rightarrow> 'r"
  rp_paginate :: "'r \<Rightarrow> (transaction \<Rightarrow> bool) \<Rightarrow> nat \<Rightarrow> nat \<Rightarrow> transaction list \<times> nat"
    \<comment> \<open>condition, page, limit; the items of the page and the number of pages\<close>

section \<open>The service\<close>

definition entity_of :: "string \<Rightarrow> create_dto \<Rightarrow> transaction" where
  "entity_of uuid dto =
     (let keys = removeDuplicates (d_key_list dto) in
      \<lparr>t_id = uuid, t_transaction_message = d_transaction_message dto,
       t_description = d_description dto, t_hedera_account_id = d_hedera_account_id dto,
       t_signatures = [], t_key_list = keys, t_signed_keys = [], t_status = PENDING,
       t_threshold = (if d_threshold dto = 0 \<or> d_threshold dto > length keys
                      then length keys else d_threshold dto),
       t_network = d_network dto, t_start_date = d_start_date dto\<rparr>)"

text \<open>\<open>uuid\<close> is the identifier that the database generates.\<close>

definition service_create :: "'r repository \<Rightarrow> 'r \<Rightarrow> string \<Rightarrow> create_dto \<Rightarrow> 'r \<times> transaction" where
  "service_create R db uuid dto = (let t = entity_of uuid dto in (rp_save R db t, t))"

definition signed_transaction :: "transaction \<Rightarrow> sign_dto \<Rightarrow> transaction" where
  "signed_transaction t dto =
     (let keys = t_signed_keys t @ [d_public_key dto] in
      t \<lparr>t_signed_keys := keys,
         t_signatures := t_signatures t @ [d_signature dto],
         t_status := (if length keys \<ge> t_threshold t then SIGNED else t_status t)\<rparr>)"

definition sign_checks :: "crypto \<Rightarrow> transaction \<Rightarrow> sign_dto \<Rightarrow> backend_exception option" where
  "sign_checks C t dto =
     (if d_public_key dto \<in> set (t_signed_keys t) then Some MessageAlreadySigned
      else if d_public_key dto \<notin> set (t_key_list t) then Some UnauthorizedKey
      else case message_body C t of
             None \<Rightarrow> Some (PlainError ''invalid transaction message'')
           | Some body \<Rightarrow>
               if \<not> verifySignature C (d_public_key dto) body (d_signature dto)
               then Some InvalidSignature else None)"

definition service_sign ::
  "'r repository \<Rightarrow> crypto \<Rightarrow> 'r \<Rightarrow> sign_dto \<Rightarrow> string \<Rightarrow> backend_exception + 'r \<times> transaction" where
  "service_sign R C db dto transactionId =
     (if \<not> uuidRegex transactionId then Inl (HttpException ''Invalid Transaction uuid format'' 400)
      else case rp_findOne R db transactionId of
             None \<Rightarrow> Inl TransactionNotFound
           | Some t \<Rightarrow>
               (case sign_checks C t dto of
                  Some e \<Rightarrow> Inl e
                | None \<Rightarrow> (let t' = signed_transaction t dto in Inr (rp_save R db t', t'))))"

definition service_delete :: "'r repository \<Rightarrow> 'r \<Rightarrow> string \<Rightarrow> backend_exception + 'r" where
  "service_delete R db transactionId =
     (if \<not> uuidRegex transactionId then Inl TransactionNotFound
      else case rp_findOne R db transactionId of
             None \<Rightarrow> Inl TransactionNotFound
           | Some _ \<Rightarrow> Inr (rp_delete R db transactionId))"

definition service_updateStatus ::
  "'r repository \<Rightarrow> 'r \<Rightarrow> transaction_status \<Rightarrow> string \<Rightarrow> backend_exception + 'r" where
  "service_updateStatus R db newState transactionId =
     (if \<not> uuidRegex transactionId then Inl (HttpException ''Invalid Transaction uuid format'' 400)
      else case rp_findOne R db transactionId of
             None \<Rightarrow> Inl TransactionNotFound
           | Some t \<Rightarrow> Inr (rp_save R db (t \<lparr>t_status := newState\<rparr>)))"

definition service_deleteAllTransactions :: "'r repository \<Rightarrow> 'r \<Rightarrow> 'r" where
  "service_deleteAllTransactions R db = rp_clear R db"

text \<open>
  \<open>transformToDto\<close> turns the start date into a UTC string, which has no milliseconds; the other
  fields are kept.
\<close>

definition transformToDto :: "transaction \<Rightarrow> transaction" where
  "transformToDto t = t \<lparr>t_start_date := t_start_date t - t_start_date t mod 1000\<rparr>"

definition service_getById :: "'r repository \<Rightarrow> 'r \<Rightarrow> string \<Rightarrow> backend_exception + transaction" where
  "service_getById R db transactionId =
     (if \<not> uuidRegex transactionId then Inl TransactionNotFound
      else case rp_findOne R db transactionId of
             None \<Rightarrow> Inl TransactionNotFound
           | Some t \<Rightarrow> Inr (transformToDto t))"

fun network_value :: "network \<Rightarrow> string" where
  "network_value MAINNET = ''mainnet''"
| "network_value TESTNET = ''testnet''"
| "network_value PREVIEWNET = ''previewnet''"

fun status_value :: "transaction_status \<Rightarrow> string" where
  "status_value SIGNED = ''SIGNED''"
| "status_value PENDING = ''PENDING''"
| "status_value EXPIRED = ''EXPIRED''"
| "status_value ERROR = ''ERROR''"
| "status_value EXECUTED = ''EXECUTED''"

text \<open>A filter that is missing or empty does not restrict the query.\<close>

definition given :: "string option \<Rightarrow> string option" where
  "given v = (case v of None \<Rightarrow> None | Some s \<Rightarrow> if s = [] then None else Some s)"

definition matches :: "string option \<Rightarrow> (string \<Rightarrow> bool) \<Rightarrow> bool" where
  "matches v P = (case v of None \<Rightarrow> True | Some s \<Rightarrow> P s)"

definition service_getAll ::
  "'r repository \<Rightarrow> 'r \<Rightarrow> string option \<Rightarrow> string option \<Rightarrow> string option \<Rightarrow> string option \<Rightarrow> nat \<Rightarrow> nat \<Rightarrow>
     backend_exception + transaction list \<times> nat" where
  "service_getAll R db publicKey status network hederaAccountId page limit =
     (let normalizedNetwork = given (map_option js_toLowerCase network);
          normalizedStatus = given (map_option js_toUpperCase status)
      in if \<not> matches normalizedNetwork (\<lambda>n. n \<in> set (map network_value [MAINNET, TESTNET, PREVIEWNET]))
         then Inl (PlainError ''Invalid network'')
         else if \<not> matches normalizedStatus
                   (\<lambda>s. s \<in> set (map status_value [SIGNED, PENDING, EXPIRED, ERROR, EXECUTED]))
         then Inl (PlainError ''Invalid status'')
         else (let (items, totalPages) =
                     rp_paginate R db (\<lambda>t.
                       matches (given publicKey) (\<lambda>k. k \<in> set (t_key_list t)) \<and>
                       matches normalizedStatus (\<lambda>s. s = status_value (t_status t)) \<and>
                       matches normalizedNetwork (\<lambda>n. n = network_value (t_network t)) \<and>
                       matches (given hederaAccountId) (\<lambda>a. a = t_hedera_account_id t)) page limit
               in Inr (map transformToDto items, totalPages)))"

text \<open>\<open>TransactionController.getTransactions\<close>: a page is at least 1 and has at most 100 items.\<close>

definition controller_getTransactions ::
  "'r repository \<Rightarrow> 'r \<Rightarrow> string option \<Rightarrow> string option \<Rightarrow> int \<Rightarrow> nat \<Rightarrow> string option \<Rightarrow> string option \<Rightarrow>
     backend_exception + transaction list \<times> nat" where
  "controller_getTransactions R db publicKey status page limit network hederaAccountId =
     (if page < 1 then Inl (PlainError ''Page must be greater than 0'')
      else service_getAll R db publicKey status network hederaAccountId (nat page) (min limit 100))"

section \<open>What the service relies on\<close>

text \<open>
  The laws of the repository: a transaction that is saved is found under its identifier, a
  deletion removes one, \<open>clear\<close> all of them, and the pages \<open>1 .. totalPages\<close> of a query hold the
  stored transactions that satisfy the condition; the pages after them are empty.
\<close>

locale tx_repository =
  fixes R :: "'r repository"
  assumes find_save: "rp_findOne R (rp_save R db t) i = (if i = t_id t then Some t else rp_findOne R db i)"
    and find_delete: "rp_findOne R (rp_delete R db i) j = (if j = i then None else rp_findOne R db j)"
    and find_clear: "rp_findOne R (rp_clear R db) i = None"
    and find_id: "rp_findOne R db i = Some t \<Longrightarrow> t_id t = i"
    and pages: "0 < limit \<Longrightarrow>
          (\<exists>p\<ge>1. t \<in> set (fst (rp_paginate R db P p limit))) \<longleftrightarrow> (\<exists>i. rp_findOne R db i = Some t) \<and> P t"
    and page_end: "0 < limit \<Longrightarrow> snd (rp_paginate R db P 1 limit) < p \<Longrightarrow> fst (rp_paginate R db P p limit) = []"
    and page_count: "snd (rp_paginate R db P p limit) = snd (rp_paginate R db P 1 limit)"

section \<open>The invariant of a stored transaction\<close>

text \<open>
  The signed keys are distinct keys of the list, there is one signature for each, and each signature
  verifies on the body of the stored message; the threshold can be reached.
\<close>

definition signatures_valid :: "crypto \<Rightarrow> transaction \<Rightarrow> bool" where
  "signatures_valid C t \<longleftrightarrow>
     length (t_signatures t) = length (t_signed_keys t) \<and>
     list_all (\<lambda>(k, s). case message_body C t of None \<Rightarrow> False | Some b \<Rightarrow> verifySignature C k b s)
       (zip (t_signed_keys t) (t_signatures t))"

definition well_formed :: "crypto \<Rightarrow> transaction \<Rightarrow> bool" where
  "well_formed C t \<longleftrightarrow>
     distinct (t_key_list t) \<and> distinct (t_signed_keys t) \<and> set (t_signed_keys t) \<subseteq> set (t_key_list t) \<and>
     t_threshold t \<le> length (t_key_list t) \<and>
     (t_threshold t = 0 \<longrightarrow> t_key_list t = []) \<and> signatures_valid C t"

lemma removeDuplicates_props [simp]:
  "distinct (removeDuplicates xs)" "set (removeDuplicates xs) = set xs"
  by (simp_all add: removeDuplicates_def)

lemma entity_well_formed: "well_formed C (entity_of uuid dto)"
  by (auto simp: well_formed_def entity_of_def signatures_valid_def Let_def)

lemma message_body_cong:
  "t_transaction_message t = t_transaction_message t' \<Longrightarrow> t_network t = t_network t' \<Longrightarrow>
   message_body C t = message_body C t'"
  by (simp add: message_body_def split: option.split)

lemma signed_fields [simp]:
  "t_key_list (signed_transaction t dto) = t_key_list t"
  "t_threshold (signed_transaction t dto) = t_threshold t"
  "t_id (signed_transaction t dto) = t_id t"
  "t_signed_keys (signed_transaction t dto) = t_signed_keys t @ [d_public_key dto]"
  "t_signatures (signed_transaction t dto) = t_signatures t @ [d_signature dto]"
  by (simp_all add: signed_transaction_def Let_def)

lemma signed_body [simp]: "message_body C (signed_transaction t dto) = message_body C t"
  by (rule message_body_cong) (simp_all add: signed_transaction_def Let_def)

lemma sign_checks_None:
  "sign_checks C t dto = None \<longleftrightarrow>
     d_public_key dto \<notin> set (t_signed_keys t) \<and> d_public_key dto \<in> set (t_key_list t) \<and>
     (\<exists>b. message_body C t = Some b \<and> verifySignature C (d_public_key dto) b (d_signature dto))"
  by (auto simp: sign_checks_def split: option.splits)

lemma signed_well_formed:
  assumes "well_formed C t" "sign_checks C t dto = None"
  shows "well_formed C (signed_transaction t dto)"
  using assms by (auto simp: well_formed_def signatures_valid_def sign_checks_None)

lemma status_well_formed [simp]: "well_formed C (t \<lparr>t_status := s\<rparr>) = well_formed C t"
  using message_body_cong[of "t \<lparr>t_status := s\<rparr>" t C] by (simp add: well_formed_def signatures_valid_def)

section \<open>Steps of the backend\<close>

text \<open>
  The requests that change the database, each a whole call of the service. The update of a status is
  the API's: any status may be set.
\<close>

inductive backend_step :: "'r repository \<Rightarrow> crypto \<Rightarrow> 'r \<Rightarrow> 'r \<Rightarrow> bool" for R C where
  create: "rp_findOne R db uuid = None \<Longrightarrow> service_create R db uuid dto = (db', t) \<Longrightarrow> backend_step R C db db'"
| sign: "service_sign R C db dto i = Inr (db', t) \<Longrightarrow> backend_step R C db db'"
| delete: "service_delete R db i = Inr db' \<Longrightarrow> backend_step R C db db'"
| update: "service_updateStatus R db s i = Inr db' \<Longrightarrow> backend_step R C db db'"
| clear: "service_deleteAllTransactions R db = db' \<Longrightarrow> backend_step R C db db'"

inductive backend_reachable :: "'r repository \<Rightarrow> crypto \<Rightarrow> 'r \<Rightarrow> bool" for R C where
  init: "(\<And>i. rp_findOne R db i = None) \<Longrightarrow> backend_reachable R C db"
| step: "backend_reachable R C db \<Longrightarrow> backend_step R C db db' \<Longrightarrow> backend_reachable R C db'"

lemma service_sign_Inr:
  "service_sign R C db dto i = Inr (db', t') \<longleftrightarrow>
     uuidRegex i \<and> (\<exists>t. rp_findOne R db i = Some t \<and> sign_checks C t dto = None \<and>
       t' = signed_transaction t dto \<and> db' = rp_save R db t')"
  by (auto simp: service_sign_def Let_def split: option.splits)

lemma service_delete_Inr:
  "service_delete R db i = Inr db' \<longleftrightarrow>
     uuidRegex i \<and> (\<exists>t. rp_findOne R db i = Some t) \<and> db' = rp_delete R db i"
  by (auto simp: service_delete_def split: option.splits)

lemma service_updateStatus_Inr:
  "service_updateStatus R db s i = Inr db' \<longleftrightarrow>
     uuidRegex i \<and> (\<exists>t. rp_findOne R db i = Some t \<and> db' = rp_save R db (t \<lparr>t_status := s\<rparr>))"
  by (auto simp: service_updateStatus_def split: option.splits)

lemmas service_Inr = service_sign_Inr service_delete_Inr service_updateStatus_Inr

definition all_well_formed :: "'r repository \<Rightarrow> crypto \<Rightarrow> 'r \<Rightarrow> bool" where
  "all_well_formed R C db \<longleftrightarrow> (\<forall>i t. rp_findOne R db i = Some t \<longrightarrow> well_formed C t)"

context tx_repository
begin

lemma save_well_formed:
  "all_well_formed R C db \<Longrightarrow> well_formed C t \<Longrightarrow> all_well_formed R C (rp_save R db t)"
  by (auto simp: all_well_formed_def find_save)

lemma step_well_formed:
  assumes "backend_step R C db db'" "all_well_formed R C db"
  shows "all_well_formed R C db'"
  using assms(1)
proof cases
  case (create uuid dto t)
  then show ?thesis
    using assms(2) by (auto simp: service_create_def Let_def entity_well_formed intro: save_well_formed)
next
  case (sign dto i t')
  then obtain t where "rp_findOne R db i = Some t" "sign_checks C t dto = None"
    "db' = rp_save R db (signed_transaction t dto)" by (auto simp: service_Inr)
  moreover from this have "well_formed C t" using assms(2) by (auto simp: all_well_formed_def)
  ultimately show ?thesis using save_well_formed[OF assms(2)] signed_well_formed by simp
next
  case (delete i)
  then show ?thesis using assms(2) by (auto simp: service_Inr all_well_formed_def find_delete)
next
  case (update s i)
  then obtain t where "rp_findOne R db i = Some t" "db' = rp_save R db (t \<lparr>t_status := s\<rparr>)"
    by (auto simp: service_Inr)
  moreover from this have "well_formed C t" using assms(2) by (auto simp: all_well_formed_def)
  ultimately show ?thesis using save_well_formed[OF assms(2)] by simp
next
  case clear
  then show ?thesis by (auto simp: all_well_formed_def find_clear service_deleteAllTransactions_def)
qed

lemma reachable_well_formed: "backend_reachable R C db \<Longrightarrow> all_well_formed R C db"
proof (induction rule: backend_reachable.induct)
  case (init db)
  then show ?case by (simp add: all_well_formed_def)
next
  case (step db db')
  then show ?case using step_well_formed by blast
qed

text \<open>What \<open>sign\<close> does to the store.\<close>

lemma sign_found:
  assumes "service_sign R C db dto i = Inr (db', t')"
  shows "rp_findOne R db' i = Some t'" "j \<noteq> i \<Longrightarrow> rp_findOne R db' j = rp_findOne R db j"
  using assms by (auto simp: service_Inr find_save dest: find_id)

end

section \<open>A store\<close>

text \<open>An association list, with the pages cut from the list of its transactions.\<close>

type_synonym store = "(string \<times> transaction) list"

definition store_valid :: "store \<Rightarrow> bool" where
  "store_valid db \<longleftrightarrow> list_all (\<lambda>(i, t). t_id t = i) db"

definition store_items :: "store \<Rightarrow> transaction list" where
  "store_items db = map snd (filter (\<lambda>(i, t). t_id t = i) (AList.clearjunk db))"

definition store_find :: "store \<Rightarrow> string \<Rightarrow> transaction option" where
  "store_find db i = (case map_of db i of None \<Rightarrow> None | Some t \<Rightarrow> if t_id t = i then Some t else None)"

definition page_of :: "'a list \<Rightarrow> nat \<Rightarrow> nat \<Rightarrow> 'a list" where
  "page_of xs page limit = take limit (drop ((page - 1) * limit) xs)"

definition store_repository :: "store repository" where
  "store_repository =
     \<lparr>rp_findOne = store_find,
      rp_save = (\<lambda>db t. AList.update (t_id t) t db),
      rp_delete = (\<lambda>db i. AList.delete i db),
      rp_clear = (\<lambda>db. []),
      rp_paginate = (\<lambda>db P page limit.
        let xs = filter P (store_items db)
        in (page_of xs page limit, (length xs + limit - 1) div limit))\<rparr>"

lemma page_of_nth:
  assumes "0 < limit" "n < length xs"
  shows "xs ! n \<in> set (page_of xs (n div limit + 1) limit)"
proof -
  define q r where "q = n div limit" and "r = n mod limit"
  have n: "n = q * limit + r" "r < limit" using assms(1) by (simp_all add: q_def r_def)
  then have "page_of xs (q + 1) limit ! r = xs ! n" "r < length (page_of xs (q + 1) limit)"
    using assms(2) by (auto simp: page_of_def)
  then show ?thesis by (metis nth_mem q_def)
qed

lemma page_of_subset: "x \<in> set (page_of xs p l) \<Longrightarrow> x \<in> set xs"
  unfolding page_of_def by (meson in_set_dropD in_set_takeD)

lemma pages_cover:
  assumes "0 < limit"
  shows "(\<exists>p\<ge>1. x \<in> set (page_of xs p limit)) \<longleftrightarrow> x \<in> set xs"
proof
  assume "x \<in> set xs"
  then obtain n where n: "n < length xs" "x = xs ! n" by (auto simp: in_set_conv_nth)
  then show "\<exists>p\<ge>1. x \<in> set (page_of xs p limit)"
    using page_of_nth [OF assms n(1)] by (intro exI [of _ "n div limit + 1"]) simp
qed (use page_of_subset in fast)

lemma page_of_end:
  assumes "0 < limit" "(length xs + limit - 1) div limit < p"
  shows "page_of xs p limit = []"
proof -
  have "length xs + limit - 1 < p * limit" using assms by (simp add: div_less_iff_less_mult)
  then have "length xs \<le> (p - 1) * limit" using assms by (cases p) auto
  then show ?thesis by (simp add: page_of_def)
qed

lemma store_items_iff: "t \<in> set (store_items db) \<longleftrightarrow> (\<exists>i. store_find db i = Some t)"
proof -
  have "(i, t) \<in> set (AList.clearjunk db) \<longleftrightarrow> map_of db i = Some t" for i
    by (metis distinct_clearjunk map_of_clearjunk map_of_eq_Some_iff)
  moreover have "store_find db i = Some t \<longleftrightarrow> map_of db i = Some t \<and> t_id t = i" for i
    by (auto simp: store_find_def split: option.splits)
  ultimately show ?thesis by (auto simp: store_items_def image_iff)
qed

lemma store_update: "store_find (AList.update (t_id t) t db) i = (if i = t_id t then Some t else store_find db i)"
  by (simp add: store_find_def update_conv')

lemma store_delete: "store_find (AList.delete i db) j = (if j = i then None else store_find db j)"
  by (simp add: store_find_def delete_conv')

lemma store_id: "store_find db i = Some t \<Longrightarrow> t_id t = i"
  by (simp add: store_find_def split: option.splits if_splits)

lemma store_fields [simp]:
  "rp_findOne store_repository = store_find"
  "rp_save store_repository db t = AList.update (t_id t) t db"
  "rp_delete store_repository db i = AList.delete i db"
  "rp_clear store_repository db = []"
  "fst (rp_paginate store_repository db P p limit) = page_of (filter P (store_items db)) p limit"
  "snd (rp_paginate store_repository db P p limit) =
     (length (filter P (store_items db)) + limit - 1) div limit"
  by (simp_all add: store_repository_def Let_def)

lemma store_pages:
  "0 < limit \<Longrightarrow>
    (\<exists>p\<ge>1. t \<in> set (fst (rp_paginate store_repository db P p limit)))
    \<longleftrightarrow> (\<exists>i. rp_findOne store_repository db i = Some t) \<and> P t"
  unfolding store_fields by (subst pages_cover) (auto simp: store_items_iff)

interpretation store: tx_repository store_repository
proof unfold_locales
  show "rp_findOne store_repository (rp_clear store_repository db) i = None" for db i
    by (simp add: store_find_def)
qed (simp_all only: store_pages, simp_all add: store_update store_delete store_id page_of_end)

end
