(* ===== verification/Backend_Job.thy ===== *)
theory Backend_Job
  imports Backend_Transactions
begin

text \<open>
  \<open>backend/src/jobs/autoSubmit.service.ts\<close>: the periodic job that submits the transactions that are
  signed and due, and expires those whose valid start is more than three minutes old. The updates
  that the code starts without awaiting them are run here in the order of the lists; each concerns
  its own transaction.
\<close>

section \<open>Collecting\<close>

text \<open>\<open>now\<close> is \<open>new Date()\<close> in milliseconds.\<close>

definition to_submit :: "int \<Rightarrow> transaction \<Rightarrow> bool" where
  "to_submit now tx \<longleftrightarrow>
     t_status tx = SIGNED \<and> t_start_date tx \<le> now \<and> t_start_date tx > now - 180 * 1000"

definition to_expire :: "int \<Rightarrow> transaction \<Rightarrow> bool" where
  "to_expire now tx \<longleftrightarrow>
     (t_status tx = SIGNED \<or> t_status tx = PENDING) \<and> t_start_date tx \<le> now - 180 * 1000"

text \<open>
  The loop over the pages of \<open>getAll\<close> (without filters, 100 items a page): the page number is
  increased before it is compared with the number of pages. \<open>pages p\<close> is the result of the query of
  page \<open>p\<close>; the number of pages is that of the last result.
\<close>

function collect_pages :: "(nat \<Rightarrow> 'a list) \<Rightarrow> nat \<Rightarrow> nat \<Rightarrow> 'a list" where
  "collect_pages items totalPages page =
     (let next = Suc page in
      if next \<ge> totalPages then items page
      else items page @ collect_pages items totalPages next)"
  by pat_completeness auto
termination by (relation "measure (\<lambda>(items, totalPages, page). totalPages - page)") auto

declare collect_pages.simps [simp del]

definition job_limit :: nat where "job_limit = 100"

definition job_items :: "'r repository \<Rightarrow> 'r \<Rightarrow> nat \<Rightarrow> transaction list" where
  "job_items R db page = map transformToDto (fst (rp_paginate R db (\<lambda>_. True) page job_limit))"

definition job_pages :: "'r repository \<Rightarrow> 'r \<Rightarrow> nat" where
  "job_pages R db = snd (rp_paginate R db (\<lambda>_. True) 1 job_limit)"

definition job_transactions :: "'r repository \<Rightarrow> 'r \<Rightarrow> transaction list" where
  "job_transactions R db = collect_pages (job_items R db) (job_pages R db) 1"

section \<open>Submitting\<close>

text \<open>
  \<open>execute bytes signatures network\<close> is the SDK's deserialisation, the addition of the signatures, the
  execution and the receipt: \<open>True\<close> when nothing throws and the receipt's status is success.
\<close>

type_synonym sdk_execute = "byte list \<Rightarrow> (string \<times> byte list) list \<Rightarrow> network \<Rightarrow> bool"

definition hex_all :: "string list \<Rightarrow> byte list list option" where
  "hex_all ss = (if list_all (\<lambda>s. hexToUint8Array s \<noteq> None) ss then Some (map (the \<circ> hexToUint8Array) ss) else None)"

definition job_submit :: "sdk_execute \<Rightarrow> transaction \<Rightarrow> bool" where
  "job_submit execute tx =
     (case (hexToUint8Array (t_transaction_message tx), hex_all (t_signatures tx)) of
        (Some bytes, Some signatures) \<Rightarrow>
          length (t_signatures tx) \<le> length (t_signed_keys tx) \<and>
          execute bytes (zip (t_signed_keys tx) signatures) (t_network tx)
      | _ \<Rightarrow> False)"

text \<open>An update that throws is a rejected promise that nobody awaits: the store is unchanged.\<close>

definition job_update :: "'r repository \<Rightarrow> transaction_status \<Rightarrow> string \<Rightarrow> 'r \<Rightarrow> 'r" where
  "job_update R s i db = (case service_updateStatus R db s i of Inl _ \<Rightarrow> db | Inr db' \<Rightarrow> db')"

definition job_run :: "'r repository \<Rightarrow> sdk_execute \<Rightarrow> int \<Rightarrow> 'r \<Rightarrow> 'r" where
  "job_run R execute now db =
     (let all = job_transactions R db;
          transactionsToSubmit = filter (to_submit now) all;
          transactionsToExpire = filter (to_expire now) all;
          db1 = fold (\<lambda>t. job_update R EXPIRED (t_id t)) transactionsToExpire db
      in fold (\<lambda>t. job_update R (if job_submit execute t then EXECUTED else ERROR) (t_id t))
           transactionsToSubmit db1)"

section \<open>Lemmas\<close>

lemma submit_expire_disjoint: "to_submit now t \<Longrightarrow> \<not> to_expire now t"
  by (simp add: to_submit_def to_expire_def)

text \<open>The loop visits the pages from its first up to, but not including, the last one.\<close>

lemma collect_pages_set:
  "set (collect_pages items T p) = (\<Union>q\<in>{p..max p (T - 1)}. set (items q))"
proof (induction items T p rule: collect_pages.induct)
  case (1 items T p)
  show ?case
  proof (cases "Suc p \<ge> T")
    case True
    then have "{p..max p (T - 1)} = {p}" by auto
    then show ?thesis using True by (simp add: collect_pages.simps[of items T p] Let_def)
  next
    case False
    then have "{p..max p (T - 1)} = insert p {Suc p..max (Suc p) (T - 1)}" by auto
    moreover have "set (collect_pages items T p) = set (items p) \<union> set (collect_pages items T (Suc p))"
      using False by (simp add: collect_pages.simps[of items T p] Let_def)
    ultimately show ?thesis using 1 False by auto
  qed
qed

lemma transform_fields [simp]:
  "t_id (transformToDto t) = t_id t" "t_status (transformToDto t) = t_status t"
  "t_signatures (transformToDto t) = t_signatures t"
  by (simp_all add: transformToDto_def)

context tx_repository
begin

lemma job_update_find:
  "rp_findOne R (job_update R s i db) j =
     (if j = i \<and> uuidRegex i then map_option (\<lambda>t. t \<lparr>t_status := s\<rparr>) (rp_findOne R db i)
      else rp_findOne R db j)"
  using find_id
  by (auto simp: job_update_def service_updateStatus_def find_save split: option.splits)

lemma fold_update_other:
  "j \<notin> t_id ` set ts \<Longrightarrow>
   rp_findOne R (fold (\<lambda>t. job_update R (s t) (t_id t)) ts db) j = rp_findOne R db j"
  by (induction ts arbitrary: db) (auto simp: job_update_find)

text \<open>What the job leaves alone: what it does not collect.\<close>

lemma job_run_other:
  assumes "\<And>t. t \<in> set (job_transactions R db) \<Longrightarrow> t_id t = j \<Longrightarrow> \<not> to_submit now t \<and> \<not> to_expire now t"
  shows "rp_findOne R (job_run R execute now db) j = rp_findOne R db j"
proof -
  have "j \<notin> t_id ` set (filter (to_expire now) (job_transactions R db))"
    "j \<notin> t_id ` set (filter (to_submit now) (job_transactions R db))" using assms by auto
  then show ?thesis unfolding job_run_def Let_def by (simp only: fold_update_other not_False_eq_True)
qed

lemma job_run_steps:
  "\<exists>upd. job_run R execute now db = fold (\<lambda>(s, i). job_update R s i) upd db"
proof -
  let ?all = "job_transactions R db"
  have "job_run R execute now db =
    fold (\<lambda>(s, i). job_update R s i)
      (map (\<lambda>t. (EXPIRED, t_id t)) (filter (to_expire now) ?all) @
       map (\<lambda>t. (if job_submit execute t then EXECUTED else ERROR, t_id t)) (filter (to_submit now) ?all)) db"
    by (simp add: job_run_def Let_def fold_map comp_def)
  then show ?thesis by blast
qed

text \<open>The job is a sequence of status updates, so it keeps the invariant of the store.\<close>

lemma job_update_step: "job_update R s i db = db \<or> backend_step R C db (job_update R s i db)"
  by (auto simp: job_update_def split: sum.splits intro: backend_step.update)

lemma job_reachable:
  assumes "backend_reachable R C db"
  shows "backend_reachable R C (job_run R execute now db)"
proof -
  have "backend_reachable R C (fold (\<lambda>(s, i). job_update R s i) upd db)" for upd
    using assms
  proof (induction upd arbitrary: db)
    case (Cons u upd)
    obtain s i where u: "u = (s, i)" by (cases u)
    have "backend_reachable R C (job_update R s i db)"
      using job_update_step[of s i db C] Cons.prems by (metis backend_reachable.step)
    then show ?case using Cons.IH u by simp
  qed simp
  then show ?thesis using job_run_steps[of execute now db] by metis
qed

end

end
