(* ===== verification/Backend_Ledger.thy ===== *)
theory Backend_Ledger
  imports Backend_Job
begin

text \<open>
  What the multisignature backend promises, without its representation: a ledger of requests, each
  a set of keys, the number of signatures it needs, the keys that have signed and a status. The
  service refines it: its lists of keys stand for sets, a request is accepted when the ledger accepts
  it and the signature verifies, and the stored lists have as many elements as their sets.
\<close>

section \<open>The ledger\<close>

record request =
  rq_keys :: "string set"
  rq_needed :: nat
  rq_signed :: "string set"
  rq_status :: transaction_status

type_synonym ledger = "string \<Rightarrow> request option"

datatype ledger_op =
    Open string "string set" nat
  | Sign string string
  | SetStatus string transaction_status
  | Remove string
  | Reset

text \<open>\<open>None\<close>: the ledger refuses.\<close>

fun ledger_apply :: "ledger_op \<Rightarrow> ledger \<Rightarrow> ledger option" where
  "ledger_apply (Open i keys n) l =
     Some (l(i \<mapsto> \<lparr>rq_keys = keys, rq_needed = (if n = 0 \<or> card keys < n then card keys else n),
                   rq_signed = {}, rq_status = PENDING\<rparr>))"
| "ledger_apply (Sign i k) l =
     (case l i of
        None \<Rightarrow> None
      | Some r \<Rightarrow>
          if k \<in> rq_keys r - rq_signed r
          then Some (l(i \<mapsto> r \<lparr>rq_signed := insert k (rq_signed r),
                  rq_status := (if rq_needed r \<le> card (insert k (rq_signed r)) then SIGNED else rq_status r)\<rparr>))
          else None)"
| "ledger_apply (SetStatus i s) l = (case l i of None \<Rightarrow> None | Some r \<Rightarrow> Some (l(i \<mapsto> r \<lparr>rq_status := s\<rparr>)))"
| "ledger_apply (Remove i) l = (case l i of None \<Rightarrow> None | Some _ \<Rightarrow> Some (l(i := None)))"
| "ledger_apply Reset l = Some (\<lambda>_. None)"

section \<open>The abstraction\<close>

definition abs_transaction :: "transaction \<Rightarrow> request" where
  "abs_transaction t =
     \<lparr>rq_keys = set (t_key_list t), rq_needed = t_threshold t, rq_signed = set (t_signed_keys t),
      rq_status = t_status t\<rparr>"

definition abs_db :: "'r repository \<Rightarrow> 'r \<Rightarrow> ledger" where
  "abs_db R db = (\<lambda>i. map_option abs_transaction (rp_findOne R db i))"

lemma card_removeDuplicates: "length (removeDuplicates xs) = card (set xs)"
  using distinct_card [of "removeDuplicates xs"] by simp

lemma entity_id: "t_id (entity_of uuid dto) = uuid"
  by (simp add: entity_of_def Let_def)

lemma abs_entity:
  "abs_transaction (entity_of uuid dto) =
     \<lparr>rq_keys = set (d_key_list dto),
      rq_needed = (if d_threshold dto = 0 \<or> card (set (d_key_list dto)) < d_threshold dto
                   then card (set (d_key_list dto)) else d_threshold dto),
      rq_signed = {}, rq_status = PENDING\<rparr>"
  by (simp add: abs_transaction_def entity_of_def Let_def card_removeDuplicates)

lemma abs_signed:
  assumes "distinct (t_signed_keys t)" "d_public_key dto \<notin> set (t_signed_keys t)"
  shows "abs_transaction (signed_transaction t dto) = (abs_transaction t)
    \<lparr>rq_signed := insert (d_public_key dto) (rq_signed (abs_transaction t)),
     rq_status := (if rq_needed (abs_transaction t) \<le> card (insert (d_public_key dto) (rq_signed (abs_transaction t)))
                   then SIGNED else rq_status (abs_transaction t))\<rparr>"
proof -
  have "card (insert (d_public_key dto) (set (t_signed_keys t))) = length (t_signed_keys t) + 1"
    using assms distinct_card [of "t_signed_keys t"] by simp
  then show ?thesis by (simp add: abs_transaction_def signed_transaction_def Let_def)
qed

lemma abs_status: "abs_transaction (t \<lparr>t_status := s\<rparr>) = (abs_transaction t) \<lparr>rq_status := s\<rparr>"
  by (simp add: abs_transaction_def)

section \<open>The refinement\<close>

context tx_repository
begin

lemma abs_save: "abs_db R (rp_save R db t) = (abs_db R db)(t_id t \<mapsto> abs_transaction t)"
  by (auto simp: abs_db_def find_save)

lemma abs_delete: "abs_db R (rp_delete R db i) = (abs_db R db)(i := None)"
  by (auto simp: abs_db_def find_delete)

lemma abs_clear: "abs_db R (rp_clear R db) = (\<lambda>_. None)"
  by (auto simp: abs_db_def find_clear)

lemma abs_find: "rp_findOne R db i = Some t \<Longrightarrow> abs_db R db i = Some (abs_transaction t) \<and> t_id t = i"
  using find_id by (simp add: abs_db_def)

lemma abs_none: "abs_db R db i = None \<longleftrightarrow> rp_findOne R db i = None"
  by (simp add: abs_db_def)

lemmas abs_simps = abs_save abs_delete abs_clear abs_none abs_entity entity_id abs_status

lemma sign_refines:
  assumes "all_well_formed R C db" "service_sign R C db dto i = Inr (db', t')"
  shows "ledger_apply (Sign i (d_public_key dto)) (abs_db R db) = Some (abs_db R db')"
proof -
  obtain t where t: "rp_findOne R db i = Some t" "sign_checks C t dto = None" "db' = rp_save R db (signed_transaction t dto)"
    using assms(2) by (auto simp: service_Inr)
  then have "distinct (t_signed_keys t)" using assms(1) by (auto simp: all_well_formed_def well_formed_def)
  with t abs_find [OF t(1)] show ?thesis
    by (simp add: abs_save sign_checks_None abs_signed) (simp add: abs_transaction_def)
qed

lemma sign_accepted_by_ledger:
  "(\<exists>r. service_sign R C db dto i = Inr r) \<longleftrightarrow>
     uuidRegex i \<and> ledger_apply (Sign i (d_public_key dto)) (abs_db R db) \<noteq> None \<and>
     (\<forall>t. rp_findOne R db i = Some t \<longrightarrow>
        (\<exists>b. message_body C t = Some b \<and> verifySignature C (d_public_key dto) b (d_signature dto)))"
proof (cases "rp_findOne R db i")
  case (Some t)
  then show ?thesis using abs_find [OF Some]
    by (auto simp: service_Inr sign_checks_None abs_transaction_def)
qed (simp add: service_Inr abs_none [THEN iffD2] abs_db_def)

lemma create_refines:
  "ledger_apply (Open uuid (set (d_key_list dto)) (d_threshold dto)) (abs_db R db) =
     Some (abs_db R (fst (service_create R db uuid dto)))"
  by (simp add: service_create_def Let_def abs_simps)

lemma delete_refines:
  "uuidRegex i \<Longrightarrow> ledger_apply (Remove i) (abs_db R db) =
     (case service_delete R db i of Inl e \<Rightarrow> None | Inr db' \<Rightarrow> Some (abs_db R db'))"
  by (cases "rp_findOne R db i") (simp_all add: service_delete_def abs_simps abs_find abs_none [THEN iffD2])

lemma status_refines:
  "uuidRegex i \<Longrightarrow> ledger_apply (SetStatus i s) (abs_db R db) =
     (case service_updateStatus R db s i of Inl e \<Rightarrow> None | Inr db' \<Rightarrow> Some (abs_db R db'))"
proof (cases "rp_findOne R db i")
  case (Some t)
  moreover have "t_id (t \<lparr>t_status := s\<rparr>) = i" using abs_find [OF Some] by simp
  moreover assume "uuidRegex i"
  ultimately show ?thesis using abs_find [OF Some] by (simp add: service_updateStatus_def abs_simps)
qed (simp add: service_updateStatus_def abs_none [THEN iffD2])

lemma clear_refines: "ledger_apply Reset (abs_db R db) = Some (abs_db R (service_deleteAllTransactions R db))"
  by (simp add: service_deleteAllTransactions_def abs_simps)

text \<open>Every step of the backend is a step of the ledger, so what the backend reaches the ledger reaches.\<close>

lemma step_refines:
  assumes "all_well_formed R C db" "backend_step R C db db'"
  shows "\<exists>op. ledger_apply op (abs_db R db) = Some (abs_db R db')"
  using assms(2)
proof cases
  case (create uuid dto t)
  then show ?thesis using create_refines [of uuid dto db] by (metis fst_conv)
next
  case (sign dto i t)
  then show ?thesis using sign_refines [OF assms(1)] by blast
next
  case (delete i)
  then have u: "uuidRegex i" by (simp add: service_Inr)
  show ?thesis
    using delete_refines [OF u, of db] delete by (intro exI [of _ "Remove i"]) (simp del: ledger_apply.simps)
next
  case (update s i)
  then have u: "uuidRegex i" by (simp add: service_Inr)
  show ?thesis
    using status_refines [OF u, of s db] update by (intro exI [of _ "SetStatus i s"]) (simp del: ledger_apply.simps)
next
  case clear
  then show ?thesis
    using clear_refines [of db] by (intro exI [of _ Reset]) (simp del: ledger_apply.simps)
qed

end

end
