(* ===== verification/Fixed_Number.thy ===== *)
theory Fixed_Number
  imports Js_Prelude Complex_Main
begin

text \<open>
  The interface of the \<open>FixedNumber\<close> class of the ethers package, on which the SDK's
  \<open>BigDecimal\<close> rests. The package is not part of the repository: its operations are the
  fields of \<open>fixed_number_lib\<close>, an argument of every definition that uses them, and its
  documented behaviour is the locale \<open>fixed_number_api\<close>. A \<open>FixedNumber\<close> object is
  immutable and is described by its public properties \<open>value\<close> (the integer in the smallest
  unit) and \<open>decimals\<close>; the sources only use the formats \<open>fixed128xN\<close>.

  \<open>exact_lib\<close> is one concrete library with that behaviour; the interpretation
  \<open>exact\<close> shows that the laws can hold together, and witnesses evaluate with it.
\<close>

record fixed_number =
  fn_value :: int
  fn_decimals :: nat

definition fn_rat :: "fixed_number \<Rightarrow> rat" where
  "fn_rat x = of_int (fn_value x) / 10 ^ fn_decimals x"

definition in_range128 :: "int \<Rightarrow> bool" where
  "in_range128 v \<longleftrightarrow> - (2 ^ 127) \<le> v \<and> v < 2 ^ 127"

section \<open>Decimal notation\<close>

lemma of_char_digit: "d < 10 \<Longrightarrow> char_code (digit_char d) = 48 + d"
  by (simp add: char_code_def digit_char_def)

lemma digit_char_simps [simp]:
  "d < 10 \<Longrightarrow> digit_val (digit_char d) = d"
  "d < 10 \<Longrightarrow> is_digit (digit_char d)"
  by (simp_all add: digit_val_def is_digit_def of_char_digit)

lemma digit_val_zero [simp]: "digit_val (CHR ''0'') = 0" "is_digit (CHR ''0'')"
  by (simp_all add: digit_val_def is_digit_def char_code_def)

lemma digit_not_point: "is_digit c \<Longrightarrow> c \<noteq> CHR ''.'' \<and> c \<noteq> CHR ''-''"
  by (auto simp: is_digit_def char_code_def)

lemma foldl_digits:
  "foldl (\<lambda>a c. a * 10 + digit_val c) k s = k * 10 ^ length s + str_nat s"
proof (induction s arbitrary: k)
  case Nil
  then show ?case by (simp add: str_nat_def)
next
  case (Cons c s)
  have "str_nat (c # s) = digit_val c * 10 ^ length s + str_nat s"
    using Cons [of "digit_val c"] by (simp add: str_nat_def)
  with Cons [of "k * 10 + digit_val c"] show ?case
    by (simp add: distrib_right)
qed

lemma str_nat_append: "str_nat (s @ t) = str_nat s * 10 ^ length t + str_nat t"
  using foldl_digits [of "str_nat s" t] by (simp add: str_nat_def)

lemma str_nat_Nil [simp]: "str_nat [] = 0"
  by (simp add: str_nat_def)

lemma str_nat_single [simp]: "str_nat [c] = digit_val c"
  by (simp add: str_nat_def)

lemma str_nat_zeros [simp]: "str_nat (replicate n (CHR ''0'')) = 0"
proof (induction n)
  case (Suc n)
  then show ?case
    using str_nat_append [of "[CHR ''0'']" "replicate n (CHR ''0'')"] by simp
qed simp

lemma nat_str_digits: "list_all is_digit (nat_str n)"
  by (induction n rule: nat_str.induct) (subst nat_str.simps, simp)

lemma nat_str_nonempty [simp]: "nat_str n \<noteq> []"
  by (subst nat_str.simps) simp

lemma str_nat_nat_str [simp]: "str_nat (nat_str n) = n"
proof (induction n rule: nat_str.induct)
  case (1 n)
  then show ?case
    by (subst nat_str.simps) (auto simp: str_nat_append)
qed

lemma nat_str_length: "0 < d \<Longrightarrow> n < 10 ^ d \<Longrightarrow> length (nat_str n) \<le> d"
proof (induction n arbitrary: d rule: nat_str.induct)
  case (1 n)
  show ?case
  proof (cases "n < 10")
    case True
    with "1.prems" show ?thesis by (subst nat_str.simps) simp
  next
    case False
    then obtain d' where d': "d = Suc d'" "0 < d'"
      using "1.prems" by (cases d; cases "d - 1") auto
    then have "n div 10 < 10 ^ d'"
      using "1.prems"(2) by (simp add: less_mult_imp_div_less mult.commute)
    with "1.IH" [OF False d'(2)] False d'(1) show ?thesis
      by (subst nat_str.simps) simp
  qed
qed

text \<open>Trailing zeros of a fraction, and their restoration by padding.\<close>

definition trim_zeros :: "string \<Rightarrow> string" where
  "trim_zeros s = rev (dropWhile (\<lambda>c. c = CHR ''0'') (rev s))"

lemma trim_zeros_decomp: "\<exists>k. s = trim_zeros s @ replicate k (CHR ''0'')"
proof -
  let ?z = "takeWhile (\<lambda>c. c = CHR ''0'') (rev s)"
  have z: "?z = replicate (length ?z) (CHR ''0'')"
    by (rule replicate_length_same [symmetric]) (auto dest: set_takeWhileD)
  have "s = rev (dropWhile (\<lambda>c. c = CHR ''0'') (rev s)) @ rev ?z"
    by (metis rev_append rev_rev_ident takeWhile_dropWhile_id)
  also have "rev ?z = replicate (length ?z) (CHR ''0'')"
    using z by (metis rev_replicate)
  finally show ?thesis unfolding trim_zeros_def by blast
qed

lemma trim_zeros_pad: "js_padEnd (trim_zeros s) (length s) (CHR ''0'') = s"
proof -
  obtain k where k: "s = trim_zeros s @ replicate k (CHR ''0'')"
    using trim_zeros_decomp by blast
  then have "length s = length (trim_zeros s) + k"
    by (metis length_append length_replicate)
  with k show ?thesis
    unfolding js_padEnd_def by simp
qed

section \<open>Parsing and printing\<close>

text \<open>
  \<open>FixedNumber.fromString(value, decimals)\<close>: an optional minus sign, digits with at most one
  point among them, at least one digit, no non-zero digit beyond the decimals of the format,
  at most 80 decimals, and a value of 128 bits.
\<close>

definition parse_fixed :: "string \<Rightarrow> nat \<Rightarrow> fixed_number option" where
  "parse_fixed s d =
     (let neg = js_startsWith s ''-'';
          b = (if neg then drop 1 s else s);
          w = takeWhile is_digit b;
          r = dropWhile is_digit b;
          f = (if js_startsWith r ''.'' then drop 1 r else r);
          m = int (str_nat (w @ take d (js_padEnd f d (CHR ''0''))));
          v = (if neg then - m else m)
      in if list_all is_digit f \<and> w @ f \<noteq> [] \<and> list_all (\<lambda>c. c = CHR ''0'') (drop d f)
            \<and> d \<le> 80 \<and> in_range128 v
         then Some \<lparr>fn_value = v, fn_decimals = d\<rparr> else None)"

text \<open>
  \<open>toString()\<close>: no point for a number without decimals; otherwise the whole part, a point and
  the fraction without its trailing zeros, of which at least one digit stays.
\<close>

definition frac_digits :: "nat \<Rightarrow> nat \<Rightarrow> string" where
  "frac_digits m d = js_padStart (nat_str (m mod 10 ^ d)) d (CHR ''0'')"

definition print_frac :: "nat \<Rightarrow> nat \<Rightarrow> string" where
  "print_frac m d =
     (let t = trim_zeros (frac_digits m d) in if t = [] then ''0'' else t)"

definition print_fixed :: "fixed_number \<Rightarrow> string" where
  "print_fixed x =
     (let m = nat \<bar>fn_value x\<bar>; d = fn_decimals x in
      (if fn_value x < 0 then ''-'' else []) @
      (if d = 0 then nat_str m else nat_str (m div 10 ^ d) @ ''.'' @ print_frac m d))"

lemma frac_digits_length: "0 < d \<Longrightarrow> length (frac_digits m d) = d"
  unfolding frac_digits_def js_padStart_def
  using nat_str_length [of d "m mod 10 ^ d"] by simp

lemma frac_digits_val: "str_nat (frac_digits m d) = m mod 10 ^ d"
  by (simp add: frac_digits_def js_padStart_def str_nat_append)

lemma frac_digits_digits: "list_all is_digit (frac_digits m d)"
  using nat_str_digits by (auto simp: frac_digits_def js_padStart_def list_all_iff)

lemma list_all_trim: "list_all P s \<Longrightarrow> list_all P (trim_zeros s)"
  unfolding trim_zeros_def by (auto simp: list_all_iff dest: set_dropWhileD)

lemma print_frac_digits: "list_all is_digit (print_frac m d)"
  using list_all_trim [OF frac_digits_digits [of m d]] by (simp add: print_frac_def Let_def)

lemma print_frac_nonempty [simp]: "print_frac m d \<noteq> []"
  by (simp add: print_frac_def Let_def)

lemma trim_zeros_length: "length (trim_zeros s) \<le> length s"
  by (simp add: trim_zeros_def) (metis length_dropWhile_le length_rev)

lemma print_frac_pad:
  assumes "0 < d"
  shows "js_padEnd (print_frac m d) d (CHR ''0'') = frac_digits m d"
proof (cases "trim_zeros (frac_digits m d) = []")
  case True
  then obtain k where "frac_digits m d = replicate k (CHR ''0'')"
    using trim_zeros_decomp [of "frac_digits m d"] by auto
  moreover from this have "k = d" using frac_digits_length [OF assms] by (metis length_replicate)
  ultimately show ?thesis
    using True assms by (cases d) (auto simp: print_frac_def js_padEnd_def)
next
  case False
  then show ?thesis
    using trim_zeros_pad [of "frac_digits m d"] frac_digits_length [OF assms]
    by (simp add: print_frac_def)
qed

lemma print_frac_length: "0 < d \<Longrightarrow> length (print_frac m d) \<le> d"
  using trim_zeros_length [of "frac_digits m d"] frac_digits_length [of d m]
  by (auto simp: print_frac_def Let_def)

lemma takeWhile_digits: "list_all is_digit w \<Longrightarrow> \<not> is_digit c \<Longrightarrow>
    takeWhile is_digit (w @ c # r) = w \<and> dropWhile is_digit (w @ c # r) = c # r"
  by (induction w) auto

lemma digits_all: "list_all is_digit w \<Longrightarrow> takeWhile is_digit w = w \<and> dropWhile is_digit w = []"
  by (induction w) auto

lemma not_minus: "list_all is_digit w \<Longrightarrow> w \<noteq> [] \<Longrightarrow> \<not> js_startsWith (w @ r) ''-''"
  by (cases w) (auto simp: js_startsWith_def dest: digit_not_point)

lemma parse_minus: "js_startsWith (CHR ''-'' # b) ''-''"
  by (simp add: js_startsWith_def)

text \<open>A number with a whole part \<open>w\<close> and a fraction \<open>f\<close> of at most \<open>d\<close> digits.\<close>

lemma parse_fixed_point:
  assumes "list_all is_digit w" "w @ f \<noteq> []" "list_all is_digit f" "length f \<le> d" "d \<le> 80"
    and "in_range128 (int (str_nat (w @ js_padEnd f d (CHR ''0''))))"
  shows "parse_fixed (w @ ''.'' @ f) d =
    Some \<lparr>fn_value = int (str_nat (w @ js_padEnd f d (CHR ''0''))), fn_decimals = d\<rparr>"
proof -
  have np: "\<not> is_digit (CHR ''.'')" by (simp add: is_digit_def char_code_def)
  note w = takeWhile_digits [OF assms(1) np, THEN conjunct1]
    takeWhile_digits [OF assms(1) np, THEN conjunct2]
  have "take d (js_padEnd f d (CHR ''0'')) = js_padEnd f d (CHR ''0'')"
    using assms(4) by (simp add: js_padEnd_def)
  moreover have "\<not> js_startsWith (w @ CHR ''.'' # f) ''-''"
    using not_minus [OF assms(1), of "CHR ''.'' # f"] by (cases w) (auto simp: js_startsWith_def)
  ultimately show ?thesis
    using assms by (simp add: parse_fixed_def Let_def js_startsWith_def w np)
qed

lemma parse_fixed_digits:
  assumes "list_all is_digit w" "w \<noteq> []" "d \<le> 80"
    and "in_range128 (int (str_nat w * 10 ^ d))"
  shows "parse_fixed w d = Some \<lparr>fn_value = int (str_nat w * 10 ^ d), fn_decimals = d\<rparr>"
proof -
  note w = digits_all [OF assms(1), THEN conjunct1] digits_all [OF assms(1), THEN conjunct2]
  show ?thesis
    using assms not_minus [OF assms(1,2), of "[]"]
    by (simp add: parse_fixed_def Let_def js_startsWith_def js_padEnd_def str_nat_append w)
qed

lemma parse_fixed_decimals: "parse_fixed s d = Some x \<Longrightarrow> fn_decimals x = d"
  by (auto simp: parse_fixed_def Let_def split: if_splits)

lemma parse_fixed_range: "parse_fixed s d = Some x \<Longrightarrow> in_range128 (fn_value x)"
  by (auto simp: parse_fixed_def Let_def split: if_splits)

lemma parse_fixed_le80: "parse_fixed s d = Some x \<Longrightarrow> d \<le> 80"
  by (auto simp: parse_fixed_def Let_def split: if_splits)

text \<open>Negation on both sides of the notation.\<close>

lemma parse_fixed_neg:
  assumes "\<not> js_startsWith b ''-''" "parse_fixed b d = Some x" "in_range128 (- fn_value x)"
  shows "parse_fixed (CHR ''-'' # b) d = Some \<lparr>fn_value = - fn_value x, fn_decimals = d\<rparr>"
  using assms by (auto simp: parse_fixed_def Let_def parse_minus split: if_splits)

section \<open>Printing is a right inverse of parsing\<close>

lemma print_fixed_magnitude:
  assumes "d \<le> 80" "in_range128 (int m)"
  shows "parse_fixed (if d = 0 then nat_str m else nat_str (m div 10 ^ d) @ ''.'' @ print_frac m d) d
    = Some \<lparr>fn_value = int m, fn_decimals = d\<rparr>"
proof (cases "d = 0")
  case True
  then show ?thesis
    using assms parse_fixed_digits [OF nat_str_digits, of m d] by simp
next
  case False
  then have pad: "js_padEnd (print_frac m d) d (CHR ''0'') = frac_digits m d"
    by (simp add: print_frac_pad)
  have m: "str_nat (nat_str (m div 10 ^ d) @ frac_digits m d) = m"
    using False by (simp add: str_nat_append frac_digits_length frac_digits_val div_mult_mod_eq)
  show ?thesis
    using False assms pad m print_frac_length [of d m]
      parse_fixed_point [OF nat_str_digits _ print_frac_digits, of "m div 10 ^ d" m d d]
    by simp
qed

lemma magnitude_not_minus:
  "\<not> js_startsWith (if d = 0 then nat_str m else nat_str (m div 10 ^ d) @ ''.'' @ print_frac m d) ''-''"
  using not_minus [OF nat_str_digits, of m "[]"]
    not_minus [OF nat_str_digits, of "m div 10 ^ d" "''.'' @ print_frac m d"] by simp

lemma in_range128_abs: "in_range128 v \<Longrightarrow> \<not> (v = - (2 ^ 127)) \<Longrightarrow> in_range128 \<bar>v\<bar>"
  by (auto simp: in_range128_def)

lemma print_fixed_signed:
  "print_fixed x = (if fn_value x < 0 then ''-'' else []) @
     (if fn_decimals x = 0 then nat_str (nat \<bar>fn_value x\<bar>)
      else nat_str (nat \<bar>fn_value x\<bar> div 10 ^ fn_decimals x) @ ''.'' @
        print_frac (nat \<bar>fn_value x\<bar>) (fn_decimals x))"
  by (simp add: print_fixed_def Let_def)

lemma parse_print:
  assumes "fn_decimals x \<le> 80" "in_range128 (fn_value x)" "fn_value x \<noteq> - (2 ^ 127)"
  shows "parse_fixed (print_fixed x) (fn_decimals x) = Some x"
proof -
  let ?m = "nat \<bar>fn_value x\<bar>"
  have m: "in_range128 (int ?m)" using in_range128_abs [OF assms(2,3)] by simp
  note mag = print_fixed_magnitude [OF assms(1) m]
  show ?thesis
  proof (cases "fn_value x < 0")
    case True
    then have "in_range128 (- int ?m)" using assms(2) by simp
    with parse_fixed_neg [OF magnitude_not_minus mag]
    have "parse_fixed (CHR ''-'' # (if fn_decimals x = 0 then nat_str ?m
        else nat_str (?m div 10 ^ fn_decimals x) @ ''.'' @ print_frac ?m (fn_decimals x))) (fn_decimals x)
      = Some \<lparr>fn_value = - int ?m, fn_decimals = fn_decimals x\<rparr>" by simp
    then show ?thesis
      using True unfolding print_fixed_signed by (cases x) auto
  next
    case False
    then show ?thesis
      using mag unfolding print_fixed_signed by (cases x) auto
  qed
qed

text \<open>The number that a decimal notation stands for, whatever the format it is read with.\<close>

definition decimal_value :: "string \<Rightarrow> rat" where
  "decimal_value s =
     (let neg = js_startsWith s ''-'';
          b = (if neg then drop 1 s else s);
          w = takeWhile is_digit b;
          r = dropWhile is_digit b;
          f = (if js_startsWith r ''.'' then drop 1 r else r);
          v = of_nat (str_nat (w @ f)) / 10 ^ length f
      in if neg then - v else v)"

lemma list_all_zeros: "list_all (\<lambda>c. c = CHR ''0'') s \<Longrightarrow> s = replicate (length s) (CHR ''0'')"
  by (induction s) auto

lemma str_nat_pad: "str_nat (s @ replicate k (CHR ''0'')) = str_nat s * 10 ^ k"
  by (simp add: str_nat_append)

lemma take_pad_value:
  assumes "list_all (\<lambda>c. c = CHR ''0'') (drop d f)"
  shows "(of_nat (str_nat (w @ take d (js_padEnd f d (CHR ''0'')))) :: rat) / 10 ^ d =
    of_nat (str_nat (w @ f)) / 10 ^ length f"
proof (cases "length f \<le> d")
  case True
  then have "w @ take d (js_padEnd f d (CHR ''0'')) = (w @ f) @ replicate (d - length f) (CHR ''0'')"
    by (simp add: js_padEnd_def)
  moreover have "(10 :: rat) ^ d = 10 ^ length f * 10 ^ (d - length f)"
    using True by (metis le_add_diff_inverse power_add)
  ultimately show ?thesis by (simp only: str_nat_pad) simp
next
  case False
  then have "f = take d f @ replicate (length f - d) (CHR ''0'')"
    using list_all_zeros [OF assms] by (metis append_take_drop_id length_drop)
  then have "str_nat (w @ f) = str_nat (w @ take d f) * 10 ^ (length f - d)"
    using str_nat_pad [of "w @ take d f"] by (metis append.assoc)
  moreover have "(10 :: rat) ^ length f = 10 ^ d * 10 ^ (length f - d)"
    using False by (metis le_add_diff_inverse nat_le_linear power_add)
  moreover have "take d (js_padEnd f d (CHR ''0'')) = take d f"
    using False by (simp add: js_padEnd_def)
  ultimately show ?thesis by simp
qed

lemma parse_fixed_value:
  assumes "parse_fixed s d = Some x"
  shows "fn_rat x = decimal_value s"
proof -
  define neg where "neg = js_startsWith s ''-''"
  define b where "b = (if neg then drop 1 s else s)"
  define w where "w = takeWhile is_digit b"
  define f where "f = (if js_startsWith (dropWhile is_digit b) ''.''
    then drop 1 (dropWhile is_digit b) else dropWhile is_digit b)"
  define m where "m = int (str_nat (w @ take d (js_padEnd f d (CHR ''0''))))"
  have "list_all (\<lambda>c. c = CHR ''0'') (drop d f)"
    and x: "x = \<lparr>fn_value = (if neg then - m else m), fn_decimals = d\<rparr>"
    using assms unfolding parse_fixed_def Let_def neg_def b_def w_def f_def m_def
    by (simp_all only: option.inject option.distinct split: if_split_asm)
  from take_pad_value [OF this(1), of w] have "(of_int m :: rat) / 10 ^ d = of_nat (str_nat (w @ f)) / 10 ^ length f"
    by (simp add: m_def)
  moreover have "decimal_value s = (if neg then - (of_nat (str_nat (w @ f)) / 10 ^ length f)
      else of_nat (str_nat (w @ f)) / 10 ^ length f)"
    unfolding decimal_value_def Let_def neg_def b_def w_def f_def by (rule refl)
  ultimately show ?thesis by (simp add: x fn_rat_def)
qed

section \<open>The interface\<close>

text \<open>
  The operations the sources call, with \<open>None\<close> where the package throws: \<open>fromString\<close> and
  \<open>fromValue\<close> (the latter takes the value, its decimals and the decimals of the format),
  \<open>toString\<close>, the unsafe (wrapping) addition and subtraction, which refuse two different
  formats, the comparisons, \<open>isZero\<close>, and \<open>Long.fromString\<close> of the Hedera SDK.
\<close>

record fixed_number_lib =
  lib_fromString :: "string \<Rightarrow> nat \<Rightarrow> fixed_number option"
  lib_fromValue :: "int \<Rightarrow> nat \<Rightarrow> nat \<Rightarrow> fixed_number option"
  lib_toString :: "fixed_number \<Rightarrow> string"
  lib_addUnsafe :: "fixed_number \<Rightarrow> fixed_number \<Rightarrow> fixed_number option"
  lib_subUnsafe :: "fixed_number \<Rightarrow> fixed_number \<Rightarrow> fixed_number option"
  lib_gt :: "fixed_number \<Rightarrow> fixed_number \<Rightarrow> bool"
  lib_gte :: "fixed_number \<Rightarrow> fixed_number \<Rightarrow> bool"
  lib_lt :: "fixed_number \<Rightarrow> fixed_number \<Rightarrow> bool"
  lib_lte :: "fixed_number \<Rightarrow> fixed_number \<Rightarrow> bool"
  lib_eq :: "fixed_number \<Rightarrow> fixed_number \<Rightarrow> bool"
  lib_isZero :: "fixed_number \<Rightarrow> bool"
  lib_longFromString :: "string \<Rightarrow> int"

locale fixed_number_api =
  fixes L :: fixed_number_lib
  assumes fromString: "lib_fromString L s d = parse_fixed s d"
    and fromValue: "dec \<le> fmt \<Longrightarrow> fmt \<le> 80 \<Longrightarrow> in_range128 (v * 10 ^ (fmt - dec)) \<Longrightarrow>
      lib_fromValue L v dec fmt = Some \<lparr>fn_value = v * 10 ^ (fmt - dec), fn_decimals = fmt\<rparr>"
    and toString: "lib_toString L x = print_fixed x"
    and addUnsafe: "fn_decimals x = fn_decimals y \<Longrightarrow> in_range128 (fn_value x + fn_value y) \<Longrightarrow>
      lib_addUnsafe L x y = Some \<lparr>fn_value = fn_value x + fn_value y, fn_decimals = fn_decimals x\<rparr>"
    and addUnsafe_formats: "fn_decimals x \<noteq> fn_decimals y \<Longrightarrow> lib_addUnsafe L x y = None"
    and subUnsafe: "fn_decimals x = fn_decimals y \<Longrightarrow> in_range128 (fn_value x - fn_value y) \<Longrightarrow>
      lib_subUnsafe L x y = Some \<lparr>fn_value = fn_value x - fn_value y, fn_decimals = fn_decimals x\<rparr>"
    and subUnsafe_formats: "fn_decimals x \<noteq> fn_decimals y \<Longrightarrow> lib_subUnsafe L x y = None"
    and gt: "lib_gt L x y \<longleftrightarrow> fn_rat y < fn_rat x"
    and gte: "lib_gte L x y \<longleftrightarrow> fn_rat y \<le> fn_rat x"
    and lt: "lib_lt L x y \<longleftrightarrow> fn_rat x < fn_rat y"
    and lte: "lib_lte L x y \<longleftrightarrow> fn_rat x \<le> fn_rat y"
    and eq: "lib_eq L x y \<longleftrightarrow> fn_rat x = fn_rat y"
    and isZero: "lib_isZero L x \<longleftrightarrow> fn_value x = 0"
    and longFromString: "list_all is_digit s \<Longrightarrow> s \<noteq> [] \<Longrightarrow> str_nat s < 2 ^ 63 \<Longrightarrow>
      lib_longFromString L s = int (str_nat s)"

section \<open>An exact library\<close>

definition wrap128 :: "int \<Rightarrow> int" where
  "wrap128 v = (v + 2 ^ 127) mod 2 ^ 128 - 2 ^ 127"

definition exact_le :: "fixed_number \<Rightarrow> fixed_number \<Rightarrow> bool" where
  "exact_le x y \<longleftrightarrow> fn_value x * 10 ^ fn_decimals y \<le> fn_value y * 10 ^ fn_decimals x"

definition exact_lib :: fixed_number_lib where
  "exact_lib =
     \<lparr>lib_fromString = parse_fixed,
      lib_fromValue = (\<lambda>v dec fmt.
        if dec \<le> fmt \<and> fmt \<le> 80 \<and> in_range128 (v * 10 ^ (fmt - dec))
        then Some \<lparr>fn_value = v * 10 ^ (fmt - dec), fn_decimals = fmt\<rparr> else None),
      lib_toString = print_fixed,
      lib_addUnsafe = (\<lambda>x y. if fn_decimals x = fn_decimals y
        then Some \<lparr>fn_value = wrap128 (fn_value x + fn_value y), fn_decimals = fn_decimals x\<rparr> else None),
      lib_subUnsafe = (\<lambda>x y. if fn_decimals x = fn_decimals y
        then Some \<lparr>fn_value = wrap128 (fn_value x - fn_value y), fn_decimals = fn_decimals x\<rparr> else None),
      lib_gt = (\<lambda>x y. \<not> exact_le x y),
      lib_gte = (\<lambda>x y. exact_le y x),
      lib_lt = (\<lambda>x y. \<not> exact_le y x),
      lib_lte = exact_le,
      lib_eq = (\<lambda>x y. exact_le x y \<and> exact_le y x),
      lib_isZero = (\<lambda>x. fn_value x = 0),
      lib_longFromString = (\<lambda>s. int (str_nat s))\<rparr>"

lemma wrap128_id: "in_range128 v \<Longrightarrow> wrap128 v = v"
  by (simp add: in_range128_def wrap128_def)

lemma exact_le_rat: "exact_le x y \<longleftrightarrow> fn_rat x \<le> fn_rat y"
proof -
  have "fn_rat x \<le> fn_rat y \<longleftrightarrow>
      (of_int (fn_value x) * 10 ^ fn_decimals y :: rat) \<le> of_int (fn_value y) * 10 ^ fn_decimals x"
    by (simp add: fn_rat_def field_simps)
  also have "\<dots> \<longleftrightarrow> (of_int (fn_value x * 10 ^ fn_decimals y) :: rat) \<le> of_int (fn_value y * 10 ^ fn_decimals x)"
    by simp
  finally show ?thesis unfolding exact_le_def of_int_le_iff by simp
qed

interpretation exact: fixed_number_api exact_lib
  by unfold_locales
    (auto simp: exact_lib_def wrap128_id exact_le_rat not_le)

end
