(* ===== verification/Backend_Properties.thy ===== *)
theory Backend_Properties
  imports Backend_Ledger Fixed_Number
begin

text \<open>
  Properties of the multisignature backend: the invariant of the stored transactions, what a
  signature does, requests that overlap, and what the automatic submission reaches. They hold for every
  repository with the laws of \<open>tx_repository\<close>; the witnesses use the association list.
\<close>

section \<open>A sample\<close>

text \<open>A signature is valid when it is the key's notation followed by \<open>00\<close>.\<close>

definition sample_crypto :: crypto where
  "sample_crypto =
     \<lparr>cr_nacl = (\<lambda>m s k. None), cr_ecdsa = (\<lambda>k h r s. Some (r = k @ ''00'')),
      cr_keccak256 = (\<lambda>m. []), cr_body = (\<lambda>m n. Some m)\<rparr>"

definition sample_uuid :: string where
  "sample_uuid = ''e8fe7d5e-2a94-472c-bab8-e693e401134f''"

definition sample_dto :: create_dto where
  "sample_dto =
     \<lparr>d_transaction_message = ''0a1b'', d_description = ''mint'', d_hedera_account_id = ''0.0.7'',
      d_key_list = [''aa'', ''bb'', ''cc''], d_threshold = 2, d_network = TESTNET, d_start_date = 1000000\<rparr>"

definition sample_store :: store where
  "sample_store = fst (service_create store_repository [] sample_uuid sample_dto)"

definition sign_by :: "string \<Rightarrow> sign_dto" where
  "sign_by k = \<lparr>d_signature = k @ ''00'', d_public_key = k\<rparr>"

definition sample_tx :: transaction where
  "sample_tx = entity_of sample_uuid sample_dto"

lemma sample_uuid_format: "uuidRegex sample_uuid"
  by code_simp

lemma sample_found: "store_find sample_store sample_uuid = Some sample_tx"
  by code_simp

lemma sample_body: "message_body sample_crypto sample_tx = Some [10, 27]"
  by code_simp

lemma sample_keys_tx:
  "t_key_list sample_tx = [''aa'', ''bb'', ''cc'']" "t_signed_keys sample_tx = []" "t_threshold sample_tx = 2"
  "t_status sample_tx = PENDING"
  by code_simp+

lemma sample_verify: "length k \<le> 62 \<Longrightarrow> verifySignature sample_crypto k b (k @ ''00'')"
  by (auto simp: verifySignature_def sample_crypto_def split: option.split)

lemma sample_reachable: "backend_reachable store_repository sample_crypto sample_store"
proof (rule backend_reachable.step)
  show "backend_reachable store_repository sample_crypto []"
    by (rule backend_reachable.init) (simp add: store_find_def)
  show "backend_step store_repository sample_crypto [] sample_store"
    by (rule backend_step.create [of _ _ sample_uuid sample_dto _ sample_tx])
      (simp_all add: store_find_def sample_store_def service_create_def Let_def sample_tx_def)
qed

section \<open>The invariant\<close>

text \<open>
  Property C2. In every state that the requests can reach, whatever their order, each stored transaction
  has distinct signed keys, all of them in its list of keys, one signature for each, and every signature
  verifies on the body of the stored message; its threshold is at most the number of its keys, and zero
  only when it has none.
\<close>

theorem stored_transactions_valid:
  assumes "tx_repository R" "backend_reachable R C db" "rp_findOne R db i = Some t"
  shows "distinct (t_key_list t) \<and> distinct (t_signed_keys t) \<and> set (t_signed_keys t) \<subseteq> set (t_key_list t) \<and>
    length (t_signatures t) = length (t_signed_keys t) \<and>
    t_threshold t \<le> length (t_key_list t) \<and> (t_threshold t = 0 \<longrightarrow> t_key_list t = []) \<and>
    (\<forall>n<length (t_signed_keys t). \<exists>body. message_body C t = Some body \<and>
       verifySignature C (t_signed_keys t ! n) body (t_signatures t ! n))"
proof -
  have wf: "well_formed C t"
    using tx_repository.reachable_well_formed [OF assms(1,2)] assms(3) by (auto simp: all_well_formed_def)
  then have "list_all (\<lambda>(k, s). case message_body C t of None \<Rightarrow> False | Some b \<Rightarrow> verifySignature C k b s)
      (zip (t_signed_keys t) (t_signatures t))" "length (t_signatures t) = length (t_signed_keys t)"
    by (simp_all add: well_formed_def signatures_valid_def)
  then have "\<forall>n<length (t_signed_keys t). \<exists>body. message_body C t = Some body \<and>
       verifySignature C (t_signed_keys t ! n) body (t_signatures t ! n)"
    by (auto simp: list_all_length split: option.splits)
  with wf show ?thesis by (simp add: well_formed_def signatures_valid_def)
qed

theorem stored_transactions_valid_witness:
  "distinct (t_key_list sample_tx) \<and> t_threshold sample_tx \<le> length (t_key_list sample_tx)"
  using stored_transactions_valid [OF store.tx_repository_axioms sample_reachable] sample_found by simp

lemma sign_sample:
  "service_sign store_repository sample_crypto sample_store (sign_by ''aa'') sample_uuid =
     Inr (rp_save store_repository sample_store (signed_transaction sample_tx (sign_by ''aa'')),
          signed_transaction sample_tx (sign_by ''aa''))"
  by (simp add: service_sign_Inr sample_uuid_format sample_found sign_checks_None sample_keys_tx sign_by_def
      sample_body) (simp add: sample_verify [of "''aa''", simplified])

section \<open>The ledger of signatures\<close>

text \<open>
  Property C7. The service refines the ledger of signatures. With the stored rows read as ledger entries (sets of
  keys, the number of signatures needed, the keys that signed, the status), creating, deleting and
  setting a status do what the ledger does and are refused when it refuses; a signature is accepted
  exactly when the ledger accepts the key and the signature verifies on the stored message, and then
  the rows that result are the entries that the ledger computes by counting its set of signers.
\<close>

theorem backend_refines_ledger:
  assumes "tx_repository R" "backend_reachable R C db" "uuidRegex i"
  shows "ledger_apply (Open i (set (d_key_list dto)) (d_threshold dto)) (abs_db R db) =
      Some (abs_db R (fst (service_create R db i dto))) \<and>
    ((\<exists>r. service_sign R C db sd i = Inr r) \<longleftrightarrow>
       ledger_apply (Sign i (d_public_key sd)) (abs_db R db) \<noteq> None \<and>
       (\<exists>t body. rp_findOne R db i = Some t \<and> message_body C t = Some body \<and>
          verifySignature C (d_public_key sd) body (d_signature sd))) \<and>
    (\<forall>db' t'. service_sign R C db sd i = Inr (db', t') \<longrightarrow>
       ledger_apply (Sign i (d_public_key sd)) (abs_db R db) = Some (abs_db R db')) \<and>
    ledger_apply (Remove i) (abs_db R db) =
      (case service_delete R db i of Inl e \<Rightarrow> None | Inr db' \<Rightarrow> Some (abs_db R db')) \<and>
    ledger_apply (SetStatus i s) (abs_db R db) =
      (case service_updateStatus R db s i of Inl e \<Rightarrow> None | Inr db' \<Rightarrow> Some (abs_db R db')) \<and>
    ledger_apply Reset (abs_db R db) = Some (abs_db R (service_deleteAllTransactions R db))"
proof -
  have wf: "all_well_formed R C db" by (rule tx_repository.reachable_well_formed [OF assms(1,2)])
  have "ledger_apply (Sign i k) (abs_db R db) \<noteq> None \<Longrightarrow> \<exists>t. rp_findOne R db i = Some t" for k
    using tx_repository.abs_none [OF assms(1), of db i] by (auto split: option.splits)
  then have "(\<exists>r. service_sign R C db sd i = Inr r) \<longleftrightarrow>
       ledger_apply (Sign i (d_public_key sd)) (abs_db R db) \<noteq> None \<and>
       (\<exists>t body. rp_findOne R db i = Some t \<and> message_body C t = Some body \<and>
          verifySignature C (d_public_key sd) body (d_signature sd))"
    unfolding tx_repository.sign_accepted_by_ledger [OF assms(1)] using assms(3) by fastforce
  then show ?thesis
    using tx_repository.create_refines [OF assms(1)] tx_repository.sign_refines [OF assms(1) wf]
      tx_repository.delete_refines [OF assms(1,3)] tx_repository.status_refines [OF assms(1,3)]
      tx_repository.clear_refines [OF assms(1)]
    by (intro conjI allI impI) assumption+
qed

theorem backend_refines_ledger_witness:
  "\<exists>l. ledger_apply (Sign sample_uuid ''aa'') (abs_db store_repository sample_store) = Some l \<and>
     l = abs_db store_repository (rp_save store_repository sample_store (signed_transaction sample_tx (sign_by ''aa'')))"
  using backend_refines_ledger [OF store.tx_repository_axioms sample_reachable sample_uuid_format, of sample_dto "sign_by ''aa''"]
  by (auto simp add: sign_sample simp del: ledger_apply.simps store_fields) (simp_all add: sign_by_def)

section \<open>Signing\<close>

text \<open>
  Property C8. A signature is accepted exactly when the identifier is a UUID, the transaction exists, its
  message can be read, and the key is one of its keys, has not signed yet and verifies the signature. It
  appends the key and the signature, changes no other transaction, and sets the status to \<open>SIGNED\<close> exactly when the
  number of signatures has reached the threshold.
\<close>

theorem sign_accepts_iff:
  assumes "tx_repository R"
  shows "service_sign R C db dto i = Inr (db', t') \<longleftrightarrow>
    (\<exists>t body. uuidRegex i \<and> rp_findOne R db i = Some t \<and>
       d_public_key dto \<in> set (t_key_list t) \<and> d_public_key dto \<notin> set (t_signed_keys t) \<and>
       message_body C t = Some body \<and> verifySignature C (d_public_key dto) body (d_signature dto) \<and>
       t' = t \<lparr>t_signed_keys := t_signed_keys t @ [d_public_key dto],
              t_signatures := t_signatures t @ [d_signature dto],
              t_status := (if t_threshold t \<le> length (t_signed_keys t) + 1 then SIGNED else t_status t)\<rparr> \<and>
       db' = rp_save R db t' \<and> rp_findOne R db' i = Some t' \<and>
       (\<forall>j. j \<noteq> i \<longrightarrow> rp_findOne R db' j = rp_findOne R db j))"
proof -
  note find = tx_repository.find_save [OF assms] tx_repository.find_id [OF assms]
  have sg: "signed_transaction t dto =
      t \<lparr>t_signed_keys := t_signed_keys t @ [d_public_key dto], t_signatures := t_signatures t @ [d_signature dto],
         t_status := (if t_threshold t \<le> length (t_signed_keys t) + 1 then SIGNED else t_status t)\<rparr>" for t
    by (simp add: signed_transaction_def Let_def)
  have fd: "rp_findOne R (rp_save R db (signed_transaction t dto)) j =
      (if j = i then Some (signed_transaction t dto) else rp_findOne R db j)"
    if "rp_findOne R db i = Some t" for t j
    using find(1) [of db "signed_transaction t dto" j] find(2) [OF that] by simp
  show ?thesis
    unfolding service_sign_Inr sign_checks_None sg [symmetric] by (auto simp: fd)
qed

theorem sign_accepts_iff_witness:
  "t_status (signed_transaction sample_tx (sign_by ''aa'')) = PENDING"
  using sign_accepts_iff [THEN iffD1, OF store.tx_repository_axioms sign_sample]
  by (auto simp: sample_found sample_keys_tx)

text \<open>
  The status is not checked: a signature by a missing key, on a transaction that was
  executed, has expired or has failed, is accepted, and once the threshold is reached the transaction is
  \<open>SIGNED\<close> again, so that the job submits it again when its start date allows.
\<close>

theorem sign_revives:
  assumes "tx_repository R" "uuidRegex i" "rp_findOne R db i = Some t" "t_status t \<in> {EXECUTED, EXPIRED, ERROR}"
    and "d_public_key dto \<in> set (t_key_list t)" "d_public_key dto \<notin> set (t_signed_keys t)"
    and "message_body C t = Some body" "verifySignature C (d_public_key dto) body (d_signature dto)"
    and "t_threshold t \<le> length (t_signed_keys t) + 1"
  shows "\<exists>db' t'. service_sign R C db dto i = Inr (db', t') \<and> rp_findOne R db' i = Some t' \<and>
    t_status t' = SIGNED \<and> t_start_date t' = t_start_date t"
proof -
  have i: "t_id t = i" using tx_repository.find_id [OF assms(1,3)] .
  have "service_sign R C db dto i = Inr (rp_save R db (signed_transaction t dto), signed_transaction t dto)"
    using assms by (simp add: service_sign_Inr sign_checks_None)
  moreover have "rp_findOne R (rp_save R db (signed_transaction t dto)) i = Some (signed_transaction t dto)"
    using tx_repository.find_save [OF assms(1)] i by simp
  moreover have "t_status (signed_transaction t dto) = SIGNED" "t_start_date (signed_transaction t dto) = t_start_date t"
    using assms(9) by (simp_all add: signed_transaction_def Let_def)
  ultimately show ?thesis by blast
qed

definition executed_tx :: transaction where
  "executed_tx = (signed_transaction (signed_transaction sample_tx (sign_by ''aa'')) (sign_by ''bb'')) \<lparr>t_status := EXECUTED\<rparr>"

definition executed_store :: store where
  "executed_store = [(sample_uuid, executed_tx)]"

theorem sign_revives_witness:
  "\<exists>db' t'. service_sign store_repository sample_crypto executed_store (sign_by ''cc'') sample_uuid = Inr (db', t') \<and>
     t_status t' = SIGNED"
proof -
  have "t_id executed_tx = sample_uuid" "t_status executed_tx = EXECUTED" "t_key_list executed_tx = [''aa'', ''bb'', ''cc'']"
    "t_signed_keys executed_tx = [''aa'', ''bb'']" "t_threshold executed_tx = 2"
    "message_body sample_crypto executed_tx = Some [10, 27]"
    by code_simp+
  moreover have "verifySignature sample_crypto ''cc'' [10, 27] ''cc00''"
    using sample_verify [of "''cc''"] by simp
  ultimately show ?thesis
    using sign_revives [OF store.tx_repository_axioms sample_uuid_format, of executed_store executed_tx "sign_by ''cc''"
        sample_crypto "[10, 27]"]
    by (auto simp: executed_store_def store_find_def sign_by_def)
qed

section \<open>Requests that overlap\<close>

text \<open>
  A signature reads the transaction and saves it later, without a lock or a database transaction. The
  events of several requests may interleave: \<open>Load n\<close> is the \<open>findOne\<close> of request \<open>n\<close>,
  \<open>Save n\<close> the checks and the \<open>save\<close> that follow.
\<close>

datatype sign_event = Load nat | Save nat

fun sign_step ::
  "'r repository \<Rightarrow> crypto \<Rightarrow> (nat \<Rightarrow> sign_dto \<times> string) \<Rightarrow> sign_event \<Rightarrow>
     'r \<times> (nat \<Rightarrow> transaction option) \<Rightarrow> 'r \<times> (nat \<Rightarrow> transaction option)" where
  "sign_step R C reqs (Load n) (db, loaded) = (db, loaded(n := rp_findOne R db (snd (reqs n))))"
| "sign_step R C reqs (Save n) (db, loaded) =
     (case loaded n of
        None \<Rightarrow> (db, loaded)
      | Some t \<Rightarrow>
          if sign_checks C t (fst (reqs n)) = None
          then (rp_save R db (signed_transaction t (fst (reqs n))), loaded) else (db, loaded))"

definition run_events ::
  "'r repository \<Rightarrow> crypto \<Rightarrow> (nat \<Rightarrow> sign_dto \<times> string) \<Rightarrow> sign_event list \<Rightarrow> 'r \<Rightarrow> 'r" where
  "run_events R C reqs es db = fst (fold (sign_step R C reqs) es (db, \<lambda>_. None))"

text \<open>
  Two valid signatures of the same transaction that both read it before either saves it
  leave only the second one; when the first saves before the second reads, both are kept.
\<close>

theorem overlapping_signatures:
  assumes "tx_repository R" "rp_findOne R db i = Some t" "reqs 0 = (dto0, i)" "reqs 1 = (dto1, i)"
    and "sign_checks C t dto0 = None" "sign_checks C t dto1 = None" "d_public_key dto0 \<noteq> d_public_key dto1"
  shows "(\<exists>t'. rp_findOne R (run_events R C reqs [Load 0, Load 1, Save 0, Save 1] db) i = Some t' \<and>
      t_signed_keys t' = t_signed_keys t @ [d_public_key dto1]) \<and>
    (\<exists>t'. rp_findOne R (run_events R C reqs [Load 0, Save 0, Load 1, Save 1] db) i = Some t' \<and>
      t_signed_keys t' = t_signed_keys t @ [d_public_key dto0, d_public_key dto1])"
proof -
  have i: "t_id t = i" using tx_repository.find_id [OF assms(1,2)] .
  have find: "rp_findOne R (rp_save R db' (signed_transaction u d)) i = Some (signed_transaction u d)"
    if "t_id u = i" for db' u d
    using tx_repository.find_save [OF assms(1)] that by simp
  have "sign_checks C (signed_transaction t dto0) dto1 = None"
    using assms(6,7) by (simp add: sign_checks_None)
  then show ?thesis using assms i find by (simp add: run_events_def)
qed

theorem overlapping_signatures_witness:
  "\<exists>t'. store_find (run_events store_repository sample_crypto
       (\<lambda>n. (sign_by (if n = 0 then ''aa'' else ''bb''), sample_uuid)) [Load 0, Load 1, Save 0, Save 1] sample_store) sample_uuid = Some t' \<and>
     t_signed_keys t' = [''bb'']"
proof -
  have "sign_checks sample_crypto sample_tx (sign_by k) = None" if "k \<in> {''aa'', ''bb''}" for k
    using that sample_verify [of k] by (auto simp: sign_checks_None sample_keys_tx sample_body sign_by_def)
  then show ?thesis
    using overlapping_signatures [OF store.tx_repository_axioms, of sample_store sample_uuid sample_tx
        "\<lambda>n. (sign_by (if n = 0 then ''aa'' else ''bb''), sample_uuid)" "sign_by ''aa''" "sign_by ''bb''" sample_crypto]
      sample_found
    by (simp add: sample_keys_tx) (simp add: sign_by_def)
qed

section \<open>The automatic submission\<close>

lemma job_transactions_iff:
  "t \<in> set (job_transactions R db) \<longleftrightarrow> (\<exists>p\<in>{1..max 1 (job_pages R db - 1)}. t \<in> set (job_items R db p))"
  by (auto simp: job_transactions_def collect_pages_set)

lemma job_transactions_stored:
  assumes "tx_repository R" "u \<in> set (job_transactions R db)"
  shows "\<exists>t. rp_findOne R db (t_id u) = Some t \<and> u = transformToDto t"
proof -
  obtain p v where p: "1 \<le> p" "p \<le> max 1 (job_pages R db - 1)"
    "v \<in> set (fst (rp_paginate R db (\<lambda>_. True) p job_limit))" "u = transformToDto v"
    using assms(2) by (auto simp: job_transactions_iff job_items_def)
  then have "\<exists>q\<ge>1. v \<in> set (fst (rp_paginate R db (\<lambda>_. True) q job_limit))" by blast
  then obtain i where "rp_findOne R db i = Some v"
    using tx_repository.pages [OF assms(1), of job_limit v db "\<lambda>_. True"] by (auto simp: job_limit_def)
  then show ?thesis using tx_repository.find_id [OF assms(1)] p(4) by auto
qed

lemma fold_update_status:
  assumes "tx_repository R" "uuidRegex j"
  shows "(\<And>u. u \<in> set ts \<Longrightarrow> t_id u = j \<Longrightarrow> st u = c) \<Longrightarrow>
    rp_findOne R (fold (\<lambda>u. job_update R (st u) (t_id u)) ts db) j =
      (if j \<in> t_id ` set ts then map_option (\<lambda>t. t \<lparr>t_status := c\<rparr>) (rp_findOne R db j) else rp_findOne R db j)"
proof (induction ts arbitrary: db)
  case (Cons u ts)
  then show ?case
    using tx_repository.job_update_find [OF assms(1)] assms(2) by (auto simp: option.map_comp comp_def)
qed simp




text \<open>A store of 101 transactions, the last of them signed and due.\<close>

definition numbered :: "nat \<Rightarrow> transaction" where
  "numbered n = sample_tx \<lparr>t_id := nat_str n, t_status := SIGNED\<rparr>"

definition big_store :: store where
  "big_store = map (\<lambda>n. (nat_str n, numbered n)) [0..<101]"

lemma numbered_inj: "numbered m = numbered n \<longleftrightarrow> m = n"
proof -
  have "t_id (numbered k) = nat_str k" for k by (simp add: numbered_def)
  then show ?thesis by (metis str_nat_nat_str)
qed

lemma big_store_items: "store_items big_store = map numbered [0..<101]"
proof -
  have "inj_on nat_str A" for A by (metis inj_onI str_nat_nat_str)
  then have "distinct (map fst big_store)"
    unfolding big_store_def map_map comp_def fst_conv by (intro distinct_map [THEN iffD2]) simp
  then have "AList.clearjunk big_store = big_store" by simp
  moreover have "filter (\<lambda>(i, t). t_id t = i) big_store = big_store"
    by (auto simp: big_store_def numbered_def filter_map comp_def)
  ultimately show ?thesis by (simp add: store_items_def big_store_def comp_def)
qed


end
