(* ===== verification/Big_Decimal.thy ===== *)
theory Big_Decimal
  imports Fixed_Number
begin

text \<open>
  \<open>sdk/src/domain/context/shared/BigDecimal.ts\<close>, the decimal type of every amount of the SDK,
  and \<open>sdk/src/core/checks/numbers/CheckNums.ts\<close>. A \<open>BigDecimal\<close> wraps a \<open>FixedNumber\<close>; every
  operation takes the \<open>FixedNumber\<close> library as its first argument and throws \<open>NumericFault\<close> where
  the library throws. The lemmas at the end state the operations on the numbers themselves under
  the library's laws; \<open>decimal_order\<close> is the part of these that the amount checks of the
  command handlers use.
\<close>

record big_decimal =
  bd_fn :: fixed_number

abbreviation bd_rat :: "big_decimal \<Rightarrow> rat" where
  "bd_rat b \<equiv> fn_rat (bd_fn b)"

abbreviation bd_decimals :: "big_decimal \<Rightarrow> nat" where
  "bd_decimals b \<equiv> fn_decimals (bd_fn b)"

abbreviation bd_value :: "big_decimal \<Rightarrow> int" where
  "bd_value b \<equiv> fn_value (bd_fn b)"

section \<open>Construction\<close>

text \<open>
  The two branches of the constructor. A missing format is the library's default, \<open>fixed128x18\<close>;
  missing decimals of a value are 0.
\<close>

definition new_of_string :: "fixed_number_lib \<Rightarrow> string \<Rightarrow> nat option \<Rightarrow> big_decimal result" where
  "new_of_string L value fmt =
     (case lib_fromString L value (case fmt of None \<Rightarrow> 18 | Some d \<Rightarrow> d) of
        None \<Rightarrow> Inl NumericFault
      | Some n \<Rightarrow> Inr \<lparr>bd_fn = n\<rparr>)"

definition new_of_value ::
  "fixed_number_lib \<Rightarrow> int \<Rightarrow> nat option \<Rightarrow> nat option \<Rightarrow> big_decimal result" where
  "new_of_value L value fmt decimals =
     (case lib_fromValue L value (case decimals of None \<Rightarrow> 0 | Some d \<Rightarrow> d)
             (case fmt of None \<Rightarrow> 18 | Some d \<Rightarrow> d) of
        None \<Rightarrow> Inl NumericFault
      | Some n \<Rightarrow> Inr \<lparr>bd_fn = n\<rparr>)"

text \<open>
  \<open>CheckNums.isNumber\<close> on a string: false only where \<open>parseInt\<close> gives \<open>NaN\<close> and \<open>BigInt\<close>
  accepts the string, that is on blanks.
\<close>

definition is_blank :: "char \<Rightarrow> bool" where
  "is_blank c \<longleftrightarrow> char_code c = 32 \<or> (9 \<le> char_code c \<and> char_code c \<le> 13)"

definition isNumber :: "string \<Rightarrow> bool" where
  "isNumber s \<longleftrightarrow> \<not> list_all is_blank s"

definition getDecimalsFromString :: "string \<Rightarrow> nat" where
  "getDecimalsFromString val =
     (case js_split (CHR ''.'') val of
        _ # dec # _ \<Rightarrow> (if dec = [] then 0 else if \<not> isNumber dec then 0 else length dec)
      | _ \<Rightarrow> 0)"

definition bd_fromString :: "fixed_number_lib \<Rightarrow> string \<Rightarrow> nat option \<Rightarrow> big_decimal result" where
  "bd_fromString L value fmt =
     new_of_string L value
       (Some (case fmt of None \<Rightarrow> getDecimalsFromString value | Some d \<Rightarrow> d))"

definition fromStringFixed :: "fixed_number_lib \<Rightarrow> string \<Rightarrow> nat \<Rightarrow> big_decimal result" where
  "fromStringFixed L value decimals =
     new_of_string L
       (if length value < decimals then ''0.'' @ js_padStart value decimals (CHR ''0'')
        else (let position = length value - decimals
              in js_substring value 0 position @ ''.'' @ js_substring value position (length value)))
       (Some decimals)"

definition bd_fromValue ::
  "fixed_number_lib \<Rightarrow> int \<Rightarrow> nat option \<Rightarrow> nat option \<Rightarrow> big_decimal result" where
  "bd_fromValue L value decimals fmt = new_of_value L value fmt decimals"

definition isBigDecimal :: "fixed_number_lib \<Rightarrow> string \<Rightarrow> bool" where
  "isBigDecimal L value \<longleftrightarrow> lib_fromString L value 18 \<noteq> None"

text \<open>The static constants; they are evaluated when the class is loaded.\<close>

definition bd_ZERO :: big_decimal where
  "bd_ZERO = \<lparr>bd_fn = \<lparr>fn_value = 0, fn_decimals = 0\<rparr>\<rparr>"

definition bd_MINUSONE :: big_decimal where
  "bd_MINUSONE = \<lparr>bd_fn = \<lparr>fn_value = - 1, fn_decimals = 0\<rparr>\<rparr>"

section \<open>Operations\<close>

definition fromFixedNumber :: "fixed_number_lib \<Rightarrow> fixed_number \<Rightarrow> big_decimal result" where
  "fromFixedNumber L n = new_of_string L (lib_toString L n) (Some (fn_decimals n))"

definition bd_addUnsafe :: "fixed_number_lib \<Rightarrow> big_decimal \<Rightarrow> big_decimal \<Rightarrow> big_decimal result" where
  "bd_addUnsafe L a b =
     bindR (of_option NumericFault (lib_addUnsafe L (bd_fn a) (bd_fn b))) (fromFixedNumber L)"

definition bd_subUnsafe :: "fixed_number_lib \<Rightarrow> big_decimal \<Rightarrow> big_decimal \<Rightarrow> big_decimal result" where
  "bd_subUnsafe L a b =
     bindR (of_option NumericFault (lib_subUnsafe L (bd_fn a) (bd_fn b))) (fromFixedNumber L)"

definition bd_isZero :: "fixed_number_lib \<Rightarrow> big_decimal \<Rightarrow> bool" where
  "bd_isZero L b = lib_isZero L (bd_fn b)"

definition isGreaterOrEqualThan :: "fixed_number_lib \<Rightarrow> big_decimal \<Rightarrow> big_decimal \<Rightarrow> bool" where
  "isGreaterOrEqualThan L a b = lib_gte L (bd_fn a) (bd_fn b)"

definition isGreaterThan :: "fixed_number_lib \<Rightarrow> big_decimal \<Rightarrow> big_decimal \<Rightarrow> bool" where
  "isGreaterThan L a b = lib_gt L (bd_fn a) (bd_fn b)"

definition isLowerThan :: "fixed_number_lib \<Rightarrow> big_decimal \<Rightarrow> big_decimal \<Rightarrow> bool" where
  "isLowerThan L a b = lib_lt L (bd_fn a) (bd_fn b)"

definition isLowerOrEqualThan :: "fixed_number_lib \<Rightarrow> big_decimal \<Rightarrow> big_decimal \<Rightarrow> bool" where
  "isLowerOrEqualThan L a b = lib_lte L (bd_fn a) (bd_fn b)"

definition isEqualThan :: "fixed_number_lib \<Rightarrow> big_decimal \<Rightarrow> big_decimal \<Rightarrow> bool" where
  "isEqualThan L a b = lib_eq L (bd_fn a) (bd_fn b)"

definition toBigInt :: "big_decimal \<Rightarrow> int" where
  "toBigInt b = fn_value (bd_fn b)"

definition toFixedNumber :: "big_decimal \<Rightarrow> string" where
  "toFixedNumber b = int_str (toBigInt b)"

definition bd_toString :: "fixed_number_lib \<Rightarrow> big_decimal \<Rightarrow> string" where
  "bd_toString L b =
     (let number = lib_toString L (bd_fn b)
      in if js_endsWith number ''.0'' then js_substring number 0 (length number - 2) else number)"

text \<open>
  \<open>let [int, float] = this.value.split('.')\<close>: the fraction is cut to its first
  \<open>float.length - value\<close> digits when it is longer than \<open>value\<close>, and dropped otherwise.
\<close>

definition setDecimals :: "fixed_number_lib \<Rightarrow> big_decimal \<Rightarrow> nat \<Rightarrow> big_decimal result" where
  "setDecimals L b n =
     (let parts = js_split (CHR ''.'') (lib_toString L (bd_fn b));
          whole = hd parts;
          frac = (case parts of _ # f # _ \<Rightarrow> f | _ \<Rightarrow> [])
      in if frac \<noteq> [] \<and> n < length frac
         then (let frac' = js_substring frac 0 (length frac - n)
               in bd_fromString L (whole @ ''.'' @ frac') (Some (max (length frac') n)))
         else bd_fromString L whole (Some n))"

definition splitNumber :: "fixed_number_lib \<Rightarrow> big_decimal \<Rightarrow> string list" where
  "splitNumber L b =
     (case js_split (CHR ''.'') (lib_toString L (bd_fn b)) of
        w # f # rest \<Rightarrow> w # js_padEnd f (bd_decimals b) (CHR ''0'') # rest
      | ws \<Rightarrow> ws @ [[]])"

definition toLong :: "fixed_number_lib \<Rightarrow> big_decimal \<Rightarrow> int" where
  "toLong L b = (let number = splitNumber L b in lib_longFromString L (number ! 0 @ number ! 1))"

section \<open>CheckNums\<close>

definition nums_isBigDecimal :: "fixed_number_lib \<Rightarrow> string \<Rightarrow> bool" where
  "nums_isBigDecimal L value \<longleftrightarrow> (case bd_fromString L value None of Inl _ \<Rightarrow> False | Inr _ \<Rightarrow> True)"

definition hasMoreDecimals :: "fixed_number_lib \<Rightarrow> string \<Rightarrow> int \<Rightarrow> bool result" where
  "hasMoreDecimals L from to = bindR (bd_fromString L from None) (\<lambda>v. Inr (to < int (bd_decimals v)))"

definition isWithinRange :: "fixed_number_lib \<Rightarrow> big_decimal \<Rightarrow> big_decimal \<Rightarrow> big_decimal \<Rightarrow> bool" where
  "isWithinRange L value lo hi \<longleftrightarrow>
     isLowerOrEqualThan L value hi \<and> isGreaterOrEqualThan L value lo"

section \<open>What the operations compute\<close>

text \<open>
  The comparisons of two decimals, as an interface: \<open>val\<close> is the number that a decimal stands
  for. The amount checks of the handlers need nothing else of the decimal type.
\<close>

locale decimal_order =
  fixes val :: "'d \<Rightarrow> rat"
    and gt ge lt le eq :: "'d \<Rightarrow> 'd \<Rightarrow> bool"
  assumes gt_iff: "gt a b \<longleftrightarrow> val b < val a"
    and ge_iff: "ge a b \<longleftrightarrow> val b \<le> val a"
    and lt_iff: "lt a b \<longleftrightarrow> val a < val b"
    and le_iff: "le a b \<longleftrightarrow> val a \<le> val b"
    and eq_iff: "eq a b \<longleftrightarrow> val a = val b"
begin

lemmas order_iffs = gt_iff ge_iff lt_iff le_iff eq_iff

lemma not_gt: "\<not> gt a b \<longleftrightarrow> le a b"
  by (auto simp: order_iffs)

lemma within: "le v hi \<and> ge v lo \<longleftrightarrow> val v \<in> {val lo..val hi}"
  by (auto simp: order_iffs)

lemma trichotomy: "lt a b \<or> eq a b \<or> gt a b"
  by (auto simp: order_iffs)

end

sublocale fixed_number_api \<subseteq> decimal_order bd_rat
  "isGreaterThan L" "isGreaterOrEqualThan L" "isLowerThan L" "isLowerOrEqualThan L" "isEqualThan L"
  by unfold_locales
    (simp_all add: isGreaterThan_def isGreaterOrEqualThan_def isLowerThan_def
      isLowerOrEqualThan_def isEqualThan_def gt gte lt lte eq)

lemma js_split_none: "c \<notin> set s \<Longrightarrow> js_split c s = [s]"
  by (induction s) auto

lemma js_split_at: "c \<notin> set w \<Longrightarrow> js_split c (w @ c # r) = w # js_split c r"
  by (induction w) auto

lemma digits_no_point: "list_all is_digit s \<Longrightarrow> CHR ''.'' \<notin> set s"
  by (auto simp: list_all_iff dest: digit_not_point)

lemma fn_rat_scale: "fn_rat \<lparr>fn_value = v * 10 ^ k, fn_decimals = d + k\<rparr> = fn_rat \<lparr>fn_value = v, fn_decimals = d\<rparr>"
  by (simp add: fn_rat_def power_add)

text \<open>How the printed notation of a non-negative number splits at the point.\<close>

lemma split_print:
  assumes "0 \<le> fn_value x"
  shows "js_split (CHR ''.'') (print_fixed x) =
    (if fn_decimals x = 0 then [nat_str (nat (fn_value x))]
     else [nat_str (nat (fn_value x) div 10 ^ fn_decimals x),
           print_frac (nat (fn_value x)) (fn_decimals x)])"
proof -
  note np = digits_no_point [OF nat_str_digits] digits_no_point [OF print_frac_digits]
  have neg: "\<not> fn_value x < 0" using assms by simp
  show ?thesis
    by (simp only: print_fixed_signed neg if_False append_Nil abs_of_nonneg [OF assms])
      (simp add: np js_split_none js_split_at)
qed

lemma print_frac_zero:
  assumes "0 < d" "print_frac m d = ''0''"
  shows "m mod 10 ^ d = 0"
proof -
  have "js_padEnd ''0'' d (CHR ''0'') = replicate d (CHR ''0'')"
    using assms(1) by (cases d) (auto simp: js_padEnd_def)
  then have "frac_digits m d = replicate d (CHR ''0'')"
    using assms print_frac_pad [of d m] by simp
  then show ?thesis
    using frac_digits_val [of m d] by simp
qed

lemma endsWith_append: "js_endsWith s t \<longleftrightarrow> (\<exists>r. s = r @ t)"
proof -
  have "js_startsWith a b \<longleftrightarrow> (\<exists>r. a = b @ r)" for a b
    unfolding js_startsWith_def by (metis append_take_drop_id append_eq_conv_conj)
  then show ?thesis
    unfolding js_endsWith_def by (metis rev_append rev_rev_ident)
qed

lemma substring_prefix: "js_substring (a @ b) 0 (length a) = a"
  by (simp add: js_substring_def)

lemma strip_zero:
  "js_endsWith s ''.0'' \<Longrightarrow> js_substring s 0 (length s - 2) @ ''.0'' = s"
  by (auto simp: endsWith_append js_substring_def)

lemma magnitude_stripped:
  assumes "0 < d" "print_frac m d = ''0''" "d \<le> 80" "in_range128 (int m)"
  shows "parse_fixed (nat_str (m div 10 ^ d)) d = Some \<lparr>fn_value = int m, fn_decimals = d\<rparr>"
proof -
  have "m div 10 ^ d * 10 ^ d = m"
    using print_frac_zero [OF assms(1,2)] div_mult_mod_eq [of m "10 ^ d"] by simp
  then show ?thesis
    using assms(3,4) parse_fixed_digits [OF nat_str_digits, of "m div 10 ^ d" d]
    by (metis (no_types, lifting) nat_str_nonempty str_nat_nat_str)
qed

context fixed_number_api
begin

lemma new_of_string_Inr:
  "new_of_string L s fmt = Inr b \<longleftrightarrow>
     parse_fixed s (case fmt of None \<Rightarrow> 18 | Some d \<Rightarrow> d) = Some (bd_fn b)"
  by (cases b) (auto simp: new_of_string_def fromString split: option.splits)

lemma fromFixedNumber_id:
  assumes "fn_decimals n \<le> 80" "in_range128 (fn_value n)" "fn_value n \<noteq> - (2 ^ 127)"
  shows "fromFixedNumber L n = Inr \<lparr>bd_fn = n\<rparr>"
  using parse_print [OF assms] by (simp add: fromFixedNumber_def new_of_string_Inr toString)

lemma addUnsafe_exact:
  assumes "bd_decimals a = bd_decimals b" "bd_decimals a \<le> 80"
    and "\<bar>bd_value a + bd_value b\<bar> < 2 ^ 127"
  shows "bd_addUnsafe L a b =
    Inr \<lparr>bd_fn = \<lparr>fn_value = bd_value a + bd_value b, fn_decimals = bd_decimals a\<rparr>\<rparr>"
proof -
  have "in_range128 (bd_value a + bd_value b)" using assms(3) by (auto simp: in_range128_def)
  then show ?thesis
    using assms addUnsafe [of "bd_fn a" "bd_fn b"] fromFixedNumber_id
    by (simp add: bd_addUnsafe_def abs_less_iff)
qed

lemma subUnsafe_exact:
  assumes "bd_decimals a = bd_decimals b" "bd_decimals a \<le> 80"
    and "\<bar>bd_value a - bd_value b\<bar> < 2 ^ 127"
  shows "bd_subUnsafe L a b =
    Inr \<lparr>bd_fn = \<lparr>fn_value = bd_value a - bd_value b, fn_decimals = bd_decimals a\<rparr>\<rparr>"
proof -
  have "in_range128 (bd_value a - bd_value b)" using assms(3) by (auto simp: in_range128_def)
  then show ?thesis
    using assms subUnsafe [of "bd_fn a" "bd_fn b"] fromFixedNumber_id
    by (simp add: bd_subUnsafe_def abs_less_iff)
qed

lemma toString_stripped:
  assumes "fn_decimals x = d" "d \<le> 80" "in_range128 (fn_value x)" "fn_value x \<noteq> - (2 ^ 127)"
    and ends: "js_endsWith (print_fixed x) ''.0''"
  shows "parse_fixed (js_substring (print_fixed x) 0 (length (print_fixed x) - 2)) d = Some x"
proof -
  let ?m = "nat \<bar>fn_value x\<bar>" and ?sg = "if fn_value x < 0 then ''-'' else []"
  let ?t = "js_substring (print_fixed x) 0 (length (print_fixed x) - 2)"
  have t: "?t @ ''.0'' = print_fixed x" by (rule strip_zero [OF ends])
  have d: "0 < d"
  proof (rule ccontr)
    assume "\<not> 0 < d"
    then have "print_fixed x = ?sg @ nat_str ?m" using assms(1) by (simp add: print_fixed_signed)
    then have "CHR ''.'' \<in> set (?sg @ nat_str ?m)"
      using t by (metis in_set_conv_decomp append_Cons)
    then show False using digits_no_point [OF nat_str_digits, of ?m] by (simp split: if_splits)
  qed
  have pr: "print_fixed x = (?sg @ nat_str (?m div 10 ^ d)) @ CHR ''.'' # print_frac ?m d"
    using d assms(1) by (simp add: print_fixed_signed)
  have np: "CHR ''.'' \<notin> set (?sg @ nat_str (?m div 10 ^ d))"
    using digits_no_point [OF nat_str_digits, of "?m div 10 ^ d"] by auto
  have np': "CHR ''.'' \<notin> set (print_frac ?m d)"
    by (rule digits_no_point [OF print_frac_digits])
  have eq: "(?sg @ nat_str (?m div 10 ^ d)) @ CHR ''.'' # print_frac ?m d = ?t @ CHR ''.'' # ''0''"
    using t pr by simp
  note split = iffD1 [OF append_Cons_eq_iff [OF np np'] eq, THEN conjunct1, symmetric]
    iffD1 [OF append_Cons_eq_iff [OF np np'] eq, THEN conjunct2]
  have m: "in_range128 (int ?m)" using in_range128_abs [OF assms(3,4)] by simp
  note mag = magnitude_stripped [OF d split(2) assms(2) m]
  show ?thesis
  proof (cases "fn_value x < 0")
    case True
    then have "in_range128 (- int ?m)" using assms(3) by simp
    with parse_fixed_neg [OF _ mag] not_minus [OF nat_str_digits, of "?m div 10 ^ d" "[]"]
    have "parse_fixed (CHR ''-'' # nat_str (?m div 10 ^ d)) d = Some \<lparr>fn_value = - int ?m, fn_decimals = d\<rparr>"
      by simp
    then show ?thesis using True assms(1) split(1) by (cases x) auto
  next
    case False
    then show ?thesis using mag assms(1) split(1) by (cases x) auto
  qed
qed

lemma toString_roundtrip:
  assumes "bd_decimals b \<le> 80" "in_range128 (bd_value b)" "bd_value b \<noteq> - (2 ^ 127)"
  shows "bd_fromString L (bd_toString L b) (Some (bd_decimals b)) = Inr b"
  using toString_stripped [OF refl assms] parse_print [OF assms]
  by (simp add: bd_fromString_def new_of_string_Inr bd_toString_def toString Let_def)

lemma setDecimals_whole:
  assumes "0 \<le> bd_value b" "bd_decimals b \<le> n" "n \<le> 80"
    and "in_range128 (bd_value b div 10 ^ bd_decimals b * 10 ^ n)"
  shows "setDecimals L b n =
    Inr \<lparr>bd_fn = \<lparr>fn_value = bd_value b div 10 ^ bd_decimals b * 10 ^ n, fn_decimals = n\<rparr>\<rparr>"
proof -
  let ?m = "nat (bd_value b)" and ?d = "bd_decimals b"
  have whole: "parse_fixed (nat_str (?m div 10 ^ ?d)) n =
      Some \<lparr>fn_value = bd_value b div 10 ^ ?d * 10 ^ n, fn_decimals = n\<rparr>"
    using assms parse_fixed_digits [OF nat_str_digits, of "?m div 10 ^ ?d" n]
    by (simp add: zdiv_int of_nat_power)
  have "\<not> n < length (print_frac ?m ?d)" if "?d \<noteq> 0"
    using print_frac_length [of ?d ?m] that assms(2) by simp
  then show ?thesis
    using whole split_print [OF assms(1)]
    by (auto simp: setDecimals_def toString Let_def bd_fromString_def new_of_string_Inr)
qed

lemma toLong_exact:
  assumes "0 \<le> bd_value b" "bd_value b < 2 ^ 63"
  shows "toLong L b = bd_value b"
proof (cases "bd_decimals b = 0")
  case True
  then show ?thesis
    using assms split_print [OF assms(1)] longFromString [OF nat_str_digits, of "nat (bd_value b)"]
    by (simp add: toLong_def splitNumber_def toString Let_def)
next
  case False
  let ?m = "nat (bd_value b)" and ?d = "bd_decimals b"
  let ?s = "nat_str (?m div 10 ^ ?d) @ frac_digits ?m ?d"
  have "str_nat ?s = ?m"
    using False by (simp add: str_nat_append frac_digits_length frac_digits_val div_mult_mod_eq)
  moreover have "list_all is_digit ?s"
    using nat_str_digits frac_digits_digits by simp
  ultimately show ?thesis
    using False assms split_print [OF assms(1)] longFromString [of ?s]
    by (simp add: toLong_def splitNumber_def toString Let_def print_frac_pad)
qed

lemma fromStringFixed_exact:
  assumes "list_all is_digit s" "s \<noteq> []" "decimals \<le> 80" "in_range128 (int (str_nat s))"
  shows "fromStringFixed L s decimals =
    Inr \<lparr>bd_fn = \<lparr>fn_value = int (str_nat s), fn_decimals = decimals\<rparr>\<rparr>"
proof (cases "length s < decimals")
  case True
  let ?f = "js_padStart s decimals (CHR ''0'')"
  have f: "list_all is_digit ?f" "length ?f = decimals" "str_nat (''0'' @ ?f) = str_nat s"
    using assms(1) True str_nat_append [of "''0''" ?f]
    by (auto simp: js_padStart_def str_nat_append list_all_iff simp del: append_Cons)
  then show ?thesis
    using True assms parse_fixed_point [of "''0''" ?f decimals]
    by (simp add: fromStringFixed_def new_of_string_Inr js_padEnd_def)
next
  case False
  let ?k = "length s - decimals"
  have sub: "js_substring s 0 ?k = take ?k s" "js_substring s ?k (length s) = drop ?k s"
    by (simp_all add: js_substring_def)
  have "str_nat (take ?k s @ drop ?k s) = str_nat s" by simp
  then show ?thesis
    using False assms(2-4) sub assms(1) parse_fixed_point [of "take ?k s" "drop ?k s" decimals]
    by (auto simp: fromStringFixed_def new_of_string_Inr Let_def js_padEnd_def list_all_iff
        dest: in_set_takeD in_set_dropD simp del: take_append drop_append)
qed

lemma isWithinRange_iff: "isWithinRange L v lo hi \<longleftrightarrow> bd_rat lo \<le> bd_rat v \<and> bd_rat v \<le> bd_rat hi"
  unfolding isWithinRange_def by (auto simp: order_iffs)

text \<open>Amounts that a contract returns as an integer are read exactly.\<close>

lemma fromStringFixed_int:
  assumes "0 \<le> v" "d \<le> 80" "in_range128 v"
  shows "fromStringFixed L (int_str v) d = Inr \<lparr>bd_fn = \<lparr>fn_value = v, fn_decimals = d\<rparr>\<rparr>"
  using fromStringFixed_exact [OF nat_str_digits nat_str_nonempty assms(2), of "nat v"] assms
  by (simp add: int_str_def)

lemma fromString_Inr:
  "bd_fromString L s (Some d) = Inr b \<longleftrightarrow> parse_fixed s d = Some (bd_fn b)"
  by (simp add: bd_fromString_def new_of_string_Inr)

lemma parse_fixed_fields:
  "parse_fixed s d = Some x \<Longrightarrow> fn_decimals x = d \<and> d \<le> 80 \<and> in_range128 (fn_value x)"
  unfolding parse_fixed_def Let_def by (simp only: option.inject split: if_split_asm) auto

lemma new_of_string_decimals:
  "new_of_string L s (Some d) = Inr b \<Longrightarrow> bd_decimals b = d \<and> d \<le> 80 \<and> in_range128 (bd_value b)"
  using parse_fixed_fields [of s d] by (simp add: new_of_string_Inr)

lemma fromString_rat:
  "bd_fromString L s fmt = Inr b \<Longrightarrow> bd_rat b = decimal_value s"
  by (auto simp: bd_fromString_def new_of_string_Inr dest: parse_fixed_value)

lemma floor_rat: "\<lfloor>bd_rat b\<rfloor> = bd_value b div 10 ^ bd_decimals b"
  using floor_divide_of_int_eq [of "bd_value b" "10 ^ bd_decimals b", where 'a = rat]
  by (simp add: fn_rat_def)

lemma addUnsafe_rat:
  assumes "bd_addUnsafe L a b = Inr r" "\<bar>bd_value a + bd_value b\<bar> < 2 ^ 127"
  shows "bd_rat r = bd_rat a + bd_rat b \<and> bd_decimals a = bd_decimals b
    \<and> bd_decimals r = bd_decimals a \<and> bd_value r = bd_value a + bd_value b \<and> bd_decimals a \<le> 80"
proof -
  have d: "bd_decimals a = bd_decimals b"
    using assms(1) addUnsafe_formats [of "bd_fn a" "bd_fn b"]
    by (cases "bd_decimals a = bd_decimals b") (auto simp: bd_addUnsafe_def)
  have "in_range128 (bd_value a + bd_value b)" using assms(2) by (auto simp: in_range128_def)
  then have "bd_decimals a \<le> 80"
    using assms(1) d addUnsafe [of "bd_fn a" "bd_fn b"] new_of_string_decimals
    by (auto simp: bd_addUnsafe_def fromFixedNumber_def)
  with addUnsafe_exact [OF d _ assms(2)] assms(1) d show ?thesis
    by (auto simp: fn_rat_def add_divide_distrib)
qed

lemma subUnsafe_rat:
  assumes "bd_subUnsafe L a b = Inr r" "\<bar>bd_value a - bd_value b\<bar> < 2 ^ 127"
  shows "bd_rat r = bd_rat a - bd_rat b \<and> bd_decimals a = bd_decimals b"
proof -
  have d: "bd_decimals a = bd_decimals b"
    using assms(1) subUnsafe_formats [of "bd_fn a" "bd_fn b"]
    by (cases "bd_decimals a = bd_decimals b") (auto simp: bd_subUnsafe_def)
  have "in_range128 (bd_value a - bd_value b)" using assms(2) by (auto simp: in_range128_def)
  then have "bd_decimals a \<le> 80"
    using assms(1) d subUnsafe [of "bd_fn a" "bd_fn b"] new_of_string_decimals
    by (auto simp: bd_subUnsafe_def fromFixedNumber_def)
  with subUnsafe_exact [OF d _ assms(2)] assms(1) d show ?thesis
    by (auto simp: fn_rat_def diff_divide_distrib)
qed

end

end
