(* ===== verification/Fees_Holds.thy ===== *)
theory Fees_Holds
  imports Big_Decimal Ids
begin

text \<open>
  Custom fees (\<open>sdk/src/domain/context/fee/CustomFee.ts\<close>, with the request forms of
  \<open>port/in/request/BaseRequest.ts\<close>) and holds (\<open>domain/context/hold/Hold.ts\<close>). The fee objects
  of the Hedera SDK are the values that the setters put in them (\<open>h_custom_fee\<close>).
\<close>

section \<open>Custom fees\<close>

definition MAX_CUSTOM_FEES :: nat where "MAX_CUSTOM_FEES = 10"
definition MAX_PERCENTAGE_DECIMALS :: nat where "MAX_PERCENTAGE_DECIMALS = 2"

record custom_fee_base =
  cf_collectorId :: "hedera_id option"
  cf_collectorsExempt :: "bool option"

record fractional_fee = custom_fee_base +
  ff_numerator :: "int option"
  ff_denominator :: "int option"
  ff_min :: "big_decimal option"
  ff_max :: "big_decimal option"
  ff_net :: "bool option"

record fixed_fee = custom_fee_base +
  xf_amount :: "big_decimal option"
  xf_tokenId :: "hedera_id option"

datatype custom_fee = FixedFee fixed_fee | FractionalFee fractional_fee

fun fee_collectorId :: "custom_fee \<Rightarrow> hedera_id option" where
  "fee_collectorId (FixedFee f) = cf_collectorId f"
| "fee_collectorId (FractionalFee f) = cf_collectorId f"

text \<open>The constructors; \<open>if (net) this.net = net\<close> leaves a false
  \<open>net\<close> undefined. A numerator or denominator \<open>None\<close> is \<open>NaN\<close>.\<close>

definition new_FractionalFee ::
  "hedera_id \<Rightarrow> int option \<Rightarrow> int option \<Rightarrow> big_decimal option \<Rightarrow> big_decimal option \<Rightarrow> bool option \<Rightarrow>
     bool option \<Rightarrow> custom_fee" where
  "new_FractionalFee collectorId num den mn mx net exempt =
     FractionalFee
       \<lparr>cf_collectorId = Some collectorId,
        cf_collectorsExempt = Some (case exempt of None \<Rightarrow> True | Some b \<Rightarrow> b),
        ff_numerator = num, ff_denominator = den, ff_min = mn, ff_max = mx,
        ff_net = (if net = Some True then net else None)\<rparr>"

definition new_FixedFee :: "hedera_id \<Rightarrow> big_decimal \<Rightarrow> hedera_id \<Rightarrow> bool \<Rightarrow> custom_fee" where
  "new_FixedFee collectorId amount tokenId exempt =
     FixedFee \<lparr>cf_collectorId = Some collectorId, cf_collectorsExempt = Some exempt,
               xf_amount = Some amount, xf_tokenId = Some tokenId\<rparr>"

datatype h_custom_fee =
    HCustomFixedFee (h_amount: int) (h_collector: string) (h_exempt: bool)
      (h_denominating: "string option")
  | HCustomFractionalFee (h_numerator: int) (h_denominator: int) (h_min: int) (h_max: "int option")
      (h_net: bool) (h_collector: string) (h_exempt: bool)

definition collector_string :: "hedera_id option \<Rightarrow> string" where
  "collector_string c = id_value (case c of None \<Rightarrow> HederaId_NULL | Some i \<Rightarrow> i)"

fun toHCustomFee :: "fixed_number_lib \<Rightarrow> custom_fee \<Rightarrow> h_custom_fee" where
  "toHCustomFee L (FixedFee f) =
     HCustomFixedFee
       (case xf_amount f of None \<Rightarrow> 0 | Some a \<Rightarrow> toLong L a)
       (collector_string (cf_collectorId f))
       (case cf_collectorsExempt f of None \<Rightarrow> False | Some b \<Rightarrow> b)
       (case xf_tokenId f of None \<Rightarrow> None | Some t \<Rightarrow> if id_isNull t then None else Some (id_value t))"
| "toHCustomFee L (FractionalFee f) =
     HCustomFractionalFee
       (case ff_numerator f of None \<Rightarrow> 0 | Some n \<Rightarrow> n)
       (case ff_denominator f of None \<Rightarrow> 0 | Some n \<Rightarrow> n)
       (case ff_min f of None \<Rightarrow> 0 | Some b \<Rightarrow> toLong L b)
       (case ff_max f of None \<Rightarrow> None | Some b \<Rightarrow> Some (toLong L b))
       (case ff_net f of None \<Rightarrow> False | Some b \<Rightarrow> b)
       (collector_string (cf_collectorId f))
       (case cf_collectorsExempt f of None \<Rightarrow> False | Some b \<Rightarrow> b)"

definition fromCustomFeesToHCustomFees ::
  "fixed_number_lib \<Rightarrow> custom_fee list option \<Rightarrow> h_custom_fee list" where
  "fromCustomFeesToHCustomFees L customFees =
     (case customFees of None \<Rightarrow> [] | Some fs \<Rightarrow> map (toHCustomFee L) fs)"

section \<open>Fees of the contract interface\<close>

datatype sc_fee =
    SC_FixedFee (sc_amount: int) (sc_tokenId: string) (sc_useHbars: bool) (sc_useCurrent: bool)
      (sc_collector: string)
  | SC_FractionalFee (sc_numerator: int) (sc_denominator: int) (sc_minimum: int)
      (sc_maximum: int) (sc_net: bool) (sc_collector: string)

text \<open>\<open>solidity\<close> is \<open>toSolidityAddress\<close> of the SDK's token id.\<close>

fun fromHCustomFeeToSCFee ::
  "(string \<Rightarrow> string) \<Rightarrow> h_custom_fee \<Rightarrow> string \<Rightarrow> string \<Rightarrow> sc_fee" where
  "fromHCustomFeeToSCFee solidity (HCustomFixedFee a c x den) currentTokenId feeCollector =
     (let tokenId =
            (case den of
               None \<Rightarrow> EVM_ZERO_ADDRESS
             | Some t \<Rightarrow> if t \<noteq> ''0.0.0'' then toEvmAddress (solidity t) else EVM_ZERO_ADDRESS);
          useHbars = (tokenId = EVM_ZERO_ADDRESS);
          useCurrent = (\<not> useHbars \<and> den = Some currentTokenId)
      in SC_FixedFee a tokenId useHbars useCurrent feeCollector)"
| "fromHCustomFeeToSCFee solidity (HCustomFractionalFee n d mn mx net c x) currentTokenId feeCollector =
     SC_FractionalFee n d mn (case mx of None \<Rightarrow> 0 | Some m \<Rightarrow> m) net feeCollector"

section \<open>Fees of a request\<close>

record request_fee =
  rf_collectorId :: string
  rf_collectorsExempt :: bool
  rf_decimals :: nat
  rf_amount :: "string option"            \<comment> \<open>present in a fixed fee\<close>
  rf_tokenIdCollected :: "string option"
  rf_amountNumerator :: "string option"   \<comment> \<open>present in a fractional fee\<close>
  rf_amountDenominator :: string
  rf_percentage :: string
  rf_min :: string
  rf_max :: string
  rf_net :: bool

definition isRequestFractionalFee :: "request_fee \<Rightarrow> bool" where
  "isRequestFractionalFee fee \<longleftrightarrow> rf_amountNumerator fee \<noteq> None"

definition isRequestFixedFee :: "request_fee \<Rightarrow> bool" where
  "isRequestFixedFee fee \<longleftrightarrow> rf_amount fee \<noteq> None"

text \<open>\<open>parseInt(s)\<close>: leading blanks, a sign, a hexadecimal prefix, then digits; \<open>None\<close> is \<open>NaN\<close>.\<close>

definition js_parseInt :: "string \<Rightarrow> int option" where
  "js_parseInt s =
     (let s1 = dropWhile is_blank s;
          neg = js_startsWith s1 ''-'';
          s2 = (if neg \<or> js_startsWith s1 ''+'' then drop 1 s1 else s1);
          hex = js_startsWith s2 ''0x'' \<or> js_startsWith s2 ''0X'';
          ds = (if hex then takeWhile is_hex (drop 2 s2) else takeWhile is_digit s2);
          v = int (if hex then foldl (\<lambda>a c. 16 * a + hex_val c) 0 ds else str_nat ds)
      in if ds = [] then None else Some (if neg then - v else v))"

definition toCustomFee :: "fixed_number_lib \<Rightarrow> request_fee \<Rightarrow> custom_fee option result" where
  "toCustomFee L fee =
     (case rf_amount fee of
        Some amount \<Rightarrow>
          bindR (HederaId_from (Some (rf_collectorId fee))) (\<lambda>collector.
          bindR (bd_fromString L amount (Some (rf_decimals fee))) (\<lambda>a.
          bindR (HederaId_from (rf_tokenIdCollected fee)) (\<lambda>token.
            Inr (Some (new_FixedFee collector a token (rf_collectorsExempt fee))))))
      | None \<Rightarrow>
          (case rf_amountNumerator fee of
             None \<Rightarrow> Inr None
           | Some num \<Rightarrow>
               bindR (HederaId_from (Some (rf_collectorId fee))) (\<lambda>collector.
               bindR (bd_fromString L (rf_min fee) (Some (rf_decimals fee))) (\<lambda>mn.
               bindR (bd_fromString L (rf_max fee) (Some (rf_decimals fee))) (\<lambda>mx.
                 Inr (Some (new_FractionalFee collector (js_parseInt num)
                   (js_parseInt (rf_amountDenominator fee)) (Some mn) (Some mx)
                   (Some (rf_net fee)) (Some (rf_collectorsExempt fee)))))))))"

definition toCustomFees ::
  "fixed_number_lib \<Rightarrow> request_fee list option \<Rightarrow> custom_fee list option result" where
  "toCustomFees L customFees =
     (case customFees of
        None \<Rightarrow> Inr None
      | Some fs \<Rightarrow> bindR (mapR (toCustomFee L) fs) (\<lambda>cs. Inr (Some (List.map_filter id cs))))"

section \<open>Holds\<close>

record hold =
  hold_amount :: int
  hold_expiration :: int
  hold_escrow :: hedera_id
  hold_to :: hedera_id
  hold_data :: string

text \<open>A missing or zero bound counts as absent.\<close>

definition hold_checkExpirationTimestamp :: "int \<Rightarrow> int option \<Rightarrow> int option \<Rightarrow> js_error list" where
  "hold_checkExpirationTimestamp value minTimeStamp maxTimeStamp =
     (let minDate = (case minTimeStamp of None \<Rightarrow> 0 | Some t \<Rightarrow> t);
          maxDate = (case maxTimeStamp of None \<Rightarrow> 0 | Some t \<Rightarrow> t)
      in if value < minDate \<or> (maxDate \<noteq> 0 \<and> maxDate < value)
         then [DomainError (InvalidExpirationTimestamp value minDate maxDate)] else [])"

record hold_identifier =
  hi_tokenHolder :: string
  hi_holdId :: int

record hold_details =
  hd_expirationTimeStamp :: int
  hd_amount :: big_decimal
  hd_escrowAddress :: string
  hd_tokenHolderAddress :: string
  hd_destinationAddress :: string
  hd_data :: string

definition HoldDetails_empty :: hold_details where
  "HoldDetails_empty =
     \<lparr>hd_expirationTimeStamp = 0, hd_amount = bd_ZERO, hd_escrowAddress = EVM_ZERO_ADDRESS,
      hd_tokenHolderAddress = EVM_ZERO_ADDRESS, hd_destinationAddress = EVM_ZERO_ADDRESS,
      hd_data = ''0x''\<rparr>"

section \<open>Lemmas\<close>

lemma fromCustomFees_length [simp]:
  "length (fromCustomFeesToHCustomFees L fs) = (case fs of None \<Rightarrow> 0 | Some l \<Rightarrow> length l)"
  by (simp add: fromCustomFeesToHCustomFees_def split: option.splits)

lemma toHCustomFee_collector: "h_collector (toHCustomFee L f) = collector_string (fee_collectorId f)"
  by (cases f) simp_all

lemma SC_useCurrent_excl: "sc_useHbars (fromHCustomFeeToSCFee sol (HCustomFixedFee a c x d) t k) \<Longrightarrow>
    \<not> sc_useCurrent (fromHCustomFeeToSCFee sol (HCustomFixedFee a c x d) t k)"
  by (simp add: Let_def split: option.splits)

end
