(* ===== verification/Stable_Coin.thy ===== *)
theory Stable_Coin
  imports Fees_Holds
begin

text \<open>
  The stablecoin entity, \<open>sdk/src/domain/context/stablecoin/StableCoin.ts\<close>, with its memo, its
  roles and the token enumerations of the same directory. \<open>stable_coin\<close> is both the class and the
  \<open>StableCoinProps\<close> that its constructor reads, as the class implements that interface; the
  constructor \<open>new_StableCoin\<close> fills the missing fields. The static checks return the list of
  errors that the source collects; they throw where the decimal library throws.
\<close>

datatype token_type = FUNGIBLE_COMMON | NON_FUNGIBLE_UNIQUE
datatype token_supply_type = FINITE | INFINITE

definition MAX_SUPPLY :: int where "MAX_SUPPLY = 9223372036854775807"
definition AUTO_RENEW_PERIOD_MIN :: int where "AUTO_RENEW_PERIOD_MIN = 30"
definition AUTO_RENEW_PERIOD_MAX :: int where "AUTO_RENEW_PERIOD_MAX = 92"
definition EXPIRATION_TIME_MIN :: int where "EXPIRATION_TIME_MIN = 1"
definition EXPIRATION_TIME_MAX :: int where "EXPIRATION_TIME_MAX = 730"
definition RESERVE_DECIMALS :: nat where "RESERVE_DECIMALS = 2"

section \<open>Memo\<close>

text \<open>
  \<open>fromJson\<close> reads the property \<open>p\<close> of the parsed object, while \<open>empty\<close> and \<open>toJson\<close> write the
  property \<open>proxyContract\<close>; \<open>JSON.stringify\<close> omits an undefined property.
\<close>

record stable_coin_memo =
  memo_proxyContract :: "string option"

type_synonym json_object = "string \<rightharpoonup> string"

definition StableCoinMemo_fromJson :: "json_object \<Rightarrow> stable_coin_memo" where
  "StableCoinMemo_fromJson jsonObject = \<lparr>memo_proxyContract = jsonObject ''p''\<rparr>"

definition StableCoinMemo_toJson :: "stable_coin_memo \<Rightarrow> json_object" where
  "StableCoinMemo_toJson m =
     (case memo_proxyContract m of None \<Rightarrow> Map.empty | Some c \<Rightarrow> [''proxyContract'' \<mapsto> c])"

definition StableCoinMemo_empty :: stable_coin_memo where
  "StableCoinMemo_empty = StableCoinMemo_fromJson [''proxyContract'' \<mapsto> []]"

text \<open>The text of an object without properties.\<close>

definition EMPTY_MEMO :: string where
  "EMPTY_MEMO = (if StableCoinMemo_toJson StableCoinMemo_empty ''proxyContract'' = None then ''{}'' else [])"

section \<open>Roles\<close>

datatype stable_coin_role =
    CASHIN_ROLE | BURN_ROLE | WIPE_ROLE | RESCUE_ROLE | PAUSE_ROLE | FREEZE_ROLE | DELETE_ROLE
  | DEFAULT_ADMIN_ROLE | WITHOUT_ROLE | KYC_ROLE | CUSTOM_FEES_ROLE | HOLD_CREATOR_ROLE

fun role_hash :: "stable_coin_role \<Rightarrow> string" where
  "role_hash CASHIN_ROLE = ''0x53300d27a2268d3ff3ecb0ec8e628321ecfba1a08aed8b817e8acf589a52d25c''"
| "role_hash BURN_ROLE = ''0xe97b137254058bd94f28d2f3eb79e2d34074ffb488d042e3bc958e0a57d2fa22''"
| "role_hash WIPE_ROLE = ''0x515f99f4e5a381c770462a8d9879a01f0fd4a414a168a2404dab62a62e1af0c3''"
| "role_hash RESCUE_ROLE = ''0x43f433f336cda92fbbe5bfbdd344a9fd79b2ef138cd6e6fc49d55e2f54e1d99a''"
| "role_hash PAUSE_ROLE = ''0x139c2898040ef16910dc9f44dc697df79363da767d8bc92f2e310312b816e46d''"
| "role_hash FREEZE_ROLE = ''0x5789b43a60de35bcedee40618ae90979bab7d1315fd4b079234241bdab19936d''"
| "role_hash DELETE_ROLE = ''0x2b73f0f98ad60ca619bbdee4bcd175da1127db86346339f8b718e3f8b4a006e2''"
| "role_hash DEFAULT_ADMIN_ROLE = ''0x0000000000000000000000000000000000000000000000000000000000000000''"
| "role_hash WITHOUT_ROLE = ''0xe11b25922c3ff9f0f0a34f0b8929ac96a1f215b99dcb08c2891c220cf3a7e8cc''"
| "role_hash KYC_ROLE = ''0xdb11624602202c396fa347735a55e345a3aeb3e60f8885e1a71f1bf8d5886db7''"
| "role_hash CUSTOM_FEES_ROLE = ''0x6db8586688d24c6a6367d21f709d650b12a2a61dd75e834bd8cd90fd6afa794b''"
| "role_hash HOLD_CREATOR_ROLE = ''0xa0edc074322e33cf8b82b4182ff2827f0fef9412190f0e8417c2669a1e8747e4''"

definition MAX_ACCOUNTS_ROLES :: nat where "MAX_ACCOUNTS_ROLES = 10"

fun StableCoinRoleLabel :: "stable_coin_role \<Rightarrow> string" where
  "StableCoinRoleLabel CASHIN_ROLE = ''Cash in''"
| "StableCoinRoleLabel BURN_ROLE = ''Burn''"
| "StableCoinRoleLabel WIPE_ROLE = ''Wipe''"
| "StableCoinRoleLabel RESCUE_ROLE = ''Rescue''"
| "StableCoinRoleLabel PAUSE_ROLE = ''Pause''"
| "StableCoinRoleLabel FREEZE_ROLE = ''Freeze''"
| "StableCoinRoleLabel DELETE_ROLE = ''Delete''"
| "StableCoinRoleLabel DEFAULT_ADMIN_ROLE = ''Admin''"
| "StableCoinRoleLabel WITHOUT_ROLE = ''Without''"
| "StableCoinRoleLabel KYC_ROLE = ''KYC''"
| "StableCoinRoleLabel CUSTOM_FEES_ROLE = ''Custom Fees''"
| "StableCoinRoleLabel HOLD_CREATOR_ROLE = ''Hold''"

section \<open>The entity\<close>

record stable_coin =
  sc_name :: string
  sc_symbol :: string
  sc_decimals :: nat
  sc_adminKey :: "token_key option"
  sc_initialSupply :: "big_decimal option"
  sc_totalSupply :: "big_decimal option"
  sc_maxSupply :: "big_decimal option"
  sc_memo :: "string option"
  sc_proxyAddress :: "hedera_id option"
  sc_evmProxyAddress :: "evm_address option"
  sc_freezeKey :: "token_key option"
  sc_freezeDefault :: "bool option"
  sc_kycKey :: "token_key option"
  sc_wipeKey :: "token_key option"
  sc_pauseKey :: "token_key option"
  sc_feeScheduleKey :: "token_key option"
  sc_paused :: "bool option"
  sc_supplyKey :: "token_key option"
  sc_treasury :: "hedera_id option"
  sc_tokenType :: "token_type option"
  sc_supplyType :: "token_supply_type option"
  sc_tokenId :: "hedera_id option"
  sc_autoRenewAccount :: "hedera_id option"
  sc_autoRenewPeriod :: "int option"
  sc_expirationTimestamp :: "int option"
  sc_deleted :: "bool option"
  sc_customFees :: "custom_fee list option"
  sc_burnRoleAccount :: "hedera_id option"
  sc_wipeRoleAccount :: "hedera_id option"
  sc_rescueRoleAccount :: "hedera_id option"
  sc_pauseRoleAccount :: "hedera_id option"
  sc_freezeRoleAccount :: "hedera_id option"
  sc_deleteRoleAccount :: "hedera_id option"
  sc_kycRoleAccount :: "hedera_id option"
  sc_cashInRoleAccount :: "hedera_id option"
  sc_feeRoleAccount :: "hedera_id option"
  sc_holdCreatorRoleAccount :: "hedera_id option"
  sc_cashInRoleAllowance :: "big_decimal option"
  sc_metadata :: "string option"

text \<open>The properties object with the required properties only.\<close>

definition minimal_props :: "string \<Rightarrow> string \<Rightarrow> nat \<Rightarrow> stable_coin" where
  "minimal_props name symbol decimals =
     \<lparr>sc_name = name, sc_symbol = symbol, sc_decimals = decimals,
      sc_adminKey = None, sc_initialSupply = None, sc_totalSupply = None, sc_maxSupply = None,
      sc_memo = None, sc_proxyAddress = None, sc_evmProxyAddress = None, sc_freezeKey = None,
      sc_freezeDefault = None, sc_kycKey = None, sc_wipeKey = None, sc_pauseKey = None,
      sc_feeScheduleKey = None, sc_paused = None, sc_supplyKey = None, sc_treasury = None,
      sc_tokenType = None, sc_supplyType = None, sc_tokenId = None, sc_autoRenewAccount = None,
      sc_autoRenewPeriod = None, sc_expirationTimestamp = None, sc_deleted = None, sc_customFees =
      None, sc_burnRoleAccount = None, sc_wipeRoleAccount = None, sc_rescueRoleAccount = None,
      sc_pauseRoleAccount = None, sc_freezeRoleAccount = None, sc_deleteRoleAccount = None,
      sc_kycRoleAccount = None, sc_cashInRoleAccount = None, sc_feeRoleAccount = None,
      sc_holdCreatorRoleAccount = None, sc_cashInRoleAllowance = None, sc_metadata = None\<rparr>"

text \<open>\<open>x ?? d\<close>\<close>

definition orElse :: "'a option \<Rightarrow> 'a \<Rightarrow> 'a option" where
  "orElse x d = (case x of None \<Rightarrow> Some d | Some y \<Rightarrow> Some y)"

definition new_StableCoin :: "fixed_number_lib \<Rightarrow> stable_coin \<Rightarrow> stable_coin" where
  "new_StableCoin L p =
     p \<lparr>sc_initialSupply := orElse (sc_initialSupply p) bd_ZERO,
        sc_totalSupply := orElse (sc_totalSupply p) bd_ZERO,
        sc_memo := (case sc_memo p of None \<Rightarrow> Some EMPTY_MEMO
                    | Some m \<Rightarrow> if m = [] then Some EMPTY_MEMO else Some m),
        sc_freezeDefault := orElse (sc_freezeDefault p) False,
        sc_tokenType := orElse (sc_tokenType p) FUNGIBLE_COMMON,
        sc_supplyType :=
          (case sc_supplyType p of Some t \<Rightarrow> Some t
           | None \<Rightarrow> (case sc_maxSupply p of
               Some m \<Rightarrow> if isGreaterThan L m bd_ZERO then Some FINITE else Some INFINITE
             | None \<Rightarrow> Some INFINITE)),
        sc_tokenId := orElse (sc_tokenId p) HederaId_NULL,
        sc_autoRenewAccount := orElse (sc_autoRenewAccount p) HederaId_NULL,
        sc_autoRenewPeriod := orElse (sc_autoRenewPeriod p) 0,
        sc_expirationTimestamp := orElse (sc_expirationTimestamp p) 0,
        sc_paused := orElse (sc_paused p) False,
        sc_deleted := orElse (sc_deleted p) False,
        sc_burnRoleAccount := orElse (sc_burnRoleAccount p) HederaId_NULL,
        sc_wipeRoleAccount := orElse (sc_wipeRoleAccount p) HederaId_NULL,
        sc_rescueRoleAccount := orElse (sc_rescueRoleAccount p) HederaId_NULL,
        sc_freezeRoleAccount := orElse (sc_freezeRoleAccount p) HederaId_NULL,
        sc_pauseRoleAccount := orElse (sc_pauseRoleAccount p) HederaId_NULL,
        sc_deleteRoleAccount := orElse (sc_deleteRoleAccount p) HederaId_NULL,
        sc_kycRoleAccount := orElse (sc_kycRoleAccount p) HederaId_NULL,
        sc_cashInRoleAccount := orElse (sc_cashInRoleAccount p) HederaId_NULL,
        sc_feeRoleAccount := orElse (sc_feeRoleAccount p) HederaId_NULL,
        sc_holdCreatorRoleAccount := orElse (sc_holdCreatorRoleAccount p) HederaId_NULL\<rparr>"

section \<open>Checks of the fields\<close>

definition checkName :: "string \<Rightarrow> js_error list" where
  "checkName value =
     (if \<not> isNotEmpty (Some value) then [DomainError NameEmpty] else []) @
     (if \<not> isLengthUnder value 100 then [DomainError (NameLength value 100)] else [])"

definition checkSymbol :: "string \<Rightarrow> js_error list" where
  "checkSymbol value =
     (if \<not> isNotEmpty (Some value) then [DomainError SymbolEmpty] else []) @
     (if \<not> isLengthUnder value 100 then [DomainError (SymbolLength value 100)] else [])"

definition checkDecimals :: "fixed_number_lib \<Rightarrow> int \<Rightarrow> js_error list result" where
  "checkDecimals L value =
     bindR (hasMoreDecimals L (int_str value) 0) (\<lambda>more. Inr (
       (if more then [RequestError (InvalidType (int_str value))] else []) @
       (if \<not> (value \<le> 18 \<and> 0 \<le> value)
        then [DomainError (InvalidDecimalRange (int_str value) 0 (Some 18))] else [])))"

text \<open>\<open>BigDecimal.fromValue(MAX_SUPPLY, decimals, decimals)\<close>\<close>

definition maxSupply_of :: "fixed_number_lib \<Rightarrow> nat \<Rightarrow> big_decimal result" where
  "maxSupply_of L decimals = bd_fromValue L MAX_SUPPLY (Some decimals) (Some decimals)"

definition checkInitialSupply ::
  "fixed_number_lib \<Rightarrow> big_decimal \<Rightarrow> nat \<Rightarrow> big_decimal option \<Rightarrow> js_error list result" where
  "checkInitialSupply L initialSupply decimals maxSupply =
     bindR (case maxSupply of Some m \<Rightarrow> Inr m | None \<Rightarrow> maxSupply_of L decimals) (\<lambda>hi. Inr (
       if \<not> isWithinRange L initialSupply bd_ZERO hi
       then [DomainError (InitSupplyInvalid (bd_toString L initialSupply)
              (case maxSupply of Some _ \<Rightarrow> None
               | None \<Rightarrow> Some (bd_toString L hi @
                   ''. You could check the limits here: https://docs.hedera.com/guides/docs/hedera-api/token-service/tokencreate'')))]
       else []))"

definition checkCashInAllowance ::
  "fixed_number_lib \<Rightarrow> big_decimal \<Rightarrow> nat \<Rightarrow> js_error list result" where
  "checkCashInAllowance L cashInAllowance decimals =
     bindR (maxSupply_of L decimals) (\<lambda>hi. Inr (
       if \<not> isWithinRange L cashInAllowance bd_ZERO hi
       then [DomainError (CashInAllowanceInvalid (bd_toString L cashInAllowance))] else []))"

definition checkSupplyType ::
  "fixed_number_lib \<Rightarrow> big_decimal \<Rightarrow> token_supply_type option \<Rightarrow> js_error list" where
  "checkSupplyType L maxSupply supplyType =
     (if supplyType = Some INFINITE \<and> isGreaterThan L maxSupply bd_ZERO
      then [DomainError (InvalidMaxSupplySupplyType (bd_toString L maxSupply))] else [])"

definition checkMaxSupply ::
  "fixed_number_lib \<Rightarrow> big_decimal \<Rightarrow> nat \<Rightarrow> big_decimal option \<Rightarrow> token_supply_type option \<Rightarrow>
     js_error list result" where
  "checkMaxSupply L maxSupply decimals initialSupply supplyType =
     (let lo = (case initialSupply of Some i \<Rightarrow> i | None \<Rightarrow> bd_ZERO) in
      bindR (maxSupply_of L decimals) (\<lambda>hi. Inr (
        (if isLowerThan L maxSupply lo
         then (if bd_isZero L lo
               then [DomainError (InvalidAmount (bd_toString L maxSupply) (bd_toString L lo))]
               else [DomainError (InitSupplyLargerThanMaxSupply (bd_toString L lo) (bd_toString L maxSupply))])
         else []) @
        (if isGreaterThan L maxSupply hi
         then [DomainError (MaxSupplyOverLimit (bd_toString L maxSupply) (bd_toString L hi))] else []) @
        checkSupplyType L maxSupply supplyType)))"

definition checkReserveInitialAmount ::
  "fixed_number_lib \<Rightarrow> big_decimal \<Rightarrow> nat \<Rightarrow> big_decimal option \<Rightarrow> js_error list result" where
  "checkReserveInitialAmount L amount decimals initialSupply =
     (let lo = (case initialSupply of Some i \<Rightarrow> i | None \<Rightarrow> bd_ZERO) in
      bindR (maxSupply_of L decimals) (\<lambda>hi. Inr (
        if \<not> isWithinRange L amount lo hi
        then [DomainError (InitSupplyLargerThanReserveAmount (bd_toString L lo) (bd_toString L amount))]
        else [])))"

definition checkReserveAmount :: "fixed_number_lib \<Rightarrow> big_decimal \<Rightarrow> nat \<Rightarrow> js_error list result" where
  "checkReserveAmount L amount decimals =
     bindR (maxSupply_of L decimals) (\<lambda>hi. Inr (
       (if isLowerThan L amount bd_ZERO
        then [DomainError (InvalidAmount (bd_toString L amount) (bd_toString L bd_ZERO))] else []) @
       (if isGreaterThan L amount hi
        then [DomainError (ReserveAmountOverLimit (bd_toString L amount) (bd_toString L hi))] else [])))"

definition checkMemo :: "string \<Rightarrow> js_error list" where
  "checkMemo value =
     (if isNotEmpty (Some value) \<and> \<not> isLengthUnder value 100
      then [DomainError (MemoLength value 100)] else [])"

text \<open>
  \<open>now\<close> is the clock in milliseconds; the value is a nanosecond timestamp of 19 digits. A day of
  the calendar is 86400000 milliseconds (a UTC clock), and the quotient by 10^6 is cut to
  milliseconds as \<open>Date\<close> does.
\<close>

definition coin_checkExpirationTimestamp :: "int \<Rightarrow> string \<Rightarrow> js_error list" where
  "coin_checkExpirationTimestamp now value =
     (if \<not> (list_all is_digit value \<and> length value = 19) then [RequestError (InvalidType value)]
      else (let date = int (str_nat value) div 1000000;
                minDate = now + EXPIRATION_TIME_MIN * 86400000;
                maxDate = now + EXPIRATION_TIME_MAX * 86400000
            in if date < minDate \<or> maxDate < date
               then [DomainError (InvalidExpirationTimestamp date minDate maxDate)] else []))"

text \<open>\<open>Number(value)\<close> on a string of digits; the empty string is 0, other strings count as \<open>NaN\<close>.\<close>

definition js_Number :: "string \<Rightarrow> int option" where
  "js_Number s = (if list_all is_digit s then Some (int (str_nat s)) else None)"

definition checkAutoRenewPeriod :: "string \<Rightarrow> js_error list" where
  "checkAutoRenewPeriod value =
     (case js_Number value of
        None \<Rightarrow> [RequestError (InvalidType value)]
      | Some n \<Rightarrow>
          if n mod 86400 \<noteq> 0 then [RequestError (InvalidType value)]
          else (let v = n div 86400 in
            if \<not> (v \<le> AUTO_RENEW_PERIOD_MAX \<and> AUTO_RENEW_PERIOD_MIN \<le> v)
            then [DomainError (InvalidAutoRenewPeriod v AUTO_RENEW_PERIOD_MIN AUTO_RENEW_PERIOD_MAX)]
            else []))"

section \<open>Lemmas\<close>

lemma supplyType_set: "sc_supplyType (new_StableCoin L p) \<noteq> None"
  by (simp add: new_StableCoin_def split: option.splits)

lemma totalSupply_set: "sc_totalSupply (new_StableCoin L p) = orElse (sc_totalSupply p) bd_ZERO"
  by (simp add: new_StableCoin_def)

lemma orElse_simps [simp]: "orElse (Some x) d = Some x" "orElse None d = Some d" "orElse v d \<noteq> None"
  by (simp_all add: orElse_def split: option.splits)

lemma EMPTY_MEMO_eq: "EMPTY_MEMO = ''{}''"
  by (simp add: EMPTY_MEMO_def StableCoinMemo_toJson_def StableCoinMemo_empty_def
      StableCoinMemo_fromJson_def)

lemma orElse_idem [simp]: "orElse (orElse v d) d = orElse v d"
  by (cases v) simp_all

lemma new_StableCoin_idem: "new_StableCoin L (new_StableCoin L p) = new_StableCoin L p"
  by (cases "sc_memo p"; cases "sc_supplyType p"; cases "sc_maxSupply p")
    (simp_all add: new_StableCoin_def EMPTY_MEMO_eq)

context fixed_number_api
begin

lemma maxSupply_Inr:
  "d \<le> 80 \<Longrightarrow> maxSupply_of L d = Inr \<lparr>bd_fn = \<lparr>fn_value = MAX_SUPPLY, fn_decimals = d\<rparr>\<rparr>"
  using fromValue [of d d MAX_SUPPLY]
  by (simp add: maxSupply_of_def bd_fromValue_def new_of_value_def MAX_SUPPLY_def in_range128_def)

lemma rat_ZERO [simp]: "bd_rat bd_ZERO = 0"
  by (simp add: bd_ZERO_def fn_rat_def)

text \<open>The greatest supply of a token with \<open>d\<close> decimals, as a number.\<close>

lemma rat_maxSupply: "fn_rat \<lparr>fn_value = MAX_SUPPLY, fn_decimals = d\<rparr> = 9223372036854775807 / 10 ^ d"
  by (simp add: fn_rat_def MAX_SUPPLY_def)

lemma checkInitialSupply_ok:
  assumes "d \<le> 80"
  shows "checkInitialSupply L b d m = Inr [] \<longleftrightarrow>
    0 \<le> bd_rat b \<and> bd_rat b \<le> (case m of None \<Rightarrow> 9223372036854775807 / 10 ^ d | Some x \<Rightarrow> bd_rat x)"
  using assms
  by (cases m) (simp_all add: checkInitialSupply_def maxSupply_Inr isWithinRange_iff rat_maxSupply)

lemma checkMaxSupply_ok:
  assumes "d \<le> 80"
  shows "checkMaxSupply L b d i t = Inr [] \<longleftrightarrow>
    (case i of None \<Rightarrow> 0 | Some x \<Rightarrow> bd_rat x) \<le> bd_rat b \<and>
    bd_rat b \<le> 9223372036854775807 / 10 ^ d \<and> (t = Some INFINITE \<longrightarrow> bd_rat b \<le> 0)"
  using assms
  by (cases i) (auto simp add: checkMaxSupply_def checkSupplyType_def maxSupply_Inr order_iffs rat_maxSupply Let_def)

lemma checkReserveInitialAmount_ok:
  assumes "d \<le> 80"
  shows "checkReserveInitialAmount L b d i = Inr [] \<longleftrightarrow>
    (case i of None \<Rightarrow> 0 | Some x \<Rightarrow> bd_rat x) \<le> bd_rat b \<and> bd_rat b \<le> 9223372036854775807 / 10 ^ d"
  using assms
  by (cases i) (simp_all add: checkReserveInitialAmount_def maxSupply_Inr isWithinRange_iff rat_maxSupply Let_def)

lemma checkCashInAllowance_ok:
  assumes "d \<le> 80"
  shows "checkCashInAllowance L b d = Inr [] \<longleftrightarrow> 0 \<le> bd_rat b \<and> bd_rat b \<le> 9223372036854775807 / 10 ^ d"
  using assms by (simp add: checkCashInAllowance_def maxSupply_Inr isWithinRange_iff rat_maxSupply)

end

end
