(* ===== verification/Capabilities.thy ===== *)
theory Capabilities
  imports Stable_Coin
begin

text \<open>
  Capabilities: \<open>sdk/src/domain/context/stablecoin/Capability.ts\<close> and \<open>StableCoinCapabilities.ts\<close>,
  their computation in \<open>StableCoinService.getCapabilities\<close> (\<open>sdk/src/app/service\<close>), and the
  \<open>CapabilityDecider\<close> of \<open>sdk/src/port/out\<close>, which tells the transaction adapters whether an
  operation is forbidden or goes to the token service or to the contract.
\<close>

datatype operation =
    CASH_IN | BURN | WIPE | FREEZE | UNFREEZE | PAUSE | UNPAUSE | DELETE | RESCUE | RESCUE_HBAR
  | ROLE_MANAGEMENT | ROLE_ADMIN_MANAGEMENT | RESERVE_MANAGEMENT | UPDATE_CONFIG_VERSION
  | UPDATE_CONFIG | UPDATE_RESOLVER | CREATE_HOLD | CONTROLLER_CREATE_HOLD | RELEASE_HOLD
  | EXECUTE_HOLD | RECLAIM_HOLD | GRANT_KYC | REVOKE_KYC | CREATE_CUSTOM_FEE | REMOVE_CUSTOM_FEE
  | TRANSFERS | UPDATE

fun operation_value :: "operation \<Rightarrow> string" where
  "operation_value CASH_IN = ''Cash_in''"
| "operation_value BURN = ''Burn''"
| "operation_value WIPE = ''Wipe''"
| "operation_value FREEZE = ''Freeze''"
| "operation_value UNFREEZE = ''Unfreeze''"
| "operation_value PAUSE = ''Pause''"
| "operation_value UNPAUSE = ''Unpause''"
| "operation_value DELETE = ''Delete''"
| "operation_value RESCUE = ''Rescue''"
| "operation_value RESCUE_HBAR = ''Rescue_Hbar''"
| "operation_value ROLE_MANAGEMENT = ''Role_Management''"
| "operation_value ROLE_ADMIN_MANAGEMENT = ''Admin_Role''"
| "operation_value RESERVE_MANAGEMENT = ''Reserve_Management''"
| "operation_value UPDATE_CONFIG_VERSION = ''Update_Config_Version''"
| "operation_value UPDATE_CONFIG = ''Update_Config''"
| "operation_value UPDATE_RESOLVER = ''Update_Resolver''"
| "operation_value CREATE_HOLD = ''Create_Hold''"
| "operation_value CONTROLLER_CREATE_HOLD = ''Controller_Create_Hold''"
| "operation_value RELEASE_HOLD = ''Release_Hold''"
| "operation_value EXECUTE_HOLD = ''Execute_Hold''"
| "operation_value RECLAIM_HOLD = ''Reclaim_Hold''"
| "operation_value GRANT_KYC = ''Grant_KYC''"
| "operation_value REVOKE_KYC = ''Revoke_KYC''"
| "operation_value CREATE_CUSTOM_FEE = ''Create_Custom_Fee''"
| "operation_value REMOVE_CUSTOM_FEE = ''Remove_Custom_Fee''"
| "operation_value TRANSFERS = ''Transfers''"
| "operation_value UPDATE = ''Update''"

datatype access = HTS | CONTRACT

record capability =
  cap_operation :: operation
  cap_access :: access

record stable_coin_capabilities =
  caps_coin :: stable_coin
  caps_capabilities :: "capability list"
  caps_account :: account

section \<open>The capabilities of an account\<close>

definition cap :: "access \<Rightarrow> operation \<Rightarrow> capability" where
  "cap a o' = \<lparr>cap_operation = o', cap_access = a\<rparr>"

text \<open>\<open>key instanceof PublicKey\<close> with the account's public key, and \<open>key instanceof HederaId\<close>.\<close>

definition key_matches :: "token_key option \<Rightarrow> account \<Rightarrow> bool" where
  "key_matches k account =
     (case k of Some (KeyPublic pk) \<Rightarrow> Some (pk_key pk) = map_option pk_key (acc_publicKey account)
      | _ \<Rightarrow> False)"

definition key_is_contract :: "token_key option \<Rightarrow> bool" where
  "key_is_contract k = (case k of Some (KeyContract _) \<Rightarrow> True | _ \<Rightarrow> False)"

text \<open>The two blocks of a key: the operations through HTS, then those through the contract.\<close>

definition key_capabilities :: "bool \<Rightarrow> token_key option \<Rightarrow> account \<Rightarrow> operation list \<Rightarrow> capability list" where
  "key_capabilities enabled k account ops =
     (if enabled \<and> key_matches k account then map (cap HTS) ops else []) @
     (if enabled \<and> key_is_contract k then map (cap CONTRACT) ops else [])"

definition fee_operations :: "stable_coin \<Rightarrow> operation list" where
  "fee_operations coin =
     (case sc_customFees coin of
        None \<Rightarrow> []
      | Some fs \<Rightarrow>
          (if length fs < MAX_CUSTOM_FEES then [CREATE_CUSTOM_FEE] else []) @
          (if 0 < length fs then [REMOVE_CUSTOM_FEE] else []))"

definition MANAGEMENT_OPERATIONS :: "operation list" where
  "MANAGEMENT_OPERATIONS =
     [ROLE_MANAGEMENT, ROLE_ADMIN_MANAGEMENT, RESERVE_MANAGEMENT, RESCUE_HBAR,
      UPDATE_CONFIG_VERSION, UPDATE_CONFIG, UPDATE_RESOLVER]"

definition HOLD_OPERATIONS :: "operation list" where
  "HOLD_OPERATIONS = [CREATE_HOLD, CONTROLLER_CREATE_HOLD, RELEASE_HOLD, EXECUTE_HOLD, RECLAIM_HOLD]"

definition is_deleted :: "stable_coin \<Rightarrow> bool option \<Rightarrow> bool" where
  "is_deleted coin tokenIsDeleted =
     ((case tokenIsDeleted of None \<Rightarrow> sc_deleted coin | Some b \<Rightarrow> Some b) = Some True)"

definition is_paused :: "stable_coin \<Rightarrow> bool option \<Rightarrow> bool" where
  "is_paused coin tokenIsPaused =
     ((case tokenIsPaused of None \<Rightarrow> sc_paused coin | Some b \<Rightarrow> Some b) = Some True)"

definition capability_list ::
  "stable_coin \<Rightarrow> account \<Rightarrow> bool option \<Rightarrow> bool option \<Rightarrow> capability list" where
  "capability_list coin account tokenIsPaused tokenIsDeleted =
     (let deleted = is_deleted coin tokenIsDeleted;
          operable = (\<not> deleted \<and> \<not> is_paused coin tokenIsPaused)
      in (if operable then [cap CONTRACT RESCUE] else []) @
         (if operable \<and> map_option token_key_toString (sc_supplyKey coin)
                          = map_option id_value (sc_treasury coin)
          then map (cap CONTRACT) [CASH_IN, BURN] else []) @
         (if operable \<and> key_matches (sc_supplyKey coin) account
          then map (cap HTS) [CASH_IN, BURN] else []) @
         key_capabilities operable (sc_wipeKey coin) account [WIPE] @
         key_capabilities (\<not> deleted) (sc_pauseKey coin) account [PAUSE, UNPAUSE] @
         key_capabilities operable (sc_freezeKey coin) account [FREEZE, UNFREEZE] @
         key_capabilities operable (sc_adminKey coin) account [DELETE, UPDATE] @
         key_capabilities operable (sc_kycKey coin) account [GRANT_KYC, REVOKE_KYC] @
         key_capabilities operable (sc_feeScheduleKey coin) account (fee_operations coin) @
         map (cap CONTRACT) MANAGEMENT_OPERATIONS @
         (if operable \<and> key_is_contract (sc_supplyKey coin) \<and> key_is_contract (sc_wipeKey coin)
          then map (cap CONTRACT) HOLD_OPERATIONS else []))"

text \<open>
  \<open>getCapabilities\<close> takes a coin or an identifier, for which it gets the coin first; an error is
  handed on.
\<close>

datatype capability_target = TargetCoin stable_coin | TargetId hedera_id

definition getCapabilities ::
  "(hedera_id \<Rightarrow> stable_coin result) \<Rightarrow> account \<Rightarrow> capability_target \<Rightarrow> bool option \<Rightarrow> bool option \<Rightarrow>
     stable_coin_capabilities result" where
  "getCapabilities get account target tokenIsPaused tokenIsDeleted =
     bindR (case target of TargetCoin c \<Rightarrow> Inr c | TargetId i \<Rightarrow> get i) (\<lambda>coin. Inr
       \<lparr>caps_coin = coin,
        caps_capabilities = capability_list coin account tokenIsPaused tokenIsDeleted,
        caps_account = account\<rparr>)"

section \<open>The decider\<close>

datatype decision = D_FORBIDDEN | D_HTS | D_CONTRACT

definition getAccessDecision :: "stable_coin_capabilities \<Rightarrow> operation \<Rightarrow> decision" where
  "getAccessDecision capabilities o' =
     (case find (\<lambda>c. cap_operation c = o') (caps_capabilities capabilities) of
        None \<Rightarrow> D_FORBIDDEN
      | Some c \<Rightarrow> (if cap_access c = CONTRACT then D_CONTRACT else D_HTS))"

section \<open>Lemmas\<close>

named_theorems caps_simps

lemma cap_sel [simp]: "cap_operation (cap a x) = x" "cap_access (cap a x) = a"
  by (simp_all add: cap_def)

lemma cap_inject [simp]: "cap a x = cap b y \<longleftrightarrow> a = b \<and> x = y"
  by (auto simp: cap_def)

lemma key_excl: "key_matches k account \<Longrightarrow> \<not> key_is_contract k"
  by (auto simp: key_matches_def key_is_contract_def split: option.splits token_key.splits)

lemma in_key_capabilities [caps_simps]:
  "c \<in> set (key_capabilities e k account ops) \<longleftrightarrow>
     e \<and> cap_operation c \<in> set ops \<and>
     (if cap_access c = HTS then key_matches k account else key_is_contract k)"
proof -
  have "c = cap (cap_access c) (cap_operation c)" by (cases c) (simp add: cap_def)
  moreover have "cap_access c = HTS \<or> cap_access c = CONTRACT" by (cases "cap_access c") auto
  ultimately show ?thesis
    unfolding key_capabilities_def by (cases c) (auto simp: cap_def)
qed

lemma in_map_cap [caps_simps]:
  "c \<in> cap a ` set ops \<longleftrightarrow> cap_access c = a \<and> cap_operation c \<in> set ops"
  by (cases c) (auto simp: cap_def)

lemma fee_operations_set:
  "set (fee_operations coin) =
     (case sc_customFees coin of None \<Rightarrow> {}
      | Some fs \<Rightarrow> (if length fs < 10 then {CREATE_CUSTOM_FEE} else {}) \<union>
                  (if fs \<noteq> [] then {REMOVE_CUSTOM_FEE} else {}))"
  by (auto simp: fee_operations_def MAX_CUSTOM_FEES_def split: option.splits)

lemma find_in: "find P xs = Some c \<Longrightarrow> c \<in> set xs \<and> P c"
  by (induction xs) (auto split: if_splits)

lemma decision_forbidden:
  "getAccessDecision cs x = D_FORBIDDEN \<longleftrightarrow> x \<notin> cap_operation ` set (caps_capabilities cs)"
proof -
  have "getAccessDecision cs x = D_FORBIDDEN \<longleftrightarrow> find (\<lambda>c. cap_operation c = x) (caps_capabilities cs) = None"
    by (simp add: getAccessDecision_def split: option.splits)
  then show ?thesis by (auto simp: find_None_iff)
qed

lemma decision_access:
  assumes "getAccessDecision cs x = d" "d \<noteq> D_FORBIDDEN"
  obtains c where "c \<in> set (caps_capabilities cs)" "cap_operation c = x"
    "cap_access c = (if d = D_HTS then HTS else CONTRACT)"
proof -
  from assms obtain c where "find (\<lambda>c. cap_operation c = x) (caps_capabilities cs) = Some c"
    and c: "d = (if cap_access c = CONTRACT then D_CONTRACT else D_HTS)"
    by (auto simp: getAccessDecision_def split: option.splits)
  then have "c \<in> set (caps_capabilities cs)" "cap_operation c = x"
    using find_in by fastforce+
  with c that [of c] show ?thesis by (cases "cap_access c") (auto split: if_splits)
qed

text \<open>Membership, operation by operation: the list says who may do what.\<close>

lemma capability_list_iff:
  "cap a x \<in> set (capability_list coin account p d) \<longleftrightarrow>
     (let deleted = is_deleted coin d; operable = (\<not> deleted \<and> \<not> is_paused coin p);
          key = (\<lambda>k. if a = HTS then key_matches k account else key_is_contract k)
      in x = RESCUE \<and> operable \<and> a = CONTRACT
       \<or> x \<in> {CASH_IN, BURN} \<and> operable \<and>
           (if a = CONTRACT then map_option token_key_toString (sc_supplyKey coin)
                                   = map_option id_value (sc_treasury coin)
            else key_matches (sc_supplyKey coin) account)
       \<or> x = WIPE \<and> operable \<and> key (sc_wipeKey coin)
       \<or> x \<in> {PAUSE, UNPAUSE} \<and> \<not> deleted \<and> key (sc_pauseKey coin)
       \<or> x \<in> {FREEZE, UNFREEZE} \<and> operable \<and> key (sc_freezeKey coin)
       \<or> x \<in> {DELETE, UPDATE} \<and> operable \<and> key (sc_adminKey coin)
       \<or> x \<in> {GRANT_KYC, REVOKE_KYC} \<and> operable \<and> key (sc_kycKey coin)
       \<or> x \<in> set (fee_operations coin) \<and> operable \<and> key (sc_feeScheduleKey coin)
       \<or> x \<in> set MANAGEMENT_OPERATIONS \<and> a = CONTRACT
       \<or> x \<in> set HOLD_OPERATIONS \<and> operable \<and> a = CONTRACT
           \<and> key_is_contract (sc_supplyKey coin) \<and> key_is_contract (sc_wipeKey coin))"
proof -
  have mp: "cap a x \<in> set (map (cap b) ops) \<longleftrightarrow> a = b \<and> x \<in> set ops" for b ops
    by auto
  have one: "cap a x \<in> set [cap b y] \<longleftrightarrow> a = b \<and> x = y" for b y
    by auto
  have guard: "cap a x \<in> set (if b then xs else []) \<longleftrightarrow> b \<and> cap a x \<in> set xs" for b xs
    by simp
  have two: "x \<in> set [y, z] \<longleftrightarrow> x \<in> {y, z}" and single: "x \<in> set [y] \<longleftrightarrow> x = y" for y z
    by simp_all
  show ?thesis
    unfolding capability_list_def Let_def set_append Un_iff guard mp one two single
      in_key_capabilities cap_sel
    by (cases a) (simp_all only: access.distinct simp_thms if_True if_False, argo+)
qed

lemma cap_eta [simp]: "cap (cap_access c) (cap_operation c) = c"
  by (cases c) (simp add: cap_def)

lemma decision_unique:
  assumes "cap a x \<in> set (caps_capabilities cs)"
    and "\<And>b. cap b x \<in> set (caps_capabilities cs) \<Longrightarrow> b = a"
  shows "getAccessDecision cs x = (case a of HTS \<Rightarrow> D_HTS | CONTRACT \<Rightarrow> D_CONTRACT)"
proof -
  have "getAccessDecision cs x \<noteq> D_FORBIDDEN"
    using assms(1) by (force simp: decision_forbidden)
  then obtain c where c: "c \<in> set (caps_capabilities cs)" "cap_operation c = x"
    "cap_access c = (if getAccessDecision cs x = D_HTS then HTS else CONTRACT)"
    using decision_access [OF refl] by blast
  then have "cap (cap_access c) x \<in> set (caps_capabilities cs)"
    by (metis cap_eta)
  from assms(2) [OF this] c(3) \<open>_ \<noteq> D_FORBIDDEN\<close> show ?thesis
    by (cases "getAccessDecision cs x") auto
qed

lemma decision_none:
  assumes "\<And>b. cap b x \<notin> set (caps_capabilities cs)"
  shows "getAccessDecision cs x = D_FORBIDDEN"
proof -
  have "c \<in> set (caps_capabilities cs) \<Longrightarrow> cap_operation c \<noteq> x" for c
    using assms [of "cap_access c"] cap_eta [of c] by auto
  then show ?thesis by (auto simp: decision_forbidden)
qed

section \<open>Who may do what\<close>

text \<open>The key of the token that an operation needs, for the operations that one key governs.\<close>

fun operation_key :: "operation \<Rightarrow> (stable_coin \<Rightarrow> token_key option) option" where
  "operation_key WIPE = Some sc_wipeKey"
| "operation_key PAUSE = Some sc_pauseKey"
| "operation_key UNPAUSE = Some sc_pauseKey"
| "operation_key FREEZE = Some sc_freezeKey"
| "operation_key UNFREEZE = Some sc_freezeKey"
| "operation_key DELETE = Some sc_adminKey"
| "operation_key UPDATE = Some sc_adminKey"
| "operation_key GRANT_KYC = Some sc_kycKey"
| "operation_key REVOKE_KYC = Some sc_kycKey"
| "operation_key _ = None"

definition operation_active :: "operation \<Rightarrow> stable_coin \<Rightarrow> bool option \<Rightarrow> bool option \<Rightarrow> bool" where
  "operation_active x coin p d \<longleftrightarrow>
     \<not> is_deleted coin d \<and> (x \<in> {PAUSE, UNPAUSE} \<or> \<not> is_paused coin p)"

lemma keyed_capability:
  assumes "operation_key x = Some key"
  shows "cap a x \<in> set (capability_list coin account p d) \<longleftrightarrow>
    operation_active x coin p d \<and>
    (if a = HTS then key_matches (key coin) account else key_is_contract (key coin))"
proof -
  have "x \<notin> set (fee_operations coin)" "x \<notin> set MANAGEMENT_OPERATIONS" "x \<notin> set HOLD_OPERATIONS"
    using assms
    by (cases x; auto simp: fee_operations_set MANAGEMENT_OPERATIONS_def HOLD_OPERATIONS_def
        split: option.splits if_splits)+
  with assms show ?thesis
    unfolding capability_list_iff Let_def operation_active_def
    by (cases x) simp_all
qed

lemma key_decision:
  assumes "getCapabilities get account target p d = Inr cs" "operation_key x = Some key"
  shows "getAccessDecision cs x =
    (if \<not> operation_active x (caps_coin cs) p d then D_FORBIDDEN
     else if key_matches (key (caps_coin cs)) account then D_HTS
     else if key_is_contract (key (caps_coin cs)) then D_CONTRACT
     else D_FORBIDDEN)"
proof -
  let ?coin = "caps_coin cs"
  have list: "caps_capabilities cs = capability_list ?coin account p d"
    using assms(1) by (auto simp: getCapabilities_def bindR_Inr_iff)
  note mem = keyed_capability [OF assms(2), of _ ?coin account p d, folded list]
  show ?thesis
  proof (cases "operation_active x ?coin p d \<and> (key_matches (key ?coin) account \<or> key_is_contract (key ?coin))")
    case True
    then have "getAccessDecision cs x =
        (case (if key_matches (key ?coin) account then HTS else CONTRACT) of HTS \<Rightarrow> D_HTS | CONTRACT \<Rightarrow> D_CONTRACT)"
      using mem key_excl by (intro decision_unique) (auto split: if_splits dest: key_excl intro: access.exhaust)
    with True show ?thesis by auto
  next
    case False
    then show ?thesis using mem decision_none [of x cs] by (auto split: if_splits)
  qed
qed

text \<open>
  Property C5. The decision for every operation that one key of the token governs (wipe, pause,
  unpause, freeze, unfreeze, delete, update, grant and revoke KYC): it goes through HTS when the
  key is the public key of the account, through the contract when it is a contract, and is
  forbidden otherwise; and it is always forbidden on a deleted coin, and on a paused one except
  for pause and unpause.
\<close>

theorem decision_of_key:
  assumes "getCapabilities get account target p d = Inr cs" "operation_key x = Some key"
  shows "getAccessDecision cs x =
    (if \<not> operation_active x (caps_coin cs) p d then D_FORBIDDEN
     else if key_matches (key (caps_coin cs)) account then D_HTS
     else if key_is_contract (key (caps_coin cs)) then D_CONTRACT
     else D_FORBIDDEN)"
  using assms by (rule key_decision)

definition sample_account :: "string \<Rightarrow> account" where
  "sample_account k =
     \<lparr>acc_id = HederaId ''0.0.7'', acc_evmAddress = None, acc_privateKey = None,
      acc_publicKey = Some \<lparr>pk_key = k, pk_type = KeyType_ED25519\<rparr>, acc_multiKey = None\<rparr>"

definition wipe_coin :: stable_coin where
  "wipe_coin = (minimal_props ''Coin'' ''C'' 6)
     \<lparr>sc_wipeKey := Some (KeyPublic \<lparr>pk_key = ''a1'', pk_type = KeyType_ED25519\<rparr>)\<rparr>"

theorem decision_of_key_witness:
  "\<exists>cs. getCapabilities (\<lambda>_. Inl TypeError) (sample_account ''a1'') (TargetCoin wipe_coin) None None = Inr cs
     \<and> getAccessDecision cs WIPE = D_HTS"
proof -
  obtain cs where cs: "getCapabilities (\<lambda>_. Inl TypeError) (sample_account ''a1'') (TargetCoin wipe_coin) None None = Inr cs"
    and coin: "caps_coin cs = wipe_coin" by (simp add: getCapabilities_def)
  have "getAccessDecision cs WIPE = D_HTS"
    using decision_of_key [OF cs, of WIPE sc_wipeKey] coin
    by (simp add: operation_active_def is_deleted_def is_paused_def wipe_coin_def minimal_props_def
        key_matches_def sample_account_def)
  with cs show ?thesis by blast
qed

text \<open>
  Cash in and burn: on an operable coin they go through the contract as soon as the
  supply key and the treasury print alike, which is also the case when the coin has neither of
  them; otherwise through HTS when the supply key is the account's public key; otherwise they are
  forbidden.
\<close>

theorem cash_in_decision:
  assumes "getCapabilities get account target p d = Inr cs" "x \<in> {CASH_IN, BURN}"
  shows "getAccessDecision cs x =
    (if is_deleted (caps_coin cs) d \<or> is_paused (caps_coin cs) p then D_FORBIDDEN
     else if map_option token_key_toString (sc_supplyKey (caps_coin cs))
               = map_option id_value (sc_treasury (caps_coin cs)) then D_CONTRACT
     else if key_matches (sc_supplyKey (caps_coin cs)) account then D_HTS
     else D_FORBIDDEN)"
proof -
  let ?coin = "caps_coin cs"
  have list: "caps_capabilities cs = [cap CONTRACT RESCUE] @ map (cap CONTRACT) [CASH_IN, BURN] @
      drop 3 (caps_capabilities cs)"
    if "\<not> is_deleted ?coin d" "\<not> is_paused ?coin p"
      "map_option token_key_toString (sc_supplyKey ?coin) = map_option id_value (sc_treasury ?coin)"
    using assms(1) that by (auto simp: getCapabilities_def bindR_Inr_iff capability_list_def Let_def)
  have eq: "caps_capabilities cs = capability_list ?coin account p d"
    using assms(1) by (auto simp: getCapabilities_def bindR_Inr_iff)
  have no: "x \<notin> set (fee_operations ?coin)" "x \<notin> set MANAGEMENT_OPERATIONS" "x \<notin> set HOLD_OPERATIONS"
    using assms(2)
    by (auto simp: fee_operations_set MANAGEMENT_OPERATIONS_def HOLD_OPERATIONS_def
        split: option.splits if_splits)
  have mem: "cap a x \<in> set (caps_capabilities cs) \<longleftrightarrow> \<not> is_deleted ?coin d \<and> \<not> is_paused ?coin p \<and>
      (if a = CONTRACT then map_option token_key_toString (sc_supplyKey ?coin) = map_option id_value (sc_treasury ?coin)
       else key_matches (sc_supplyKey ?coin) account)" for a
    unfolding eq capability_list_iff Let_def using assms(2) no by auto
  show ?thesis
  proof (cases "\<not> is_deleted ?coin d \<and> \<not> is_paused ?coin p \<and>
      map_option token_key_toString (sc_supplyKey ?coin) = map_option id_value (sc_treasury ?coin)")
    case True
    then obtain r where "caps_capabilities cs = cap CONTRACT RESCUE # cap CONTRACT CASH_IN # cap CONTRACT BURN # r"
      using list by (metis append_Cons append_Nil list.simps(8,9))
    then have "getAccessDecision cs x = D_CONTRACT"
      using assms(2) by (auto simp: getAccessDecision_def)
    with True show ?thesis by simp
  next
    case noc: False
    then have c: "cap CONTRACT x \<notin> set (caps_capabilities cs)" using mem [of CONTRACT] by auto
    show ?thesis
    proof (cases "cap HTS x \<in> set (caps_capabilities cs)")
      case True
      have "b = HTS" if "cap b x \<in> set (caps_capabilities cs)" for b
        using c that by (cases b) auto
      from decision_unique [OF True this] have "getAccessDecision cs x = D_HTS" by simp
      with True noc mem [of HTS] show ?thesis by simp
    next
      case False
      have "cap b x \<notin> set (caps_capabilities cs)" for b
        using c False by (cases b) auto
      from decision_none [OF this] False noc mem [of HTS] show ?thesis by auto
    qed
  qed
qed

definition bare_coin :: stable_coin where
  "bare_coin = new_StableCoin exact_lib (minimal_props ''Coin'' ''C'' 6)"

theorem cash_in_decision_witness:
  "\<exists>cs. getCapabilities (\<lambda>_. Inl TypeError) (sample_account ''a1'') (TargetCoin bare_coin) None None = Inr cs
     \<and> getAccessDecision cs CASH_IN = D_CONTRACT"
proof -
  obtain cs where cs: "getCapabilities (\<lambda>_. Inl TypeError) (sample_account ''a1'') (TargetCoin bare_coin) None None = Inr cs"
    and coin: "caps_coin cs = bare_coin" by (simp add: getCapabilities_def)
  have "getAccessDecision cs CASH_IN = D_CONTRACT"
    using cash_in_decision [OF cs, of CASH_IN] coin
    by (simp add: is_deleted_def is_paused_def bare_coin_def new_StableCoin_def minimal_props_def)
  with cs show ?thesis by blast
qed

text \<open>
  On a deleted coin nothing is allowed but the management operations of the
  contract: roles, reserve, rescue of HBAR and the configuration of the proxy.
\<close>

theorem deleted_coin_decision:
  assumes "getCapabilities get account target p d = Inr cs" "is_deleted (caps_coin cs) d"
  shows "getAccessDecision cs x = (if x \<in> set MANAGEMENT_OPERATIONS then D_CONTRACT else D_FORBIDDEN)"
proof -
  have "caps_capabilities cs = capability_list (caps_coin cs) account p d"
    using assms(1) by (auto simp: getCapabilities_def bindR_Inr_iff)
  then have mem: "cap a x \<in> set (caps_capabilities cs) \<longleftrightarrow> a = CONTRACT \<and> x \<in> set MANAGEMENT_OPERATIONS" for a
    using assms(2) by (auto simp: capability_list_iff Let_def)
  show ?thesis
    using mem decision_unique [of CONTRACT x cs] decision_none [of x cs] by auto
qed

theorem deleted_coin_decision_witness:
  "\<exists>cs. getCapabilities (\<lambda>_. Inl TypeError) (sample_account ''a1'') (TargetCoin wipe_coin) None (Some True) = Inr cs
     \<and> getAccessDecision cs WIPE = D_FORBIDDEN \<and> getAccessDecision cs RESCUE_HBAR = D_CONTRACT"
proof -
  obtain cs where cs: "getCapabilities (\<lambda>_. Inl TypeError) (sample_account ''a1'') (TargetCoin wipe_coin) None (Some True) = Inr cs"
    and del: "is_deleted (caps_coin cs) (Some True)" by (simp add: getCapabilities_def is_deleted_def)
  show ?thesis
    using cs deleted_coin_decision [OF cs del, of WIPE] deleted_coin_decision [OF cs del, of RESCUE_HBAR]
    by (simp add: MANAGEMENT_OPERATIONS_def)
qed

end
