(* ===== verification/Cli_Menus.thy ===== *)
theory Cli_Menus
  imports Capabilities
begin

text \<open>
  The menus of the command line (\<open>cli/src/app/service/stablecoin/OperationStableCoinService.ts\<close>): which
  options an account is offered for a coin, from its capabilities and its roles. An option stands for the text
  that the language file gives it; the texts of one menu are different from each other.
\<close>

section \<open>The operations menu\<close>

datatype menu_option =
    OptSend | OptCashIn | OptDetails | OptBalance | OptBurn | OptWipe | OptRescue | OptRescueHBAR
  | OptResolverMgmt | OptHoldMgmt | OptFreezeMgmt | OptKYCMgmt | OptFeesMgmt | OptRoleMgmt
  | OptConfiguration | OptDangerZone | OptSeparator | OptReturn

definition returnOption :: "menu_option list" where
  "returnOption = [OptSeparator, OptReturn, OptSeparator]"

definition stableCoinOptions :: "menu_option list" where
  "stableCoinOptions =
     [OptSend, OptCashIn, OptDetails, OptBalance, OptBurn, OptWipe, OptRescue, OptRescueHBAR, OptResolverMgmt,
      OptHoldMgmt, OptFreezeMgmt, OptKYCMgmt, OptFeesMgmt, OptRoleMgmt, OptConfiguration, OptDangerZone] @ returnOption"

text \<open>The fields of the service that it reads of the coin before it shows the menu.\<close>

record coin_state =
  cs_deleted :: bool
  cs_paused :: bool
  cs_isFrozen :: bool
  cs_hasKycKey :: bool
  cs_hasFeeScheduleKey :: bool
  cs_hasFreezeKey :: bool

definition operations_of :: "stable_coin_capabilities \<Rightarrow> operation list" where
  "operations_of caps = map cap_operation (caps_capabilities caps)"

definition isOperationAccess :: "stable_coin_capabilities \<Rightarrow> operation \<Rightarrow> access \<Rightarrow> bool" where
  "isOperationAccess caps x a \<longleftrightarrow> (\<exists>c \<in> set (caps_capabilities caps). cap_operation c = x \<and> cap_access c = a)"

definition hasHTSAccess :: "operation \<Rightarrow> stable_coin_capabilities \<Rightarrow> bool" where
  "hasHTSAccess x caps \<longleftrightarrow> map_option cap_access (find (\<lambda>c. cap_operation c = x) (caps_capabilities caps)) = Some HTS"

definition hasSCAccess :: "operation \<Rightarrow> stable_coin_role \<Rightarrow> stable_coin_capabilities \<Rightarrow> stable_coin_role list \<Rightarrow> bool" where
  "hasSCAccess x role caps roles \<longleftrightarrow>
     map_option cap_access (find (\<lambda>c. cap_operation c = x) (caps_capabilities caps)) = Some CONTRACT \<and> role \<in> set roles"

text \<open>
  The condition of the first filter of \<open>filterMenuOptions\<close>. The last tests are alternatives of the whole
  disjunction and do not mention the option.
\<close>

definition menu_capability :: "coin_state \<Rightarrow> operation set \<Rightarrow> menu_option \<Rightarrow> bool" where
  "menu_capability st ops opt \<longleftrightarrow>
     opt = OptSend \<and> \<not> cs_deleted st \<and> \<not> cs_paused st \<and> \<not> cs_isFrozen st \<or>
     opt = OptCashIn \<and> CASH_IN \<in> ops \<or>
     opt = OptBurn \<and> BURN \<in> ops \<or>
     opt = OptWipe \<and> WIPE \<in> ops \<or>
     opt = OptRescue \<and> RESCUE \<in> ops \<or>
     opt = OptRescueHBAR \<and> RESCUE \<in> ops \<or>
     opt = OptFreezeMgmt \<and> cs_hasFreezeKey st \<or>
     opt = OptKYCMgmt \<and> cs_hasKycKey st \<or>
     opt = OptDangerZone \<and> (PAUSE \<in> ops \<or> DELETE \<in> ops) \<or>
     opt = OptRoleMgmt \<or>
     opt = OptFeesMgmt \<and> cs_hasFeeScheduleKey st \<or>
     opt = OptDetails \<and> \<not> cs_deleted st \<or>
     opt = OptBalance \<and> \<not> cs_deleted st \<or>
     opt = OptConfiguration \<or>
     opt = OptResolverMgmt \<and> (UPDATE_CONFIG_VERSION \<in> ops \<or> UPDATE_CONFIG \<in> ops) \<or>
     UPDATE_RESOLVER \<in> ops \<or>
     opt = OptHoldMgmt \<and> CREATE_HOLD \<in> ops \<or>
     CONTROLLER_CREATE_HOLD \<in> ops \<or> EXECUTE_HOLD \<in> ops \<or> RECLAIM_HOLD \<in> ops \<or> RELEASE_HOLD \<in> ops"

text \<open>The condition of the second filter.\<close>

definition menu_role :: "stable_coin_capabilities \<Rightarrow> stable_coin_role set \<Rightarrow> menu_option \<Rightarrow> bool" where
  "menu_role caps roles opt \<longleftrightarrow>
     opt = OptSend \<or>
     opt = OptCashIn \<and> (CASHIN_ROLE \<in> roles \<or> isOperationAccess caps CASH_IN HTS) \<or>
     opt = OptBurn \<and> (BURN_ROLE \<in> roles \<or> isOperationAccess caps BURN HTS) \<or>
     opt = OptWipe \<and> (WIPE_ROLE \<in> roles \<or> isOperationAccess caps WIPE HTS) \<or>
     opt = OptDangerZone \<and> (PAUSE_ROLE \<in> roles \<or> isOperationAccess caps PAUSE HTS \<or>
       DELETE_ROLE \<in> roles \<or> isOperationAccess caps DELETE HTS) \<or>
     opt = OptRescue \<and> RESCUE_ROLE \<in> roles \<or>
     opt = OptRescueHBAR \<and> RESCUE_ROLE \<in> roles \<or>
     opt \<in> {OptDetails, OptBalance, OptKYCMgmt, OptFeesMgmt, OptFreezeMgmt, OptRoleMgmt} \<or>
     opt = OptConfiguration \<and>
       (UPDATE \<in> set (operations_of caps) \<and> DEFAULT_ADMIN_ROLE \<in> roles \<or> isOperationAccess caps UPDATE HTS) \<or>
     opt = OptResolverMgmt \<and> DEFAULT_ADMIN_ROLE \<in> roles \<or>
     opt = OptHoldMgmt"

definition filterMenuOptions ::
  "coin_state \<Rightarrow> menu_option list \<Rightarrow> stable_coin_capabilities \<Rightarrow> stable_coin_role list option \<Rightarrow> menu_option list" where
  "filterMenuOptions st options caps roles =
     (let capabilitiesFilter = filter (menu_capability st (set (operations_of caps))) options
      in (case roles of
            None \<Rightarrow> capabilitiesFilter
          | Some rs \<Rightarrow> filter (menu_role caps (set rs)) capabilitiesFilter) @ returnOption)"

section \<open>The other menus\<close>

datatype configuration_option = OptTokenConfiguration | OptConfigurationBack

definition filterConfigurationOptions ::
  "configuration_option list \<Rightarrow> stable_coin_capabilities \<Rightarrow> stable_coin_role list \<Rightarrow> configuration_option list" where
  "filterConfigurationOptions options caps roles =
     (let filteredOptions = filter (\<lambda>opt. opt = OptTokenConfiguration \<and> UPDATE \<in> set (operations_of caps)) options
      in filter (\<lambda>opt. opt = OptTokenConfiguration \<and> DEFAULT_ADMIN_ROLE \<in> set roles \<or> isOperationAccess caps UPDATE HTS)
           filteredOptions)"

datatype kyc_option = OptGrantKYC | OptRevokeKYC | OptAccountKYCGranted

definition filterKYCMenuOptions ::
  "kyc_option list \<Rightarrow> stable_coin_capabilities \<Rightarrow> stable_coin_role list option \<Rightarrow> kyc_option list" where
  "filterKYCMenuOptions options caps roles =
     (let ops = set (operations_of caps);
          capabilitiesFilter = filter (\<lambda>opt.
            opt = OptGrantKYC \<and> GRANT_KYC \<in> ops \<or> opt = OptRevokeKYC \<and> REVOKE_KYC \<in> ops \<or>
            opt = OptAccountKYCGranted \<and> GRANT_KYC \<in> ops \<and> REVOKE_KYC \<in> ops) options
      in case roles of
           None \<Rightarrow> capabilitiesFilter
         | Some rs \<Rightarrow> filter (\<lambda>opt.
             opt = OptGrantKYC \<and> (KYC_ROLE \<in> set rs \<or> isOperationAccess caps GRANT_KYC HTS) \<or>
             opt = OptRevokeKYC \<and> (KYC_ROLE \<in> set rs \<or> isOperationAccess caps REVOKE_KYC HTS) \<or>
             opt = OptAccountKYCGranted) capabilitiesFilter)"

datatype freeze_option = OptFreeze | OptUnFreeze | OptAccountFrozen

definition filterFreezeMenuOptions ::
  "freeze_option list \<Rightarrow> stable_coin_capabilities \<Rightarrow> stable_coin_role list option \<Rightarrow> freeze_option list" where
  "filterFreezeMenuOptions options caps roles =
     (let ops = set (operations_of caps);
          capabilitiesFilter = filter (\<lambda>opt.
            opt = OptFreeze \<and> FREEZE \<in> ops \<or> opt = OptUnFreeze \<and> UNFREEZE \<in> ops \<or> opt = OptAccountFrozen) options
      in case roles of
           None \<Rightarrow> capabilitiesFilter
         | Some rs \<Rightarrow> filter (\<lambda>opt.
             opt = OptFreeze \<and> (FREEZE_ROLE \<in> set rs \<or> isOperationAccess caps FREEZE HTS) \<or>
             opt = OptUnFreeze \<and> (FREEZE_ROLE \<in> set rs \<or> isOperationAccess caps UNFREEZE HTS) \<or>
             opt = OptAccountFrozen) capabilitiesFilter)"

datatype hold_option =
    OptCreateHold | OptCreateHoldByController | OptExecuteHold | OptReleaseHold | OptReclaimHold
  | OptHeldBalance | OptHoldCount | OptHoldDetails | OptHoldsId

definition filterHoldMenuOptions :: "hold_option list \<Rightarrow> stable_coin_role list \<Rightarrow> hold_option list" where
  "filterHoldMenuOptions options roles =
     filter (\<lambda>opt. \<not> (opt = OptCreateHoldByController \<and> HOLD_CREATOR_ROLE \<notin> set roles)) options"

datatype danger_option = OptPause | OptUnPause | OptDelete | OptDangerBack

definition danger_options :: "danger_option list" where
  "danger_options = [OptPause, OptUnPause, OptDelete, OptDangerBack]"

text \<open>\<open>roles\<close> is an array whenever the query of the roles returns.\<close>

definition danger_option_shown ::
  "bool \<Rightarrow> stable_coin_capabilities \<Rightarrow> stable_coin_role list option \<Rightarrow> danger_option \<Rightarrow> bool" where
  "danger_option_shown paused caps rolesAccount opt =
     (let pauser = (case rolesAccount of None \<Rightarrow> True
            | Some rs \<Rightarrow> PAUSE_ROLE \<in> set rs \<or> isOperationAccess caps PAUSE HTS)
      in case opt of
           OptPause \<Rightarrow> \<not> paused \<and> pauser
         | OptUnPause \<Rightarrow> paused \<and> pauser
         | OptDelete \<Rightarrow> DELETE \<in> set (operations_of caps) \<and>
             (case rolesAccount of None \<Rightarrow> True | Some rs \<Rightarrow> DELETE_ROLE \<in> set rs)
         | OptDangerBack \<Rightarrow> True)"

definition dangerZoneOptions ::
  "bool \<Rightarrow> stable_coin_capabilities \<Rightarrow> stable_coin_role list option \<Rightarrow> danger_option list" where
  "dangerZoneOptions paused caps rolesAccount = filter (danger_option_shown paused caps rolesAccount) danger_options"

datatype fee_option = OptFeeCreate | OptFeeRemove | OptFeeList | OptFeeBack

definition fee_options :: "fee_option list" where
  "fee_options = [OptFeeCreate, OptFeeRemove, OptFeeList, OptFeeBack]"

definition feeManagementOptions :: "bool \<Rightarrow> stable_coin_capabilities \<Rightarrow> stable_coin_role list \<Rightarrow> fee_option list" where
  "feeManagementOptions hasFeeScheduleKey caps roles =
     filter (\<lambda>opt. case opt of
         OptFeeCreate \<Rightarrow> hasHTSAccess CREATE_CUSTOM_FEE caps \<or> hasSCAccess CREATE_CUSTOM_FEE CUSTOM_FEES_ROLE caps roles
       | OptFeeRemove \<Rightarrow> hasHTSAccess REMOVE_CUSTOM_FEE caps \<or> hasSCAccess REMOVE_CUSTOM_FEE CUSTOM_FEES_ROLE caps roles
       | OptFeeList \<Rightarrow> hasFeeScheduleKey
       | OptFeeBack \<Rightarrow> True) fee_options"

section \<open>Roles\<close>

datatype role_option = OptGrant | OptRevoke | OptEdit | OptGetRole | OptCheckAccountsWithRole | OptRoleBack

definition role_options :: "role_option list" where
  "role_options = [OptGrant, OptRevoke, OptEdit, OptGetRole, OptCheckAccountsWithRole, OptRoleBack]"

datatype token_key_id = TK_admin | TK_freeze | TK_kyc | TK_wipe | TK_pause | TK_feeSchedule | TK_supply

text \<open>
  The keys that are the coin's contract, compared by their text. The proxy is read only when there is a
  key: without a proxy that is a \<open>TypeError\<close>.
\<close>

definition key_of_contract :: "stable_coin \<Rightarrow> token_key option \<Rightarrow> bool result" where
  "key_of_contract coin k =
     (case (k, sc_proxyAddress coin) of
        (None, _) \<Rightarrow> Inr False
      | (Some _, None) \<Rightarrow> Inl TypeError
      | (Some key, Some proxy) \<Rightarrow> Inr (token_key_toString key = id_value proxy))"

fun assigned_keys :: "stable_coin \<Rightarrow> (token_key_id \<times> token_key option) list \<Rightarrow> token_key_id list result" where
  "assigned_keys coin [] = Inr []"
| "assigned_keys coin ((i, k) # ks) =
     bindR (key_of_contract coin k) (\<lambda>b. bindR (assigned_keys coin ks) (\<lambda>rest. Inr (if b then i # rest else rest)))"

definition KeysAssignedToContract :: "stable_coin_capabilities \<Rightarrow> token_key_id list result" where
  "KeysAssignedToContract caps =
     (let coin = caps_coin caps in assigned_keys coin
        [(TK_admin, sc_adminKey coin), (TK_freeze, sc_freezeKey coin), (TK_kyc, sc_kycKey coin),
         (TK_wipe, sc_wipeKey coin), (TK_pause, sc_pauseKey coin), (TK_feeSchedule, sc_feeScheduleKey coin),
         (TK_supply, sc_supplyKey coin)])"

definition roleManagementOptions ::
  "stable_coin_capabilities \<Rightarrow> stable_coin_role list \<Rightarrow> token_key_id list \<Rightarrow> role_option list" where
  "roleManagementOptions caps roles contractKeys =
     filter (\<lambda>opt. case opt of
         OptGrant \<Rightarrow> contractKeys \<noteq> [] \<and> DEFAULT_ADMIN_ROLE \<in> set roles
       | OptRevoke \<Rightarrow> DEFAULT_ADMIN_ROLE \<in> set roles
       | OptEdit \<Rightarrow> CASH_IN \<in> set (operations_of caps) \<and> DEFAULT_ADMIN_ROLE \<in> set roles
       | _ \<Rightarrow> True) role_options"

text \<open>The roles that \<open>getRoles\<close> offers: an operation of the role, and the key that it needs (\<open>None\<close> is \<open>-1\<close>).\<close>

definition rolesAvailability :: "operation set \<Rightarrow> (bool \<times> stable_coin_role \<times> token_key_id option) list" where
  "rolesAvailability ops =
     [(CASH_IN \<in> ops, CASHIN_ROLE, Some TK_supply), (BURN \<in> ops, BURN_ROLE, Some TK_supply),
      (WIPE \<in> ops, WIPE_ROLE, Some TK_wipe), (RESCUE \<in> ops, RESCUE_ROLE, None),
      (PAUSE \<in> ops, PAUSE_ROLE, Some TK_pause), (FREEZE \<in> ops, FREEZE_ROLE, Some TK_freeze),
      (GRANT_KYC \<in> ops, KYC_ROLE, Some TK_kyc),
      (CREATE_CUSTOM_FEE \<in> ops \<or> REMOVE_CUSTOM_FEE \<in> ops, CUSTOM_FEES_ROLE, Some TK_feeSchedule),
      (DELETE \<in> ops, DELETE_ROLE, Some TK_admin), (ROLE_ADMIN_MANAGEMENT \<in> ops, DEFAULT_ADMIN_ROLE, Some TK_admin),
      (CONTROLLER_CREATE_HOLD \<in> ops, HOLD_CREATOR_ROLE, None)]"

definition rolesAvailable ::
  "stable_coin_capabilities \<Rightarrow> token_key_id list option \<Rightarrow> stable_coin_role list" where
  "rolesAvailable caps contractKeys =
     map (\<lambda>(_, role, _). role)
       (filter (\<lambda>(availability, _, i). availability \<and>
          (case contractKeys of None \<Rightarrow> True
           | Some ks \<Rightarrow> (case i of None \<Rightarrow> True | Some k \<Rightarrow> k \<in> set ks)))
         (rolesAvailability (set (operations_of caps))))"

section \<open>Lemmas\<close>

lemma operations_of_cap: "x \<in> set (operations_of caps) \<longleftrightarrow> (\<exists>a. cap a x \<in> set (caps_capabilities caps))"
proof
  assume "x \<in> set (operations_of caps)"
  then obtain c where "c \<in> set (caps_capabilities caps)" "cap_operation c = x" by (auto simp: operations_of_def)
  then have "cap (cap_access c) x \<in> set (caps_capabilities caps)" by (metis cap_eta)
  then show "\<exists>a. cap a x \<in> set (caps_capabilities caps)" ..
qed (force simp: operations_of_def)

lemma isOperationAccess_cap: "isOperationAccess caps x a \<longleftrightarrow> cap a x \<in> set (caps_capabilities caps)"
  unfolding isOperationAccess_def by (metis cap_eta cap_sel)

lemma operations_forbidden: "x \<in> set (operations_of caps) \<longleftrightarrow> getAccessDecision caps x \<noteq> D_FORBIDDEN"
  by (simp add: decision_forbidden operations_of_def)

lemma access_decision: "hasHTSAccess x caps \<longleftrightarrow> getAccessDecision caps x = D_HTS"
    "hasSCAccess x role caps roles \<longleftrightarrow> getAccessDecision caps x = D_CONTRACT \<and> role \<in> set roles"
  by (cases "find (\<lambda>c. cap_operation c = x) (caps_capabilities caps)";
      auto simp: hasHTSAccess_def hasSCAccess_def getAccessDecision_def;
      metis access.exhaust)+

text \<open>The management operations are capabilities of every account.\<close>

lemma always_resolver:
  assumes "getCapabilities get account target p d = Inr caps"
  shows "UPDATE_RESOLVER \<in> set (operations_of caps)"
proof -
  obtain coin where "caps_capabilities caps = capability_list coin account p d"
    using assms by (cases "case target of TargetCoin c \<Rightarrow> Inr c | TargetId i \<Rightarrow> get i") (auto simp: getCapabilities_def)
  then have "cap CONTRACT UPDATE_RESOLVER \<in> set (caps_capabilities caps)"
    by (simp add: capability_list_iff MANAGEMENT_OPERATIONS_def Let_def)
  then show ?thesis by (auto simp: operations_of_cap)
qed

lemma first_filter_vacuous:
  assumes "getCapabilities get account target p d = Inr caps"
  shows "menu_capability st (set (operations_of caps)) opt"
  using always_resolver [OF assms] by (simp add: menu_capability_def)

lemma filtered_menu:
  assumes "getCapabilities get account target p d = Inr caps"
  shows "filterMenuOptions st options caps (Some roles) = filter (menu_role caps (set roles)) options @ returnOption"
  using first_filter_vacuous [OF assms] by (simp add: filterMenuOptions_def filter_True)

lemma in_menu:
  assumes "getCapabilities get account target p d = Inr caps"
  shows "opt \<in> set (filterMenuOptions st stableCoinOptions caps (Some roles)) \<longleftrightarrow>
    opt \<in> set stableCoinOptions \<and> menu_role caps (set roles) opt \<or> opt \<in> set returnOption"
  by (simp only: filtered_menu [OF assms] set_append set_filter Un_iff mem_Collect_eq)

lemma menu_role_simps:
  "menu_role caps rs OptCashIn \<longleftrightarrow> CASHIN_ROLE \<in> rs \<or> cap HTS CASH_IN \<in> set (caps_capabilities caps)"
  "menu_role caps rs OptBurn \<longleftrightarrow> BURN_ROLE \<in> rs \<or> cap HTS BURN \<in> set (caps_capabilities caps)"
  "menu_role caps rs OptWipe \<longleftrightarrow> WIPE_ROLE \<in> rs \<or> cap HTS WIPE \<in> set (caps_capabilities caps)"
  "menu_role caps rs OptSend" "menu_role caps rs OptKYCMgmt" "menu_role caps rs OptFeesMgmt"
  "menu_role caps rs OptFreezeMgmt" "menu_role caps rs OptHoldMgmt"
  by (simp_all add: menu_role_def isOperationAccess_cap)

section \<open>Properties\<close>

text \<open>
  Property C34. What the menu of operations offers. For the capabilities that the SDK gives, the first filter of the
  menu has no effect: the menu is the same whether the coin is paused or deleted or the account frozen, and it
  always offers to send and the menus of keys that the coin does not have. Cash in, burn and wipe are
  offered exactly to the roles and to the holder of the key, so to everyone who can do them through the
  token service, or through the contract with the role, but also to roles whose operation the SDK forbids.
\<close>

theorem menu_offers:
  assumes "getCapabilities get account target p d = Inr caps"
    and "(opt, x, role) \<in> {(OptCashIn, CASH_IN, CASHIN_ROLE), (OptBurn, BURN, BURN_ROLE), (OptWipe, WIPE, WIPE_ROLE)}"
  shows "filterMenuOptions st stableCoinOptions caps (Some roles) = filterMenuOptions st' stableCoinOptions caps (Some roles) \<and>
    {OptSend, OptKYCMgmt, OptFeesMgmt, OptFreezeMgmt, OptHoldMgmt} \<subseteq> set (filterMenuOptions st stableCoinOptions caps (Some roles)) \<and>
    (opt \<in> set (filterMenuOptions st stableCoinOptions caps (Some roles)) \<longleftrightarrow>
       role \<in> set roles \<or> cap HTS x \<in> set (caps_capabilities caps)) \<and>
    (getAccessDecision caps x = D_HTS \<or> getAccessDecision caps x = D_CONTRACT \<and> role \<in> set roles \<longrightarrow>
       opt \<in> set (filterMenuOptions st stableCoinOptions caps (Some roles)))"
proof -
  let ?menu = "filterMenuOptions st stableCoinOptions caps (Some roles)"
  have same: "?menu = filterMenuOptions st' stableCoinOptions caps (Some roles)"
    by (simp add: filtered_menu [OF assms(1)])
  have always: "{OptSend, OptKYCMgmt, OptFeesMgmt, OptFreezeMgmt, OptHoldMgmt} \<subseteq> set ?menu"
    unfolding insert_subset in_menu [OF assms(1)] by (simp add: menu_role_simps stableCoinOptions_def)
  have offered: "opt \<in> set ?menu \<longleftrightarrow> role \<in> set roles \<or> cap HTS x \<in> set (caps_capabilities caps)"
    using assms(2) unfolding in_menu [OF assms(1)]
    by (elim insertE emptyE; simp add: stableCoinOptions_def returnOption_def menu_role_simps)
  have "cap HTS x \<in> set (caps_capabilities caps)" if "getAccessDecision caps x = D_HTS"
    using decision_access [OF that] by (metis cap_eta decision.distinct(1))
  with same always offered show ?thesis by blast
qed

theorem menu_offers_witness:
  "\<exists>caps. getCapabilities (\<lambda>_. Inl TypeError) (sample_account ''a1'') (TargetCoin wipe_coin) (Some True) None = Inr caps \<and>
     getAccessDecision caps BURN = D_FORBIDDEN \<and>
     (\<forall>st. OptBurn \<in> set (filterMenuOptions st stableCoinOptions caps (Some [BURN_ROLE])))"
proof -
  obtain caps where caps: "getCapabilities (\<lambda>_. Inl TypeError) (sample_account ''a1'') (TargetCoin wipe_coin) (Some True) None = Inr caps"
    and list: "caps_capabilities caps = capability_list wipe_coin (sample_account ''a1'') (Some True) None"
    by (simp add: getCapabilities_def)
  have "BURN \<notin> set (operations_of caps)"
    by (auto simp: operations_of_cap list capability_list_iff Let_def is_paused_def wipe_coin_def minimal_props_def
        MANAGEMENT_OPERATIONS_def HOLD_OPERATIONS_def fee_operations_def)
  then have "getAccessDecision caps BURN = D_FORBIDDEN" by (simp add: operations_forbidden)
  with caps show ?thesis using menu_offers [OF caps, of OptBurn BURN BURN_ROLE _ "[BURN_ROLE]"] by auto
qed

text \<open>
  The danger zone. The option to delete needs the role of the contract: the holder of the admin key of
  the token, who may delete the coin through the token service, is not offered it without the role. Pause and
  unpause are offered to the role and to the holder of the pause key, one of them at a time.
\<close>

theorem danger_zone_options:
  assumes "getCapabilities get account target p d = Inr caps"
  shows "(OptDelete \<in> set (dangerZoneOptions paused caps (Some roles)) \<longleftrightarrow>
      getAccessDecision caps DELETE \<noteq> D_FORBIDDEN \<and> DELETE_ROLE \<in> set roles) \<and>
    (OptPause \<in> set (dangerZoneOptions paused caps (Some roles)) \<or> OptUnPause \<in> set (dangerZoneOptions paused caps (Some roles)) \<longleftrightarrow>
      PAUSE_ROLE \<in> set roles \<or> cap HTS PAUSE \<in> set (caps_capabilities caps)) \<and>
    \<not> {OptPause, OptUnPause} \<subseteq> set (dangerZoneOptions paused caps (Some roles))"
proof (intro conjI)
  note shown = dangerZoneOptions_def danger_options_def danger_option_shown_def Let_def
  show "OptDelete \<in> set (dangerZoneOptions paused caps (Some roles)) \<longleftrightarrow>
      getAccessDecision caps DELETE \<noteq> D_FORBIDDEN \<and> DELETE_ROLE \<in> set roles"
    by (simp add: shown operations_forbidden)
  show "OptPause \<in> set (dangerZoneOptions paused caps (Some roles)) \<or> OptUnPause \<in> set (dangerZoneOptions paused caps (Some roles)) \<longleftrightarrow>
      PAUSE_ROLE \<in> set roles \<or> cap HTS PAUSE \<in> set (caps_capabilities caps)"
    by (cases paused) (simp_all add: shown isOperationAccess_cap)
  show "\<not> {OptPause, OptUnPause} \<subseteq> set (dangerZoneOptions paused caps (Some roles))"
    by (cases paused) (simp_all add: shown)
qed

text \<open>A coin whose admin key is that of the account.\<close>

definition admin_coin :: stable_coin where
  "admin_coin = (minimal_props ''Coin'' ''C'' 6)
     \<lparr>sc_adminKey := Some (KeyPublic \<lparr>pk_key = ''a1'', pk_type = KeyType_ED25519\<rparr>)\<rparr>"

theorem danger_zone_options_witness:
  "\<exists>caps. getCapabilities (\<lambda>_. Inl TypeError) (sample_account ''a1'') (TargetCoin admin_coin) None None = Inr caps \<and>
     getAccessDecision caps DELETE = D_HTS \<and> OptDelete \<notin> set (dangerZoneOptions False caps (Some []))"
proof -
  obtain caps where caps: "getCapabilities (\<lambda>_. Inl TypeError) (sample_account ''a1'') (TargetCoin admin_coin) None None = Inr caps"
    and coin: "caps_coin caps = admin_coin" by (simp add: getCapabilities_def)
  have "getAccessDecision caps DELETE = D_HTS"
    using key_decision [OF caps, of DELETE sc_adminKey] coin
    by (simp add: operation_active_def is_deleted_def is_paused_def admin_coin_def minimal_props_def
        key_matches_def sample_account_def)
  with caps show ?thesis using danger_zone_options [OF caps, of False "[]"] by auto
qed

end
