(* ===== verification/Request_Validation.thy ===== *)
theory Request_Validation
  imports Stable_Coin
begin

text \<open>
  The validation of requests, \<open>sdk/src/port/in/request/validation\<close>. A property of a request is a
  \<open>js_val\<close> or \<open>None\<close> (\<open>undefined\<close>); a validator returns the list of errors, or throws. \<open>request\<close>
  is an instance of \<open>ValidatedRequest\<close>: its schema, its own properties with their values, and the
  properties that carry the decorator \<open>@OptionalField\<close>.
\<close>

datatype js_val = JString string | JNumber int | JBool bool | JArray "js_val list" | JObject

text \<open>A value in a message; \<open>js_join\<close> is \<open>join(',')\<close>.\<close>

fun js_join :: "string list \<Rightarrow> string" where
  "js_join [] = []"
| "js_join [s] = s"
| "js_join (s # t # ss) = s @ '','' @ js_join (t # ss)"

fun js_show :: "js_val \<Rightarrow> string" where
  "js_show (JString s) = s"
| "js_show (JNumber n) = int_str n"
| "js_show (JBool b) = (if b then ''true'' else ''false'')"
| "js_show (JArray vs) = js_join (map js_show vs)"
| "js_show JObject = ''[object Object]''"

type_synonym validator = "js_val \<Rightarrow> js_error list result"

section \<open>Validation.ts\<close>

text \<open>
  \<open>PublicKey.validate\<close> and \<open>PrivateKey.validate\<close> accept everything.
\<close>

definition checkPublicKey :: validator where
  "checkPublicKey val = Inr []"

definition checkContractId :: "(string \<Rightarrow> bool) \<Rightarrow> validator" where
  "checkContractId parses val =
     (case val of JString s \<Rightarrow> Inr (ContractId_validate parses s)
      | _ \<Rightarrow> Inr [IdError (InvalidContractId (js_show val))])"

definition checkString :: "nat option \<Rightarrow> nat \<Rightarrow> bool \<Rightarrow> validator" where
  "checkString mx mn emptyCheck val =
     (case val of
        JString s \<Rightarrow>
          Inr (if emptyCheck \<and> \<not> isNotEmpty (Some s) then [RequestError (EmptyValue s)]
               else if \<not> (case mx of Some m \<Rightarrow> isLengthBetween s mn m | None \<Rightarrow> mn \<le> length s)
               then [RequestError (InvalidLength s mn mx)] else [])
      | _ \<Rightarrow> Inr [RequestError (InvalidType (js_show val))])"

text \<open>\<open>^\d{4}-\d{2}-\d{2}T\d{2}:\d{2}:\d{2}(?:\.\d+)?(Z|[+-]\d{2}:\d{2})?$\<close>\<close>

definition match_digits :: "nat \<Rightarrow> string \<Rightarrow> string option" where
  "match_digits n s =
     (if n \<le> length s \<and> list_all is_digit (take n s) then Some (drop n s) else None)"

definition match_char :: "char \<Rightarrow> string \<Rightarrow> string option" where
  "match_char c s = (case s of x # r \<Rightarrow> if x = c then Some r else None | [] \<Rightarrow> None)"

definition match_zone :: "string \<Rightarrow> bool" where
  "match_zone s \<longleftrightarrow> s = [] \<or> s = ''Z'' \<or>
     (s \<noteq> [] \<and> (hd s = CHR ''+'' \<or> hd s = CHR ''-'') \<and>
      Option.bind (match_digits 2 (tl s)) (\<lambda>r. Option.bind (match_char (CHR '':'') r) (match_digits 2)) = Some [])"

definition ISO_8601_REGEX :: "string \<Rightarrow> bool" where
  "ISO_8601_REGEX s =
     (case Option.bind (match_digits 4 s) (\<lambda>s. Option.bind (match_char (CHR ''-'') s)
       (\<lambda>s. Option.bind (match_digits 2 s) (\<lambda>s. Option.bind (match_char (CHR ''-'') s)
       (\<lambda>s. Option.bind (match_digits 2 s) (\<lambda>s. Option.bind (match_char (CHR ''T'') s)
       (\<lambda>s. Option.bind (match_digits 2 s) (\<lambda>s. Option.bind (match_char (CHR '':'') s)
       (\<lambda>s. Option.bind (match_digits 2 s) (\<lambda>s. Option.bind (match_char (CHR '':'') s)
       (match_digits 2)))))))))) of
        None \<Rightarrow> False
      | Some r \<Rightarrow>
          (case match_char (CHR ''.'') r of
             None \<Rightarrow> match_zone r
           | Some f \<Rightarrow> takeWhile is_digit f \<noteq> [] \<and> match_zone (dropWhile is_digit f)))"

text \<open>\<open>valid_date\<close>: \<open>new Date(dateStr)\<close> is not an invalid date.\<close>

definition checkIsoDateFormat :: "(string \<Rightarrow> bool) \<Rightarrow> validator" where
  "checkIsoDateFormat valid_date val =
     (let s = js_show val in Inr (
        (if \<not> ISO_8601_REGEX s then [RequestError (InvalidDate s)] else []) @
        (if \<not> valid_date s then [RequestError (InvalidDate s)] else [])))"

text \<open>
  \<open>checkNumber\<close> with integer bounds. A string that reads as a decimal is compared as a number.
\<close>

definition checkNumber :: "fixed_number_lib \<Rightarrow> int option \<Rightarrow> int option \<Rightarrow> validator" where
  "checkNumber L mx mn val =
     (let out = (\<lambda>below above. Inr (
            if mn \<noteq> None \<and> mx = None
            then (if below then [RequestError (InvalidRange (js_show val) (map_option int_str mn) None)] else [])
            else if mn = None \<and> mx \<noteq> None
            then (if above then [RequestError (InvalidRange (js_show val) None (map_option int_str mx))] else [])
            else if mn \<noteq> None \<and> mx \<noteq> None
            then (if above \<or> below
                  then [RequestError (InvalidRange (js_show val) (map_option int_str mn) (map_option int_str mx))]
                  else [])
            else []))
      in case val of
           JNumber n \<Rightarrow> out (case mn of Some m \<Rightarrow> n < m | None \<Rightarrow> False) (case mx of Some m \<Rightarrow> m < n | None \<Rightarrow> False)
         | JString s \<Rightarrow>
             (case bd_fromString L s None of
                Inl _ \<Rightarrow> Inr [RequestError (InvalidType s)]
              | Inr v \<Rightarrow> out (case mn of Some m \<Rightarrow> bd_rat v < of_int m | None \<Rightarrow> False)
                             (case mx of Some m \<Rightarrow> of_int m < bd_rat v | None \<Rightarrow> False))
         | _ \<Rightarrow> Inr [RequestError (InvalidType (js_show val))])"

definition ALL_ROLES :: "stable_coin_role list" where
  "ALL_ROLES = [CASHIN_ROLE, BURN_ROLE, WIPE_ROLE, RESCUE_ROLE, PAUSE_ROLE, FREEZE_ROLE, DELETE_ROLE,
     DEFAULT_ADMIN_ROLE, WITHOUT_ROLE, KYC_ROLE, CUSTOM_FEES_ROLE, HOLD_CREATOR_ROLE]"

definition checkRole :: validator where
  "checkRole val =
     Inr (if val \<notin> JString ` set (map role_hash ALL_ROLES)
          then [DomainError (InvalidRole (js_show val))] else [])"

text \<open>\<open>checkAccount\<close> throws what the constructors throw; \<open>derive\<close> and \<open>sdk_type\<close> as for private keys.\<close>

record request_account =
  ra_accountId :: string
  ra_privateKey :: "(string \<times> string) option"
  ra_evmAddress :: "string option"

definition checkAccount ::
  "(bool \<Rightarrow> string \<Rightarrow> (string \<times> string) result) \<Rightarrow> (string \<Rightarrow> string result) \<Rightarrow>
     request_account \<Rightarrow> js_error list result" where
  "checkAccount derive sdk_type val =
     (case ra_privateKey val of
        Some (k, t) \<Rightarrow>
          bindR (new_PrivateKey derive sdk_type k (Some t)) (\<lambda>pk.
          bindR (new_Account (ra_accountId val) (ra_evmAddress val) (Some pk) (Some (priv_publicKey pk)) None)
            (\<lambda>_. Inr []))
      | None \<Rightarrow>
          bindR (new_Account (ra_accountId val) (ra_evmAddress val) None None None) (\<lambda>_. Inr []))"

definition checkHederaIdFormat :: "bool \<Rightarrow> validator" where
  "checkHederaIdFormat zeroIsValid val =
     (let s = js_show val in
      Inr (if \<not> hedera_format s then [RequestError (InvalidFormatHedera s)]
           else if \<not> zeroIsValid \<and> s = ''0.0.0'' then [IdError (AccountIdNotValid s)] else []))"

definition checkAmount :: "fixed_number_lib \<Rightarrow> bool \<Rightarrow> nat \<Rightarrow> validator" where
  "checkAmount L zeroIsValid decimals val =
     (case val of
        JString s \<Rightarrow>
          (if \<not> nums_isBigDecimal L s then Inr [RequestError (InvalidType s)]
           else (let valueDecimals = getDecimalsFromString s in
             bindR (bd_fromString L ''0'' (Some valueDecimals)) (\<lambda>zero.
             bindR (bd_fromString L s None) (\<lambda>value. Inr (
               (if zeroIsValid \<and> isLowerThan L value zero
                then [RequestError (InvalidRange s (Some ''0'') None)]
                else if \<not> zeroIsValid \<and> isLowerOrEqualThan L value zero
                then [RequestError (InvalidRange s (Some ''0'') None)] else []) @
               (if decimals < valueDecimals
                then [DomainError (InvalidDecimalRange s 0 (Some (int decimals)))] else []))))))
      | _ \<Rightarrow> Inr [RequestError (InvalidType (js_show val))])"

definition checkBytes32Format :: validator where
  "checkBytes32Format val =
     (let s = js_show val in
      Inr (if \<not> (js_startsWith s ''0x'' \<and> length (drop 2 s) = 64 \<and> list_all is_hex (drop 2 s))
           then [RequestError (InvalidBytes32 s)] else []))"

definition checkEvmAddressFormat :: "bool \<Rightarrow> validator" where
  "checkEvmAddressFormat zeroIsValid val =
     (let s = js_show val in
      Inr (if \<not> (js_startsWith s ''0x'' \<and> length (drop 2 s) = 40 \<and> list_all is_hex (drop 2 s))
           then [IdError (InvalidEvmAddress s)]
           else if \<not> zeroIsValid \<and> s = EVM_ZERO_ADDRESS then [IdError (AccountIdNotValid s)] else []))"

section \<open>ValidatedRequest.ts\<close>

record request =
  rq_schema :: "(string \<times> validator) list"
  rq_props :: "(string \<times> js_val option) list"
  rq_optional :: "string list"

type_synonym validation_response = "string \<times> js_error list"

definition isOptional :: "request \<Rightarrow> string \<Rightarrow> bool" where
  "isOptional r key \<longleftrightarrow> key \<in> set (rq_optional r)"

text \<open>\<open>getProperty\<close>: the property itself, else the one with a leading underscore, else with \<open>#\<close>.\<close>

definition own_property :: "request \<Rightarrow> string \<Rightarrow> js_val option" where
  "own_property r key = (case map_of (rq_props r) key of Some v \<Rightarrow> v | None \<Rightarrow> None)"

definition js_truthy :: "js_val option \<Rightarrow> bool" where
  "js_truthy v =
     (case v of None \<Rightarrow> False | Some (JString s) \<Rightarrow> s \<noteq> [] | Some (JNumber n) \<Rightarrow> n \<noteq> 0
      | Some (JBool b) \<Rightarrow> b | Some _ \<Rightarrow> True)"

definition getProperty :: "request \<Rightarrow> string \<Rightarrow> js_val option" where
  "getProperty r key =
     (case own_property r key of
        Some v \<Rightarrow> Some v
      | None \<Rightarrow> (if js_truthy (own_property r (CHR ''_'' # key)) then own_property r (CHR ''_'' # key)
                else own_property r (CHR ''#'' # key)))"

definition runValidation :: "request \<Rightarrow> string \<Rightarrow> js_val option \<Rightarrow> validation_response option result" where
  "runValidation r key val =
     (case (map_of (rq_schema r) key, val) of
        (Some check, Some v) \<Rightarrow>
          (case check v of
             Inl e \<Rightarrow> Inr (Some (key, [e]))
           | Inr err \<Rightarrow> Inr (if err \<noteq> [] then Some (key, err) else None))
      | (Some check, None) \<Rightarrow>
          Inr (if \<not> isOptional r key then Some (key, [RequestError (EmptyValue key)]) else None)
      | (None, _) \<Rightarrow>
          (if \<not> isOptional r key then Inl (RuntimeError ''Invalid validation schema'') else Inr None))"

definition pushValidations :: "request \<Rightarrow> string \<Rightarrow> validation_response list" where
  "pushValidations r key =
     (case runValidation r key (getProperty r key) of
        Inl e \<Rightarrow> [(key, [e])]
      | Inr None \<Rightarrow> []
      | Inr (Some v) \<Rightarrow> [v])"

text \<open>\<open>RequestMapper.renamePrivateProps\<close> drops a leading underscore or hash.\<close>

definition renamePrivateProp :: "string \<Rightarrow> string" where
  "renamePrivateProp k =
     (if js_startsWith k ''_'' \<or> js_startsWith k ''#'' then drop 1 k else k)"

definition filterSchemaFromProps :: "request \<Rightarrow> string list" where
  "filterSchemaFromProps r =
     (let entries = map (renamePrivateProp \<circ> fst) (rq_props r)
      in filter (\<lambda>k. k \<in> set entries) (map fst (rq_schema r)))"

definition validate :: "request \<Rightarrow> string option \<Rightarrow> validation_response list" where
  "validate r key =
     (case key of
        None \<Rightarrow> concat (map (pushValidations r) (filterSchemaFromProps r))
      | Some k \<Rightarrow> pushValidations r k)"

section \<open>What validation guarantees\<close>

context fixed_number_api
begin

lemma fromString_zero: "d \<le> 80 \<Longrightarrow> \<exists>z. bd_fromString L ''0'' (Some d) = Inr z \<and> bd_rat z = 0"
  using parse_fixed_digits [of "''0''" d]
  by (auto simp: bd_fromString_def new_of_string_def fromString in_range128_def fn_rat_def)

lemma fromString_decimals:
  assumes "bd_fromString L s None = Inr b"
  shows "bd_decimals b = getDecimalsFromString s \<and> getDecimalsFromString s \<le> 80"
proof -
  have "parse_fixed s (getDecimalsFromString s) = Some (bd_fn b)"
    using assms by (simp add: bd_fromString_def new_of_string_Inr)
  then show ?thesis using parse_fixed_decimals parse_fixed_le80 by blast
qed

lemma checkAmount_iff:
  "checkAmount L zeroIsValid d (JString s) = Inr [] \<longleftrightarrow>
     (\<exists>b. bd_fromString L s None = Inr b \<and> bd_decimals b \<le> d \<and>
        (if zeroIsValid then 0 \<le> bd_rat b else 0 < bd_rat b))"
proof (cases "bd_fromString L s None")
  case (Inl e)
  then show ?thesis by (simp add: checkAmount_def nums_isBigDecimal_def)
next
  case (Inr b)
  note dec = fromString_decimals [OF Inr]
  then obtain z where "bd_fromString L ''0'' (Some (getDecimalsFromString s)) = Inr z" "bd_rat z = 0"
    using fromString_zero by blast
  then show ?thesis
    using Inr dec by (auto simp: checkAmount_def nums_isBigDecimal_def order_iffs Let_def)
qed

end

lemma runValidation_none:
  assumes "map_of (rq_schema r) k = Some check"
  shows "pushValidations r k = [] \<longleftrightarrow>
    (case getProperty r k of None \<Rightarrow> isOptional r k | Some v \<Rightarrow> check v = Inr [])"
  using assms
  by (auto simp: pushValidations_def runValidation_def split: option.splits sum.splits)

text \<open>
  Property C27. A request passes validation exactly when every property that it declares and its
  schema covers is either undefined and optional, or accepted by its validator without an error
  and without an exception.
\<close>

theorem validate_passes_iff:
  "validate r None = [] \<longleftrightarrow>
     (\<forall>k check. map_of (rq_schema r) k = Some check \<longrightarrow>
        k \<in> renamePrivateProp ` fst ` set (rq_props r) \<longrightarrow>
        (case getProperty r k of None \<Rightarrow> isOptional r k | Some v \<Rightarrow> check v = Inr []))"
proof -
  have "validate r None = [] \<longleftrightarrow> (\<forall>k \<in> set (filterSchemaFromProps r). pushValidations r k = [])"
    by (simp add: validate_def)
  also have "\<dots> \<longleftrightarrow> (\<forall>k check. map_of (rq_schema r) k = Some check \<longrightarrow>
      k \<in> renamePrivateProp ` fst ` set (rq_props r) \<longrightarrow> pushValidations r k = [])"
  proof -
    have "k \<in> fst ` set (rq_schema r) \<longleftrightarrow> (\<exists>check. map_of (rq_schema r) k = Some check)" for k
      by (metis domD domI dom_map_of_conv_image_fst)
    then show ?thesis
      unfolding filterSchemaFromProps_def Let_def by (auto simp: image_image)
  qed
  finally show ?thesis using runValidation_none by blast
qed

definition sample_request :: request where
  "sample_request =
     \<lparr>rq_schema = [(''tokenId'', checkHederaIdFormat False), (''startDate'', checkIsoDateFormat (\<lambda>_. True))],
      rq_props = [(''tokenId'', Some (JString ''0.0.5'')), (''startDate'', None)],
      rq_optional = [''startDate'']\<rparr>"

theorem validate_passes_iff_witness: "validate sample_request None = []"
proof -
  have "checkHederaIdFormat False (JString ''0.0.5'') = Inr []" by code_simp
  then show ?thesis
    by (subst validate_passes_iff)
      (simp add: sample_request_def getProperty_def own_property_def isOptional_def js_truthy_def)
qed

text \<open>
  \<open>checkAmount\<close> accepts a string exactly when it reads as a decimal number that has
  at most the allowed decimals and is positive (or not negative, where zero is valid).
\<close>

theorem checkAmount_accepts:
  assumes "fixed_number_api L"
  shows "checkAmount L zeroIsValid decimals (JString s) = Inr [] \<longleftrightarrow>
    (\<exists>b. bd_fromString L s None = Inr b \<and> bd_decimals b \<le> decimals \<and>
       (if zeroIsValid then 0 \<le> bd_rat b else 0 < bd_rat b))"
  using fixed_number_api.checkAmount_iff [OF assms] .

theorem checkAmount_accepts_witness:
  "checkAmount exact_lib False 18 (JString ''10.5'') = Inr []"
proof -
  have "bd_fromString exact_lib ''10.5'' None = Inr \<lparr>bd_fn = \<lparr>fn_value = 105, fn_decimals = 1\<rparr>\<rparr>"
    by code_simp
  then show ?thesis
    using checkAmount_accepts [OF exact.fixed_number_api_axioms, of False 18 "''10.5''"]
    by (simp add: fn_rat_def)
qed

end
