(* ===== verification/Ports.thy ===== *)
theory Ports
  imports Capabilities Request_Validation
begin

text \<open>
  What the application layer sees of the outside: the read operations of the \<open>MirrorNodeAdapter\<close>
  and of the \<open>RPCQueryAdapter\<close> (\<open>sdk/src/port/out\<close>), the connected account and the clock, as the
  record \<open>env\<close>. A field is a function of the query's arguments to the value or the error that the
  promise settles with, so one \<open>env\<close> is a snapshot of the network during one command. The view
  models are those of \<open>port/out/mirror/response\<close>.
\<close>

datatype freeze_status = UNFROZEN | FROZEN
datatype kyc_status = NOT_APPLICABLE | GRANTED | REVOKED

record account_token_relation =
  tr_automaticAssociation :: bool
  tr_balance :: big_decimal
  tr_createdTimestamp :: string
  tr_freezeStatus :: "freeze_status option"
  tr_kycStatus :: "kyc_status option"
  tr_tokenId :: hedera_id

record auto_association =
  aa_maxAutoAssociations :: "int option"
  aa_autoAssociationsCount :: "int option"
  aa_remainingAutoAssociations :: "int option"

record account_info =
  ai_id :: "string option"
  ai_evmAddress :: "string option"
  ai_publicKey :: "public_key option"

record contract_info =
  ci_id :: string
  ci_evmAddress :: string

text \<open>
  The view model of a stablecoin: name, symbol, decimals and fees may be missing or raw; the other
  properties of \<open>StableCoinProps\<close> are in \<open>cv_props\<close>.
\<close>

record coin_view =
  cv_name :: "string option"
  cv_symbol :: "string option"
  cv_decimals :: "nat option"
  cv_customFees :: "request_fee list option"
  cv_props :: stable_coin
  cv_reserveAddress :: "contract_id option"
  cv_reserveAmount :: "big_decimal option"

record env =
  env_lib :: fixed_number_lib
  env_account :: account
  env_now :: int                                   \<comment> \<open>\<open>Date.now()\<close>, in milliseconds\<close>
  sdk_toSolidityAddress :: "string \<Rightarrow> string"   \<comment> \<open>of an entity id of the Hedera SDK\<close>
  sdk_rawKeyBytes :: "string \<Rightarrow> byte list result"  \<comment> \<open>\<open>HPublicKey.fromString(k).toBytesRaw()\<close>\<close>
  mn_getStableCoin :: "hedera_id \<Rightarrow> coin_view result"
  mn_getAccountToken :: "hedera_id \<Rightarrow> hedera_id \<Rightarrow> account_token_relation option result"
  mn_getAccountAutoAssociationInfo :: "hedera_id \<Rightarrow> auto_association option result"
  mn_accountToEvmAddress :: "hedera_id \<Rightarrow> evm_address result"
  mn_getHBARBalance :: "hedera_id \<Rightarrow> int result"
  mn_getAccountInfo :: "string \<Rightarrow> account_info result"
  mn_getContractInfo :: "string \<Rightarrow> contract_info result"
  mn_getContractResults :: "string \<Rightarrow> nat \<Rightarrow> string list option result"
  mn_getStableCoinsList :: "hedera_id \<Rightarrow> string list result"
  q_balanceOf :: "evm_address \<Rightarrow> evm_address \<Rightarrow> int result"
  q_getReserveAddress :: "evm_address \<Rightarrow> contract_id result"
  q_getReserveAmount :: "evm_address \<Rightarrow> int result"
  q_getReserveDecimals :: "evm_address \<Rightarrow> nat result"
  q_getReserveLatestRoundData :: "evm_address \<Rightarrow> int list result"
  q_getBurnableAmount :: "evm_address \<Rightarrow> int result"
  q_getMetadata :: "evm_address \<Rightarrow> string result"
  q_isUnlimited :: "evm_address \<Rightarrow> evm_address \<Rightarrow> bool result"
  q_supplierAllowance :: "evm_address \<Rightarrow> evm_address \<Rightarrow> int result"
  q_hasRole :: "evm_address \<Rightarrow> evm_address \<Rightarrow> stable_coin_role \<Rightarrow> bool result"
  q_getRoles :: "evm_address \<Rightarrow> evm_address \<Rightarrow> string list result"
  q_getAccountsWithRole :: "evm_address \<Rightarrow> string \<Rightarrow> string list option result"
  q_getHoldFor :: "evm_address \<Rightarrow> evm_address \<Rightarrow> int \<Rightarrow> (hold_details \<times> int) result"
  q_getHoldsIdFor :: "evm_address \<Rightarrow> evm_address \<Rightarrow> int \<Rightarrow> int \<Rightarrow> int list result"
  q_getHoldCountFor :: "evm_address \<Rightarrow> evm_address \<Rightarrow> int result"
  q_getHeldAmountFor :: "evm_address \<Rightarrow> evm_address \<Rightarrow> int result"
  q_getConfigInfo :: "evm_address \<Rightarrow> (string \<times> string \<times> int) result"

end
