(* ===== verification/Queries.thy ===== *)
theory Queries
  imports Ports
begin

text \<open>
  The query handlers of \<open>sdk/src/app/usecase/query\<close> and the services of \<open>sdk/src/app/service\<close> that
  rest on them: \<open>StableCoinService\<close>, \<open>AccountService\<close>, \<open>ValidationService\<close> and the result
  extraction of \<open>TransactionService\<close>. A handler named \<open>xQuery\<close> is the \<open>execute\<close> method of
  \<open>XQueryHandler\<close>; its value is the response's payload.
\<close>

section \<open>Mirror node queries\<close>

definition getAccountInfoQuery :: "env \<Rightarrow> hedera_id \<Rightarrow> account_info result" where
  "getAccountInfoQuery E i = mn_getAccountInfo E (id_value i)"

definition getAccountTokenRelationshipQuery ::
  "env \<Rightarrow> hedera_id \<Rightarrow> hedera_id \<Rightarrow> account_token_relation option result" where
  "getAccountTokenRelationshipQuery E targetId tokenId = mn_getAccountToken E targetId tokenId"

definition getAccountAutoAssociationQuery :: "env \<Rightarrow> hedera_id \<Rightarrow> auto_association option result" where
  "getAccountAutoAssociationQuery E targetId = mn_getAccountAutoAssociationInfo E targetId"

definition getListStableCoinQuery :: "env \<Rightarrow> hedera_id \<Rightarrow> string list result" where
  "getListStableCoinQuery E accountId = mn_getStableCoinsList E accountId"

definition HBAR_DECIMALS :: nat where "HBAR_DECIMALS = 8"

definition balanceOfHBARQuery :: "env \<Rightarrow> hedera_id \<Rightarrow> big_decimal result" where
  "balanceOfHBARQuery E treasuryAccountId =
     bindR (mn_getHBARBalance E treasuryAccountId) (\<lambda>res.
       fromStringFixed (env_lib E) (int_str res) HBAR_DECIMALS)"

text \<open>\<open>GetStableCoinQueryHandler\<close>: the mirror node's coin, its metadata and its reserve.\<close>

definition getStableCoinQuery :: "env \<Rightarrow> hedera_id \<Rightarrow> coin_view result" where
  "getStableCoinQuery E tokenId =
     bindR (mn_getStableCoin E tokenId) (\<lambda>coin.
       case sc_evmProxyAddress (cv_props coin) of
         None \<Rightarrow> Inl (JsError ''Invalid proxy address'')
       | Some proxy \<Rightarrow>
           bindR (q_getReserveAddress E proxy) (\<lambda>reserveAddress.
           bindR (q_getMetadata E proxy) (\<lambda>metadata.
             let coin1 = coin \<lparr>cv_props := (cv_props coin) \<lparr>sc_metadata := Some metadata\<rparr>\<rparr> in
             if contract_value reserveAddress = ''0.0.0'' then Inr coin1
             else
               bindR (mn_getContractInfo E (contract_value reserveAddress)) (\<lambda>contractInfo.
               bindR (new_EvmAddress (ci_evmAddress contractInfo)) (\<lambda>reserveEvm.
               bindR (q_getReserveDecimals E reserveEvm) (\<lambda>reserveDecimals.
               bindR (q_getReserveAmount E proxy) (\<lambda>amount.
               bindR (fromStringFixed (env_lib E) (int_str amount) reserveDecimals) (\<lambda>reserveAmount.
                 Inr (coin1 \<lparr>cv_reserveAddress := Some reserveAddress,
                             cv_reserveAmount := Some reserveAmount\<rparr>))))))))) "

section \<open>StableCoinService and AccountService\<close>

definition StableCoinService_get :: "env \<Rightarrow> hedera_id \<Rightarrow> stable_coin result" where
  "StableCoinService_get E tokenId =
     bindR (getStableCoinQuery E tokenId) (\<lambda>v.
       case (cv_name v, cv_decimals v, cv_symbol v) of
         (Some name, Some decimals, Some symbol) \<Rightarrow>
           (if name = [] \<or> symbol = [] then Inl (CommandError (StableCoinNotFound (id_value tokenId)))
            else bindR (toCustomFees (env_lib E) (cv_customFees v)) (\<lambda>fees.
              Inr (new_StableCoin (env_lib E)
                ((cv_props v) \<lparr>sc_name := name, sc_decimals := decimals, sc_symbol := symbol,
                               sc_customFees := fees\<rparr>))))
       | _ \<Rightarrow> Inl (CommandError (StableCoinNotFound (id_value tokenId))))"

definition service_getCapabilities :: "env \<Rightarrow> hedera_id \<Rightarrow> stable_coin_capabilities result" where
  "service_getCapabilities E tokenId =
     getCapabilities (StableCoinService_get E) (env_account E) (TargetId tokenId) None None"

definition AccountService_getAccountInfo :: "env \<Rightarrow> hedera_id \<Rightarrow> account result" where
  "AccountService_getAccountInfo E i =
     bindR (getAccountInfoQuery E i) (\<lambda>info.
       case ai_id info of
         None \<Rightarrow> Inl (IdError (AccountIdNotValid (id_value i)))
       | Some aid \<Rightarrow>
           if aid = [] then Inl (IdError (AccountIdNotValid (id_value i)))
           else new_Account aid (ai_evmAddress info) None (ai_publicKey info) None)"

section \<open>Contract queries\<close>

text \<open>The common start of the handlers: the coin, which must have a proxy.\<close>

definition with_proxy :: "env \<Rightarrow> hedera_id \<Rightarrow> (stable_coin \<Rightarrow> evm_address \<Rightarrow> 'a result) \<Rightarrow> 'a result" where
  "with_proxy E tokenId k =
     bindR (StableCoinService_get E tokenId) (\<lambda>coin.
       case sc_evmProxyAddress coin of
         None \<Rightarrow> Inl (JsError ''Invalid token id'')
       | Some proxy \<Rightarrow> k coin proxy)"

definition balanceOfQuery :: "env \<Rightarrow> hedera_id \<Rightarrow> hedera_id \<Rightarrow> big_decimal result" where
  "balanceOfQuery E tokenId targetId =
     with_proxy E tokenId (\<lambda>coin proxy.
       bindR (mn_accountToEvmAddress E targetId) (\<lambda>target.
       bindR (q_balanceOf E proxy target) (\<lambda>res.
         fromStringFixed (env_lib E) (int_str res) (sc_decimals coin))))"

definition getReserveAddressQuery :: "env \<Rightarrow> hedera_id \<Rightarrow> contract_id result" where
  "getReserveAddressQuery E tokenId = with_proxy E tokenId (\<lambda>coin proxy. q_getReserveAddress E proxy)"

definition getReserveAmountQuery :: "env \<Rightarrow> hedera_id \<Rightarrow> big_decimal result" where
  "getReserveAmountQuery E tokenId =
     with_proxy E tokenId (\<lambda>coin proxy.
       bindR (q_getReserveAmount E proxy) (\<lambda>res.
         fromStringFixed (env_lib E) (int_str res) RESERVE_DECIMALS))"

definition getBurnableAmountQuery :: "env \<Rightarrow> hedera_id \<Rightarrow> big_decimal result" where
  "getBurnableAmountQuery E tokenId =
     with_proxy E tokenId (\<lambda>coin proxy.
       bindR (q_getBurnableAmount E proxy) (\<lambda>res.
         fromStringFixed (env_lib E) (int_str res) (sc_decimals coin)))"

definition isUnlimitedQuery :: "env \<Rightarrow> hedera_id \<Rightarrow> hedera_id \<Rightarrow> bool result" where
  "isUnlimitedQuery E tokenId targetId =
     with_proxy E tokenId (\<lambda>coin proxy.
       bindR (mn_accountToEvmAddress E targetId) (\<lambda>target. q_isUnlimited E proxy target))"

definition getAllowanceQuery :: "env \<Rightarrow> hedera_id \<Rightarrow> hedera_id \<Rightarrow> big_decimal result" where
  "getAllowanceQuery E tokenId targetId =
     with_proxy E tokenId (\<lambda>coin proxy.
       bindR (mn_accountToEvmAddress E targetId) (\<lambda>target.
       bindR (q_supplierAllowance E proxy target) (\<lambda>res.
         fromStringFixed (env_lib E) (int_str res) (sc_decimals coin))))"

definition hasRoleQuery :: "env \<Rightarrow> stable_coin_role \<Rightarrow> hedera_id \<Rightarrow> hedera_id \<Rightarrow> bool result" where
  "hasRoleQuery E role targetId tokenId =
     with_proxy E tokenId (\<lambda>coin proxy.
       bindR (mn_accountToEvmAddress E targetId) (\<lambda>target. q_hasRole E proxy target role))"

definition getRolesQuery :: "env \<Rightarrow> hedera_id \<Rightarrow> hedera_id \<Rightarrow> string list result" where
  "getRolesQuery E targetId tokenId =
     with_proxy E tokenId (\<lambda>coin proxy.
       bindR (mn_accountToEvmAddress E targetId) (\<lambda>target. q_getRoles E proxy target))"

definition getAccountsWithRolesQuery :: "env \<Rightarrow> string \<Rightarrow> string \<Rightarrow> string list result" where
  "getAccountsWithRolesQuery E roleId tokenId =
     bindR (HederaId_from (Some tokenId)) (\<lambda>tid.
     with_proxy E tid (\<lambda>coin proxy.
       bindR (q_getAccountsWithRole E proxy roleId) (\<lambda>res.
       bindR (mapR (mn_getAccountInfo E) (case res of None \<Rightarrow> [] | Some l \<Rightarrow> l)) (\<lambda>infos.
         Inr (filter (\<lambda>i. i \<noteq> []) (List.map_filter ai_id infos))))))"

definition getConfigInfoQuery :: "env \<Rightarrow> hedera_id \<Rightarrow> (string \<times> string \<times> int) result" where
  "getConfigInfoQuery E tokenId =
     with_proxy E tokenId (\<lambda>coin proxy.
       bindR (q_getConfigInfo E proxy) (\<lambda>(resolverAddress, configId, configVersion).
       bindR (mn_getContractInfo E resolverAddress) (\<lambda>info.
         Inr (ci_id info, configId, configVersion))))"

text \<open>
  \<open>GetHoldForQueryHandler\<close>: the hold with its amount in the coin's decimals; a call exception
  \<open>HoldNotFound\<close> becomes the empty hold. \<open>q_getHoldFor\<close> gives the details and the raw amount.
\<close>

definition getHoldForQuery :: "env \<Rightarrow> hedera_id \<Rightarrow> hedera_id \<Rightarrow> int \<Rightarrow> hold_details result" where
  "getHoldForQuery E tokenId sourceId holdId =
     with_proxy E tokenId (\<lambda>coin proxy.
       case bindR (mn_accountToEvmAddress E sourceId) (\<lambda>source.
            bindR (q_getHoldFor E proxy source holdId) (\<lambda>(details, raw).
            bindR (fromStringFixed (env_lib E) (int_str raw) (sc_decimals coin)) (\<lambda>amount.
              Inr (details \<lparr>hd_amount := amount\<rparr>)))) of
         Inr d \<Rightarrow> Inr d
       | Inl e \<Rightarrow> if e = JsError ''HoldNotFound'' then Inr HoldDetails_empty else Inl e)"

definition getHeldAmountForQuery :: "env \<Rightarrow> hedera_id \<Rightarrow> hedera_id \<Rightarrow> big_decimal result" where
  "getHeldAmountForQuery E tokenId targetId =
     with_proxy E tokenId (\<lambda>coin proxy.
       bindR (mn_accountToEvmAddress E targetId) (\<lambda>target.
       bindR (q_getHeldAmountFor E proxy target) (\<lambda>res.
         fromStringFixed (env_lib E) (int_str res) (sc_decimals coin))))"

definition getHoldsIdForQuery :: "env \<Rightarrow> hedera_id \<Rightarrow> hedera_id \<Rightarrow> int \<Rightarrow> int \<Rightarrow> int list result" where
  "getHoldsIdForQuery E tokenId targetId start stop =
     with_proxy E tokenId (\<lambda>coin proxy.
       bindR (mn_accountToEvmAddress E targetId) (\<lambda>target. q_getHoldsIdFor E proxy target start stop))"

definition getHoldCountForQuery :: "env \<Rightarrow> hedera_id \<Rightarrow> hedera_id \<Rightarrow> int result" where
  "getHoldCountForQuery E tokenId targetId =
     with_proxy E tokenId (\<lambda>coin proxy.
       bindR (mn_accountToEvmAddress E targetId) (\<lambda>target. q_getHoldCountFor E proxy target))"

section \<open>ValidationService\<close>

text \<open>Each check returns (\<open>Inr ()\<close>) or throws.\<close>

definition checkHoldBalance :: "env \<Rightarrow> hedera_id \<Rightarrow> hedera_id \<Rightarrow> int \<Rightarrow> big_decimal \<Rightarrow> unit result" where
  "checkHoldBalance E tokenId sourceId holdId amount =
     bindR (getHoldForQuery E tokenId sourceId holdId) (\<lambda>details.
       if isLowerThan (env_lib E) (hd_amount details) amount
       then Inl (HoldError InsufficientHoldBalance) else Inr ())"

definition checkValidHoldId :: "env \<Rightarrow> hedera_id \<Rightarrow> hedera_id \<Rightarrow> int \<Rightarrow> unit result" where
  "checkValidHoldId E tokenId sourceId holdId =
     bindR (getHoldsIdForQuery E tokenId sourceId 0 100) (\<lambda>holdIds.
       if holdId \<notin> set holdIds then Inl (HoldError InvalidHoldId) else Inr ())"

definition callerAddress :: "env \<Rightarrow> string option result" where
  "callerAddress E =
     (case acc_evmAddress (env_account E) of
        Some a \<Rightarrow> Inr (Some (js_toLowerCase a))
      | None \<Rightarrow> bindR (AccountService_getAccountInfo E (acc_id (env_account E))) (\<lambda>info.
          Inr (map_option js_toLowerCase (acc_evmAddress info))))"

definition checkEscrow :: "env \<Rightarrow> hedera_id \<Rightarrow> hedera_id \<Rightarrow> int \<Rightarrow> unit result" where
  "checkEscrow E tokenId sourceId holdId =
     bindR (getHoldForQuery E tokenId sourceId holdId) (\<lambda>details.
     bindR (callerAddress E) (\<lambda>caller.
       let escrow = js_toLowerCase (hd_escrowAddress details) in
       if caller \<noteq> Some escrow
       then Inl (HoldError (NotEscrow (case caller of None \<Rightarrow> EVM_ZERO_ADDRESS | Some c \<Rightarrow> c) escrow))
       else Inr ()))"

definition checkHoldTarget :: "env \<Rightarrow> hedera_id \<Rightarrow> hedera_id \<Rightarrow> int \<Rightarrow> hedera_id option \<Rightarrow> unit result" where
  "checkHoldTarget E tokenId sourceId holdId targetId =
     bindR (getHoldForQuery E tokenId sourceId holdId) (\<lambda>details.
       let destinationAddress = js_toLowerCase (hd_destinationAddress details) in
       if destinationAddress = EVM_ZERO_ADDRESS \<and> targetId = None
       then Inl (HoldError InvalidHoldDestination)
       else case targetId of
              None \<Rightarrow> Inr ()
            | Some t \<Rightarrow>
                if destinationAddress \<noteq> EVM_ZERO_ADDRESS
                then bindR (mn_accountToEvmAddress E t) (\<lambda>targetEvm.
                       if destinationAddress \<noteq> js_toLowerCase (evm_value targetEvm)
                       then Inl (HoldError InvalidHoldDestination) else Inr ())
                else Inr ())"

definition checkHoldExpiration :: "env \<Rightarrow> hedera_id \<Rightarrow> hedera_id \<Rightarrow> int \<Rightarrow> bool \<Rightarrow> unit result" where
  "checkHoldExpiration E tokenId sourceId holdId isReclaim =
     bindR (getHoldForQuery E tokenId sourceId holdId) (\<lambda>details.
       let currentTimestamp = env_now E div 1000 in
       if \<not> isReclaim \<and> hd_expirationTimeStamp details < currentTimestamp
       then Inl (HoldError ExpiredHold)
       else if isReclaim \<and> currentTimestamp < hd_expirationTimeStamp details
       then Inl (HoldError HoldNotExpired) else Inr ())"

definition checkBurnableAmount :: "env \<Rightarrow> hedera_id \<Rightarrow> string \<Rightarrow> unit result" where
  "checkBurnableAmount E tokenId amount =
     bindR (getBurnableAmountQuery E tokenId) (\<lambda>burnableAmount.
     bindR (bd_fromString (env_lib E) amount None) (\<lambda>a.
       if isLowerThan (env_lib E) burnableAmount a
       then Inl (CommandError BurnableAmountExceeded) else Inr ()))"

end
