(* ===== verification/Requests.thy ===== *)
theory Requests
  imports Request_Validation Queries
begin

text \<open>
  The request classes of \<open>sdk/src/port/in/request\<close>. A definition with the name of a class is its
  constructor: from the arguments to the schema, the properties in the order of their assignment, and the
  fields that carry \<open>@OptionalField\<close>. The arguments have the static types of the class; numbers are
  whole. An object among the arguments (an account, a key) is opaque as a property: its validator has
  the argument itself. \<open>startDate\<close> and its like are validated only when they are defined, so that the
  test for \<open>undefined\<close> in their validators has no effect.
\<close>

section \<open>Parameters and validators of single requests\<close>

text \<open>
  What the validators use from outside: ethers' numbers, \<open>Date\<close>, the parser of contract identifiers, the
  derivation of keys, and the clock in milliseconds.
\<close>

record request_lib =
  rl_lib :: fixed_number_lib
  rl_validDate :: "string \<Rightarrow> bool"
  rl_parsesContract :: "string \<Rightarrow> bool"
  rl_derive :: "bool \<Rightarrow> string \<Rightarrow> (string \<times> string) result"
  rl_sdkType :: "string \<Rightarrow> string result"
  rl_now :: int
  rl_nanLong :: "int result"   \<comment> \<open>what the setters of the SDK's fees make of \<open>NaN\<close>\<close>

definition startDate_check :: "request_lib \<Rightarrow> validator" where
  "startDate_check V = checkIsoDateFormat (rl_validDate V)"

definition account_check :: "request_lib \<Rightarrow> request_account \<Rightarrow> validator" where
  "account_check V account = (\<lambda>_. checkAccount (rl_derive V) (rl_sdkType V) account)"

text \<open>A date that is not a number, \<open>NaN\<close>, is neither too early nor too late.\<close>

definition expiration_check :: "request_lib \<Rightarrow> validator" where
  "expiration_check V val =
     Inr (case js_parseInt (js_show val) of
            None \<Rightarrow> []
          | Some n \<Rightarrow> hold_checkExpirationTimestamp n (Some (- (- rl_now V div 1000))) None)"

definition supplier_type_check :: validator where
  "supplier_type_check val =
     (case val of
        JString s \<Rightarrow>
          Inr (if js_toLowerCase s \<notin> {''limited'', ''unlimited''} then [DomainError (InvalidSupplierType s)] else [])
      | _ \<Rightarrow> Inl TypeError)"

definition limit_type_check :: validator where
  "limit_type_check val =
     Inr (if val \<notin> {JString ''limited'', JString ''unlimited''}
          then [DomainError (InvalidSupplierType (js_show val))] else [])"

text \<open>
  The loops over a list: the first element that has errors or that occurred before decides. The lists
  are typed, another value has no \<open>length\<close>.
\<close>

fun check_distinct :: "validator \<Rightarrow> string \<Rightarrow> js_val list \<Rightarrow> js_val list \<Rightarrow> js_error list result" where
  "check_distinct f what seen [] = Inr []"
| "check_distinct f what seen (v # vs) =
     bindR (f v) (\<lambda>err.
       if err \<noteq> [] then Inr err
       else if v \<in> set seen then Inr [RequestError (InvalidValue (what @ '' '' @ js_show v @ '' is duplicated''))]
       else check_distinct f what (seen @ [v]) vs)"

definition unique_list_check :: "validator \<Rightarrow> string \<Rightarrow> string \<Rightarrow> validator" where
  "unique_list_check f whats what val =
     (case val of
        JArray vs \<Rightarrow>
          if vs = [] then Inr [RequestError (InvalidValue (''The list of '' @ whats @ '' cannot be empty.''))]
          else check_distinct f what [] vs
      | _ \<Rightarrow> Inl TypeError)"

fun first_errors :: "validator \<Rightarrow> js_val list \<Rightarrow> js_error list result" where
  "first_errors f [] = Inr []"
| "first_errors f (v # vs) = bindR (f v) (\<lambda>err. if err \<noteq> [] then Inr err else first_errors f vs)"

definition amounts_check :: "fixed_number_lib \<Rightarrow> bool \<Rightarrow> string list \<Rightarrow> validator" where
  "amounts_check L zeroIsValid targetsId val =
     (case val of
        JArray vs \<Rightarrow>
          if length vs \<noteq> length targetsId
          then Inr [RequestError (InvalidValue (''The list of amounts and the list of accounts must '' @
                 ''contain the same number of items.''))]
          else first_errors (checkAmount L zeroIsValid 18) vs
      | _ \<Rightarrow> Inl TypeError)"

text \<open>Only a grant of the cash-in role looks at the amounts, where zero stands for an unlimited one.\<close>

definition grant_amounts_check :: "fixed_number_lib \<Rightarrow> stable_coin_role list \<Rightarrow> string list \<Rightarrow> validator" where
  "grant_amounts_check L roles targetsId val =
     (if CASHIN_ROLE \<notin> set roles then Inr [] else amounts_check L True targetsId val)"

text \<open>A decimal number with at most the given decimals, before anything else is asked of it.\<close>

definition decimal_check ::
  "fixed_number_lib \<Rightarrow> string \<Rightarrow> nat \<Rightarrow> js_error list result \<Rightarrow> js_error list result" where
  "decimal_check L s decimals rest =
     (if \<not> isBigDecimal L s then Inr [RequestError (InvalidType s)]
      else bindR (hasMoreDecimals L s (int decimals)) (\<lambda>more.
        if more then Inr [DomainError (InvalidDecimalRange s (int decimals) None)] else rest))"

definition reserve_amount_check :: "fixed_number_lib \<Rightarrow> validator" where
  "reserve_amount_check L val =
     decimal_check L (js_show val) RESERVE_DECIMALS
      (bindR (bd_fromString L (js_show val) (Some RESERVE_DECIMALS)) (\<lambda>reserveAmount.
         checkReserveAmount L reserveAmount RESERVE_DECIMALS))"

section \<open>Cash and account operations\<close>

definition CashInRequest ::
  "request_lib \<Rightarrow> string \<Rightarrow> string \<Rightarrow> string \<Rightarrow> string option
     \<Rightarrow> request" where
  "CashInRequest V amount targetId tokenId startDate =
     \<lparr>rq_schema = [(''amount'', checkAmount (rl_lib V) False 18), (''targetId'', checkHederaIdFormat False),
                   (''tokenId'', checkHederaIdFormat False), (''startDate'', startDate_check V)],
      rq_props = [(''amount'', Some (JString amount)), (''targetId'', Some (JString targetId)),
                  (''tokenId'', Some (JString tokenId)), (''startDate'', map_option JString startDate)],
      rq_optional = [''startDate'']\<rparr>"

definition BurnRequest ::
  "request_lib \<Rightarrow> string \<Rightarrow> string \<Rightarrow> string option \<Rightarrow> request" where
  "BurnRequest V amount tokenId startDate =
     \<lparr>rq_schema = [(''amount'', checkAmount (rl_lib V) False 18), (''tokenId'', checkHederaIdFormat False),
                   (''startDate'', startDate_check V)],
      rq_props = [(''amount'', Some (JString amount)), (''tokenId'', Some (JString tokenId)),
                  (''startDate'', map_option JString startDate)],
      rq_optional = [''startDate'']\<rparr>"

definition WipeRequest ::
  "request_lib \<Rightarrow> string \<Rightarrow> string \<Rightarrow> string \<Rightarrow> string option
     \<Rightarrow> request" where
  "WipeRequest V amount targetId tokenId startDate =
     \<lparr>rq_schema = [(''amount'', checkAmount (rl_lib V) False 18), (''targetId'', checkHederaIdFormat False),
                   (''tokenId'', checkHederaIdFormat False), (''startDate'', startDate_check V)],
      rq_props = [(''amount'', Some (JString amount)), (''targetId'', Some (JString targetId)),
                  (''tokenId'', Some (JString tokenId)), (''startDate'', map_option JString startDate)],
      rq_optional = [''startDate'']\<rparr>"

definition RescueRequest ::
  "request_lib \<Rightarrow> string \<Rightarrow> string \<Rightarrow> string option \<Rightarrow> request" where
  "RescueRequest V tokenId amount startDate =
     \<lparr>rq_schema = [(''tokenId'', checkHederaIdFormat False), (''amount'', checkAmount (rl_lib V) False 18),
                   (''startDate'', startDate_check V)],
      rq_props = [(''tokenId'', Some (JString tokenId)), (''amount'', Some (JString amount)),
                  (''startDate'', map_option JString startDate)],
      rq_optional = [''startDate'']\<rparr>"

definition RescueHBARRequest ::
  "request_lib \<Rightarrow> string \<Rightarrow> string \<Rightarrow> string option \<Rightarrow> request" where
  "RescueHBARRequest V tokenId amount startDate =
     \<lparr>rq_schema = [(''tokenId'', checkHederaIdFormat False),
                   (''amount'', checkAmount (rl_lib V) False HBAR_DECIMALS), (''startDate'', startDate_check V)],
      rq_props = [(''tokenId'', Some (JString tokenId)), (''amount'', Some (JString amount)),
                  (''startDate'', map_option JString startDate)],
      rq_optional = [''startDate'']\<rparr>"

definition FreezeAccountRequest ::
  "request_lib \<Rightarrow> string \<Rightarrow> string \<Rightarrow> string option \<Rightarrow> request" where
  "FreezeAccountRequest V tokenId targetId startDate =
     \<lparr>rq_schema = [(''targetId'', checkHederaIdFormat False), (''tokenId'', checkHederaIdFormat False),
                   (''startDate'', startDate_check V)],
      rq_props = [(''tokenId'', Some (JString tokenId)), (''targetId'', Some (JString targetId)),
                  (''startDate'', map_option JString startDate)],
      rq_optional = [''startDate'']\<rparr>"

definition KYCRequest ::
  "request_lib \<Rightarrow> string \<Rightarrow> string \<Rightarrow> string option \<Rightarrow> request" where
  "KYCRequest V targetId tokenId startDate =
     \<lparr>rq_schema = [(''targetId'', checkHederaIdFormat False), (''tokenId'', checkHederaIdFormat False),
                   (''startDate'', startDate_check V)],
      rq_props = [(''targetId'', Some (JString targetId)), (''tokenId'', Some (JString tokenId)),
                  (''startDate'', map_option JString startDate)],
      rq_optional = [''startDate'']\<rparr>"

definition PauseRequest :: "request_lib \<Rightarrow> string \<Rightarrow> string option \<Rightarrow> request" where
  "PauseRequest V tokenId startDate =
     \<lparr>rq_schema = [(''tokenId'', checkHederaIdFormat False), (''startDate'', startDate_check V)],
      rq_props = [(''tokenId'', Some (JString tokenId)), (''startDate'', map_option JString startDate)],
      rq_optional = [''startDate'']\<rparr>"

definition DeleteRequest ::
  "request_lib \<Rightarrow> string \<Rightarrow> string option \<Rightarrow> request" where
  "DeleteRequest V tokenId startDate =
     \<lparr>rq_schema = [(''tokenId'', checkHederaIdFormat False), (''startDate'', startDate_check V)],
      rq_props = [(''tokenId'', Some (JString tokenId)), (''startDate'', map_option JString startDate)],
      rq_optional = [''startDate'']\<rparr>"

definition CapabilitiesRequest ::
  "request_lib \<Rightarrow> request_account \<Rightarrow> string \<Rightarrow> bool option \<Rightarrow>
     bool option \<Rightarrow> request" where
  "CapabilitiesRequest V account tokenId tokenIsPaused tokenIsDeleted =
     \<lparr>rq_schema = [(''account'', account_check V account), (''tokenId'', checkHederaIdFormat False)],
      rq_props = [(''account'', Some JObject), (''tokenId'', Some (JString tokenId)),
                  (''tokenIsPaused'', map_option JBool tokenIsPaused),
                  (''tokenIsDeleted'', map_option JBool tokenIsDeleted)],
      rq_optional = [''tokenIsPaused'', ''tokenIsDeleted'']\<rparr>"

definition AssociateTokenRequest :: "string \<Rightarrow> string \<Rightarrow> request" where
  "AssociateTokenRequest targetId tokenId =
     \<lparr>rq_schema = [(''targetId'', checkHederaIdFormat False), (''tokenId'', checkHederaIdFormat False)],
      rq_props = [(''targetId'', Some (JString targetId)), (''tokenId'', Some (JString tokenId))],
      rq_optional = []\<rparr>"

definition TransfersRequest ::
  "request_lib \<Rightarrow> string list \<Rightarrow> string list \<Rightarrow> string \<Rightarrow> string
     \<Rightarrow> request" where
  "TransfersRequest V targetsId amounts tokenId targetId =
     \<lparr>rq_schema = [(''targetsId'', unique_list_check (checkHederaIdFormat False) ''accounts'' ''account''),
                   (''amounts'', amounts_check (rl_lib V) False targetsId),
                   (''tokenId'', checkHederaIdFormat False), (''targetId'', checkHederaIdFormat False)],
      rq_props = [(''targetsId'', Some (JArray (map JString targetsId))),
                  (''amounts'', Some (JArray (map JString amounts))),
                  (''tokenId'', Some (JString tokenId)), (''targetId'', Some (JString targetId))],
      rq_optional = []\<rparr>"

section \<open>Holds\<close>

definition CreateHoldRequest ::
  "request_lib \<Rightarrow> string \<Rightarrow> string \<Rightarrow> string \<Rightarrow> string
     \<Rightarrow> string option \<Rightarrow> request" where
  "CreateHoldRequest V tokenId amount escrow expirationDate targetId =
     \<lparr>rq_schema = [(''tokenId'', checkHederaIdFormat False), (''amount'', checkAmount (rl_lib V) False 18),
                   (''escrow'', checkHederaIdFormat False), (''targetId'', checkHederaIdFormat True),
                   (''expirationDate'', expiration_check V)],
      rq_props = [(''tokenId'', Some (JString tokenId)), (''amount'', Some (JString amount)),
                  (''escrow'', Some (JString escrow)), (''expirationDate'', Some (JString expirationDate)),
                  (''targetId'', map_option JString targetId)],
      rq_optional = [''targetId'']\<rparr>"

definition CreateHoldByControllerRequest ::
  "request_lib \<Rightarrow> string \<Rightarrow> string \<Rightarrow> string \<Rightarrow> string
     \<Rightarrow> string \<Rightarrow> string option \<Rightarrow> request" where
  "CreateHoldByControllerRequest V tokenId amount escrow expirationDate sourceId targetId =
     \<lparr>rq_schema = [(''tokenId'', checkHederaIdFormat False), (''amount'', checkAmount (rl_lib V) False 18),
                   (''escrow'', checkHederaIdFormat True), (''targetId'', checkHederaIdFormat True),
                   (''expirationDate'', expiration_check V), (''sourceId'', checkHederaIdFormat False)],
      rq_props = [(''tokenId'', Some (JString tokenId)), (''amount'', Some (JString amount)),
                  (''escrow'', Some (JString escrow)), (''expirationDate'', Some (JString expirationDate)),
                  (''sourceId'', Some (JString sourceId)), (''targetId'', map_option JString targetId)],
      rq_optional = [''targetId'']\<rparr>"

definition ExecuteHoldRequest ::
  "request_lib \<Rightarrow> string \<Rightarrow> string \<Rightarrow> string \<Rightarrow> int
     \<Rightarrow> string option \<Rightarrow> request" where
  "ExecuteHoldRequest V tokenId amount sourceId holdId targetId =
     \<lparr>rq_schema = [(''tokenId'', checkHederaIdFormat False), (''amount'', checkAmount (rl_lib V) False 18),
                   (''sourceId'', checkHederaIdFormat False),
                   (''holdId'', checkNumber (rl_lib V) None (Some 0)), (''targetId'', checkHederaIdFormat True)],
      rq_props = [(''tokenId'', Some (JString tokenId)), (''amount'', Some (JString amount)),
                  (''sourceId'', Some (JString sourceId)), (''holdId'', Some (JNumber holdId)),
                  (''targetId'', map_option JString targetId)],
      rq_optional = [''targetId'']\<rparr>"

definition ReleaseHoldRequest ::
  "request_lib \<Rightarrow> string \<Rightarrow> string \<Rightarrow> string \<Rightarrow> int
     \<Rightarrow> request" where
  "ReleaseHoldRequest V tokenId amount sourceId holdId =
     \<lparr>rq_schema = [(''tokenId'', checkHederaIdFormat False), (''amount'', checkAmount (rl_lib V) False 18),
                   (''sourceId'', checkHederaIdFormat False), (''holdId'', checkNumber (rl_lib V) None (Some 0))],
      rq_props = [(''tokenId'', Some (JString tokenId)), (''amount'', Some (JString amount)),
                  (''sourceId'', Some (JString sourceId)), (''holdId'', Some (JNumber holdId))],
      rq_optional = []\<rparr>"

definition ReclaimHoldRequest ::
  "request_lib \<Rightarrow> string \<Rightarrow> string \<Rightarrow> int \<Rightarrow> request" where
  "ReclaimHoldRequest V tokenId sourceId holdId =
     \<lparr>rq_schema = [(''tokenId'', checkHederaIdFormat False), (''sourceId'', checkHederaIdFormat False),
                   (''holdId'', checkNumber (rl_lib V) None (Some 0))],
      rq_props = [(''tokenId'', Some (JString tokenId)), (''sourceId'', Some (JString sourceId)),
                  (''holdId'', Some (JNumber holdId))],
      rq_optional = []\<rparr>"

definition GetHoldForRequest ::
  "request_lib \<Rightarrow> string \<Rightarrow> string \<Rightarrow> int \<Rightarrow> request" where
  "GetHoldForRequest V tokenId sourceId holdId =
     \<lparr>rq_schema = [(''tokenId'', checkHederaIdFormat False), (''sourceId'', checkHederaIdFormat False),
                   (''holdId'', checkNumber (rl_lib V) None (Some 0))],
      rq_props = [(''tokenId'', Some (JString tokenId)), (''sourceId'', Some (JString sourceId)),
                  (''holdId'', Some (JNumber holdId))],
      rq_optional = []\<rparr>"

definition GetHoldCountForRequest :: "string \<Rightarrow> string \<Rightarrow> request" where
  "GetHoldCountForRequest tokenId sourceId =
     \<lparr>rq_schema = [(''tokenId'', checkHederaIdFormat False), (''sourceId'', checkHederaIdFormat False)],
      rq_props = [(''tokenId'', Some (JString tokenId)), (''sourceId'', Some (JString sourceId))],
      rq_optional = []\<rparr>"

definition GetHoldsIdForRequest ::
  "request_lib \<Rightarrow> string \<Rightarrow> string \<Rightarrow> int \<Rightarrow> int \<Rightarrow>
     request" where
  "GetHoldsIdForRequest V tokenId sourceId start stop =
     \<lparr>rq_schema = [(''tokenId'', checkHederaIdFormat False), (''sourceId'', checkHederaIdFormat False),
                   (''start'', checkNumber (rl_lib V) None (Some 0)),
                   (''end'', checkNumber (rl_lib V) None (Some 0))],
      rq_props = [(''tokenId'', Some (JString tokenId)), (''sourceId'', Some (JString sourceId)),
                  (''start'', Some (JNumber start)), (''end'', Some (JNumber stop))],
      rq_optional = []\<rparr>"

definition GetHeldAmountForRequest :: "string \<Rightarrow> string \<Rightarrow> request" where
  "GetHeldAmountForRequest tokenId sourceId =
     \<lparr>rq_schema = [(''tokenId'', checkHederaIdFormat False), (''sourceId'', checkHederaIdFormat False)],
      rq_props = [(''tokenId'', Some (JString tokenId)), (''sourceId'', Some (JString sourceId))],
      rq_optional = []\<rparr>"

section \<open>Roles and allowances\<close>

definition HasRoleRequest ::
  "string \<Rightarrow> string \<Rightarrow> stable_coin_role option \<Rightarrow> request" where
  "HasRoleRequest tokenId targetId role =
     \<lparr>rq_schema = [(''targetId'', checkHederaIdFormat False), (''tokenId'', checkHederaIdFormat False),
                   (''role'', checkRole)],
      rq_props = [(''tokenId'', Some (JString tokenId)), (''targetId'', Some (JString targetId)),
                  (''role'', map_option (JString \<circ> role_hash) role)],
      rq_optional = []\<rparr>"

definition GrantRoleRequest ::
  "request_lib \<Rightarrow> string \<Rightarrow> string \<Rightarrow> stable_coin_role option \<Rightarrow>
     string option \<Rightarrow> string option \<Rightarrow> request" where
  "GrantRoleRequest V tokenId targetId role supplierType amount =
     \<lparr>rq_schema = [(''targetId'', checkHederaIdFormat False), (''tokenId'', checkHederaIdFormat False),
                   (''role'', checkRole), (''supplierType'', supplier_type_check),
                   (''amount'', checkAmount (rl_lib V) False 18)],
      rq_props = [(''tokenId'', Some (JString tokenId)), (''targetId'', Some (JString targetId)),
                  (''role'', map_option (JString \<circ> role_hash) role),
                  (''supplierType'', map_option JString supplierType), (''amount'', map_option JString amount)],
      rq_optional = [''supplierType'', ''amount'']\<rparr>"

definition RevokeRoleRequest ::
  "string \<Rightarrow> string \<Rightarrow> stable_coin_role option \<Rightarrow> request" where
  "RevokeRoleRequest tokenId targetId role =
     \<lparr>rq_schema = [(''targetId'', checkHederaIdFormat False), (''tokenId'', checkHederaIdFormat False),
                   (''role'', checkRole)],
      rq_props = [(''tokenId'', Some (JString tokenId)), (''targetId'', Some (JString targetId)),
                  (''role'', map_option (JString \<circ> role_hash) role)],
      rq_optional = []\<rparr>"

definition GrantMultiRolesRequest ::
  "request_lib \<Rightarrow> string \<Rightarrow> string list \<Rightarrow> stable_coin_role list
     \<Rightarrow> (string list) option \<Rightarrow> string option \<Rightarrow> request" where
  "GrantMultiRolesRequest V tokenId targetsId roles amounts startDate =
     \<lparr>rq_schema = [(''tokenId'', checkHederaIdFormat False),
                   (''targetsId'', unique_list_check (checkHederaIdFormat False) ''accounts'' ''account''),
                   (''roles'', unique_list_check checkRole ''roles'' ''role''),
                   (''amounts'', grant_amounts_check (rl_lib V) roles targetsId),
                   (''startDate'', startDate_check V)],
      rq_props = [(''tokenId'', Some (JString tokenId)),
                  (''targetsId'', Some (JArray (map JString targetsId))),
                  (''roles'', Some (JArray (map (JString \<circ> role_hash) roles))),
                  (''amounts'', map_option (JArray \<circ> map JString) amounts),
                  (''startDate'', map_option JString startDate)],
      rq_optional = [''amounts'', ''startDate'']\<rparr>"

definition RevokeMultiRolesRequest ::
  "request_lib \<Rightarrow> string \<Rightarrow> string list \<Rightarrow> stable_coin_role list
     \<Rightarrow> string option \<Rightarrow> request" where
  "RevokeMultiRolesRequest V tokenId targetsId roles startDate =
     \<lparr>rq_schema = [(''tokenId'', checkHederaIdFormat False),
                   (''targetsId'', unique_list_check (checkHederaIdFormat False) ''accounts'' ''account''),
                   (''roles'', unique_list_check checkRole ''roles'' ''role''),
                   (''startDate'', startDate_check V)],
      rq_props = [(''tokenId'', Some (JString tokenId)),
                  (''targetsId'', Some (JArray (map JString targetsId))),
                  (''roles'', Some (JArray (map (JString \<circ> role_hash) roles))),
                  (''startDate'', map_option JString startDate)],
      rq_optional = [''startDate'']\<rparr>"

definition GetRolesRequest :: "string \<Rightarrow> string \<Rightarrow> request" where
  "GetRolesRequest targetId tokenId =
     \<lparr>rq_schema = [(''targetId'', checkHederaIdFormat False), (''tokenId'', checkHederaIdFormat False)],
      rq_props = [(''targetId'', Some (JString targetId)), (''tokenId'', Some (JString tokenId))],
      rq_optional = []\<rparr>"

definition GetAccountsWithRolesRequest :: "string \<Rightarrow> string \<Rightarrow> request" where
  "GetAccountsWithRolesRequest roleId tokenId =
     \<lparr>rq_schema = [(''roleId'', checkRole), (''tokenId'', checkHederaIdFormat False)],
      rq_props = [(''roleId'', Some (JString roleId)), (''tokenId'', Some (JString tokenId))],
      rq_optional = []\<rparr>"

definition GetSupplierAllowanceRequest :: "string \<Rightarrow> string \<Rightarrow> request" where
  "GetSupplierAllowanceRequest targetId tokenId =
     \<lparr>rq_schema = [(''targetId'', checkHederaIdFormat False), (''tokenId'', checkHederaIdFormat False)],
      rq_props = [(''targetId'', Some (JString targetId)), (''tokenId'', Some (JString tokenId))],
      rq_optional = []\<rparr>"

definition ResetSupplierAllowanceRequest ::
  "request_lib \<Rightarrow> string \<Rightarrow> string \<Rightarrow> string option \<Rightarrow> request" where
  "ResetSupplierAllowanceRequest V targetId tokenId startDate =
     \<lparr>rq_schema = [(''targetId'', checkHederaIdFormat False), (''tokenId'', checkHederaIdFormat False),
                   (''startDate'', startDate_check V)],
      rq_props = [(''targetId'', Some (JString targetId)), (''tokenId'', Some (JString tokenId)),
                  (''startDate'', map_option JString startDate)],
      rq_optional = [''startDate'']\<rparr>"

definition IncreaseSupplierAllowanceRequest ::
  "request_lib \<Rightarrow> string \<Rightarrow> string \<Rightarrow> string \<Rightarrow> string option
     \<Rightarrow> request" where
  "IncreaseSupplierAllowanceRequest V tokenId targetId amount startDate =
     \<lparr>rq_schema = [(''targetId'', checkHederaIdFormat False), (''tokenId'', checkHederaIdFormat False),
                   (''amount'', checkAmount (rl_lib V) False 18), (''startDate'', startDate_check V)],
      rq_props = [(''tokenId'', Some (JString tokenId)), (''targetId'', Some (JString targetId)),
                  (''amount'', Some (JString amount)), (''startDate'', map_option JString startDate)],
      rq_optional = [''startDate'']\<rparr>"

definition DecreaseSupplierAllowanceRequest ::
  "request_lib \<Rightarrow> string \<Rightarrow> string \<Rightarrow> string \<Rightarrow> string option
     \<Rightarrow> request" where
  "DecreaseSupplierAllowanceRequest V tokenId targetId amount startDate =
     \<lparr>rq_schema = [(''targetId'', checkHederaIdFormat False), (''tokenId'', checkHederaIdFormat False),
                   (''amount'', checkAmount (rl_lib V) False 18), (''startDate'', startDate_check V)],
      rq_props = [(''tokenId'', Some (JString tokenId)), (''targetId'', Some (JString targetId)),
                  (''amount'', Some (JString amount)), (''startDate'', map_option JString startDate)],
      rq_optional = [''startDate'']\<rparr>"

definition CheckSupplierLimitRequest ::
  "string \<Rightarrow> string \<Rightarrow> string option \<Rightarrow> request" where
  "CheckSupplierLimitRequest targetId tokenId supplierType =
     \<lparr>rq_schema = [(''targetId'', checkHederaIdFormat False), (''tokenId'', checkHederaIdFormat False),
                   (''supplierType'', limit_type_check)],
      rq_props = [(''targetId'', Some (JString targetId)), (''tokenId'', Some (JString tokenId)),
                  (''supplierType'', map_option JString supplierType)],
      rq_optional = [''supplierType'']\<rparr>"

section \<open>Queries\<close>

definition GetAccountBalanceRequest :: "string \<Rightarrow> string \<Rightarrow> request" where
  "GetAccountBalanceRequest tokenId targetId =
     \<lparr>rq_schema = [(''targetId'', checkHederaIdFormat False), (''tokenId'', checkHederaIdFormat False)],
      rq_props = [(''tokenId'', Some (JString tokenId)), (''targetId'', Some (JString targetId))],
      rq_optional = []\<rparr>"

definition GetAccountBalanceHBARRequest :: "string \<Rightarrow> request" where
  "GetAccountBalanceHBARRequest treasuryAccountId =
     \<lparr>rq_schema = [(''treasuryAccountId'', checkHederaIdFormat False)],
      rq_props = [(''treasuryAccountId'', Some (JString treasuryAccountId))],
      rq_optional = []\<rparr>"

definition GetStableCoinDetailsRequest :: "string \<Rightarrow> request" where
  "GetStableCoinDetailsRequest i =
     \<lparr>rq_schema = [(''id'', checkHederaIdFormat False)],
      rq_props = [(''id'', Some (JString i))],
      rq_optional = []\<rparr>"

definition GetReserveAddressRequest :: "string \<Rightarrow> request" where
  "GetReserveAddressRequest tokenId =
     \<lparr>rq_schema = [(''tokenId'', checkHederaIdFormat False)],
      rq_props = [(''tokenId'', Some (JString tokenId))],
      rq_optional = []\<rparr>"

definition GetReserveAmountRequest :: "string \<Rightarrow> request" where
  "GetReserveAmountRequest tokenId =
     \<lparr>rq_schema = [(''tokenId'', checkHederaIdFormat False)],
      rq_props = [(''tokenId'', Some (JString tokenId))],
      rq_optional = []\<rparr>"

definition GetConfigInfoRequest :: "string \<Rightarrow> request" where
  "GetConfigInfoRequest tokenId =
     \<lparr>rq_schema = [(''tokenId'', checkHederaIdFormat False)],
      rq_props = [(''tokenId'', Some (JString tokenId))],
      rq_optional = []\<rparr>"

definition IsAccountAssociatedTokenRequest :: "string \<Rightarrow> string \<Rightarrow> request" where
  "IsAccountAssociatedTokenRequest tokenId targetId =
     \<lparr>rq_schema = [(''targetId'', checkHederaIdFormat False), (''tokenId'', checkHederaIdFormat False)],
      rq_props = [(''tokenId'', Some (JString tokenId)), (''targetId'', Some (JString targetId))],
      rq_optional = []\<rparr>"

definition GetTokenManagerListRequest :: "string \<Rightarrow> request" where
  "GetTokenManagerListRequest factoryId =
     \<lparr>rq_schema = [(''factoryId'', checkHederaIdFormat False)],
      rq_props = [(''factoryId'', Some (JString factoryId))],
      rq_optional = []\<rparr>"

definition GetAccountInfoRequest :: "request_lib \<Rightarrow> request_account \<Rightarrow> request" where
  "GetAccountInfoRequest V account =
     \<lparr>rq_schema = [(''account'', account_check V account)],
      rq_props = [(''account'', Some JObject)],
      rq_optional = []\<rparr>"

definition GetListStableCoinRequest :: "request_lib \<Rightarrow> request_account \<Rightarrow> request" where
  "GetListStableCoinRequest V account =
     \<lparr>rq_schema = [(''account'', account_check V account)],
      rq_props = [(''account'', Some JObject)],
      rq_optional = []\<rparr>"

definition GetPublicKeyRequest :: "request_lib \<Rightarrow> request_account \<Rightarrow> request" where
  "GetPublicKeyRequest V account =
     \<lparr>rq_schema = [(''account'', account_check V account)],
      rq_props = [(''account'', Some JObject)],
      rq_optional = []\<rparr>"

definition GetTransactionsRequest ::
  "request_lib \<Rightarrow> string option \<Rightarrow> int \<Rightarrow> int \<Rightarrow> string option
     \<Rightarrow> string option \<Rightarrow> request" where
  "GetTransactionsRequest V publicKey page limit status account =
     \<lparr>rq_schema = [(''publicKey'', checkPublicKey), (''page'', checkNumber (rl_lib V) None (Some 1)),
                   (''account'', checkHederaIdFormat True)],
      rq_props = [(''publicKey'', map_option (\<lambda>_. JObject) publicKey), (''page'', Some (JNumber page)),
                  (''limit'', Some (JNumber limit)), (''status'', map_option JString status),
                  (''account'', map_option JString account)],
      rq_optional = [''publicKey'', ''status'', ''account'']\<rparr>"

section \<open>Reserve, configuration, backend\<close>

definition UpdateReserveAddressRequest ::
  "request_lib \<Rightarrow> string \<Rightarrow> string \<Rightarrow> request" where
  "UpdateReserveAddressRequest V tokenId reserveAddress =
     \<lparr>rq_schema = [(''tokenId'', checkHederaIdFormat False),
                   (''reserveAddress'', checkContractId (rl_parsesContract V))],
      rq_props = [(''tokenId'', Some (JString tokenId)), (''reserveAddress'', Some (JString reserveAddress))],
      rq_optional = []\<rparr>"

definition UpdateReserveAmountRequest ::
  "request_lib \<Rightarrow> string \<Rightarrow> string \<Rightarrow> request" where
  "UpdateReserveAmountRequest V reserveAddress reserveAmount =
     \<lparr>rq_schema = [(''reserveAddress'', checkContractId (rl_parsesContract V)),
                   (''reserveAmount'', reserve_amount_check (rl_lib V))],
      rq_props = [(''reserveAddress'', Some (JString reserveAddress)),
                  (''reserveAmount'', Some (JString reserveAmount))],
      rq_optional = []\<rparr>"

definition UpdateConfigRequest ::
  "request_lib \<Rightarrow> string \<Rightarrow> int \<Rightarrow> string \<Rightarrow> request" where
  "UpdateConfigRequest V configId configVersion tokenId =
     \<lparr>rq_schema = [(''configId'', checkBytes32Format), (''configVersion'', checkNumber (rl_lib V) None None),
                   (''tokenId'', checkHederaIdFormat False)],
      rq_props = [(''configId'', Some (JString configId)), (''configVersion'', Some (JNumber configVersion)),
                  (''tokenId'', Some (JString tokenId))],
      rq_optional = []\<rparr>"

definition UpdateConfigVersionRequest ::
  "request_lib \<Rightarrow> int \<Rightarrow> string \<Rightarrow> request" where
  "UpdateConfigVersionRequest V configVersion tokenId =
     \<lparr>rq_schema = [(''configVersion'', checkNumber (rl_lib V) None None),
                   (''tokenId'', checkHederaIdFormat False)],
      rq_props = [(''configVersion'', Some (JNumber configVersion)), (''tokenId'', Some (JString tokenId))],
      rq_optional = []\<rparr>"

definition UpdateResolverRequest ::
  "request_lib \<Rightarrow> int \<Rightarrow> string \<Rightarrow> string \<Rightarrow> string
     \<Rightarrow> request" where
  "UpdateResolverRequest V configVersion configId tokenId resolver =
     \<lparr>rq_schema = [(''tokenId'', checkHederaIdFormat False),
                   (''configVersion'', checkNumber (rl_lib V) None None), (''configId'', checkBytes32Format),
                   (''resolver'', checkHederaIdFormat False)],
      rq_props = [(''configVersion'', Some (JNumber configVersion)), (''configId'', Some (JString configId)),
                  (''tokenId'', Some (JString tokenId)), (''resolver'', Some (JString resolver))],
      rq_optional = []\<rparr>"

definition SignTransactionRequest :: "string \<Rightarrow> request" where
  "SignTransactionRequest transactionId =
     \<lparr>rq_schema = [],
      rq_props = [(''transactionId'', Some (JString transactionId))],
      rq_optional = []\<rparr>"

definition SubmitTransactionRequest :: "string \<Rightarrow> request" where
  "SubmitTransactionRequest transactionId =
     \<lparr>rq_schema = [],
      rq_props = [(''transactionId'', Some (JString transactionId))],
      rq_optional = []\<rparr>"

definition RemoveTransactionRequest :: "string \<Rightarrow> request" where
  "RemoveTransactionRequest transactionId =
     \<lparr>rq_schema = [],
      rq_props = [(''transactionId'', Some (JString transactionId))],
      rq_optional = []\<rparr>"

definition SetBackendRequest :: "string \<Rightarrow> request" where
  "SetBackendRequest url =
     \<lparr>rq_schema = [],
      rq_props = [(''url'', Some (JString url))],
      rq_optional = []\<rparr>"

definition SetConfigurationRequest ::
  "request_lib \<Rightarrow> string \<Rightarrow> string \<Rightarrow> request" where
  "SetConfigurationRequest V factoryAddress resolverAddress =
     \<lparr>rq_schema = [(''factoryAddress'', checkContractId (rl_parsesContract V)),
                   (''resolverAddress'', checkContractId (rl_parsesContract V))],
      rq_props = [(''factoryAddress'', Some (JString factoryAddress)),
                  (''resolverAddress'', Some (JString resolverAddress))],
      rq_optional = []\<rparr>"

section \<open>Fees\<close>

text \<open>A positive decimal.\<close>

definition fee_amount_check :: "fixed_number_lib \<Rightarrow> nat \<Rightarrow> validator" where
  "fee_amount_check L decimals val =
     decimal_check L (js_show val) decimals
      (bindR (bd_fromString L ''0'' (Some decimals)) (\<lambda>zero.
       bindR (bd_fromString L (js_show val) (Some decimals)) (\<lambda>value. Inr (
         if isLowerOrEqualThan L value zero
         then [RequestError (InvalidRange (bd_toString L value) (Some ''0+'') None)] else []))))"

definition AddFixedFeeRequest ::
  "request_lib \<Rightarrow> string \<Rightarrow> string \<Rightarrow> bool \<Rightarrow> nat \<Rightarrow> string \<Rightarrow> string \<Rightarrow> request" where
  "AddFixedFeeRequest V tokenId collectorId collectorsExempt decimals tokenIdCollected amount =
     \<lparr>rq_schema = [(''tokenId'', checkHederaIdFormat False), (''collectorId'', checkHederaIdFormat False),
                   (''tokenIdCollected'', checkHederaIdFormat True),
                   (''amount'', fee_amount_check (rl_lib V) decimals)],
      rq_props = [(''tokenId'', Some (JString tokenId)), (''collectorId'', Some (JString collectorId)),
                  (''collectorsExempt'', Some (JBool collectorsExempt)), (''decimals'', Some (JNumber (int decimals))),
                  (''tokenIdCollected'', Some (JString tokenIdCollected)), (''amount'', Some (JString amount))],
      rq_optional = []\<rparr>"

text \<open>A fraction is given by numerator and denominator, or by a percentage.\<close>

definition provided :: "string option \<Rightarrow> bool" where
  "provided s \<longleftrightarrow> s \<noteq> None \<and> s \<noteq> Some []"

definition numerator_check :: "fixed_number_lib \<Rightarrow> validator" where
  "numerator_check L val =
     (let s = js_show val in
      if s = [] then Inr []
      else case js_parseInt s of
        None \<Rightarrow> Inr [RequestError (InvalidType s)]
      | Some numerator \<Rightarrow>
          bindR (hasMoreDecimals L s 0) (\<lambda>more. Inr (
            if more then [DomainError (InvalidDecimalRange s 0 None)]
            else if numerator < 1 then [RequestError (InvalidRange s (Some ''1'') None)] else [])))"

definition denominator_check :: "fixed_number_lib \<Rightarrow> string option \<Rightarrow> validator" where
  "denominator_check L amountNumerator val =
     (let s = js_show val in
      if s = [] then Inr (if provided amountNumerator then [RequestError (InvalidType s)] else [])
      else case js_parseInt s of
        None \<Rightarrow> Inr [RequestError (InvalidType s)]
      | Some denominator \<Rightarrow>
          bindR (hasMoreDecimals L s 0) (\<lambda>more. Inr (
            if more then [DomainError (InvalidDecimalRange s 0 None)]
            else if provided amountNumerator then
              (case js_parseInt (the amountNumerator) of
                 None \<Rightarrow> []
               | Some numerator \<Rightarrow>
                   if denominator \<le> numerator
                   then [RequestError (InvalidValue (''The denominator ('' @ int_str denominator @
                           '') should be greater than the numerator ('' @ int_str numerator @ '').''))]
                   else [])
            else [])))"

definition percentage_check :: "fixed_number_lib \<Rightarrow> string option \<Rightarrow> validator" where
  "percentage_check L amountNumerator val =
     (let s = js_show val in
      if provided amountNumerator then Inr []
      else if s = [] then Inr [RequestError (InvalidType s)]
      else decimal_check L s MAX_PERCENTAGE_DECIMALS
        (bindR (bd_fromString L ''0'' (Some MAX_PERCENTAGE_DECIMALS)) (\<lambda>zero.
         bindR (bd_fromString L ''100'' (Some MAX_PERCENTAGE_DECIMALS)) (\<lambda>oneHundred.
         bindR (bd_fromString L s (Some MAX_PERCENTAGE_DECIMALS)) (\<lambda>value. Inr (
           if isLowerOrEqualThan L value zero \<or> isGreaterOrEqualThan L value oneHundred
           then [RequestError (InvalidRange (bd_toString L value) (Some ''0+..100'') None)] else []))))))"

definition minimum_check :: "fixed_number_lib \<Rightarrow> nat \<Rightarrow> validator" where
  "minimum_check L decimals val =
     (let s = js_show val in
      if s = [] then Inr []
      else decimal_check L s decimals
        (bindR (bd_fromString L ''0'' (Some decimals)) (\<lambda>zero.
         bindR (bd_fromString L s (Some decimals)) (\<lambda>minimum. Inr (
           if isLowerThan L minimum zero then [RequestError (InvalidRange s (Some ''0'') None)] else [])))))"

definition maximum_check :: "fixed_number_lib \<Rightarrow> nat \<Rightarrow> string option \<Rightarrow> validator" where
  "maximum_check L decimals mn val =
     (let s = js_show val in
      if s = [] then Inr []
      else decimal_check L s decimals
        (bindR (bd_fromString L s (Some decimals)) (\<lambda>maximum.
         if provided mn then
           bindR (bd_fromString L (the mn) (Some decimals)) (\<lambda>minimum. Inr (
             if isGreaterThan L minimum maximum
             then [RequestError (InvalidValue (''The maximum ('' @ s @
                    '') should be greater than or equal to the minimum ('' @ the mn @ '').''))]
             else []))
         else Inr [])))"

definition AddFractionalFeeRequest ::
  "request_lib \<Rightarrow> string \<Rightarrow> string \<Rightarrow> bool \<Rightarrow> nat \<Rightarrow> string option \<Rightarrow> string option \<Rightarrow> string option \<Rightarrow>
     string option \<Rightarrow> string option \<Rightarrow> bool \<Rightarrow> request" where
  "AddFractionalFeeRequest V tokenId collectorId collectorsExempt decimals percentage amountNumerator
       amountDenominator mn mx net =
     \<lparr>rq_schema = [(''tokenId'', checkHederaIdFormat False), (''collectorId'', checkHederaIdFormat False),
                   (''amountNumerator'', numerator_check (rl_lib V)),
                   (''amountDenominator'', denominator_check (rl_lib V) amountNumerator),
                   (''percentage'', percentage_check (rl_lib V) amountNumerator),
                   (''min'', minimum_check (rl_lib V) decimals), (''max'', maximum_check (rl_lib V) decimals mn)],
      rq_props = [(''tokenId'', Some (JString tokenId)), (''collectorId'', Some (JString collectorId)),
                  (''collectorsExempt'', Some (JBool collectorsExempt)), (''decimals'', Some (JNumber (int decimals))),
                  (''percentage'', map_option JString percentage),
                  (''amountDenominator'', map_option JString amountDenominator),
                  (''amountNumerator'', map_option JString amountNumerator), (''min'', map_option JString mn),
                  (''max'', map_option JString mx), (''net'', Some (JBool net))],
      rq_optional = [''percentage'', ''amountNumerator'', ''amountDenominator'', ''min'', ''max'']\<rparr>"

text \<open>
  \<open>UpdateCustomFeesRequest\<close>: the callback of its \<open>forEach\<close> builds the request of each fee and returns it;
  nothing validates it, and what the callback returns is not used.
\<close>

definition custom_fees_check :: "request_fee list \<Rightarrow> validator" where
  "custom_fees_check customFees val =
     Inr (if customFees = [] then []
          else if MAX_CUSTOM_FEES < length customFees
          then [RequestError (InvalidLength (nat_str (length customFees)) 0 (Some MAX_CUSTOM_FEES))] else [])"

definition UpdateCustomFeesRequest :: "request_fee list \<Rightarrow> string \<Rightarrow> request" where
  "UpdateCustomFeesRequest customFees tokenId =
     \<lparr>rq_schema = [(''tokenId'', checkHederaIdFormat False), (''customFees'', custom_fees_check customFees)],
      rq_props = [(''customFees'', Some (JArray (map (\<lambda>_. JObject) customFees))),
                  (''tokenId'', Some (JString tokenId))],
      rq_optional = []\<rparr>"

section \<open>Update\<close>

text \<open>A public key of a request: \<open>key\<close> and \<open>type\<close>.\<close>

type_synonym request_key = "string \<times> string option"

record update_request =
  ru_tokenId :: string
  ru_name :: "string option"
  ru_symbol :: "string option"
  ru_autoRenewPeriod :: "string option"
  ru_expirationTimestamp :: "string option"
  ru_freezeKey :: "request_key option"
  ru_kycKey :: "request_key option"
  ru_wipeKey :: "request_key option"
  ru_pauseKey :: "request_key option"
  ru_feeScheduleKey :: "request_key option"
  ru_metadata :: "string option"

definition unless_empty :: "(string \<Rightarrow> js_error list) \<Rightarrow> validator" where
  "unless_empty f val = Inr (if js_show val = [] then [] else f (js_show val))"

definition key_prop :: "request_key option \<Rightarrow> js_val option" where
  "key_prop k = map_option (\<lambda>_. JObject) k"

definition UpdateRequest :: "request_lib \<Rightarrow> update_request \<Rightarrow> request" where
  "UpdateRequest V r =
     \<lparr>rq_schema = [(''name'', unless_empty checkName), (''symbol'', unless_empty checkSymbol),
                   (''tokenId'', checkHederaIdFormat False),
                   (''autoRenewPeriod'', unless_empty checkAutoRenewPeriod),
                   (''expirationTimestamp'', unless_empty (coin_checkExpirationTimestamp (rl_now V))),
                   (''freezeKey'', checkPublicKey), (''kycKey'', checkPublicKey), (''wipeKey'', checkPublicKey),
                   (''pauseKey'', checkPublicKey), (''feeScheduleKey'', checkPublicKey),
                   (''metadata'', checkString (Some 100) 0 False)],
      rq_props = [(''tokenId'', Some (JString (ru_tokenId r))), (''name'', map_option JString (ru_name r)),
                  (''symbol'', map_option JString (ru_symbol r)),
                  (''autoRenewPeriod'', map_option JString (ru_autoRenewPeriod r)),
                  (''expirationTimestamp'', map_option JString (ru_expirationTimestamp r)),
                  (''freezeKey'', key_prop (ru_freezeKey r)), (''kycKey'', key_prop (ru_kycKey r)),
                  (''wipeKey'', key_prop (ru_wipeKey r)), (''pauseKey'', key_prop (ru_pauseKey r)),
                  (''feeScheduleKey'', key_prop (ru_feeScheduleKey r)),
                  (''metadata'', map_option JString (ru_metadata r))],
      rq_optional = [''name'', ''symbol'', ''autoRenewPeriod'', ''expirationTimestamp'', ''freezeKey'', ''kycKey'',
                     ''wipeKey'', ''pauseKey'', ''feeScheduleKey'', ''metadata'']\<rparr>"

section \<open>Creation\<close>

record create_request =
  rc_name :: string
  rc_symbol :: string
  rc_decimals :: nat
  rc_initialSupply :: "string option"
  rc_maxSupply :: "string option"
  rc_freezeDefault :: "bool option"
  rc_freezeKey :: "request_key option"
  rc_kycKey :: "request_key option"
  rc_wipeKey :: "request_key option"
  rc_pauseKey :: "request_key option"
  rc_feeScheduleKey :: "request_key option"
  rc_supplyType :: "token_supply_type option"
  rc_stableCoinFactory :: "string option"
  rc_reserveAddress :: "string option"
  rc_updatedAtThreshold :: "string option"
  rc_reserveInitialAmount :: "string option"
  rc_reserveConfigId :: "string option"
  rc_reserveConfigVersion :: "int option"
  rc_createReserve :: bool
  rc_grantKYCToOriginalSender :: "bool option"
  rc_burnRoleAccount :: "string option"
  rc_wipeRoleAccount :: "string option"
  rc_rescueRoleAccount :: "string option"
  rc_pauseRoleAccount :: "string option"
  rc_freezeRoleAccount :: "string option"
  rc_deleteRoleAccount :: "string option"
  rc_kycRoleAccount :: "string option"
  rc_cashInRoleAccount :: "string option"
  rc_feeRoleAccount :: "string option"
  rc_holdCreatorRoleAccount :: "string option"
  rc_cashInRoleAllowance :: "string option"
  rc_metadata :: "string option"
  rc_proxyOwnerAccount :: "string option"
  rc_configId :: string
  rc_configVersion :: int

text \<open>
  Another amount of the same request, \<open>undefined\<close> unless it is a decimal with at most the coin's decimals;
  it is read with the decimals \<open>n\<close>.
\<close>

definition other_amount :: "fixed_number_lib \<Rightarrow> nat \<Rightarrow> string option \<Rightarrow> nat \<Rightarrow> big_decimal option result" where
  "other_amount L decimals s n =
     (if provided s \<and> isBigDecimal L (the s) then
        bindR (hasMoreDecimals L (the s) (int decimals)) (\<lambda>more.
          if more then Inr None else bindR (bd_fromString L (the s) (Some n)) (\<lambda>v. Inr (Some v)))
      else Inr None)"

definition initial_supply_check :: "fixed_number_lib \<Rightarrow> create_request \<Rightarrow> validator" where
  "initial_supply_check L r val =
     (let s = js_show val; d = rc_decimals r in
      if s = [] then Inr []
      else decimal_check L s d
        (bindR (bd_fromString L s (Some d)) (\<lambda>bInitialSupply.
         bindR (other_amount L d (rc_maxSupply r) d) (\<lambda>bMaxSupply.
           checkInitialSupply L bInitialSupply d bMaxSupply))))"

definition max_supply_check :: "fixed_number_lib \<Rightarrow> create_request \<Rightarrow> validator" where
  "max_supply_check L r val =
     (let s = js_show val; d = rc_decimals r in
      decimal_check L s d
        (bindR (bd_fromString L s (Some d)) (\<lambda>bMaxSupply.
         bindR (other_amount L d (rc_initialSupply r) d) (\<lambda>bInitialSupply.
           checkMaxSupply L bMaxSupply d bInitialSupply (rc_supplyType r)))))"

definition reserve_initial_check :: "fixed_number_lib \<Rightarrow> create_request \<Rightarrow> validator" where
  "reserve_initial_check L r val =
     (let s = js_show val; commonDecimals = max RESERVE_DECIMALS (rc_decimals r) in
      if s = [] \<or> \<not> rc_createReserve r then Inr []
      else decimal_check L s RESERVE_DECIMALS
        (bindR (bd_fromString L s (Some commonDecimals)) (\<lambda>reserveInitialAmount.
         bindR (other_amount L (rc_decimals r) (rc_initialSupply r) commonDecimals) (\<lambda>bInitialSupply.
           checkReserveInitialAmount L reserveInitialAmount commonDecimals bInitialSupply))))"

definition cashin_allowance_check :: "fixed_number_lib \<Rightarrow> create_request \<Rightarrow> validator" where
  "cashin_allowance_check L r val =
     (let s = js_show val; d = rc_decimals r in
      if s = [] then Inr []
      else decimal_check L s d
        (bindR (bd_fromString L s (Some d)) (\<lambda>allowance. checkCashInAllowance L allowance d)))"

text \<open>
  \<open>checkInteger\<close> accepts every whole number. \<open>holdCreatorRoleAccount\<close> has no validator. The accessor
  \<open>decimals\<close> of the private property is listed under its own name.
\<close>

definition CreateRequest :: "request_lib \<Rightarrow> create_request \<Rightarrow> request" where
  "CreateRequest V r =
     (let L = rl_lib V; account = checkHederaIdFormat True in
     \<lparr>rq_schema = [(''name'', \<lambda>v. Inr (checkName (js_show v))), (''symbol'', \<lambda>v. Inr (checkSymbol (js_show v))),
                   (''decimals'', \<lambda>v. Inr []), (''initialSupply'', initial_supply_check L r),
                   (''maxSupply'', max_supply_check L r),
                   (''freezeKey'', checkPublicKey), (''kycKey'', checkPublicKey), (''wipeKey'', checkPublicKey),
                   (''pauseKey'', checkPublicKey), (''feeScheduleKey'', checkPublicKey),
                   (''stableCoinFactory'', checkContractId (rl_parsesContract V)),
                   (''reserveAddress'', checkContractId (rl_parsesContract V)),
                   (''reserveInitialAmount'', reserve_initial_check L r),
                   (''burnRoleAccount'', account), (''wipeRoleAccount'', account), (''rescueRoleAccount'', account),
                   (''pauseRoleAccount'', account), (''freezeRoleAccount'', account),
                   (''deleteRoleAccount'', account), (''kycRoleAccount'', account), (''cashInRoleAccount'', account),
                   (''feeRoleAccount'', account), (''cashInRoleAllowance'', cashin_allowance_check L r),
                   (''metadata'', checkString (Some 100) 0 False),
                   (''proxyOwnerAccount'', checkHederaIdFormat False), (''configId'', checkBytes32Format),
                   (''configVersion'', checkNumber L None None), (''reserveConfigId'', checkBytes32Format),
                   (''reserveConfigVersion'', checkNumber L None None)],
      rq_props = [(''name'', Some (JString (rc_name r))), (''symbol'', Some (JString (rc_symbol r))),
                  (''decimals'', Some (JNumber (int (rc_decimals r)))),
                  (''initialSupply'', map_option JString (rc_initialSupply r)),
                  (''maxSupply'', map_option JString (rc_maxSupply r)),
                  (''freezeDefault'', map_option JBool (rc_freezeDefault r)),
                  (''freezeKey'', key_prop (rc_freezeKey r)), (''kycKey'', key_prop (rc_kycKey r)),
                  (''wipeKey'', key_prop (rc_wipeKey r)), (''pauseKey'', key_prop (rc_pauseKey r)),
                  (''feeScheduleKey'', key_prop (rc_feeScheduleKey r)),
                  (''supplyType'', map_option (\<lambda>t. JString (if t = FINITE then ''FINITE'' else ''INFINITE'')) (rc_supplyType r)),
                  (''stableCoinFactory'', map_option JString (rc_stableCoinFactory r)),
                  (''reserveAddress'', map_option JString (rc_reserveAddress r)),
                  (''updatedAtThreshold'', map_option JString (rc_updatedAtThreshold r)),
                  (''reserveInitialAmount'', map_option JString (rc_reserveInitialAmount r)),
                  (''reserveConfigId'', map_option JString (rc_reserveConfigId r)),
                  (''reserveConfigVersion'', map_option JNumber (rc_reserveConfigVersion r)),
                  (''createReserve'', Some (JBool (rc_createReserve r))),
                  (''grantKYCToOriginalSender'', map_option JBool (rc_grantKYCToOriginalSender r)),
                  (''burnRoleAccount'', map_option JString (rc_burnRoleAccount r)),
                  (''wipeRoleAccount'', map_option JString (rc_wipeRoleAccount r)),
                  (''rescueRoleAccount'', map_option JString (rc_rescueRoleAccount r)),
                  (''pauseRoleAccount'', map_option JString (rc_pauseRoleAccount r)),
                  (''freezeRoleAccount'', map_option JString (rc_freezeRoleAccount r)),
                  (''deleteRoleAccount'', map_option JString (rc_deleteRoleAccount r)),
                  (''kycRoleAccount'', map_option JString (rc_kycRoleAccount r)),
                  (''cashInRoleAccount'', map_option JString (rc_cashInRoleAccount r)),
                  (''feeRoleAccount'', map_option JString (rc_feeRoleAccount r)),
                  (''holdCreatorRoleAccount'', map_option JString (rc_holdCreatorRoleAccount r)),
                  (''cashInRoleAllowance'', map_option JString (rc_cashInRoleAllowance r)),
                  (''metadata'', map_option JString (rc_metadata r)),
                  (''proxyOwnerAccount'', map_option JString (rc_proxyOwnerAccount r)),
                  (''configId'', Some (JString (rc_configId r))),
                  (''configVersion'', Some (JNumber (rc_configVersion r)))],
      rq_optional = [''stableCoinFactory'', ''reserveAddress'', ''updatedAtThreshold'', ''reserveConfigId'',
                     ''reserveConfigVersion'', ''reserveInitialAmount'', ''initialSupply'', ''maxSupply'',
                     ''freezeDefault'', ''freezeKey'', ''kycKey'', ''wipeKey'', ''pauseKey'', ''feeScheduleKey'',
                     ''supplyType'', ''grantKYCToOriginalSender'', ''burnRoleAccount'', ''wipeRoleAccount'',
                     ''rescueRoleAccount'', ''pauseRoleAccount'', ''freezeRoleAccount'', ''deleteRoleAccount'',
                     ''kycRoleAccount'', ''holdCreatorRoleAccount'', ''cashInRoleAccount'', ''feeRoleAccount'',
                     ''cashInRoleAllowance'', ''metadata'', ''proxyOwnerAccount'']\<rparr>)"

end
