(* ===== verification/Cli_Dialogs.thy ===== *)
theory Cli_Dialogs
  imports Cli_Menus Requests
begin

text \<open>
  The dialogs of the command line. A dialog reads the answers of the user one by one, shows errors and
  calls the SDK. The answers to come are a list: a dialog that has used them up, or whose next question
  is not answered by the next one, is waiting. Texts that are only shown are left out. What the SDK
  answers is a parameter, the same during one dialog; an answer that the service cannot show (a missing
  field that it prints) counts as the error that the service throws.
\<close>

section \<open>Dialogs\<close>

text \<open>
  A line; a confirmation; the position of the chosen option of a list; which options of a list of
  checkboxes are ticked.
\<close>

datatype answer = ALine string | AConfirm bool | APick nat | ATicks "bool list"

text \<open>The functions of the SDK that the command line calls for a coin, by class and name.\<close>

datatype sdk_op =
    StableCoin_cashIn | StableCoin_burn | StableCoin_wipe | StableCoin_rescue | StableCoin_rescueHBAR
  | StableCoin_getBalanceOf | StableCoin_transfers | StableCoin_capabilities | StableCoin_getInfo
  | StableCoin_grantKyc | StableCoin_revokeKyc | StableCoin_isAccountKYCGranted
  | StableCoin_freeze | StableCoin_unFreeze | StableCoin_isAccountFrozen
  | StableCoin_pause | StableCoin_unPause | StableCoin_delete
  | StableCoin_createHold | StableCoin_createHoldByController | StableCoin_executeHold | StableCoin_releaseHold
  | StableCoin_reclaimHold | StableCoin_getHeldAmountFor | StableCoin_getHoldCountFor | StableCoin_getHoldsIdFor
  | StableCoin_getHoldFor
  | Management_updateConfigVersion | Management_updateConfig | Management_updateResolver
  | Fees_addFixedFee | Fees_addFractionalFee | Fees_updateCustomFees
  | Role_grantMultiRoles | Role_revokeMultiRoles | Role_getRoles | Role_getAccountsWithRole
  | Role_isUnlimited | Role_isLimited | Role_increaseAllowance | Role_decreaseAllowance | Role_resetAllowance
  | Role_getAllowance | StableCoin_update | Account_getPublicKey
  | StableCoin_create | StableCoin_associate | Network_setConfig
  | StableCoin_getTransactions | StableCoin_signTransaction | StableCoin_submitTransaction | StableCoin_removeTransaction

text \<open>What a dialog does outside: a call of the SDK, and an error on the screen.\<close>

datatype cli_event = ECall sdk_op request | EError js_error

datatype 'a turn = Done 'a "answer list" | Waiting | Thrown js_error "answer list"

type_synonym 'a dialog = "answer list \<Rightarrow> cli_event list \<times> 'a turn"

definition retD :: "'a \<Rightarrow> 'a dialog" where
  "retD x answers = ([], Done x answers)"

definition bindD :: "'a dialog \<Rightarrow> ('a \<Rightarrow> 'b dialog) \<Rightarrow> 'b dialog" where
  "bindD m f answers =
     (case m answers of
        (ev, Done x rest) \<Rightarrow> (ev @ fst (f x rest), snd (f x rest))
      | (ev, Waiting) \<Rightarrow> (ev, Waiting)
      | (ev, Thrown e rest) \<Rightarrow> (ev, Thrown e rest))"

text \<open>\<open>try { m } catch (error) { h }\<close>\<close>

definition tryD :: "'a dialog \<Rightarrow> (js_error \<Rightarrow> 'a dialog) \<Rightarrow> 'a dialog" where
  "tryD m h answers =
     (case m answers of
        (ev, Thrown e rest) \<Rightarrow> (ev @ fst (h e rest), snd (h e rest))
      | r \<Rightarrow> r)"

definition showD :: "js_error list \<Rightarrow> unit dialog" where
  "showD es answers = (map EError es, Done () answers)"

text \<open>An error, and a result of a computation that may throw.\<close>

definition throwD :: "js_error \<Rightarrow> 'a dialog" where
  "throwD e answers = ([], Thrown e answers)"

definition liftD :: "'a result \<Rightarrow> 'a dialog" where
  "liftD r = (case r of Inl e \<Rightarrow> throwD e | Inr x \<Rightarrow> retD x)"

definition ask :: "(answer \<Rightarrow> 'a option) \<Rightarrow> 'a dialog" where
  "ask read answers =
     (case answers of [] \<Rightarrow> ([], Waiting)
      | a # rest \<Rightarrow> (case read a of None \<Rightarrow> ([], Waiting) | Some x \<Rightarrow> ([], Done x rest)))"

definition line :: "(string \<Rightarrow> 'a) \<Rightarrow> answer \<Rightarrow> 'a option" where
  "line f a = (case a of ALine s \<Rightarrow> Some (f s) | _ \<Rightarrow> None)"

definition defaultSingleAsk :: "string dialog" where
  "defaultSingleAsk = ask (line (\<lambda>s. s))"

definition defaultConfirmAsk :: "bool dialog" where
  "defaultConfirmAsk = ask (\<lambda>a. case a of AConfirm b \<Rightarrow> Some b | _ \<Rightarrow> None)"

definition defaultMultipleAsk :: "'a list \<Rightarrow> 'a dialog" where
  "defaultMultipleAsk choices =
     ask (\<lambda>a. case a of APick n \<Rightarrow> if n < length choices then Some (choices ! n) else None | _ \<Rightarrow> None)"

text \<open>A menu that also has \<open>Go back\<close>, which is \<open>None\<close>.\<close>

definition with_back :: "'a list \<Rightarrow> 'a option list" where
  "with_back options = map Some options @ [None]"

text \<open>
  \<open>checkBoxMultipleAsk\<close> with \<open>atLeastOne\<close>: an empty choice is refused and asked again. The ticked options are
  given in the order of the list.
\<close>

definition ticked :: "bool list \<Rightarrow> 'a list \<Rightarrow> 'a list" where
  "ticked bs choices = map snd (filter fst (zip bs choices))"

fun checkBoxMultipleAsk :: "'a list \<Rightarrow> bool \<Rightarrow> 'a list dialog" where
  "checkBoxMultipleAsk choices atLeastOne [] = ([], Waiting)"
| "checkBoxMultipleAsk choices atLeastOne (a # rest) =
     (case a of
        ATicks bs \<Rightarrow>
          if atLeastOne \<and> ticked bs choices = []
          then (let (ev, r) = checkBoxMultipleAsk choices atLeastOne rest
                in (EError (JsError ''You must choose at least one option'') # ev, r))
          else ([], Done (ticked bs choices) rest)
      | _ \<Rightarrow> ([], Waiting))"

text \<open>
  \<open>handleValidation\<close> of the command line: the question is asked until the request that has the answer as
  its field validates; the errors in between are shown.
\<close>

fun cli_handleValidation :: "(answer \<Rightarrow> 'a option) \<Rightarrow> ('a \<Rightarrow> validation_response list) \<Rightarrow> 'a dialog" where
  "cli_handleValidation read check [] = ([], Waiting)"
| "cli_handleValidation read check (a # rest) =
     (case read a of
        None \<Rightarrow> ([], Waiting)
      | Some x \<Rightarrow>
          if check x = [] then ([], Done x rest)
          else (let (ev, r) = cli_handleValidation read check rest
                in (map EError (concat (map snd (check x))) @ ev, r)))"

abbreviation ask_field :: "(string \<Rightarrow> request) \<Rightarrow> string \<Rightarrow> string dialog" where
  "ask_field build field \<equiv> cli_handleValidation (line (\<lambda>s. s)) (\<lambda>v. validate (build v) (Some field))"

section \<open>Dates\<close>

text \<open>The components of a date in UTC; months count from zero.\<close>

record utc_time =
  utc_FullYear :: int
  utc_Month :: nat
  utc_Date :: nat
  utc_Hours :: nat
  utc_Minutes :: nat
  utc_Seconds :: nat

definition two_digits :: "string \<Rightarrow> string" where
  "two_digits s = (if length s < 2 then ''0'' @ s else s)"

text \<open>The components of an invalid date are \<open>NaN\<close>.\<close>

definition formatDateTime :: "utc_time option \<Rightarrow> string" where
  "formatDateTime dateTime =
     (let part = (\<lambda>f. case dateTime of None \<Rightarrow> ''NaN'' | Some t \<Rightarrow> int_str (f t));
          month = two_digits (part (\<lambda>t. int (utc_Month t) + 1));
          day = two_digits (part (\<lambda>t. int (utc_Date t)));
          hour = two_digits (part (\<lambda>t. int (utc_Hours t)));
          minute = two_digits (part (\<lambda>t. int (utc_Minutes t)));
          second = two_digits (part (\<lambda>t. int (utc_Seconds t)))
      in part utc_FullYear @ ''-'' @ month @ ''-'' @ day @ ''T'' @ hour @ '':'' @ minute @ '':'' @ second @ ''Z'')"

section \<open>The environment of a dialog\<close>

text \<open>
  The current account; \<open>Date\<close> and \<open>Number\<close> of the language, where \<open>None\<close> is an invalid date and \<open>NaN\<close>; the
  numbers of the library \<open>big.js\<close>; and the answers of the SDK: of a call that gives nothing, of a question
  of yes or no, of a balance, the capabilities, the roles, the decimals and fees of a coin, which of the keys that
  may be changed its details have, a public key. \<open>ce_plus_days\<close> is the current date so many days later in
  milliseconds, \<open>None\<close> when it is invalid, and \<open>ce_text\<close> the notation of a number.
\<close>

datatype key_name = KycKey | FreezeKey | WipeKey | PauseKey | FeeScheduleKey

record cli_env =
  ce_lib :: request_lib
  ce_accountId :: string
  ce_multisig :: bool
  ce_date :: "string \<Rightarrow> utc_time option"
  ce_number :: "string \<Rightarrow> rat option"
  ce_big :: "string \<Rightarrow> rat result"
  ce_run :: "sdk_op \<Rightarrow> request \<Rightarrow> unit result"
  ce_flag :: "sdk_op \<Rightarrow> request \<Rightarrow> bool result"
  ce_balance :: "request \<Rightarrow> string result"
  ce_capabilities :: "request \<Rightarrow> stable_coin_capabilities result"
  ce_roles :: "request \<Rightarrow> stable_coin_role list result"
  ce_details :: "request \<Rightarrow> (nat option \<times> request_fee list) result"
  ce_keys :: "request \<Rightarrow> key_name list"
  ce_publicKey :: "request \<Rightarrow> request_key result"
  ce_plus_days :: "rat \<Rightarrow> int option"
  ce_text :: "rat \<Rightarrow> string"

definition sdk_call :: "sdk_op \<Rightarrow> request \<Rightarrow> 'a result \<Rightarrow> 'a dialog" where
  "sdk_call op req res answers =
     ([ECall op req], case res of Inl e \<Rightarrow> Thrown e answers | Inr x \<Rightarrow> Done x answers)"

text \<open>The screens of the session.\<close>

datatype screen =
    MainMenu | OperationsMenu | KycMenu | FreezeMenu | ResolverMenu | HoldMenu | FeesMenu | RoleMenu
  | ConfigurationMenu | DangerZone | TokenConfigurationMenu | TokenKeysMenu

text \<open>\<open>askErrorConfirmation\<close>: the error is shown, the user presses a key, and the operations menu comes.\<close>

definition askErrorConfirmation :: "js_error \<Rightarrow> unit dialog" where
  "askErrorConfirmation e = bindD (showD [e]) (\<lambda>_. bindD defaultSingleAsk (\<lambda>_. retD ()))"

definition or_operations :: "screen dialog \<Rightarrow> screen dialog" where
  "or_operations m = tryD m (\<lambda>e. bindD (askErrorConfirmation e) (\<lambda>_. retD OperationsMenu))"

definition run_sdk :: "cli_env \<Rightarrow> sdk_op \<Rightarrow> request \<Rightarrow> unit dialog" where
  "run_sdk E op req = sdk_call op req (ce_run E op req)"

definition submit :: "cli_env \<Rightarrow> sdk_op \<Rightarrow> request \<Rightarrow> screen \<Rightarrow> screen dialog" where
  "submit E op req next_screen = or_operations (bindD (run_sdk E op req) (\<lambda>_. retD next_screen))"

text \<open>If the account is a multisignature account, the start date is asked for.\<close>

definition ask_start_date :: "cli_env \<Rightarrow> (string option \<Rightarrow> request) \<Rightarrow> string option dialog" where
  "ask_start_date E build =
     (if ce_multisig E
      then bindD (cli_handleValidation (line (\<lambda>s. formatDateTime (ce_date E s)))
             (\<lambda>d. validate (build (Some d)) (Some ''startDate''))) (\<lambda>d. retD (Some d))
      else retD None)"

text \<open>\<open>val.replace(',', '.')\<close> replaces the first comma.\<close>

fun decimal_point :: "string \<Rightarrow> string" where
  "decimal_point [] = []"
| "decimal_point (c # s) = (if c = CHR '','' then CHR ''.'' # s else c # decimal_point s)"

section \<open>The operations menu\<close>

definition cash_in_dialog :: "cli_env \<Rightarrow> string \<Rightarrow> screen dialog" where
  "cash_in_dialog E coin =
     (let req = (\<lambda>target amount start. CashInRequest (ce_lib E) amount target coin start)
      in bindD (ask_field (\<lambda>t. req t '''' None) ''targetId'') (\<lambda>target.
         bindD (cli_handleValidation (line decimal_point)
           (\<lambda>a. validate (req target a None) (Some ''amount''))) (\<lambda>amount.
         bindD (ask_start_date E (req target amount)) (\<lambda>start.
         submit E StableCoin_cashIn (req target amount start) OperationsMenu))))"

definition balance_dialog :: "cli_env \<Rightarrow> string \<Rightarrow> screen dialog" where
  "balance_dialog E coin =
     bindD (ask_field (GetAccountBalanceRequest coin) ''targetId'') (\<lambda>target.
     submit E StableCoin_getBalanceOf (GetAccountBalanceRequest coin target) OperationsMenu)"

definition burn_dialog :: "cli_env \<Rightarrow> string \<Rightarrow> screen dialog" where
  "burn_dialog E coin =
     (let req = (\<lambda>amount start. BurnRequest (ce_lib E) amount coin start)
      in bindD (cli_handleValidation (line decimal_point) (\<lambda>a. validate (req a None) (Some ''amount''))) (\<lambda>amount.
         bindD (ask_start_date E (req amount)) (\<lambda>start.
         submit E StableCoin_burn (req amount start) OperationsMenu)))"

definition wipe_dialog :: "cli_env \<Rightarrow> string \<Rightarrow> screen dialog" where
  "wipe_dialog E coin =
     (let req = (\<lambda>target amount start. WipeRequest (ce_lib E) amount target coin start)
      in bindD (ask_field (\<lambda>t. req t '''' None) ''targetId'') (\<lambda>target.
         bindD (cli_handleValidation (line decimal_point)
           (\<lambda>a. validate (req target a None) (Some ''amount''))) (\<lambda>amount.
         bindD (ask_start_date E (req target amount)) (\<lambda>start.
         submit E StableCoin_wipe (req target amount start) OperationsMenu))))"

text \<open>The amounts of the rescue operations are taken as they are written.\<close>

definition rescue_dialog :: "cli_env \<Rightarrow> string \<Rightarrow> screen dialog" where
  "rescue_dialog E coin =
     (let req = RescueRequest (ce_lib E) coin
      in bindD (ask_field (\<lambda>a. req a None) ''amount'') (\<lambda>amount.
         bindD (ask_start_date E (req amount)) (\<lambda>start.
         submit E StableCoin_rescue (req amount start) OperationsMenu)))"

definition rescueHBAR_dialog :: "cli_env \<Rightarrow> string \<Rightarrow> screen dialog" where
  "rescueHBAR_dialog E coin =
     (let req = RescueHBARRequest (ce_lib E) coin
      in bindD (ask_field (\<lambda>a. req a None) ''amount'') (\<lambda>amount.
         bindD (ask_start_date E (req amount)) (\<lambda>start.
         submit E StableCoin_rescueHBAR (req amount start) OperationsMenu)))"

text \<open>The details are not guarded: an error of the query leaves the menu.\<close>

definition details_dialog :: "cli_env \<Rightarrow> string \<Rightarrow> screen dialog" where
  "details_dialog E coin =
     bindD (run_sdk E StableCoin_getInfo (GetStableCoinDetailsRequest coin)) (\<lambda>_. retD OperationsMenu)"

section \<open>KYC, freeze, resolver\<close>

definition kyc_op :: "kyc_option \<Rightarrow> sdk_op" where
  "kyc_op opt = (case opt of OptGrantKYC \<Rightarrow> StableCoin_grantKyc | OptRevokeKYC \<Rightarrow> StableCoin_revokeKyc
     | OptAccountKYCGranted \<Rightarrow> StableCoin_isAccountKYCGranted)"

definition kyc_dialog :: "cli_env \<Rightarrow> string \<Rightarrow> kyc_option \<Rightarrow> screen dialog" where
  "kyc_dialog E coin opt =
     (let req = (\<lambda>target. KYCRequest (ce_lib E) target coin None)
      in bindD (ask_field req ''targetId'') (\<lambda>target. submit E (kyc_op opt) (req target) KycMenu))"

definition freeze_op :: "freeze_option \<Rightarrow> sdk_op" where
  "freeze_op opt = (case opt of OptFreeze \<Rightarrow> StableCoin_freeze | OptUnFreeze \<Rightarrow> StableCoin_unFreeze
     | OptAccountFrozen \<Rightarrow> StableCoin_isAccountFrozen)"

definition freeze_dialog :: "cli_env \<Rightarrow> string \<Rightarrow> freeze_option \<Rightarrow> screen dialog" where
  "freeze_dialog E coin opt =
     (let req = (\<lambda>target start. FreezeAccountRequest (ce_lib E) coin target start)
      in bindD (ask_field (\<lambda>t. req t None) ''targetId'') (\<lambda>target.
         bindD (if opt = OptAccountFrozen then retD None else ask_start_date E (req target)) (\<lambda>start.
         submit E (freeze_op opt) (req target start) FreezeMenu)))"

text \<open>
  A question for a number that goes into a request as a number. The requests have whole numbers; an answer that
  \<open>Number\<close> reads as \<open>NaN\<close> or as a fraction is outside the model, the question waits.
\<close>

definition whole :: "cli_env \<Rightarrow> answer \<Rightarrow> int option" where
  "whole E a = Option.bind (line (ce_number E) a)
     (\<lambda>n. case n of None \<Rightarrow> None | Some q \<Rightarrow> if q = of_int \<lfloor>q\<rfloor> then Some \<lfloor>q\<rfloor> else None)"

datatype resolver_option = OptUpdateConfigVersion | OptUpdateConfig | OptUpdateResolver

definition updateConfigVersion_dialog :: "cli_env \<Rightarrow> string \<Rightarrow> screen dialog" where
  "updateConfigVersion_dialog E coin =
     (let req = (\<lambda>version. UpdateConfigVersionRequest (ce_lib E) version coin)
      in bindD (cli_handleValidation (whole E) (\<lambda>v. validate (req v) (Some ''configVersion''))) (\<lambda>version.
         submit E Management_updateConfigVersion (req version) ResolverMenu))"

definition updateConfig_dialog :: "cli_env \<Rightarrow> string \<Rightarrow> screen dialog" where
  "updateConfig_dialog E coin =
     (let req = (\<lambda>configId version. UpdateConfigRequest (ce_lib E) configId version coin)
      in bindD (ask_field (\<lambda>i. req i 0) ''configId'') (\<lambda>configId.
         bindD (cli_handleValidation (whole E) (\<lambda>v. validate (req configId v) (Some ''configVersion''))) (\<lambda>version.
         submit E Management_updateConfig (req configId version) ResolverMenu)))"

definition updateResolver_dialog :: "cli_env \<Rightarrow> string \<Rightarrow> screen dialog" where
  "updateResolver_dialog E coin =
     (let req = (\<lambda>configId version resolver. UpdateResolverRequest (ce_lib E) version configId coin resolver)
      in bindD (ask_field (\<lambda>i. req i 0 '''') ''configId'') (\<lambda>configId.
         bindD (cli_handleValidation (whole E) (\<lambda>v. validate (req configId v '''') (Some ''configVersion''))) (\<lambda>version.
         bindD (ask_field (req configId version) ''resolver'') (\<lambda>resolver.
         submit E Management_updateResolver (req configId version resolver) ResolverMenu))))"

definition resolver_dialog :: "cli_env \<Rightarrow> string \<Rightarrow> resolver_option \<Rightarrow> screen dialog" where
  "resolver_dialog E coin opt =
     (case opt of OptUpdateConfigVersion \<Rightarrow> updateConfigVersion_dialog E coin
      | OptUpdateConfig \<Rightarrow> updateConfig_dialog E coin
      | OptUpdateResolver \<Rightarrow> updateResolver_dialog E coin)"

end
