(* ===== verification/Cli_Operations.thy ===== *)
theory Cli_Operations
  imports Cli_Dialogs
begin

text \<open>
  The longer dialogs of the command line: transfers, holds, fees, roles and the danger zone.
\<close>

section \<open>Transfers\<close>

definition TRANSFER_LIST_SIZE :: nat where "TRANSFER_LIST_SIZE = 10"

text \<open>
  The amount for one account: the inner loop of \<open>sendTokens\<close>, which asks again when the amount does not
  validate and when the total would exceed the balance. \<open>new Big(..)\<close> may throw. The result is the amount
  and the new total.
\<close>

fun ask_send_amount ::
  "cli_env \<Rightarrow> (string \<Rightarrow> request) \<Rightarrow> rat \<Rightarrow> rat \<Rightarrow> (string \<times> rat) dialog" where
  "ask_send_amount E build balance totalSent [] = ([], Waiting)"
| "ask_send_amount E build balance totalSent (a # rest) =
     (let again = (\<lambda>es. let (ev, r) = ask_send_amount E build balance totalSent rest in (map EError es @ ev, r))
      in case line (\<lambda>s. s) a of
           None \<Rightarrow> ([], Waiting)
         | Some s \<Rightarrow>
             if validate (build s) (Some ''amounts'') \<noteq> []
             then again (concat (map snd (validate (build s) (Some ''amounts''))))
             else (case ce_big E s of
                     Inl e \<Rightarrow> ([], Thrown e rest)
                   | Inr q \<Rightarrow>
                       if balance < totalSent + q then again [JsError ''Remaining balance is only''] \<comment> \<open>and its amount\<close>
                       else ([], Done (s, totalSent + q) rest)))"

text \<open>The accounts and amounts; the first argument is how many accounts may still be added.\<close>

fun send_accounts ::
  "nat \<Rightarrow> cli_env \<Rightarrow> string \<Rightarrow> string \<Rightarrow> rat \<Rightarrow> rat \<Rightarrow> string list \<Rightarrow> string list \<Rightarrow>
     (string list \<times> string list) dialog" where
  "send_accounts 0 E coin sender balance totalSent targets amounts = retD (targets, amounts)"
| "send_accounts (Suc n) E coin sender balance totalSent targets amounts =
     (let req = (\<lambda>ts as. TransfersRequest (ce_lib E) ts as coin sender)
      in bindD (ask_field (\<lambda>t. req (targets @ [t]) amounts) ''targetsId'') (\<lambda>target.
         bindD (ask_send_amount E (\<lambda>a. req (targets @ [target]) (amounts @ [a])) balance totalSent) (\<lambda>(amount, sent).
         if n = 0 \<or> sent = balance then retD (targets @ [target], amounts @ [amount])
         else bindD defaultConfirmAsk (\<lambda>more.
           if more then send_accounts n E coin sender balance sent (targets @ [target]) (amounts @ [amount])
           else retD (targets @ [target], amounts @ [amount])))))"

definition big_number :: "cli_env \<Rightarrow> string \<Rightarrow> rat dialog" where
  "big_number E s answers = ([], case ce_big E s of Inl e \<Rightarrow> Thrown e answers | Inr q \<Rightarrow> Done q answers)"

definition sendTokens :: "cli_env \<Rightarrow> string \<Rightarrow> screen dialog" where
  "sendTokens E coin =
     (let sender = ce_accountId E; balanceReq = GetAccountBalanceRequest coin sender
      in bindD (sdk_call StableCoin_getBalanceOf balanceReq (ce_balance E balanceReq)) (\<lambda>text.
         bindD (big_number E text) (\<lambda>balance.
         if balance = 0 then bindD (defaultMultipleAsk [()]) (\<lambda>_. retD OperationsMenu)
         else bindD (send_accounts (TRANSFER_LIST_SIZE - 1) E coin sender balance 0 [] []) (\<lambda>(targets, amounts).
           bindD defaultConfirmAsk (\<lambda>confirmation.
           if confirmation
           then submit E StableCoin_transfers (TransfersRequest (ce_lib E) targets amounts coin sender) OperationsMenu
           else retD OperationsMenu)))))"

section \<open>Holds\<close>

definition ZERO :: string where "ZERO = ''0''"
definition ZERO_ADDRESS :: string where "ZERO_ADDRESS = ''0.0.0''"

definition daysToSeconds :: "rat \<Rightarrow> rat" where
  "daysToSeconds days = days * 24 * 60 * 60"

text \<open>
  The expiration date for a number of days: rational numbers in place of the language's doubles.
\<close>

definition hold_expiration :: "cli_env \<Rightarrow> string \<Rightarrow> string" where
  "hold_expiration E s =
     (case ce_number E s of
        None \<Rightarrow> ''NaN''
      | Some days \<Rightarrow> int_str \<lfloor>of_int (rl_now (ce_lib E)) / 1000 + daysToSeconds days\<rfloor>)"

definition ask_destination :: "(string option \<Rightarrow> request) \<Rightarrow> string option dialog" where
  "ask_destination req =
     bindD defaultConfirmAsk (\<lambda>setDestination.
       if setDestination then bindD (ask_field (\<lambda>t. req (Some t)) ''targetId'') (\<lambda>t. retD (Some t)) else retD None)"

definition createHold_dialog :: "cli_env \<Rightarrow> string \<Rightarrow> screen dialog" where
  "createHold_dialog E coin =
     (let req = CreateHoldRequest (ce_lib E) coin
      in bindD (ask_field (\<lambda>a. req a ZERO_ADDRESS ZERO None) ''amount'') (\<lambda>amount.
         bindD (ask_field (\<lambda>x. req amount x ZERO None) ''escrow'') (\<lambda>escrow.
         bindD (ask_destination (req amount escrow ZERO)) (\<lambda>target.
         bindD (cli_handleValidation (line (hold_expiration E))
           (\<lambda>d. validate (req amount escrow d target) (Some ''expirationDate''))) (\<lambda>expiration.
         submit E StableCoin_createHold (req amount escrow expiration target) HoldMenu)))))"

definition createHoldByController_dialog :: "cli_env \<Rightarrow> string \<Rightarrow> screen dialog" where
  "createHoldByController_dialog E coin =
     (let req = CreateHoldByControllerRequest (ce_lib E) coin
      in bindD (ask_field (\<lambda>a. req a ZERO_ADDRESS ZERO ZERO_ADDRESS None) ''amount'') (\<lambda>amount.
         bindD (ask_field (\<lambda>x. req amount x ZERO ZERO_ADDRESS None) ''escrow'') (\<lambda>escrow.
         bindD (ask_destination (req amount escrow ZERO ZERO_ADDRESS)) (\<lambda>target.
         bindD (ask_field (\<lambda>s. req amount escrow ZERO s target) ''sourceId'') (\<lambda>source.
         bindD (cli_handleValidation (line (hold_expiration E))
           (\<lambda>d. validate (req amount escrow d source target) (Some ''expirationDate''))) (\<lambda>expiration.
         submit E StableCoin_createHoldByController (req amount escrow expiration source target) HoldMenu))))))"

definition executeHold_dialog :: "cli_env \<Rightarrow> string \<Rightarrow> screen dialog" where
  "executeHold_dialog E coin =
     (let req = ExecuteHoldRequest (ce_lib E) coin
      in bindD (ask_field (\<lambda>a. req a ZERO_ADDRESS 0 None) ''amount'') (\<lambda>amount.
         bindD (ask_field (\<lambda>s. req amount s 0 None) ''sourceId'') (\<lambda>source.
         bindD (cli_handleValidation (whole E) (\<lambda>h. validate (req amount source h None) (Some ''holdId''))) (\<lambda>holdId.
         bindD (ask_field (\<lambda>t. req amount source holdId (Some t)) ''targetId'') (\<lambda>target.
         submit E StableCoin_executeHold (req amount source holdId (Some target)) HoldMenu)))))"

definition releaseHold_dialog :: "cli_env \<Rightarrow> string \<Rightarrow> screen dialog" where
  "releaseHold_dialog E coin =
     (let req = ReleaseHoldRequest (ce_lib E) coin
      in bindD (ask_field (\<lambda>a. req a ZERO_ADDRESS 0) ''amount'') (\<lambda>amount.
         bindD (ask_field (\<lambda>s. req amount s 0) ''sourceId'') (\<lambda>source.
         bindD (cli_handleValidation (whole E) (\<lambda>h. validate (req amount source h) (Some ''holdId''))) (\<lambda>holdId.
         submit E StableCoin_releaseHold (req amount source holdId) HoldMenu))))"

definition reclaimHold_dialog :: "cli_env \<Rightarrow> string \<Rightarrow> screen dialog" where
  "reclaimHold_dialog E coin =
     (let req = ReclaimHoldRequest (ce_lib E) coin
      in bindD (ask_field (\<lambda>s. req s 0) ''sourceId'') (\<lambda>source.
         bindD (cli_handleValidation (whole E) (\<lambda>h. validate (req source h) (Some ''holdId''))) (\<lambda>holdId.
         submit E StableCoin_reclaimHold (req source holdId) HoldMenu)))"

text \<open>The four questions about the holds of an account.\<close>

definition heldBalance_dialog :: "cli_env \<Rightarrow> string \<Rightarrow> screen dialog" where
  "heldBalance_dialog E coin =
     bindD (ask_field (GetHeldAmountForRequest coin) ''sourceId'') (\<lambda>source.
     submit E StableCoin_getHeldAmountFor (GetHeldAmountForRequest coin source) HoldMenu)"

definition holdCount_dialog :: "cli_env \<Rightarrow> string \<Rightarrow> screen dialog" where
  "holdCount_dialog E coin =
     bindD (ask_field (GetHoldCountForRequest coin) ''sourceId'') (\<lambda>source.
     submit E StableCoin_getHoldCountFor (GetHoldCountForRequest coin source) HoldMenu)"

definition holdsId_dialog :: "cli_env \<Rightarrow> string \<Rightarrow> screen dialog" where
  "holdsId_dialog E coin =
     (let req = (\<lambda>source. GetHoldsIdForRequest (ce_lib E) coin source 0 100)
      in bindD (ask_field req ''sourceId'') (\<lambda>source. submit E StableCoin_getHoldsIdFor (req source) HoldMenu))"

definition holdDetails_dialog :: "cli_env \<Rightarrow> string \<Rightarrow> screen dialog" where
  "holdDetails_dialog E coin =
     (let req = GetHoldForRequest (ce_lib E) coin
      in bindD (ask_field (\<lambda>s. req s 0) ''sourceId'') (\<lambda>source.
         bindD (cli_handleValidation (whole E) (\<lambda>h. validate (req source h) (Some ''holdId''))) (\<lambda>holdId.
         submit E StableCoin_getHoldFor (req source holdId) HoldMenu)))"

definition hold_dialog :: "cli_env \<Rightarrow> string \<Rightarrow> hold_option \<Rightarrow> screen dialog" where
  "hold_dialog E coin opt =
     (case opt of
        OptCreateHold \<Rightarrow> createHold_dialog E coin
      | OptCreateHoldByController \<Rightarrow> createHoldByController_dialog E coin
      | OptExecuteHold \<Rightarrow> executeHold_dialog E coin
      | OptReleaseHold \<Rightarrow> releaseHold_dialog E coin
      | OptReclaimHold \<Rightarrow> reclaimHold_dialog E coin
      | OptHeldBalance \<Rightarrow> heldBalance_dialog E coin
      | OptHoldCount \<Rightarrow> holdCount_dialog E coin
      | OptHoldDetails \<Rightarrow> holdDetails_dialog E coin
      | OptHoldsId \<Rightarrow> holdsId_dialog E coin)"

section \<open>Fees\<close>

definition or_undefined :: "string option \<Rightarrow> string" where
  "or_undefined s = (case s of None \<Rightarrow> ''undefined'' | Some t \<Rightarrow> t)"

definition bool_text :: "bool \<Rightarrow> string" where
  "bool_text b = (if b then ''true'' else ''false'')"

text \<open>The line for a fee in a list; what a fraction shows is its percentage, not its numerator and denominator.\<close>

definition serialize_fee :: "request_fee \<Rightarrow> string" where
  "serialize_fee fee =
     '' | '' @
     (if isRequestFixedFee fee
      then ''Fixed'' @ '' | '' @
        (if rf_tokenIdCollected fee = Some ''0.0.0'' then ''HBAR'' else or_undefined (rf_tokenIdCollected fee)) @ '' | '' @
        or_undefined (rf_amount fee) @ '' | '' @ rf_collectorId fee @ '' | '' @ bool_text (rf_collectorsExempt fee)
      else if isRequestFractionalFee fee
      then ''Fractional'' @ '' | '' @ rf_percentage fee @ '' | '' @ ''Min: '' @ rf_min fee @ '' | '' @ ''Max: '' @
        (if rf_max fee = ''0'' then ''unlimited'' else rf_max fee) @ '' | '' @ rf_collectorId fee @ '' | '' @
        bool_text (rf_collectorsExempt fee) @ '' | '' @ (if rf_net fee then ''Sender'' else ''Receiver'')
      else [])"

definition getSerializedFees :: "request_fee list \<Rightarrow> string list" where
  "getSerializedFees listOfFees = map serialize_fee listOfFees"

text \<open>\<open>indexOf\<close> with \<open>None\<close> for \<open>-1\<close>; \<open>splice(-1, 1)\<close> removes the last element.\<close>

fun js_indexOf :: "'a list \<Rightarrow> 'a \<Rightarrow> nat option" where
  "js_indexOf [] y = None"
| "js_indexOf (x # xs) y = (if x = y then Some 0 else map_option Suc (js_indexOf xs y))"

definition splice_one :: "nat option \<Rightarrow> 'a list \<Rightarrow> 'a list" where
  "splice_one i xs = (case i of None \<Rightarrow> butlast xs | Some n \<Rightarrow> take n xs @ drop (Suc n) xs)"

fun getRemainingFees :: "request_fee list \<Rightarrow> string list \<Rightarrow> string list \<Rightarrow> request_fee list" where
  "getRemainingFees remainingFees serializedOriginalFees [] = remainingFees"
| "getRemainingFees remainingFees serializedOriginalFees (feeToRemove # fs) =
     (let index = js_indexOf serializedOriginalFees feeToRemove
      in getRemainingFees (splice_one index remainingFees) (splice_one index serializedOriginalFees) fs)"

definition removeFees :: "cli_env \<Rightarrow> string \<Rightarrow> request_fee list \<Rightarrow> screen dialog" where
  "removeFees E coin customFees =
     (let options = getSerializedFees customFees
      in bindD (checkBoxMultipleAsk options False) (\<lambda>chosen.
         bindD defaultConfirmAsk (\<lambda>confirm.
         if \<not> confirm then retD FeesMenu
         else submit E Fees_updateCustomFees
           (UpdateCustomFeesRequest (getRemainingFees customFees options chosen) coin) FeesMenu)))"

text \<open>
  The token of a fixed fee and its decimals: asked until its details can be read. The coin of the session
  and \<open>0.0.0\<close> need no query.
\<close>

fun ask_collected_token ::
  "cli_env \<Rightarrow> string \<Rightarrow> nat \<Rightarrow> (string \<Rightarrow> request) \<Rightarrow> (string \<times> nat) dialog" where
  "ask_collected_token E coin decimals build [] = ([], Waiting)"
| "ask_collected_token E coin decimals build (a # rest) =
     (let again = (\<lambda>evs. let (ev, r) = ask_collected_token E coin decimals build rest in (evs @ ev, r))
      in case line (\<lambda>s. s) a of
           None \<Rightarrow> ([], Waiting)
         | Some s \<Rightarrow>
             if validate (build s) (Some ''tokenIdCollected'') \<noteq> []
             then again (map EError (concat (map snd (validate (build s) (Some ''tokenIdCollected'')))))
             else if s = ''0.0.0'' then ([], Done (s, HBAR_DECIMALS) rest)
             else if s = coin then ([], Done (s, decimals) rest)
             else let req = GetStableCoinDetailsRequest s
                  in case ce_details E req of
                       Inl e \<Rightarrow> again [ECall StableCoin_getInfo req, EError e]
                     | Inr d \<Rightarrow> ([ECall StableCoin_getInfo req],
                                  Done (s, case fst d of None \<Rightarrow> 0 | Some n \<Rightarrow> n) rest))"

definition createFixedFee :: "cli_env \<Rightarrow> string \<Rightarrow> nat \<Rightarrow> screen dialog" where
  "createFixedFee E coin decimals =
     (let me = ce_accountId E;
          req = (\<lambda>collector exempt dec token amount. AddFixedFeeRequest (ce_lib E) coin collector exempt dec token amount)
      in bindD defaultConfirmAsk (\<lambda>feesInHBAR.
         bindD (if feesInHBAR then retD (''0.0.0'', HBAR_DECIMALS)
                else ask_collected_token E coin decimals (\<lambda>t. req me True HBAR_DECIMALS t ''1'')) (\<lambda>(token, dec).
         bindD (ask_field (req me True dec token) ''amount'') (\<lambda>amount.
         bindD defaultConfirmAsk (\<lambda>exempt.
         bindD (ask_field (\<lambda>c. req c exempt dec token amount) ''collectorId'') (\<lambda>collector.
         bindD defaultConfirmAsk (\<lambda>confirm.
         if \<not> confirm then retD FeesMenu
         else submit E Fees_addFixedFee (req collector exempt dec token amount) FeesMenu)))))))"

datatype fraction_type = Percentage | Fraction

definition ask_fraction ::
  "(string option \<Rightarrow> string option \<Rightarrow> string option \<Rightarrow> request) \<Rightarrow>
     (string option \<times> string option \<times> string option) dialog" where
  "ask_fraction req =
     bindD (defaultMultipleAsk [Percentage, Fraction]) (\<lambda>fractionType.
       if fractionType = Percentage
       then bindD (ask_field (\<lambda>p. req (Some p) None None) ''percentage'') (\<lambda>p. retD (Some p, None, None))
       else bindD (ask_field (\<lambda>n. req None (Some n) None) ''amountNumerator'') (\<lambda>n.
            bindD (ask_field (\<lambda>d. req None (Some n) (Some d)) ''amountDenominator'') (\<lambda>d.
            retD (None, Some n, Some d))))"

definition createFractionalFee :: "cli_env \<Rightarrow> string \<Rightarrow> nat \<Rightarrow> screen dialog" where
  "createFractionalFee E coin decimals =
     (let me = ce_accountId E;
          req = (\<lambda>collector exempt p n d mn mx net.
             AddFractionalFeeRequest (ce_lib E) coin collector exempt decimals p n d (Some mn) (Some mx) net)
      in bindD (ask_fraction (\<lambda>p n d. req me True p n d ''0'' ''0'' False)) (\<lambda>(p, n, d).
         bindD (ask_field (\<lambda>mn. req me True p n d mn ''0'' False) ''min'') (\<lambda>mn.
         bindD (ask_field (\<lambda>mx. req me True p n d mn mx False) ''max'') (\<lambda>mx.
         bindD defaultConfirmAsk (\<lambda>net.
         bindD defaultConfirmAsk (\<lambda>exempt.
         bindD (ask_field (\<lambda>c. req c exempt p n d mn mx net) ''collectorId'') (\<lambda>collector.
         bindD defaultConfirmAsk (\<lambda>confirm.
         if \<not> confirm then retD FeesMenu
         else submit E Fees_addFractionalFee (req collector exempt p n d mn mx net) FeesMenu))))))))"

end
