(* ===== verification/Transactions.thy ===== *)
theory Transactions
  imports Ports
begin

text \<open>
  What the transaction adapters build and hand to the network: the Hedera transactions, the
  response, the \<open>TransactionExecutor\<close> interface of \<open>sdk/src/port/out/hs/TransactionExecutor.ts\<close>,
  the \<open>EvmAddressResolver\<close> and the gas constants of \<open>sdk/src/core/Constants.ts\<close>.

  A transaction of the Hedera SDK is the value that its setters put together. Computations of an
  adapter are in \<open>('e, 'a) io\<close>: \<open>'e\<close> is what the adapter does outside (executing a transaction,
  calling the backend). The interface of the executor is the locale \<open>single_submission\<close>.
\<close>

section \<open>Transactions\<close>

text \<open>An argument of a contract call; a struct or an array is a sequence.\<close>

datatype cparam = CStr string | CInt int | CBool bool | CBytes "byte list" | CSeq "cparam list"

record contract_call =
  cc_contractId :: string
  cc_facet :: string
  cc_function :: string
  cc_params :: "cparam list"
  cc_gas :: int
  cc_payableAmount :: "string option"

datatype hedera_tx =
    TokenAssociateTransaction (tx_account: string) (tx_tokens: "string list")
  | TokenMintTransaction (tx_token: string) (tx_amount: int)
  | TokenBurnTransaction (tx_token: string) (tx_amount: int)
  | TokenWipeTransaction (tx_account: string) (tx_token: string) (tx_amount: int)
  | TokenFreezeTransaction (tx_account: string) (tx_token: string)
  | TokenUnfreezeTransaction (tx_account: string) (tx_token: string)
  | TokenGrantKycTransaction (tx_account: string) (tx_token: string)
  | TokenRevokeKycTransaction (tx_account: string) (tx_token: string)
  | TokenPauseTransaction (tx_token: string)
  | TokenUnpauseTransaction (tx_token: string)
  | TokenDeleteTransaction (tx_token: string)
  | ContractExecuteTransaction (tx_call: contract_call)

datatype transaction_type = RECORD | RECEIPT

text \<open>
  \<open>TransactionResponse\<close>. A response is missing, an array of bytes, an object with string
  properties, a value that a contract returned (or the status of a receipt), or an amount.
\<close>

datatype response_data =
    NoResponse
  | BytesResponse "byte list"
  | ObjectResponse "string \<rightharpoonup> string"
  | ContractResponse cparam
  | DecimalResponse big_decimal

record transaction_response =
  res_id :: "string option"
  res_response :: response_data
  res_error :: "js_error option"

section \<open>The executor\<close>

record 'e executor =
  ex_getAccount :: account
  ex_supportsEvmOperations :: bool
  ex_processTransaction ::
    "hedera_tx \<Rightarrow> transaction_type \<Rightarrow> string option \<Rightarrow> ('e, transaction_response) io"
  ex_executeContractCall ::
    "string \<Rightarrow> string \<Rightarrow> string \<Rightarrow> cparam list \<Rightarrow> int \<Rightarrow> transaction_type option \<Rightarrow> string option \<Rightarrow>
       string option \<Rightarrow> string option \<Rightarrow> ('e, transaction_response) io"

text \<open>
  At most one action outside, of the kind \<open>P\<close>; \<open>always\<close> says that a computation that returns has
  performed one. The interface that the operation classes rely on: a request to the executor leads
  to at most one action, and to exactly one when it returns.
\<close>

definition submits :: "bool \<Rightarrow> ('e \<Rightarrow> bool) \<Rightarrow> ('e, 'a) io \<Rightarrow> bool" where
  "submits always P m \<longleftrightarrow>
     length (actions m) \<le> 1 \<and> (always \<and> (\<exists>r. outcome m = Inr r) \<longrightarrow> length (actions m) = 1) \<and>
     list_all P (actions m)"

abbreviation submits_once :: "('e \<Rightarrow> bool) \<Rightarrow> ('e, 'a) io \<Rightarrow> bool" where
  "submits_once \<equiv> submits True"

locale single_submission =
  fixes P :: "'e \<Rightarrow> bool" and X :: "'e executor"
  assumes process: "submits_once P (ex_processTransaction X tx tt sd)"
    and contract: "submits_once P (ex_executeContractCall X c i f ps g tto pay sd evm)"

section \<open>EvmAddressResolver\<close>

text \<open>\<open>resolve\<close> on a contract, on an identifier, and on a string.\<close>

definition resolve_contract :: "env \<Rightarrow> contract_id \<Rightarrow> string result" where
  "resolve_contract E c =
     bindR (mn_getContractInfo E (contract_value c)) (\<lambda>info. Inr (ci_evmAddress info))"

definition resolve_id :: "env \<Rightarrow> hedera_id \<Rightarrow> string result" where
  "resolve_id E i =
     (if id_value i = id_value HederaId_NULL then Inr EVM_ZERO_ADDRESS
      else bindR (mn_accountToEvmAddress E i) (\<lambda>a. Inr (evm_value a)))"

definition KEY_TYPE_BITS :: "int list" where
  "KEY_TYPE_BITS = [1, 2, 4, 8, 16, 32, 64]"

text \<open>
  One struct of \<open>buildKeysForSmartContract\<close>: the key type bit of the position, the raw bytes (or
  \<open>0x\<close> for the null key) and whether the type is ED25519. A key that is a contract has neither
  \<open>key\<close> nor \<open>type\<close>: \<open>HPublicKey.fromString(undefined)\<close> throws.
\<close>

definition buildKey :: "env \<Rightarrow> int \<Rightarrow> token_key \<Rightarrow> cparam result" where
  "buildKey E bits k =
     (case k of
        KeyContract _ \<Rightarrow> Inl TypeError
      | KeyPublic pk \<Rightarrow>
          bindR (if pk_key pk = pk_key PublicKey_NULL then Inr (CStr ''0x'')
                 else bindR (sdk_rawKeyBytes E (pk_key pk)) (\<lambda>b. Inr (CBytes b))) (\<lambda>b.
            Inr (CSeq [CInt bits, b, CBool (pk_type pk = ''ED25519'')])))"

definition buildKeysForSmartContract :: "env \<Rightarrow> token_key option list \<Rightarrow> cparam list result" where
  "buildKeysForSmartContract E providedKeys =
     mapR (\<lambda>(bits, k). buildKey E bits k)
       (List.map_filter (\<lambda>(bits, k). map_option (\<lambda>k. (bits, k)) k) (zip KEY_TYPE_BITS providedKeys))"

section \<open>Constants\<close>

definition UINT256_MAX :: int where "UINT256_MAX = 2 ^ 256 - 1"
definition TOKEN_CREATION_COST_HBAR :: int where "TOKEN_CREATION_COST_HBAR = 80"
definition CREATE_SC_GAS :: int where "CREATE_SC_GAS = 10000000"
definition CASHIN_GAS :: int where "CASHIN_GAS = 200000"
definition BURN_GAS :: int where "BURN_GAS = 100000"
definition WIPE_GAS :: int where "WIPE_GAS = 100000"
definition RESCUE_GAS :: int where "RESCUE_GAS = 100000"
definition RESCUE_HBAR_GAS :: int where "RESCUE_HBAR_GAS = 100000"
definition FREEZE_GAS :: int where "FREEZE_GAS = 100000"
definition UNFREEZE_GAS :: int where "UNFREEZE_GAS = 100000"
definition GRANT_KYC_GAS :: int where "GRANT_KYC_GAS = 100000"
definition REVOKE_KYC_GAS :: int where "REVOKE_KYC_GAS = 100000"
definition PAUSE_GAS :: int where "PAUSE_GAS = 100000"
definition UNPAUSE_GAS :: int where "UNPAUSE_GAS = 100000"
definition DELETE_GAS :: int where "DELETE_GAS = 100000"
definition GRANT_ROLES_GAS :: int where "GRANT_ROLES_GAS = 200000"
definition REVOKE_ROLES_GAS :: int where "REVOKE_ROLES_GAS = 100000"
definition MAX_ROLES_GAS :: int where "MAX_ROLES_GAS = 7000000"
definition INCREASE_SUPPLY_GAS :: int where "INCREASE_SUPPLY_GAS = 100000"
definition DECREASE_SUPPLY_GAS :: int where "DECREASE_SUPPLY_GAS = 100000"
definition RESET_SUPPLY_GAS :: int where "RESET_SUPPLY_GAS = 100000"
definition UPDATE_RESERVE_ADDRESS_GAS :: int where "UPDATE_RESERVE_ADDRESS_GAS = 100000"
definition UPDATE_TOKEN_GAS :: int where "UPDATE_TOKEN_GAS = 250000"
definition UPDATE_RESERVE_AMOUNT_GAS :: int where "UPDATE_RESERVE_AMOUNT_GAS = 100000"
definition ASSOCIATE_GAS :: int where "ASSOCIATE_GAS = 7000000"
definition UPDATE_CUSTOM_FEES_GAS :: int where "UPDATE_CUSTOM_FEES_GAS = 9000000"
definition UPDATE_CONFIG_VERSION_GAS :: int where "UPDATE_CONFIG_VERSION_GAS = 9000000"
definition UPDATE_CONFIG_GAS :: int where "UPDATE_CONFIG_GAS = 9000000"
definition UPDATE_RESOLVER_GAS :: int where "UPDATE_RESOLVER_GAS = 9000000"
definition CREATE_HOLD_GAS :: int where "CREATE_HOLD_GAS = 7000000"
definition CONTROLLER_CREATE_HOLD_GAS :: int where "CONTROLLER_CREATE_HOLD_GAS = 7000000"
definition EXECUTE_HOLD_GAS :: int where "EXECUTE_HOLD_GAS = 10000000"
definition RELEASE_HOLD_GAS :: int where "RELEASE_HOLD_GAS = 7000000"
definition RECLAIM_HOLD_GAS :: int where "RECLAIM_HOLD_GAS = 7000000"
definition QUERY_GAS :: int where "QUERY_GAS = 120000"  \<comment> \<open>\<open>BALANCE_OF_GAS\<close> and the other read calls\<close>

section \<open>Lemmas\<close>

named_theorems once

lemma submits_throw [once, simp]: "submits s P (throw e)"
  by (simp add: submits_def)

lemma submits_withR [once]: "(\<And>x. r = Inr x \<Longrightarrow> submits s P (f x)) \<Longrightarrow> submits s P (withR r f)"
  by (cases r) simp_all

lemma submits_rethrow [once]: "submits s P m \<Longrightarrow> submits s P (rethrow m h)"
  by (auto simp: submits_def)

lemma submits_ret [once]: "submits s P m \<Longrightarrow> submits s P (bindIO m (\<lambda>x. ret (g x)))"
  by (auto simp: submits_def outcome_bindIO_Inr)

lemma submits_if [once]:
  "(c \<Longrightarrow> submits s P m) \<Longrightarrow> (\<not> c \<Longrightarrow> submits s P m') \<Longrightarrow> submits s P (if c then m else m')"
  by simp

lemma submits_option [once]:
  "submits s P m \<Longrightarrow> (\<And>x. v = Some x \<Longrightarrow> submits s P (f x)) \<Longrightarrow> submits s P (case v of None \<Rightarrow> m | Some x \<Rightarrow> f x)"
  by (cases v) simp_all

lemma submits_act [once]: "P e \<Longrightarrow> submits s P (act e r)"
  by (simp add: submits_def)

end
