(* ===== verification/Backend_Adapter.thy ===== *)
theory Backend_Adapter
  imports Transactions
begin

text \<open>
  \<open>sdk/src/port/out/backend/BackendAdapter.ts\<close>, the HTTP client of the multisignature backend. The
  HTTP library is the argument \<open>http\<close>: what a request settles with. A request is an action of the
  adapter (\<open>BackendRequest\<close>), beside the execution of a transaction on the network.
\<close>

record multisig_transaction =
  mst_id :: string
  mst_transaction_message :: string
  mst_description :: string
  mst_status :: string
  mst_threshold :: nat
  mst_key_list :: "string list"
  mst_signed_keys :: "string list"
  mst_signatures :: "string list"
  mst_network :: string
  mst_hedera_account_id :: string
  mst_start_date :: string

record pagination =
  pg_totalItems :: int
  pg_itemCount :: int
  pg_itemsPerPage :: int
  pg_totalPages :: int
  pg_currentPage :: int

record add_body =
  ab_transaction_message :: string
  ab_description :: string
  ab_hedera_account_id :: string
  ab_key_list :: "string list"
  ab_threshold :: nat
  ab_network :: string
  ab_start_date :: string

record query_params =
  qp_publicKey :: "string option"
  qp_page :: int
  qp_limit :: int
  qp_status :: "string option"
  qp_network :: string
  qp_hederaAccountId :: "string option"

datatype http_request =
    HttpPost add_body
  | HttpPutSignature string string string      \<comment> \<open>transaction, signature, public key\<close>
  | HttpPutUpdate string string                \<comment> \<open>transaction, status\<close>
  | HttpDelete string
  | HttpGetList query_params
  | HttpGet string

datatype http_data =
    DataTransactionId string
  | DataTransaction multisig_transaction
  | DataList "multisig_transaction list option" pagination

record http_response =
  hr_status :: int
  hr_statusText :: string
  hr_data :: "http_data option"

text \<open>
  What the adapters do outside: execute a transaction of the Hedera SDK, call the backend, or send a
  contract call through the wallet (the address of the contract is then an EVM address).
\<close>

datatype adapter_event =
    ExecuteTransaction hedera_tx
  | BackendRequest http_request
  | SendContractCall contract_call

type_synonym http_client = "http_request \<Rightarrow> http_response result"

definition request :: "http_client \<Rightarrow> http_request \<Rightarrow> (adapter_event, http_response) io" where
  "request http r = act (BackendRequest r) (http r)"

text \<open>
  \<open>catch (error) { if (error instanceof BackendError) throw error; else throw new BackendError(..) }\<close>. The
  test never succeeds: the constructor of \<open>BaseError\<close> sets the prototype of the new object to
  \<open>BaseError.prototype\<close>, and the class \<open>BackendError\<close> does not set it back, so the error that the \<open>try\<close>
  block throws for a status is replaced as well. The message of a \<open>BackendError\<close> has a prefix; that of an
  error of the HTTP client is its property \<open>message\<close>.
\<close>

definition backend_catch :: "(js_error \<Rightarrow> string) \<Rightarrow> (adapter_event, 'a) io \<Rightarrow> (adapter_event, 'a) io" where
  "backend_catch msg m = rethrow m (\<lambda>e. BackendError (msg e))"

definition unknown_error :: "string \<Rightarrow> js_error \<Rightarrow> string" where
  "unknown_error what e = ''Failed to '' @ what @ '': Unknown error''"

fun backend_error_message :: "js_error \<Rightarrow> string" where
  "backend_error_message (BackendError s) = ''Backend Error: '' @ s"
| "backend_error_message (JsError s) = s"
| "backend_error_message (ProviderError props) = (case map_of props ''message'' of None \<Rightarrow> [] | Some m \<Rightarrow> m)"
| "backend_error_message _ = []"

definition or_undefined :: "string option \<Rightarrow> string" where
  "or_undefined s = (case s of None \<Rightarrow> ''undefined'' | Some v \<Rightarrow> v)"

definition status_error :: "string \<Rightarrow> http_response \<Rightarrow> js_error" where
  "status_error what r =
     BackendError (what @ '' api call returned error '' @ int_str (hr_status r) @ '', '' @ hr_statusText r)"

definition backend_addTransaction ::
  "http_client \<Rightarrow> string \<Rightarrow> string \<Rightarrow> string \<Rightarrow> string list \<Rightarrow> nat \<Rightarrow> string \<Rightarrow> string \<Rightarrow>
     (adapter_event, string) io" where
  "backend_addTransaction http transactionMessage description accountId keyList threshold network startDate =
     backend_catch (unknown_error (''add transaction '' @ transactionMessage))
      (bindIO (request http (HttpPost
          \<lparr>ab_transaction_message = transactionMessage, ab_description = description,
           ab_hedera_account_id = accountId, ab_key_list = keyList, ab_threshold = threshold,
           ab_network = network, ab_start_date = startDate\<rparr>)) (\<lambda>response.
        if hr_status response = 201
        then (case hr_data response of
                None \<Rightarrow> throw (BackendError ''add transaction api call succeeded but returned no data....'')
              | Some (DataTransactionId i) \<Rightarrow> ret i
              | Some _ \<Rightarrow> ret [])
        else throw (status_error ''add transaction'' response)))"

definition backend_signTransaction ::
  "http_client \<Rightarrow> string \<Rightarrow> string \<Rightarrow> string \<Rightarrow> (adapter_event, unit) io" where
  "backend_signTransaction http transactionId signature publicKey =
     backend_catch (unknown_error (''sign transaction '' @ transactionId))
      (bindIO (request http (HttpPutSignature transactionId signature publicKey)) (\<lambda>response.
        if hr_status response = 204 then ret () else throw (status_error ''sign transaction'' response)))"

definition backend_updateTransaction ::
  "http_client \<Rightarrow> string \<Rightarrow> string \<Rightarrow> (adapter_event, unit) io" where
  "backend_updateTransaction http transactionId status =
     backend_catch (unknown_error (''update transaction '' @ transactionId))
      (bindIO (request http (HttpPutUpdate transactionId status)) (\<lambda>response.
        if hr_status response = 204 then ret () else throw (status_error ''update transaction'' response)))"

definition backend_deleteTransaction :: "http_client \<Rightarrow> string \<Rightarrow> (adapter_event, unit) io" where
  "backend_deleteTransaction http transactionId =
     backend_catch (unknown_error (''delete transaction '' @ transactionId))
      (bindIO (request http (HttpDelete transactionId)) (\<lambda>response.
        if hr_status response = 200 then ret () else throw (status_error ''delete'' response)))"

definition backend_getTransactions ::
  "http_client \<Rightarrow> int \<Rightarrow> int \<Rightarrow> string \<Rightarrow> string option \<Rightarrow> string option \<Rightarrow> string option \<Rightarrow>
     (adapter_event, multisig_transaction list \<times> pagination) io" where
  "backend_getTransactions http page limit network publicKey status accountId =
     backend_catch (\<lambda>e. ''Failed to get transactions for '' @ or_undefined publicKey @ '', '' @ int_str page @ '', '' @
         int_str limit @ '', '' @ or_undefined status @ '', '' @ network @ '', '' @ or_undefined accountId @ '': '' @
         backend_error_message e)
      (bindIO (request http (HttpGetList
          \<lparr>qp_publicKey = publicKey, qp_page = page, qp_limit = limit, qp_status = status,
           qp_network = network, qp_hederaAccountId = accountId\<rparr>)) (\<lambda>response.
        if hr_status response = 200
        then (case hr_data response of
                Some (DataList items meta) \<Rightarrow> ret (case items of None \<Rightarrow> [] | Some l \<Rightarrow> l, meta)
              | _ \<Rightarrow> throw (BackendError
                  ''get transactions by public key api call succeeded but returned no data....''))
        else throw (status_error ''get transactions by public key'' response)))"

definition backend_getTransaction ::
  "http_client \<Rightarrow> string \<Rightarrow> (adapter_event, multisig_transaction) io" where
  "backend_getTransaction http transactionId =
     backend_catch (unknown_error (''get transaction with transaction Id '' @ transactionId))
      (bindIO (request http (HttpGet transactionId)) (\<lambda>response.
        if hr_status response = 200
        then (case hr_data response of
                Some (DataTransaction t) \<Rightarrow> ret t
              | _ \<Rightarrow> throw (BackendError
                  ''get transaction by transaction id api call succeeded but returned no data....''))
        else throw (status_error ''get transaction by transaction id'' response)))"

lemma actions_backend_catch [simp]: "actions (backend_catch m x) = actions x"
  by (simp add: backend_catch_def)

lemma outcome_backend_catch [simp]: "outcome (backend_catch m x) = Inr r \<longleftrightarrow> outcome x = Inr r"
  by (simp add: backend_catch_def)

lemma actions_request [simp]: "actions (request http r) = [BackendRequest r]" "outcome (request http r) = http r"
  by (simp_all add: request_def)

text \<open>Every call of the backend makes one request, and fails with a \<open>BackendError\<close> only.\<close>

lemma backend_add_actions:
  "actions (backend_addTransaction http m d a ks th nw sd) =
     [BackendRequest (HttpPost \<lparr>ab_transaction_message = m, ab_description = d,
       ab_hedera_account_id = a, ab_key_list = ks, ab_threshold = th, ab_network = nw, ab_start_date = sd\<rparr>)]"
  unfolding backend_addTransaction_def actions_backend_catch
  by (subst actions_bindIO_pure) (simp_all split: option.split http_data.split)

lemma backend_catch_error: "outcome (backend_catch m x) = Inl e \<Longrightarrow> \<exists>s. e = BackendError s"
  by (auto simp: backend_catch_def outcome_rethrow_Inl)

text \<open>The call of the \<open>HttpPost\<close> and the like: whatever went wrong, the error is the same.\<close>

lemma backend_unknown_error:
  "outcome (backend_catch (unknown_error what) m) = Inl e \<Longrightarrow> e = BackendError (''Failed to '' @ what @ '': Unknown error'')"
  by (auto simp: backend_catch_def outcome_rethrow_Inl unknown_error_def)

end
