(* ===== verification/Cli_Multisig.thy ===== *)
theory Cli_Multisig
  imports Cli_Operations Backend_Adapter
begin

text \<open>
  The menu of multisignature transactions of the command line (\<open>ManageMultiSigTxService\<close>,
  \<open>ListMultiSigTxService\<close>), with the objects that it makes of the SDK's answer (\<open>cli/src/domain/stablecoin\<close>).
\<close>

section \<open>Transactions\<close>

datatype cli_status = StPending | StSigned | StExpired | StError | StExecuted

definition cli_statuses :: "cli_status list" where
  "cli_statuses = [StPending, StSigned, StExpired, StError, StExecuted]"

fun cli_status_value :: "cli_status \<Rightarrow> string" where
  "cli_status_value StPending = ''PENDING''"
| "cli_status_value StSigned = ''SIGNED''"
| "cli_status_value StExpired = ''EXPIRED''"
| "cli_status_value StError = ''ERROR''"
| "cli_status_value StExecuted = ''EXECUTED''"

record cli_tx =
  mx_id :: string
  mx_message :: string
  mx_description :: string
  mx_hederaAccountId :: string
  mx_signatures :: "string list"
  mx_keyList :: "string list"
  mx_signedKeys :: "string list"
  mx_status :: cli_status
  mx_threshold :: nat
  mx_startDate :: string

text \<open>\<open>/^([a-f\d]{8}(-[a-f\d]{4}){3}-[a-f\d]{12}?)$/i\<close>\<close>

definition uuid_format :: "string \<Rightarrow> bool" where
  "uuid_format s \<longleftrightarrow> length s = 36 \<and>
     list_all (\<lambda>(i, c). if i \<in> {8, 13, 18, 23} then c = CHR ''-'' else is_hex c) (zip [0..<36] s)"

text \<open>\<open>/\d\.\d\.\d/\<close>, anywhere in the string.\<close>

fun three_numbers :: "string \<Rightarrow> bool" where
  "three_numbers [] = False"
| "three_numbers (c # s) =
     ((case c # s of
         a # p # b # q # d # _ \<Rightarrow>
           is_digit a \<and> p = CHR ''.'' \<and> is_digit b \<and> q = CHR ''.'' \<and> is_digit d
       | _ \<Rightarrow> False) \<or> three_numbers s)"

definition text_valid :: "string \<Rightarrow> bool" where
  "text_valid s \<longleftrightarrow> \<not> list_all is_blank s \<and> 10 \<le> length s"

definition validateKeyList :: "string list \<Rightarrow> bool" where
  "validateKeyList keyList \<longleftrightarrow> 2 \<le> length keyList \<and> list_all (\<lambda>k. 10 \<le> length k) keyList"

definition validateThreshold :: "nat \<Rightarrow> string list \<Rightarrow> bool" where
  "validateThreshold threshold keyList \<longleftrightarrow> 0 < threshold \<and> threshold \<le> length keyList"

text \<open>The constructor, from the SDK's transaction: the validators in their order.\<close>

definition new_MultiSigTransaction :: "multisig_transaction \<Rightarrow> cli_tx result" where
  "new_MultiSigTransaction raw =
     (if \<not> uuid_format (mst_id raw) then Inl (JsError ''Invalid UUIDv4 format for id'')
      else if \<not> text_valid (mst_transaction_message raw) then Inl (JsError ''Invalid message.'')
      else if \<not> text_valid (mst_description raw) then Inl (JsError ''Invalid description.'')
      else if \<not> three_numbers (mst_hedera_account_id raw) then Inl (JsError ''Invalid Hedera Account Id.'')
      else if \<not> validateKeyList (mst_key_list raw) then Inl (JsError ''Invalid keyList.'')
      else case find (\<lambda>st. cli_status_value st = mst_status raw) cli_statuses of
             None \<Rightarrow> Inl (JsError ''Invalid status.'')
           | Some st \<Rightarrow>
               if \<not> validateThreshold (mst_threshold raw) (mst_key_list raw) then Inl (JsError ''Invalid threshold.'')
               else Inr \<lparr>mx_id = mst_id raw, mx_message = mst_transaction_message raw, mx_description = mst_description raw,
                  mx_hederaAccountId = mst_hedera_account_id raw, mx_signatures = mst_signatures raw,
                  mx_keyList = mst_key_list raw, mx_signedKeys = mst_signed_keys raw, mx_status = st,
                  mx_threshold = mst_threshold raw, mx_startDate = mst_start_date raw\<rparr>)"

section \<open>Pages\<close>

text \<open>A page and its limit.\<close>

type_synonym page_request = "int \<times> int"

definition new_PaginationRequest :: "int \<Rightarrow> int \<Rightarrow> page_request result" where
  "new_PaginationRequest page limit =
     (if page < 1 then Inl (JsError ''Page must be greater than 0'')
      else if limit < 1 then Inl (JsError ''Limit must be greater than 0'')
      else Inr (page, limit))"

definition default_page :: page_request where
  "default_page = (1, 5)"

text \<open>The totals are optional: 0 is falsy and passes.\<close>

definition new_PaginationResponse :: "pagination \<Rightarrow> pagination result" where
  "new_PaginationResponse p =
     (if pg_itemsPerPage p < 1 then Inl (JsError ''Items per page must be greater than 0'')
      else if pg_totalItems p < 0 then Inl (JsError ''Total items must be greater than or equal to 0'')
      else if pg_totalPages p < 0 then Inl (JsError ''Total pages must be greater than 0'')
      else if pg_itemCount p < 0 then Inl (JsError ''Item count must be greater than or equal to 0'')
      else if pg_itemsPerPage p < pg_itemCount p
      then Inl (JsError ''Item count must be less than or equal to items per page'')
      else if pg_currentPage p < 1 then Inl (JsError ''Current page must be greater than 0'')
      else if pg_totalPages p \<noteq> 0 \<and> pg_totalPages p < pg_currentPage p
      then Inl (JsError ''Current page must be less than or equal to total pages'')
      else Inr p)"

definition next_page :: "pagination \<Rightarrow> page_request result" where
  "next_page p = new_PaginationRequest (pg_currentPage p + 1) (pg_itemsPerPage p)"

definition previous_page :: "pagination \<Rightarrow> page_request result" where
  "previous_page p = new_PaginationRequest (pg_currentPage p - 1) (pg_itemsPerPage p)"

section \<open>The list\<close>

text \<open>
  The current account, the answers of the SDK, and whether a start date has been reached
  (\<open>new Date(startDate) > new Date()\<close> does not hold).
\<close>

record ms_env =
  me_lib :: request_lib
  me_accountId :: string
  me_multisig :: bool
  me_publicKey :: "request \<Rightarrow> public_key result"
  me_transactions :: "request \<Rightarrow> (multisig_transaction list \<times> pagination) result"
  me_run :: "sdk_op \<Rightarrow> request \<Rightarrow> unit result"
  me_reached :: "string \<Rightarrow> bool"

definition account_publicKey :: "ms_env \<Rightarrow> public_key option dialog" where
  "account_publicKey E =
     (if me_multisig E then retD None
      else let req = GetPublicKeyRequest (me_lib E) \<lparr>ra_accountId = me_accountId E, ra_privateKey = None, ra_evmAddress = None\<rparr>
           in bindD (sdk_call Account_getPublicKey req (me_publicKey E req)) (\<lambda>k. retD (Some k)))"

text \<open>\<open>fromRawMultiSigTxList\<close>: one invalid transaction, or an invalid page, and there is no list.\<close>

definition fromRawMultiSigTxList ::
  "multisig_transaction list \<Rightarrow> public_key option \<Rightarrow> pagination \<Rightarrow> (cli_tx list \<times> public_key option \<times> pagination) result" where
  "fromRawMultiSigTxList raws publicKey p =
     bindR (mapR new_MultiSigTransaction raws) (\<lambda>txs.
     bindR (case publicKey of None \<Rightarrow> Inr None
            | Some k \<Rightarrow> bindR (new_PublicKey (\<lambda>_. Inl TypeError) (Some (pk_key k)) (Some (pk_type k))) (\<lambda>k'. Inr (Some k'))) (\<lambda>k.
     bindR (new_PaginationResponse p) (\<lambda>page. Inr (txs, k, page))))"

definition ms_list ::
  "ms_env \<Rightarrow> cli_status option \<Rightarrow> page_request \<Rightarrow> (cli_tx list \<times> public_key option \<times> pagination) dialog" where
  "ms_list E status page =
     bindD (account_publicKey E) (\<lambda>publicKey.
     let req = GetTransactionsRequest (me_lib E) (map_option pk_key publicKey) (fst page) (snd page)
                 (map_option cli_status_value status) (if publicKey = None then Some (me_accountId E) else None)
     in bindD (sdk_call StableCoin_getTransactions req (me_transactions E req)) (\<lambda>(raws, p).
        liftD (fromRawMultiSigTxList raws publicKey p)))"

section \<open>The menus\<close>

text \<open>
  The choice of a status; \<open>None\<close> is \<open>undefined\<close>, which \<open>Go back\<close> gives: it is not looked at, the transactions of
  every status are listed.
\<close>

datatype status_choice = AllStatuses | OneStatus cli_status

definition chooseStatus :: "status_choice option dialog" where
  "chooseStatus = defaultMultipleAsk (with_back (map OneStatus cli_statuses @ [AllStatuses]))"

definition status_filter :: "status_choice option \<Rightarrow> cli_status option" where
  "status_filter c = (case c of Some (OneStatus st) \<Rightarrow> Some st | _ \<Rightarrow> None)"

datatype ms_screen =
    MsMain
  | MsList "status_choice option" page_request
  | MsActions "status_choice option" cli_tx "string option"

datatype ms_option = MsTx string | MsPrevious | MsNext

definition ms_options :: "cli_tx list \<Rightarrow> pagination \<Rightarrow> ms_option list" where
  "ms_options txs p =
     map (\<lambda>tx. MsTx (mx_id tx)) txs @
     (if pg_currentPage p \<noteq> 1 then [MsPrevious] else []) @
     (if pg_currentPage p \<noteq> pg_totalPages p then [MsNext] else [])"

definition ms_start :: "ms_env \<Rightarrow> status_choice option \<Rightarrow> page_request \<Rightarrow> ms_screen dialog" where
  "ms_start E status page =
     bindD (case status of None \<Rightarrow> chooseStatus | Some c \<Rightarrow> retD (Some c)) (\<lambda>selectedStatus.
     bindD (ms_list E (status_filter selectedStatus) page) (\<lambda>(txs, publicKey, p).
     bindD (defaultMultipleAsk (with_back (ms_options txs p))) (\<lambda>choice.
     case choice of
       None \<Rightarrow> retD MsMain
     | Some MsPrevious \<Rightarrow> bindD (liftD (previous_page p)) (\<lambda>pr. retD (MsList selectedStatus pr))
     | Some MsNext \<Rightarrow> bindD (liftD (next_page p)) (\<lambda>pr. retD (MsList selectedStatus pr))
     | Some (MsTx i) \<Rightarrow>
         (case find (\<lambda>tx. mx_id tx = i) txs of
            None \<Rightarrow> liftD (Inl TypeError)
          | Some tx \<Rightarrow> retD (MsActions selectedStatus tx (map_option PublicKey_toString publicKey))))))"

datatype ms_action = ASign | ASubmit | ARemove | ADetails

text \<open>\<open>actions.splice(actions.indexOf(a), 1)\<close>: when the action is not there, the last one is removed.\<close>

definition remove_action :: "ms_action \<Rightarrow> ms_action list \<Rightarrow> ms_action list" where
  "remove_action a acts = splice_one (js_indexOf acts a) acts"

definition ms_actions :: "ms_env \<Rightarrow> cli_tx \<Rightarrow> string option \<Rightarrow> ms_action list" where
  "ms_actions E tx publicKey =
     (let all = [ASign, ASubmit, ARemove, ADetails];
          byStatus = (if mx_status tx = StPending then remove_action ASubmit all
                      else if mx_status tx \<in> {StExpired, StError, StExecuted}
                      then remove_action ASign (remove_action ASubmit all) else all);
          bySigned = (if publicKey \<in> Some ` set (mx_signedKeys tx) then remove_action ASign byStatus else byStatus);
          byDate = (if me_reached E (mx_startDate tx) then bySigned else remove_action ASubmit bySigned)
      in if me_multisig E \<and> ASign \<in> set byDate then remove_action ASign byDate else byDate)"

text \<open>A call of the SDK whose error is only shown; the user confirms and the list comes again.\<close>

definition ms_call :: "ms_env \<Rightarrow> sdk_op \<Rightarrow> request \<Rightarrow> status_choice option \<Rightarrow> ms_screen dialog" where
  "ms_call E op req selectedStatus =
     bindD (tryD (sdk_call op req (me_run E op req)) (\<lambda>e. showD [e])) (\<lambda>_.
     bindD defaultConfirmAsk (\<lambda>_. retD (MsList selectedStatus default_page)))"

definition multiSigTxActions :: "ms_env \<Rightarrow> status_choice option \<Rightarrow> cli_tx \<Rightarrow> string option \<Rightarrow> ms_screen dialog" where
  "multiSigTxActions E selectedStatus tx publicKey =
     bindD (account_publicKey E) (\<lambda>k.
     let own = (if publicKey = None then map_option PublicKey_toString k else publicKey)
     in bindD (defaultMultipleAsk (with_back (ms_actions E tx own))) (\<lambda>choice.
        case choice of
          None \<Rightarrow> retD (MsList selectedStatus default_page)
        | Some ASign \<Rightarrow> ms_call E StableCoin_signTransaction (SignTransactionRequest (mx_id tx)) selectedStatus
        | Some ASubmit \<Rightarrow>
            if mx_status tx = StPending then liftD (Inl (JsError ''The transaction is Pending.''))
            else ms_call E StableCoin_submitTransaction (SignTransactionRequest (mx_id tx)) selectedStatus
        | Some ARemove \<Rightarrow> ms_call E StableCoin_removeTransaction (RemoveTransactionRequest (mx_id tx)) selectedStatus
        | Some ADetails \<Rightarrow> bindD defaultConfirmAsk (\<lambda>_. retD (MsActions selectedStatus tx own))))"

section \<open>The session in this menu\<close>

definition ms_dialog :: "ms_env \<Rightarrow> ms_screen \<Rightarrow> ms_screen dialog" where
  "ms_dialog E s =
     (case s of
        MsMain \<Rightarrow> (\<lambda>answers. ([], Waiting))
      | MsList status page \<Rightarrow> ms_start E status page
      | MsActions status tx publicKey \<Rightarrow> multiSigTxActions E status tx publicKey)"

text \<open>An error that is not caught ends in the main menu.\<close>

definition ms_turn :: "ms_env \<Rightarrow> answer list \<Rightarrow> ms_screen \<Rightarrow> cli_event list \<times> ms_screen option" where
  "ms_turn E answers s =
     (case ms_dialog E s answers of
        (ev, Done s' rest) \<Rightarrow> (ev, Some s')
      | (ev, Waiting) \<Rightarrow> (ev, None)
      | (ev, Thrown e rest) \<Rightarrow> (ev @ [EError e], Some MsMain))"

text \<open>The screens that are reached from the main menu, with any environment of \<open>W\<close> at every turn.\<close>

inductive ms_reachable :: "(ms_env \<Rightarrow> bool) \<Rightarrow> ms_screen \<Rightarrow> bool" for W where
  ms_begin: "ms_reachable W MsMain"
| ms_open: "ms_reachable W MsMain \<Longrightarrow> ms_reachable W (MsList None default_page)"
| ms_next: "ms_reachable W s \<Longrightarrow> W E \<Longrightarrow> ms_turn E answers s = (ev, Some s') \<Longrightarrow> ms_reachable W s'"

end
