(* ===== verification/Cli_Update.thy ===== *)
theory Cli_Update
  imports Cli_Operations
begin

text \<open>
  The token configuration of the command line: the update of a token is collected field by field, and sent when
  the user saves it.
\<close>

section \<open>The update that is collected\<close>

definition new_update :: "string \<Rightarrow> update_request" where
  "new_update tokenId =
     \<lparr>ru_tokenId = tokenId, ru_name = None, ru_symbol = None, ru_autoRenewPeriod = None, ru_expirationTimestamp = None,
      ru_freezeKey = None, ru_kycKey = None, ru_wipeKey = None, ru_pauseKey = None, ru_feeScheduleKey = None,
      ru_metadata = None\<rparr>"

text \<open>Whether a property other than the identifier is defined.\<close>

definition update_changed :: "update_request \<Rightarrow> bool" where
  "update_changed r \<longleftrightarrow>
     ru_name r \<noteq> None \<or> ru_symbol r \<noteq> None \<or> ru_autoRenewPeriod r \<noteq> None \<or> ru_expirationTimestamp r \<noteq> None \<or>
     ru_freezeKey r \<noteq> None \<or> ru_kycKey r \<noteq> None \<or> ru_wipeKey r \<noteq> None \<or> ru_pauseKey r \<noteq> None \<or>
     ru_feeScheduleKey r \<noteq> None \<or> ru_metadata r \<noteq> None"

text \<open>
  Days from now as nanoseconds, and days as seconds, in the notation of the language; integers in place of its
  doubles.
\<close>

definition daysToTimestampInNano :: "cli_env \<Rightarrow> rat option \<Rightarrow> string" where
  "daysToTimestampInNano E days =
     (case Option.bind days (ce_plus_days E) of None \<Rightarrow> ''NaN'' | Some ms \<Rightarrow> int_str (ms * 1000000))"

definition renew_period :: "cli_env \<Rightarrow> string \<Rightarrow> string" where
  "renew_period E s = (case ce_number E s of None \<Rightarrow> ''NaN'' | Some days \<Rightarrow> ce_text E (daysToSeconds days))"

section \<open>Keys\<close>

text \<open>\<open>defaultPublicKeyAsk\<close>: asked again until the length of the key is possible.\<close>

fun defaultPublicKeyAsk :: "string dialog" where
  "defaultPublicKeyAsk [] = ([], Waiting)"
| "defaultPublicKeyAsk (a # rest) =
     (case line (\<lambda>s. s) a of
        None \<Rightarrow> ([], Waiting)
      | Some s \<Rightarrow>
          (let publicKey = (if js_startsWith s ''0x'' then drop 2 s else s)
           in if length publicKey < 64 \<or> 130 < length publicKey
              then (let (ev, r) = defaultPublicKeyAsk rest
                    in (EError (JsError ''Incorrect input, retrying'') # ev, r))
              else ([], Done publicKey rest)))"

datatype feature_option = SmartContractFeature | CurrentUserFeature | OtherKeyFeature | NoneFeature

definition nonNoneFeatureOptions :: "feature_option list" where
  "nonNoneFeatureOptions = [SmartContractFeature, CurrentUserFeature, OtherKeyFeature]"

definition nonSmartContractAndNoneFeatureOptions :: "feature_option list" where
  "nonSmartContractAndNoneFeatureOptions = [CurrentUserFeature, OtherKeyFeature]"

text \<open>\<open>Account.NullPublicKey\<close> stands for the contract.\<close>

definition NullPublicKey :: request_key where
  "NullPublicKey = (''null'', Some ''null'')"

definition checkAnswer :: "cli_env \<Rightarrow> feature_option \<Rightarrow> request_key option dialog" where
  "checkAnswer E choice =
     (case choice of
        CurrentUserFeature \<Rightarrow>
          (let req = GetPublicKeyRequest (ce_lib E) \<lparr>ra_accountId = ce_accountId E, ra_privateKey = None, ra_evmAddress = None\<rparr>
           in bindD (sdk_call Account_getPublicKey req (ce_publicKey E req)) (\<lambda>k. retD (Some k)))
      | OtherKeyFeature \<Rightarrow> bindD defaultPublicKeyAsk (\<lambda>k. retD (Some (k, None)))
      | NoneFeature \<Rightarrow> retD None
      | SmartContractFeature \<Rightarrow> retD (Some NullPublicKey))"

definition set_key :: "key_name \<Rightarrow> request_key option \<Rightarrow> update_request \<Rightarrow> update_request" where
  "set_key k key r =
     (case k of
        KycKey \<Rightarrow> r\<lparr>ru_kycKey := key\<rparr> | FreezeKey \<Rightarrow> r\<lparr>ru_freezeKey := key\<rparr> | WipeKey \<Rightarrow> r\<lparr>ru_wipeKey := key\<rparr>
      | PauseKey \<Rightarrow> r\<lparr>ru_pauseKey := key\<rparr> | FeeScheduleKey \<Rightarrow> r\<lparr>ru_feeScheduleKey := key\<rparr>)"

text \<open>The keys that the token has, and which of them to change.\<close>

definition keysManagement :: "cli_env \<Rightarrow> update_request \<Rightarrow> key_name list \<Rightarrow> (update_request \<times> screen) dialog" where
  "keysManagement E r keys =
     bindD (defaultMultipleAsk (with_back keys)) (\<lambda>choice.
     case choice of
       None \<Rightarrow> retD (r, TokenConfigurationMenu)
     | Some k \<Rightarrow>
         bindD (defaultMultipleAsk
           (if k = FeeScheduleKey then nonSmartContractAndNoneFeatureOptions else nonNoneFeatureOptions)) (\<lambda>feature.
         bindD (checkAnswer E feature) (\<lambda>key. retD (set_key k key r, TokenKeysMenu))))"

section \<open>The menu\<close>

datatype token_option =
    OptName | OptSymbol | OptExpirationTime | OptAutoRenewPeriod | OptKeys | OptMetadata | OptSave | OptTokenBack

definition tokenConfigurationOptions :: "update_request \<Rightarrow> token_option list" where
  "tokenConfigurationOptions r =
     [OptName, OptSymbol, OptExpirationTime, OptAutoRenewPeriod, OptKeys, OptMetadata] @
     (if update_changed r then [OptSave] else []) @ [OptTokenBack]"

definition ask_update :: "cli_env \<Rightarrow> (string \<Rightarrow> update_request) \<Rightarrow> string \<Rightarrow> (update_request \<times> screen) dialog" where
  "ask_update E set_field field =
     bindD (cli_handleValidation (line set_field) (\<lambda>r. validate (UpdateRequest (ce_lib E) r) (Some field)))
       (\<lambda>r. retD (r, TokenConfigurationMenu))"

definition tokenConfigurationCollectData ::
  "cli_env \<Rightarrow> string \<Rightarrow> update_request \<Rightarrow> (update_request \<times> screen) dialog" where
  "tokenConfigurationCollectData E coin r =
     bindD (defaultMultipleAsk (tokenConfigurationOptions r)) (\<lambda>opt.
     case opt of
       OptName \<Rightarrow> ask_update E (\<lambda>s. r\<lparr>ru_name := Some s\<rparr>) ''name''
     | OptSymbol \<Rightarrow> ask_update E (\<lambda>s. r\<lparr>ru_symbol := Some s\<rparr>) ''symbol''
     | OptExpirationTime \<Rightarrow>
         ask_update E (\<lambda>s. r\<lparr>ru_expirationTimestamp := Some (daysToTimestampInNano E (ce_number E s))\<rparr>) ''expirationTimestamp''
     | OptAutoRenewPeriod \<Rightarrow> ask_update E (\<lambda>s. r\<lparr>ru_autoRenewPeriod := Some (renew_period E s)\<rparr>) ''autoRenewPeriod''
     | OptKeys \<Rightarrow> retD (r, TokenKeysMenu)
     | OptMetadata \<Rightarrow> ask_update E (\<lambda>s. r\<lparr>ru_metadata := Some s\<rparr>) ''metadata''
     | OptSave \<Rightarrow>
         bindD defaultConfirmAsk (\<lambda>confirm.
         if \<not> confirm then retD (r, TokenConfigurationMenu)
         else bindD (submit E StableCoin_update (UpdateRequest (ce_lib E) r) TokenConfigurationMenu) (\<lambda>scr.
           retD (if scr = TokenConfigurationMenu then new_update coin else r, scr)))
     | OptTokenBack \<Rightarrow>
         if \<not> update_changed r then retD (r, ConfigurationMenu)
         else bindD defaultConfirmAsk (\<lambda>back. retD (r, if back then ConfigurationMenu else TokenConfigurationMenu)))"

end
