(* ===== verification/Cli_Session.thy ===== *)
theory Cli_Session
  imports Cli_Update
begin

text \<open>
  The role management and the danger zone of the command line, its screens, and the session: which screen
  follows which, with the errors that no dialog catches.
\<close>

section \<open>Roles\<close>

text \<open>\<open>validateTokenId\<close>: the field is checked before anything is asked; the operations menu comes if it is wrong.\<close>

definition validateTokenId :: "request \<Rightarrow> screen dialog \<Rightarrow> screen dialog" where
  "validateTokenId req m = (if validate req (Some ''tokenId'') = [] then m else retD OperationsMenu)"

text \<open>
  \<open>getAccounts\<close>: the accounts and, for a grant of the cash-in role, their allowances, where \<open>0\<close> stands for
  no limit. The first argument is how many accounts may still be added.
\<close>

fun getAccounts ::
  "nat \<Rightarrow> bool \<Rightarrow> (string list \<Rightarrow> string list \<Rightarrow> request) \<Rightarrow> string list \<Rightarrow> string list \<Rightarrow>
     (string list \<times> string list) dialog" where
  "getAccounts 0 allowances req targets amounts = retD (targets, amounts)"
| "getAccounts (Suc n) allowances req targets amounts =
     bindD (ask_field (\<lambda>t. req (targets @ [t]) amounts) ''targetsId'') (\<lambda>target.
     bindD (if \<not> allowances then retD amounts
            else bindD defaultConfirmAsk (\<lambda>unlimited.
              if unlimited then retD (amounts @ [''0''])
              else bindD (ask_field (\<lambda>a. req (targets @ [target]) (amounts @ [a])) ''amounts'') (\<lambda>a.
                   retD (amounts @ [a])))) (\<lambda>amounts'.
     if n = 0 then retD (targets @ [target], amounts')
     else bindD defaultConfirmAsk (\<lambda>more.
       if more then getAccounts n allowances req (targets @ [target]) amounts'
       else retD (targets @ [target], amounts'))))"

definition grantRoles :: "cli_env \<Rightarrow> string \<Rightarrow> stable_coin_capabilities \<Rightarrow> token_key_id list \<Rightarrow> screen dialog" where
  "grantRoles E coin caps contractKeys =
     (let req = (\<lambda>roles targets amounts start. GrantMultiRolesRequest (ce_lib E) coin targets roles (Some amounts) start)
      in validateTokenId (req [] [] [] None)
        (bindD (checkBoxMultipleAsk (rolesAvailable caps (Some contractKeys)) True) (\<lambda>roles.
         bindD (getAccounts MAX_ACCOUNTS_ROLES (CASHIN_ROLE \<in> set roles) (\<lambda>ts as. req roles ts as None) [] [])
           (\<lambda>(targets, amounts).
         bindD defaultConfirmAsk (\<lambda>confirm.
         if \<not> confirm then retD RoleMenu
         else bindD (ask_start_date E (req roles targets amounts)) (\<lambda>start.
           submit E Role_grantMultiRoles (req roles targets amounts start) RoleMenu))))))"

definition revokeRoles :: "cli_env \<Rightarrow> string \<Rightarrow> stable_coin_capabilities \<Rightarrow> screen dialog" where
  "revokeRoles E coin caps =
     (let req = (\<lambda>roles targets start. RevokeMultiRolesRequest (ce_lib E) coin targets roles start)
      in validateTokenId (req [] [] None)
        (bindD (checkBoxMultipleAsk (rolesAvailable caps None) True) (\<lambda>roles.
         bindD (getAccounts MAX_ACCOUNTS_ROLES False (\<lambda>ts as. req roles ts None) [] []) (\<lambda>(targets, amounts).
         bindD defaultConfirmAsk (\<lambda>confirm.
         if \<not> confirm then retD RoleMenu
         else bindD (ask_start_date E (req roles targets)) (\<lambda>start.
           submit E Role_revokeMultiRoles (req roles targets start) RoleMenu))))))"

text \<open>\<open>checkSupplierType\<close> of an account: unlimited or limited.\<close>

definition checkSupplierType :: "cli_env \<Rightarrow> string \<Rightarrow> string \<Rightarrow> bool \<Rightarrow> bool dialog" where
  "checkSupplierType E coin target unlimited =
     (let req = CheckSupplierLimitRequest target coin (Some (if unlimited then ''unlimited'' else ''limited''));
          op = (if unlimited then Role_isUnlimited else Role_isLimited)
      in sdk_call op req (ce_flag E op req))"

text \<open>The dialog goes on for an account with the limited role; otherwise the role menu comes.\<close>

definition if_limited :: "cli_env \<Rightarrow> string \<Rightarrow> string \<Rightarrow> screen dialog \<Rightarrow> screen dialog" where
  "if_limited E coin target m =
     bindD (checkSupplierType E coin target True) (\<lambda>unlimited.
     if unlimited then retD RoleMenu
     else bindD (checkSupplierType E coin target False) (\<lambda>limited. if limited then m else retD RoleMenu))"

definition show_allowance :: "cli_env \<Rightarrow> string \<Rightarrow> string \<Rightarrow> screen dialog" where
  "show_allowance E coin target =
     bindD (run_sdk E Role_getAllowance (GetSupplierAllowanceRequest target coin)) (\<lambda>_. retD RoleMenu)"

definition increaseLimit_dialog :: "cli_env \<Rightarrow> string \<Rightarrow> screen dialog" where
  "increaseLimit_dialog E coin =
     (let req = IncreaseSupplierAllowanceRequest (ce_lib E) coin
      in or_operations (validateTokenId (req '''' '''' None)
        (bindD (ask_field (\<lambda>t. req t '''' None) ''targetId'') (\<lambda>target.
         if_limited E coin target
          (bindD (ask_field (\<lambda>a. req target a None) ''amount'') (\<lambda>amount.
           bindD (ask_start_date E (req target amount)) (\<lambda>start.
           bindD (run_sdk E Role_increaseAllowance (req target amount start)) (\<lambda>_.
           show_allowance E coin target))))))))"

text \<open>Here the start date is asked before the amount, and the questions before it are not guarded.\<close>

definition decreaseLimit_dialog :: "cli_env \<Rightarrow> string \<Rightarrow> screen dialog" where
  "decreaseLimit_dialog E coin =
     (let req = DecreaseSupplierAllowanceRequest (ce_lib E) coin
      in validateTokenId (req '''' '''' None)
        (bindD (ask_field (\<lambda>t. req t '''' None) ''targetId'') (\<lambda>target.
         bindD (ask_start_date E (req target '''')) (\<lambda>start.
         or_operations (if_limited E coin target
          (bindD (ask_field (\<lambda>a. req target a start) ''amount'') (\<lambda>amount.
           bindD (run_sdk E Role_decreaseAllowance (req target amount start)) (\<lambda>_.
           show_allowance E coin target))))))))"

definition resetLimit_dialog :: "cli_env \<Rightarrow> string \<Rightarrow> screen dialog" where
  "resetLimit_dialog E coin =
     (let req = (\<lambda>target. ResetSupplierAllowanceRequest (ce_lib E) target coin)
      in bindD (ask_field (\<lambda>t. req t None) ''targetId'') (\<lambda>target.
         bindD (ask_start_date E (req target)) (\<lambda>start.
         or_operations (if_limited E coin target
           (bindD (run_sdk E Role_resetAllowance (req target start)) (\<lambda>_. retD RoleMenu))))))"

definition checkLimit_dialog :: "cli_env \<Rightarrow> string \<Rightarrow> screen dialog" where
  "checkLimit_dialog E coin =
     (let req = (\<lambda>target. CheckSupplierLimitRequest target coin None)
      in validateTokenId (req '''')
        (bindD (ask_field req ''targetId'') (\<lambda>target.
         or_operations (bindD (checkSupplierType E coin target True) (\<lambda>unlimited.
           if unlimited then retD RoleMenu else show_allowance E coin target)))))"

datatype edit_option = OptIncrease | OptDecrease | OptReset | OptCheck | OptEditBack

definition edit_dialog :: "cli_env \<Rightarrow> string \<Rightarrow> screen dialog" where
  "edit_dialog E coin =
     bindD (defaultMultipleAsk [OptIncrease, OptDecrease, OptReset, OptCheck, OptEditBack]) (\<lambda>opt.
       case opt of
         OptIncrease \<Rightarrow> increaseLimit_dialog E coin
       | OptDecrease \<Rightarrow> decreaseLimit_dialog E coin
       | OptReset \<Rightarrow> resetLimit_dialog E coin
       | OptCheck \<Rightarrow> checkLimit_dialog E coin
       | OptEditBack \<Rightarrow> retD RoleMenu)"

text \<open>The roles of the menu \<open>CheckAccountsWithRoleOptions\<close>, in its order; \<open>None\<close> goes back.\<close>

definition check_role_options :: "stable_coin_role option list" where
  "check_role_options =
     [Some DEFAULT_ADMIN_ROLE, Some CASHIN_ROLE, Some BURN_ROLE, Some WIPE_ROLE, Some RESCUE_ROLE, Some RESCUE_ROLE,
      Some PAUSE_ROLE, Some FREEZE_ROLE, Some DELETE_ROLE, Some KYC_ROLE, Some CUSTOM_FEES_ROLE,
      Some HOLD_CREATOR_ROLE, None]"

definition accountsWithRole_dialog :: "cli_env \<Rightarrow> string \<Rightarrow> screen dialog" where
  "accountsWithRole_dialog E coin =
     bindD (defaultMultipleAsk check_role_options) (\<lambda>role.
       case role of
         None \<Rightarrow> retD RoleMenu
       | Some r \<Rightarrow> bindD (run_sdk E Role_getAccountsWithRole (GetAccountsWithRolesRequest (role_hash r) coin))
                     (\<lambda>_. retD RoleMenu))"

definition getRole_dialog :: "cli_env \<Rightarrow> string \<Rightarrow> screen dialog" where
  "getRole_dialog E coin =
     (let req = (\<lambda>target. GetRolesRequest target coin)
      in bindD (ask_field req ''targetId'') (\<lambda>target.
         bindD (run_sdk E Role_getRoles (req target)) (\<lambda>_. retD RoleMenu)))"

section \<open>The danger zone\<close>

text \<open>
  Pause, unpause and delete record their effect in the service when the call returns, also when an account of
  several keys has only posted the transaction. After a delete the main menu comes.
\<close>

definition danger_dialog :: "cli_env \<Rightarrow> string \<Rightarrow> coin_state \<Rightarrow> danger_option \<Rightarrow> (coin_state \<times> screen) dialog" where
  "danger_dialog E coin st opt =
     (let guarded = (\<lambda>op req done.
            bindD defaultConfirmAsk (\<lambda>confirm.
            if \<not> confirm then retD (st, DangerZone)
            else tryD (bindD (ask_start_date E req) (\<lambda>start. bindD (run_sdk E op (req start)) (\<lambda>_. retD done)))
                   (\<lambda>e. bindD (askErrorConfirmation e) (\<lambda>_. retD (st, OperationsMenu)))))
      in case opt of
           OptPause \<Rightarrow> guarded StableCoin_pause (PauseRequest (ce_lib E) coin) (st\<lparr>cs_paused := True\<rparr>, DangerZone)
         | OptUnPause \<Rightarrow> guarded StableCoin_unPause (PauseRequest (ce_lib E) coin) (st\<lparr>cs_paused := False\<rparr>, DangerZone)
         | OptDelete \<Rightarrow> guarded StableCoin_delete (DeleteRequest (ce_lib E) coin) (st\<lparr>cs_deleted := True\<rparr>, MainMenu)
         | OptDangerBack \<Rightarrow> retD (st, OperationsMenu))"


section \<open>The screens\<close>

definition getCapabilities_dialog ::
  "cli_env \<Rightarrow> string \<Rightarrow> bool option \<Rightarrow> bool option \<Rightarrow> stable_coin_capabilities dialog" where
  "getCapabilities_dialog E coin paused deleted =
     (let account = \<lparr>ra_accountId = ce_accountId E, ra_privateKey = None, ra_evmAddress = None\<rparr>;
          req = CapabilitiesRequest (ce_lib E) account coin paused deleted
      in sdk_call StableCoin_capabilities req (ce_capabilities E req))"

definition getRolesAccount :: "cli_env \<Rightarrow> string \<Rightarrow> stable_coin_role list dialog" where
  "getRolesAccount E coin =
     (let req = GetRolesRequest (ce_accountId E) coin
      in bindD (sdk_call Role_getRoles req (ce_roles E req)) (\<lambda>roles. retD (filter (\<lambda>r. r \<noteq> WITHOUT_ROLE) roles)))"

definition getDetails :: "cli_env \<Rightarrow> string \<Rightarrow> (nat option \<times> request_fee list) dialog" where
  "getDetails E coin =
     (let req = GetStableCoinDetailsRequest coin in sdk_call StableCoin_getInfo req (ce_details E req))"

text \<open>
  The operations menu: the state of the coin is read again, then the account's freeze and roles. The freeze is
  asked for the identifier of the coin that the capabilities give. A flag that is undefined counts as
  false.
\<close>

definition coin_flags :: "stable_coin \<Rightarrow> bool \<Rightarrow> coin_state" where
  "coin_flags coin frozen =
     \<lparr>cs_deleted = sc_deleted coin = Some True, cs_paused = sc_paused coin = Some True, cs_isFrozen = frozen,
      cs_hasKycKey = sc_kycKey coin \<noteq> None, cs_hasFeeScheduleKey = sc_feeScheduleKey coin \<noteq> None,
      cs_hasFreezeKey = sc_freezeKey coin \<noteq> None\<rparr>"

definition operation_dialog :: "cli_env \<Rightarrow> string \<Rightarrow> menu_option \<Rightarrow> screen dialog" where
  "operation_dialog E coin opt =
     (case opt of
        OptSend \<Rightarrow> sendTokens E coin
      | OptCashIn \<Rightarrow> cash_in_dialog E coin
      | OptDetails \<Rightarrow> details_dialog E coin
      | OptBalance \<Rightarrow> balance_dialog E coin
      | OptBurn \<Rightarrow> burn_dialog E coin
      | OptWipe \<Rightarrow> wipe_dialog E coin
      | OptRescue \<Rightarrow> rescue_dialog E coin
      | OptRescueHBAR \<Rightarrow> rescueHBAR_dialog E coin
      | OptResolverMgmt \<Rightarrow> retD ResolverMenu
      | OptHoldMgmt \<Rightarrow> retD HoldMenu
      | OptFreezeMgmt \<Rightarrow> retD FreezeMenu
      | OptKYCMgmt \<Rightarrow> retD KycMenu
      | OptFeesMgmt \<Rightarrow> retD FeesMenu
      | OptRoleMgmt \<Rightarrow> retD RoleMenu
      | OptConfiguration \<Rightarrow> retD ConfigurationMenu
      | OptDangerZone \<Rightarrow> retD DangerZone
      | _ \<Rightarrow> retD MainMenu)"

definition operationsStableCoin :: "cli_env \<Rightarrow> string \<Rightarrow> (coin_state \<times> screen) dialog" where
  "operationsStableCoin E coin =
     bindD (getCapabilities_dialog E coin None None) (\<lambda>caps.
     case sc_tokenId (caps_coin caps) of
       None \<Rightarrow> throwD TypeError
     | Some i \<Rightarrow>
         (let freezeReq = FreezeAccountRequest (ce_lib E) (id_value i) (ce_accountId E) None
          in bindD (sdk_call StableCoin_isAccountFrozen freezeReq (ce_flag E StableCoin_isAccountFrozen freezeReq)) (\<lambda>frozen.
             bindD (getRolesAccount E coin) (\<lambda>roles.
             let st = coin_flags (caps_coin caps) frozen
             in bindD (defaultMultipleAsk
                  (filter (\<lambda>opt. opt \<noteq> OptSeparator) (filterMenuOptions st stableCoinOptions caps (Some roles)))) (\<lambda>opt.
                bindD (operation_dialog E coin opt) (\<lambda>scr. retD (st, scr)))))))"

definition kycManagementFlow :: "cli_env \<Rightarrow> string \<Rightarrow> screen dialog" where
  "kycManagementFlow E coin =
     bindD (getCapabilities_dialog E coin None None) (\<lambda>caps.
     bindD (getRolesAccount E coin) (\<lambda>roles.
     bindD (defaultMultipleAsk (with_back
        (filterKYCMenuOptions [OptGrantKYC, OptRevokeKYC, OptAccountKYCGranted] caps (Some roles)))) (\<lambda>choice.
     case choice of None \<Rightarrow> retD OperationsMenu | Some opt \<Rightarrow> kyc_dialog E coin opt)))"

definition freezeManagementFlow :: "cli_env \<Rightarrow> string \<Rightarrow> screen dialog" where
  "freezeManagementFlow E coin =
     bindD (getCapabilities_dialog E coin None None) (\<lambda>caps.
     bindD (getRolesAccount E coin) (\<lambda>roles.
     bindD (defaultMultipleAsk (with_back
        (filterFreezeMenuOptions [OptFreeze, OptUnFreeze, OptAccountFrozen] caps (Some roles)))) (\<lambda>choice.
     case choice of None \<Rightarrow> retD OperationsMenu | Some opt \<Rightarrow> freeze_dialog E coin opt)))"

definition resolverManagementFlow :: "cli_env \<Rightarrow> string \<Rightarrow> screen dialog" where
  "resolverManagementFlow E coin =
     bindD (defaultMultipleAsk (with_back [OptUpdateConfigVersion, OptUpdateConfig, OptUpdateResolver])) (\<lambda>choice.
     case choice of None \<Rightarrow> retD OperationsMenu | Some opt \<Rightarrow> resolver_dialog E coin opt)"

definition hold_options :: "hold_option list" where
  "hold_options =
     [OptCreateHold, OptCreateHoldByController, OptExecuteHold, OptReleaseHold, OptReclaimHold,
      OptHeldBalance, OptHoldCount, OptHoldDetails, OptHoldsId]"

definition holdManagementFlow :: "cli_env \<Rightarrow> string \<Rightarrow> screen dialog" where
  "holdManagementFlow E coin =
     bindD (getRolesAccount E coin) (\<lambda>roles.
     bindD (defaultMultipleAsk (with_back (filterHoldMenuOptions hold_options roles))) (\<lambda>choice.
     case choice of None \<Rightarrow> retD OperationsMenu | Some opt \<Rightarrow> hold_dialog E coin opt))"

datatype fee_type = FixedFee | FractionalFee

definition feesManagementFlow :: "cli_env \<Rightarrow> string \<Rightarrow> coin_state \<Rightarrow> screen dialog" where
  "feesManagementFlow E coin st =
     bindD (getCapabilities_dialog E coin (Some (cs_paused st)) (Some (cs_deleted st))) (\<lambda>caps.
     bindD (getRolesAccount E coin) (\<lambda>roles.
     bindD (getDetails E coin) (\<lambda>(decimals, customFees).
     bindD (defaultMultipleAsk (feeManagementOptions (cs_hasFeeScheduleKey st) caps roles)) (\<lambda>opt.
     let dec = (case decimals of None \<Rightarrow> 0 | Some d \<Rightarrow> d)
     in case opt of
          OptFeeCreate \<Rightarrow> bindD (defaultMultipleAsk [FixedFee, FractionalFee]) (\<lambda>feeType.
            if feeType = FixedFee then createFixedFee E coin dec else createFractionalFee E coin dec)
        | OptFeeRemove \<Rightarrow> removeFees E coin customFees
        | OptFeeList \<Rightarrow> retD FeesMenu
        | OptFeeBack \<Rightarrow> retD OperationsMenu))))"

definition roleManagementFlow :: "cli_env \<Rightarrow> string \<Rightarrow> screen dialog" where
  "roleManagementFlow E coin =
     bindD (getCapabilities_dialog E coin None None) (\<lambda>caps.
     bindD (getRolesAccount E coin) (\<lambda>roles.
     bindD (liftD (KeysAssignedToContract caps)) (\<lambda>contractKeys.
     bindD (defaultMultipleAsk (roleManagementOptions caps roles contractKeys)) (\<lambda>opt.
     case opt of
       OptCheckAccountsWithRole \<Rightarrow> accountsWithRole_dialog E coin
     | OptGrant \<Rightarrow> grantRoles E coin caps contractKeys
     | OptRevoke \<Rightarrow> revokeRoles E coin caps
     | OptEdit \<Rightarrow> edit_dialog E coin
     | OptGetRole \<Rightarrow> getRole_dialog E coin
     | OptRoleBack \<Rightarrow> retD OperationsMenu))))"

definition dangerZone :: "cli_env \<Rightarrow> string \<Rightarrow> coin_state \<Rightarrow> (coin_state \<times> screen) dialog" where
  "dangerZone E coin st =
     bindD (getCapabilities_dialog E coin (Some (cs_paused st)) (Some (cs_deleted st))) (\<lambda>caps.
     bindD (getRolesAccount E coin) (\<lambda>roles.
     bindD (defaultMultipleAsk (dangerZoneOptions (cs_paused st) caps (Some roles))) (\<lambda>opt.
     danger_dialog E coin st opt)))"

text \<open>The choice of the token configuration reads the details again and begins an update without changes.\<close>

definition tokenConfiguration :: "cli_env \<Rightarrow> string \<Rightarrow> (update_request \<times> key_name list) dialog" where
  "tokenConfiguration E coin =
     bindD (getDetails E coin) (\<lambda>_. retD (new_update coin, ce_keys E (GetStableCoinDetailsRequest coin)))"

definition configuration ::
  "cli_env \<Rightarrow> string \<Rightarrow> ((update_request \<times> key_name list) option \<times> screen) dialog" where
  "configuration E coin =
     bindD (getCapabilities_dialog E coin None None) (\<lambda>caps.
     bindD (getRolesAccount E coin) (\<lambda>roles.
     bindD (defaultMultipleAsk (with_back (filterConfigurationOptions [OptTokenConfiguration] caps roles))) (\<lambda>choice.
     case choice of
       None \<Rightarrow> retD (None, OperationsMenu)
     | Some _ \<Rightarrow> bindD (tokenConfiguration E coin) (\<lambda>u. retD (Some u, TokenConfigurationMenu)))))"


section \<open>The session\<close>

text \<open>
  The session on one coin. \<open>se_guarded\<close> says that the \<open>try\<close> of the service's \<open>start\<close> is still around the
  screens: the first error that no dialog catches ends in its handler, which shows the operations menu outside
  of it; the next one reaches the handler of the main menu. \<open>se_update\<close> is the update that the token configuration
  collects, with the keys of the details that were read.
\<close>

record cli_session =
  se_coin :: string
  se_flags :: coin_state
  se_screen :: screen
  se_guarded :: bool
  se_update :: "(update_request \<times> key_name list) option"

definition flow :: "cli_session \<Rightarrow> screen dialog \<Rightarrow> cli_session dialog" where
  "flow s m = bindD m (\<lambda>scr. retD (s\<lparr>se_screen := scr\<rparr>))"

definition flags_flow :: "cli_session \<Rightarrow> (coin_state \<times> screen) dialog \<Rightarrow> cli_session dialog" where
  "flags_flow s m = bindD m (\<lambda>(flags, scr). retD (s\<lparr>se_flags := flags, se_screen := scr\<rparr>))"

definition update_flow ::
  "cli_session \<Rightarrow> (update_request \<Rightarrow> key_name list \<Rightarrow> (update_request \<times> screen) dialog) \<Rightarrow> cli_session dialog" where
  "update_flow s m =
     (case se_update s of
        None \<Rightarrow> (\<lambda>answers. ([], Waiting))
      | Some (r, keys) \<Rightarrow> bindD (m r keys) (\<lambda>(r', scr). retD (s\<lparr>se_update := Some (r', keys), se_screen := scr\<rparr>)))"

definition screen_dialog :: "cli_env \<Rightarrow> cli_session \<Rightarrow> cli_session dialog" where
  "screen_dialog E s =
     (case se_screen s of
        OperationsMenu \<Rightarrow> flags_flow s (operationsStableCoin E (se_coin s))
      | KycMenu \<Rightarrow> flow s (kycManagementFlow E (se_coin s))
      | FreezeMenu \<Rightarrow> flow s (freezeManagementFlow E (se_coin s))
      | ResolverMenu \<Rightarrow> flow s (resolverManagementFlow E (se_coin s))
      | HoldMenu \<Rightarrow> flow s (holdManagementFlow E (se_coin s))
      | FeesMenu \<Rightarrow> flow s (feesManagementFlow E (se_coin s) (se_flags s))
      | RoleMenu \<Rightarrow> flow s (roleManagementFlow E (se_coin s))
      | ConfigurationMenu \<Rightarrow>
          bindD (configuration E (se_coin s)) (\<lambda>(u, scr). retD (s\<lparr>se_update := u, se_screen := scr\<rparr>))
      | TokenConfigurationMenu \<Rightarrow> update_flow s (\<lambda>r keys. tokenConfigurationCollectData E (se_coin s) r)
      | TokenKeysMenu \<Rightarrow> update_flow s (keysManagement E)
      | DangerZone \<Rightarrow> flags_flow s (dangerZone E (se_coin s) (se_flags s))
      | MainMenu \<Rightarrow> (\<lambda>answers. ([], Waiting)))"

text \<open>One screen of the session with the answers of the user; the events, and the session after it.\<close>

definition cli_turn :: "cli_env \<Rightarrow> answer list \<Rightarrow> cli_session \<Rightarrow> cli_event list \<times> cli_session option" where
  "cli_turn E answers s =
     (case screen_dialog E s answers of
        (ev, Done s' rest) \<Rightarrow> (ev, Some s')
      | (ev, Waiting) \<Rightarrow> (ev, None)
      | (ev, Thrown e rest) \<Rightarrow>
          (ev @ [EError e],
           Some (if se_guarded s then s\<lparr>se_screen := OperationsMenu, se_guarded := False\<rparr>
                 else s\<lparr>se_screen := MainMenu\<rparr>)))"

text \<open>\<open>start\<close> with a coin of the list: its details are read first, inside the \<open>try\<close>.\<close>

definition start_coin :: "cli_env \<Rightarrow> string \<Rightarrow> cli_session \<Rightarrow> cli_event list \<times> cli_session" where
  "start_coin E coin s =
     (let req = GetStableCoinDetailsRequest coin;
          s' = s\<lparr>se_coin := coin, se_screen := OperationsMenu, se_update := None\<rparr>
      in case ce_details E req of
           Inl e \<Rightarrow> ([ECall StableCoin_getInfo req, EError e], s'\<lparr>se_guarded := False\<rparr>)
         | Inr _ \<Rightarrow> ([ECall StableCoin_getInfo req], s'\<lparr>se_guarded := True\<rparr>))"


text \<open>
  The sessions: from the main menu with a coin of the list, whose identifiers are well formed, then screen after
  screen. \<open>W\<close> holds of the environments that occur; another one may hold at every turn.
\<close>

inductive session_trace :: "(cli_env \<Rightarrow> bool) \<Rightarrow> cli_session \<Rightarrow> cli_event list \<Rightarrow> cli_session \<Rightarrow> bool"
  for W s\<^sub>0 where
  trace_begin: "session_trace W s\<^sub>0 [] s\<^sub>0"
| trace_start: "session_trace W s\<^sub>0 ev s \<Longrightarrow> se_screen s = MainMenu \<Longrightarrow> W E \<Longrightarrow>
    hedera_format coin \<Longrightarrow> coin \<noteq> ''0.0.0'' \<Longrightarrow>
    start_coin E coin s = (ev', s') \<Longrightarrow> session_trace W s\<^sub>0 (ev @ ev') s'"
| trace_turn: "session_trace W s\<^sub>0 ev s \<Longrightarrow> W E \<Longrightarrow> cli_turn E answers s = (ev', Some s') \<Longrightarrow>
    session_trace W s\<^sub>0 (ev @ ev') s'"

end
