(* ===== verification/Token_Operations.thy ===== *)
theory Token_Operations
  imports Transactions
begin

text \<open>
  The operation classes \<open>TokenOperations\<close> and \<open>TokenControlOperations\<close> of
  \<open>sdk/src/port/out/hs/operations\<close>: one definition \<open>op_x\<close> per method \<open>x\<close>, with the executor
  \<open>X\<close>, the environment \<open>E\<close> (for the resolver), the capabilities of the coin and the method's
  arguments. Each one asks the \<open>CapabilityDecider\<close>, then executes a contract call on the proxy or
  a native transaction of the token service, and wraps every error in a \<open>SigningError\<close>.
\<close>

section \<open>Common steps\<close>

definition proxy_of :: "stable_coin_capabilities \<Rightarrow> (string \<times> string option) result" where
  "proxy_of coin =
     (case sc_proxyAddress (caps_coin coin) of
        Some p \<Rightarrow>
          if id_value p \<noteq> [] then Inr (id_value p, map_option evm_value (sc_evmProxyAddress (caps_coin coin)))
          else Inl (JsError (''StableCoin '' @ sc_name (caps_coin coin) @ '' does not have a proxy address''))
      | None \<Rightarrow> Inl (JsError (''StableCoin '' @ sc_name (caps_coin coin) @ '' does not have a proxy address'')))"

definition token_of :: "stable_coin_capabilities \<Rightarrow> string result" where
  "token_of coin =
     (case sc_tokenId (caps_coin coin) of
        Some t \<Rightarrow> Inr (id_value t)
      | None \<Rightarrow> Inl (JsError (''StableCoin '' @ sc_name (caps_coin coin) @ '' does not have a token ID'')))"

text \<open>\<open>catch (error) { throw new SigningError(`Unexpected error in name(): ...`) }\<close>\<close>

definition signing :: "string \<Rightarrow> ('e, 'a) io \<Rightarrow> ('e, 'a) io" where
  "signing name m = rethrow m (SigningError (''Unexpected error in '' @ name @ ''()''))"

text \<open>The branch on the access decision.\<close>

definition by_access ::
  "stable_coin_capabilities \<Rightarrow> operation \<Rightarrow> (string \<Rightarrow> string option \<Rightarrow> ('e, 'a) io) \<Rightarrow>
     (string \<Rightarrow> ('e, 'a) io) \<Rightarrow> ('e, 'a) io" where
  "by_access coin x contract hts =
     (case getAccessDecision coin x of
        D_CONTRACT \<Rightarrow> withR (proxy_of coin) (\<lambda>(contractId, evm). contract contractId evm)
      | D_HTS \<Rightarrow> withR (token_of coin) hts
      | D_FORBIDDEN \<Rightarrow> throw (JsError ''Operation not permitted for token''))"

section \<open>TokenOperations\<close>

definition cashin_role :: "env \<Rightarrow> stable_coin \<Rightarrow> cparam result" where
  "cashin_role E coin =
     bindR (case sc_cashInRoleAccount coin of
              None \<Rightarrow> Inr EVM_ZERO_ADDRESS
            | Some a \<Rightarrow> if id_value a = ''0.0.0'' then Inr EVM_ZERO_ADDRESS else resolve_id E a)
       (\<lambda>account.
         let allowance =
           (case sc_cashInRoleAllowance coin of
              None \<Rightarrow> int_str UINT256_MAX
            | Some a \<Rightarrow> if bd_toString (env_lib E) a = ''0'' then int_str UINT256_MAX else toFixedNumber a)
         in Inr (CSeq [CStr account, CStr allowance]))"

definition base_roles :: "stable_coin \<Rightarrow> hedera_id \<Rightarrow> (hedera_id option \<times> stable_coin_role) list" where
  "base_roles coin proxyOwnerAccount =
     [(Some proxyOwnerAccount, DEFAULT_ADMIN_ROLE), (sc_burnRoleAccount coin, BURN_ROLE),
      (sc_wipeRoleAccount coin, WIPE_ROLE), (sc_rescueRoleAccount coin, RESCUE_ROLE),
      (sc_pauseRoleAccount coin, PAUSE_ROLE), (sc_freezeRoleAccount coin, FREEZE_ROLE),
      (sc_deleteRoleAccount coin, DELETE_ROLE), (sc_kycRoleAccount coin, KYC_ROLE),
      (sc_feeRoleAccount coin, CUSTOM_FEES_ROLE), (sc_holdCreatorRoleAccount coin, HOLD_CREATOR_ROLE)]"

definition factory_roles ::
  "env \<Rightarrow> stable_coin \<Rightarrow> hedera_id \<Rightarrow> cparam list result" where
  "factory_roles E coin proxyOwnerAccount =
     mapR (\<lambda>(a, r). bindR (resolve_id E a) (\<lambda>account. Inr (CSeq [CStr (role_hash r), CStr account])))
       (List.map_filter (\<lambda>(a, r). case a of None \<Rightarrow> None
           | Some i \<Rightarrow> if id_value i \<noteq> id_value HederaId_NULL then Some (i, r) else None)
         (base_roles coin proxyOwnerAccount))"

text \<open>\<open>amount?.toFixedNumber() ?? BigDecimal.ZERO.toFixedNumber()\<close>\<close>

definition fixed_or_zero :: "big_decimal option \<Rightarrow> cparam" where
  "fixed_or_zero a = CStr (toFixedNumber (case a of None \<Rightarrow> bd_ZERO | Some b \<Rightarrow> b))"

definition op_create ::
  "'e executor \<Rightarrow> env \<Rightarrow> stable_coin \<Rightarrow> contract_id \<Rightarrow> bool \<Rightarrow> contract_id \<Rightarrow> string \<Rightarrow> int \<Rightarrow>
     hedera_id \<Rightarrow> string \<Rightarrow> contract_id option \<Rightarrow> big_decimal option \<Rightarrow> string option \<Rightarrow> int option \<Rightarrow>
     string option \<Rightarrow> ('e, transaction_response) io" where
  "op_create X E coin factory createReserve resolver configId configVersion proxyOwnerAccount
       updatedAtThreshold reserveAddress reserveInitialAmount reserveConfigId reserveConfigVersion
       startDate =
     signing ''create''
      (withR (cashin_role E coin) (\<lambda>cashinRole.
       withR (buildKeysForSmartContract E
                [sc_adminKey coin, sc_kycKey coin, sc_freezeKey coin, sc_wipeKey coin,
                 sc_supplyKey coin, sc_feeScheduleKey coin, sc_pauseKey coin]) (\<lambda>keys.
       withR (factory_roles E coin proxyOwnerAccount) (\<lambda>roles.
       withR (resolve_contract E resolver) (\<lambda>resolverEvm.
       withR (case reserveAddress of
                None \<Rightarrow> Inr EVM_ZERO_ADDRESS
              | Some r \<Rightarrow> if contract_value r = ''0.0.0'' then Inr EVM_ZERO_ADDRESS else resolve_contract E r)
         (\<lambda>reserveEvm.
         let configuration = CSeq [CStr configId, CInt configVersion];
             reserveConfiguration =
               (if createReserve
                then CSeq [CStr (case reserveConfigId of None \<Rightarrow> [] | Some k \<Rightarrow> k),
                           CInt (case reserveConfigVersion of None \<Rightarrow> 0 | Some v \<Rightarrow> v)]
                else CSeq [CStr (''0x'' @ replicate 64 (CHR ''0'')), CInt 0]);
             stableCoinToCreate = CSeq
               [CStr (sc_name coin), CStr (sc_symbol coin),
                CBool (sc_freezeDefault coin = Some True), CBool (sc_supplyType coin = Some FINITE),
                fixed_or_zero (sc_maxSupply coin), fixed_or_zero (sc_initialSupply coin),
                CInt (int (sc_decimals coin)), CStr reserveEvm, CStr updatedAtThreshold,
                fixed_or_zero reserveInitialAmount, CBool createReserve, CSeq keys, CSeq roles,
                cashinRole, CStr (case sc_metadata coin of None \<Rightarrow> [] | Some m \<Rightarrow> m),
                CStr resolverEvm, configuration, reserveConfiguration]
         in ex_executeContractCall X (contract_value factory) ''StableCoinFactoryFacet''
              ''deployStableCoin'' [stableCoinToCreate] CREATE_SC_GAS None
              (Some (int_str TOKEN_CREATION_COST_HBAR)) startDate None))))))"

definition op_associateToken ::
  "'e executor \<Rightarrow> env \<Rightarrow> hedera_id \<Rightarrow> hedera_id \<Rightarrow> string option \<Rightarrow> ('e, transaction_response) io" where
  "op_associateToken X E tokenId targetId startDate =
     signing ''associateToken''
      (let account = ex_getAccount X in
       if ex_supportsEvmOperations X \<and> acc_evmAddress account \<noteq> None \<and> acc_evmAddress account \<noteq> Some []
       then ex_executeContractCall X (toEvmAddress (sdk_toSolidityAddress E (id_value tokenId)))
              ''IHRC'' ''associate'' [] ASSOCIATE_GAS None None startDate None
       else ex_processTransaction X
              (TokenAssociateTransaction (id_value (acc_id account)) [id_value tokenId]) RECEIPT startDate)"

definition op_wipe ::
  "'e executor \<Rightarrow> env \<Rightarrow> stable_coin_capabilities \<Rightarrow> hedera_id \<Rightarrow> big_decimal \<Rightarrow> string option \<Rightarrow>
     ('e, transaction_response) io" where
  "op_wipe X E coin targetId amount startDate =
     signing ''wipe'' (by_access coin WIPE
       (\<lambda>contractId evm. withR (resolve_id E targetId) (\<lambda>target.
          ex_executeContractCall X contractId ''WipeableFacet'' ''wipe''
            [CStr target, CInt (toBigInt amount)] WIPE_GAS None None startDate evm))
       (\<lambda>token. ex_processTransaction X
          (TokenWipeTransaction (id_value targetId) token (toLong (env_lib E) amount)) RECEIPT startDate))"

definition op_cashin ::
  "'e executor \<Rightarrow> env \<Rightarrow> stable_coin_capabilities \<Rightarrow> hedera_id \<Rightarrow> big_decimal \<Rightarrow> string option \<Rightarrow>
     ('e, transaction_response) io" where
  "op_cashin X E coin targetId amount startDate =
     signing ''cashin'' (by_access coin CASH_IN
       (\<lambda>contractId evm. withR (resolve_id E targetId) (\<lambda>target.
          ex_executeContractCall X contractId ''CashInFacet'' ''mint''
            [CStr target, CInt (toBigInt amount)] CASHIN_GAS None None startDate evm))
       (\<lambda>token. ex_processTransaction X
          (TokenMintTransaction token (toLong (env_lib E) amount)) RECEIPT startDate))"

definition op_burn ::
  "'e executor \<Rightarrow> env \<Rightarrow> stable_coin_capabilities \<Rightarrow> big_decimal \<Rightarrow> string option \<Rightarrow>
     ('e, transaction_response) io" where
  "op_burn X E coin amount startDate =
     signing ''burn'' (by_access coin BURN
       (\<lambda>contractId evm. ex_executeContractCall X contractId ''BurnableFacet'' ''burn''
          [CInt (toBigInt amount)] BURN_GAS None None startDate evm)
       (\<lambda>token. ex_processTransaction X
          (TokenBurnTransaction token (toLong (env_lib E) amount)) RECEIPT startDate))"

section \<open>TokenControlOperations\<close>

definition op_freeze ::
  "'e executor \<Rightarrow> env \<Rightarrow> stable_coin_capabilities \<Rightarrow> hedera_id \<Rightarrow> string option \<Rightarrow>
     ('e, transaction_response) io" where
  "op_freeze X E coin targetId startDate =
     signing ''freeze'' (by_access coin FREEZE
       (\<lambda>contractId evm. withR (resolve_id E targetId) (\<lambda>target.
          ex_executeContractCall X contractId ''FreezableFacet'' ''freeze'' [CStr target]
            FREEZE_GAS None None startDate evm))
       (\<lambda>token. ex_processTransaction X
          (TokenFreezeTransaction (id_value targetId) token) RECEIPT startDate))"

definition op_unfreeze ::
  "'e executor \<Rightarrow> env \<Rightarrow> stable_coin_capabilities \<Rightarrow> hedera_id \<Rightarrow> string option \<Rightarrow>
     ('e, transaction_response) io" where
  "op_unfreeze X E coin targetId startDate =
     signing ''unfreeze'' (by_access coin UNFREEZE
       (\<lambda>contractId evm. withR (resolve_id E targetId) (\<lambda>target.
          ex_executeContractCall X contractId ''FreezableFacet'' ''unfreeze'' [CStr target]
            UNFREEZE_GAS None None startDate evm))
       (\<lambda>token. ex_processTransaction X
          (TokenUnfreezeTransaction (id_value targetId) token) RECEIPT startDate))"

definition op_grantKyc ::
  "'e executor \<Rightarrow> env \<Rightarrow> stable_coin_capabilities \<Rightarrow> hedera_id \<Rightarrow> ('e, transaction_response) io" where
  "op_grantKyc X E coin targetId =
     signing ''grantKyc'' (by_access coin GRANT_KYC
       (\<lambda>contractId evm. withR (resolve_id E targetId) (\<lambda>target.
          ex_executeContractCall X contractId ''KYCFacet'' ''grantKyc'' [CStr target]
            GRANT_KYC_GAS None None None evm))
       (\<lambda>token. ex_processTransaction X
          (TokenGrantKycTransaction (id_value targetId) token) RECEIPT None))"

definition op_revokeKyc ::
  "'e executor \<Rightarrow> env \<Rightarrow> stable_coin_capabilities \<Rightarrow> hedera_id \<Rightarrow> ('e, transaction_response) io" where
  "op_revokeKyc X E coin targetId =
     signing ''revokeKyc'' (by_access coin REVOKE_KYC
       (\<lambda>contractId evm. withR (resolve_id E targetId) (\<lambda>target.
          ex_executeContractCall X contractId ''KYCFacet'' ''revokeKyc'' [CStr target]
            REVOKE_KYC_GAS None None None evm))
       (\<lambda>token. ex_processTransaction X
          (TokenRevokeKycTransaction (id_value targetId) token) RECEIPT None))"

definition op_pause ::
  "'e executor \<Rightarrow> stable_coin_capabilities \<Rightarrow> string option \<Rightarrow> ('e, transaction_response) io" where
  "op_pause X coin startDate =
     signing ''pause'' (by_access coin PAUSE
       (\<lambda>contractId evm. ex_executeContractCall X contractId ''PausableFacet'' ''pause'' []
          PAUSE_GAS None None startDate evm)
       (\<lambda>token. ex_processTransaction X (TokenPauseTransaction token) RECEIPT startDate))"

definition op_unpause ::
  "'e executor \<Rightarrow> stable_coin_capabilities \<Rightarrow> ('e, transaction_response) io" where
  "op_unpause X coin =
     signing ''unpause'' (by_access coin UNPAUSE
       (\<lambda>contractId evm. ex_executeContractCall X contractId ''PausableFacet'' ''unpause'' []
          UNPAUSE_GAS None None None evm)
       (\<lambda>token. ex_processTransaction X (TokenUnpauseTransaction token) RECEIPT None))"

definition op_delete ::
  "'e executor \<Rightarrow> stable_coin_capabilities \<Rightarrow> string option \<Rightarrow> ('e, transaction_response) io" where
  "op_delete X coin startDate =
     signing ''delete'' (by_access coin DELETE
       (\<lambda>contractId evm. ex_executeContractCall X contractId ''DeletableFacet'' ''deleteToken'' []
          DELETE_GAS None None startDate evm)
       (\<lambda>token. ex_processTransaction X (TokenDeleteTransaction token) RECEIPT startDate))"

section \<open>Lemmas\<close>

lemma submits_signing [once]: "submits s P m \<Longrightarrow> submits s P (signing n m)"
  by (simp add: signing_def submits_rethrow)

lemma submits_by_access [once]:
  "(\<And>c v. submits s P (f c v)) \<Longrightarrow> (\<And>t. submits s P (g t)) \<Longrightarrow> submits s P (by_access coin x f g)"
  by (auto simp: by_access_def split: decision.split intro!: submits_withR)

lemma by_access_forbidden:
  "getAccessDecision coin x = D_FORBIDDEN \<Longrightarrow>
     by_access coin x f g = throw (JsError ''Operation not permitted for token'')"
  by (simp add: by_access_def)

lemma signing_error: "outcome (signing n m) = Inl e \<Longrightarrow> \<exists>e'. e = SigningError (''Unexpected error in '' @ n @ ''()'') e'"
  by (auto simp: signing_def outcome_rethrow_Inl)

lemma actions_signing [simp]: "actions (signing n m) = actions m"
  by (simp add: signing_def)

lemma outcome_signing [simp]: "outcome (signing n m) = Inr r \<longleftrightarrow> outcome m = Inr r"
  by (simp add: signing_def)

context single_submission
begin

lemmas submission = process contract

lemma token_operations_once:
  "submits_once P (op_associateToken X E t i sd)"
  "submits_once P (op_wipe X E coin i a sd)"
  "submits_once P (op_cashin X E coin i a sd)"
  "submits_once P (op_burn X E coin a sd)"
  by (auto simp: op_associateToken_def op_wipe_def op_cashin_def op_burn_def Let_def
      intro!: once submission)

lemma control_operations_once:
  "submits_once P (op_freeze X E coin i sd)"
  "submits_once P (op_unfreeze X E coin i sd)"
  "submits_once P (op_grantKyc X E coin i)"
  "submits_once P (op_revokeKyc X E coin i)"
  "submits_once P (op_pause X coin sd)"
  "submits_once P (op_unpause X coin)"
  "submits_once P (op_delete X coin sd)"
  by (auto simp: op_freeze_def op_unfreeze_def op_grantKyc_def op_revokeKyc_def op_pause_def
      op_unpause_def op_delete_def intro!: once submission)

lemma create_once:
  "submits_once P (op_create X E coin f cr r ci cv po ut ra ria rci rcv sd)"
  unfolding op_create_def Let_def by (intro once submission)

end

end
