(* ===== verification/Contract_Operations.thy ===== *)
theory Contract_Operations
  imports Token_Operations
begin

text \<open>
  The operation classes of \<open>sdk/src/port/out/hs/operations\<close> that only call the contracts:
  \<open>RoleOperations\<close>, \<open>SupplierOperations\<close>, \<open>HoldOperations\<close>, \<open>ReserveOperations\<close>,
  \<open>RescueOperations\<close>, \<open>UpdateOperations\<close> and \<open>QueryOperations\<close>, in the form of
  \<open>Token_Operations\<close>. They do not ask the \<open>CapabilityDecider\<close>; a coin without a proxy address
  is refused.
\<close>

section \<open>RoleOperations\<close>

definition op_grantRole ::
  "'e executor \<Rightarrow> env \<Rightarrow> stable_coin_capabilities \<Rightarrow> hedera_id \<Rightarrow> stable_coin_role \<Rightarrow> ('e, transaction_response) io" where
  "op_grantRole X E coin targetId role =
     signing ''grantRole'' (withR (proxy_of coin) (\<lambda>(contractId, evm).
       withR (resolve_id E targetId) (\<lambda>target.
       ex_executeContractCall X contractId ''RolesFacet'' ''grantRole''
         [CStr (role_hash role), CStr target] GRANT_ROLES_GAS None None None evm)))"

definition op_revokeRole ::
  "'e executor \<Rightarrow> env \<Rightarrow> stable_coin_capabilities \<Rightarrow> hedera_id \<Rightarrow> stable_coin_role \<Rightarrow> ('e, transaction_response) io" where
  "op_revokeRole X E coin targetId role =
     signing ''revokeRole'' (withR (proxy_of coin) (\<lambda>(contractId, evm).
       withR (resolve_id E targetId) (\<lambda>target.
       ex_executeContractCall X contractId ''RolesFacet'' ''revokeRole''
         [CStr (role_hash role), CStr target] REVOKE_ROLES_GAS None None None evm)))"

text \<open>An amount that is not greater than zero is replaced by the greatest word.\<close>

definition format_role_amount :: "env \<Rightarrow> big_decimal \<Rightarrow> int result" where
  "format_role_amount E amount =
     bindR (bd_fromString (env_lib E) ''0'' None) (\<lambda>zero.
       Inr (if isGreaterThan (env_lib E) amount zero then toBigInt amount else UINT256_MAX))"

definition roles_gas :: "nat \<Rightarrow> nat \<Rightarrow> int \<Rightarrow> int" where
  "roles_gas targets roles unit =
     (let gas = int targets * int roles * unit in if MAX_ROLES_GAS < gas then MAX_ROLES_GAS else gas)"

definition op_grantRoles ::
  "'e executor \<Rightarrow> env \<Rightarrow> stable_coin_capabilities \<Rightarrow> hedera_id list \<Rightarrow> stable_coin_role list \<Rightarrow> big_decimal list \<Rightarrow> ('e, transaction_response) io" where
  "op_grantRoles X E coin targetsId roles amounts =
     signing ''grantRoles''
      (withR (mapR (resolve_id E) targetsId) (\<lambda>accounts.
       withR (mapR (format_role_amount E) amounts) (\<lambda>amountsFormatted.
       withR (proxy_of coin) (\<lambda>(contractId, evm).
       ex_executeContractCall X contractId ''RoleManagementFacet'' ''grantRoles''
         [CSeq (map (CStr \<circ> role_hash) roles), CSeq (map CStr accounts), CSeq (map CInt amountsFormatted)]
         (roles_gas (length targetsId) (length roles) GRANT_ROLES_GAS) None None None evm))))"

definition op_revokeRoles ::
  "'e executor \<Rightarrow> env \<Rightarrow> stable_coin_capabilities \<Rightarrow> hedera_id list \<Rightarrow> stable_coin_role list \<Rightarrow> ('e, transaction_response) io" where
  "op_revokeRoles X E coin targetsId roles =
     signing ''revokeRoles''
      (withR (mapR (resolve_id E) targetsId) (\<lambda>accounts.
       withR (proxy_of coin) (\<lambda>(contractId, evm).
       ex_executeContractCall X contractId ''RoleManagementFacet'' ''revokeRoles''
         [CSeq (map (CStr \<circ> role_hash) roles), CSeq (map CStr accounts)]
         (roles_gas (length targetsId) (length roles) REVOKE_ROLES_GAS) None None None evm)))"

section \<open>SupplierOperations\<close>

definition op_grantSupplierRole ::
  "'e executor \<Rightarrow> env \<Rightarrow> stable_coin_capabilities \<Rightarrow> hedera_id \<Rightarrow> big_decimal \<Rightarrow> ('e, transaction_response) io" where
  "op_grantSupplierRole X E coin targetId amount =
     signing ''grantSupplierRole'' (withR (proxy_of coin) (\<lambda>(contractId, evm).
       withR (resolve_id E targetId) (\<lambda>target.
       ex_executeContractCall X contractId ''SupplierAdminFacet'' ''grantSupplierRole''
         [CStr target, CInt (toBigInt amount)] GRANT_ROLES_GAS None None None evm)))"

definition op_grantUnlimitedSupplierRole ::
  "'e executor \<Rightarrow> env \<Rightarrow> stable_coin_capabilities \<Rightarrow> hedera_id \<Rightarrow> ('e, transaction_response) io" where
  "op_grantUnlimitedSupplierRole X E coin targetId =
     signing ''grantUnlimitedSupplierRole'' (withR (proxy_of coin) (\<lambda>(contractId, evm).
       withR (resolve_id E targetId) (\<lambda>target.
       ex_executeContractCall X contractId ''SupplierAdminFacet'' ''grantUnlimitedSupplierRole''
         [CStr target] GRANT_ROLES_GAS None None None evm)))"

definition op_revokeSupplierRole ::
  "'e executor \<Rightarrow> env \<Rightarrow> stable_coin_capabilities \<Rightarrow> hedera_id \<Rightarrow> ('e, transaction_response) io" where
  "op_revokeSupplierRole X E coin targetId =
     signing ''revokeSupplierRole'' (withR (proxy_of coin) (\<lambda>(contractId, evm).
       withR (resolve_id E targetId) (\<lambda>target.
       ex_executeContractCall X contractId ''SupplierAdminFacet'' ''revokeSupplierRole''
         [CStr target] REVOKE_ROLES_GAS None None None evm)))"

definition op_increaseSupplierAllowance ::
  "'e executor \<Rightarrow> env \<Rightarrow> stable_coin_capabilities \<Rightarrow> hedera_id \<Rightarrow> big_decimal \<Rightarrow> ('e, transaction_response) io" where
  "op_increaseSupplierAllowance X E coin targetId amount =
     signing ''increaseSupplierAllowance'' (withR (proxy_of coin) (\<lambda>(contractId, evm).
       withR (resolve_id E targetId) (\<lambda>target.
       ex_executeContractCall X contractId ''SupplierAdminFacet'' ''increaseSupplierAllowance''
         [CStr target, CInt (toBigInt amount)] INCREASE_SUPPLY_GAS None None None evm)))"

definition op_decreaseSupplierAllowance ::
  "'e executor \<Rightarrow> env \<Rightarrow> stable_coin_capabilities \<Rightarrow> hedera_id \<Rightarrow> big_decimal \<Rightarrow> ('e, transaction_response) io" where
  "op_decreaseSupplierAllowance X E coin targetId amount =
     signing ''decreaseSupplierAllowance'' (withR (proxy_of coin) (\<lambda>(contractId, evm).
       withR (resolve_id E targetId) (\<lambda>target.
       ex_executeContractCall X contractId ''SupplierAdminFacet'' ''decreaseSupplierAllowance''
         [CStr target, CInt (toBigInt amount)] DECREASE_SUPPLY_GAS None None None evm)))"

definition op_resetSupplierAllowance ::
  "'e executor \<Rightarrow> env \<Rightarrow> stable_coin_capabilities \<Rightarrow> hedera_id \<Rightarrow> ('e, transaction_response) io" where
  "op_resetSupplierAllowance X E coin targetId =
     signing ''resetSupplierAllowance'' (withR (proxy_of coin) (\<lambda>(contractId, evm).
       withR (resolve_id E targetId) (\<lambda>target.
       ex_executeContractCall X contractId ''SupplierAdminFacet'' ''resetSupplierAllowance''
         [CStr target] RESET_SUPPLY_GAS None None None evm)))"

section \<open>HoldOperations\<close>

text \<open>\<open>targetId ? await resolve(targetId) : EVM_ZERO_ADDRESS\<close>\<close>

definition resolve_optional :: "env \<Rightarrow> hedera_id option \<Rightarrow> string result" where
  "resolve_optional E targetId =
     (case targetId of None \<Rightarrow> Inr EVM_ZERO_ADDRESS | Some t \<Rightarrow> resolve_id E t)"

definition hold_struct :: "big_decimal \<Rightarrow> big_decimal \<Rightarrow> string \<Rightarrow> string \<Rightarrow> cparam" where
  "hold_struct amount expirationDate evmEscrow evmTo =
     CSeq [CInt (toBigInt amount), CInt (toBigInt expirationDate), CStr evmEscrow, CStr evmTo, CStr ''0x'']"

definition op_createHold ::
  "'e executor \<Rightarrow> env \<Rightarrow> stable_coin_capabilities \<Rightarrow> big_decimal \<Rightarrow> hedera_id \<Rightarrow> big_decimal \<Rightarrow> hedera_id option \<Rightarrow> string option \<Rightarrow> ('e, transaction_response) io" where
  "op_createHold X E coin amount escrow expirationDate targetId startDate =
     signing ''createHold'' (withR (proxy_of coin) (\<lambda>(contractId, evm).
       withR (resolve_id E escrow) (\<lambda>evmEscrow.
       withR (resolve_optional E targetId) (\<lambda>evmTo.
       ex_executeContractCall X contractId ''HoldManagementFacet'' ''createHold''
         [hold_struct amount expirationDate evmEscrow evmTo] CREATE_HOLD_GAS None None startDate evm))))"

definition op_createHoldByController ::
  "'e executor \<Rightarrow> env \<Rightarrow> stable_coin_capabilities \<Rightarrow> big_decimal \<Rightarrow> hedera_id \<Rightarrow> big_decimal \<Rightarrow> hedera_id \<Rightarrow> hedera_id option \<Rightarrow> string option \<Rightarrow> ('e, transaction_response) io" where
  "op_createHoldByController X E coin amount escrow expirationDate sourceId targetId startDate =
     signing ''createHoldByController'' (withR (proxy_of coin) (\<lambda>(contractId, evm).
       withR (resolve_id E escrow) (\<lambda>evmEscrow.
       withR (resolve_optional E targetId) (\<lambda>evmTo.
       withR (resolve_id E sourceId) (\<lambda>evmSource.
       ex_executeContractCall X contractId ''HoldManagementFacet'' ''createHoldByController''
         [CStr evmSource, hold_struct amount expirationDate evmEscrow evmTo, CStr ''0x''] CONTROLLER_CREATE_HOLD_GAS None None startDate evm)))))"

definition op_executeHold ::
  "'e executor \<Rightarrow> env \<Rightarrow> stable_coin_capabilities \<Rightarrow> big_decimal \<Rightarrow> hedera_id \<Rightarrow> int \<Rightarrow> hedera_id option \<Rightarrow> string option \<Rightarrow> ('e, transaction_response) io" where
  "op_executeHold X E coin amount sourceId holdId target startDate =
     signing ''executeHold'' (withR (proxy_of coin) (\<lambda>(contractId, evm).
       withR (resolve_id E sourceId) (\<lambda>tokenHolder.
       withR (resolve_optional E target) (\<lambda>targetId.
       ex_executeContractCall X contractId ''HoldManagementFacet'' ''executeHold''
         [CSeq [CStr tokenHolder, CInt holdId], CStr targetId, CInt (toBigInt amount)] EXECUTE_HOLD_GAS None None startDate evm))))"

definition op_releaseHold ::
  "'e executor \<Rightarrow> env \<Rightarrow> stable_coin_capabilities \<Rightarrow> big_decimal \<Rightarrow> hedera_id \<Rightarrow> int \<Rightarrow> string option \<Rightarrow> ('e, transaction_response) io" where
  "op_releaseHold X E coin amount sourceId holdId startDate =
     signing ''releaseHold'' (withR (proxy_of coin) (\<lambda>(contractId, evm).
       withR (resolve_id E sourceId) (\<lambda>tokenHolder.
       ex_executeContractCall X contractId ''HoldManagementFacet'' ''releaseHold''
         [CSeq [CStr tokenHolder, CInt holdId], CInt (toBigInt amount)] RELEASE_HOLD_GAS None None startDate evm)))"

definition op_reclaimHold ::
  "'e executor \<Rightarrow> env \<Rightarrow> stable_coin_capabilities \<Rightarrow> hedera_id \<Rightarrow> int \<Rightarrow> string option \<Rightarrow> ('e, transaction_response) io" where
  "op_reclaimHold X E coin sourceId holdId startDate =
     signing ''reclaimHold'' (withR (proxy_of coin) (\<lambda>(contractId, evm).
       withR (resolve_id E sourceId) (\<lambda>tokenHolder.
       ex_executeContractCall X contractId ''HoldManagementFacet'' ''reclaimHold''
         [CSeq [CStr tokenHolder, CInt holdId]] RECLAIM_HOLD_GAS None None startDate evm)))"

section \<open>ReserveOperations and RescueOperations\<close>

definition op_getReserveAddress ::
  "'e executor \<Rightarrow> stable_coin_capabilities \<Rightarrow> ('e, transaction_response) io" where
  "op_getReserveAddress X coin =
     signing ''getReserveAddress'' (withR (proxy_of coin) (\<lambda>(contractId, evm).
       ex_executeContractCall X contractId ''ReserveFacet'' ''getReserveAddress''
         [] QUERY_GAS (Some RECORD) None None evm))"

definition op_updateReserveAddress ::
  "'e executor \<Rightarrow> env \<Rightarrow> stable_coin_capabilities \<Rightarrow> contract_id \<Rightarrow> string option \<Rightarrow> ('e, transaction_response) io" where
  "op_updateReserveAddress X E coin reserveAddress startDate =
     signing ''updateReserveAddress'' (withR (proxy_of coin) (\<lambda>(contractId, evm).
       withR (resolve_contract E reserveAddress) (\<lambda>address.
       ex_executeContractCall X contractId ''ReserveFacet'' ''updateReserveAddress''
         [CStr address] UPDATE_RESERVE_ADDRESS_GAS None None startDate evm)))"

definition op_getReserveAmount ::
  "'e executor \<Rightarrow> stable_coin_capabilities \<Rightarrow> ('e, transaction_response) io" where
  "op_getReserveAmount X coin =
     signing ''getReserveAmount'' (withR (proxy_of coin) (\<lambda>(contractId, evm).
       ex_executeContractCall X contractId ''ReserveFacet'' ''getReserveAmount''
         [] QUERY_GAS (Some RECORD) None None evm))"

definition op_updateReserveAmount ::
  "'e executor \<Rightarrow> env \<Rightarrow> contract_id \<Rightarrow> big_decimal \<Rightarrow> string option \<Rightarrow> ('e, transaction_response) io" where
  "op_updateReserveAmount X E reserveAddress amount startDate =
     signing ''updateReserveAmount'' (withR (resolve_contract E reserveAddress) (\<lambda>evm.
       ex_executeContractCall X (contract_value reserveAddress) ''HederaReserveFacet'' ''setAmount''
         [CInt (toBigInt amount)] UPDATE_RESERVE_AMOUNT_GAS None None startDate (Some evm)))"

definition op_rescue ::
  "'e executor \<Rightarrow> stable_coin_capabilities \<Rightarrow> big_decimal \<Rightarrow> string option \<Rightarrow> ('e, transaction_response) io" where
  "op_rescue X coin amount startDate =
     signing ''rescue'' (withR (proxy_of coin) (\<lambda>(contractId, evm).
       ex_executeContractCall X contractId ''RescuableFacet'' ''rescue''
         [CInt (toBigInt amount)] RESCUE_GAS None None startDate evm))"

definition op_rescueHBAR ::
  "'e executor \<Rightarrow> stable_coin_capabilities \<Rightarrow> big_decimal \<Rightarrow> string option \<Rightarrow> ('e, transaction_response) io" where
  "op_rescueHBAR X coin amount startDate =
     signing ''rescueHBAR'' (withR (proxy_of coin) (\<lambda>(contractId, evm).
       ex_executeContractCall X contractId ''RescuableFacet'' ''rescueHBAR''
         [CInt (toBigInt amount)] RESCUE_HBAR_GAS None None startDate evm))"

section \<open>UpdateOperations\<close>

definition op_update ::
  "'e executor \<Rightarrow> env \<Rightarrow> stable_coin_capabilities \<Rightarrow> string option \<Rightarrow> string option \<Rightarrow> int option \<Rightarrow> int option \<Rightarrow> public_key option \<Rightarrow> public_key option \<Rightarrow> public_key option \<Rightarrow> public_key option \<Rightarrow> public_key option \<Rightarrow> string option \<Rightarrow> string option \<Rightarrow> ('e, transaction_response) io" where
  "op_update X E coin name symbol autoRenewPeriod expirationTime kycKey freezeKey feeScheduleKey pauseKey wipeKey metadata startDate =
     signing ''update'' (withR (proxy_of coin) (\<lambda>(contractId, evm).
       withR (buildKeysForSmartContract E (map (map_option KeyPublic)
                [None, kycKey, freezeKey, wipeKey, None, feeScheduleKey, pauseKey])) (\<lambda>keys.
       let updateTokenStruct = CSeq
             [CStr (case name of None \<Rightarrow> [] | Some n \<Rightarrow> n), CStr (case symbol of None \<Rightarrow> [] | Some s \<Rightarrow> s),
              CSeq keys,
              CInt (case expirationTime of None \<Rightarrow> - 1
                    | Some t \<Rightarrow> if t = 0 then - 1 else t div 1000000000),
              CInt (case autoRenewPeriod of None \<Rightarrow> - 1 | Some p \<Rightarrow> p),
              CStr (case metadata of None \<Rightarrow> [] | Some m \<Rightarrow> m)]
       in ex_executeContractCall X contractId ''HederaTokenManagerFacet'' ''updateToken''
         [updateTokenStruct] UPDATE_TOKEN_GAS None None startDate evm)))"

text \<open>\<open>prepareCustomFees\<close>: the fees in the contract's form, fixed and fractional apart.\<close>

definition sc_fee_of :: "env \<Rightarrow> stable_coin_capabilities \<Rightarrow> h_custom_fee \<Rightarrow> sc_fee result" where
  "sc_fee_of E coin cf =
     bindR (mn_getAccountInfo E (h_collector cf)) (\<lambda>info.
       Inr (fromHCustomFeeToSCFee (sdk_toSolidityAddress E) cf
         (case sc_tokenId (caps_coin coin) of None \<Rightarrow> [] | Some t \<Rightarrow> id_value t)
         (case ai_evmAddress info of None \<Rightarrow> EVM_ZERO_ADDRESS | Some a \<Rightarrow> a)))"

fun is_fixed_fee :: "sc_fee \<Rightarrow> bool" where
  "is_fixed_fee (SC_FixedFee _ _ _ _ _) = True"
| "is_fixed_fee (SC_FractionalFee _ _ _ _ _ _) = False"

definition prepareCustomFees ::
  "env \<Rightarrow> stable_coin_capabilities \<Rightarrow> h_custom_fee list \<Rightarrow> (sc_fee list \<times> sc_fee list) result" where
  "prepareCustomFees E coin customFees =
     bindR (mapR (sc_fee_of E coin) customFees) (\<lambda>fees.
       Inr (filter is_fixed_fee fees, filter (\<lambda>f. \<not> is_fixed_fee f) fees))"

fun sc_fee_param :: "sc_fee \<Rightarrow> cparam" where
  "sc_fee_param (SC_FixedFee a t h c f) = CSeq [CInt a, CStr t, CBool h, CBool c, CStr f]"
| "sc_fee_param (SC_FractionalFee n d mn mx net f) = CSeq [CInt n, CInt d, CInt mn, CInt mx, CBool net, CStr f]"

definition op_updateCustomFees ::
  "'e executor \<Rightarrow> env \<Rightarrow> stable_coin_capabilities \<Rightarrow> h_custom_fee list \<Rightarrow> string option \<Rightarrow> ('e, transaction_response) io" where
  "op_updateCustomFees X E coin customFees startDate =
     signing ''updateCustomFees'' (withR (proxy_of coin) (\<lambda>(contractId, evm).
       withR (prepareCustomFees E coin customFees) (\<lambda>(fixedFees, fractionalFees).
       ex_executeContractCall X contractId ''CustomFeesFacet'' ''updateTokenCustomFees''
         [CSeq (map sc_fee_param fixedFees), CSeq (map sc_fee_param fractionalFees)] UPDATE_CUSTOM_FEES_GAS None None startDate evm)))"

text \<open>
  \<open>updateConfigVersion\<close> passes one \<open>undefined\<close> less than the other methods: the start date stands
  in the place of the payable amount and the EVM address in the place of the start date.
\<close>

definition op_updateConfigVersion ::
  "'e executor \<Rightarrow> stable_coin_capabilities \<Rightarrow> int \<Rightarrow> string option \<Rightarrow> ('e, transaction_response) io" where
  "op_updateConfigVersion X coin configVersion startDate =
     signing ''updateConfigVersion'' (withR (proxy_of coin) (\<lambda>(contractId, evm).
       ex_executeContractCall X contractId ''DiamondFacet'' ''updateConfigVersion''
         [CInt configVersion] UPDATE_CONFIG_VERSION_GAS None startDate evm None))"

definition op_updateConfig ::
  "'e executor \<Rightarrow> stable_coin_capabilities \<Rightarrow> string \<Rightarrow> int \<Rightarrow> string option \<Rightarrow> ('e, transaction_response) io" where
  "op_updateConfig X coin configId configVersion startDate =
     signing ''updateConfig'' (withR (proxy_of coin) (\<lambda>(contractId, evm).
       ex_executeContractCall X contractId ''DiamondFacet'' ''updateConfig''
         [CStr configId, CInt configVersion] UPDATE_CONFIG_GAS None None startDate evm))"

definition op_updateResolver ::
  "'e executor \<Rightarrow> env \<Rightarrow> stable_coin_capabilities \<Rightarrow> contract_id \<Rightarrow> int \<Rightarrow> string \<Rightarrow> string option \<Rightarrow> ('e, transaction_response) io" where
  "op_updateResolver X E coin resolver configVersion configId startDate =
     signing ''updateResolver'' (withR (proxy_of coin) (\<lambda>(contractId, evm).
       withR (resolve_contract E resolver) (\<lambda>resolverEvm.
       ex_executeContractCall X contractId ''DiamondFacet'' ''updateResolver''
         [CStr resolverEvm, CStr configId, CInt configVersion] UPDATE_RESOLVER_GAS None None startDate evm)))"

section \<open>QueryOperations\<close>

definition op_hasRole ::
  "'e executor \<Rightarrow> env \<Rightarrow> stable_coin_capabilities \<Rightarrow> hedera_id \<Rightarrow> stable_coin_role \<Rightarrow> ('e, transaction_response) io" where
  "op_hasRole X E coin targetId role =
     signing ''hasRole'' (withR (resolve_id E targetId) (\<lambda>targetEvm.
       withR (proxy_of coin) (\<lambda>(contractId, evm).
       ex_executeContractCall X contractId ''RolesFacet'' ''hasRole''
         [CStr (role_hash role), CStr targetEvm] QUERY_GAS (Some RECORD) None None evm)))"

definition op_getRoles ::
  "'e executor \<Rightarrow> env \<Rightarrow> stable_coin_capabilities \<Rightarrow> hedera_id \<Rightarrow> ('e, transaction_response) io" where
  "op_getRoles X E coin targetId =
     signing ''getRoles'' (withR (resolve_id E targetId) (\<lambda>targetEvm.
       withR (proxy_of coin) (\<lambda>(contractId, evm).
       ex_executeContractCall X contractId ''RolesFacet'' ''getRoles''
         [CStr targetEvm] QUERY_GAS (Some RECORD) None None evm)))"

definition op_balanceOf ::
  "'e executor \<Rightarrow> env \<Rightarrow> stable_coin_capabilities \<Rightarrow> hedera_id \<Rightarrow> ('e, transaction_response) io" where
  "op_balanceOf X E coin targetId =
     signing ''balanceOf'' (withR (resolve_id E targetId) (\<lambda>targetEvm.
       withR (proxy_of coin) (\<lambda>(contractId, evm).
       ex_executeContractCall X contractId ''HederaTokenManagerFacet'' ''balanceOf''
         [CStr targetEvm] QUERY_GAS (Some RECORD) None None evm)))"

definition op_isUnlimitedSupplierAllowance ::
  "'e executor \<Rightarrow> env \<Rightarrow> stable_coin_capabilities \<Rightarrow> hedera_id \<Rightarrow> ('e, transaction_response) io" where
  "op_isUnlimitedSupplierAllowance X E coin targetId =
     signing ''isUnlimitedSupplierAllowance'' (withR (resolve_id E targetId) (\<lambda>targetEvm.
       withR (proxy_of coin) (\<lambda>(contractId, evm).
       ex_executeContractCall X contractId ''SupplierAdminFacet'' ''isUnlimitedSupplierAllowance''
         [CStr targetEvm] QUERY_GAS (Some RECORD) None None evm)))"

definition op_supplierAllowance ::
  "'e executor \<Rightarrow> env \<Rightarrow> stable_coin_capabilities \<Rightarrow> hedera_id \<Rightarrow> ('e, transaction_response) io" where
  "op_supplierAllowance X E coin targetId =
     signing ''supplierAllowance'' (withR (resolve_id E targetId) (\<lambda>targetEvm.
       withR (proxy_of coin) (\<lambda>(contractId, evm).
       ex_executeContractCall X contractId ''SupplierAdminFacet'' ''getSupplierAllowance''
         [CStr targetEvm] QUERY_GAS (Some RECORD) None None evm)))"

section \<open>Lemmas\<close>

lemma submits_pair [once]:
  "(\<And>a b. submits s P (f a b)) \<Longrightarrow> submits s P (case p of (a, b) \<Rightarrow> f a b)"
  by (cases p) simp

context single_submission
begin

lemma role_operations_once:
  "submits_once P (op_grantRole X E coin i r)"
  "submits_once P (op_revokeRole X E coin i r)"
  "submits_once P (op_grantRoles X E coin is rs as)"
  "submits_once P (op_revokeRoles X E coin is rs)"
  unfolding op_grantRole_def op_revokeRole_def op_grantRoles_def op_revokeRoles_def Let_def
  by (intro once submission)+

lemma supplier_operations_once:
  "submits_once P (op_grantSupplierRole X E coin i a)"
  "submits_once P (op_grantUnlimitedSupplierRole X E coin i)"
  "submits_once P (op_revokeSupplierRole X E coin i)"
  "submits_once P (op_increaseSupplierAllowance X E coin i a)"
  "submits_once P (op_decreaseSupplierAllowance X E coin i a)"
  "submits_once P (op_resetSupplierAllowance X E coin i)"
    unfolding op_grantSupplierRole_def op_grantUnlimitedSupplierRole_def
    op_revokeSupplierRole_def op_increaseSupplierAllowance_def op_decreaseSupplierAllowance_def
    op_resetSupplierAllowance_def Let_def
  by (intro once submission)+

lemma hold_operations_once:
  "submits_once P (op_createHold X E coin a e ex t sd)"
  "submits_once P (op_createHoldByController X E coin a e ex s t sd)"
  "submits_once P (op_executeHold X E coin a s h t sd)"
  "submits_once P (op_releaseHold X E coin a s h sd)"
  "submits_once P (op_reclaimHold X E coin s h sd)"
    unfolding op_createHold_def op_createHoldByController_def op_executeHold_def
    op_releaseHold_def op_reclaimHold_def Let_def
  by (intro once submission)+

lemma reserve_operations_once:
  "submits_once P (op_getReserveAddress X coin)"
  "submits_once P (op_updateReserveAddress X E coin r sd)"
  "submits_once P (op_getReserveAmount X coin)"
  "submits_once P (op_updateReserveAmount X E r a sd)"
  "submits_once P (op_rescue X coin a sd)"
  "submits_once P (op_rescueHBAR X coin a sd)"
    unfolding op_getReserveAddress_def op_updateReserveAddress_def op_getReserveAmount_def
    op_updateReserveAmount_def op_rescue_def op_rescueHBAR_def Let_def
  by (intro once submission)+

lemma update_operations_once:
  "submits_once P (op_update X E coin n s ar et k1 k2 k3 k4 k5 md sd)"
  "submits_once P (op_updateCustomFees X E coin fs sd)"
  "submits_once P (op_updateConfigVersion X coin v sd)"
  "submits_once P (op_updateConfig X coin ci v sd)"
  "submits_once P (op_updateResolver X E coin r v ci sd)"
    unfolding op_update_def op_updateCustomFees_def op_updateConfigVersion_def
    op_updateConfig_def op_updateResolver_def Let_def
  by (intro once submission)+

lemma query_operations_once:
  "submits_once P (op_hasRole X E coin i r)"
  "submits_once P (op_getRoles X E coin i)"
  "submits_once P (op_balanceOf X E coin i)"
  "submits_once P (op_isUnlimitedSupplierAllowance X E coin i)"
  "submits_once P (op_supplierAllowance X E coin i)"
    unfolding op_hasRole_def op_getRoles_def op_balanceOf_def
    op_isUnlimitedSupplierAllowance_def op_supplierAllowance_def Let_def
  by (intro once submission)+

end

end
