(* ===== verification/Adapters.thy ===== *)
theory Adapters
  imports Contract_Operations Backend_Adapter
begin

text \<open>
  The adapters that share \<open>sdk/src/port/out/hs/BaseHederaTransactionAdapter.ts\<close>. They differ in
  \<open>processTransaction\<close>: the custodial and the client adapters execute the transaction on the
  network, the multisignature adapter stores it in the backend. \<open>tx_adapter\<close> is the interface
  \<open>TransactionAdapter\<close> that the command handlers use; \<open>base_adapter\<close> delegates each of its methods
  to the operation classes. The SDK's client, the freezing and serialisation of a transaction and
  the encoding of a contract call are arguments.
\<close>

section \<open>Contract calls of the base adapter\<close>

text \<open>
  \<open>encodes facet function params\<close> is \<open>iface.encodeFunctionData\<close> not throwing. The payable amount is
  kept as the string that \<open>parseFloat\<close> reads; an empty one is not set.
\<close>

definition buildContractTransaction ::
  "(string \<Rightarrow> string \<Rightarrow> cparam list \<Rightarrow> unit result) \<Rightarrow> string \<Rightarrow> string \<Rightarrow> string \<Rightarrow> cparam list \<Rightarrow> int \<Rightarrow>
     string option \<Rightarrow> hedera_tx result" where
  "buildContractTransaction encodes contractId facet functionName params gasLimit payableAmountHbar =
     bindR (encodes facet functionName params) (\<lambda>_.
       Inr (ContractExecuteTransaction
         \<lparr>cc_contractId = contractId, cc_facet = facet, cc_function = functionName, cc_params = params,
          cc_gas = gasLimit,
          cc_payableAmount = (if payableAmountHbar = Some [] then None else payableAmountHbar)\<rparr>))"

definition base_executeContractCall ::
  "(hedera_tx \<Rightarrow> transaction_type \<Rightarrow> string option \<Rightarrow> ('e, transaction_response) io) \<Rightarrow>
   (string \<Rightarrow> string \<Rightarrow> cparam list \<Rightarrow> unit result) \<Rightarrow>
   string \<Rightarrow> string \<Rightarrow> string \<Rightarrow> cparam list \<Rightarrow> int \<Rightarrow> transaction_type option \<Rightarrow> string option \<Rightarrow>
   string option \<Rightarrow> string option \<Rightarrow> ('e, transaction_response) io" where
  "base_executeContractCall process encodes contractId facet functionName params gasLimit
       transactionType payableAmountHbar startDate evmAddress =
     rethrow
       (withR (buildContractTransaction encodes contractId facet functionName params gasLimit payableAmountHbar)
         (\<lambda>tx. process tx (case transactionType of None \<Rightarrow> RECEIPT | Some t \<Rightarrow> t) startDate))
       (SigningError ''Contract call failed'')"

definition base_executor ::
  "account \<Rightarrow> bool \<Rightarrow> (hedera_tx \<Rightarrow> transaction_type \<Rightarrow> string option \<Rightarrow> ('e, transaction_response) io) \<Rightarrow>
     (string \<Rightarrow> string \<Rightarrow> cparam list \<Rightarrow> unit result) \<Rightarrow> 'e executor" where
  "base_executor acc supportsEvm process encodes =
     \<lparr>ex_getAccount = acc, ex_supportsEvmOperations = supportsEvm, ex_processTransaction = process,
      ex_executeContractCall = base_executeContractCall process encodes\<rparr>"

section \<open>The interface of the handlers\<close>

text \<open>
  \<open>TransactionAdapter\<close>, with the parameters that the command handlers pass. Where the base adapter's
  method has fewer parameters, the last argument (the start date) is dropped. No
  adapter of this family overrides \<open>transfers\<close>: the method of the base class throws.
\<close>

record 'e tx_adapter =
  ta_getAccount :: account
  ta_create ::
    "stable_coin \<Rightarrow> contract_id \<Rightarrow> bool \<Rightarrow> contract_id
     \<Rightarrow> string \<Rightarrow> int \<Rightarrow> hedera_id \<Rightarrow> string
     \<Rightarrow> contract_id option \<Rightarrow> big_decimal option \<Rightarrow> string
     option \<Rightarrow> int option \<Rightarrow> ('e, transaction_response) io"
  ta_associateToken ::
    "hedera_id \<Rightarrow> hedera_id \<Rightarrow> ('e, transaction_response) io"
  ta_wipe ::
    "stable_coin_capabilities \<Rightarrow> hedera_id \<Rightarrow> big_decimal \<Rightarrow>
     string option \<Rightarrow> ('e, transaction_response) io"
  ta_cashin ::
    "stable_coin_capabilities \<Rightarrow> hedera_id \<Rightarrow> big_decimal \<Rightarrow>
     string option \<Rightarrow> ('e, transaction_response) io"
  ta_burn ::
    "stable_coin_capabilities \<Rightarrow> big_decimal \<Rightarrow> string option
     \<Rightarrow> ('e, transaction_response) io"
  ta_freeze ::
    "stable_coin_capabilities \<Rightarrow> hedera_id \<Rightarrow> string option \<Rightarrow>
     ('e, transaction_response) io"
  ta_unfreeze ::
    "stable_coin_capabilities \<Rightarrow> hedera_id \<Rightarrow> string option \<Rightarrow>
     ('e, transaction_response) io"
  ta_grantKyc ::
    "stable_coin_capabilities \<Rightarrow> hedera_id \<Rightarrow> ('e, transaction_response)
     io"
  ta_revokeKyc ::
    "stable_coin_capabilities \<Rightarrow> hedera_id \<Rightarrow> ('e, transaction_response)
     io"
  ta_pause ::
    "stable_coin_capabilities \<Rightarrow> string option \<Rightarrow> ('e,
     transaction_response) io"
  ta_unpause ::
    "stable_coin_capabilities \<Rightarrow> string option \<Rightarrow> ('e,
     transaction_response) io"
  ta_delete ::
    "stable_coin_capabilities \<Rightarrow> string option \<Rightarrow> ('e,
     transaction_response) io"
  ta_rescue ::
    "stable_coin_capabilities \<Rightarrow> big_decimal \<Rightarrow> string option
     \<Rightarrow> ('e, transaction_response) io"
  ta_rescueHBAR ::
    "stable_coin_capabilities \<Rightarrow> big_decimal \<Rightarrow> string option
     \<Rightarrow> ('e, transaction_response) io"
  ta_grantRole ::
    "stable_coin_capabilities \<Rightarrow> hedera_id \<Rightarrow> stable_coin_role
     \<Rightarrow> ('e, transaction_response) io"
  ta_revokeRole ::
    "stable_coin_capabilities \<Rightarrow> hedera_id \<Rightarrow> stable_coin_role
     \<Rightarrow> ('e, transaction_response) io"
  ta_grantRoles ::
    "stable_coin_capabilities \<Rightarrow> hedera_id list \<Rightarrow> stable_coin_role list
     \<Rightarrow> big_decimal list \<Rightarrow> string option \<Rightarrow> ('e,
     transaction_response) io"
  ta_revokeRoles ::
    "stable_coin_capabilities \<Rightarrow> hedera_id list \<Rightarrow> stable_coin_role list
     \<Rightarrow> string option \<Rightarrow> ('e, transaction_response) io"
  ta_grantSupplierRole ::
    "stable_coin_capabilities \<Rightarrow> hedera_id \<Rightarrow> big_decimal \<Rightarrow>
     ('e, transaction_response) io"
  ta_grantUnlimitedSupplierRole ::
    "stable_coin_capabilities \<Rightarrow> hedera_id \<Rightarrow> ('e, transaction_response)
     io"
  ta_revokeSupplierRole ::
    "stable_coin_capabilities \<Rightarrow> hedera_id \<Rightarrow> ('e, transaction_response)
     io"
  ta_increaseSupplierAllowance ::
    "stable_coin_capabilities \<Rightarrow> hedera_id \<Rightarrow> big_decimal \<Rightarrow>
     string option \<Rightarrow> ('e, transaction_response) io"
  ta_decreaseSupplierAllowance ::
    "stable_coin_capabilities \<Rightarrow> hedera_id \<Rightarrow> big_decimal \<Rightarrow>
     string option \<Rightarrow> ('e, transaction_response) io"
  ta_resetSupplierAllowance ::
    "stable_coin_capabilities \<Rightarrow> hedera_id \<Rightarrow> string option \<Rightarrow>
     ('e, transaction_response) io"
  ta_transfers ::
    "stable_coin_capabilities \<Rightarrow> big_decimal list \<Rightarrow> hedera_id list
     \<Rightarrow> hedera_id \<Rightarrow> ('e, transaction_response) io"
  ta_updateCustomFees ::
    "stable_coin_capabilities \<Rightarrow> h_custom_fee list \<Rightarrow> ('e,
     transaction_response) io"
  ta_createHold ::
    "stable_coin_capabilities \<Rightarrow> big_decimal \<Rightarrow> hedera_id \<Rightarrow>
     big_decimal \<Rightarrow> hedera_id option \<Rightarrow> ('e, transaction_response) io"
  ta_createHoldByController ::
    "stable_coin_capabilities \<Rightarrow> big_decimal \<Rightarrow> hedera_id \<Rightarrow>
     big_decimal \<Rightarrow> hedera_id \<Rightarrow> hedera_id option \<Rightarrow> ('e,
     transaction_response) io"
  ta_executeHold ::
    "stable_coin_capabilities \<Rightarrow> big_decimal \<Rightarrow> hedera_id \<Rightarrow>
     int \<Rightarrow> hedera_id option \<Rightarrow> ('e, transaction_response) io"
  ta_releaseHold ::
    "stable_coin_capabilities \<Rightarrow> big_decimal \<Rightarrow> hedera_id \<Rightarrow>
     int \<Rightarrow> ('e, transaction_response) io"
  ta_reclaimHold ::
    "stable_coin_capabilities \<Rightarrow> hedera_id \<Rightarrow> int \<Rightarrow> ('e,
     transaction_response) io"
  ta_getReserveAddress ::
    "stable_coin_capabilities \<Rightarrow> ('e, transaction_response) io"
  ta_updateReserveAddress ::
    "stable_coin_capabilities \<Rightarrow> contract_id \<Rightarrow> ('e, transaction_response)
     io"
  ta_getReserveAmount ::
    "stable_coin_capabilities \<Rightarrow> ('e, transaction_response) io"
  ta_updateReserveAmount ::
    "contract_id \<Rightarrow> big_decimal \<Rightarrow> ('e, transaction_response) io"
  ta_hasRole ::
    "stable_coin_capabilities \<Rightarrow> hedera_id \<Rightarrow> stable_coin_role
     \<Rightarrow> ('e, transaction_response) io"
  ta_getRoles ::
    "stable_coin_capabilities \<Rightarrow> hedera_id \<Rightarrow> ('e, transaction_response)
     io"
  ta_balanceOf ::
    "stable_coin_capabilities \<Rightarrow> hedera_id \<Rightarrow> ('e, transaction_response)
     io"
  ta_isUnlimitedSupplierAllowance ::
    "stable_coin_capabilities \<Rightarrow> hedera_id \<Rightarrow> ('e, transaction_response)
     io"
  ta_supplierAllowance ::
    "stable_coin_capabilities \<Rightarrow> hedera_id \<Rightarrow> ('e, transaction_response)
     io"
  ta_update ::
    "stable_coin_capabilities \<Rightarrow> string option \<Rightarrow> string option
     \<Rightarrow> int option \<Rightarrow> int option \<Rightarrow> public_key option
     \<Rightarrow> public_key option \<Rightarrow> public_key option \<Rightarrow> public_key
     option \<Rightarrow> public_key option \<Rightarrow> string option \<Rightarrow> ('e,
     transaction_response) io"
  ta_updateConfigVersion ::
    "stable_coin_capabilities \<Rightarrow> int \<Rightarrow> ('e, transaction_response) io"
  ta_updateConfig ::
    "stable_coin_capabilities \<Rightarrow> string \<Rightarrow> int \<Rightarrow> ('e,
     transaction_response) io"
  ta_updateResolver ::
    "stable_coin_capabilities \<Rightarrow> contract_id \<Rightarrow> int \<Rightarrow> string
     \<Rightarrow> ('e, transaction_response) io"

definition base_adapter :: "'e executor \<Rightarrow> env \<Rightarrow> 'e tx_adapter" where
  "base_adapter X E =
     \<lparr>ta_getAccount = ex_getAccount X,
      ta_create = (\<lambda>a b c d e f g h i j k l. op_create X E a b c d e f g h i j k l None),
      ta_associateToken = (\<lambda>a b. op_associateToken X E a b None),
      ta_wipe = op_wipe X E,
      ta_cashin = op_cashin X E,
      ta_burn = op_burn X E,
      ta_freeze = op_freeze X E,
      ta_unfreeze = op_unfreeze X E,
      ta_grantKyc = op_grantKyc X E,
      ta_revokeKyc = op_revokeKyc X E,
      ta_pause = op_pause X,
      ta_unpause = (\<lambda>a b. op_unpause X a),
      ta_delete = op_delete X,
      ta_rescue = op_rescue X,
      ta_rescueHBAR = op_rescueHBAR X,
      ta_grantRole = op_grantRole X E,
      ta_revokeRole = op_revokeRole X E,
      ta_grantRoles = (\<lambda>a b c d e. op_grantRoles X E a b c d),
      ta_revokeRoles = (\<lambda>a b c d. op_revokeRoles X E a b c),
      ta_grantSupplierRole = op_grantSupplierRole X E,
      ta_grantUnlimitedSupplierRole = op_grantUnlimitedSupplierRole X E,
      ta_revokeSupplierRole = op_revokeSupplierRole X E,
      ta_increaseSupplierAllowance = (\<lambda>a b c d. op_increaseSupplierAllowance X E a b c),
      ta_decreaseSupplierAllowance = (\<lambda>a b c d. op_decreaseSupplierAllowance X E a b c),
      ta_resetSupplierAllowance = (\<lambda>a b c. op_resetSupplierAllowance X E a b),
      ta_transfers = (\<lambda>a b c d. throw (JsError ''Method not implemented.'')),
      ta_updateCustomFees = (\<lambda>a b. op_updateCustomFees X E a b None),
      ta_createHold = (\<lambda>a b c d e. op_createHold X E a b c d e None),
      ta_createHoldByController = (\<lambda>a b c d e f. op_createHoldByController X E a b c d e f None),
      ta_executeHold = (\<lambda>a b c d e. op_executeHold X E a b c d e None),
      ta_releaseHold = (\<lambda>a b c d. op_releaseHold X E a b c d None),
      ta_reclaimHold = (\<lambda>a b c. op_reclaimHold X E a b c None),
      ta_getReserveAddress = op_getReserveAddress X,
      ta_updateReserveAddress = (\<lambda>a b. op_updateReserveAddress X E a b None),
      ta_getReserveAmount = op_getReserveAmount X,
      ta_updateReserveAmount = (\<lambda>a b. op_updateReserveAmount X E a b None),
      ta_hasRole = op_hasRole X E,
      ta_getRoles = op_getRoles X E,
      ta_balanceOf = op_balanceOf X E,
      ta_isUnlimitedSupplierAllowance = op_isUnlimitedSupplierAllowance X E,
      ta_supplierAllowance = op_supplierAllowance X E,
      ta_update = (\<lambda>a b c d e f g h i j k. op_update X E a b c d e f g h i j k None),
      ta_updateConfigVersion = (\<lambda>a b. op_updateConfigVersion X a b None),
      ta_updateConfig = (\<lambda>a b c. op_updateConfig X a b c None),
      ta_updateResolver = (\<lambda>a b c d. op_updateResolver X E a b c d None)\<rparr>"

section \<open>The contract of an adapter\<close>

text \<open>
  What the handlers rely on, whatever the adapter: an operation performs at most one action outside, of
  the kind \<open>P\<close>, and with \<open>always\<close> it performs one whenever it returns.
\<close>

locale submitting_adapter =
  fixes always :: bool and P :: "'e \<Rightarrow> bool" and A :: "'e tx_adapter"
  assumes methods:
    "submits always P (ta_create A coin f cr r ci cv po ut ra ria rci rcv)"
    "submits always P (ta_associateToken A i j)"
    "submits always P (ta_wipe A caps i a sd)"
    "submits always P (ta_cashin A caps i a sd)"
    "submits always P (ta_burn A caps a sd)"
    "submits always P (ta_freeze A caps i sd)"
    "submits always P (ta_unfreeze A caps i sd)"
    "submits always P (ta_grantKyc A caps i)"
    "submits always P (ta_revokeKyc A caps i)"
    "submits always P (ta_pause A caps sd)"
    "submits always P (ta_unpause A caps sd)"
    "submits always P (ta_delete A caps sd)"
    "submits always P (ta_rescue A caps a sd)"
    "submits always P (ta_rescueHBAR A caps a sd)"
    "submits always P (ta_grantRole A caps i role)"
    "submits always P (ta_revokeRole A caps i role)"
    "submits always P (ta_grantRoles A caps is roles as sd)"
    "submits always P (ta_revokeRoles A caps is roles sd)"
    "submits always P (ta_grantSupplierRole A caps i a)"
    "submits always P (ta_grantUnlimitedSupplierRole A caps i)"
    "submits always P (ta_revokeSupplierRole A caps i)"
    "submits always P (ta_increaseSupplierAllowance A caps i a sd)"
    "submits always P (ta_decreaseSupplierAllowance A caps i a sd)"
    "submits always P (ta_resetSupplierAllowance A caps i sd)"
    "submits always P (ta_transfers A caps as is i)"
    "submits always P (ta_updateCustomFees A caps fs)"
    "submits always P (ta_createHold A caps a i x t)"
    "submits always P (ta_createHoldByController A caps a i x j t)"
    "submits always P (ta_executeHold A caps a i n t)"
    "submits always P (ta_releaseHold A caps a i n)"
    "submits always P (ta_reclaimHold A caps i n)"
    "submits always P (ta_updateReserveAddress A caps r)"
    "submits always P (ta_updateReserveAmount A r a)"
    "submits always P (ta_update A caps nm sy ar et k1 k2 k3 k4 k5 md)"
    "submits always P (ta_updateConfigVersion A caps v)"
    "submits always P (ta_updateConfig A caps ci v)"
    "submits always P (ta_updateResolver A caps r v ci)"

text \<open>An adapter over an executor with single submissions is one, and it is strict.\<close>

context single_submission
begin

lemmas operations_once = token_operations_once control_operations_once create_once role_operations_once
  supplier_operations_once hold_operations_once reserve_operations_once update_operations_once

lemma base_submitting: "submitting_adapter True P (base_adapter X E)"
  by unfold_locales (simp_all only: base_adapter_def tx_adapter.simps operations_once submits_throw)

end

sublocale single_submission \<subseteq> base: submitting_adapter True P "base_adapter X E" for E
  by (rule base_submitting)

section \<open>Execution on the network\<close>

text \<open>
  The SDK's client: executing a transaction (its id), the receipt, and the record (its transaction
  id). \<open>manageResponse\<close> is \<open>HTSTransactionResponseAdapter.manageResponse\<close> without a function name,
  as both adapters call it.
\<close>

record hedera_client =
  hc_execute :: "hedera_tx \<Rightarrow> string result"
  hc_getReceipt :: "string \<Rightarrow> unit result"
  hc_getRecord :: "string \<Rightarrow> string option result"

definition createTransactionResponse :: "string option \<Rightarrow> transaction_response" where
  "createTransactionResponse transactionId =
     \<lparr>res_id = Some (case transactionId of None \<Rightarrow> [] | Some i \<Rightarrow> i),
      res_response = BytesResponse [], res_error = None\<rparr>"

definition manageResponse ::
  "hedera_client \<Rightarrow> string \<Rightarrow> transaction_type \<Rightarrow> transaction_response result" where
  "manageResponse C transactionId responseType =
     (case responseType of
        RECEIPT \<Rightarrow> bindR (hc_getReceipt C transactionId) (\<lambda>_.
          Inr (createTransactionResponse (Some transactionId)))
      | RECORD \<Rightarrow> bindR (hc_getRecord C transactionId) (\<lambda>tr. Inr (createTransactionResponse tr)))"

text \<open>
  The custodial adapter wraps the errors of \<open>execute\<close> in a \<open>SigningError\<close>; it returns the promise
  of \<open>manageResponse\<close> without awaiting it, so that the errors of the latter are not wrapped.
\<close>

definition custodial_processTransaction ::
  "hedera_client \<Rightarrow> hedera_tx \<Rightarrow> transaction_type \<Rightarrow> string option \<Rightarrow>
     (adapter_event, transaction_response) io" where
  "custodial_processTransaction C tx transactionType startDate =
     bindIO (rethrow (act (ExecuteTransaction tx) (hc_execute C tx)) (SigningError [])) (\<lambda>txId.
       ([], manageResponse C txId transactionType))"

definition client_processTransaction ::
  "hedera_client \<Rightarrow> hedera_tx \<Rightarrow> transaction_type \<Rightarrow> string option \<Rightarrow>
     (adapter_event, transaction_response) io" where
  "client_processTransaction C tx transactionType startDate =
     bindIO (act (ExecuteTransaction tx) (hc_execute C tx)) (\<lambda>txId.
       ([], manageResponse C txId transactionType))"

definition custodial_executor ::
  "account \<Rightarrow> hedera_client \<Rightarrow> (string \<Rightarrow> string \<Rightarrow> cparam list \<Rightarrow> unit result) \<Rightarrow> adapter_event executor" where
  "custodial_executor acc C encodes = base_executor acc False (custodial_processTransaction C) encodes"

definition client_executor ::
  "account \<Rightarrow> hedera_client \<Rightarrow> (string \<Rightarrow> string \<Rightarrow> cparam list \<Rightarrow> unit result) \<Rightarrow> adapter_event executor" where
  "client_executor acc C encodes = base_executor acc False (client_processTransaction C) encodes"

section \<open>The multisignature adapter\<close>

text \<open>
  \<open>ms_now\<close> is \<open>new Date().toISOString()\<close>, \<open>ms_timestamp\<close> is \<open>Timestamp.fromDate\<close> on a string,
  \<open>ms_description\<close> is \<open>TransactionService.getDescription\<close> (which does not throw) and \<open>ms_freeze\<close>
  gives the bytes of the frozen transaction from the account, the valid start, the network and its
  first consensus node.
\<close>

record multisig_env =
  ms_account :: account
  ms_environment :: string
  ms_consensusNodes :: "(string \<times> string) list"
  ms_now :: string
  ms_timestamp :: "string \<Rightarrow> string result"
  ms_description :: "hedera_tx \<Rightarrow> string"
  ms_freeze :: "hedera_tx \<Rightarrow> string \<Rightarrow> string \<Rightarrow> string \<Rightarrow> string \<times> string \<Rightarrow> byte list result"
  ms_http :: http_client

definition multisig_processTransaction ::
  "multisig_env \<Rightarrow> hedera_tx \<Rightarrow> transaction_type \<Rightarrow> string option \<Rightarrow>
     (adapter_event, transaction_response) io" where
  "multisig_processTransaction M t transactionType startDate =
     (let accountId = id_value (acc_id (ms_account M));
          dateStr = (case startDate of None \<Rightarrow> ms_now M | Some d \<Rightarrow> if d = [] then ms_now M else d)
      in withR (ms_timestamp M dateStr) (\<lambda>validStart.
         case ms_consensusNodes M of
           [] \<Rightarrow> throw (JsError ''In order to create multisignature transactions you must set consensus nodes for the environment'')
         | node # _ \<Rightarrow>
             (case acc_multiKey (ms_account M) of
                None \<Rightarrow> throw (JsError ''MultiKey not found in the account'')
              | Some multiKey \<Rightarrow>
                  withR (ms_freeze M t accountId validStart (ms_environment M) node) (\<lambda>bytes.
                  bindIO (backend_addTransaction (ms_http M) (fromUint8Array bytes) (ms_description M t)
                            accountId (map pk_key (mk_keys multiKey)) (mk_threshold multiKey)
                            (ms_environment M) dateStr) (\<lambda>transactionId.
                    ret \<lparr>res_id = Some transactionId, res_response = NoResponse, res_error = None\<rparr>)))))"

definition multisig_executor ::
  "multisig_env \<Rightarrow> (string \<Rightarrow> string \<Rightarrow> cparam list \<Rightarrow> unit result) \<Rightarrow> adapter_event executor" where
  "multisig_executor M encodes = base_executor (ms_account M) True (multisig_processTransaction M) encodes"

section \<open>The executors keep the interface\<close>

lemma base_contract_once:
  assumes "\<And>tx tt sd. submits_once P (process tx tt sd)"
  shows "submits_once P (base_executeContractCall process encodes c i f ps g tto pay sd evm)"
  unfolding base_executeContractCall_def by (intro submits_rethrow submits_withR assms)

definition executes :: "adapter_event \<Rightarrow> bool" where
  "executes e \<longleftrightarrow> (\<exists>tx. e = ExecuteTransaction tx)"

text \<open>A post to the backend with the account, the network and the keys of the multisignature account.\<close>

definition stores :: "multisig_env \<Rightarrow> adapter_event \<Rightarrow> bool" where
  "stores M e \<longleftrightarrow>
     (\<exists>body multiKey. e = BackendRequest (HttpPost body) \<and>
        ab_hedera_account_id body = id_value (acc_id (ms_account M)) \<and> ab_network body = ms_environment M \<and>
        acc_multiKey (ms_account M) = Some multiKey \<and>
        ab_key_list body = map pk_key (mk_keys multiKey) \<and> ab_threshold body = mk_threshold multiKey)"

lemma custodial_once: "submits_once executes (custodial_processTransaction C tx tt sd)"
  by (auto simp: submits_def custodial_processTransaction_def actions_bindIO outcome_bindIO_Inr
      executes_def split: sum.splits)

lemma client_once: "submits_once executes (client_processTransaction C tx tt sd)"
  by (auto simp: submits_def client_processTransaction_def actions_bindIO outcome_bindIO_Inr
      executes_def split: sum.splits)

lemma backend_add_once:
  "acc_multiKey (ms_account M) = Some mk \<Longrightarrow>
   submits_once (stores M) (backend_addTransaction http m d (id_value (acc_id (ms_account M)))
     (map pk_key (mk_keys mk)) (mk_threshold mk) (ms_environment M) sd)"
  by (simp add: submits_def backend_add_actions stores_def)

lemma multisig_once: "submits_once (stores M) (multisig_processTransaction M t tt sd)"
  unfolding multisig_processTransaction_def Let_def
  by (intro once)
    (auto split: list.split option.split intro!: submits_withR submits_ret backend_add_once)

interpretation custodial: single_submission executes "custodial_executor acc C encodes" for acc C encodes
  by unfold_locales (simp_all add: custodial_executor_def base_executor_def custodial_once base_contract_once)

interpretation client: single_submission executes "client_executor acc C encodes" for acc C encodes
  by unfold_locales (simp_all add: client_executor_def base_executor_def client_once base_contract_once)

interpretation multisig: single_submission "stores M" "multisig_executor M encodes" for M encodes
  by unfold_locales (simp_all add: multisig_executor_def base_executor_def multisig_once base_contract_once)

end
