(* ===== verification/Token_Commands.thy ===== *)
theory Token_Commands
  imports Queries Adapters
begin

text \<open>
  The command handlers under \<open>sdk/src/app/usecase/command/stablecoin/operations\<close> (except the holds),
  \<open>account/associate\<close> and \<open>reserve/operations\<close>: one definition per \<open>execute\<close> method, with the
  environment \<open>E\<close> it queries, the adapter \<open>A\<close> it submits to (\<open>transactionService.getHandler()\<close>)
  and the command's fields. The checks before the adapter's call return or throw; a response is the
  pair of \<open>res.error === undefined\<close> and \<open>res.id\<close>.
\<close>

type_synonym command_response = "bool \<times> string option"

definition respond :: "('e, transaction_response) io \<Rightarrow> ('e, command_response) io" where
  "respond m = bindIO m (\<lambda>res. ret (res_error res = None, res_id res))"

definition not_allowed :: "string \<Rightarrow> 'a result" where
  "not_allowed m = Inl (CommandError (OperationNotAllowed m))"

definition not_associated :: "hedera_id \<Rightarrow> hedera_id \<Rightarrow> 'a result" where
  "not_associated i tokenId = Inl (CommandError (StableCoinNotAssociated (id_value i) (id_value tokenId)))"

section \<open>Checks that handlers share\<close>

text \<open>An account that is associated must not be frozen and must not lack KYC.\<close>

definition check_active :: "hedera_id \<Rightarrow> account_token_relation \<Rightarrow> unit result" where
  "check_active reported rel =
     (if tr_freezeStatus rel = Some FROZEN then Inl (CommandError (AccountFreeze (id_value reported)))
      else if tr_kycStatus rel = Some REVOKED then Inl (CommandError (AccountNotKyc (id_value reported)))
      else Inr ())"

text \<open>An account that is not associated must have a free automatic association.\<close>

definition check_auto_association :: "env \<Rightarrow> hedera_id \<Rightarrow> hedera_id \<Rightarrow> unit result" where
  "check_auto_association E targetId tokenId =
     bindR (getAccountAutoAssociationQuery E targetId) (\<lambda>info.
       case info of
         None \<Rightarrow> not_associated targetId tokenId
       | Some a \<Rightarrow>
           (let mx = (case aa_maxAutoAssociations a of None \<Rightarrow> 0 | Some m \<Rightarrow> m);
                remaining = (case aa_remainingAutoAssociations a of None \<Rightarrow> 0 | Some r \<Rightarrow> r);
                isUnlimited = (mx = - 1 \<or> remaining = - 1)
            in if mx = 0 then not_associated targetId tokenId
               else if \<not> isUnlimited \<and> remaining \<le> 0
               then Inl (CommandError (StableCoinMaxAutoAssociationReached (id_value targetId) mx))
               else Inr ()))"

definition require_relation ::
  "env \<Rightarrow> hedera_id \<Rightarrow> hedera_id \<Rightarrow> hedera_id \<Rightarrow> account_token_relation result" where
  "require_relation E targetId reported tokenId =
     bindR (getAccountTokenRelationshipQuery E targetId tokenId) (\<lambda>rel.
       case rel of None \<Rightarrow> not_associated reported tokenId | Some r \<Rightarrow> Inr r)"

definition check_decimals :: "env \<Rightarrow> string \<Rightarrow> nat \<Rightarrow> unit result" where
  "check_decimals E amount decimals =
     bindR (hasMoreDecimals (env_lib E) amount (int decimals)) (\<lambda>more.
       if more then Inl (CommandError (DecimalsOverRange (int decimals))) else Inr ())"

section \<open>Cash in\<close>

definition cashin_check_target :: "env \<Rightarrow> hedera_id \<Rightarrow> hedera_id \<Rightarrow> unit result" where
  "cashin_check_target E targetId tokenId =
     bindR (getAccountTokenRelationshipQuery E targetId tokenId) (\<lambda>rel.
       case rel of
         None \<Rightarrow> check_auto_association E targetId tokenId
       | Some r \<Rightarrow> check_active targetId r)"

definition cashin_check_supply :: "env \<Rightarrow> stable_coin \<Rightarrow> big_decimal \<Rightarrow> unit result" where
  "cashin_check_supply E coin amountBd =
     (case (sc_maxSupply coin, sc_totalSupply coin) of
        (Some maxSupply, Some totalSupply) \<Rightarrow>
          if sc_supplyType coin = Some FINITE then
            (if isGreaterThan (env_lib E) maxSupply bd_ZERO
             then bindR (bd_subUnsafe (env_lib E) maxSupply totalSupply) (\<lambda>room.
               if isGreaterThan (env_lib E) amountBd room
               then not_allowed ''The total supply amount cannot be greater than the max supply''
               else Inr ())
             else Inr ())
          else
            bindR (maxSupply_of (env_lib E) (sc_decimals coin)) (\<lambda>mx.
            bindR (bd_subUnsafe (env_lib E) mx totalSupply) (\<lambda>room.
              if isGreaterThan (env_lib E) amountBd room
              then not_allowed ''The total supply amount cannot be greater than the limit'' else Inr ()))
      | _ \<Rightarrow> not_allowed ''The stablecoin is not valid'')"

definition cashin_check_reserve :: "env \<Rightarrow> hedera_id \<Rightarrow> stable_coin \<Rightarrow> big_decimal \<Rightarrow> unit result" where
  "cashin_check_reserve E tokenId coin amountBd =
     (case sc_evmProxyAddress coin of
        None \<Rightarrow> Inr ()
      | Some proxy \<Rightarrow>
          bindR (q_getReserveAddress E proxy) (\<lambda>reserveAddress.
            if contract_value reserveAddress = ''0.0.0'' then Inr ()
            else
              bindR (bd_addUnsafe (env_lib E) amountBd
                       (case sc_totalSupply coin of None \<Rightarrow> bd_ZERO | Some t \<Rightarrow> t)) (\<lambda>totalAmount.
              let commonDecimals = max RESERVE_DECIMALS (sc_decimals coin) in
              bindR (getReserveAmountQuery E tokenId) (\<lambda>reserveAmountBd.
              bindR (setDecimals (env_lib E) totalAmount commonDecimals) (\<lambda>t.
              bindR (setDecimals (env_lib E) reserveAmountBd commonDecimals) (\<lambda>r.
                if isGreaterThan (env_lib E) t r
                then not_allowed ''The reserve is less than the amount to cash in'' else Inr ()))))))"

definition cashin_checks ::
  "env \<Rightarrow> string \<Rightarrow> hedera_id \<Rightarrow> hedera_id \<Rightarrow> (stable_coin_capabilities \<times> big_decimal) result" where
  "cashin_checks E amount targetId tokenId =
     bindR (cashin_check_target E targetId tokenId) (\<lambda>_.
     bindR (service_getCapabilities E tokenId) (\<lambda>capabilities.
     let coin = caps_coin capabilities in
     bindR (check_decimals E amount (sc_decimals coin)) (\<lambda>_.
     bindR (bd_fromString (env_lib E) amount (Some (sc_decimals coin))) (\<lambda>amountBd.
     bindR (cashin_check_supply E coin amountBd) (\<lambda>_.
     bindR (cashin_check_reserve E tokenId coin amountBd) (\<lambda>_.
       Inr (capabilities, amountBd)))))))"

definition cashIn_handler ::
  "env \<Rightarrow> 'e tx_adapter \<Rightarrow> string \<Rightarrow> hedera_id \<Rightarrow> hedera_id \<Rightarrow> string option \<Rightarrow> ('e, command_response) io" where
  "cashIn_handler E A amount targetId tokenId startDate =
     withR (cashin_checks E amount targetId tokenId) (\<lambda>(capabilities, amountBd).
       respond (ta_cashin A capabilities targetId amountBd startDate))"

section \<open>Burn, wipe and rescue\<close>

definition burn_checks :: "env \<Rightarrow> string \<Rightarrow> hedera_id \<Rightarrow> (stable_coin_capabilities \<times> big_decimal) result" where
  "burn_checks E amount tokenId =
     bindR (service_getCapabilities E tokenId) (\<lambda>capabilities.
     let coin = caps_coin capabilities in
     bindR (bd_fromString (env_lib E) amount (Some (sc_decimals coin))) (\<lambda>amountBd.
     bindR (check_decimals E amount (sc_decimals coin)) (\<lambda>_.
       case (sc_treasury coin, sc_tokenId coin) of
         (Some _, Some coinId) \<Rightarrow>
           bindR (checkBurnableAmount E coinId amount) (\<lambda>_. Inr (capabilities, amountBd))
       | _ \<Rightarrow> not_allowed ''The stablecoin is not valid'')))"

definition burn_handler ::
  "env \<Rightarrow> 'e tx_adapter \<Rightarrow> string \<Rightarrow> hedera_id \<Rightarrow> string option \<Rightarrow> ('e, command_response) io" where
  "burn_handler E A amount tokenId startDate =
     withR (burn_checks E amount tokenId) (\<lambda>(capabilities, amountBd).
       respond (ta_burn A capabilities amountBd startDate))"

definition wipe_checks ::
  "env \<Rightarrow> string \<Rightarrow> hedera_id \<Rightarrow> hedera_id \<Rightarrow> (stable_coin_capabilities \<times> big_decimal) result" where
  "wipe_checks E amount targetId tokenId =
     bindR (require_relation E targetId targetId tokenId) (\<lambda>tokenRelationship.
     bindR (service_getCapabilities E tokenId) (\<lambda>capabilities.
     let coin = caps_coin capabilities in
     bindR (bd_fromString (env_lib E) amount (Some (sc_decimals coin))) (\<lambda>amountBd.
     bindR (check_decimals E amount (sc_decimals coin)) (\<lambda>_.
       if isGreaterThan (env_lib E) amountBd (tr_balance tokenRelationship)
       then not_allowed ''The wipe amount is bigger than the account balance''
       else bindR (bd_fromString (env_lib E) amount (Some (sc_decimals coin))) (\<lambda>a.
         Inr (capabilities, a))))))"

definition wipe_handler ::
  "env \<Rightarrow> 'e tx_adapter \<Rightarrow> string \<Rightarrow> hedera_id \<Rightarrow> hedera_id \<Rightarrow> string option \<Rightarrow> ('e, command_response) io" where
  "wipe_handler E A amount targetId tokenId startDate =
     withR (wipe_checks E amount targetId tokenId) (\<lambda>(capabilities, amountBd).
       respond (ta_wipe A capabilities targetId amountBd startDate))"

definition rescue_checks :: "env \<Rightarrow> string \<Rightarrow> hedera_id \<Rightarrow> (stable_coin_capabilities \<times> big_decimal) result" where
  "rescue_checks E amount tokenId =
     (let account = acc_id (env_account E) in
      bindR (require_relation E account account tokenId) (\<lambda>rel.
      bindR (check_active account rel) (\<lambda>_.
      bindR (service_getCapabilities E tokenId) (\<lambda>capabilities.
      let coin = caps_coin capabilities in
      bindR (bd_fromString (env_lib E) amount (Some (sc_decimals coin))) (\<lambda>amountBd.
      bindR (check_decimals E amount (sc_decimals coin)) (\<lambda>_.
        case (sc_treasury coin, sc_tokenId coin) of
          (Some treasury, Some coinId) \<Rightarrow>
            bindR (balanceOfQuery E coinId treasury) (\<lambda>treasuryBalance.
              if isGreaterThan (env_lib E) amountBd treasuryBalance
              then not_allowed ''The rescue amount is bigger than the treasury account balance''
              else Inr (capabilities, amountBd))
        | _ \<Rightarrow> not_allowed ''The stablecoin is not valid''))))))"

definition rescue_handler ::
  "env \<Rightarrow> 'e tx_adapter \<Rightarrow> string \<Rightarrow> hedera_id \<Rightarrow> string option \<Rightarrow> ('e, command_response) io" where
  "rescue_handler E A amount tokenId startDate =
     withR (rescue_checks E amount tokenId) (\<lambda>(capabilities, amountBd).
       respond (ta_rescue A capabilities amountBd startDate))"

definition rescueHBAR_checks :: "env \<Rightarrow> string \<Rightarrow> hedera_id \<Rightarrow> (stable_coin_capabilities \<times> big_decimal) result" where
  "rescueHBAR_checks E amount tokenId =
     bindR (service_getCapabilities E tokenId) (\<lambda>capabilities.
     bindR (bd_fromString (env_lib E) amount (Some HBAR_DECIMALS)) (\<lambda>amountBd.
     bindR (check_decimals E amount HBAR_DECIMALS) (\<lambda>_.
       case sc_treasury (caps_coin capabilities) of
         None \<Rightarrow> not_allowed ''The HBAR treasury account is not valid''
       | Some treasury \<Rightarrow>
           bindR (balanceOfHBARQuery E treasury) (\<lambda>treasuryBalance.
             if isGreaterThan (env_lib E) amountBd treasuryBalance
             then not_allowed ''The rescue HBAR amount is bigger than the treasury account balance''
             else Inr (capabilities, amountBd)))))"

definition rescueHBAR_handler ::
  "env \<Rightarrow> 'e tx_adapter \<Rightarrow> string \<Rightarrow> hedera_id \<Rightarrow> string option \<Rightarrow> ('e, command_response) io" where
  "rescueHBAR_handler E A amount tokenId startDate =
     withR (rescueHBAR_checks E amount tokenId) (\<lambda>(capabilities, amountBd).
       respond (ta_rescueHBAR A capabilities amountBd startDate))"

section \<open>Freeze, pause and delete\<close>

definition with_relation_capabilities ::
  "env \<Rightarrow> hedera_id \<Rightarrow> hedera_id \<Rightarrow> stable_coin_capabilities result" where
  "with_relation_capabilities E targetId tokenId =
     bindR (require_relation E targetId targetId tokenId) (\<lambda>_. service_getCapabilities E tokenId)"

definition freeze_handler ::
  "env \<Rightarrow> 'e tx_adapter \<Rightarrow> hedera_id \<Rightarrow> hedera_id \<Rightarrow> string option \<Rightarrow> ('e, command_response) io" where
  "freeze_handler E A targetId tokenId startDate =
     withR (with_relation_capabilities E targetId tokenId) (\<lambda>capabilities.
       respond (ta_freeze A capabilities targetId startDate))"

definition unfreeze_handler ::
  "env \<Rightarrow> 'e tx_adapter \<Rightarrow> hedera_id \<Rightarrow> hedera_id \<Rightarrow> string option \<Rightarrow> ('e, command_response) io" where
  "unfreeze_handler E A targetId tokenId startDate =
     withR (with_relation_capabilities E targetId tokenId) (\<lambda>capabilities.
       respond (ta_unfreeze A capabilities targetId startDate))"

definition pause_handler :: "env \<Rightarrow> 'e tx_adapter \<Rightarrow> hedera_id \<Rightarrow> string option \<Rightarrow> ('e, command_response) io" where
  "pause_handler E A tokenId startDate =
     withR (service_getCapabilities E tokenId) (\<lambda>capabilities. respond (ta_pause A capabilities startDate))"

definition unpause_handler :: "env \<Rightarrow> 'e tx_adapter \<Rightarrow> hedera_id \<Rightarrow> string option \<Rightarrow> ('e, command_response) io" where
  "unpause_handler E A tokenId startDate =
     withR (service_getCapabilities E tokenId) (\<lambda>capabilities. respond (ta_unpause A capabilities startDate))"

definition delete_handler :: "env \<Rightarrow> 'e tx_adapter \<Rightarrow> hedera_id \<Rightarrow> string option \<Rightarrow> ('e, command_response) io" where
  "delete_handler E A tokenId startDate =
     withR (service_getCapabilities E tokenId) (\<lambda>capabilities. respond (ta_delete A capabilities startDate))"

section \<open>Transfers\<close>

text \<open>
  The relationship is that of each receiver; the automatic associations queried and the accounts
  that the errors name are those of \<open>targetId\<close>, the sender.
\<close>

definition transfers_check_target :: "env \<Rightarrow> hedera_id \<Rightarrow> hedera_id \<Rightarrow> hedera_id \<Rightarrow> unit result" where
  "transfers_check_target E tokenId targetId receiver =
     bindR (getAccountTokenRelationshipQuery E receiver tokenId) (\<lambda>rel.
       case rel of
         None \<Rightarrow> check_auto_association E targetId tokenId
       | Some r \<Rightarrow> check_active targetId r)"

definition transfers_amount :: "env \<Rightarrow> nat \<Rightarrow> string \<Rightarrow> big_decimal result" where
  "transfers_amount E decimals amount =
     bindR (check_decimals E amount decimals) (\<lambda>_. bd_fromString (env_lib E) amount (Some decimals))"

definition transfers_checks ::
  "env \<Rightarrow> string list \<Rightarrow> hedera_id list \<Rightarrow> hedera_id \<Rightarrow> hedera_id \<Rightarrow>
     (stable_coin_capabilities \<times> big_decimal list) result" where
  "transfers_checks E amounts targetsIds tokenId targetId =
     bindR (mapR (transfers_check_target E tokenId targetId) targetsIds) (\<lambda>_.
     bindR (service_getCapabilities E tokenId) (\<lambda>capabilities.
       let coin = caps_coin capabilities in
       if sc_tokenId coin = None then not_allowed ''The stablecoin is not valid''
       else bindR (mapR (transfers_amount E (sc_decimals coin)) amounts) (\<lambda>amountsBd.
         Inr (capabilities, amountsBd))))"

definition transfers_handler ::
  "env \<Rightarrow> 'e tx_adapter \<Rightarrow> string list \<Rightarrow> hedera_id list \<Rightarrow> hedera_id \<Rightarrow> hedera_id \<Rightarrow> ('e, command_response) io" where
  "transfers_handler E A amounts targetsIds tokenId targetId =
     withR (transfers_checks E amounts targetsIds tokenId targetId) (\<lambda>(capabilities, amountsBd).
       respond (ta_transfers A capabilities amountsBd targetsIds targetId))"

section \<open>KYC\<close>

text \<open>
  \<open>GrantKycCommandHandler\<close> asks again, up to three times, for a relationship that is missing. The
  environments that it sees are \<open>Es 0\<close> (before the loop) and \<open>Es (Suc retry)\<close>.
\<close>

function grantKyc_retry ::
  "(nat \<Rightarrow> account_token_relation option result) \<Rightarrow> nat \<Rightarrow> account_token_relation option \<Rightarrow>
     account_token_relation option result" where
  "grantKyc_retry q retry tokenRelationship =
     (if tokenRelationship = None \<and> retry < 3
      then bindR (q (Suc retry)) (\<lambda>rel. grantKyc_retry q (Suc retry) rel)
      else Inr tokenRelationship)"
  by pat_completeness auto
termination by (relation "measure (\<lambda>(q, retry, rel). 3 - retry)") auto

declare grantKyc_retry.simps [simp del]

definition grantKyc_checks :: "(nat \<Rightarrow> env) \<Rightarrow> hedera_id \<Rightarrow> hedera_id \<Rightarrow> stable_coin_capabilities result" where
  "grantKyc_checks Es targetId tokenId =
     bindR (service_getCapabilities (Es 0) tokenId) (\<lambda>capabilities.
       if sc_kycKey (caps_coin capabilities) = None then Inl (CommandError (KycNotActive (id_value tokenId)))
       else
         bindR (getAccountTokenRelationshipQuery (Es 0) targetId tokenId) (\<lambda>rel0.
         bindR (grantKyc_retry (\<lambda>n. getAccountTokenRelationshipQuery (Es n) targetId tokenId) 0 rel0) (\<lambda>rel.
           case rel of
             None \<Rightarrow> not_associated targetId tokenId
           | Some r \<Rightarrow>
               if tr_kycStatus r \<noteq> None \<and> tr_kycStatus r \<noteq> Some REVOKED
               then not_allowed (''KYC cannot be granted for account '' @ id_value targetId @ '' on token '' @ id_value tokenId)
               else Inr capabilities)))"

definition grantKyc_handler ::
  "(nat \<Rightarrow> env) \<Rightarrow> 'e tx_adapter \<Rightarrow> hedera_id \<Rightarrow> hedera_id \<Rightarrow> ('e, command_response) io" where
  "grantKyc_handler Es A targetId tokenId =
     withR (grantKyc_checks Es targetId tokenId) (\<lambda>capabilities. respond (ta_grantKyc A capabilities targetId))"

definition revokeKyc_checks :: "env \<Rightarrow> hedera_id \<Rightarrow> hedera_id \<Rightarrow> stable_coin_capabilities result" where
  "revokeKyc_checks E targetId tokenId =
     bindR (service_getCapabilities E tokenId) (\<lambda>capabilities.
     bindR (require_relation E targetId targetId tokenId) (\<lambda>r.
       if sc_kycKey (caps_coin capabilities) = None then Inl (CommandError (KycNotActive (id_value tokenId)))
       else if tr_kycStatus r \<noteq> Some GRANTED
       then not_allowed (''KYC cannot be revoked from account '' @ id_value targetId @ '' on token '' @ id_value tokenId)
       else Inr capabilities))"

definition revokeKyc_handler ::
  "env \<Rightarrow> 'e tx_adapter \<Rightarrow> hedera_id \<Rightarrow> hedera_id \<Rightarrow> ('e, command_response) io" where
  "revokeKyc_handler E A targetId tokenId =
     withR (revokeKyc_checks E targetId tokenId) (\<lambda>capabilities. respond (ta_revokeKyc A capabilities targetId))"

section \<open>Association and reserve\<close>

definition associate_handler ::
  "env \<Rightarrow> 'e tx_adapter \<Rightarrow> hedera_id \<Rightarrow> hedera_id \<Rightarrow> ('e, command_response) io" where
  "associate_handler E A targetId tokenId =
     withR (getAccountTokenRelationshipQuery E targetId tokenId) (\<lambda>rel.
       if rel \<noteq> None then ret (True, None)
       else respond (ta_associateToken A tokenId targetId))"

definition updateReserveAddress_handler ::
  "env \<Rightarrow> 'e tx_adapter \<Rightarrow> hedera_id \<Rightarrow> contract_id \<Rightarrow> ('e, command_response) io" where
  "updateReserveAddress_handler E A tokenId reserveAddress =
     withR (service_getCapabilities E tokenId) (\<lambda>capabilities.
       respond (ta_updateReserveAddress A capabilities reserveAddress))"

definition updateReserveAmount_handler ::
  "'e tx_adapter \<Rightarrow> contract_id \<Rightarrow> big_decimal \<Rightarrow> ('e, command_response) io" where
  "updateReserveAmount_handler A reserveAddress reserveAmount =
     respond (ta_updateReserveAmount A reserveAddress reserveAmount)"

end
