(* ===== verification/Hold_Commands.thy ===== *)
theory Hold_Commands
  imports Token_Commands
begin

text \<open>
  The handlers of \<open>sdk/src/app/usecase/command/stablecoin/operations/hold\<close> and
  \<open>TransactionService.getTransactionResult\<close>. A hold locks an amount of a holder's tokens for an
  escrow account, which executes it to a target or releases it before it expires; after that the
  source reclaims it.
\<close>

section \<open>Results of a transaction\<close>

text \<open>An absent or an empty value counts as missing in the conditions of the code.\<close>

definition nonempty :: "string option \<Rightarrow> string option" where
  "nonempty v = (case v of None \<Rightarrow> None | Some s \<Rightarrow> if s = [] then None else Some s)"

definition response_field :: "transaction_response \<Rightarrow> string \<Rightarrow> string option" where
  "response_field res f = (case res_response res of ObjectResponse obj \<Rightarrow> obj f | _ \<Rightarrow> None)"

definition getTransactionResult ::
  "env \<Rightarrow> transaction_response \<Rightarrow> string option \<Rightarrow> string \<Rightarrow> nat \<Rightarrow> nat \<Rightarrow> string result" where
  "getTransactionResult E res result className position numberOfResultsItems =
     (case nonempty (res_id res) of
        None \<Rightarrow> Inl (EmptyResponse className)
      | Some resId \<Rightarrow>
          if res_response res \<noteq> NoResponse \<and> nonempty result \<noteq> None then Inr (the result)
          else
            bindR (mn_getContractResults E resId numberOfResultsItems) (\<lambda>results.
              case results of
                None \<Rightarrow> Inl (InvalidResponse None)
              | Some rs \<Rightarrow>
                  if length rs \<noteq> numberOfResultsItems then Inl (InvalidResponse None)
                  else Inr (rs ! position)))"

text \<open>\<open>parseInt(s, 16)\<close>: \<open>None\<close> is \<open>NaN\<close>. The hold ids are far below the precision of a number.\<close>

definition js_parseHex :: "string \<Rightarrow> int option" where
  "js_parseHex s0 =
     (let s1 = dropWhile is_blank s0;
          neg = js_startsWith s1 ''-'';
          s2 = (if neg \<or> js_startsWith s1 ''+'' then drop 1 s1 else s1);
          s3 = (if js_startsWith s2 ''0x'' \<or> js_startsWith s2 ''0X'' then drop 2 s2 else s2);
          ds = takeWhile is_hex s3;
          v = int (foldl (\<lambda>a c. 16 * a + hex_val c) 0 ds)
      in if ds = [] then None else Some (if neg then - v else v))"

section \<open>Create\<close>

definition proxy_holds_key :: "stable_coin \<Rightarrow> token_key option \<Rightarrow> bool" where
  "proxy_holds_key coin key \<longleftrightarrow>
     map_option (\<lambda>k. js_toUpperCase (token_key_toString k)) key =
     map_option (\<lambda>p. js_toUpperCase (id_value p)) (sc_proxyAddress coin)"

text \<open>The state of an account that has a relationship; none is accepted.\<close>

definition hold_check_relation :: "hedera_id \<Rightarrow> account_token_relation \<Rightarrow> unit result" where
  "hold_check_relation reported r =
     (if tr_kycStatus r = Some REVOKED then Inl (CommandError (AccountNotKyc (id_value reported)))
      else if tr_freezeStatus r = Some FROZEN then Inl (CommandError (AccountFreeze (id_value reported)))
      else Inr ())"

text \<open>
  The two create handlers differ in the holder: the current account, or the source of the command.
\<close>

definition createHold_checks ::
  "env \<Rightarrow> hedera_id \<Rightarrow> string \<Rightarrow> string \<Rightarrow> hedera_id \<Rightarrow>
     (stable_coin_capabilities \<times> big_decimal \<times> big_decimal) result" where
  "createHold_checks E holder amount expirationDate tokenId =
     bindR (service_getCapabilities E tokenId) (\<lambda>capabilities.
     let coin = caps_coin capabilities in
     if \<not> proxy_holds_key coin (sc_supplyKey coin) then Inl (CommandError MissingProxySupplyKey)
     else if \<not> proxy_holds_key coin (sc_wipeKey coin) then Inl (CommandError MissingProxyWipeKey)
     else
       bindR (getAccountTokenRelationshipQuery E holder tokenId) (\<lambda>rel.
       bindR (case rel of None \<Rightarrow> Inr () | Some r \<Rightarrow> hold_check_relation holder r) (\<lambda>_.
       bindR (check_decimals E amount (sc_decimals coin)) (\<lambda>_.
       bindR (balanceOfQuery E tokenId holder) (\<lambda>tokenHolderBalance.
       bindR (bd_fromString (env_lib E) amount (Some (sc_decimals coin))) (\<lambda>amountBd.
         if isGreaterThan (env_lib E) amountBd tokenHolderBalance
         then not_allowed ''The token holder balance is less than held amount''
         else bindR (bd_fromString (env_lib E) expirationDate None) (\<lambda>expiration.
           Inr (capabilities, amountBd, expiration))))))))"

definition hold_created ::
  "env \<Rightarrow> string \<Rightarrow> ('e, transaction_response) io \<Rightarrow> ('e, int option \<times> command_response) io" where
  "hold_created E className m =
     bindIO m (\<lambda>res.
       withR (getTransactionResult E res (response_field res ''holdId'') className 1 2) (\<lambda>holdId.
         ret (js_parseHex holdId, res_error res = None, res_id res)))"

definition createHold_handler ::
  "env \<Rightarrow> 'e tx_adapter \<Rightarrow> hedera_id \<Rightarrow> string \<Rightarrow> hedera_id \<Rightarrow> string \<Rightarrow> hedera_id option \<Rightarrow>
     ('e, int option \<times> command_response) io" where
  "createHold_handler E A tokenId amount escrow expirationDate targetId =
     withR (createHold_checks E (acc_id (env_account E)) amount expirationDate tokenId)
       (\<lambda>(capabilities, amountBd, expiration).
         hold_created E ''CreateHoldCommandHandler''
           (ta_createHold A capabilities amountBd escrow expiration targetId))"

definition createHoldByController_handler ::
  "env \<Rightarrow> 'e tx_adapter \<Rightarrow> hedera_id \<Rightarrow> hedera_id \<Rightarrow> string \<Rightarrow> hedera_id \<Rightarrow> string \<Rightarrow> hedera_id option \<Rightarrow>
     ('e, int option \<times> command_response) io" where
  "createHoldByController_handler E A tokenId sourceId amount escrow expirationDate targetId =
     withR (createHold_checks E sourceId amount expirationDate tokenId)
       (\<lambda>(capabilities, amountBd, expiration).
         hold_created E ''CreateHoldByControllerCommandHandler''
           (ta_createHoldByController A capabilities amountBd escrow expiration sourceId targetId))"

section \<open>Execute, release and reclaim\<close>

definition executeHold_target :: "env \<Rightarrow> hedera_id option \<Rightarrow> hedera_id \<Rightarrow> unit result" where
  "executeHold_target E targetId tokenId =
     (case targetId of
        None \<Rightarrow> Inr ()
      | Some t \<Rightarrow> bindR (require_relation E t t tokenId) (hold_check_relation t))"

definition executeHold_checks ::
  "env \<Rightarrow> hedera_id \<Rightarrow> int \<Rightarrow> hedera_id \<Rightarrow> string \<Rightarrow> hedera_id option \<Rightarrow>
     (stable_coin_capabilities \<times> big_decimal) result" where
  "executeHold_checks E tokenId holdId sourceId amount targetId =
     bindR (service_getCapabilities E tokenId) (\<lambda>capabilities.
     let coin = caps_coin capabilities in
     bindR (require_relation E sourceId sourceId tokenId) (\<lambda>source.
     bindR (executeHold_target E targetId tokenId) (\<lambda>_.
     bindR (hold_check_relation sourceId source) (\<lambda>_.
     bindR (check_decimals E amount (sc_decimals coin)) (\<lambda>_.
     bindR (bd_fromString (env_lib E) amount (Some (sc_decimals coin))) (\<lambda>amountBd.
     bindR (checkHoldBalance E tokenId sourceId holdId amountBd) (\<lambda>_.
     bindR (checkEscrow E tokenId sourceId holdId) (\<lambda>_.
     bindR (checkHoldTarget E tokenId sourceId holdId targetId) (\<lambda>_.
     bindR (checkHoldExpiration E tokenId sourceId holdId False) (\<lambda>_.
       Inr (capabilities, amountBd)))))))))))"

definition executeHold_handler ::
  "env \<Rightarrow> 'e tx_adapter \<Rightarrow> hedera_id \<Rightarrow> int \<Rightarrow> hedera_id \<Rightarrow> string \<Rightarrow> hedera_id option \<Rightarrow> ('e, command_response) io" where
  "executeHold_handler E A tokenId holdId sourceId amount targetId =
     withR (executeHold_checks E tokenId holdId sourceId amount targetId) (\<lambda>(capabilities, amountBd).
       respond (ta_executeHold A capabilities amountBd sourceId holdId targetId))"

definition releaseHold_checks ::
  "env \<Rightarrow> hedera_id \<Rightarrow> int \<Rightarrow> hedera_id \<Rightarrow> string \<Rightarrow> (stable_coin_capabilities \<times> big_decimal) result" where
  "releaseHold_checks E tokenId holdId sourceId amount =
     bindR (service_getCapabilities E tokenId) (\<lambda>capabilities.
     let coin = caps_coin capabilities in
     bindR (require_relation E sourceId sourceId tokenId) (\<lambda>source.
     bindR (hold_check_relation sourceId source) (\<lambda>_.
     bindR (check_decimals E amount (sc_decimals coin)) (\<lambda>_.
     bindR (bd_fromString (env_lib E) amount (Some (sc_decimals coin))) (\<lambda>amountBd.
     bindR (checkHoldBalance E tokenId sourceId holdId amountBd) (\<lambda>_.
     bindR (checkEscrow E tokenId sourceId holdId) (\<lambda>_.
     bindR (checkHoldExpiration E tokenId sourceId holdId False) (\<lambda>_.
       Inr (capabilities, amountBd)))))))))"

definition releaseHold_handler ::
  "env \<Rightarrow> 'e tx_adapter \<Rightarrow> hedera_id \<Rightarrow> int \<Rightarrow> hedera_id \<Rightarrow> string \<Rightarrow> ('e, command_response) io" where
  "releaseHold_handler E A tokenId holdId sourceId amount =
     withR (releaseHold_checks E tokenId holdId sourceId amount) (\<lambda>(capabilities, amountBd).
       respond (ta_releaseHold A capabilities amountBd sourceId holdId))"

text \<open>The relationship is that of the current account; the errors name the source of the hold.\<close>

definition reclaimHold_checks ::
  "env \<Rightarrow> hedera_id \<Rightarrow> int \<Rightarrow> hedera_id \<Rightarrow> stable_coin_capabilities result" where
  "reclaimHold_checks E tokenId holdId sourceId =
     bindR (service_getCapabilities E tokenId) (\<lambda>capabilities.
     bindR (require_relation E (acc_id (env_account E)) sourceId tokenId) (\<lambda>rel.
     bindR (hold_check_relation sourceId rel) (\<lambda>_.
     bindR (checkValidHoldId E tokenId sourceId holdId) (\<lambda>_.
     bindR (checkHoldExpiration E tokenId sourceId holdId True) (\<lambda>_.
       Inr capabilities)))))"

definition reclaimHold_handler ::
  "env \<Rightarrow> 'e tx_adapter \<Rightarrow> hedera_id \<Rightarrow> int \<Rightarrow> hedera_id \<Rightarrow> ('e, command_response) io" where
  "reclaimHold_handler E A tokenId holdId sourceId =
     withR (reclaimHold_checks E tokenId holdId sourceId) (\<lambda>capabilities.
       respond (ta_reclaimHold A capabilities sourceId holdId))"

end
