(* ===== verification/Role_Commands.thy ===== *)
theory Role_Commands
  imports Token_Commands
begin

text \<open>
  The handlers of \<open>sdk/src/app/usecase/command/stablecoin/roles\<close>: granting and revoking roles, one
  or many at a time, and the allowances of the cash-in role.
\<close>

section \<open>One role\<close>

definition grantRole_handler ::
  "env \<Rightarrow> 'e tx_adapter \<Rightarrow> stable_coin_role \<Rightarrow> hedera_id \<Rightarrow> hedera_id \<Rightarrow> ('e, command_response) io" where
  "grantRole_handler E A role targetId tokenId =
     withR (service_getCapabilities E tokenId) (\<lambda>capabilities.
       respond (ta_grantRole A capabilities targetId role))"

definition revokeRole_handler ::
  "env \<Rightarrow> 'e tx_adapter \<Rightarrow> stable_coin_role \<Rightarrow> hedera_id \<Rightarrow> hedera_id \<Rightarrow> ('e, command_response) io" where
  "revokeRole_handler E A role targetId tokenId =
     withR (service_getCapabilities E tokenId) (\<lambda>capabilities.
       respond (ta_revokeRole A capabilities targetId role))"

section \<open>The cash-in role and its allowance\<close>

definition grantSupplierRole_handler ::
  "env \<Rightarrow> 'e tx_adapter \<Rightarrow> hedera_id \<Rightarrow> hedera_id \<Rightarrow> string \<Rightarrow> ('e, command_response) io" where
  "grantSupplierRole_handler E A targetId tokenId amount =
     withR (service_getCapabilities E tokenId) (\<lambda>capabilities.
     withR (bd_fromString (env_lib E) amount (Some (sc_decimals (caps_coin capabilities)))) (\<lambda>amountBd.
       respond (ta_grantSupplierRole A capabilities targetId amountBd)))"

definition grantUnlimitedSupplierRole_handler ::
  "env \<Rightarrow> 'e tx_adapter \<Rightarrow> hedera_id \<Rightarrow> hedera_id \<Rightarrow> ('e, command_response) io" where
  "grantUnlimitedSupplierRole_handler E A targetId tokenId =
     withR (service_getCapabilities E tokenId) (\<lambda>capabilities.
       respond (ta_grantUnlimitedSupplierRole A capabilities targetId))"

definition revokeSupplierRole_handler ::
  "env \<Rightarrow> 'e tx_adapter \<Rightarrow> hedera_id \<Rightarrow> hedera_id \<Rightarrow> ('e, command_response) io" where
  "revokeSupplierRole_handler E A targetId tokenId =
     withR (service_getCapabilities E tokenId) (\<lambda>capabilities.
       respond (ta_revokeSupplierRole A capabilities targetId))"

definition allowance_checks :: "env \<Rightarrow> string \<Rightarrow> hedera_id \<Rightarrow> (stable_coin_capabilities \<times> big_decimal) result" where
  "allowance_checks E amount tokenId =
     bindR (service_getCapabilities E tokenId) (\<lambda>capabilities.
     let coin = caps_coin capabilities in
     bindR (check_decimals E amount (sc_decimals coin)) (\<lambda>_.
     bindR (bd_fromString (env_lib E) amount (Some (sc_decimals coin))) (\<lambda>amountBd.
       Inr (capabilities, amountBd))))"

definition increaseAllowance_handler ::
  "env \<Rightarrow> 'e tx_adapter \<Rightarrow> string \<Rightarrow> hedera_id \<Rightarrow> hedera_id \<Rightarrow> string option \<Rightarrow> ('e, command_response) io" where
  "increaseAllowance_handler E A amount targetId tokenId startDate =
     withR (allowance_checks E amount tokenId) (\<lambda>(capabilities, amountBd).
       respond (ta_increaseSupplierAllowance A capabilities targetId amountBd startDate))"

definition decreaseAllowance_handler ::
  "env \<Rightarrow> 'e tx_adapter \<Rightarrow> string \<Rightarrow> hedera_id \<Rightarrow> hedera_id \<Rightarrow> string option \<Rightarrow> ('e, command_response) io" where
  "decreaseAllowance_handler E A amount targetId tokenId startDate =
     withR (allowance_checks E amount tokenId) (\<lambda>(capabilities, amountBd).
       respond (ta_decreaseSupplierAllowance A capabilities targetId amountBd startDate))"

definition resetAllowance_handler ::
  "env \<Rightarrow> 'e tx_adapter \<Rightarrow> hedera_id \<Rightarrow> hedera_id \<Rightarrow> string option \<Rightarrow> ('e, command_response) io" where
  "resetAllowance_handler E A targetId tokenId startDate =
     withR (service_getCapabilities E tokenId) (\<lambda>capabilities.
       respond (ta_resetSupplierAllowance A capabilities targetId startDate))"

section \<open>Many roles\<close>

text \<open>
  The accounts are looked up together; those whose lookup throws are collected (here in the order
  of the command) and reported at once.
\<close>

definition unknown_accounts :: "env \<Rightarrow> hedera_id list \<Rightarrow> string list" where
  "unknown_accounts E targetsId =
     map id_value (filter (\<lambda>i. case AccountService_getAccountInfo E i of Inl _ \<Rightarrow> True | Inr _ \<Rightarrow> False) targetsId)"

definition check_accounts :: "env \<Rightarrow> hedera_id list \<Rightarrow> unit result" where
  "check_accounts E targetsId =
     (let noExistsAccounts = unknown_accounts E targetsId in
      if noExistsAccounts \<noteq> [] then Inl (CommandError (AccountsIdNotExists noExistsAccounts)) else Inr ())"

definition grantMultiRoles_handler ::
  "env \<Rightarrow> 'e tx_adapter \<Rightarrow> stable_coin_role list \<Rightarrow> hedera_id list \<Rightarrow> string list \<Rightarrow> hedera_id \<Rightarrow> string option \<Rightarrow>
     ('e, command_response) io" where
  "grantMultiRoles_handler E A roles targetsId amounts tokenId startDate =
     withR (service_getCapabilities E tokenId) (\<lambda>capabilities.
     withR (check_accounts E targetsId) (\<lambda>_.
     withR (mapR (\<lambda>a. bd_fromString (env_lib E) a (Some (sc_decimals (caps_coin capabilities)))) amounts)
       (\<lambda>amountsFormatted.
       respond (ta_grantRoles A capabilities targetsId roles amountsFormatted startDate))))"

definition revokeMultiRoles_handler ::
  "env \<Rightarrow> 'e tx_adapter \<Rightarrow> stable_coin_role list \<Rightarrow> hedera_id list \<Rightarrow> hedera_id \<Rightarrow> string option \<Rightarrow>
     ('e, command_response) io" where
  "revokeMultiRoles_handler E A roles targetsId tokenId startDate =
     withR (service_getCapabilities E tokenId) (\<lambda>capabilities.
     withR (check_accounts E targetsId) (\<lambda>_.
       respond (ta_revokeRoles A capabilities targetsId roles startDate)))"

lemma check_accounts_Inr:
  "check_accounts E ids = Inr u \<longleftrightarrow> (\<forall>i\<in>set ids. \<exists>a. AccountService_getAccountInfo E i = Inr a)"
proof -
  have "(case r of Inl _ \<Rightarrow> True | Inr _ \<Rightarrow> False) \<longleftrightarrow> (\<nexists>a. r = Inr a)" for r :: "account result"
    by (cases r) simp_all
  then show ?thesis by (simp add: check_accounts_def unknown_accounts_def filter_empty_conv)
qed

end
