(* ===== verification/Admin_Commands.thy ===== *)
theory Admin_Commands
  imports Token_Commands
begin

text \<open>
  The handlers of \<open>sdk/src/app/usecase/command/stablecoin\<close> under \<open>fees\<close>, \<open>management\<close>, \<open>update\<close> and
  \<open>backend\<close>.
\<close>

section \<open>Custom fees\<close>

text \<open>A collector of fees must be associated with the token, not frozen and not without KYC.\<close>

definition check_collector :: "env \<Rightarrow> hedera_id \<Rightarrow> hedera_id \<Rightarrow> unit result" where
  "check_collector E collectorId tokenId =
     bindR (require_relation E collectorId collectorId tokenId) (check_active collectorId)"

definition add_fee_checks ::
  "env \<Rightarrow> hedera_id \<Rightarrow> hedera_id \<Rightarrow> (stable_coin_capabilities \<times> h_custom_fee list) result" where
  "add_fee_checks E tokenId collectorId =
     bindR (service_getCapabilities E tokenId) (\<lambda>capabilities.
     bindR (StableCoinService_get E tokenId) (\<lambda>stableCoin.
     bindR (check_collector E collectorId tokenId) (\<lambda>_.
       Inr (capabilities, fromCustomFeesToHCustomFees (env_lib E) (sc_customFees stableCoin)))))"

definition addFixedFees_handler ::
  "env \<Rightarrow> 'e tx_adapter \<Rightarrow> hedera_id \<Rightarrow> hedera_id \<Rightarrow> hedera_id \<Rightarrow> big_decimal \<Rightarrow> bool \<Rightarrow> ('e, command_response) io" where
  "addFixedFees_handler E A tokenId collectorId tokenIdCollected amount collectorsExempt =
     withR (add_fee_checks E tokenId collectorId) (\<lambda>(capabilities, HcustomFee).
       let customFeeToAdd =
             HCustomFixedFee (toLong (env_lib E) amount) (id_value collectorId) collectorsExempt
               (if id_isNull tokenIdCollected then None else Some (id_value tokenIdCollected))
       in respond (ta_updateCustomFees A capabilities (HcustomFee @ [customFeeToAdd])))"

definition addFractionalFees_handler ::
  "env \<Rightarrow> 'e tx_adapter \<Rightarrow> hedera_id \<Rightarrow> hedera_id \<Rightarrow> int \<Rightarrow> int \<Rightarrow> big_decimal \<Rightarrow> big_decimal \<Rightarrow> bool \<Rightarrow> bool \<Rightarrow>
     ('e, command_response) io" where
  "addFractionalFees_handler E A tokenId collectorId amountNumerator amountDenominator mn mx net collectorsExempt =
     withR (add_fee_checks E tokenId collectorId) (\<lambda>(capabilities, HcustomFee).
       let customFeeToAdd =
             HCustomFractionalFee amountNumerator amountDenominator (toLong (env_lib E) mn)
               (Some (toLong (env_lib E) mx)) net (id_value collectorId) collectorsExempt
       in respond (ta_updateCustomFees A capabilities (HcustomFee @ [customFeeToAdd])))"

definition check_fee_collector :: "env \<Rightarrow> hedera_id \<Rightarrow> custom_fee \<Rightarrow> unit result" where
  "check_fee_collector E tokenId customFee =
     (case fee_collectorId customFee of
        None \<Rightarrow> Inl (CommandError (CustomFeeWithoutCollectorId (id_value tokenId)))
      | Some collectorId \<Rightarrow> check_collector E collectorId tokenId)"

definition updateCustomFees_handler ::
  "env \<Rightarrow> 'e tx_adapter \<Rightarrow> hedera_id \<Rightarrow> custom_fee list \<Rightarrow> ('e, command_response) io" where
  "updateCustomFees_handler E A tokenId customFees =
     withR (service_getCapabilities E tokenId) (\<lambda>capabilities.
     withR (mapR (check_fee_collector E tokenId) customFees) (\<lambda>_.
       respond (ta_updateCustomFees A capabilities
         (fromCustomFeesToHCustomFees (env_lib E) (Some customFees)))))"

section \<open>Configuration and token update\<close>

definition updateConfigVersion_handler ::
  "env \<Rightarrow> 'e tx_adapter \<Rightarrow> hedera_id \<Rightarrow> int \<Rightarrow> ('e, command_response) io" where
  "updateConfigVersion_handler E A tokenId configVersion =
     withR (service_getCapabilities E tokenId) (\<lambda>capabilities.
       respond (ta_updateConfigVersion A capabilities configVersion))"

definition updateConfig_handler ::
  "env \<Rightarrow> 'e tx_adapter \<Rightarrow> hedera_id \<Rightarrow> string \<Rightarrow> int \<Rightarrow> ('e, command_response) io" where
  "updateConfig_handler E A tokenId configId configVersion =
     withR (service_getCapabilities E tokenId) (\<lambda>capabilities.
       respond (ta_updateConfig A capabilities configId configVersion))"

definition updateResolver_handler ::
  "env \<Rightarrow> 'e tx_adapter \<Rightarrow> hedera_id \<Rightarrow> string \<Rightarrow> int \<Rightarrow> contract_id \<Rightarrow> ('e, command_response) io" where
  "updateResolver_handler E A tokenId configId configVersion resolver =
     withR (service_getCapabilities E tokenId) (\<lambda>capabilities.
       respond (ta_updateResolver A capabilities resolver configVersion configId))"

definition update_handler ::
  "env \<Rightarrow> 'e tx_adapter \<Rightarrow> hedera_id \<Rightarrow> string option \<Rightarrow> string option \<Rightarrow> int option \<Rightarrow> int option \<Rightarrow>
     public_key option \<Rightarrow> public_key option \<Rightarrow> public_key option \<Rightarrow> public_key option \<Rightarrow> public_key option \<Rightarrow>
     string option \<Rightarrow> ('e, command_response) io" where
  "update_handler E A tokenId name symbol autoRenewPeriod expirationTime kycKey freezeKey feeScheduleKey
       pauseKey wipeKey metadata =
     withR (service_getCapabilities E tokenId) (\<lambda>capabilities.
       respond (ta_update A capabilities name symbol autoRenewPeriod expirationTime kycKey freezeKey
         feeScheduleKey pauseKey wipeKey metadata))"

section \<open>Multisignature transactions\<close>

text \<open>
  \<open>bodyBytes\<close> is the SDK's deserialisation of a stored message on a network, up to the bytes of its
  first signed transaction (\<open>None\<close> when there are none); \<open>sign\<close> is the adapter's \<open>sign\<close>, which gets
  the stored message (client and WalletConnect adapters) or the hexadecimal body (the others).
\<close>

datatype sign_input = SignTransaction "byte list" | SignBytes string

definition sign_handler ::
  "(byte list \<Rightarrow> string \<Rightarrow> byte list option result) \<Rightarrow> bool \<Rightarrow> (sign_input \<Rightarrow> string result) \<Rightarrow>
     http_client \<Rightarrow> account \<Rightarrow> string \<Rightarrow> (adapter_event, command_response) io" where
  "sign_handler bodyBytes signsTransactions sign http account transactionId =
     (case acc_publicKey account of
        None \<Rightarrow> throw (JsError ''No public key found in the account'')
      | Some publicKey \<Rightarrow>
          bindIO (backend_getTransaction http transactionId) (\<lambda>transaction.
            let message = toUint8Array (mst_transaction_message transaction) in
            withR (bodyBytes message (mst_network transaction)) (\<lambda>body.
              case body of
                None \<Rightarrow> ret (False, None)
              | Some bytesToSign \<Rightarrow>
                  withR (sign (if signsTransactions then SignTransaction message
                               else SignBytes (fromUint8Array bytesToSign))) (\<lambda>signature.
                  bindIO (backend_signTransaction http transactionId signature (pk_key publicKey)) (\<lambda>_.
                    ret (True, Some transactionId))))))"

definition remove_handler :: "http_client \<Rightarrow> string \<Rightarrow> (adapter_event, command_response) io" where
  "remove_handler http transactionId =
     bindIO (backend_deleteTransaction http transactionId) (\<lambda>_. ret (True, Some transactionId))"

text \<open>
  \<open>SubmitCommandHandler\<close>: \<open>addSignatures\<close> is the SDK's deserialisation of the message and the
  addition of the signatures of the keys; \<open>submit\<close> is the adapter's method.
\<close>

definition submit_handler ::
  "(byte list \<Rightarrow> (string \<times> byte list) list \<Rightarrow> 'tx result) \<Rightarrow> ('tx \<Rightarrow> (adapter_event, unit) io) \<Rightarrow>
     http_client \<Rightarrow> string \<Rightarrow> (adapter_event, command_response) io" where
  "submit_handler addSignatures submit http transactionId =
     bindIO (backend_getTransaction http transactionId) (\<lambda>transaction.
       if length (mst_signatures transaction) \<noteq> length (mst_signed_keys transaction)
       then throw (JsError (''Unexpected error when submiting transaction : number of signatures '' @
              ''should equal number of signed keys''))
       else
         withR (addSignatures (toUint8Array (mst_transaction_message transaction))
                  (zip (mst_signed_keys transaction) (map toUint8Array (mst_signatures transaction)))) (\<lambda>tx.
         bindIO (submit tx) (\<lambda>_.
         bindIO (backend_updateTransaction http transactionId ''EXECUTED'') (\<lambda>_.
           ret (True, Some transactionId)))))"

end
