(* ===== verification/Create_Command.thy ===== *)
theory Create_Command
  imports Token_Commands
begin

text \<open>
  \<open>sdk/src/app/usecase/command/stablecoin/create/CreateCommandHandler.ts\<close>: the creation of a
  stablecoin through the factory contract, and the reading of the identifiers of the new token, its
  proxy and its reserve from the contract's results.
\<close>

definition TOPICS_IN_FACTORY_RESULT :: nat where "TOPICS_IN_FACTORY_RESULT = 3"
definition BYTES_32_LENGTH :: nat where "BYTES_32_LENGTH = 64"
definition ADDRESS_LENGTH :: nat where "ADDRESS_LENGTH = 40"

definition invalid_request :: "string \<Rightarrow> 'a result" where
  "invalid_request m = Inl (CommandError (InvalidRequest m))"

text \<open>The fields of the command that must be present; an empty string counts as missing.\<close>

record create_command =
  cr_coin :: stable_coin
  cr_createReserve :: bool
  cr_factory :: "contract_id option"
  cr_reserveAddress :: "contract_id option"
  cr_updatedAtThreshold :: "string option"
  cr_reserveInitialAmount :: "big_decimal option"
  cr_proxyOwnerAccount :: "hedera_id option"
  cr_resolver :: "contract_id option"
  cr_configId :: "string option"
  cr_configVersion :: "int option"
  cr_reserveConfigVersion :: "int option"
  cr_reserveConfigId :: "string option"

definition missing :: "string option \<Rightarrow> bool" where
  "missing s \<longleftrightarrow> s = None \<or> s = Some []"

definition create_required ::
  "create_command \<Rightarrow> (contract_id \<times> contract_id \<times> string \<times> hedera_id \<times> int) result" where
  "create_required c =
     (case cr_factory c of None \<Rightarrow> invalid_request ''Factory not found in request'' | Some factory \<Rightarrow>
     (case cr_resolver c of None \<Rightarrow> invalid_request ''Resolver not found in request'' | Some resolver \<Rightarrow>
     (if missing (cr_configId c) then invalid_request ''Config Id not found in request'' else
     (case cr_proxyOwnerAccount c of
        None \<Rightarrow> invalid_request ''Proxy Owner Account not found in request'' | Some owner \<Rightarrow>
     (case cr_configVersion c of
        None \<Rightarrow> invalid_request ''Config Version not found in request'' | Some configVersion \<Rightarrow>
     (if cr_createReserve c \<and> (missing (cr_reserveConfigId c) \<or> cr_reserveConfigVersion c = None)
      then invalid_request ''Cannot create reserve without reserve config id and version''
      else Inr (factory, resolver, the (cr_configId c), owner, configVersion)))))))"

definition create_check_max :: "env \<Rightarrow> stable_coin \<Rightarrow> unit result" where
  "create_check_max E coin =
     (case (sc_maxSupply coin, sc_initialSupply coin) of
        (Some maxSupply, Some initialSupply) \<Rightarrow>
          if isGreaterThan (env_lib E) initialSupply maxSupply
          then not_allowed ''Initial supply cannot be more than the max supply'' else Inr ()
      | _ \<Rightarrow> Inr ())"

text \<open>\<open>a.setDecimals(d).isGreaterThan(b.setDecimals(d))\<close>\<close>

definition exceeds_at :: "env \<Rightarrow> nat \<Rightarrow> big_decimal \<Rightarrow> big_decimal \<Rightarrow> bool result" where
  "exceeds_at E d a b =
     bindR (setDecimals (env_lib E) a d) (\<lambda>a'.
     bindR (setDecimals (env_lib E) b d) (\<lambda>b'.
       Inr (isGreaterThan (env_lib E) a' b')))"

text \<open>
  The amount of an existing reserve. The second element of the round's data is the answer; a data
  array that is too short makes \<open>toString\<close> of \<open>undefined\<close> throw.
\<close>

definition create_reserve_amount :: "env \<Rightarrow> contract_id \<Rightarrow> big_decimal result" where
  "create_reserve_amount E reserveAddress =
     bindR (mn_getContractInfo E (contract_value reserveAddress)) (\<lambda>info.
     bindR (new_EvmAddress (ci_evmAddress info)) (\<lambda>evm.
     bindR (q_getReserveLatestRoundData E evm) (\<lambda>round.
       case round of
         _ # answer # _ \<Rightarrow> fromStringFixed (env_lib E) (int_str answer) RESERVE_DECIMALS
       | _ \<Rightarrow> Inl TypeError)))"

definition create_check_existing :: "env \<Rightarrow> big_decimal \<Rightarrow> nat \<Rightarrow> contract_id option \<Rightarrow> unit result" where
  "create_check_existing E initialSupply commonDecimals reserveAddress =
     (case reserveAddress of
        None \<Rightarrow> Inr ()
      | Some address \<Rightarrow>
          bindR (create_reserve_amount E address) (\<lambda>reserveAmount.
          bindR (exceeds_at E commonDecimals initialSupply reserveAmount) (\<lambda>more.
            if more then not_allowed ''Initial supply cannot be more than the reserve initial amount''
            else Inr ())))"

definition create_check_reserve :: "env \<Rightarrow> create_command \<Rightarrow> unit result" where
  "create_check_reserve E c =
     (let coin = cr_coin c; commonDecimals = max RESERVE_DECIMALS (sc_decimals coin) in
      case sc_initialSupply coin of
        None \<Rightarrow> Inr ()
      | Some initialSupply \<Rightarrow>
          bindR (case (cr_createReserve c, cr_reserveInitialAmount c) of
                   (True, Some amount) \<Rightarrow> exceeds_at E commonDecimals initialSupply amount
                 | _ \<Rightarrow> Inr False) (\<lambda>more.
            if more then not_allowed ''Initial supply cannot be more than the reserve initial amount''
            else create_check_existing E initialSupply commonDecimals (cr_reserveAddress c)))"

section \<open>The result of the factory\<close>

definition factory_address :: "string \<Rightarrow> string" where
  "factory_address r = ''0x'' @ js_substring r (BYTES_32_LENGTH - ADDRESS_LENGTH + 2) (length r)"

text \<open>
  \<open>fromEvm\<close> and \<open>fromString\<close> are \<open>HContractId.fromEvmAddress(0, 0, a)\<close> and \<open>HContractId.fromString\<close>
  of the SDK, followed by its \<open>toString\<close>.
\<close>

definition contract_or_null ::
  "(string \<Rightarrow> string result) \<Rightarrow> env \<Rightarrow> string \<Rightarrow> contract_id result" where
  "contract_or_null fromString E address =
     (if address = EVM_ZERO_ADDRESS then new_ContractId ''0.0.0''
      else bindR (mn_getContractInfo E address) (\<lambda>info.
           bindR (fromString (ci_id info)) new_ContractId))"

definition create_results ::
  "(string \<Rightarrow> string result) \<Rightarrow> (string \<Rightarrow> string result) \<Rightarrow> env \<Rightarrow> string \<Rightarrow>
     (contract_id \<times> contract_id \<times> contract_id) result" where
  "create_results fromEvm fromString E resId =
     bindR (mn_getContractResults E resId TOPICS_IN_FACTORY_RESULT) (\<lambda>results.
       case map_option (map factory_address) results of
         Some [d0, d1, d2] \<Rightarrow>
           bindR (bindR (fromEvm d1) new_ContractId) (\<lambda>tokenId.
           bindR (contract_or_null fromString E d0) (\<lambda>proxy.
           bindR (contract_or_null fromString E d2) (\<lambda>reserve. Inr (tokenId, proxy, reserve))))
       | _ \<Rightarrow> Inl (JsError ''Invalid data structure''))"

definition create_response ::
  "(string \<Rightarrow> string result) \<Rightarrow> (string \<Rightarrow> string result) \<Rightarrow> env \<Rightarrow> string \<Rightarrow>
     contract_id \<times> contract_id \<times> contract_id" where
  "create_response fromEvm fromString E resId =
     (case create_results fromEvm fromString E resId of
        Inr r \<Rightarrow> r
      | Inl _ \<Rightarrow> (ContractId ''0.0.0'', ContractId ''0.0.0'', ContractId ''0.0.0''))"

section \<open>The handler\<close>

definition create_handler ::
  "(string \<Rightarrow> string result) \<Rightarrow> (string \<Rightarrow> string result) \<Rightarrow> env \<Rightarrow> 'e tx_adapter \<Rightarrow> create_command \<Rightarrow>
     ('e, contract_id \<times> contract_id \<times> contract_id) io" where
  "create_handler fromEvm fromString E A c =
     withR (create_required c) (\<lambda>(factory, resolver, configId, owner, configVersion).
     withR (create_check_max E (cr_coin c)) (\<lambda>_.
     withR (create_check_reserve E c) (\<lambda>_.
     bindIO (ta_create A (new_StableCoin (env_lib E) (cr_coin c)) factory (cr_createReserve c) resolver
               configId configVersion owner
               (if missing (cr_updatedAtThreshold c) then ''0'' else the (cr_updatedAtThreshold c))
               (cr_reserveAddress c) (cr_reserveInitialAmount c) (cr_reserveConfigId c)
               (cr_reserveConfigVersion c)) (\<lambda>res.
       if missing (res_id res) then throw (JsError ''Create Command Handler response id empty'')
       else ret (create_response fromEvm fromString E (the (res_id res)))))))"

end
