(* ===== verification/Input_Ports.thy ===== *)
theory Input_Ports
  imports Requests Hold_Commands Role_Commands Admin_Commands Create_Command
begin

text \<open>
  The input ports of \<open>sdk/src/port/in\<close>, which an application calls: \<open>StableCoin\<close>, \<open>Role\<close>, \<open>CustomFees\<close>,
  \<open>Account\<close>, \<open>Management\<close> and \<open>ReserveDataFeed\<close>. A definition \<open>port_x\<close> is the method \<open>x\<close>, over the arguments
  of its request: the validation, the identifiers, and the command or the query that its handler
  executes. The buses only look up the handler; the decorator \<open>LogError\<close> rethrows. A
  \<open>TransactionResult\<close> is the pair of its two fields, a \<open>Balance\<close> its value.
\<close>

section \<open>Validation\<close>

definition handleValidation :: "string \<Rightarrow> request \<Rightarrow> unit result" where
  "handleValidation name req =
     (let validation = validate req None
      in if validation \<noteq> [] then Inl (ValidationError name validation) else Inr ())"

definition validated :: "string \<Rightarrow> request \<Rightarrow> ('e, 'a) io \<Rightarrow> ('e, 'a) io" where
  "validated name req m = withR (handleValidation name req) (\<lambda>_. m)"

definition validatedR :: "string \<Rightarrow> request \<Rightarrow> 'a result \<Rightarrow> 'a result" where
  "validatedR name req r = bindR (handleValidation name req) (\<lambda>_. r)"

text \<open>\<open>HederaId.from\<close> of one, two or three arguments, and \<open>new ContractId\<close>.\<close>

definition with_id :: "string \<Rightarrow> (hedera_id \<Rightarrow> ('e, 'a) io) \<Rightarrow> ('e, 'a) io" where
  "with_id i f = withR (HederaId_from (Some i)) f"

definition with_ids :: "string \<Rightarrow> string \<Rightarrow> (hedera_id \<Rightarrow> hedera_id \<Rightarrow> ('e, 'a) io) \<Rightarrow> ('e, 'a) io" where
  "with_ids i j f = with_id i (\<lambda>x. with_id j (f x))"

definition optional_id :: "string option \<Rightarrow> hedera_id option result" where
  "optional_id i =
     (if provided i then bindR (HederaId_from i) (\<lambda>x. Inr (Some x)) else Inr None)"

definition ids_from :: "string list \<Rightarrow> hedera_id list result" where
  "ids_from is = mapR (\<lambda>i. HederaId_from (Some i)) is"

definition queried ::
  "string \<Rightarrow> (hedera_id \<Rightarrow> 'a result) \<Rightarrow> 'a result" where
  "queried i f = bindR (HederaId_from (Some i)) f"

definition queried2 :: "string \<Rightarrow> string \<Rightarrow> (hedera_id \<Rightarrow> hedera_id \<Rightarrow> 'a result) \<Rightarrow> 'a result" where
  "queried2 i j f = queried i (\<lambda>x. queried j (f x))"

section \<open>StableCoin: cash and account operations\<close>

definition port_cashIn ::
  "request_lib \<Rightarrow> env \<Rightarrow> 'e tx_adapter \<Rightarrow> string \<Rightarrow> string \<Rightarrow> string \<Rightarrow> string option \<Rightarrow> ('e, command_response) io" where
  "port_cashIn V E A tokenId amount targetId startDate =
     validated ''CashInRequest'' (CashInRequest V amount targetId tokenId startDate)
      (with_ids targetId tokenId (\<lambda>target token. cashIn_handler E A amount target token startDate))"

definition port_burn ::
  "request_lib \<Rightarrow> env \<Rightarrow> 'e tx_adapter \<Rightarrow> string \<Rightarrow> string \<Rightarrow> string option \<Rightarrow> ('e, command_response) io" where
  "port_burn V E A tokenId amount startDate =
     validated ''BurnRequest'' (BurnRequest V amount tokenId startDate)
      (with_id tokenId (\<lambda>token. burn_handler E A amount token startDate))"

definition port_rescue ::
  "request_lib \<Rightarrow> env \<Rightarrow> 'e tx_adapter \<Rightarrow> string \<Rightarrow> string \<Rightarrow> string option \<Rightarrow> ('e, command_response) io" where
  "port_rescue V E A tokenId amount startDate =
     validated ''RescueRequest'' (RescueRequest V tokenId amount startDate)
      (with_id tokenId (\<lambda>token. rescue_handler E A amount token startDate))"

definition port_rescueHBAR ::
  "request_lib \<Rightarrow> env \<Rightarrow> 'e tx_adapter \<Rightarrow> string \<Rightarrow> string \<Rightarrow> string option \<Rightarrow> ('e, command_response) io" where
  "port_rescueHBAR V E A tokenId amount startDate =
     validated ''RescueHBARRequest'' (RescueHBARRequest V tokenId amount startDate)
      (with_id tokenId (\<lambda>token. rescueHBAR_handler E A amount token startDate))"

definition port_wipe ::
  "request_lib \<Rightarrow> env \<Rightarrow> 'e tx_adapter \<Rightarrow> string \<Rightarrow> string \<Rightarrow> string \<Rightarrow> string option \<Rightarrow> ('e, command_response) io" where
  "port_wipe V E A tokenId amount targetId startDate =
     validated ''WipeRequest'' (WipeRequest V amount targetId tokenId startDate)
      (with_ids targetId tokenId (\<lambda>target token. wipe_handler E A amount target token startDate))"

definition port_associate ::
  "env \<Rightarrow> 'e tx_adapter \<Rightarrow> string \<Rightarrow> string \<Rightarrow> ('e, command_response) io" where
  "port_associate E A tokenId targetId =
     validated ''AssociateTokenRequest'' (AssociateTokenRequest targetId tokenId)
      (with_ids targetId tokenId (\<lambda>target token. associate_handler E A target token))"

definition port_pause ::
  "request_lib \<Rightarrow> env \<Rightarrow> 'e tx_adapter \<Rightarrow> string \<Rightarrow> string option \<Rightarrow> ('e, command_response) io" where
  "port_pause V E A tokenId startDate =
     validated ''PauseRequest'' (PauseRequest V tokenId startDate)
      (with_id tokenId (\<lambda>token. pause_handler E A token startDate))"

definition port_unPause ::
  "request_lib \<Rightarrow> env \<Rightarrow> 'e tx_adapter \<Rightarrow> string \<Rightarrow> string option \<Rightarrow> ('e, command_response) io" where
  "port_unPause V E A tokenId startDate =
     validated ''PauseRequest'' (PauseRequest V tokenId startDate)
      (with_id tokenId (\<lambda>token. unpause_handler E A token startDate))"

definition port_delete ::
  "request_lib \<Rightarrow> env \<Rightarrow> 'e tx_adapter \<Rightarrow> string \<Rightarrow> string option \<Rightarrow> ('e, command_response) io" where
  "port_delete V E A tokenId startDate =
     validated ''DeleteRequest'' (DeleteRequest V tokenId startDate)
      (with_id tokenId (\<lambda>token. delete_handler E A token startDate))"

definition port_freeze ::
  "request_lib \<Rightarrow> env \<Rightarrow> 'e tx_adapter \<Rightarrow> string \<Rightarrow> string \<Rightarrow> string option \<Rightarrow> ('e, command_response) io" where
  "port_freeze V E A tokenId targetId startDate =
     validated ''FreezeAccountRequest'' (FreezeAccountRequest V tokenId targetId startDate)
      (with_ids targetId tokenId (\<lambda>target token. freeze_handler E A target token startDate))"

definition port_unFreeze ::
  "request_lib \<Rightarrow> env \<Rightarrow> 'e tx_adapter \<Rightarrow> string \<Rightarrow> string \<Rightarrow> string option \<Rightarrow> ('e, command_response) io" where
  "port_unFreeze V E A tokenId targetId startDate =
     validated ''FreezeAccountRequest'' (FreezeAccountRequest V tokenId targetId startDate)
      (with_ids targetId tokenId (\<lambda>target token. unfreeze_handler E A target token startDate))"

text \<open>\<open>Es n\<close> is the network at the \<open>n\<close>-th attempt of the command. The start date is validated and not used.\<close>

definition port_grantKyc ::
  "request_lib \<Rightarrow> (nat \<Rightarrow> env) \<Rightarrow> 'e tx_adapter \<Rightarrow> string \<Rightarrow> string \<Rightarrow> string option \<Rightarrow> ('e, command_response) io" where
  "port_grantKyc V Es A tokenId targetId startDate =
     validated ''KYCRequest'' (KYCRequest V targetId tokenId startDate)
      (with_ids targetId tokenId (\<lambda>target token. grantKyc_handler Es A target token))"

definition port_revokeKyc ::
  "request_lib \<Rightarrow> env \<Rightarrow> 'e tx_adapter \<Rightarrow> string \<Rightarrow> string \<Rightarrow> string option \<Rightarrow> ('e, command_response) io" where
  "port_revokeKyc V E A tokenId targetId startDate =
     validated ''KYCRequest'' (KYCRequest V targetId tokenId startDate)
      (with_ids targetId tokenId (\<lambda>target token. revokeKyc_handler E A target token))"

definition port_transfers ::
  "request_lib \<Rightarrow> env \<Rightarrow> 'e tx_adapter \<Rightarrow> string \<Rightarrow> string list \<Rightarrow> string list \<Rightarrow> string \<Rightarrow>
     ('e, command_response) io" where
  "port_transfers V E A tokenId targetsId amounts targetId =
     validated ''TransfersRequest'' (TransfersRequest V targetsId amounts tokenId targetId)
      (withR (ids_from targetsId) (\<lambda>targets.
       with_ids tokenId targetId (\<lambda>token target. transfers_handler E A amounts targets token target)))"

definition port_updateReserveAddress ::
  "request_lib \<Rightarrow> env \<Rightarrow> 'e tx_adapter \<Rightarrow> string \<Rightarrow> string \<Rightarrow> ('e, command_response) io" where
  "port_updateReserveAddress V E A tokenId reserveAddress =
     validated ''UpdateReserveAddressRequest'' (UpdateReserveAddressRequest V tokenId reserveAddress)
      (withR (mn_getContractInfo E reserveAddress) (\<lambda>info.
       with_id tokenId (\<lambda>token.
       withR (new_ContractId (ci_id info)) (\<lambda>reserve. updateReserveAddress_handler E A token reserve))))"

section \<open>StableCoin: holds\<close>

definition port_createHold ::
  "request_lib \<Rightarrow> env \<Rightarrow> 'e tx_adapter \<Rightarrow> string \<Rightarrow> string option \<Rightarrow> string \<Rightarrow> string \<Rightarrow> string \<Rightarrow>
     ('e, int option \<times> command_response) io" where
  "port_createHold V E A tokenId targetId amount expirationDate escrow =
     validated ''CreateHoldRequest'' (CreateHoldRequest V tokenId amount escrow expirationDate targetId)
      (with_ids tokenId escrow (\<lambda>token escrowAccount.
       withR (optional_id targetId) (\<lambda>target.
         createHold_handler E A token amount escrowAccount expirationDate target)))"

definition port_createHoldByController ::
  "request_lib \<Rightarrow> env \<Rightarrow> 'e tx_adapter \<Rightarrow> string \<Rightarrow> string option \<Rightarrow> string \<Rightarrow> string \<Rightarrow> string \<Rightarrow> string \<Rightarrow>
     ('e, int option \<times> command_response) io" where
  "port_createHoldByController V E A tokenId targetId sourceId amount expirationDate escrow =
     validated ''CreateHoldByControllerRequest''
       (CreateHoldByControllerRequest V tokenId amount escrow expirationDate sourceId targetId)
      (with_ids tokenId sourceId (\<lambda>token source.
       with_id escrow (\<lambda>escrowAccount.
       withR (optional_id targetId) (\<lambda>target.
         createHoldByController_handler E A token source amount escrowAccount expirationDate target))))"

definition port_executeHold ::
  "request_lib \<Rightarrow> env \<Rightarrow> 'e tx_adapter \<Rightarrow> string \<Rightarrow> string option \<Rightarrow> string \<Rightarrow> string \<Rightarrow> int \<Rightarrow>
     ('e, command_response) io" where
  "port_executeHold V E A tokenId targetId amount sourceId holdId =
     validated ''ExecuteHoldRequest'' (ExecuteHoldRequest V tokenId amount sourceId holdId targetId)
      (with_ids tokenId sourceId (\<lambda>token source.
       withR (optional_id targetId) (\<lambda>target. executeHold_handler E A token holdId source amount target)))"

definition port_releaseHold ::
  "request_lib \<Rightarrow> env \<Rightarrow> 'e tx_adapter \<Rightarrow> string \<Rightarrow> string \<Rightarrow> string \<Rightarrow> int \<Rightarrow> ('e, command_response) io" where
  "port_releaseHold V E A tokenId amount sourceId holdId =
     validated ''ReleaseHoldRequest'' (ReleaseHoldRequest V tokenId amount sourceId holdId)
      (with_ids tokenId sourceId (\<lambda>token source. releaseHold_handler E A token holdId source amount))"

definition port_reclaimHold ::
  "request_lib \<Rightarrow> env \<Rightarrow> 'e tx_adapter \<Rightarrow> string \<Rightarrow> string \<Rightarrow> int \<Rightarrow> ('e, command_response) io" where
  "port_reclaimHold V E A tokenId sourceId holdId =
     validated ''ReclaimHoldRequest'' (ReclaimHoldRequest V tokenId sourceId holdId)
      (with_ids tokenId sourceId (\<lambda>token source. reclaimHold_handler E A token holdId source))"

text \<open>\<open>toHederaId\<close> is the mirror node's \<open>accountEvmAddressToHederaId\<close>. The date is in milliseconds.\<close>

record hold_view =
  hv_id :: int
  hv_amount :: string
  hv_expirationDate :: int
  hv_tokenHolderAddress :: string
  hv_escrowAddress :: string
  hv_destinationAddress :: string
  hv_data :: string

definition port_getHoldFor ::
  "request_lib \<Rightarrow> env \<Rightarrow> (string \<Rightarrow> string result) \<Rightarrow> string \<Rightarrow> string \<Rightarrow> int \<Rightarrow> hold_view result" where
  "port_getHoldFor V E toHederaId tokenId sourceId holdId =
     validatedR ''GetHoldForRequest'' (GetHoldForRequest V tokenId sourceId holdId)
      (queried2 tokenId sourceId (\<lambda>token source.
       bindR (getHoldForQuery E token source holdId) (\<lambda>res.
       bindR (toHederaId (hd_tokenHolderAddress res)) (\<lambda>holder.
       bindR (toHederaId (hd_escrowAddress res)) (\<lambda>escrow.
       bindR (toHederaId (hd_destinationAddress res)) (\<lambda>destination.
         Inr \<lparr>hv_id = holdId, hv_amount = bd_toString (env_lib E) (hd_amount res),
              hv_expirationDate = hd_expirationTimeStamp res * 1000, hv_tokenHolderAddress = holder,
              hv_escrowAddress = escrow, hv_destinationAddress = destination, hv_data = hd_data res\<rparr>))))))"

definition port_getHoldCountFor :: "env \<Rightarrow> string \<Rightarrow> string \<Rightarrow> int result" where
  "port_getHoldCountFor E tokenId sourceId =
     validatedR ''GetHoldCountForRequest'' (GetHoldCountForRequest tokenId sourceId)
      (queried2 tokenId sourceId (getHoldCountForQuery E))"

definition port_getHoldsIdFor ::
  "request_lib \<Rightarrow> env \<Rightarrow> string \<Rightarrow> string \<Rightarrow> int \<Rightarrow> int \<Rightarrow> int list result" where
  "port_getHoldsIdFor V E tokenId sourceId start stop =
     validatedR ''GetHoldsIdForRequest'' (GetHoldsIdForRequest V tokenId sourceId start stop)
      (queried2 tokenId sourceId (\<lambda>token source. getHoldsIdForQuery E token source start stop))"

definition port_getHeldAmountFor :: "env \<Rightarrow> string \<Rightarrow> string \<Rightarrow> big_decimal result" where
  "port_getHeldAmountFor E tokenId sourceId =
     validatedR ''GetHeldAmountForRequest'' (GetHeldAmountForRequest tokenId sourceId)
      (queried2 tokenId sourceId (getHeldAmountForQuery E))"

section \<open>StableCoin: queries\<close>

definition port_getInfo :: "env \<Rightarrow> string \<Rightarrow> coin_view result" where
  "port_getInfo E i =
     validatedR ''GetStableCoinDetailsRequest'' (GetStableCoinDetailsRequest i) (queried i (getStableCoinQuery E))"

definition port_getBalanceOf :: "env \<Rightarrow> string \<Rightarrow> string \<Rightarrow> big_decimal result" where
  "port_getBalanceOf E tokenId targetId =
     validatedR ''GetAccountBalanceRequest'' (GetAccountBalanceRequest tokenId targetId)
      (queried2 tokenId targetId (balanceOfQuery E))"

definition port_getBalanceOfHBAR :: "env \<Rightarrow> string \<Rightarrow> big_decimal result" where
  "port_getBalanceOfHBAR E treasuryAccountId =
     validatedR ''GetAccountBalanceHBARRequest'' (GetAccountBalanceHBARRequest treasuryAccountId)
      (queried treasuryAccountId (balanceOfHBARQuery E))"

definition port_relation ::
  "env \<Rightarrow> string \<Rightarrow> string \<Rightarrow> (account_token_relation option \<Rightarrow> bool) \<Rightarrow> bool result" where
  "port_relation E targetId tokenId f =
     queried2 targetId tokenId (\<lambda>target token.
       bindR (getAccountTokenRelationshipQuery E target token) (\<lambda>r. Inr (f r)))"

definition port_isAccountFrozen ::
  "request_lib \<Rightarrow> env \<Rightarrow> string \<Rightarrow> string \<Rightarrow> string option \<Rightarrow> bool result" where
  "port_isAccountFrozen V E tokenId targetId startDate =
     validatedR ''FreezeAccountRequest'' (FreezeAccountRequest V tokenId targetId startDate)
      (port_relation E targetId tokenId (\<lambda>r. case r of None \<Rightarrow> False | Some t \<Rightarrow> tr_freezeStatus t = Some FROZEN))"

definition port_isAccountKYCGranted ::
  "request_lib \<Rightarrow> env \<Rightarrow> string \<Rightarrow> string \<Rightarrow> string option \<Rightarrow> bool result" where
  "port_isAccountKYCGranted V E tokenId targetId startDate =
     validatedR ''KYCRequest'' (KYCRequest V targetId tokenId startDate)
      (port_relation E targetId tokenId (\<lambda>r. case r of None \<Rightarrow> False | Some t \<Rightarrow> tr_kycStatus t = Some GRANTED))"

definition port_isAccountAssociated :: "env \<Rightarrow> string \<Rightarrow> string \<Rightarrow> bool result" where
  "port_isAccountAssociated E tokenId targetId =
     validatedR ''IsAccountAssociatedTokenRequest'' (IsAccountAssociatedTokenRequest tokenId targetId)
      (port_relation E targetId tokenId (\<lambda>r. r \<noteq> None))"

definition port_getReserveAddress :: "env \<Rightarrow> string \<Rightarrow> string result" where
  "port_getReserveAddress E tokenId =
     validatedR ''GetReserveAddressRequest'' (GetReserveAddressRequest tokenId)
      (queried tokenId (\<lambda>token. bindR (getReserveAddressQuery E token) (\<lambda>c. Inr (contract_value c))))"

text \<open>The capabilities of the request's account, with the identifier that the mirror node has for it.\<close>

definition port_capabilities ::
  "request_lib \<Rightarrow> env \<Rightarrow> request_account \<Rightarrow> string \<Rightarrow> bool option \<Rightarrow> bool option \<Rightarrow>
     stable_coin_capabilities result" where
  "port_capabilities V E account tokenId tokenIsPaused tokenIsDeleted =
     validatedR ''CapabilitiesRequest'' (CapabilitiesRequest V account tokenId tokenIsPaused tokenIsDeleted)
      (queried (ra_accountId account) (\<lambda>accountId.
       bindR (getAccountInfoQuery E accountId) (\<lambda>info.
       bindR (new_Account (case ai_id info of None \<Rightarrow> ra_accountId account | Some i \<Rightarrow> i) None None
                (ai_publicKey info) None) (\<lambda>acc.
       queried tokenId (\<lambda>token.
         getCapabilities (StableCoinService_get E) acc (TargetId token) tokenIsPaused tokenIsDeleted)))))"

section \<open>StableCoin: update and multisignature transactions\<close>

definition request_public_key :: "request_lib \<Rightarrow> request_key option \<Rightarrow> public_key option result" where
  "request_public_key V key =
     (case key of
        None \<Rightarrow> Inr None
      | Some (k, t) \<Rightarrow> bindR (new_PublicKey (rl_sdkType V) (Some k) t) (\<lambda>pk. Inr (Some pk)))"

text \<open>
  \<open>s ? Number(s) : undefined\<close>. After the validation the string has digits only, so that
  \<open>Number\<close> is not \<open>NaN\<close>.
\<close>

definition number_or_undefined :: "string option \<Rightarrow> int option" where
  "number_or_undefined s = (if provided s then js_Number (the s) else None)"

definition port_update ::
  "request_lib \<Rightarrow> env \<Rightarrow> 'e tx_adapter \<Rightarrow> update_request \<Rightarrow> ('e, command_response) io" where
  "port_update V E A r =
     validated ''UpdateRequest'' (UpdateRequest V r)
      (with_id (ru_tokenId r) (\<lambda>token.
       withR (request_public_key V (ru_kycKey r)) (\<lambda>kycKey.
       withR (request_public_key V (ru_freezeKey r)) (\<lambda>freezeKey.
       withR (request_public_key V (ru_feeScheduleKey r)) (\<lambda>feeScheduleKey.
       withR (request_public_key V (ru_pauseKey r)) (\<lambda>pauseKey.
       withR (request_public_key V (ru_wipeKey r)) (\<lambda>wipeKey.
         update_handler E A token (ru_name r) (ru_symbol r) (number_or_undefined (ru_autoRenewPeriod r))
           (number_or_undefined (ru_expirationTimestamp r)) kycKey freezeKey feeScheduleKey pauseKey wipeKey
           (ru_metadata r))))))))"

definition port_signTransaction ::
  "(byte list \<Rightarrow> string \<Rightarrow> byte list option result) \<Rightarrow> bool \<Rightarrow> (sign_input \<Rightarrow> string result) \<Rightarrow>
     http_client \<Rightarrow> account \<Rightarrow> string \<Rightarrow> (adapter_event, command_response) io" where
  "port_signTransaction bodyBytes signsTransactions sign http account transactionId =
     validated ''SignTransactionRequest'' (SignTransactionRequest transactionId)
      (sign_handler bodyBytes signsTransactions sign http account transactionId)"

definition port_submitTransaction ::
  "(byte list \<Rightarrow> (string \<times> byte list) list \<Rightarrow> 'tx result) \<Rightarrow> ('tx \<Rightarrow> (adapter_event, unit) io) \<Rightarrow>
     http_client \<Rightarrow> string \<Rightarrow> (adapter_event, command_response) io" where
  "port_submitTransaction addSignatures submit http transactionId =
     validated ''SubmitTransactionRequest'' (SubmitTransactionRequest transactionId)
      (submit_handler addSignatures submit http transactionId)"

definition port_removeTransaction :: "http_client \<Rightarrow> string \<Rightarrow> (adapter_event, command_response) io" where
  "port_removeTransaction http transactionId =
     validated ''RemoveTransactionRequest'' (RemoveTransactionRequest transactionId)
      (remove_handler http transactionId)"

text \<open>\<open>GetTransactionsQueryHandler\<close> hands the query on with the connected network's name.\<close>

definition port_getTransactions ::
  "request_lib \<Rightarrow> http_client \<Rightarrow> string \<Rightarrow> request_key option \<Rightarrow> int \<Rightarrow> int \<Rightarrow> string option \<Rightarrow> string option \<Rightarrow>
     (adapter_event, multisig_transaction list \<times> pagination) io" where
  "port_getTransactions V http network publicKey page limit status account =
     validated ''GetTransactionsRequest'' (GetTransactionsRequest V (map_option fst publicKey) page limit status account)
      (backend_getTransactions http page limit network (map_option fst publicKey) status account)"

section \<open>StableCoin: creation\<close>

text \<open>\<open>BigDecimal.fromString(s, n)\<close> unless the string is missing or empty.\<close>

definition optional_amount :: "fixed_number_lib \<Rightarrow> string option \<Rightarrow> nat \<Rightarrow> big_decimal option result" where
  "optional_amount L s n =
     (if provided s then bindR (bd_fromString L (the s) (Some n)) (\<lambda>v. Inr (Some v)) else Inr None)"

definition or_text :: "string option \<Rightarrow> string \<Rightarrow> string" where
  "or_text s d = (case s of None \<Rightarrow> d | Some t \<Rightarrow> t)"

definition role_account :: "string option \<Rightarrow> hedera_id result" where
  "role_account i = new_HederaId (or_text i ''0.0.0'')"

definition create_keys ::
  "request_lib \<Rightarrow> create_request \<Rightarrow> (stable_coin \<Rightarrow> stable_coin) result" where
  "create_keys V r =
     bindR (request_public_key V (rc_freezeKey r)) (\<lambda>freezeKey.
     bindR (request_public_key V (rc_wipeKey r)) (\<lambda>wipeKey.
     bindR (request_public_key V (rc_kycKey r)) (\<lambda>kycKey.
     bindR (request_public_key V (rc_pauseKey r)) (\<lambda>pauseKey.
     bindR (request_public_key V (rc_feeScheduleKey r)) (\<lambda>feeScheduleKey.
       Inr (\<lambda>c. c \<lparr>sc_adminKey := Some (KeyPublic PublicKey_NULL), sc_freezeKey := map_option KeyPublic freezeKey,
                  sc_freezeDefault := rc_freezeDefault r, sc_wipeKey := map_option KeyPublic wipeKey,
                  sc_kycKey := map_option KeyPublic kycKey, sc_pauseKey := map_option KeyPublic pauseKey,
                  sc_supplyKey := Some (KeyPublic PublicKey_NULL),
                  sc_feeScheduleKey := map_option KeyPublic feeScheduleKey\<rparr>))))))"

definition create_accounts :: "create_request \<Rightarrow> (stable_coin \<Rightarrow> stable_coin) result" where
  "create_accounts r =
     bindR (role_account (rc_burnRoleAccount r)) (\<lambda>burn.
     bindR (role_account (rc_wipeRoleAccount r)) (\<lambda>wipe.
     bindR (role_account (rc_rescueRoleAccount r)) (\<lambda>rescue.
     bindR (role_account (rc_pauseRoleAccount r)) (\<lambda>pause.
     bindR (role_account (rc_freezeRoleAccount r)) (\<lambda>freeze.
     bindR (role_account (rc_deleteRoleAccount r)) (\<lambda>delete.
     bindR (role_account (rc_kycRoleAccount r)) (\<lambda>kyc.
     bindR (role_account (rc_cashInRoleAccount r)) (\<lambda>cashIn.
     bindR (role_account (rc_feeRoleAccount r)) (\<lambda>fee.
     bindR (role_account (rc_holdCreatorRoleAccount r)) (\<lambda>hold.
       Inr (\<lambda>c. c \<lparr>sc_burnRoleAccount := Some burn, sc_wipeRoleAccount := Some wipe,
                  sc_rescueRoleAccount := Some rescue, sc_pauseRoleAccount := Some pause,
                  sc_freezeRoleAccount := Some freeze, sc_deleteRoleAccount := Some delete,
                  sc_kycRoleAccount := Some kyc, sc_cashInRoleAccount := Some cashIn,
                  sc_feeRoleAccount := Some fee, sc_holdCreatorRoleAccount := Some hold\<rparr>)))))))))))"

definition create_coin :: "request_lib \<Rightarrow> create_request \<Rightarrow> stable_coin result" where
  "create_coin V r =
     (let L = rl_lib V; d = rc_decimals r in
      bindR (bd_fromString L (or_text (rc_initialSupply r) ''0'') (Some d)) (\<lambda>initialSupply.
      bindR (optional_amount L (rc_maxSupply r) d) (\<lambda>maxSupply.
      bindR (create_keys V r) (\<lambda>set_keys.
      bindR (create_accounts r) (\<lambda>set_accounts.
      bindR (bd_fromString L (or_text (rc_cashInRoleAllowance r) ''0'') (Some d)) (\<lambda>allowance.
        Inr (set_accounts (set_keys ((minimal_props (rc_name r) (rc_symbol r) d)
          \<lparr>sc_initialSupply := Some initialSupply, sc_maxSupply := maxSupply, sc_supplyType := rc_supplyType r,
           sc_cashInRoleAllowance := Some allowance, sc_metadata := rc_metadata r\<rparr>)))))))))"

text \<open>A contract by the mirror node's identifier, \<open>undefined\<close> when there is none.\<close>

definition contract_of :: "string \<Rightarrow> contract_id option result" where
  "contract_of i = (if i = [] then Inr None else bindR (new_ContractId i) (\<lambda>c. Inr (Some c)))"

definition port_create_command ::
  "request_lib \<Rightarrow> env \<Rightarrow> string \<Rightarrow> string \<Rightarrow> create_request \<Rightarrow> create_command result" where
  "port_create_command V E factoryAddress resolverAddress r =
     bindR (create_coin V r) (\<lambda>coin.
     bindR (mn_getContractInfo E factoryAddress) (\<lambda>factoryInfo.
     bindR (if provided (rc_reserveAddress r)
            then bindR (mn_getContractInfo E (the (rc_reserveAddress r))) (\<lambda>info. contract_of (ci_id info))
            else Inr None) (\<lambda>reserve.
     bindR (contract_of (ci_id factoryInfo)) (\<lambda>factory.
     bindR (optional_amount (rl_lib V) (rc_reserveInitialAmount r) RESERVE_DECIMALS) (\<lambda>reserveInitialAmount.
     bindR (if provided (rc_proxyOwnerAccount r)
            then bindR (new_HederaId (the (rc_proxyOwnerAccount r))) (\<lambda>i. Inr (Some i)) else Inr None) (\<lambda>owner.
     bindR (contract_of resolverAddress) (\<lambda>resolver.
       Inr \<lparr>cr_coin = coin, cr_createReserve = rc_createReserve r, cr_factory = factory,
            cr_reserveAddress = reserve, cr_updatedAtThreshold = rc_updatedAtThreshold r,
            cr_reserveInitialAmount = reserveInitialAmount, cr_proxyOwnerAccount = owner, cr_resolver = resolver,
            cr_configId = Some (rc_configId r), cr_configVersion = Some (rc_configVersion r),
            cr_reserveConfigVersion = rc_reserveConfigVersion r,
            cr_reserveConfigId = rc_reserveConfigId r\<rparr>)))))))"

definition port_create ::
  "request_lib \<Rightarrow> (string \<Rightarrow> string result) \<Rightarrow> (string \<Rightarrow> string result) \<Rightarrow> env \<Rightarrow> 'e tx_adapter \<Rightarrow> string \<Rightarrow> string \<Rightarrow>
     create_request \<Rightarrow> ('e, coin_view option \<times> contract_id) io" where
  "port_create V fromEvm fromString E A factoryAddress resolverAddress r =
     validated ''CreateRequest'' (CreateRequest V r)
      (withR (port_create_command V E factoryAddress resolverAddress r) (\<lambda>command.
       bindIO (create_handler fromEvm fromString E A command) (\<lambda>(tokenId, _, reserveProxy).
       withR (if contract_value tokenId \<noteq> ''0.0.0''
              then bindR (getStableCoinQuery E (HederaId (contract_value tokenId))) (\<lambda>v. Inr (Some v))
              else Inr None) (\<lambda>coin. ret (coin, reserveProxy)))))"

section \<open>Role\<close>

definition port_hasRole :: "env \<Rightarrow> string \<Rightarrow> string \<Rightarrow> stable_coin_role option \<Rightarrow> bool result" where
  "port_hasRole E tokenId targetId role =
     validatedR ''HasRoleRequest'' (HasRoleRequest tokenId targetId role)
      (bindR (of_option TypeError role) (\<lambda>r. queried2 targetId tokenId (hasRoleQuery E r)))"

text \<open>
  The cash-in role is granted with an allowance exactly when the type is the string \<open>limited\<close>, and
  without limit otherwise. A request whose role is missing does not pass the validation. Without an
  amount the handler of the allowance throws: it reads the capabilities and then the amount.
\<close>

definition port_grantRole ::
  "request_lib \<Rightarrow> env \<Rightarrow> 'e tx_adapter \<Rightarrow> string \<Rightarrow> string \<Rightarrow> stable_coin_role option \<Rightarrow> string option \<Rightarrow>
     string option \<Rightarrow> ('e, command_response) io" where
  "port_grantRole V E A tokenId targetId role supplierType amount =
     validated ''GrantRoleRequest'' (GrantRoleRequest V tokenId targetId role supplierType amount)
      (if role = Some CASHIN_ROLE then
         (if supplierType = Some ''limited''
          then with_ids targetId tokenId (\<lambda>target token.
                 withR (of_option TypeError amount) (\<lambda>a. grantSupplierRole_handler E A target token a))
          else with_ids targetId tokenId (grantUnlimitedSupplierRole_handler E A))
       else withR (of_option TypeError role) (\<lambda>r. with_ids targetId tokenId (grantRole_handler E A r)))"

definition port_revokeRole ::
  "env \<Rightarrow> 'e tx_adapter \<Rightarrow> string \<Rightarrow> string \<Rightarrow> stable_coin_role option \<Rightarrow> ('e, command_response) io" where
  "port_revokeRole E A tokenId targetId role =
     validated ''HasRoleRequest'' (RevokeRoleRequest tokenId targetId role)
      (if role = Some CASHIN_ROLE
       then with_ids targetId tokenId (revokeSupplierRole_handler E A)
       else withR (of_option TypeError role) (\<lambda>r. with_ids targetId tokenId (revokeRole_handler E A r)))"

definition port_grantMultiRoles ::
  "request_lib \<Rightarrow> env \<Rightarrow> 'e tx_adapter \<Rightarrow> string \<Rightarrow> string list \<Rightarrow> stable_coin_role list \<Rightarrow> string list option \<Rightarrow>
     string option \<Rightarrow> ('e, command_response) io" where
  "port_grantMultiRoles V E A tokenId targetsId roles amounts startDate =
     validated ''GrantMultiRolesRequest'' (GrantMultiRolesRequest V tokenId targetsId roles amounts startDate)
      (withR (ids_from targetsId) (\<lambda>targets.
       with_id tokenId (\<lambda>token.
         grantMultiRoles_handler E A roles targets (case amounts of None \<Rightarrow> [] | Some l \<Rightarrow> l) token startDate)))"

definition port_revokeMultiRoles ::
  "request_lib \<Rightarrow> env \<Rightarrow> 'e tx_adapter \<Rightarrow> string \<Rightarrow> string list \<Rightarrow> stable_coin_role list \<Rightarrow> string option \<Rightarrow>
     ('e, command_response) io" where
  "port_revokeMultiRoles V E A tokenId targetsId roles startDate =
     validated ''HasRoleRequest'' (RevokeMultiRolesRequest V tokenId targetsId roles startDate)
      (withR (ids_from targetsId) (\<lambda>targets.
       with_id tokenId (\<lambda>token. revokeMultiRoles_handler E A roles targets token startDate)))"

definition port_getRoles :: "env \<Rightarrow> string \<Rightarrow> string \<Rightarrow> string list result" where
  "port_getRoles E tokenId targetId =
     validatedR ''GetRolesRequest'' (GetRolesRequest targetId tokenId) (queried2 targetId tokenId (getRolesQuery E))"

definition port_getAccountsWithRole :: "env \<Rightarrow> string \<Rightarrow> string \<Rightarrow> string list result" where
  "port_getAccountsWithRole E roleId tokenId =
     validatedR ''GetAccountsWithRolesRequest'' (GetAccountsWithRolesRequest roleId tokenId)
      (getAccountsWithRolesQuery E roleId tokenId)"

definition port_getAllowance :: "env \<Rightarrow> string \<Rightarrow> string \<Rightarrow> big_decimal result" where
  "port_getAllowance E tokenId targetId =
     validatedR ''GetSupplierAllowanceRequest'' (GetSupplierAllowanceRequest targetId tokenId)
      (queried2 targetId tokenId (\<lambda>target token. getAllowanceQuery E token target))"

definition port_resetAllowance ::
  "request_lib \<Rightarrow> env \<Rightarrow> 'e tx_adapter \<Rightarrow> string \<Rightarrow> string \<Rightarrow> string option \<Rightarrow> ('e, command_response) io" where
  "port_resetAllowance V E A tokenId targetId startDate =
     validated ''ResetSupplierAllowanceRequest'' (ResetSupplierAllowanceRequest V targetId tokenId startDate)
      (with_ids targetId tokenId (\<lambda>target token. resetAllowance_handler E A target token startDate))"

definition port_increaseAllowance ::
  "request_lib \<Rightarrow> env \<Rightarrow> 'e tx_adapter \<Rightarrow> string \<Rightarrow> string \<Rightarrow> string \<Rightarrow> string option \<Rightarrow> ('e, command_response) io" where
  "port_increaseAllowance V E A tokenId amount targetId startDate =
     validated ''IncreaseSupplierAllowanceRequest'' (IncreaseSupplierAllowanceRequest V tokenId targetId amount startDate)
      (with_ids targetId tokenId (\<lambda>target token. increaseAllowance_handler E A amount target token startDate))"

definition port_decreaseAllowance ::
  "request_lib \<Rightarrow> env \<Rightarrow> 'e tx_adapter \<Rightarrow> string \<Rightarrow> string \<Rightarrow> string \<Rightarrow> string option \<Rightarrow> ('e, command_response) io" where
  "port_decreaseAllowance V E A tokenId amount targetId startDate =
     validated ''DecreaseSupplierAllowanceRequest'' (DecreaseSupplierAllowanceRequest V tokenId targetId amount startDate)
      (with_ids targetId tokenId (\<lambda>target token. decreaseAllowance_handler E A amount target token startDate))"

definition port_isUnlimited :: "env \<Rightarrow> string \<Rightarrow> string \<Rightarrow> string option \<Rightarrow> bool result" where
  "port_isUnlimited E tokenId targetId supplierType =
     validatedR ''CheckSupplierLimitRequest'' (CheckSupplierLimitRequest targetId tokenId supplierType)
      (queried2 targetId tokenId (\<lambda>target token. isUnlimitedQuery E token target))"

definition port_isLimited :: "env \<Rightarrow> string \<Rightarrow> string \<Rightarrow> string option \<Rightarrow> bool result" where
  "port_isLimited E tokenId targetId supplierType =
     validatedR ''CheckSupplierLimitRequest'' (CheckSupplierLimitRequest targetId tokenId supplierType)
      (queried2 targetId tokenId (\<lambda>target token.
       bindR (hasRoleQuery E CASHIN_ROLE target token) (\<lambda>hasRole.
       bindR (isUnlimitedQuery E token target) (\<lambda>unlimited. Inr (hasRole \<and> \<not> unlimited)))))"

section \<open>CustomFees\<close>

definition port_addFixedFee ::
  "request_lib \<Rightarrow> env \<Rightarrow> 'e tx_adapter \<Rightarrow> string \<Rightarrow> string \<Rightarrow> string \<Rightarrow> string \<Rightarrow> nat \<Rightarrow> bool \<Rightarrow>
     ('e, command_response) io" where
  "port_addFixedFee V E A tokenId collectorId tokenIdCollected amount decimals collectorsExempt =
     validated ''AddFixedFeeRequest''
       (AddFixedFeeRequest V tokenId collectorId collectorsExempt decimals tokenIdCollected amount)
      (with_ids tokenId collectorId (\<lambda>token collector.
       with_id tokenIdCollected (\<lambda>collected.
       withR (bd_fromString (rl_lib V) amount (Some decimals)) (\<lambda>a.
         addFixedFees_handler E A token collector collected a collectorsExempt))))"

text \<open>
  A percentage as a fraction: the numerator is the percentage in units of its last decimal. Two decimals
  are far below the precision of a number, so that \<open>Math.round(numerator.toUnsafeFloat() * 100)\<close> is the
  exact integer.
\<close>

definition getFractionFromPercentage :: "fixed_number_lib \<Rightarrow> string \<Rightarrow> (string \<times> string) result" where
  "getFractionFromPercentage L percentage =
     bindR (bd_fromString L percentage (Some MAX_PERCENTAGE_DECIMALS)) (\<lambda>numerator.
       Inr (int_str (toBigInt numerator), int_str (100 * 10 ^ MAX_PERCENTAGE_DECIMALS)))"

text \<open>
  The fraction of a fee as integers; \<open>parseInt\<close> of a string without digits is \<open>NaN\<close>, here \<open>None\<close>: a
  denominator may be missing when there is a numerator.
\<close>

definition fee_fraction ::
  "fixed_number_lib \<Rightarrow> string option \<Rightarrow> string option \<Rightarrow> string \<Rightarrow> (int option \<times> int option) result" where
  "fee_fraction L amountNumerator amountDenominator percentage =
     bindR (if provided amountNumerator then Inr (the amountNumerator, or_text amountDenominator [])
            else getFractionFromPercentage L percentage) (\<lambda>(num, den). Inr (js_parseInt num, js_parseInt den))"

definition port_addFractionalFee ::
  "request_lib \<Rightarrow> env \<Rightarrow> 'e tx_adapter \<Rightarrow> string \<Rightarrow> string \<Rightarrow> string option \<Rightarrow> string option \<Rightarrow> string option \<Rightarrow>
     string option \<Rightarrow> string option \<Rightarrow> nat \<Rightarrow> bool \<Rightarrow> bool \<Rightarrow> ('e, command_response) io" where
  "port_addFractionalFee V E A tokenId collectorId percentage amountNumerator amountDenominator mn mx decimals
       collectorsExempt net =
     validated ''AddFractionalFeeRequest''
       (AddFractionalFeeRequest V tokenId collectorId collectorsExempt decimals percentage amountNumerator
          amountDenominator mn mx net)
      (withR (fee_fraction (rl_lib V) amountNumerator amountDenominator (or_text percentage [])) (\<lambda>(num, den).
       with_ids tokenId collectorId (\<lambda>token collector.
       withR (bd_fromString (rl_lib V) (or_text mn ''0'') (Some decimals)) (\<lambda>minimum.
       withR (bd_fromString (rl_lib V) (or_text mx ''0'') (Some decimals)) (\<lambda>maximum.
       withR (case num of None \<Rightarrow> rl_nanLong V | Some n \<Rightarrow> Inr n) (\<lambda>numerator.
       withR (case den of None \<Rightarrow> rl_nanLong V | Some n \<Rightarrow> Inr n) (\<lambda>denominator.
         addFractionalFees_handler E A token collector numerator denominator minimum maximum net
           collectorsExempt)))))))"

text \<open>The fees of a request as fees of the domain; other objects are skipped.\<close>

definition requested_fee :: "fixed_number_lib \<Rightarrow> request_fee \<Rightarrow> custom_fee list result" where
  "requested_fee L fee =
     (if isRequestFixedFee fee then
        bindR (HederaId_from (Some (rf_collectorId fee))) (\<lambda>collector.
        bindR (bd_fromString L (the (rf_amount fee)) (Some (rf_decimals fee))) (\<lambda>amount.
        bindR (HederaId_from (rf_tokenIdCollected fee)) (\<lambda>token.
          Inr [new_FixedFee collector amount token (rf_collectorsExempt fee)])))
      else if isRequestFractionalFee fee then
        bindR (fee_fraction L (rf_amountNumerator fee) (Some (rf_amountDenominator fee)) (rf_percentage fee))
          (\<lambda>(num, den).
        bindR (HederaId_from (Some (rf_collectorId fee))) (\<lambda>collector.
        bindR (optional_amount L (Some (rf_min fee)) (rf_decimals fee)) (\<lambda>mn.
        bindR (optional_amount L (Some (rf_max fee)) (rf_decimals fee)) (\<lambda>mx.
          Inr [new_FractionalFee collector num den mn mx (Some (rf_net fee)) (Some (rf_collectorsExempt fee))]))))
      else Inr [])"

definition port_updateCustomFees ::
  "request_lib \<Rightarrow> env \<Rightarrow> 'e tx_adapter \<Rightarrow> string \<Rightarrow> request_fee list \<Rightarrow> ('e, command_response) io" where
  "port_updateCustomFees V E A tokenId customFees =
     validated ''UpdateCustomFeesRequest'' (UpdateCustomFeesRequest customFees tokenId)
      (withR (mapR (requested_fee (rl_lib V)) customFees) (\<lambda>requested.
       with_id tokenId (\<lambda>token. updateCustomFees_handler E A token (concat requested))))"

section \<open>Account, Management and ReserveDataFeed\<close>

definition port_getPublicKey :: "request_lib \<Rightarrow> env \<Rightarrow> request_account \<Rightarrow> public_key result" where
  "port_getPublicKey V E account =
     validatedR ''GetPublicKeyRequest'' (GetPublicKeyRequest V account)
      (queried (ra_accountId account) (\<lambda>accountId.
       bindR (getAccountInfoQuery E accountId) (\<lambda>info.
         of_option (InvalidResponse None) (ai_publicKey info))))"

definition port_listStableCoins :: "request_lib \<Rightarrow> env \<Rightarrow> request_account \<Rightarrow> string list result" where
  "port_listStableCoins V E account =
     validatedR ''GetListStableCoinRequest'' (GetListStableCoinRequest V account)
      (queried (ra_accountId account) (getListStableCoinQuery E))"

definition port_getAccountInfo :: "request_lib \<Rightarrow> env \<Rightarrow> request_account \<Rightarrow> account_info result" where
  "port_getAccountInfo V E account =
     validatedR ''GetAccountInfoRequest'' (GetAccountInfoRequest V account)
      (queried (ra_accountId account) (getAccountInfoQuery E))"

definition port_updateConfigVersion ::
  "request_lib \<Rightarrow> env \<Rightarrow> 'e tx_adapter \<Rightarrow> int \<Rightarrow> string \<Rightarrow> ('e, command_response) io" where
  "port_updateConfigVersion V E A configVersion tokenId =
     validated ''UpdateConfigVersionRequest'' (UpdateConfigVersionRequest V configVersion tokenId)
      (with_id tokenId (\<lambda>token. updateConfigVersion_handler E A token configVersion))"

definition port_updateConfig ::
  "request_lib \<Rightarrow> env \<Rightarrow> 'e tx_adapter \<Rightarrow> string \<Rightarrow> int \<Rightarrow> string \<Rightarrow> ('e, command_response) io" where
  "port_updateConfig V E A configId configVersion tokenId =
     validated ''UpdateConfigRequest'' (UpdateConfigRequest V configId configVersion tokenId)
      (with_id tokenId (\<lambda>token. updateConfig_handler E A token configId configVersion))"

definition port_updateResolver ::
  "request_lib \<Rightarrow> env \<Rightarrow> 'e tx_adapter \<Rightarrow> string \<Rightarrow> string \<Rightarrow> string \<Rightarrow> int \<Rightarrow> ('e, command_response) io" where
  "port_updateResolver V E A configId tokenId resolver configVersion =
     validated ''UpdateResolverRequest'' (UpdateResolverRequest V configVersion configId tokenId resolver)
      (with_id tokenId (\<lambda>token.
       withR (new_ContractId resolver) (\<lambda>r. updateResolver_handler E A token configId configVersion r)))"

definition port_getConfigInfo :: "env \<Rightarrow> string \<Rightarrow> (string \<times> string \<times> int) result" where
  "port_getConfigInfo E tokenId =
     validatedR ''GetConfigInfoRequest'' (GetConfigInfoRequest tokenId) (queried tokenId (getConfigInfoQuery E))"

definition port_getReserveAmount :: "env \<Rightarrow> string \<Rightarrow> big_decimal result" where
  "port_getReserveAmount E tokenId =
     validatedR ''GetReserveAmountRequest'' (GetReserveAmountRequest tokenId)
      (queried tokenId (getReserveAmountQuery E))"

definition port_updateReserveAmount ::
  "request_lib \<Rightarrow> env \<Rightarrow> 'e tx_adapter \<Rightarrow> string \<Rightarrow> string \<Rightarrow> ('e, command_response) io" where
  "port_updateReserveAmount V E A reserveAddress reserveAmount =
     validated ''UpdateReserveAmountRequest'' (UpdateReserveAmountRequest V reserveAddress reserveAmount)
      (withR (mn_getContractInfo E reserveAddress) (\<lambda>info.
       withR (new_ContractId (ci_id info)) (\<lambda>reserve.
       withR (bd_fromString (rl_lib V) reserveAmount (Some RESERVE_DECIMALS)) (\<lambda>amount.
         updateReserveAmount_handler A reserve amount))))"

end
