(* ===== verification/Sample_Network.thy ===== *)
theory Sample_Network
  imports Token_Commands
begin

text \<open>
  A concrete network, for the witnesses: one stablecoin with two decimals behind a proxy whose
  supply and wipe keys are the proxy's, a reserve, accounts with given relationships, and a
  custodial adapter whose network accepts every transaction.
\<close>

definition sample_id :: hedera_id where "sample_id = HederaId ''0.0.7''"
definition sample_target :: hedera_id where "sample_target = HederaId ''0.0.8''"
definition sample_token :: hedera_id where "sample_token = HederaId ''0.0.9''"

definition sample_proxy :: evm_address where
  "sample_proxy = EvmAddress ''0x00000000000000000000000000000000000000aa''"

definition bd2 :: "int \<Rightarrow> big_decimal" where
  "bd2 v = \<lparr>bd_fn = \<lparr>fn_value = v, fn_decimals = 2\<rparr>\<rparr>"

definition sample_coin :: stable_coin where
  "sample_coin = (minimal_props ''Coin'' ''C'' 2)
     \<lparr>sc_tokenId := Some sample_token, sc_proxyAddress := Some (HederaId ''0.0.10''),
      sc_evmProxyAddress := Some sample_proxy, sc_supplyType := Some FINITE,
      sc_totalSupply := Some (bd2 10000), sc_maxSupply := Some (bd2 20000),
      sc_supplyKey := Some (KeyContract (ContractId ''0.0.10'')),
      sc_wipeKey := Some (KeyContract (ContractId ''0.0.10'')),
      sc_kycKey := Some (KeyContract (ContractId ''0.0.10'')),
      sc_freezeKey := Some (KeyContract (ContractId ''0.0.10'')),
      sc_treasury := Some (HederaId ''0.0.10'')\<rparr>"

definition sample_relation :: account_token_relation where
  "sample_relation =
     \<lparr>tr_automaticAssociation = False, tr_balance = bd2 5000, tr_createdTimestamp = [],
      tr_freezeStatus = Some UNFROZEN, tr_kycStatus = Some GRANTED, tr_tokenId = sample_token\<rparr>"

definition sample_view :: "stable_coin \<Rightarrow> coin_view" where
  "sample_view coin =
     \<lparr>cv_name = Some (sc_name coin), cv_symbol = Some (sc_symbol coin), cv_decimals = Some (sc_decimals coin),
      cv_customFees = None, cv_props = coin, cv_reserveAddress = None, cv_reserveAmount = None\<rparr>"

definition sample_escrow :: string where
  "sample_escrow = ''0x0000000000000000000000000000000000000007''"

text \<open>The amounts of the network are raw integers with two decimals.\<close>

definition sample_env ::
  "stable_coin \<Rightarrow> (hedera_id \<Rightarrow> account_token_relation option) \<Rightarrow> string \<Rightarrow> int \<Rightarrow> env" where
  "sample_env coin relations reserveAddress reserveAmount =
     \<lparr>env_lib = exact_lib,
      env_account = \<lparr>acc_id = sample_id, acc_evmAddress = Some sample_escrow, acc_privateKey = None,
                     acc_publicKey = None, acc_multiKey = None\<rparr>,
      env_now = 1000000,
      sdk_toSolidityAddress = (\<lambda>i. ''00000000000000000000000000000000000000bb''),
      sdk_rawKeyBytes = (\<lambda>k. Inr []),
      mn_getStableCoin = (\<lambda>i. Inr (sample_view coin)),
      mn_getAccountToken = (\<lambda>i t. Inr (relations i)),
      mn_getAccountAutoAssociationInfo = (\<lambda>i. Inr None),
      mn_accountToEvmAddress = (\<lambda>i. Inr (EvmAddress sample_escrow)),
      mn_getHBARBalance = (\<lambda>i. Inr 100000000),
      mn_getAccountInfo = (\<lambda>i. Inr \<lparr>ai_id = Some i, ai_evmAddress = Some sample_escrow, ai_publicKey = None\<rparr>),
      mn_getContractInfo = (\<lambda>i. Inr \<lparr>ci_id = i, ci_evmAddress = sample_escrow\<rparr>),
      mn_getContractResults = (\<lambda>i n. Inr (Some (replicate n ''0x05''))),
      mn_getStableCoinsList = (\<lambda>i. Inr [id_value sample_token]),
      q_balanceOf = (\<lambda>p t. Inr 5000),
      q_getReserveAddress = (\<lambda>p. Inr (ContractId reserveAddress)),
      q_getReserveAmount = (\<lambda>p. Inr reserveAmount),
      q_getReserveDecimals = (\<lambda>p. Inr 2),
      q_getReserveLatestRoundData = (\<lambda>p. Inr [1, reserveAmount]),
      q_getBurnableAmount = (\<lambda>p. Inr 5000),
      q_getMetadata = (\<lambda>p. Inr ''metadata''),
      q_isUnlimited = (\<lambda>p t. Inr False),
      q_supplierAllowance = (\<lambda>p t. Inr 1000),
      q_hasRole = (\<lambda>p t r. Inr True),
      q_getRoles = (\<lambda>p t. Inr []),
      q_getAccountsWithRole = (\<lambda>p r. Inr None),
      q_getHoldFor = (\<lambda>p t n.
        Inr (\<lparr>hd_expirationTimeStamp = 2000, hd_amount = bd_ZERO, hd_escrowAddress = sample_escrow,
              hd_tokenHolderAddress = sample_escrow, hd_destinationAddress = EVM_ZERO_ADDRESS, hd_data = ''0x''\<rparr>, 300)),
      q_getHoldsIdFor = (\<lambda>p t a b. Inr [1, 2]),
      q_getHoldCountFor = (\<lambda>p t. Inr 2),
      q_getHeldAmountFor = (\<lambda>p t. Inr 300),
      q_getConfigInfo = (\<lambda>p. Inr (''0.0.11'', ''0x01'', 1))\<rparr>"

definition sample_client :: hedera_client where
  "sample_client =
     \<lparr>hc_execute = (\<lambda>t. Inr ''0.0.7@1''), hc_getReceipt = (\<lambda>i. Inr ()), hc_getRecord = (\<lambda>i. Inr (Some i))\<rparr>"

definition sample_executor :: "env \<Rightarrow> adapter_event executor" where
  "sample_executor E = custodial_executor (env_account E) sample_client (\<lambda>f n p. Inr ())"

definition sample_adapter :: "env \<Rightarrow> adapter_event tx_adapter" where
  "sample_adapter E = base_adapter (sample_executor E) E"

definition sample_net :: env where
  "sample_net = sample_env sample_coin (\<lambda>i. Some sample_relation) ''0.0.0'' 0"

definition reserve_net :: env where
  "reserve_net = sample_env sample_coin (\<lambda>i. Some sample_relation) ''0.0.12'' 15000"

definition late_net :: env where
  "late_net = sample_net \<lparr>env_now := 3000000\<rparr>"

lemma sample_libs [simp]:
  "env_lib sample_net = exact_lib" "env_lib reserve_net = exact_lib" "env_lib late_net = exact_lib"
  by (simp_all add: late_net_def sample_net_def reserve_net_def sample_env_def)

section \<open>Evaluation\<close>

named_theorems sample

definition sample_stored :: stable_coin where
  "sample_stored = new_StableCoin exact_lib (sample_coin \<lparr>sc_metadata := Some ''metadata'', sc_customFees := None\<rparr>)"

definition sample_caps :: stable_coin_capabilities where
  "sample_caps =
     \<lparr>caps_coin = sample_stored, caps_capabilities = capability_list sample_stored (env_account sample_net) None None,
      caps_account = env_account sample_net\<rparr>"

lemma stored_without_reserve: "StableCoinService_get sample_net i = Inr sample_stored"
  by (simp add: StableCoinService_get_def getStableCoinQuery_def sample_net_def sample_env_def sample_view_def
      sample_coin_def minimal_props_def toCustomFees_def sample_stored_def)

lemma stored_late: "StableCoinService_get late_net i = Inr sample_stored"
  by (simp add: StableCoinService_get_def getStableCoinQuery_def late_net_def sample_net_def sample_env_def sample_view_def
      sample_coin_def minimal_props_def toCustomFees_def sample_stored_def)

lemma reserve_amount_value [sample]: "fromStringFixed exact_lib (int_str 15000) 2 = Inr (bd2 15000)"
  by (simp add: exact.fromStringFixed_int in_range128_def bd2_def)

lemma sample_escrow_evm: "new_EvmAddress sample_escrow = Inr (EvmAddress sample_escrow)"
  by (simp add: new_EvmAddress_def sample_escrow_def js_startsWith_def)

lemma stored_with_reserve: "StableCoinService_get reserve_net i = Inr sample_stored"
  by (simp add: StableCoinService_get_def getStableCoinQuery_def reserve_net_def sample_env_def sample_view_def
      sample_coin_def minimal_props_def toCustomFees_def sample_stored_def sample_escrow_evm reserve_amount_value)

lemma same_account: "env_account reserve_net = env_account sample_net" "env_account late_net = env_account sample_net"
  by (simp_all add: reserve_net_def late_net_def sample_net_def sample_env_def)

lemma sample_caps_eq [sample]:
  "service_getCapabilities sample_net i = Inr sample_caps"
  "service_getCapabilities reserve_net i = Inr sample_caps"
  "service_getCapabilities late_net i = Inr sample_caps"
  by (simp_all add: service_getCapabilities_def getCapabilities_def stored_without_reserve
      stored_with_reserve stored_late sample_caps_def same_account)

lemma sample_stored_fields [sample]:
  "caps_coin sample_caps = sample_stored" "sc_decimals sample_stored = 2"
  "sc_totalSupply sample_stored = Some (bd2 10000)" "sc_maxSupply sample_stored = Some (bd2 20000)"
  "sc_supplyType sample_stored = Some FINITE" "sc_evmProxyAddress sample_stored = Some sample_proxy"
  "sc_treasury sample_stored = Some (HederaId ''0.0.10'')" "sc_tokenId sample_stored = Some sample_token"
  "sc_proxyAddress sample_stored = Some (HederaId ''0.0.10'')"
  "sc_supplyKey sample_stored = Some (KeyContract (ContractId ''0.0.10''))"
  "sc_wipeKey sample_stored = Some (KeyContract (ContractId ''0.0.10''))"
  "sc_kycKey sample_stored = Some (KeyContract (ContractId ''0.0.10''))"
  by (simp_all add: sample_caps_def sample_stored_def new_StableCoin_def sample_coin_def minimal_props_def)

lemma sample_queries [sample]:
  "mn_getAccountToken sample_net i t = Inr (Some sample_relation)"
  "mn_getAccountToken reserve_net i t = Inr (Some sample_relation)"
  "mn_getAccountToken late_net i t = Inr (Some sample_relation)"
  "q_getHoldsIdFor late_net p a n m = Inr [1, 2]" "env_now late_net = 3000000"
  "mn_accountToEvmAddress late_net i = Inr (EvmAddress sample_escrow)"
  "q_getReserveAddress sample_net p = Inr (ContractId ''0.0.0'')"
  "q_getReserveAddress reserve_net p = Inr (ContractId ''0.0.12'')"
  "q_getReserveAmount reserve_net p = Inr 15000"
  "q_balanceOf sample_net p a = Inr 5000" "q_getBurnableAmount sample_net p = Inr 5000"
  "mn_accountToEvmAddress sample_net i = Inr (EvmAddress sample_escrow)"
  "mn_getHBARBalance sample_net i = Inr 100000000" "env_now sample_net = 1000000"
  "acc_evmAddress (env_account sample_net) = Some sample_escrow"
  "tr_freezeStatus sample_relation = Some UNFROZEN" "tr_kycStatus sample_relation = Some GRANTED"
  "tr_balance sample_relation = bd2 5000"
  by (simp_all add: late_net_def sample_net_def reserve_net_def sample_env_def sample_relation_def)

lemma sample_proxy_query [sample]:
  "with_proxy sample_net i k = k sample_stored sample_proxy"
  "with_proxy reserve_net i k = k sample_stored sample_proxy"
  "with_proxy late_net i k = k sample_stored sample_proxy"
  by (simp_all add: with_proxy_def stored_without_reserve stored_with_reserve stored_late sample_stored_fields)

text \<open>Contract calls of the sample adapter, and its access decisions.\<close>

lemma sample_contract_call [sample]:
  "ex_executeContractCall (sample_executor E) c f n ps g tt pay sd evm =
     ([ExecuteTransaction (ContractExecuteTransaction
        \<lparr>cc_contractId = c, cc_facet = f, cc_function = n, cc_params = ps, cc_gas = g,
         cc_payableAmount = (if pay = Some [] then None else pay)\<rparr>)],
      Inr (createTransactionResponse (Some ''0.0.7@1'')))"
  by (cases tt; cases "the tt")
    (simp_all add: sample_executor_def custodial_executor_def base_executor_def base_executeContractCall_def
      buildContractTransaction_def custodial_processTransaction_def sample_client_def manageResponse_def
      rethrow_def act_def bindIO_def)

lemma sample_decisions [sample]:
  "getAccessDecision sample_caps CASH_IN = D_CONTRACT" "getAccessDecision sample_caps BURN = D_CONTRACT"
  "getAccessDecision sample_caps WIPE = D_CONTRACT" "getAccessDecision sample_caps GRANT_KYC = D_CONTRACT"
  "getAccessDecision sample_caps FREEZE = D_CONTRACT"
  by code_simp+

lemma sample_proxy_of [sample]: "proxy_of sample_caps = Inr (''0.0.10'', Some (evm_value sample_proxy))"
  by (simp add: proxy_of_def sample_stored_fields)

lemma sample_adapter_fields [sample]:
  "ta_cashin (sample_adapter E) = op_cashin (sample_executor E) E"
  "ta_burn (sample_adapter E) = op_burn (sample_executor E) E"
  "ta_wipe (sample_adapter E) = op_wipe (sample_executor E) E"
  "ta_rescue (sample_adapter E) = op_rescue (sample_executor E)"
  "ta_rescueHBAR (sample_adapter E) = op_rescueHBAR (sample_executor E)"
  "ta_grantKyc (sample_adapter E) = op_grantKyc (sample_executor E) E"
  by (simp_all add: sample_adapter_def base_adapter_def)

text \<open>Amounts used in the witnesses.\<close>

lemma sample_parse [sample]:
  "parse_fixed ''1.5'' 2 = Some \<lparr>fn_value = 150, fn_decimals = 2\<rparr>"
  "parse_fixed ''1.5'' 1 = Some \<lparr>fn_value = 15, fn_decimals = 1\<rparr>"
  "parse_fixed ''50.99'' 2 = Some \<lparr>fn_value = 5099, fn_decimals = 2\<rparr>"
  "getDecimalsFromString ''1.5'' = 1" "getDecimalsFromString ''50.99'' = 2"
  by code_simp+

lemma sample_strings [sample]:
  "bd_fromString exact_lib ''1.5'' (Some 2) = Inr (bd2 150)"
  "bd_fromString exact_lib ''1.5'' None = Inr \<lparr>bd_fn = \<lparr>fn_value = 15, fn_decimals = 1\<rparr>\<rparr>"
  "bd_fromString exact_lib ''50.99'' (Some 2) = Inr (bd2 5099)"
  "bd_fromString exact_lib ''50.99'' None = Inr (bd2 5099)"
  by (simp_all add: bd_fromString_def exact.new_of_string_Inr sample_parse bd2_def del: One_nat_def)

lemma sample_check_decimals [sample]:
  "check_decimals sample_net ''1.5'' 2 = Inr ()" "check_decimals reserve_net ''50.99'' 2 = Inr ()"
  "check_decimals reserve_net ''1.5'' 2 = Inr ()" "check_decimals sample_net ''50.99'' 2 = Inr ()"
  by (simp_all add: check_decimals_def hasMoreDecimals_def sample_strings) (simp_all add: bd2_def)

lemma sample_amounts [sample]:
  "isGreaterThan exact_lib (bd2 v) (bd2 w) \<longleftrightarrow> w < v" "isLowerThan exact_lib (bd2 v) (bd2 w) \<longleftrightarrow> v < w"
  "bd_fn (bd2 v) = \<lparr>fn_value = v, fn_decimals = 2\<rparr>" "bd_rat (bd2 v) = of_int v / 100"
  by (simp_all add: exact.order_iffs bd2_def fn_rat_def divide_less_cancel)

end
