(* ===== verification/Cash_Properties.thy ===== *)
theory Cash_Properties
  imports Sample_Network
begin

text \<open>
  What the handlers of cash in, burn, wipe and rescue guarantee before they submit: a submission
  is the adapter's call with the amount read exactly, and each check of the handler is stated as an
  inequality between rational numbers. \<open>decimal_value s\<close> is the number that a decimal notation
  stands for.
\<close>

section \<open>Actions of a handler\<close>

lemma respond_actions [simp]: "actions (respond m) = actions m"
  by (simp add: respond_def)

lemma respond_outcome: "outcome (respond m) = Inr r \<longleftrightarrow> (\<exists>res. outcome m = Inr res \<and> r = (res_error res = None, res_id res))"
  by (auto simp: respond_def outcome_bindIO_Inr)

text \<open>A handler whose checks fail submits nothing and throws what they threw.\<close>

lemma withR_cases:
  "(\<exists>e. r = Inl e \<and> withR r f = throw e) \<or> (\<exists>x. r = Inr x \<and> withR r f = f x)"
  by (cases r) auto

lemma withR_acts:
  assumes "actions (withR r f) \<noteq> []"
  obtains x where "r = Inr x" "withR r f = f x"
  using assms by (cases r) auto

lemma check_decimals_Inr:
  "check_decimals E amount d = Inr u \<longleftrightarrow>
     (\<exists>b. bd_fromString (env_lib E) amount None = Inr b \<and> bd_decimals b \<le> d)"
  by (auto simp: check_decimals_def hasMoreDecimals_def bindR_Inr_iff not_less)

section \<open>Who may receive tokens\<close>

definition active_relation :: "account_token_relation \<Rightarrow> bool" where
  "active_relation r \<longleftrightarrow> tr_freezeStatus r \<noteq> Some FROZEN \<and> tr_kycStatus r \<noteq> Some REVOKED"

definition free_association :: "auto_association \<Rightarrow> bool" where
  "free_association a \<longleftrightarrow>
     (\<exists>mx. aa_maxAutoAssociations a = Some mx \<and> mx \<noteq> 0 \<and>
       (mx = - 1 \<or> (\<exists>r. aa_remainingAutoAssociations a = Some r \<and> (r = - 1 \<or> 0 < r))))"

definition can_receive :: "env \<Rightarrow> hedera_id \<Rightarrow> hedera_id \<Rightarrow> bool" where
  "can_receive E targetId tokenId \<longleftrightarrow>
     (case mn_getAccountToken E targetId tokenId of
        Inl _ \<Rightarrow> False
      | Inr (Some r) \<Rightarrow> active_relation r
      | Inr None \<Rightarrow> \<exists>a. mn_getAccountAutoAssociationInfo E targetId = Inr (Some a) \<and> free_association a)"

lemma check_active_Inr: "check_active i r = Inr u \<longleftrightarrow> active_relation r"
  by (simp add: check_active_def active_relation_def)

lemma check_auto_association_Inr:
  "check_auto_association E t k = Inr u \<longleftrightarrow>
     (\<exists>a. mn_getAccountAutoAssociationInfo E t = Inr (Some a) \<and> free_association a)"
proof (cases "mn_getAccountAutoAssociationInfo E t")
  case (Inr v)
  then show ?thesis
    by (cases v)
      (auto simp: check_auto_association_def getAccountAutoAssociationQuery_def not_associated_def
        free_association_def Let_def split: option.split if_splits)
qed (simp add: check_auto_association_def getAccountAutoAssociationQuery_def)

lemma cashin_check_target_Inr: "cashin_check_target E t k = Inr u \<longleftrightarrow> can_receive E t k"
proof (cases "mn_getAccountToken E t k")
  case (Inr v)
  then show ?thesis
    by (cases v)
      (simp_all add: cashin_check_target_def getAccountTokenRelationshipQuery_def can_receive_def
        check_active_Inr check_auto_association_Inr)
qed (simp add: cashin_check_target_def getAccountTokenRelationshipQuery_def can_receive_def)

section \<open>Cash in\<close>

definition supply_in_range :: "stable_coin \<Rightarrow> big_decimal \<Rightarrow> big_decimal \<Rightarrow> bool" where
  "supply_in_range coin supply mx \<longleftrightarrow>
     sc_totalSupply coin = Some supply \<and> sc_maxSupply coin = Some mx \<and> sc_decimals coin \<le> 18 \<and>
     0 \<le> bd_value supply \<and> bd_value supply < 2 ^ 63 \<and> 0 \<le> bd_value mx \<and> bd_value mx < 2 ^ 63"

context fixed_number_api
begin

lemma supply_check_cap:
  assumes "env_lib E = L" "supply_in_range coin supply mx" "cashin_check_supply E coin a = Inr u"
  shows "sc_supplyType coin = Some FINITE \<Longrightarrow> 0 < bd_rat mx \<Longrightarrow> bd_rat supply + bd_rat a \<le> bd_rat mx"
    and "sc_supplyType coin \<noteq> Some FINITE \<Longrightarrow> bd_rat supply + bd_rat a \<le> 9223372036854775807 / 10 ^ sc_decimals coin"
proof -
  note c = assms(2)[unfolded supply_in_range_def]
  show "bd_rat supply + bd_rat a \<le> bd_rat mx" if fin: "sc_supplyType coin = Some FINITE" "0 < bd_rat mx"
  proof -
    obtain room where room: "bd_subUnsafe L mx supply = Inr room" "\<not> isGreaterThan L a room"
      using assms(1,3) c fin
      by (auto simp: cashin_check_supply_def order_iffs bindR_Inr_iff not_allowed_def split: if_splits)
    have "\<bar>bd_value mx - bd_value supply\<bar> < 2 ^ 127" using c by auto
    from subUnsafe_rat [OF room(1) this] room(2) show ?thesis by (simp add: order_iffs)
  qed
  show "bd_rat supply + bd_rat a \<le> 9223372036854775807 / 10 ^ sc_decimals coin"
    if inf: "sc_supplyType coin \<noteq> Some FINITE"
  proof -
    define lim where "lim = \<lparr>bd_fn = \<lparr>fn_value = MAX_SUPPLY, fn_decimals = sc_decimals coin\<rparr>\<rparr>"
    have "maxSupply_of L (sc_decimals coin) = Inr lim" using maxSupply_Inr c by (simp add: lim_def)
    then obtain room where room: "bd_subUnsafe L lim supply = Inr room" "\<not> isGreaterThan L a room"
      using assms(1,3) c inf
      by (auto simp: cashin_check_supply_def bindR_Inr_iff not_allowed_def split: if_splits)
    have "\<bar>bd_value lim - bd_value supply\<bar> < 2 ^ 127" using c by (auto simp: lim_def MAX_SUPPLY_def)
    from subUnsafe_rat [OF room(1) this] room(2) show ?thesis
      by (simp add: order_iffs lim_def rat_maxSupply)
  qed
qed

end

lemma cashIn_acts:
  assumes "actions (cashIn_handler E A amount targetId tokenId sd) \<noteq> []"
    and caps: "service_getCapabilities E tokenId = Inr caps"
  obtains a where "can_receive E targetId tokenId"
    "bd_fromString (env_lib E) amount (Some (sc_decimals (caps_coin caps))) = Inr a"
    "cashin_check_supply E (caps_coin caps) a = Inr ()"
    "cashin_check_reserve E tokenId (caps_coin caps) a = Inr ()"
    "cashIn_handler E A amount targetId tokenId sd = respond (ta_cashin A caps targetId a sd)"
proof -
  obtain p where p: "cashin_checks E amount targetId tokenId = Inr p"
    using assms(1) unfolding cashIn_handler_def by (rule withR_acts)
  then obtain a where "p = (caps, a)" "can_receive E targetId tokenId"
    "bd_fromString (env_lib E) amount (Some (sc_decimals (caps_coin caps))) = Inr a"
    "cashin_check_supply E (caps_coin caps) a = Inr ()"
    "cashin_check_reserve E tokenId (caps_coin caps) a = Inr ()"
    using caps by (auto simp: cashin_checks_def bindR_Inr_iff Let_def cashin_check_target_Inr)
  then show ?thesis using that p by (simp add: cashIn_handler_def)
qed

text \<open>
  Property C1. Cash in: whatever the handler does outside, it does through one call of the
  adapter's cash in, with the amount of the command read exactly in the coin's decimals; this
  happens only when the target can receive the token (associated, not frozen, not without KYC, or
  with a free automatic association) and when the new total supply stays within the coin's maximum
  (a finite coin with a positive maximum) or within the limit of the network (other coins).
\<close>

theorem cash_in_safe:
  assumes "fixed_number_api (env_lib E)"
    and "service_getCapabilities E tokenId = Inr caps" "coin = caps_coin caps"
    and "supply_in_range coin supply mx"
    and "actions (cashIn_handler E A amount targetId tokenId sd) \<noteq> []"
  shows "can_receive E targetId tokenId \<and>
    (\<exists>a. bd_rat a = decimal_value amount \<and> bd_decimals a = sc_decimals coin \<and>
       cashIn_handler E A amount targetId tokenId sd = respond (ta_cashin A caps targetId a sd)) \<and>
    (sc_supplyType coin = Some FINITE \<longrightarrow> 0 < bd_rat mx \<longrightarrow> bd_rat supply + decimal_value amount \<le> bd_rat mx) \<and>
    (sc_supplyType coin \<noteq> Some FINITE \<longrightarrow>
       bd_rat supply + decimal_value amount \<le> 9223372036854775807 / 10 ^ sc_decimals coin)"
proof -
  obtain a where a: "can_receive E targetId tokenId"
    "bd_fromString (env_lib E) amount (Some (sc_decimals coin)) = Inr a"
    "cashin_check_supply E coin a = Inr ()"
    "cashIn_handler E A amount targetId tokenId sd = respond (ta_cashin A caps targetId a sd)"
    using cashIn_acts [OF assms(5,2)] assms(3) by metis
  have "bd_rat a = decimal_value amount" "bd_decimals a = sc_decimals coin"
    using fixed_number_api.fromString_rat [OF assms(1) a(2)]
      fixed_number_api.new_of_string_decimals [OF assms(1)] a(2) by (auto simp: bd_fromString_def)
  then show ?thesis
    using a fixed_number_api.supply_check_cap [OF assms(1) refl assms(4) a(3)] by auto
qed

lemma supply_in_range_sample: "supply_in_range sample_stored (bd2 10000) (bd2 20000)"
  by (simp add: supply_in_range_def sample)

lemma sample_room [sample]: "bd_subUnsafe exact_lib (bd2 20000) (bd2 10000) = Inr (bd2 10000)"
  using exact.subUnsafe_exact [of "bd2 20000" "bd2 10000"] by (simp add: bd2_def)

lemma sample_cash_in_acts: "actions (cashIn_handler sample_net (sample_adapter sample_net) ''1.5'' sample_target sample_token None) \<noteq> []"
proof -
  have "can_receive sample_net sample_target sample_token"
    by (simp add: can_receive_def sample active_relation_def)
  then have "cashin_check_target sample_net sample_target sample_token = Inr ()"
    by (simp add: cashin_check_target_Inr)
  then have "cashin_checks sample_net ''1.5'' sample_target sample_token = Inr (sample_caps, bd2 150)"
    by (simp add: cashin_checks_def sample cashin_check_supply_def
        cashin_check_reserve_def bd_ZERO_def exact.order_iffs fn_rat_def)
  then show ?thesis
    by (simp add: cashIn_handler_def sample op_cashin_def by_access_def signing_def resolve_id_def
        sample_target_def HederaId_NULL_def)
qed

theorem cash_in_safe_witness:
  "bd_rat (bd2 10000) + decimal_value ''1.5'' \<le> bd_rat (bd2 20000) \<and> can_receive sample_net sample_target sample_token"
  using cash_in_safe [of sample_net sample_token sample_caps sample_stored "bd2 10000" "bd2 20000",
      OF _ _ _ supply_in_range_sample sample_cash_in_acts]
  by (simp add: sample exact.fixed_number_api_axioms fn_rat_def)

section \<open>The reserve\<close>

context fixed_number_api
begin

lemma setDecimals_floor:
  assumes "0 \<le> bd_value b" "bd_value b < 2 ^ 64" "bd_decimals b \<le> n" "n \<le> 18"
  shows "\<exists>c. setDecimals L b n = Inr c \<and> bd_rat c = of_int \<lfloor>bd_rat b\<rfloor>"
proof -
  let ?v = "bd_value b div 10 ^ bd_decimals b"
  have v: "0 \<le> ?v" "?v < 2 ^ 64"
    using assms(1,2) zdiv_mono2 [of "bd_value b" 1 "10 ^ bd_decimals b"]
    by (auto simp: pos_imp_zdiv_nonneg_iff)
  have "(10 :: int) ^ n \<le> 10 ^ 18" using assms(4) by (intro power_increasing) auto
  then have "?v * 10 ^ n \<le> 2 ^ 64 * 10 ^ 18" using v by (intro mult_mono) auto
  moreover have "0 \<le> ?v * 10 ^ n" using v by simp
  ultimately have "in_range128 (?v * 10 ^ n)" unfolding in_range128_def by simp
  then have "setDecimals L b n = Inr \<lparr>bd_fn = \<lparr>fn_value = ?v * 10 ^ n, fn_decimals = n\<rparr>\<rparr>"
    using setDecimals_whole assms by simp
  moreover have "fn_rat \<lparr>fn_value = ?v * 10 ^ n, fn_decimals = n\<rparr> = of_int \<lfloor>bd_rat b\<rfloor>"
    unfolding floor_rat by (simp add: fn_rat_def)
  ultimately show ?thesis by auto
qed

lemma fromString_decimals: "bd_fromString L s (Some d) = Inr b \<Longrightarrow> bd_decimals b = d"
  using new_of_string_decimals by (simp add: bd_fromString_def)

end

lemma reserve_query_decimals:
  assumes "fixed_number_api (env_lib E)" "getReserveAmountQuery E tokenId = Inr reserve"
  shows "bd_decimals reserve = 2"
  using assms(2) fixed_number_api.new_of_string_decimals [OF assms(1)]
  by (auto simp: getReserveAmountQuery_def with_proxy_def bindR_Inr_iff fromStringFixed_def RESERVE_DECIMALS_def
      split: option.splits)

text \<open>
  Property C6. The reserve check of the cash in, for a coin that has a reserve: it passes exactly
  when the whole part of the new total supply is at most the whole part of the reserve. The
  fractions do not count, since \<open>setDecimals\<close> drops them.
\<close>

theorem cashin_reserve_iff:
  assumes "fixed_number_api (env_lib E)"
    and "sc_evmProxyAddress coin = Some proxy" "q_getReserveAddress E proxy = Inr ra" "contract_value ra \<noteq> ''0.0.0''"
    and "getReserveAmountQuery E tokenId = Inr reserve" "0 \<le> bd_value reserve" "bd_value reserve < 2 ^ 63"
    and "supply_in_range coin supply mx" "bd_decimals supply = sc_decimals coin"
    and "bd_decimals a = sc_decimals coin" "0 \<le> bd_value a" "bd_value a < 2 ^ 63"
  shows "cashin_check_reserve E tokenId coin a =
    (if \<lfloor>bd_rat supply + bd_rat a\<rfloor> \<le> \<lfloor>bd_rat reserve\<rfloor> then Inr ()
     else not_allowed ''The reserve is less than the amount to cash in'')"
proof -
  note lib = fixed_number_api.setDecimals_floor [OF assms(1)]
  note c = assms(8) [unfolded supply_in_range_def]
  let ?n = "max RESERVE_DECIMALS (sc_decimals coin)"
  define t where "t = \<lparr>bd_fn = \<lparr>fn_value = bd_value a + bd_value supply, fn_decimals = sc_decimals coin\<rparr>\<rparr>"
  have sum: "bd_addUnsafe (env_lib E) a supply = Inr t"
    using fixed_number_api.addUnsafe_exact [OF assms(1), of a "supply"] c assms(9-12) by (simp add: t_def)
  have rat: "bd_rat t = bd_rat supply + bd_rat a"
    using assms(9,10) by (simp add: t_def fn_rat_def add_divide_distrib)
  obtain t' where t': "setDecimals (env_lib E) t ?n = Inr t'" "bd_rat t' = of_int \<lfloor>bd_rat t\<rfloor>"
    using lib [of t ?n] c assms(11,12) by (auto simp: t_def RESERVE_DECIMALS_def)
  obtain r' where r': "setDecimals (env_lib E) reserve ?n = Inr r'" "bd_rat r' = of_int \<lfloor>bd_rat reserve\<rfloor>"
    using lib [of reserve ?n] c assms(6,7) reserve_query_decimals [OF assms(1,5)]
    by (auto simp: RESERVE_DECIMALS_def)
  have "isGreaterThan (env_lib E) t' r' \<longleftrightarrow> \<lfloor>bd_rat reserve\<rfloor> < \<lfloor>bd_rat supply + bd_rat a\<rfloor>"
    using fixed_number_api.gt [OF assms(1)] t'(2) r'(2) rat by (simp add: isGreaterThan_def)
  then show ?thesis
    using c sum t'(1) r'(1) assms(2-5) by (simp add: cashin_check_reserve_def Let_def not_less [symmetric])
qed

text \<open>An amount of 50.99 on a supply of 100.00 passes with a reserve of 150.00.\<close>

theorem cashin_reserve_iff_witness:
  "cashin_check_reserve reserve_net sample_token sample_stored (bd2 5099) = Inr ()
   \<and> bd_rat (bd2 15000) < bd_rat (bd2 10000) + bd_rat (bd2 5099)"
proof -
  have "getReserveAmountQuery reserve_net sample_token = Inr (bd2 15000)"
    by (simp add: getReserveAmountQuery_def sample RESERVE_DECIMALS_def)
  then show ?thesis
    using cashin_reserve_iff [of reserve_net sample_stored sample_proxy "ContractId ''0.0.12''" sample_token "bd2 15000",
        OF _ _ _ _ _ _ _ supply_in_range_sample, of "bd2 5099"]
    by (simp add: sample exact.fixed_number_api_axioms fn_rat_def)
qed

section \<open>Burn, wipe and rescue\<close>

text \<open>
  Property C21. Burn: a submission is one call of the adapter's burn with the exact amount, which is at
  most the burnable amount that the contract reports.
\<close>

theorem burn_safe:
  assumes "fixed_number_api (env_lib E)"
    and "service_getCapabilities E tokenId = Inr caps" "sc_tokenId (caps_coin caps) = Some coinId"
    and "getBurnableAmountQuery E coinId = Inr burnable"
    and "actions (burn_handler E A amount tokenId sd) \<noteq> []"
  shows "decimal_value amount \<le> bd_rat burnable \<and>
    (\<exists>a. bd_rat a = decimal_value amount \<and> bd_decimals a = sc_decimals (caps_coin caps) \<and>
       burn_handler E A amount tokenId sd = respond (ta_burn A caps a sd))"
proof -
  obtain p where p: "burn_checks E amount tokenId = Inr p"
    using assms(5) unfolding burn_handler_def by (rule withR_acts)
  then obtain a where a: "p = (caps, a)"
    "bd_fromString (env_lib E) amount (Some (sc_decimals (caps_coin caps))) = Inr a"
    "checkBurnableAmount E coinId amount = Inr ()"
    using assms(2,3)
    by (auto simp: burn_checks_def bindR_Inr_iff Let_def not_allowed_def split: option.splits)
  then obtain b where b: "bd_fromString (env_lib E) amount None = Inr b" "bd_rat b \<le> bd_rat burnable"
    using assms(4) fixed_number_api.lt [OF assms(1)]
    by (auto simp: checkBurnableAmount_def bindR_Inr_iff isLowerThan_def not_less split: if_splits)
  have "bd_rat b = decimal_value amount" "bd_rat a = decimal_value amount" "bd_decimals a = sc_decimals (caps_coin caps)"
    using b(1) a(2) fixed_number_api.fromString_rat [OF assms(1)]
      fixed_number_api.fromString_decimals [OF assms(1)] by blast+
  then show ?thesis using a(1) p b(2) by (auto simp: burn_handler_def)
qed

lemma burn_sample_acts: "actions (burn_handler sample_net (sample_adapter sample_net) ''1.5'' sample_token None) \<noteq> []"
proof -
  have "checkBurnableAmount sample_net sample_token ''1.5'' = Inr ()"
    by (simp add: checkBurnableAmount_def getBurnableAmountQuery_def sample exact.fromStringFixed_int
        in_range128_def exact.order_iffs fn_rat_def)
  then have "burn_checks sample_net ''1.5'' sample_token = Inr (sample_caps, bd2 150)"
    by (simp add: burn_checks_def sample)
  then show ?thesis by (simp add: burn_handler_def sample op_burn_def by_access_def signing_def)
qed

theorem burn_safe_witness: "decimal_value ''1.5'' \<le> bd_rat (bd2 5000)"
proof -
  have "getBurnableAmountQuery sample_net sample_token = Inr (bd2 5000)"
    by (simp add: getBurnableAmountQuery_def sample exact.fromStringFixed_int in_range128_def bd2_def)
  then show ?thesis
    using burn_safe [of sample_net sample_token sample_caps sample_token "bd2 5000",
        OF _ _ _ _ burn_sample_acts]
    by (simp add: sample exact.fixed_number_api_axioms)
qed

lemma require_relation_Inr:
  "require_relation E i reported k = Inr r \<longleftrightarrow> mn_getAccountToken E i k = Inr (Some r)"
  by (cases "mn_getAccountToken E i k")
    (auto simp: require_relation_def getAccountTokenRelationshipQuery_def not_associated_def split: option.splits)

text \<open>
  Wipe: a submission is one call of the adapter's wipe with the exact amount, which is at
  most the balance of the target's relationship with the token, which exists.
\<close>

theorem wipe_safe:
  assumes "fixed_number_api (env_lib E)"
    and "service_getCapabilities E tokenId = Inr caps"
    and "actions (wipe_handler E A amount targetId tokenId sd) \<noteq> []"
  shows "\<exists>rel a. mn_getAccountToken E targetId tokenId = Inr (Some rel) \<and>
    decimal_value amount \<le> bd_rat (tr_balance rel) \<and>
    bd_rat a = decimal_value amount \<and> bd_decimals a = sc_decimals (caps_coin caps) \<and>
    wipe_handler E A amount targetId tokenId sd = respond (ta_wipe A caps targetId a sd)"
proof -
  obtain p where p: "wipe_checks E amount targetId tokenId = Inr p"
    using assms(3) unfolding wipe_handler_def by (rule withR_acts)
  then obtain rel a where a: "mn_getAccountToken E targetId tokenId = Inr (Some rel)" "p = (caps, a)"
    "bd_fromString (env_lib E) amount (Some (sc_decimals (caps_coin caps))) = Inr a"
    "\<not> isGreaterThan (env_lib E) a (tr_balance rel)"
    using assms(2)
    by (auto simp: wipe_checks_def bindR_Inr_iff require_relation_Inr Let_def not_allowed_def split: if_splits)
  have "bd_rat a = decimal_value amount" "bd_decimals a = sc_decimals (caps_coin caps)"
    using a(3) fixed_number_api.fromString_rat [OF assms(1)]
      fixed_number_api.fromString_decimals [OF assms(1)] by blast+
  moreover from this have "decimal_value amount \<le> bd_rat (tr_balance rel)"
    using a(4) fixed_number_api.gt [OF assms(1)] by (simp add: isGreaterThan_def not_less)
  ultimately show ?thesis using a(1,2) p by (auto simp: wipe_handler_def)
qed

lemma wipe_sample_acts:
  "actions (wipe_handler sample_net (sample_adapter sample_net) ''1.5'' sample_target sample_token None) \<noteq> []"
proof -
  have "wipe_checks sample_net ''1.5'' sample_target sample_token = Inr (sample_caps, bd2 150)"
    by (simp add: wipe_checks_def sample require_relation_Inr [THEN iffD2])
  then show ?thesis
    by (simp add: wipe_handler_def sample op_wipe_def by_access_def signing_def resolve_id_def
        sample_target_def HederaId_NULL_def)
qed

theorem wipe_safe_witness: "decimal_value ''1.5'' \<le> bd_rat (bd2 5000)"
  using wipe_safe [of sample_net sample_token sample_caps, OF _ _ wipe_sample_acts]
  by (auto simp: sample exact.fixed_number_api_axioms)

text \<open>
  Rescue: a submission is one call of the adapter's rescue with the exact amount, which is
  at most the balance that the contract reports for the treasury; the current account is associated
  with the token, not frozen and not without KYC.
\<close>

theorem rescue_safe:
  assumes "fixed_number_api (env_lib E)"
    and "service_getCapabilities E tokenId = Inr caps"
    and "sc_tokenId (caps_coin caps) = Some coinId" "sc_treasury (caps_coin caps) = Some treasury"
    and "balanceOfQuery E coinId treasury = Inr balance"
    and "actions (rescue_handler E A amount tokenId sd) \<noteq> []"
  shows "\<exists>rel a. mn_getAccountToken E (acc_id (env_account E)) tokenId = Inr (Some rel) \<and> active_relation rel \<and>
    decimal_value amount \<le> bd_rat balance \<and>
    bd_rat a = decimal_value amount \<and> bd_decimals a = sc_decimals (caps_coin caps) \<and>
    rescue_handler E A amount tokenId sd = respond (ta_rescue A caps a sd)"
proof -
  obtain p where p: "rescue_checks E amount tokenId = Inr p"
    using assms(6) unfolding rescue_handler_def by (rule withR_acts)
  then obtain rel a where a: "mn_getAccountToken E (acc_id (env_account E)) tokenId = Inr (Some rel)"
    "active_relation rel" "p = (caps, a)"
    "bd_fromString (env_lib E) amount (Some (sc_decimals (caps_coin caps))) = Inr a"
    "\<not> isGreaterThan (env_lib E) a balance"
    using assms(2-5)
    by (auto simp: rescue_checks_def bindR_Inr_iff require_relation_Inr check_active_Inr Let_def
        not_allowed_def split: if_splits)
  have "bd_rat a = decimal_value amount" "bd_decimals a = sc_decimals (caps_coin caps)"
    using a(4) fixed_number_api.fromString_rat [OF assms(1)]
      fixed_number_api.fromString_decimals [OF assms(1)] by blast+
  moreover from this have "decimal_value amount \<le> bd_rat balance"
    using a(5) fixed_number_api.gt [OF assms(1)] by (simp add: isGreaterThan_def not_less)
  ultimately show ?thesis using a(1-3) p by (auto simp: rescue_handler_def)
qed

lemma balance_sample: "balanceOfQuery sample_net i j = Inr (bd2 5000)"
  by (simp add: balanceOfQuery_def sample exact.fromStringFixed_int in_range128_def bd2_def)

lemma rescue_sample_acts:
  "actions (rescue_handler sample_net (sample_adapter sample_net) ''1.5'' sample_token None) \<noteq> []"
proof -
  have "rescue_checks sample_net ''1.5'' sample_token = Inr (sample_caps, bd2 150)"
    by (simp add: rescue_checks_def sample require_relation_Inr [THEN iffD2] check_active_def balance_sample)
  then show ?thesis by (simp add: rescue_handler_def sample op_rescue_def signing_def)
qed

theorem rescue_safe_witness: "decimal_value ''1.5'' \<le> bd_rat (bd2 5000)"
  using rescue_safe [of sample_net sample_token sample_caps sample_token "HederaId ''0.0.10''" "bd2 5000",
      OF _ _ _ _ _ rescue_sample_acts]
  by (auto simp: sample exact.fixed_number_api_axioms balance_sample)

end
