(* ===== verification/Port_Properties.thy ===== *)
theory Port_Properties
  imports Input_Ports Cash_Properties
begin

text \<open>
  Properties of the input ports: which requests pass, that a port runs its handler on well-formed
  identifiers or does nothing, and what the validation lets through.
\<close>

section \<open>The schema engine on a request\<close>

lemma validate_Nil:
  assumes "distinct (map fst (rq_schema r))"
  shows "validate r None = [] \<longleftrightarrow>
    (\<forall>(k, check) \<in> set (rq_schema r). k \<in> renamePrivateProp ` fst ` set (rq_props r) \<longrightarrow>
       (case getProperty r k of None \<Rightarrow> isOptional r k | Some v \<Rightarrow> check v = Inr []))"
proof -
  have "pushValidations r k = [] \<longleftrightarrow> (case getProperty r k of None \<Rightarrow> isOptional r k | Some v \<Rightarrow> check v = Inr [])"
    if "(k, check) \<in> set (rq_schema r)" for k check
    using that assms by (simp add: runValidation_none)
  moreover have "validate r None = [] \<longleftrightarrow>
    (\<forall>(k, check) \<in> set (rq_schema r). k \<in> renamePrivateProp ` fst ` set (rq_props r) \<longrightarrow> pushValidations r k = [])"
    unfolding validate_def filterSchemaFromProps_def Let_def by (simp add: image_comp Ball_def split_beta) force
  ultimately show ?thesis by (simp add: Ball_def)
qed

lemmas request_engine = getProperty_def own_property_def isOptional_def renamePrivateProp_def js_startsWith_def
  js_truthy_def

lemma given_value: "(case map_option f x of None \<Rightarrow> True | Some v \<Rightarrow> P v) \<longleftrightarrow> (\<forall>s. x = Some s \<longrightarrow> P (f s))"
  by (cases x) simp_all

lemma id_accepted:
  "checkHederaIdFormat zero (JString s) = Inr [] \<longleftrightarrow> hedera_format s \<and> (zero \<or> s \<noteq> ''0.0.0'')"
  by (auto simp: checkHederaIdFormat_def)

definition date_ok :: "request_lib \<Rightarrow> string option \<Rightarrow> bool" where
  "date_ok V d \<longleftrightarrow> (\<forall>s. d = Some s \<longrightarrow> startDate_check V (JString s) = Inr [])"

definition account_ok :: "string \<Rightarrow> bool" where
  "account_ok s \<longleftrightarrow> hedera_format s \<and> s \<noteq> ''0.0.0''"

definition amount_ok :: "fixed_number_lib \<Rightarrow> nat \<Rightarrow> string \<Rightarrow> bool" where
  "amount_ok L decimals s \<longleftrightarrow>
     (\<exists>b. bd_fromString L s None = Inr b \<and> bd_decimals b \<le> decimals \<and> 0 < bd_rat b)"

text \<open>A request with these properties passes exactly when its amounts, identifiers and dates are right.\<close>

lemma optional_given: "(case x of None \<Rightarrow> None | Some v \<Rightarrow> Some v) = x"
  by (cases x) simp_all

context fixed_number_api
begin

lemma amount_accepted: "checkAmount L False d (JString s) = Inr [] \<longleftrightarrow> amount_ok L d s"
  using checkAmount_iff [of False d s] by (simp add: amount_ok_def)

lemmas accepted = amount_accepted id_accepted account_ok_def date_ok_def

lemma amount_requests_pass:
  assumes V: "rl_lib V = L"
  shows "validate (CashInRequest V amount t k d) None = [] \<longleftrightarrow>
      amount_ok L 18 amount \<and> account_ok t \<and> account_ok k \<and> date_ok V d"
    and "validate (WipeRequest V amount t k d) None = [] \<longleftrightarrow>
      amount_ok L 18 amount \<and> account_ok t \<and> account_ok k \<and> date_ok V d"
    and "validate (BurnRequest V amount k d) None = [] \<longleftrightarrow> amount_ok L 18 amount \<and> account_ok k \<and> date_ok V d"
    and "validate (RescueRequest V k amount d) None = [] \<longleftrightarrow> amount_ok L 18 amount \<and> account_ok k \<and> date_ok V d"
    and "validate (RescueHBARRequest V k amount d) None = [] \<longleftrightarrow>
      amount_ok L HBAR_DECIMALS amount \<and> account_ok k \<and> date_ok V d"
    and "validate (IncreaseSupplierAllowanceRequest V k t amount d) None = [] \<longleftrightarrow>
      amount_ok L 18 amount \<and> account_ok t \<and> account_ok k \<and> date_ok V d"
    and "validate (DecreaseSupplierAllowanceRequest V k t amount d) None = [] \<longleftrightarrow>
      amount_ok L 18 amount \<and> account_ok t \<and> account_ok k \<and> date_ok V d"
  by (subst validate_Nil; auto simp: CashInRequest_def WipeRequest_def BurnRequest_def RescueRequest_def
      RescueHBARRequest_def IncreaseSupplierAllowanceRequest_def DecreaseSupplierAllowanceRequest_def
      request_engine accepted V split: option.splits)+

end

lemma account_requests_pass:
  "validate (FreezeAccountRequest V k t d) None = [] \<longleftrightarrow> account_ok t \<and> account_ok k \<and> date_ok V d"
  "validate (KYCRequest V t k d) None = [] \<longleftrightarrow> account_ok t \<and> account_ok k \<and> date_ok V d"
  "validate (PauseRequest V k d) None = [] \<longleftrightarrow> account_ok k \<and> date_ok V d"
  "validate (DeleteRequest V k d) None = [] \<longleftrightarrow> account_ok k \<and> date_ok V d"
  by (subst validate_Nil; auto simp: FreezeAccountRequest_def KYCRequest_def PauseRequest_def DeleteRequest_def
      request_engine id_accepted account_ok_def date_ok_def split: option.splits)+

section \<open>From a request to its handler\<close>

lemma validated_if:
  "validated name r m = (if validate r None = [] then m else throw (ValidationError name (validate r None)))"
  by (simp add: validated_def handleValidation_def Let_def)

lemma with_id_ok: "account_ok i \<Longrightarrow> with_id i f = f (HederaId i)"
  by (simp add: with_id_def HederaId_from_def new_HederaId_def account_ok_def)

lemma with_ids_ok: "account_ok i \<Longrightarrow> account_ok j \<Longrightarrow> with_ids i j f = f (HederaId i) (HederaId j)"
  by (simp add: with_ids_def with_id_ok)

definition sample_lib :: request_lib where
  "sample_lib =
     \<lparr>rl_lib = exact_lib, rl_validDate = (\<lambda>_. True), rl_parsesContract = hedera_format,
      rl_derive = (\<lambda>_ _. Inl TypeError), rl_sdkType = (\<lambda>_. Inl TypeError), rl_now = 0, rl_nanLong = Inl TypeError\<rparr>"

lemma sample_lib_simps [simp]: "rl_lib sample_lib = exact_lib"
  by (simp add: sample_lib_def)

lemma sample_accounts_ok: "account_ok ''0.0.8''" "account_ok ''0.0.9''"
  by (unfold account_ok_def, code_simp+)

lemma sample_amount_ok: "amount_ok exact_lib 18 ''1.5''"
proof -
  have "bd_fromString exact_lib ''1.5'' None = Inr \<lparr>bd_fn = \<lparr>fn_value = 15, fn_decimals = 1\<rparr>\<rparr>" by code_simp
  then show ?thesis by (simp add: amount_ok_def fn_rat_def)
qed

lemma parses_with_point:
  assumes "list_all is_digit w" "list_all is_digit f" "w \<noteq> []" "length f \<le> d" "d \<le> 80"
    and "int (str_nat (w @ f)) * 10 ^ (d - length f) < 2 ^ 127"
  shows "parse_fixed (w @ ''.'' @ f) d \<noteq> None"
proof -
  have "w @ js_padEnd f d (CHR ''0'') = (w @ f) @ replicate (d - length f) (CHR ''0'')"
    by (simp add: js_padEnd_def)
  then have "int (str_nat (w @ js_padEnd f d (CHR ''0''))) < 2 ^ 127"
    using assms(6) by (simp only: str_nat_pad of_nat_mult of_nat_power of_nat_numeral)
  then show ?thesis
    using assms(1-5) parse_fixed_point [of w f d] by (simp add: in_range128_def)
qed

lemma sample_isBigDecimal: "isBigDecimal exact_lib ''1.5''" "isBigDecimal exact_lib ''50.99''"
proof -
  have "str_nat ''15'' = 15" "str_nat ''5099'' = 5099" by code_simp+
  then show "isBigDecimal exact_lib ''1.5''" "isBigDecimal exact_lib ''50.99''"
    using parses_with_point [of "''1''" "''5''" 18] parses_with_point [of "''50''" "''99''" 18]
    by (simp_all add: isBigDecimal_def exact.fromString is_digit_def char_code_def)
qed



text \<open>
  Property C18. From the port of cash in to the network: when it does anything outside, the amount is a
  positive decimal, the identifiers are well formed, the target can receive the token, everything
  outside is one call of the adapter's cash in with exactly this amount, and the supply grows but not
  beyond the coin's maximum (a finite coin with a positive maximum) or the network's limit (other coins).
\<close>

theorem port_cash_in_sound:
  assumes "fixed_number_api (env_lib E)" "rl_lib V = env_lib E"
    and "service_getCapabilities E (HederaId tokenId) = Inr caps" "coin = caps_coin caps"
    and "supply_in_range coin supply mx"
    and "actions (port_cashIn V E A tokenId amount targetId startDate) \<noteq> []"
  shows "0 < decimal_value amount \<and> account_ok targetId \<and> account_ok tokenId \<and> date_ok V startDate \<and>
    can_receive E (HederaId targetId) (HederaId tokenId) \<and>
    (\<exists>a. bd_rat a = decimal_value amount \<and>
       port_cashIn V E A tokenId amount targetId startDate =
         respond (ta_cashin A caps (HederaId targetId) a startDate)) \<and>
    (sc_supplyType coin = Some FINITE \<longrightarrow> 0 < bd_rat mx \<longrightarrow> bd_rat supply + decimal_value amount \<le> bd_rat mx) \<and>
    (sc_supplyType coin \<noteq> Some FINITE \<longrightarrow>
       bd_rat supply + decimal_value amount \<le> 9223372036854775807 / 10 ^ sc_decimals coin)"
proof -
  note fromString_rat = fixed_number_api.fromString_rat [OF assms(1)]
    and pass = fixed_number_api.amount_requests_pass [OF assms(1,2)]
  let ?handler = "cashIn_handler E A amount (HederaId targetId) (HederaId tokenId) startDate"
  have ok: "amount_ok (env_lib E) 18 amount" "account_ok targetId" "account_ok tokenId" "date_ok V startDate"
    and run: "port_cashIn V E A tokenId amount targetId startDate = ?handler"
    using assms(6) by (auto simp: port_cashIn_def validated_if pass with_ids_ok
        split: if_splits)
  from ok(1) have "0 < decimal_value amount" by (auto simp: amount_ok_def fromString_rat)
  moreover obtain a where "can_receive E (HederaId targetId) (HederaId tokenId)"
    "bd_fromString (env_lib E) amount (Some (sc_decimals coin)) = Inr a" "cashin_check_supply E coin a = Inr ()"
    "?handler = respond (ta_cashin A caps (HederaId targetId) a startDate)"
    using cashIn_acts [OF assms(6)[unfolded run] assms(3)] assms(4) by metis
  ultimately show ?thesis
    using ok run fromString_rat fixed_number_api.supply_check_cap [OF assms(1) refl assms(5), of a] by auto
qed

theorem port_cash_in_sound_witness:
  "bd_rat (bd2 10000) + decimal_value ''1.5'' \<le> bd_rat (bd2 20000) \<and> 0 < decimal_value ''1.5''"
proof -
  have "port_cashIn sample_lib sample_net (sample_adapter sample_net) ''0.0.9'' ''1.5'' ''0.0.8'' None =
     cashIn_handler sample_net (sample_adapter sample_net) ''1.5'' sample_target sample_token None"
    by (simp add: port_cashIn_def validated_if exact.amount_requests_pass sample_amount_ok sample_accounts_ok
        date_ok_def with_ids_ok sample_target_def sample_token_def)
  then show ?thesis
    using port_cash_in_sound [of sample_net sample_lib "''0.0.9''" sample_caps sample_stored "bd2 10000" "bd2 20000"
        "sample_adapter sample_net" "''1.5''" "''0.0.8''" None] sample_cash_in_acts supply_in_range_sample
    by (simp add: exact.fixed_number_api_axioms sample fn_rat_def bd2_def)
qed

section \<open>Roles\<close>

lemma role_accepted: "checkRole (JString (role_hash role)) = Inr []"
  by (cases role) (simp_all add: checkRole_def ALL_ROLES_def)

lemma GrantRoleRequest_passes:
  assumes "fixed_number_api (rl_lib V)"
  shows "validate (GrantRoleRequest V k t (Some role) st am) None = [] \<longleftrightarrow>
    account_ok t \<and> account_ok k \<and>
    (\<forall>s. st = Some s \<longrightarrow> js_toLowerCase s \<in> {''limited'', ''unlimited''}) \<and>
    (\<forall>a. am = Some a \<longrightarrow> amount_ok (rl_lib V) 18 a)"
  by (subst validate_Nil; auto simp: GrantRoleRequest_def request_engine id_accepted account_ok_def role_accepted
      supplier_type_check_def fixed_number_api.amount_accepted [OF assms] split: option.splits)

text \<open>
  The grant of the cash-in role. The request passes with the supplier types
  \<open>limited\<close> and \<open>unlimited\<close> in any case of the letters, or without one; but only the exact string
  \<open>limited\<close> grants an allowance, every other request that passes grants the role without limit,
  whatever its amount.
\<close>

theorem grant_role_by_type:
  assumes "fixed_number_api (rl_lib V)"
  shows "port_grantRole V E A k t (Some CASHIN_ROLE) supplierType amount =
    (if account_ok t \<and> account_ok k \<and>
        (\<forall>s. supplierType = Some s \<longrightarrow> js_toLowerCase s \<in> {''limited'', ''unlimited''}) \<and>
        (\<forall>a. amount = Some a \<longrightarrow> amount_ok (rl_lib V) 18 a)
     then if supplierType = Some ''limited''
          then (case amount of None \<Rightarrow> throw TypeError
                | Some a \<Rightarrow> grantSupplierRole_handler E A (HederaId t) (HederaId k) a)
          else grantUnlimitedSupplierRole_handler E A (HederaId t) (HederaId k)
     else throw (ValidationError ''GrantRoleRequest''
            (validate (GrantRoleRequest V k t (Some CASHIN_ROLE) supplierType amount) None)))"
proof -
  have "js_toLowerCase ''limited'' = ''limited''" by code_simp
  then show ?thesis
    by (cases amount)
      (auto simp: port_grantRole_def validated_if GrantRoleRequest_passes [OF assms] with_ids_ok of_option_def)
qed

theorem grant_role_by_type_witness:
  "port_grantRole sample_lib sample_net (sample_adapter sample_net) ''0.0.9'' ''0.0.8'' (Some CASHIN_ROLE)
       (Some ''Limited'') (Some ''1.5'') =
     grantUnlimitedSupplierRole_handler sample_net (sample_adapter sample_net) (HederaId ''0.0.8'') (HederaId ''0.0.9'')"
proof -
  have "js_toLowerCase ''Limited'' = ''limited''" by code_simp
  then show ?thesis
    using grant_role_by_type [of sample_lib sample_net "sample_adapter sample_net" "''0.0.9''" "''0.0.8''" "Some ''Limited''" "Some ''1.5''"]
    by (simp add: exact.fixed_number_api_axioms sample_accounts_ok sample_amount_ok)
qed

section \<open>Fees\<close>

lemma js_parseInt_digits:
  assumes "list_all is_digit s" "s \<noteq> []"
  shows "js_parseInt s = Some (int (str_nat s))"
proof -
  obtain c r where s: "s = c # r" "is_digit c" using assms by (cases s) auto
  then have "dropWhile is_blank s = s" "\<not> js_startsWith s ''-''" "\<not> js_startsWith s ''+''"
    by (auto simp: js_startsWith_def is_blank_def is_digit_def char_code_def)
  moreover have "\<not> js_startsWith s ''0x''" "\<not> js_startsWith s ''0X''"
    using s assms(1) by (cases r; auto simp: js_startsWith_def is_digit_def char_code_def)+
  ultimately show ?thesis
    using assms(2) by (simp add: js_parseInt_def Let_def digits_all [OF assms(1), THEN conjunct1])
qed

lemma js_parseInt_int_str: "0 \<le> n \<Longrightarrow> js_parseInt (int_str n) = Some n"
  using js_parseInt_digits [OF nat_str_digits nat_str_nonempty, of "nat n"] by (simp add: int_str_def)

context fixed_number_api
begin

lemma decimal_accepted:
  "decimal_check L s d rest = Inr [] \<longleftrightarrow>
     isBigDecimal L s \<and> (\<exists>b. bd_fromString L s None = Inr b \<and> bd_decimals b \<le> d) \<and> rest = Inr []"
  by (cases "bd_fromString L s None") (auto simp: decimal_check_def hasMoreDecimals_def)

lemma percentage_accepted:
  assumes "percentage_check L num (JString p) = Inr []" "\<not> provided num"
  shows "\<exists>b. bd_fromString L p (Some 2) = Inr b \<and> bd_rat b = decimal_value p \<and> bd_decimals b = 2 \<and>
    0 < bd_rat b \<and> bd_rat b < 100"
proof -
  have "p \<noteq> []" using assms by (auto simp: percentage_check_def)
  then obtain z h b where b: "bd_fromString L ''0'' (Some 2) = Inr z" "bd_fromString L ''100'' (Some 2) = Inr h"
    "bd_fromString L p (Some 2) = Inr b" "\<not> (isLowerOrEqualThan L b z \<or> isGreaterOrEqualThan L b h)"
    using assms by (auto simp: percentage_check_def Let_def decimal_accepted bindR_Inr_iff MAX_PERCENTAGE_DECIMALS_def
        split: if_splits)
  moreover have "decimal_value ''0'' = 0" "decimal_value ''100'' = 100" by code_simp+
  ultimately show ?thesis
    using fromString_rat [OF b(1)] fromString_rat [OF b(2)] fromString_rat [OF b(3)]
      new_of_string_decimals [of p 2 b] by (simp add: order_iffs bd_fromString_def)
qed

end

text \<open>
  A percentage that the validation of a fractional fee accepts becomes a proper fraction
  over 10000 of exactly that percentage, whatever its notation.
\<close>

theorem percentage_fraction:
  assumes "fixed_number_api L" "\<not> provided num" "percentage_check L num (JString p) = Inr []"
  shows "\<exists>a. fee_fraction L num den p = Inr (Some a, Some 10000) \<and> 0 < a \<and> a < 10000 \<and>
    of_int a / 10000 = decimal_value p / 100"
proof -
  obtain b where b: "bd_fromString L p (Some 2) = Inr b" "bd_rat b = decimal_value p" "bd_decimals b = 2"
    "0 < bd_rat b" "bd_rat b < 100"
    using fixed_number_api.percentage_accepted [OF assms(1,3,2)] by blast
  then have "bd_rat b = of_int (bd_value b) / 100" by (simp add: fn_rat_def)
  then have v: "0 < bd_value b" "bd_value b < 10000" "of_int (bd_value b) / 10000 = decimal_value p / 100"
    using b by auto
  then have "fee_fraction L num den p = Inr (Some (bd_value b), Some 10000)"
    using b(1) assms(2) js_parseInt_int_str [of "bd_value b"] js_parseInt_int_str [of 10000]
    by (simp add: fee_fraction_def getFractionFromPercentage_def MAX_PERCENTAGE_DECIMALS_def toBigInt_def)
  then show ?thesis using v by blast
qed

theorem percentage_fraction_witness:
  "\<exists>a. fee_fraction exact_lib None None ''1.5'' = Inr (Some a, Some 10000) \<and> of_int a / 10000 = decimal_value ''1.5'' / 100"
proof -
  have "bd_fromString exact_lib ''0'' (Some 2) = Inr (bd2 0)" "bd_fromString exact_lib ''100'' (Some 2) = Inr (bd2 10000)"
    unfolding bd2_def by code_simp+
  then have "percentage_check exact_lib None (JString ''1.5'') = Inr []"
    by (simp add: percentage_check_def provided_def exact.decimal_accepted MAX_PERCENTAGE_DECIMALS_def sample
        sample_isBigDecimal Let_def exact.order_iffs fn_rat_def bd2_def)
  then show ?thesis
    using percentage_fraction [OF exact.fixed_number_api_axioms, of None "''1.5''" None] by (auto simp: provided_def)
qed

lemma UpdateCustomFeesRequest_passes:
  "validate (UpdateCustomFeesRequest fees k) None = [] \<longleftrightarrow> account_ok k \<and> length fees \<le> 10"
  by (subst validate_Nil; auto simp: UpdateCustomFeesRequest_def request_engine id_accepted account_ok_def
      custom_fees_check_def MAX_CUSTOM_FEES_def split: option.splits)

context fixed_number_api
begin

lemma fee_amount_positive:
  assumes "fee_amount_check L d (JString s) = Inr []"
  shows "0 < decimal_value s"
proof -
  obtain z b where b: "bd_fromString L ''0'' (Some d) = Inr z" "bd_fromString L s (Some d) = Inr b"
    "\<not> isLowerOrEqualThan L b z"
    using assms by (auto simp: fee_amount_check_def decimal_accepted bindR_Inr_iff split: if_splits)
  moreover have "decimal_value ''0'' = 0" by code_simp
  ultimately show ?thesis using fromString_rat [OF b(1)] fromString_rat [OF b(2)] by (simp add: order_iffs)
qed

lemma AddFixedFeeRequest_passes:
  assumes "rl_lib V = L"
  shows "validate (AddFixedFeeRequest V k c ex d tk amount) None = [] \<longleftrightarrow>
    account_ok k \<and> account_ok c \<and> hedera_format tk \<and> fee_amount_check L d (JString amount) = Inr []"
  by (subst validate_Nil; auto simp: AddFixedFeeRequest_def request_engine id_accepted account_ok_def assms)

end

text \<open>
  A fixed fee that is added alone is validated: its collector is an account and its amount
  is positive. A list of fees that replaces the fees of the token is validated only in its length: the
  fees themselves reach the handler as they are.
\<close>

theorem fees_validated:
  assumes "fixed_number_api (rl_lib V)"
  shows "(actions (port_addFixedFee V E A k c tk amount d ex) \<noteq> [] \<longrightarrow>
      account_ok k \<and> account_ok c \<and> 0 < decimal_value amount) \<and>
    port_updateCustomFees V E A k fees =
      (if account_ok k \<and> length fees \<le> 10
       then withR (mapR (requested_fee (rl_lib V)) fees) (\<lambda>requested.
              updateCustomFees_handler E A (HederaId k) (concat requested))
       else throw (ValidationError ''UpdateCustomFeesRequest'' (validate (UpdateCustomFeesRequest fees k) None)))"
  using fixed_number_api.fee_amount_positive [OF assms, of d amount]
  by (simp add: port_addFixedFee_def port_updateCustomFees_def validated_if with_id_ok
      fixed_number_api.AddFixedFeeRequest_passes [OF assms refl] UpdateCustomFeesRequest_passes)

definition negative_fee :: request_fee where
  "negative_fee =
     \<lparr>rf_collectorId = ''0.0.8'', rf_collectorsExempt = False, rf_decimals = 2, rf_amount = Some ''-1.5'',
      rf_tokenIdCollected = Some ''0.0.9'', rf_amountNumerator = None, rf_amountDenominator = [], rf_percentage = [],
      rf_min = [], rf_max = [], rf_net = False\<rparr>"

theorem fees_validated_witness:
  "\<exists>fee. requested_fee exact_lib negative_fee = Inr [fee] \<and>
    port_updateCustomFees sample_lib sample_net (sample_adapter sample_net) ''0.0.9'' [negative_fee] =
      updateCustomFees_handler sample_net (sample_adapter sample_net) (HederaId ''0.0.9'') [fee]"
proof -
  have "bd_fromString exact_lib ''-1.5'' (Some 2) = Inr (bd2 (-150))" unfolding bd2_def by code_simp
  then obtain fee where "requested_fee exact_lib negative_fee = Inr [fee]"
    using sample_accounts_ok
    by (auto simp: requested_fee_def negative_fee_def isRequestFixedFee_def HederaId_from_def new_HederaId_def
        account_ok_def)
  then show ?thesis
    using fees_validated [of sample_lib sample_net "sample_adapter sample_net" "''0.0.9''" _ _ _ _ _ "[negative_fee]"]
    by (simp add: exact.fixed_number_api_axioms sample_accounts_ok)
qed

end
