(* ===== verification/Cli_Properties.thy ===== *)
theory Cli_Properties
  imports Cli_Session Port_Properties
begin

text \<open>
  Properties of the dialogs of the command line and of its session.
\<close>

section \<open>A logic of dialogs\<close>

text \<open>
  \<open>dlg P m Q\<close>: whatever the answers are, every call of the SDK that \<open>m\<close> makes satisfies \<open>P\<close>, and so does
  its result \<open>Q\<close>.
\<close>

definition dlg :: "(sdk_op \<Rightarrow> request \<Rightarrow> bool) \<Rightarrow> 'a dialog \<Rightarrow> ('a \<Rightarrow> bool) \<Rightarrow> bool" where
  "dlg P m Q \<longleftrightarrow> (\<forall>answers.
     (\<forall>op req. ECall op req \<in> set (fst (m answers)) \<longrightarrow> P op req) \<and>
     (\<forall>x rest. snd (m answers) = Done x rest \<longrightarrow> Q x))"

named_theorems dlg_rules

lemma dlg_ret [dlg_rules]: "Q x \<Longrightarrow> dlg P (retD x) Q"
  by (simp add: dlg_def retD_def)

lemma dlgI:
  assumes "\<And>answers op req. ECall op req \<in> set (fst (m answers)) \<Longrightarrow> P op req"
    and "\<And>answers x rest. snd (m answers) = Done x rest \<Longrightarrow> Q x"
  shows "dlg P m Q"
  using assms by (auto simp: dlg_def)

lemma dlg_calls: "dlg P m Q \<Longrightarrow> ECall op req \<in> set (fst (m answers)) \<Longrightarrow> P op req"
  by (simp add: dlg_def)

lemma dlg_result: "dlg P m Q \<Longrightarrow> snd (m answers) = Done x rest \<Longrightarrow> Q x"
  unfolding dlg_def by blast

lemma bindD_parts:
  "fst (bindD m f answers) = fst (m answers) @ (case snd (m answers) of Done x rest \<Rightarrow> fst (f x rest) | _ \<Rightarrow> [])"
  "snd (bindD m f answers) = (case snd (m answers) of Done x rest \<Rightarrow> snd (f x rest)
     | Waiting \<Rightarrow> Waiting | Thrown e rest \<Rightarrow> Thrown e rest)"
  by (cases "m answers"; cases "snd (m answers)"; simp add: bindD_def)+

lemma tryD_parts:
  "fst (tryD m h answers) = fst (m answers) @ (case snd (m answers) of Thrown e rest \<Rightarrow> fst (h e rest) | _ \<Rightarrow> [])"
  "snd (tryD m h answers) = (case snd (m answers) of Done x rest \<Rightarrow> Done x rest
     | Waiting \<Rightarrow> Waiting | Thrown e rest \<Rightarrow> snd (h e rest))"
  by (cases "m answers"; cases "snd (m answers)"; simp add: tryD_def)+

lemma dlg_bind [dlg_rules]:
  assumes m: "dlg P m R" and f: "\<And>x. R x \<Longrightarrow> dlg P (f x) Q"
  shows "dlg P (bindD m f) Q"
proof (rule dlgI)
  show "P op req" if "ECall op req \<in> set (fst (bindD m f answers))" for answers op req
    using that dlg_calls [OF m] dlg_calls [OF f] dlg_result [OF m]
    unfolding bindD_parts set_append Un_iff by (cases "snd (m answers)") fastforce+
  show "Q y" if "snd (bindD m f answers) = Done y rest" for answers y rest
    using that dlg_result [OF f] dlg_result [OF m]
    unfolding bindD_parts by (cases "snd (m answers)") fastforce+
qed

lemma dlg_try [dlg_rules]:
  assumes m: "dlg P m Q" and h: "\<And>e. dlg P (h e) Q"
  shows "dlg P (tryD m h) Q"
proof (rule dlgI)
  show "P op req" if "ECall op req \<in> set (fst (tryD m h answers))" for answers op req
    using that dlg_calls [OF m] dlg_calls [OF h]
    unfolding tryD_parts set_append Un_iff by (cases "snd (m answers)") fastforce+
  show "Q y" if "snd (tryD m h answers) = Done y rest" for answers y rest
    using that dlg_result [OF m] dlg_result [OF h]
    unfolding tryD_parts by (cases "snd (m answers)") fastforce+
qed

lemma dlg_weaken: "dlg P m Q \<Longrightarrow> (\<And>x. Q x \<Longrightarrow> Q' x) \<Longrightarrow> dlg P m Q'"
  by (auto simp: dlg_def)

lemma dlg_show [dlg_rules]: "dlg P (showD es) (\<lambda>_. True)"
  by (auto simp: dlg_def showD_def)

lemma dlg_throw [dlg_rules]: "dlg P (throwD e) Q"
  by (simp add: dlg_def throwD_def)

lemma dlg_lift [dlg_rules]: "dlg P (liftD r) (\<lambda>_. True)"
  by (cases r) (simp_all add: liftD_def dlg_throw dlg_ret)

lemma dlg_lift_value: "dlg P (liftD r) (\<lambda>x. r = Inr x)"
  by (cases r) (simp_all add: liftD_def dlg_throw dlg_ret)

lemma dlg_waiting [dlg_rules]: "dlg P (\<lambda>answers. ([], Waiting)) Q"
  by (simp add: dlg_def)

lemma dlg_ask: "dlg P (ask read) (\<lambda>x. \<exists>a. read a = Some x)"
  by (auto simp: dlg_def ask_def split: list.splits option.splits)

lemma dlg_asks [dlg_rules]:
  "dlg P defaultSingleAsk (\<lambda>_. True)" "dlg P defaultConfirmAsk (\<lambda>_. True)"
  by (auto simp: defaultSingleAsk_def defaultConfirmAsk_def intro: dlg_weaken [OF dlg_ask])

lemma picked:
  "(case a of APick n \<Rightarrow> if n < length choices then Some (choices ! n) else None | _ \<Rightarrow> None) = Some x \<Longrightarrow> x \<in> set choices"
  by (cases a) (auto split: if_split_asm)

lemma dlg_pick [dlg_rules]: "dlg P (defaultMultipleAsk choices) (\<lambda>x. x \<in> set choices)"
  unfolding defaultMultipleAsk_def by (rule dlg_weaken [OF dlg_ask]) (elim exE, rule picked)

lemma dlg_call [dlg_rules]: "P op req \<Longrightarrow> dlg P (sdk_call op req res) (\<lambda>x. res = Inr x)"
  by (auto simp: dlg_def sdk_call_def split: sum.splits)

lemma dlg_ticks [dlg_rules]:
  "dlg P (checkBoxMultipleAsk choices atLeastOne) (\<lambda>xs. (\<exists>bs. xs = ticked bs choices) \<and> (atLeastOne \<longrightarrow> xs \<noteq> []))"
proof -
  have "(\<forall>op req. ECall op req \<in> set (fst (checkBoxMultipleAsk choices atLeastOne answers)) \<longrightarrow> P op req) \<and>
    (\<forall>xs rest. snd (checkBoxMultipleAsk choices atLeastOne answers) = Done xs rest \<longrightarrow>
       (\<exists>bs. xs = ticked bs choices) \<and> (atLeastOne \<longrightarrow> xs \<noteq> []))" for answers
    by (induction choices atLeastOne answers rule: checkBoxMultipleAsk.induct)
      (auto split: answer.splits if_splits prod.splits)
  then show ?thesis by (intro dlgI) blast+
qed

lemma dlg_validated [dlg_rules]:
  "dlg P (cli_handleValidation read check) (\<lambda>x. (\<exists>a. read a = Some x) \<and> check x = [])"
proof -
  have "(\<forall>op req. ECall op req \<in> set (fst (cli_handleValidation read check answers)) \<longrightarrow> P op req) \<and>
    (\<forall>x rest. snd (cli_handleValidation read check answers) = Done x rest \<longrightarrow> (\<exists>a. read a = Some x) \<and> check x = [])"
    for answers
    by (induction read check answers rule: cli_handleValidation.induct)
      (auto split: option.splits if_splits prod.splits)
  then show ?thesis by (simp add: dlg_def)
qed

lemma dlg_error [dlg_rules]: "dlg P (askErrorConfirmation e) (\<lambda>_. True)"
  unfolding askErrorConfirmation_def by (rule dlg_rules | simp)+

lemma dlg_or_operations [dlg_rules]: "dlg P m (\<lambda>_. True) \<Longrightarrow> dlg P (or_operations m) (\<lambda>_. True)"
  unfolding or_operations_def by (rule dlg_rules | assumption | simp)+

lemma dlg_run [dlg_rules]: "P op req \<Longrightarrow> dlg P (run_sdk E op req) (\<lambda>_. True)"
  unfolding run_sdk_def by (rule dlg_weaken, rule dlg_call) auto

lemma dlg_submit [dlg_rules]: "P op req \<Longrightarrow> dlg P (submit E op req scr) (\<lambda>_. True)"
  unfolding submit_def by (rule dlg_rules | assumption | simp)+

lemma dlg_start_date [dlg_rules]:
  "dlg P (ask_start_date E build) (\<lambda>d. \<forall>s. d = Some s \<longrightarrow> validate (build d) (Some ''startDate'') = [])"
  unfolding ask_start_date_def
  by (cases "ce_multisig E") (auto intro!: dlg_bind [OF dlg_validated] dlg_ret)


lemma dlg_if [dlg_rules]:
  "(b \<Longrightarrow> dlg P m Q) \<Longrightarrow> (\<not> b \<Longrightarrow> dlg P n Q) \<Longrightarrow> dlg P (if b then m else n) Q"
  by simp

lemma dlg_prod [dlg_rules]:
  "(\<And>x y. p = (x, y) \<Longrightarrow> dlg P (f x y) Q) \<Longrightarrow> dlg P (case p of (x, y) \<Rightarrow> f x y) Q"
  by (cases p) simp

lemma dlg_option [dlg_rules]:
  "(x = None \<Longrightarrow> dlg P m Q) \<Longrightarrow> (\<And>y. x = Some y \<Longrightarrow> dlg P (f y) Q) \<Longrightarrow>
    dlg P (case x of None \<Rightarrow> m | Some y \<Rightarrow> f y) Q"
  by (cases x) simp_all

section \<open>Requests that validate\<close>

abbreviation valid_call :: "sdk_op \<Rightarrow> request \<Rightarrow> bool" where
  "valid_call \<equiv> \<lambda>op req. validate req None = []"

lemma field_ok:
  "validate r (Some k) = [] \<longleftrightarrow>
    (case map_of (rq_schema r) k of
       None \<Rightarrow> isOptional r k
     | Some check \<Rightarrow> (case getProperty r k of None \<Rightarrow> isOptional r k | Some v \<Rightarrow> check v = Inr []))"
proof (cases "map_of (rq_schema r) k")
  case None
  then show ?thesis by (simp add: validate_def pushValidations_def runValidation_def)
next
  case (Some check)
  then show ?thesis by (simp add: validate_def runValidation_none)
qed

lemma id_ok: "account_ok s \<longleftrightarrow> checkHederaIdFormat False (JString s) = Inr []"
  by (simp add: id_accepted account_ok_def)

lemmas requests_open = field_ok request_engine id_ok

lemmas requests_defs = CashInRequest_def GetAccountBalanceRequest_def BurnRequest_def WipeRequest_def RescueRequest_def
  RescueHBARRequest_def GetStableCoinDetailsRequest_def KYCRequest_def FreezeAccountRequest_def
  UpdateConfigVersionRequest_def UpdateConfigRequest_def UpdateResolverRequest_def

lemma cash_calls:
  assumes "account_ok coin"
  shows "dlg valid_call (cash_in_dialog E coin) (\<lambda>_. True)" and "dlg valid_call (balance_dialog E coin) (\<lambda>_. True)"
    and "dlg valid_call (burn_dialog E coin) (\<lambda>_. True)" and "dlg valid_call (wipe_dialog E coin) (\<lambda>_. True)"
    and "dlg valid_call (rescue_dialog E coin) (\<lambda>_. True)" and "dlg valid_call (rescueHBAR_dialog E coin) (\<lambda>_. True)"
  unfolding cash_in_dialog_def balance_dialog_def burn_dialog_def wipe_dialog_def rescue_dialog_def
    rescueHBAR_dialog_def Let_def
  by ((rule dlg_rules)+, subst validate_Nil;
      use assms in \<open>auto simp: requests_defs requests_open split: option.splits\<close>)+

lemma details_calls: "account_ok coin \<Longrightarrow> dlg valid_call (details_dialog E coin) (\<lambda>_. True)"
  unfolding details_dialog_def
  by (rule dlg_rules | subst validate_Nil; force simp: requests_defs requests_open)+

lemma kyc_calls: "account_ok coin \<Longrightarrow> dlg valid_call (kyc_dialog E coin opt) (\<lambda>_. True)"
  unfolding kyc_dialog_def Let_def
  by ((rule dlg_rules)+, subst validate_Nil; auto simp: requests_defs requests_open split: option.splits)

lemma dlg_unasked_date [dlg_rules]:
  "dlg P (if b then retD None else ask_start_date E build)
     (\<lambda>d. \<forall>s. d = Some s \<longrightarrow> validate (build d) (Some ''startDate'') = [])"
proof (cases b)
  case False
  then show ?thesis using dlg_start_date [of P E build] by simp
qed (simp add: dlg_ret)

lemma freeze_calls: "account_ok coin \<Longrightarrow> dlg valid_call (freeze_dialog E coin opt) (\<lambda>_. True)"
  unfolding freeze_dialog_def Let_def
  by ((rule dlg_bind dlg_validated dlg_unasked_date dlg_submit)+, subst validate_Nil;
      auto simp: requests_defs requests_open split: option.splits)

lemma resolver_calls: "account_ok coin \<Longrightarrow> dlg valid_call (resolver_dialog E coin opt) (\<lambda>_. True)"
  unfolding resolver_dialog_def updateConfigVersion_dialog_def updateConfig_dialog_def updateResolver_dialog_def Let_def
  by (cases opt; simp; (rule dlg_rules)+, subst validate_Nil;
      auto simp: requests_defs requests_open split: option.splits)

lemmas hold_requests = CreateHoldRequest_def CreateHoldByControllerRequest_def ExecuteHoldRequest_def
  ReleaseHoldRequest_def ReclaimHoldRequest_def GetHeldAmountForRequest_def GetHoldCountForRequest_def
  GetHoldsIdForRequest_def GetHoldForRequest_def

lemma dlg_destination [dlg_rules]:
  "dlg P (ask_destination req) (\<lambda>t. t = None \<or> validate (req t) (Some ''targetId'') = [])"
  unfolding ask_destination_def
  by (rule dlg_bind dlg_asks dlg_if dlg_validated dlg_ret | simp)+

lemma create_hold_calls:
  assumes "account_ok coin"
  shows "dlg valid_call (createHold_dialog E coin) (\<lambda>_. True)"
    and "dlg valid_call (createHoldByController_dialog E coin) (\<lambda>_. True)"
  unfolding createHold_dialog_def createHoldByController_dialog_def Let_def
  by ((rule dlg_rules)+, subst validate_Nil;
      use assms in \<open>auto simp: hold_requests requests_open split: option.splits\<close>)+

lemma checkNumber_whole: "0 \<le> n \<Longrightarrow> checkNumber L None (Some 0) (JNumber n) = Inr []"
  by (simp add: checkNumber_def)

lemma close_hold_calls:
  assumes "account_ok coin"
  shows "dlg valid_call (executeHold_dialog E coin) (\<lambda>_. True)"
    and "dlg valid_call (releaseHold_dialog E coin) (\<lambda>_. True)"
    and "dlg valid_call (reclaimHold_dialog E coin) (\<lambda>_. True)"
    and "dlg valid_call (holdDetails_dialog E coin) (\<lambda>_. True)"
  unfolding executeHold_dialog_def releaseHold_dialog_def reclaimHold_dialog_def holdDetails_dialog_def Let_def
  by ((rule dlg_rules)+, subst validate_Nil;
      use assms in \<open>auto simp: hold_requests requests_open split: option.splits\<close>)+

lemma hold_query_calls:
  assumes "account_ok coin"
  shows "dlg valid_call (heldBalance_dialog E coin) (\<lambda>_. True)"
    and "dlg valid_call (holdCount_dialog E coin) (\<lambda>_. True)"
    and "dlg valid_call (holdsId_dialog E coin) (\<lambda>_. True)"
  unfolding heldBalance_dialog_def holdCount_dialog_def holdsId_dialog_def Let_def
  by ((rule dlg_rules)+, subst validate_Nil;
      use assms in \<open>auto simp: hold_requests requests_open checkNumber_whole split: option.splits\<close>)+

lemma hold_calls: "account_ok coin \<Longrightarrow> dlg valid_call (hold_dialog E coin opt) (\<lambda>_. True)"
  unfolding hold_dialog_def
  by (cases opt) (simp_all add: create_hold_calls close_hold_calls hold_query_calls)

section \<open>Lists in requests\<close>

lemma first_errors_none: "first_errors f vs = Inr [] \<longleftrightarrow> (\<forall>v \<in> set vs. f v = Inr [])"
  by (induction vs) (auto simp: bindR_Inr_iff)

lemma check_distinct_none:
  "check_distinct f what seen vs = Inr [] \<longleftrightarrow>
     (\<forall>v \<in> set vs. f v = Inr []) \<and> distinct vs \<and> set vs \<inter> set seen = {}"
  by (induction vs arbitrary: seen) (auto simp: bindR_Inr_iff)

lemma unique_list_none:
  "unique_list_check f whats what (JArray vs) = Inr [] \<longleftrightarrow>
     vs \<noteq> [] \<and> distinct vs \<and> (\<forall>v \<in> set vs. f v = Inr [])"
  by (auto simp: unique_list_check_def check_distinct_none)

lemma amounts_none:
  "amounts_check L zero ts (JArray (map JString as)) = Inr [] \<longleftrightarrow>
     length as = length ts \<and> (\<forall>a \<in> set as. checkAmount L zero 18 (JString a) = Inr [])"
  by (auto simp: amounts_check_def first_errors_none)

lemma js_strings: "distinct (map JString xs) \<longleftrightarrow> distinct xs" "map JString xs = [] \<longleftrightarrow> xs = []"
  by (simp_all add: distinct_map inj_on_def)

definition targets_ok :: "string list \<Rightarrow> bool" where
  "targets_ok ts \<longleftrightarrow> ts \<noteq> [] \<and> distinct ts \<and> list_all account_ok ts"

lemma targets_none:
  "unique_list_check (checkHederaIdFormat False) ''accounts'' ''account'' (JArray (map JString ts)) = Inr [] \<longleftrightarrow>
     targets_ok ts"
  by (auto simp: unique_list_none js_strings targets_ok_def list_all_iff id_ok)

section \<open>Transfers\<close>

text \<open>The amounts as \<open>big.js\<close> reads them.\<close>

definition amounts_read :: "cli_env \<Rightarrow> string list \<Rightarrow> rat list \<Rightarrow> bool" where
  "amounts_read E as qs \<longleftrightarrow> list_all2 (\<lambda>a q. ce_big E a = Inr q) as qs"

lemma dlg_send_amount [dlg_rules]:
  "dlg P (ask_send_amount E build balance total_sent)
     (\<lambda>(a, t). validate (build a) (Some ''amounts'') = [] \<and> t \<le> balance \<and> ce_big E a = Inr (t - total_sent))"
proof (rule dlgI)
  show "P op req" if "ECall op req \<in> set (fst (ask_send_amount E build balance total_sent answers))" for answers op req
    using that
    by (induction E build balance total_sent answers rule: ask_send_amount.induct)
      (auto simp: Let_def split: option.splits if_splits prod.splits sum.splits)
  show "case r of (a, t) \<Rightarrow> validate (build a) (Some ''amounts'') = [] \<and> t \<le> balance \<and> ce_big E a = Inr (t - total_sent)"
    if "snd (ask_send_amount E build balance total_sent answers) = Done r rest" for answers r rest
    using that
    by (induction E build balance total_sent answers rule: ask_send_amount.induct)
      (auto simp: Let_def split: option.splits if_splits prod.splits sum.splits)
qed

lemma transfers_fields:
  "validate (TransfersRequest V ts as coin sender) (Some ''targetsId'') = [] \<longleftrightarrow> targets_ok ts"
  "validate (TransfersRequest V ts as coin sender) (Some ''amounts'') = [] \<longleftrightarrow>
     length as = length ts \<and> (\<forall>a \<in> set as. checkAmount (rl_lib V) False 18 (JString a) = Inr [])"
  "validate (TransfersRequest V ts as coin sender) None = [] \<longleftrightarrow>
     targets_ok ts \<and> length as = length ts \<and>
     (\<forall>a \<in> set as. checkAmount (rl_lib V) False 18 (JString a) = Inr []) \<and> account_ok coin \<and> account_ok sender"
  by ((subst validate_Nil)?; auto simp: TransfersRequest_def field_ok request_engine targets_none amounts_none id_ok)+

definition transfers_ok :: "cli_env \<Rightarrow> rat \<Rightarrow> string list \<Rightarrow> string list \<Rightarrow> bool" where
  "transfers_ok E balance ts as \<longleftrightarrow>
     targets_ok ts \<and> length as = length ts \<and>
     (\<forall>a \<in> set as. checkAmount (rl_lib (ce_lib E)) False 18 (JString a) = Inr []) \<and>
     (\<exists>qs. amounts_read E as qs \<and> sum_list qs \<le> balance)"

lemma dlg_send_accounts:
  assumes "amounts_read E as qs" "sum_list qs = total_sent" "n = 0 \<Longrightarrow> transfers_ok E balance ts as"
  shows "dlg P (send_accounts n E coin sender balance total_sent ts as)
    (\<lambda>(ts', as'). transfers_ok E balance ts' as' \<and> length ts' \<le> length ts + n)"
  using assms
proof (induction n arbitrary: total_sent ts as qs)
  case 0
  then show ?case by (simp add: dlg_ret)
next
  case (Suc n)
  have step: "amounts_read E (as @ [a]) (qs @ [t - total_sent])" "sum_list (qs @ [t - total_sent]) = t"
    if "ce_big E a = Inr (t - total_sent)" for a t
    using that Suc.prems(1,2) by (auto simp: amounts_read_def intro: list_all2_appendI)
  have ok: "transfers_ok E balance (ts @ [x]) (as @ [a])"
    if "targets_ok (ts @ [x])" "ce_big E a = Inr (t - total_sent)" "t \<le> balance"
      "validate (TransfersRequest (ce_lib E) (ts @ [x]) (as @ [a]) coin sender) (Some ''amounts'') = []" for x a t
    using that step [OF that(2)] unfolding transfers_fields transfers_ok_def by auto
  have more: "dlg P (send_accounts n E coin sender balance t (ts @ [x]) (as @ [a]))
      (\<lambda>(ts', as'). transfers_ok E balance ts' as' \<and> length ts' \<le> length ts + Suc n)"
    if "targets_ok (ts @ [x])" "ce_big E a = Inr (t - total_sent)" "t \<le> balance"
      "validate (TransfersRequest (ce_lib E) (ts @ [x]) (as @ [a]) coin sender) (Some ''amounts'') = []" for x a t
    by (rule dlg_weaken [OF Suc.IH [OF step [OF that(2)]]]) (auto simp: ok that)
  show ?case
    unfolding send_accounts.simps Let_def
    by (rule dlg_bind dlg_validated dlg_send_amount dlg_prod dlg_if dlg_asks more dlg_ret
        | clarsimp simp: transfers_fields(1) ok)+
qed

definition transfers_call :: "cli_env \<Rightarrow> string \<Rightarrow> request \<Rightarrow> bool" where
  "transfers_call E coin req \<longleftrightarrow>
     (\<exists>ts as text balance. req = TransfersRequest (ce_lib E) ts as coin (ce_accountId E) \<and>
        ce_balance E (GetAccountBalanceRequest coin (ce_accountId E)) = Inr text \<and> ce_big E text = Inr balance \<and>
        transfers_ok E balance ts as \<and> length ts \<le> 9)"

lemma dlg_big [dlg_rules]: "dlg P (big_number E s) (\<lambda>q. ce_big E s = Inr q)"
  by (auto simp: dlg_def big_number_def split: sum.splits)

lemma dlg_sendTokens:
  assumes "P StableCoin_getBalanceOf (GetAccountBalanceRequest coin (ce_accountId E))"
    and "\<And>ts as text balance. ce_balance E (GetAccountBalanceRequest coin (ce_accountId E)) = Inr text \<Longrightarrow>
      ce_big E text = Inr balance \<Longrightarrow> transfers_ok E balance ts as \<Longrightarrow> length ts \<le> 9 \<Longrightarrow>
      P StableCoin_transfers (TransfersRequest (ce_lib E) ts as coin (ce_accountId E))"
  shows "dlg P (sendTokens E coin) (\<lambda>_. True)"
proof -
  have accounts: "dlg P (send_accounts (TRANSFER_LIST_SIZE - 1) E coin sender balance 0 [] [])
      (\<lambda>(ts, as). transfers_ok E balance ts as \<and> length ts \<le> 9)" for balance sender
    using dlg_send_accounts [of E "[]" "[]" 0 9 balance "[]" P coin sender]
    by (simp add: amounts_read_def TRANSFER_LIST_SIZE_def)
  show ?thesis
    unfolding sendTokens_def Let_def
    by (rule dlg_bind dlg_call dlg_big dlg_if dlg_prod dlg_pick dlg_asks accounts dlg_submit dlg_ret assms | assumption
        | clarsimp)+
qed

text \<open>
  Property C31. The transfers of the command line. Whatever the user answers, the transfer that it sends is from the
  account of the session, to at least one and at most nine accounts, all different and well formed, one positive amount
  for each, and the amounts, as \<open>big.js\<close> reads them, do not exceed the balance that the SDK gave.
\<close>

theorem transfers_within_balance:
  assumes "ECall StableCoin_transfers req \<in> set (fst (sendTokens E coin answers))"
  shows "\<exists>ts as qs text balance.
    req = TransfersRequest (ce_lib E) ts as coin (ce_accountId E) \<and>
    1 \<le> length ts \<and> length ts \<le> 9 \<and> distinct ts \<and> list_all account_ok ts \<and> length as = length ts \<and>
    (\<forall>a \<in> set as. checkAmount (rl_lib (ce_lib E)) False 18 (JString a) = Inr []) \<and>
    ce_balance E (GetAccountBalanceRequest coin (ce_accountId E)) = Inr text \<and> ce_big E text = Inr balance \<and>
    list_all2 (\<lambda>a q. ce_big E a = Inr q) as qs \<and> sum_list qs \<le> balance"
proof -
  have "dlg (\<lambda>op req. op = StableCoin_transfers \<longrightarrow> transfers_call E coin req) (sendTokens E coin) (\<lambda>_. True)"
    by (rule dlg_sendTokens) (auto simp: transfers_call_def)
  then have "transfers_call E coin req" using dlg_calls assms by fastforce
  then show ?thesis
    unfolding transfers_call_def transfers_ok_def targets_ok_def amounts_read_def
    by (metis One_nat_def Suc_leI length_greater_0_conv)
qed


text \<open>An environment where every call of the SDK returns and the account has ten tokens.\<close>

definition cli_sample :: cli_env where
  "cli_sample =
     \<lparr>ce_lib = sample_lib, ce_accountId = ''0.0.8'', ce_multisig = False, ce_date = (\<lambda>_. None),
      ce_number = (\<lambda>_. None), ce_big = (\<lambda>s. Inr (decimal_value s)), ce_run = (\<lambda>_ _. Inr ()),
      ce_flag = (\<lambda>_ _. Inr False), ce_balance = (\<lambda>_. Inr ''10''), ce_capabilities = (\<lambda>_. Inl TypeError),
      ce_roles = (\<lambda>_. Inr []), ce_details = (\<lambda>_. Inr (Some 6, [])),
      ce_keys = (\<lambda>_. [KycKey, PauseKey]), ce_publicKey = (\<lambda>_. Inl TypeError), ce_plus_days = (\<lambda>_. None),
      ce_text = (\<lambda>q. int_str \<lfloor>q\<rfloor>)\<rparr>"

lemma cli_sample_simps [simp]:
  "ce_lib cli_sample = sample_lib" "ce_accountId cli_sample = ''0.0.8''" "\<not> ce_multisig cli_sample"
  "ce_big cli_sample s = Inr (decimal_value s)" "ce_run cli_sample op req = Inr ()"
  "ce_balance cli_sample req = Inr ''10''" "ce_details cli_sample req = Inr (Some 6, [])"
  "ce_capabilities cli_sample req = Inl TypeError"
  by (simp_all add: cli_sample_def)

lemmas run_dialog = bindD_def tryD_def retD_def ask_def line_def defaultConfirmAsk_def defaultSingleAsk_def sdk_call_def
  submit_def or_operations_def run_sdk_def big_number_def

theorem transfers_within_balance_witness:
  "ECall StableCoin_transfers (TransfersRequest sample_lib [''0.0.9''] [''1.5''] ''0.0.7'' ''0.0.8'')
     \<in> set (fst (sendTokens cli_sample ''0.0.7'' [ALine ''0.0.9'', ALine ''1.5'', AConfirm False, AConfirm True])) \<and>
   checkAmount exact_lib False 18 (JString ''1.5'') = Inr []"
proof -
  have decimals: "decimal_value ''1.5'' = 3 / 2" "decimal_value ''10'' = 10" by code_simp+
  have nine: "TRANSFER_LIST_SIZE - Suc 0 = 9" "Suc 8 = 9" by (simp_all add: TRANSFER_LIST_SIZE_def)
  note first_account = send_accounts.simps(2) [where n = 8, unfolded nine(2)]
  have accepted: "checkAmount exact_lib False 18 (JString ''1.5'') = Inr []" "targets_ok [''0.0.9'']"
    using sample_amount_ok sample_accounts_ok by (simp_all add: exact.amount_accepted targets_ok_def)
  have sent: "ECall StableCoin_transfers (TransfersRequest sample_lib [''0.0.9''] [''1.5''] ''0.0.7'' ''0.0.8'')
     \<in> set (fst (sendTokens cli_sample ''0.0.7'' [ALine ''0.0.9'', ALine ''1.5'', AConfirm False, AConfirm True]))"
    by (simp add: sendTokens_def Let_def run_dialog decimals nine(1) first_account transfers_fields accepted)
  obtain ts as where "TransfersRequest sample_lib [''0.0.9''] [''1.5''] ''0.0.7'' ''0.0.8'' =
      TransfersRequest sample_lib ts as ''0.0.7'' ''0.0.8''"
    "\<forall>a \<in> set as. checkAmount exact_lib False 18 (JString a) = Inr []"
    using transfers_within_balance [OF sent] by auto
  then have "checkAmount exact_lib False 18 (JString ''1.5'') = Inr []"
    by (cases as) (auto simp: TransfersRequest_def)
  with sent show ?thesis ..
qed

end
