(* ===== verification/Cli_Multisig_Properties.thy ===== *)
theory Cli_Multisig_Properties
  imports Cli_Multisig Cli_Properties
begin

text \<open>
  Properties of the menu of multisignature transactions: which actions it offers, and what it asks the SDK to sign
  and to submit.
\<close>

section \<open>The actions\<close>

lemma remove_first: "remove_action a (a # acts) = acts"
  by (simp add: remove_action_def splice_one_def)

lemmas action_lists = remove_action_def splice_one_def

text \<open>
  The actions for the status, for the key that has signed, and for the date, before the account is looked at.
\<close>

lemma ms_actions_cases:
  "ms_actions E tx k =
    (let signed = (k \<in> Some ` set (mx_signedKeys tx)); reached = me_reached E (mx_startDate tx);
         sign = (if me_multisig E then [] else [ASign])
     in case mx_status tx of
          StPending \<Rightarrow> (if signed then [] else sign) @ ARemove # (if reached then [ADetails] else [])
        | StSigned \<Rightarrow> (if signed then [] else sign) @ (if reached then [ASubmit] else []) @ [ARemove, ADetails]
        | _ \<Rightarrow> (if signed then (if reached then [ARemove] else []) else ARemove # (if reached then [ADetails] else [])))"
  by (cases "mx_status tx") (simp_all add: ms_actions_def Let_def action_lists)


definition shown_tx :: cli_tx where
  "shown_tx =
     \<lparr>mx_id = ''id'', mx_message = ''message'', mx_description = ''description'', mx_hederaAccountId = ''0.0.8'',
      mx_signatures = [''00''], mx_keyList = [''a1'', ''a2''], mx_signedKeys = [''a1''], mx_status = StPending,
      mx_threshold = 2, mx_startDate = ''2030-01-01T00:00:00Z''\<rparr>"

definition sample_ms :: ms_env where
  "sample_ms =
     \<lparr>me_lib = sample_lib, me_accountId = ''0.0.8'', me_multisig = False,
      me_publicKey = (\<lambda>_. Inr \<lparr>pk_key = ''a1'', pk_type = KeyType_ED25519\<rparr>), me_transactions = (\<lambda>_. Inl TypeError),
      me_run = (\<lambda>_ _. Inr ()), me_reached = (\<lambda>_. False)\<rparr>"


section \<open>What is signed and submitted\<close>

text \<open>
  A transaction that the SDK has listed and that the command line has accepted.
\<close>

definition listed_tx :: "(ms_env \<Rightarrow> bool) \<Rightarrow> cli_tx \<Rightarrow> bool" where
  "listed_tx W tx \<longleftrightarrow> (\<exists>E req raws p raw. W E \<and> me_transactions E req = Inr (raws, p) \<and> raw \<in> set raws \<and>
     new_MultiSigTransaction raw = Inr tx)"

lemma mapR_member: "mapR f xs = Inr ys \<Longrightarrow> y \<in> set ys \<Longrightarrow> \<exists>x \<in> set xs. f x = Inr y"
  by (induction xs arbitrary: ys) (auto simp: bindR_Inr_iff)

definition ms_call_ok :: "(ms_env \<Rightarrow> bool) \<Rightarrow> sdk_op \<Rightarrow> request \<Rightarrow> bool" where
  "ms_call_ok W op req \<longleftrightarrow>
     (op = StableCoin_signTransaction \<longrightarrow> (\<exists>tx. listed_tx W tx \<and> req = SignTransactionRequest (mx_id tx) \<and>
        mx_status tx \<in> {StPending, StSigned})) \<and>
     (op = StableCoin_submitTransaction \<longrightarrow> (\<exists>tx E. listed_tx W tx \<and> W E \<and> req = SignTransactionRequest (mx_id tx) \<and>
        mx_status tx = StSigned \<and> me_reached E (mx_startDate tx)))"

definition ms_screen_ok :: "(ms_env \<Rightarrow> bool) \<Rightarrow> ms_screen \<Rightarrow> bool" where
  "ms_screen_ok W s \<longleftrightarrow> (case s of MsActions status tx k \<Rightarrow> listed_tx W tx | _ \<Rightarrow> True)"

lemma account_key_calls: "dlg (ms_call_ok W) (account_publicKey E) (\<lambda>_. True)"
  unfolding account_publicKey_def Let_def
  by (intro dlg_if dlg_ret dlg_bind [OF dlg_call]) (simp_all add: ms_call_ok_def)

lemma list_calls:
  assumes "W E"
  shows "dlg (ms_call_ok W) (ms_list E status page) (\<lambda>(txs, k, p). \<forall>tx \<in> set txs. listed_tx W tx)"
proof -
  have listed: "\<forall>tx \<in> set txs. listed_tx W tx"
    if "me_transactions E req = Inr (raws, p)" "fromRawMultiSigTxList raws k p = Inr (txs, k', p')" for req raws p k txs k' p'
    using that assms mapR_member [of new_MultiSigTransaction raws txs]
    by (auto simp: fromRawMultiSigTxList_def bindR_Inr_iff listed_tx_def) blast
  have call: "ms_call_ok W StableCoin_getTransactions req" for req by (simp add: ms_call_ok_def)
  show ?thesis
    unfolding ms_list_def Let_def
    by (intro dlg_bind [OF account_key_calls] dlg_bind [OF dlg_call [where P = "ms_call_ok W", OF call]] dlg_prod
        dlg_weaken [OF dlg_lift_value]) (auto dest: listed)
qed

lemma start_list_calls:
  assumes "W E"
  shows "dlg (ms_call_ok W) (ms_start E status page) (ms_screen_ok W)"
proof -
  have choose: "dlg (ms_call_ok W) (case status of None \<Rightarrow> chooseStatus | Some c \<Rightarrow> retD (Some c)) (\<lambda>_. True)"
    by (cases status) (auto simp: chooseStatus_def intro: dlg_weaken [OF dlg_pick] dlg_ret)
  have chosen: "dlg (ms_call_ok W)
      (case choice of
        None \<Rightarrow> retD MsMain
      | Some MsPrevious \<Rightarrow> bindD (liftD (previous_page p)) (\<lambda>pr. retD (MsList st pr))
      | Some MsNext \<Rightarrow> bindD (liftD (next_page p)) (\<lambda>pr. retD (MsList st pr))
      | Some (MsTx i) \<Rightarrow>
          (case find (\<lambda>tx. mx_id tx = i) txs of
             None \<Rightarrow> liftD (Inl TypeError)
           | Some tx \<Rightarrow> retD (MsActions st tx k))) (ms_screen_ok W)"
    if "\<forall>tx \<in> set txs. listed_tx W tx" for choice p st txs k
  proof (cases choice)
    case None
    then show ?thesis by (simp add: dlg_ret ms_screen_ok_def)
  next
    case (Some c)
    then show ?thesis
      using that by (cases c)
        (auto intro!: dlg_bind [OF dlg_lift_value] dlg_ret dlg_weaken [OF dlg_lift_value]
          simp: ms_screen_ok_def find_Some_iff split: option.split)
  qed
  show ?thesis
    unfolding ms_start_def
    by (intro dlg_bind [OF choose] dlg_bind [OF list_calls [where W = W and E = E, OF assms]] dlg_prod
        dlg_bind [OF dlg_pick] chosen) auto
qed

lemma ms_call_calls: "ms_call_ok W op req \<Longrightarrow> dlg (ms_call_ok W) (ms_call E op req st) (ms_screen_ok W)"
  unfolding ms_call_def
  by (intro dlg_bind [where R = "\<lambda>_. True"] dlg_try dlg_weaken [OF dlg_call] dlg_weaken [OF dlg_show]
      dlg_asks(2) dlg_ret) (simp_all add: ms_screen_ok_def)

lemma offered: "Some a \<in> set (with_back xs) \<longleftrightarrow> a \<in> set xs"
  by (auto simp: with_back_def)

lemma actions_calls:
  assumes "W E" "listed_tx W tx"
  shows "dlg (ms_call_ok W) (multiSigTxActions E st tx k) (ms_screen_ok W)"
proof -
  have sign: "ms_call_ok W StableCoin_signTransaction (SignTransactionRequest (mx_id tx))"
    if "ASign \<in> set (ms_actions E tx own)" for own
    using that assms(2) by (cases "mx_status tx") (auto simp: ms_actions_cases Let_def ms_call_ok_def split: if_splits)
  have submit: "ms_call_ok W StableCoin_submitTransaction (SignTransactionRequest (mx_id tx))"
    if "ASubmit \<in> set (ms_actions E tx own)" for own
    using that assms by (cases "mx_status tx") (auto simp: ms_actions_cases Let_def ms_call_ok_def split: if_splits)
  have chosen: "dlg (ms_call_ok W)
      (case choice of
          None \<Rightarrow> retD (MsList st default_page)
        | Some ASign \<Rightarrow> ms_call E StableCoin_signTransaction (SignTransactionRequest (mx_id tx)) st
        | Some ASubmit \<Rightarrow>
            if mx_status tx = StPending then liftD (Inl (JsError ''The transaction is Pending.''))
            else ms_call E StableCoin_submitTransaction (SignTransactionRequest (mx_id tx)) st
        | Some ARemove \<Rightarrow> ms_call E StableCoin_removeTransaction (RemoveTransactionRequest (mx_id tx)) st
        | Some ADetails \<Rightarrow> bindD defaultConfirmAsk (\<lambda>_. retD (MsActions st tx own))) (ms_screen_ok W)"
    if "choice \<in> set (with_back (ms_actions E tx own))" for choice own
  proof (cases choice)
    case None
    then show ?thesis by (simp add: dlg_ret ms_screen_ok_def)
  next
    case (Some a)
    with that have a: "a \<in> set (ms_actions E tx own)" by (simp add: offered)
    have remove: "ms_call_ok W StableCoin_removeTransaction r" for r by (simp add: ms_call_ok_def)
    have details: "dlg (ms_call_ok W) (bindD defaultConfirmAsk (\<lambda>_. retD (MsActions st tx own))) (ms_screen_ok W)"
      by (intro dlg_bind [OF dlg_asks(2)] dlg_ret) (simp add: ms_screen_ok_def assms(2))
    have pending: "dlg (ms_call_ok W) (liftD (Inl e)) (ms_screen_ok W)" for e
      by (simp add: liftD_def dlg_throw)
    show ?thesis
    proof (cases a)
      case ASign
      then show ?thesis using Some a by (simp add: ms_call_calls [OF sign])
    next
      case ASubmit
      then show ?thesis using Some a by (simp add: ms_call_calls [OF submit] pending)
    qed (simp_all add: Some ms_call_calls [OF remove] details)
  qed
  show ?thesis
    unfolding multiSigTxActions_def Let_def
    by (intro dlg_bind [OF account_key_calls] dlg_bind [OF dlg_pick] chosen)
qed

lemma ms_dialog_calls:
  assumes "W E" "ms_screen_ok W s"
  shows "dlg (ms_call_ok W) (ms_dialog E s) (ms_screen_ok W)"
  using assms by (cases s) (simp_all add: ms_dialog_def dlg_waiting start_list_calls actions_calls ms_screen_ok_def)

lemma ms_turn_result:
  "ms_turn E answers s = (ev, Some s') \<Longrightarrow> (\<exists>rest. snd (ms_dialog E s answers) = Done s' rest) \<or> s' = MsMain"
  by (cases "ms_dialog E s answers"; cases "snd (ms_dialog E s answers)") (auto simp: ms_turn_def)

lemma ms_turn_calls: "ECall op req \<in> set (fst (ms_turn E answers s)) \<Longrightarrow> ECall op req \<in> set (fst (ms_dialog E s answers))"
  by (cases "ms_dialog E s answers"; cases "snd (ms_dialog E s answers)") (auto simp: ms_turn_def)

lemma ms_invariant: "ms_reachable W s \<Longrightarrow> ms_screen_ok W s"
proof (induction rule: ms_reachable.induct)
  case (ms_next s E answers ev s')
  note calls = ms_dialog_calls [where W = W and E = E, OF ms_next.hyps(2) ms_next.IH]
  from ms_turn_result [OF ms_next.hyps(3)] show ?case
  proof (elim disjE exE)
    fix rest
    assume "snd (ms_dialog E s answers) = Done s' rest"
    then show ?thesis by (rule dlg_result [OF calls])
  qed (simp add: ms_screen_ok_def)
qed (simp_all add: ms_screen_ok_def)

text \<open>
  Property C36. In every session with the menu of multisignature transactions, whatever the user answers: what is
  signed is a transaction that the SDK has listed as pending or signed and that passes the checks of the command
  line, and what is submitted is one that was listed as signed and whose start date has been reached.
\<close>

theorem multisig_menu_safe:
  assumes "ms_reachable W s" "W E" "ECall op req \<in> set (fst (ms_turn E answers s))"
  shows "(op = StableCoin_signTransaction \<longrightarrow> (\<exists>tx. listed_tx W tx \<and> req = SignTransactionRequest (mx_id tx) \<and>
        mx_status tx \<in> {StPending, StSigned})) \<and>
     (op = StableCoin_submitTransaction \<longrightarrow> (\<exists>tx E. listed_tx W tx \<and> W E \<and> req = SignTransactionRequest (mx_id tx) \<and>
        mx_status tx = StSigned \<and> me_reached E (mx_startDate tx)))"
  using dlg_calls [OF ms_dialog_calls [where W = W and E = E, OF assms(2) ms_invariant [OF assms(1)]] ms_turn_calls [OF assms(3)]]
  by (simp add: ms_call_ok_def)

text \<open>A backend with one pending transaction.\<close>

definition pending_raw :: multisig_transaction where
  "pending_raw =
     \<lparr>mst_id = ''0f8fad5b-d9cb-469f-a165-70867728950e'', mst_transaction_message = ''0a1b2c3d4e5f'',
      mst_description = ''A description'', mst_status = ''PENDING'', mst_threshold = 2,
      mst_key_list = [''a1a1a1a1a1'', ''a2a2a2a2a2''], mst_signed_keys = [], mst_signatures = [],
      mst_network = ''testnet'', mst_hedera_account_id = ''0.0.8'', mst_start_date = ''2024-01-01T00:00:00Z''\<rparr>"

definition one_page :: pagination where
  "one_page = \<lparr>pg_totalItems = 1, pg_itemCount = 1, pg_itemsPerPage = 5, pg_totalPages = 1, pg_currentPage = 1\<rparr>"

definition pending_ms :: ms_env where
  "pending_ms = sample_ms\<lparr>me_transactions := \<lambda>_. Inr ([pending_raw], one_page), me_reached := \<lambda>_. True\<rparr>"

definition pending_tx :: cli_tx where
  "pending_tx =
     \<lparr>mx_id = ''0f8fad5b-d9cb-469f-a165-70867728950e'', mx_message = ''0a1b2c3d4e5f'',
      mx_description = ''A description'', mx_hederaAccountId = ''0.0.8'', mx_signatures = [],
      mx_keyList = [''a1a1a1a1a1'', ''a2a2a2a2a2''], mx_signedKeys = [], mx_status = StPending, mx_threshold = 2,
      mx_startDate = ''2024-01-01T00:00:00Z''\<rparr>"

lemma pending_fields:
  "me_multisig pending_ms = False" "me_run pending_ms op req = Inr ()"
  "me_publicKey pending_ms req = Inr \<lparr>pk_key = ''a1'', pk_type = KeyType_ED25519\<rparr>"
  "me_transactions pending_ms req = Inr ([pending_raw], one_page)"
  "mx_id pending_tx = ''0f8fad5b-d9cb-469f-a165-70867728950e''"
  by (simp_all add: pending_ms_def sample_ms_def pending_tx_def)

lemma pending_accepted: "new_MultiSigTransaction pending_raw = Inr pending_tx"
  by code_simp

lemma pending_page: "new_PaginationResponse one_page = Inr one_page"
  by (simp add: new_PaginationResponse_def one_page_def)

lemma pending_reachable: "\<exists>k. ms_reachable ((=) pending_ms) (MsActions (Some AllStatuses) pending_tx k)"
proof -
  have "\<exists>ev k. ms_turn pending_ms [APick 5, APick 0] (MsList None default_page) =
      (ev, Some (MsActions (Some AllStatuses) pending_tx k))"
    by (simp add: ms_turn_def ms_dialog_def ms_start_def run_dialog chooseStatus_def defaultMultipleAsk_def ms_list_def
        account_publicKey_def Let_def pending_fields with_back_def cli_statuses_def status_filter_def
        fromRawMultiSigTxList_def pending_accepted pending_page new_PublicKey_def liftD_def throwD_def ms_options_def
        find_Some_iff KeyType_ED25519_def formatKey_def js_startsWith_def)
  then show ?thesis by (blast intro: ms_next ms_open ms_begin)
qed

theorem multisig_menu_safe_witness:
  "\<exists>s. ms_reachable ((=) pending_ms) s \<and>
     ECall StableCoin_signTransaction (SignTransactionRequest ''0f8fad5b-d9cb-469f-a165-70867728950e'')
       \<in> set (fst (ms_turn pending_ms [APick 0, AConfirm True] s)) \<and>
     (\<exists>tx. listed_tx ((=) pending_ms) tx \<and> mx_status tx \<in> {StPending, StSigned})"
proof -
  obtain k where reachable: "ms_reachable ((=) pending_ms) (MsActions (Some AllStatuses) pending_tx k)"
    using pending_reachable by blast
  have actions: "ms_actions pending_ms pending_tx j = [ASign, ARemove, ADetails]" for j
    by (simp add: ms_actions_cases pending_tx_def pending_ms_def sample_ms_def image_def)
  have signed: "ECall StableCoin_signTransaction (SignTransactionRequest ''0f8fad5b-d9cb-469f-a165-70867728950e'')
       \<in> set (fst (ms_turn pending_ms [APick 0, AConfirm True] (MsActions (Some AllStatuses) pending_tx k)))"
    by (simp add: ms_turn_def ms_dialog_def multiSigTxActions_def run_dialog defaultMultipleAsk_def actions
        account_publicKey_def Let_def with_back_def ms_call_def pending_fields)
  show ?thesis using multisig_menu_safe [OF reachable refl signed] reachable signed by blast
qed

end
