(* ===== verification/Cli_Session_Properties.thy ===== *)
theory Cli_Session_Properties
  imports Cli_Properties
begin

text \<open>
  The calls of the longer dialogs and of the session of the command line, and what follows an error.
\<close>

section \<open>What the environment promises\<close>

text \<open>
  The numbers of the SDK are exact; the account of the session and the coins that the SDK gives have
  well-formed identifiers; a coin has at most as many fees as the network allows.
\<close>

definition env_ok :: "cli_env \<Rightarrow> bool" where
  "env_ok E \<longleftrightarrow>
     fixed_number_api (rl_lib (ce_lib E)) \<and> account_ok (ce_accountId E) \<and>
     (\<forall>req caps i. ce_capabilities E req = Inr caps \<longrightarrow> sc_tokenId (caps_coin caps) = Some i \<longrightarrow> account_ok (id_value i)) \<and>
     (\<forall>req d fees. ce_details E req = Inr (d, fees) \<longrightarrow> length fees \<le> MAX_CUSTOM_FEES)"

lemma sendTokens_calls:
  assumes "env_ok E" "account_ok coin"
  shows "dlg valid_call (sendTokens E coin) (\<lambda>_. True)"
proof (rule dlg_sendTokens)
  show "validate (GetAccountBalanceRequest coin (ce_accountId E)) None = []"
    using assms by (subst validate_Nil) (auto simp: requests_defs requests_open env_ok_def)
  show "validate (TransfersRequest (ce_lib E) ts as coin (ce_accountId E)) None = []"
    if "transfers_ok E balance ts as" for ts as balance
    using that assms by (simp add: transfers_fields transfers_ok_def env_ok_def)
qed

section \<open>Fees\<close>

lemma details_valid: "account_ok coin \<Longrightarrow> validate (GetStableCoinDetailsRequest coin) None = []"
  by (subst validate_Nil) (auto simp: requests_defs requests_open)

lemma dlg_collected_token:
  assumes "\<And>s. validate (build s) (Some ''tokenIdCollected'') = [] \<longleftrightarrow> checkHederaIdFormat True (JString s) = Inr []"
    and "\<And>s. checkHederaIdFormat True (JString s) = Inr [] \<Longrightarrow> s \<noteq> ''0.0.0'' \<Longrightarrow>
      P StableCoin_getInfo (GetStableCoinDetailsRequest s)"
  shows "dlg P (ask_collected_token E coin decimals build)
    (\<lambda>(s, d). checkHederaIdFormat True (JString s) = Inr [])"
proof (rule dlgI)
  show "P op req" if "ECall op req \<in> set (fst (ask_collected_token E coin decimals build answers))" for answers op req
    using that assms
    by (induction E coin decimals build answers rule: ask_collected_token.induct)
      (auto simp: Let_def split: option.splits if_splits prod.splits sum.splits)
  show "case r of (s, d) \<Rightarrow> checkHederaIdFormat True (JString s) = Inr []"
    if "snd (ask_collected_token E coin decimals build answers) = Done r rest" for answers r rest
    using that assms(1)
    by (induction E coin decimals build answers rule: ask_collected_token.induct)
      (auto simp: Let_def split: option.splits if_splits prod.splits sum.splits)
qed

lemma fixed_fee_fields:
  "validate (AddFixedFeeRequest V coin c x dec t a) (Some ''tokenIdCollected'') = [] \<longleftrightarrow>
     checkHederaIdFormat True (JString t) = Inr []"
  "validate (AddFixedFeeRequest V coin c x dec t a) (Some ''amount'') = [] \<longleftrightarrow>
     fee_amount_check (rl_lib V) dec (JString a) = Inr []"
  "validate (AddFixedFeeRequest V coin c x dec t a) (Some ''collectorId'') = [] \<longleftrightarrow> account_ok c"
  "validate (AddFixedFeeRequest V coin c x dec t a) None = [] \<longleftrightarrow>
     account_ok coin \<and> account_ok c \<and> checkHederaIdFormat True (JString t) = Inr [] \<and>
     fee_amount_check (rl_lib V) dec (JString a) = Inr []"
  by ((subst validate_Nil)?; auto simp: AddFixedFeeRequest_def requests_open)+

lemma dlg_fee_token:
  "dlg valid_call
     (if b then retD (''0.0.0'', HBAR_DECIMALS)
      else ask_collected_token E coin decimals (\<lambda>t. AddFixedFeeRequest V k c x HBAR_DECIMALS t a))
     (\<lambda>(s, d). checkHederaIdFormat True (JString s) = Inr [])"
proof -
  have "checkHederaIdFormat True (JString ''0.0.0'') = Inr []" by code_simp
  moreover have "validate (GetStableCoinDetailsRequest s) None = []"
    if "checkHederaIdFormat True (JString s) = Inr []" "s \<noteq> ''0.0.0''" for s
    using that by (intro details_valid) (simp add: account_ok_def id_accepted)
  ultimately show ?thesis
    by (intro dlg_if dlg_ret dlg_collected_token) (simp_all add: fixed_fee_fields)
qed

lemma fixed_fee_calls:
  assumes "account_ok coin"
  shows "dlg valid_call (createFixedFee E coin decimals) (\<lambda>_. True)"
  unfolding createFixedFee_def Let_def
  by (rule dlg_bind dlg_asks dlg_fee_token dlg_prod dlg_validated dlg_submit dlg_if dlg_ret
      | clarsimp simp: fixed_fee_fields assms)+

lemma fractional_fee_fields:
  "validate (AddFractionalFeeRequest V coin c x dec p n d mn mx net) (Some ''amountNumerator'') = [] \<longleftrightarrow>
     (\<forall>s. n = Some s \<longrightarrow> numerator_check (rl_lib V) (JString s) = Inr [])"
  "validate (AddFractionalFeeRequest V coin c x dec p n d mn mx net) (Some ''amountDenominator'') = [] \<longleftrightarrow>
     (\<forall>s. d = Some s \<longrightarrow> denominator_check (rl_lib V) n (JString s) = Inr [])"
  "validate (AddFractionalFeeRequest V coin c x dec p n d mn mx net) (Some ''percentage'') = [] \<longleftrightarrow>
     (\<forall>s. p = Some s \<longrightarrow> percentage_check (rl_lib V) n (JString s) = Inr [])"
  "validate (AddFractionalFeeRequest V coin c x dec p n d mn mx net) (Some ''min'') = [] \<longleftrightarrow>
     (\<forall>s. mn = Some s \<longrightarrow> minimum_check (rl_lib V) dec (JString s) = Inr [])"
  "validate (AddFractionalFeeRequest V coin c x dec p n d mn mx net) (Some ''max'') = [] \<longleftrightarrow>
     (\<forall>s. mx = Some s \<longrightarrow> maximum_check (rl_lib V) dec mn (JString s) = Inr [])"
  "validate (AddFractionalFeeRequest V coin c x dec p n d mn mx net) (Some ''collectorId'') = [] \<longleftrightarrow> account_ok c"
  by (simp_all add: AddFractionalFeeRequest_def field_ok request_engine id_ok given_value optional_given
      split: option.splits)

lemma getProperty_plain:
  assumes "map_of (rq_props r) (CHR ''_'' # k) = None" "map_of (rq_props r) (CHR ''#'' # k) = None"
  shows "getProperty r k = (case map_of (rq_props r) k of None \<Rightarrow> None | Some v \<Rightarrow> v)"
  using assms by (simp add: getProperty_def own_property_def js_truthy_def split: option.splits)

lemma fractional_fee_valid:
  assumes "account_ok coin" "account_ok c"
    and "\<forall>s. n = Some s \<longrightarrow> numerator_check (rl_lib V) (JString s) = Inr []"
    and "\<forall>s. d = Some s \<longrightarrow> denominator_check (rl_lib V) n (JString s) = Inr []"
    and "\<forall>s. p = Some s \<longrightarrow> percentage_check (rl_lib V) n (JString s) = Inr []"
    and "\<forall>s. mn = Some s \<longrightarrow> minimum_check (rl_lib V) dec (JString s) = Inr []"
    and "\<forall>s. mx = Some s \<longrightarrow> maximum_check (rl_lib V) dec mn (JString s) = Inr []"
  shows "validate (AddFractionalFeeRequest V coin c x dec p n d mn mx net) None = []"
  using assms
  by (subst validate_Nil; simp add: AddFractionalFeeRequest_def getProperty_plain isOptional_def renamePrivateProp_def
      js_startsWith_def id_ok; intro conjI; simp add: AddFractionalFeeRequest_def isOptional_def split: option.split)

lemma dlg_fraction:
  assumes "req = (\<lambda>p n d. AddFractionalFeeRequest V coin me True dec p n d (Some ''0'') (Some ''0'') False)"
  shows "dlg P (ask_fraction req)
    (\<lambda>(p, n, d). (\<forall>s. n = Some s \<longrightarrow> numerator_check (rl_lib V) (JString s) = Inr []) \<and>
      (\<forall>s. d = Some s \<longrightarrow> denominator_check (rl_lib V) n (JString s) = Inr []) \<and>
      (\<forall>s. p = Some s \<longrightarrow> percentage_check (rl_lib V) n (JString s) = Inr []))"
  unfolding ask_fraction_def assms
  by (rule dlg_bind dlg_pick dlg_if dlg_validated dlg_ret | clarsimp simp: fractional_fee_fields)+

lemma fractional_fee_calls:
  assumes "account_ok coin"
  shows "dlg valid_call (createFractionalFee E coin decimals) (\<lambda>_. True)"
  unfolding createFractionalFee_def Let_def
  apply (rule TrueI dlg_bind dlg_asks dlg_fraction [OF refl] dlg_prod dlg_validated dlg_submit dlg_if dlg_ret)+
  apply (simp only: fractional_fee_fields prod.case)
  apply (rule fractional_fee_valid; simp add: assms)
  done


lemma remaining_length: "length (getRemainingFees fees opts removed) \<le> length fees"
proof (induction fees opts removed rule: getRemainingFees.induct)
  case (2 fees opts f fs)
  have "length (splice_one (js_indexOf opts f) fees) \<le> length fees"
    by (auto simp: splice_one_def split: option.splits)
  then show ?case using 2 by (simp add: Let_def)
qed simp

lemma custom_fees_valid:
  assumes "length fees \<le> MAX_CUSTOM_FEES" "account_ok coin"
  shows "validate (UpdateCustomFeesRequest fees coin) None = []"
  using assms
  by (subst validate_Nil; simp add: UpdateCustomFeesRequest_def getProperty_plain isOptional_def renamePrivateProp_def
      js_startsWith_def id_ok custom_fees_check_def)

lemma remove_fees_calls:
  assumes "account_ok coin" "length fees \<le> MAX_CUSTOM_FEES"
  shows "dlg valid_call (removeFees E coin fees) (\<lambda>_. True)"
  unfolding removeFees_def Let_def
  by (rule TrueI dlg_bind dlg_ticks dlg_asks dlg_if dlg_ret dlg_submit
      | rule custom_fees_valid [OF order_trans [OF remaining_length assms(2)] assms(1)])+

section \<open>Roles\<close>

lemma dlg_validateTokenId:
  "(validate req (Some ''tokenId'') = [] \<Longrightarrow> dlg P m (\<lambda>_. True)) \<Longrightarrow> dlg P (validateTokenId req m) (\<lambda>_. True)"
  by (simp add: validateTokenId_def dlg_ret)

lemma dlg_getAccounts:
  assumes targets: "\<And>ts as. validate (req ts as) (Some ''targetsId'') = [] \<Longrightarrow> targets_ok ts"
    and amounts: "\<And>ts as. allowances \<Longrightarrow> validate (req ts as) (Some ''amounts'') = [] \<Longrightarrow> list_all A as"
    and zero: "A ''0''"
    and "n = 0 \<Longrightarrow> targets_ok ts" "length as = (if allowances then length ts else 0)" "list_all A as"
  shows "dlg P (getAccounts n allowances req ts as)
    (\<lambda>(ts', as'). targets_ok ts' \<and> list_all A as' \<and> length as' = (if allowances then length ts' else 0) \<and>
       length ts' \<le> length ts + n)"
  using assms(4-6)
proof (induction n arbitrary: ts as)
  case 0
  then show ?case by (simp add: dlg_ret)
next
  case (Suc n)
  have allowed: "dlg P (if \<not> allowances then retD as
        else bindD defaultConfirmAsk (\<lambda>unlimited.
          if unlimited then retD (as @ [''0''])
          else bindD (ask_field (\<lambda>a. req (ts @ [x]) (as @ [a])) ''amounts'') (\<lambda>a. retD (as @ [a]))))
      (\<lambda>as'. list_all A as' \<and> length as' = (if allowances then Suc (length ts) else 0))" for x
    using Suc.prems(2,3) amounts zero
    by (intro dlg_if dlg_ret dlg_bind [OF dlg_asks(2)] dlg_bind [OF dlg_validated]) force+
  have more: "dlg P (getAccounts n allowances req (ts @ [x]) as')
      (\<lambda>(ts', as'). targets_ok ts' \<and> list_all A as' \<and> length as' = (if allowances then length ts' else 0) \<and>
         length ts' \<le> length ts + Suc n)"
    if "targets_ok (ts @ [x])" "list_all A as'" "length as' = (if allowances then Suc (length ts) else 0)" for x as'
    by (rule dlg_weaken [OF Suc.IH]) (use that in auto)
  show ?case
    unfolding getAccounts.simps
    apply (rule dlg_bind [OF dlg_validated])
    apply (rule dlg_bind [OF allowed])
    apply (rule dlg_if)
     apply (rule dlg_ret, use targets in force)
    apply (rule dlg_bind [OF dlg_asks(2)])
    apply (rule dlg_if)
     apply (rule more; use targets in force)
    apply (rule dlg_ret, use targets in force)
    done
qed

definition allowance_ok :: "request_lib \<Rightarrow> string \<Rightarrow> bool" where
  "allowance_ok V a \<longleftrightarrow> checkAmount (rl_lib V) True 18 (JString a) = Inr []"

lemma zero_allowance: "fixed_number_api (rl_lib V) \<Longrightarrow> allowance_ok V ''0''"
proof -
  assume api: "fixed_number_api (rl_lib V)"
  then obtain z where "bd_fromString (rl_lib V) ''0'' (Some 0) = Inr z" "bd_rat z = 0"
    using fixed_number_api.fromString_zero [OF api, of 0] by auto
  moreover have "getDecimalsFromString ''0'' = 0" by code_simp
  ultimately have "bd_fromString (rl_lib V) ''0'' None = Inr z" "bd_decimals z = 0" "bd_rat z = 0"
    using fixed_number_api.new_of_string_decimals [OF api, of "''0''" 0 z] by (simp_all add: bd_fromString_def)
  then show ?thesis
    using fixed_number_api.checkAmount_iff [OF api, of True 18 "''0''"] by (simp add: allowance_ok_def)
qed


lemma role_hash_inj: "role_hash r = role_hash s \<Longrightarrow> r = s"
  by (cases r; cases s; simp)

lemma roles_none:
  "unique_list_check checkRole ''roles'' ''role'' (JArray (map (JString \<circ> role_hash) roles)) = Inr [] \<longleftrightarrow>
     roles \<noteq> [] \<and> distinct roles"
proof -
  have "inj_on (JString \<circ> role_hash) (set roles)" using role_hash_inj by (auto simp: inj_on_def)
  then show ?thesis by (auto simp: unique_list_none distinct_map role_accepted)
qed

lemma grant_fields:
  "validate (GrantMultiRolesRequest V coin ts roles am d) (Some ''targetsId'') = [] \<longleftrightarrow> targets_ok ts"
  "validate (GrantMultiRolesRequest V coin ts roles (Some as) d) (Some ''amounts'') = [] \<longleftrightarrow>
     CASHIN_ROLE \<notin> set roles \<or> length as = length ts \<and> list_all (allowance_ok V) as"
  "validate (GrantMultiRolesRequest V coin ts roles am d) (Some ''startDate'') = [] \<longleftrightarrow> date_ok V d"
  "validate (GrantMultiRolesRequest V coin ts roles (Some as) d) None = [] \<longleftrightarrow>
     account_ok coin \<and> targets_ok ts \<and> roles \<noteq> [] \<and> distinct roles \<and>
     (CASHIN_ROLE \<notin> set roles \<or> length as = length ts \<and> list_all (allowance_ok V) as) \<and> date_ok V d"
  by ((subst validate_Nil)?; cases d; auto simp: GrantMultiRolesRequest_def field_ok request_engine id_ok targets_none
      roles_none grant_amounts_check_def amounts_none allowance_ok_def list_all_iff date_ok_def)+

lemma revoke_fields:
  "validate (RevokeMultiRolesRequest V coin ts roles d) (Some ''targetsId'') = [] \<longleftrightarrow> targets_ok ts"
  "validate (RevokeMultiRolesRequest V coin ts roles d) (Some ''startDate'') = [] \<longleftrightarrow> date_ok V d"
  "validate (RevokeMultiRolesRequest V coin ts roles d) None = [] \<longleftrightarrow>
     account_ok coin \<and> targets_ok ts \<and> roles \<noteq> [] \<and> distinct roles \<and> date_ok V d"
  by ((subst validate_Nil)?; cases d; auto simp: RevokeMultiRolesRequest_def field_ok request_engine id_ok targets_none
      roles_none date_ok_def)+

lemma ticked_simps [simp]:
  "ticked [] xs = []" "ticked bs [] = []"
  "ticked (b # bs) (x # xs) = (if b then x # ticked bs xs else ticked bs xs)"
  by (simp_all add: ticked_def)

lemma set_ticked: "set (ticked bs xs) \<subseteq> set xs"
  by (auto simp: ticked_def dest: set_zip_rightD)

lemma distinct_ticked: "distinct xs \<Longrightarrow> distinct (ticked bs xs)"
proof (induction xs arbitrary: bs)
  case (Cons x xs)
  then show ?case using set_ticked [of _ xs] by (cases bs) fastforce+
qed simp

lemma distinct_rolesAvailable: "distinct (rolesAvailable caps ks)"
proof -
  have "distinct (map (\<lambda>(_, role, _). role) (rolesAvailability ops))" for ops
    by (simp add: rolesAvailability_def)
  then show ?thesis unfolding rolesAvailable_def by (rule distinct_map_filter)
qed

lemma date_given: "(\<forall>s. d = Some s \<longrightarrow> date_ok V d) \<Longrightarrow> date_ok V d"
  by (cases d) (auto simp: date_ok_def)

lemma grant_calls:
  assumes "env_ok E" "account_ok coin"
  shows "dlg valid_call (grantRoles E coin caps ks) (\<lambda>_. True)"
proof -
  have api: "fixed_number_api (rl_lib (ce_lib E))" using assms by (simp add: env_ok_def)
  have accounts: "dlg valid_call
      (getAccounts MAX_ACCOUNTS_ROLES (CASHIN_ROLE \<in> set roles)
         (\<lambda>ts as. GrantMultiRolesRequest (ce_lib E) coin ts roles (Some as) None) [] [])
      (\<lambda>(ts, as). targets_ok ts \<and> list_all (allowance_ok (ce_lib E)) as \<and>
         length as = (if CASHIN_ROLE \<in> set roles then length ts else 0) \<and>
         length ts \<le> length ([] :: string list) + MAX_ACCOUNTS_ROLES)" for roles
    by (rule dlg_getAccounts) (auto simp: grant_fields zero_allowance [OF api] MAX_ACCOUNTS_ROLES_def)
  show ?thesis
    unfolding grantRoles_def Let_def
    apply (rule dlg_validateTokenId)
    apply (rule TrueI dlg_bind [OF dlg_ticks] dlg_bind [OF accounts] dlg_prod dlg_bind [OF dlg_asks(2)] dlg_if dlg_ret
        dlg_bind [OF dlg_start_date] dlg_submit)+
    apply (auto simp: grant_fields assms distinct_ticked distinct_rolesAvailable intro: date_given)
    done
qed

lemma revoke_calls:
  assumes "account_ok coin"
  shows "dlg valid_call (revokeRoles E coin caps) (\<lambda>_. True)"
proof -
  have accounts: "dlg valid_call
      (getAccounts MAX_ACCOUNTS_ROLES False (\<lambda>ts as. RevokeMultiRolesRequest (ce_lib E) coin ts roles None) [] [])
      (\<lambda>(ts, as). targets_ok ts \<and> list_all (\<lambda>_. True) as \<and> length as = (if False then length ts else 0) \<and>
         length ts \<le> length ([] :: string list) + MAX_ACCOUNTS_ROLES)" for roles
    by (rule dlg_getAccounts) (auto simp: revoke_fields MAX_ACCOUNTS_ROLES_def)
  show ?thesis
    unfolding revokeRoles_def Let_def
    apply (rule dlg_validateTokenId)
    apply (rule TrueI dlg_bind [OF dlg_ticks] dlg_bind [OF accounts] dlg_prod dlg_bind [OF dlg_asks(2)] dlg_if dlg_ret
        dlg_bind [OF dlg_start_date] dlg_submit)+
    apply (auto simp: revoke_fields assms distinct_ticked distinct_rolesAvailable intro: date_given)
    done
qed


section \<open>Allowances\<close>

lemma allowance_requests_valid:
  "account_ok t \<Longrightarrow> account_ok coin \<Longrightarrow> validate (CheckSupplierLimitRequest t coin (Some ''unlimited'')) None = []"
  "account_ok t \<Longrightarrow> account_ok coin \<Longrightarrow> validate (CheckSupplierLimitRequest t coin (Some ''limited'')) None = []"
  "account_ok t \<Longrightarrow> account_ok coin \<Longrightarrow> validate (GetSupplierAllowanceRequest t coin) None = []"
  "account_ok t \<Longrightarrow> account_ok coin \<Longrightarrow> validate (GetRolesRequest t coin) None = []"
  "account_ok coin \<Longrightarrow> validate (GetAccountsWithRolesRequest (role_hash r) coin) None = []"
  by (subst validate_Nil; simp add: CheckSupplierLimitRequest_def GetSupplierAllowanceRequest_def GetRolesRequest_def
      GetAccountsWithRolesRequest_def request_engine id_ok limit_type_check_def role_accepted)+

lemma dlg_supplier_type:
  assumes "account_ok t" "account_ok coin"
  shows "dlg valid_call (checkSupplierType E coin t b) (\<lambda>_. True)"
  unfolding checkSupplierType_def Let_def
  by (rule dlg_weaken, rule dlg_call) (simp_all add: allowance_requests_valid assms)

lemma dlg_if_limited:
  assumes "account_ok t" "account_ok coin" "dlg valid_call m (\<lambda>_. True)"
  shows "dlg valid_call (if_limited E coin t m) (\<lambda>_. True)"
  unfolding if_limited_def
  by (rule TrueI dlg_bind [OF dlg_supplier_type [OF assms(1,2)]] dlg_if dlg_ret assms(3))+

lemma dlg_show_allowance:
  assumes "account_ok t" "account_ok coin"
  shows "dlg valid_call (show_allowance E coin t) (\<lambda>_. True)"
  unfolding show_allowance_def
  by (rule TrueI dlg_bind dlg_run dlg_ret allowance_requests_valid assms)+

lemmas allowance_requests = IncreaseSupplierAllowanceRequest_def DecreaseSupplierAllowanceRequest_def
  ResetSupplierAllowanceRequest_def CheckSupplierLimitRequest_def GetRolesRequest_def

lemma allowance_targets:
  "validate (IncreaseSupplierAllowanceRequest V coin t a d) (Some ''targetId'') = [] \<longleftrightarrow> account_ok t"
  "validate (DecreaseSupplierAllowanceRequest V coin t a d) (Some ''targetId'') = [] \<longleftrightarrow> account_ok t"
  "validate (ResetSupplierAllowanceRequest V t coin d) (Some ''targetId'') = [] \<longleftrightarrow> account_ok t"
  "validate (CheckSupplierLimitRequest t coin ty) (Some ''targetId'') = [] \<longleftrightarrow> account_ok t"
  "validate (GetRolesRequest t coin) (Some ''targetId'') = [] \<longleftrightarrow> account_ok t"
  by (simp_all add: allowance_requests requests_open)

lemma increase_calls:
  assumes coin: "account_ok coin"
  shows "dlg valid_call (increaseLimit_dialog E coin) (\<lambda>_. True)"
  unfolding increaseLimit_dialog_def Let_def
  apply (rule dlg_or_operations dlg_validateTokenId)+
  apply (rule dlg_bind [OF dlg_validated])
  apply (rule dlg_if_limited; (simp add: allowance_targets coin)?)
  apply (rule dlg_bind dlg_validated dlg_start_date dlg_run)+
   apply (subst validate_Nil; use coin in \<open>auto simp: allowance_requests requests_open split: option.splits\<close>)
  apply (rule dlg_show_allowance; simp add: coin)
  done

lemma decrease_calls:
  assumes coin: "account_ok coin"
  shows "dlg valid_call (decreaseLimit_dialog E coin) (\<lambda>_. True)"
  unfolding decreaseLimit_dialog_def Let_def
  apply (rule dlg_validateTokenId)
  apply (rule dlg_bind [OF dlg_validated])
  apply (rule dlg_bind [OF dlg_start_date])
  apply (rule dlg_or_operations)
  apply (rule dlg_if_limited; (simp add: allowance_targets coin)?)
  apply (rule dlg_bind dlg_validated dlg_start_date dlg_run)+
   apply (subst validate_Nil; use coin in \<open>auto simp: allowance_requests requests_open split: option.splits\<close>)
  apply (rule dlg_show_allowance; simp add: coin)
  done

lemma reset_fields:
  "validate (ResetSupplierAllowanceRequest V t coin d) (Some ''startDate'') = [] \<longleftrightarrow> date_ok V d"
  "validate (ResetSupplierAllowanceRequest V t coin d) None = [] \<longleftrightarrow> account_ok t \<and> account_ok coin \<and> date_ok V d"
  by ((subst validate_Nil)?; cases d; auto simp: ResetSupplierAllowanceRequest_def requests_open date_ok_def)+

lemma reset_calls:
  assumes coin: "account_ok coin"
  shows "dlg valid_call (resetLimit_dialog E coin) (\<lambda>_. True)"
  unfolding resetLimit_dialog_def Let_def
  apply (rule dlg_bind [OF dlg_validated])
  apply (rule dlg_bind [OF dlg_start_date])
  apply (rule dlg_or_operations)
  apply (rule dlg_if_limited; (simp add: allowance_targets coin)?)
  apply (rule dlg_bind dlg_run)+
   apply (auto simp: reset_fields allowance_targets coin intro: date_given dlg_ret)
  done

lemma check_limit_calls:
  assumes "account_ok coin"
  shows "dlg valid_call (checkLimit_dialog E coin) (\<lambda>_. True)"
  unfolding checkLimit_dialog_def Let_def
  by (rule TrueI dlg_validateTokenId dlg_bind [OF dlg_validated] dlg_or_operations dlg_bind [OF dlg_supplier_type] dlg_if
      dlg_ret dlg_show_allowance assms | simp add: allowance_targets)+

lemma edit_calls: "account_ok coin \<Longrightarrow> dlg valid_call (edit_dialog E coin) (\<lambda>_. True)"
  unfolding edit_dialog_def
  by (rule dlg_bind [OF dlg_pick])
    (auto split: edit_option.splits intro: increase_calls decrease_calls reset_calls check_limit_calls dlg_ret)

lemma accounts_with_role_calls:
  assumes "account_ok coin"
  shows "dlg valid_call (accountsWithRole_dialog E coin) (\<lambda>_. True)"
  unfolding accountsWithRole_dialog_def
  by (rule TrueI dlg_bind [OF dlg_pick] dlg_option dlg_bind [OF dlg_run] dlg_ret allowance_requests_valid assms)+

lemma get_role_calls:
  assumes "account_ok coin"
  shows "dlg valid_call (getRole_dialog E coin) (\<lambda>_. True)"
  unfolding getRole_dialog_def Let_def
  by (rule TrueI dlg_bind [OF dlg_validated] dlg_bind [OF dlg_run] dlg_ret allowance_requests_valid assms
      | simp add: allowance_targets)+

section \<open>The danger zone\<close>

lemma dlg_guarded:
  assumes "\<And>d. (\<forall>s. d = Some s \<longrightarrow> validate (req d) (Some ''startDate'') = []) \<Longrightarrow> P op (req d)"
  shows "dlg P
    (bindD defaultConfirmAsk (\<lambda>confirm.
       if \<not> confirm then retD a
       else tryD (bindD (ask_start_date E req) (\<lambda>start. bindD (run_sdk E op (req start)) (\<lambda>_. retD b)))
              (\<lambda>e. bindD (askErrorConfirmation e) (\<lambda>_. retD c))))
    (\<lambda>_. True)"
  by (rule TrueI dlg_bind [OF dlg_asks(2)] dlg_if dlg_try dlg_bind [OF dlg_start_date] dlg_bind [OF dlg_run]
      dlg_bind [OF dlg_error] dlg_ret assms | assumption)+

lemma danger_fields:
  "validate (PauseRequest V coin d) (Some ''startDate'') = [] \<longleftrightarrow> date_ok V d"
  "validate (DeleteRequest V coin d) (Some ''startDate'') = [] \<longleftrightarrow> date_ok V d"
  by (cases d; simp add: PauseRequest_def DeleteRequest_def field_ok request_engine date_ok_def)+

lemma danger_calls:
  assumes "account_ok coin"
  shows "dlg valid_call (danger_dialog E coin st opt) (\<lambda>_. True)"
  unfolding danger_dialog_def Let_def
  by (cases opt) (auto intro!: dlg_guarded dlg_ret simp: account_requests_pass danger_fields assms date_ok_def)


section \<open>The screens\<close>

lemma plain_account_check:
  assumes "account_ok a"
  shows "account_check V \<lparr>ra_accountId = a, ra_privateKey = None, ra_evmAddress = None\<rparr> JObject = Inr []"
proof -
  have "new_Account a None None None None \<noteq> Inl e" for e
    using assms by (simp add: new_Account_def HederaId_from_def new_HederaId_def account_ok_def)
  then show ?thesis by (cases "new_Account a None None None None") (auto simp: account_check_def checkAccount_def)
qed

lemma capabilities_valid:
  assumes "account_ok a" "account_ok coin"
  shows "validate (CapabilitiesRequest V \<lparr>ra_accountId = a, ra_privateKey = None, ra_evmAddress = None\<rparr> coin p d) None = []"
  using assms by (subst validate_Nil; simp add: CapabilitiesRequest_def request_engine id_ok plain_account_check)

lemma dlg_capabilities:
  assumes "env_ok E" "account_ok coin"
  shows "dlg valid_call (getCapabilities_dialog E coin p d)
    (\<lambda>caps. \<forall>i. sc_tokenId (caps_coin caps) = Some i \<longrightarrow> account_ok (id_value i))"
  unfolding getCapabilities_dialog_def Let_def
  by (rule dlg_weaken, rule dlg_call) (use assms in \<open>auto simp: capabilities_valid env_ok_def\<close>)

lemma dlg_roles:
  assumes "env_ok E" "account_ok coin"
  shows "dlg valid_call (getRolesAccount E coin) (\<lambda>_. True)"
  unfolding getRolesAccount_def Let_def
  by (rule TrueI dlg_bind dlg_call dlg_ret allowance_requests_valid | use assms in \<open>simp add: env_ok_def\<close>)+

lemma dlg_details:
  assumes "env_ok E" "account_ok coin"
  shows "dlg valid_call (getDetails E coin) (\<lambda>(d, fees). length fees \<le> MAX_CUSTOM_FEES)"
  unfolding getDetails_def Let_def
  by (rule dlg_weaken, rule dlg_call) (use assms in \<open>auto simp: details_valid env_ok_def\<close>)

lemma operation_calls:
  assumes "env_ok E" "account_ok coin"
  shows "dlg valid_call (operation_dialog E coin opt) (\<lambda>_. True)"
  unfolding operation_dialog_def
  by (cases opt) (simp_all add: dlg_ret assms cash_calls details_calls sendTokens_calls)

lemma operations_menu_calls:
  assumes "env_ok E" "account_ok coin"
  shows "dlg valid_call (operationsStableCoin E coin) (\<lambda>_. True)"
  unfolding operationsStableCoin_def Let_def
  by (rule TrueI dlg_bind [OF dlg_capabilities [OF assms]] dlg_option dlg_throw dlg_bind [OF dlg_call]
      dlg_bind [OF dlg_roles [OF assms]] dlg_bind [OF dlg_pick] dlg_bind [OF operation_calls [OF assms]] dlg_ret
      | use assms in \<open>simp add: account_requests_pass env_ok_def date_ok_def\<close>)+

lemma menu_calls:
  assumes "env_ok E" "account_ok coin"
  shows "dlg valid_call (kycManagementFlow E coin) (\<lambda>_. True)"
    and "dlg valid_call (freezeManagementFlow E coin) (\<lambda>_. True)"
    and "dlg valid_call (resolverManagementFlow E coin) (\<lambda>_. True)"
    and "dlg valid_call (holdManagementFlow E coin) (\<lambda>_. True)"
  unfolding kycManagementFlow_def freezeManagementFlow_def resolverManagementFlow_def holdManagementFlow_def
  by (rule TrueI dlg_bind [OF dlg_capabilities [OF assms]] dlg_bind [OF dlg_roles [OF assms]] dlg_bind [OF dlg_pick]
      dlg_option dlg_ret dlg_waiting kyc_calls freeze_calls resolver_calls hold_calls assms(2))+

lemma fees_menu_calls:
  assumes "env_ok E" "account_ok coin"
  shows "dlg valid_call (feesManagementFlow E coin st) (\<lambda>_. True)"
proof -
  have "dlg valid_call (case opt of
        OptFeeCreate \<Rightarrow> bindD (defaultMultipleAsk [FixedFee, FractionalFee]) (\<lambda>feeType.
          if feeType = FixedFee then createFixedFee E coin dec else createFractionalFee E coin dec)
      | OptFeeRemove \<Rightarrow> removeFees E coin fees | OptFeeList \<Rightarrow> retD FeesMenu | OptFeeBack \<Rightarrow> retD OperationsMenu) (\<lambda>_. True)"
    if "length fees \<le> MAX_CUSTOM_FEES" for opt dec fees
    using that assms(2)
    by (cases opt)
      (auto intro!: dlg_bind [OF dlg_pick] dlg_ret fixed_fee_calls fractional_fee_calls remove_fees_calls)
  then show ?thesis
    unfolding feesManagementFlow_def Let_def
    by (intro dlg_bind [OF dlg_capabilities [OF assms]] dlg_bind [OF dlg_roles [OF assms]]
        dlg_bind [OF dlg_details [OF assms]] dlg_prod dlg_bind [OF dlg_pick]) auto
qed

lemma role_menu_calls:
  assumes "env_ok E" "account_ok coin"
  shows "dlg valid_call (roleManagementFlow E coin) (\<lambda>_. True)"
proof -
  have "dlg valid_call (case opt of
        OptCheckAccountsWithRole \<Rightarrow> accountsWithRole_dialog E coin | OptGrant \<Rightarrow> grantRoles E coin caps ks
      | OptRevoke \<Rightarrow> revokeRoles E coin caps | OptEdit \<Rightarrow> edit_dialog E coin
      | OptGetRole \<Rightarrow> getRole_dialog E coin | OptRoleBack \<Rightarrow> retD OperationsMenu) (\<lambda>_. True)" for opt caps ks
    using assms
    by (cases opt) (simp_all add: accounts_with_role_calls grant_calls revoke_calls edit_calls get_role_calls dlg_ret)
  then show ?thesis
    unfolding roleManagementFlow_def
    by (intro dlg_bind [OF dlg_capabilities [OF assms]] dlg_bind [OF dlg_roles [OF assms]] dlg_bind [OF dlg_lift]
        dlg_bind [OF dlg_pick])
qed

lemma danger_menu_calls:
  assumes "env_ok E" "account_ok coin"
  shows "dlg valid_call (dangerZone E coin st) (\<lambda>_. True)"
  unfolding dangerZone_def
  by (intro dlg_bind [OF dlg_capabilities [OF assms]] dlg_bind [OF dlg_roles [OF assms]] dlg_bind [OF dlg_pick]
      danger_calls assms(2))

section \<open>The update of a token\<close>

text \<open>
  The fields of the collected update are valid, except that the expiration date was valid when it was entered. What
  can be wrong with the update that is sent is thus its expiration date alone.
\<close>

definition update_ok :: "string \<Rightarrow> update_request \<Rightarrow> bool" where
  "update_ok coin r \<longleftrightarrow> ru_tokenId r = coin \<and>
     (\<forall>s. ru_name r = Some s \<longrightarrow> unless_empty checkName (JString s) = Inr []) \<and>
     (\<forall>s. ru_symbol r = Some s \<longrightarrow> unless_empty checkSymbol (JString s) = Inr []) \<and>
     (\<forall>s. ru_autoRenewPeriod r = Some s \<longrightarrow> unless_empty checkAutoRenewPeriod (JString s) = Inr []) \<and>
     (\<forall>s. ru_metadata r = Some s \<longrightarrow> checkString (Some 100) 0 False (JString s) = Inr [])"

definition call_ok :: "sdk_op \<Rightarrow> request \<Rightarrow> bool" where
  "call_ok op req \<longleftrightarrow>
     validate req None = [] \<or> op = StableCoin_update \<and> (\<forall>(field, errors) \<in> set (validate req None). field = ''expirationTimestamp'')"

lemma dlg_mono: "dlg P m Q \<Longrightarrow> (\<And>op req. P op req \<Longrightarrow> P' op req) \<Longrightarrow> dlg P' m Q"
  unfolding dlg_def by blast

lemma dlg_call_ok: "dlg valid_call m Q \<Longrightarrow> dlg call_ok m Q"
  by (erule dlg_mono) (simp add: call_ok_def)

lemma update_fields:
  "validate (UpdateRequest V r) (Some ''name'') = [] \<longleftrightarrow>
     (\<forall>s. ru_name r = Some s \<longrightarrow> unless_empty checkName (JString s) = Inr [])"
  "validate (UpdateRequest V r) (Some ''symbol'') = [] \<longleftrightarrow>
     (\<forall>s. ru_symbol r = Some s \<longrightarrow> unless_empty checkSymbol (JString s) = Inr [])"
  "validate (UpdateRequest V r) (Some ''autoRenewPeriod'') = [] \<longleftrightarrow>
     (\<forall>s. ru_autoRenewPeriod r = Some s \<longrightarrow> unless_empty checkAutoRenewPeriod (JString s) = Inr [])"
  "validate (UpdateRequest V r) (Some ''metadata'') = [] \<longleftrightarrow>
     (\<forall>s. ru_metadata r = Some s \<longrightarrow> checkString (Some 100) 0 False (JString s) = Inr [])"
  by (simp_all add: UpdateRequest_def field_ok request_engine given_value optional_given split: option.splits)

lemma invalid_field:
  assumes "(field, errors) \<in> set (validate r None)"
  shows "field \<in> fst ` set (rq_schema r) \<and> validate r (Some field) \<noteq> []"
proof -
  obtain k where k: "k \<in> set (filterSchemaFromProps r)" "(field, errors) \<in> set (pushValidations r k)"
    using assms by (auto simp: validate_def)
  moreover have "field = k"
    using k(2) by (auto simp: pushValidations_def runValidation_def split: sum.splits option.splits if_splits)
  moreover have "k \<in> fst ` set (rq_schema r)" using k(1) by (auto simp: filterSchemaFromProps_def Let_def)
  ultimately show ?thesis by (cases "pushValidations r k") (auto simp: validate_def)
qed

lemma update_other_fields:
  "validate (UpdateRequest V r) (Some ''tokenId'') = [] \<longleftrightarrow> account_ok (ru_tokenId r)"
  "validate (UpdateRequest V r) (Some ''freezeKey'') = []" "validate (UpdateRequest V r) (Some ''kycKey'') = []"
  "validate (UpdateRequest V r) (Some ''wipeKey'') = []" "validate (UpdateRequest V r) (Some ''pauseKey'') = []"
  "validate (UpdateRequest V r) (Some ''feeScheduleKey'') = []"
  by (simp_all add: UpdateRequest_def field_ok request_engine id_ok key_prop_def checkPublicKey_def split: option.splits)

lemma update_schema:
  "fst ` set (rq_schema (UpdateRequest V r)) = {''name'', ''symbol'', ''tokenId'', ''autoRenewPeriod'',
     ''expirationTimestamp'', ''freezeKey'', ''kycKey'', ''wipeKey'', ''pauseKey'', ''feeScheduleKey'', ''metadata''}"
  by (simp add: UpdateRequest_def)

lemma update_valid:
  assumes "account_ok coin" "update_ok coin r"
  shows "call_ok StableCoin_update (UpdateRequest V r)"
proof -
  have "field = ''expirationTimestamp''" if invalid: "(field, errors) \<in> set (validate (UpdateRequest V r) None)" for field errors
  proof (rule ccontr)
    assume "field \<noteq> ''expirationTimestamp''"
    then have "validate (UpdateRequest V r) (Some field) = []"
      using invalid_field [OF invalid] assms unfolding update_schema update_ok_def
      by (elim conjE) (elim insertE emptyE; simp add: update_fields update_other_fields)
    then show False using invalid_field [OF invalid] by simp
  qed
  then show ?thesis by (auto simp: call_ok_def)
qed

lemma line_some: "line f a = Some x \<longleftrightarrow> (\<exists>s. a = ALine s \<and> x = f s)"
  by (cases a) (auto simp: line_def)

lemma ask_update_calls:
  assumes "\<And>s. validate (UpdateRequest (ce_lib E) (f s)) (Some field) = [] \<Longrightarrow> update_ok coin (f s)"
  shows "dlg P (ask_update E f field) (\<lambda>(r, scr). update_ok coin r)"
  unfolding ask_update_def
  by (rule dlg_bind [OF dlg_validated], rule dlg_ret) (use assms in \<open>auto simp: line_some\<close>)

lemma collect_calls:
  assumes "account_ok coin" "update_ok coin r"
  shows "dlg call_ok (tokenConfigurationCollectData E coin r) (\<lambda>(r', scr). update_ok coin r')"
proof -
  have new: "update_ok coin (new_update coin)" by (simp add: update_ok_def new_update_def)
  have answered: "dlg call_ok (ask_update E (\<lambda>s. r\<lparr>ru_name := Some s\<rparr>) ''name'') (\<lambda>(r', scr). update_ok coin r')"
    "dlg call_ok (ask_update E (\<lambda>s. r\<lparr>ru_symbol := Some s\<rparr>) ''symbol'') (\<lambda>(r', scr). update_ok coin r')"
    "dlg call_ok (ask_update E (\<lambda>s. r\<lparr>ru_expirationTimestamp := Some (daysToTimestampInNano E (ce_number E s))\<rparr>)
      ''expirationTimestamp'') (\<lambda>(r', scr). update_ok coin r')"
    "dlg call_ok (ask_update E (\<lambda>s. r\<lparr>ru_autoRenewPeriod := Some (renew_period E s)\<rparr>) ''autoRenewPeriod'')
      (\<lambda>(r', scr). update_ok coin r')"
    "dlg call_ok (ask_update E (\<lambda>s. r\<lparr>ru_metadata := Some s\<rparr>) ''metadata'') (\<lambda>(r', scr). update_ok coin r')"
    by (intro ask_update_calls; use assms(2) in \<open>simp add: update_ok_def update_fields\<close>)+
  have saved: "dlg call_ok (bindD defaultConfirmAsk (\<lambda>confirm.
         if \<not> confirm then retD (r, TokenConfigurationMenu)
         else bindD (submit E StableCoin_update (UpdateRequest (ce_lib E) r) TokenConfigurationMenu) (\<lambda>scr.
           retD (if scr = TokenConfigurationMenu then new_update coin else r, scr)))) (\<lambda>(r', scr). update_ok coin r')"
    by (intro dlg_bind [OF dlg_asks(2)] dlg_if dlg_ret dlg_bind [OF dlg_submit [where P = call_ok, OF update_valid [OF assms]]])
      (simp_all add: assms(2) new)
  have left: "dlg call_ok (if \<not> update_changed r then retD (r, ConfigurationMenu)
         else bindD defaultConfirmAsk (\<lambda>back. retD (r, if back then ConfigurationMenu else TokenConfigurationMenu)))
      (\<lambda>(r', scr). update_ok coin r')"
    by (intro dlg_bind [OF dlg_asks(2)] dlg_if dlg_ret) (simp_all add: assms(2))
  show ?thesis
    unfolding tokenConfigurationCollectData_def
    by (rule dlg_bind [OF dlg_pick], split token_option.split, intro conjI impI answered saved left dlg_ret)
      (simp add: assms(2))
qed

lemma set_key_ok: "update_ok coin r \<Longrightarrow> update_ok coin (set_key k key r)"
  by (cases k) (simp_all add: set_key_def update_ok_def)

lemma dlg_public_key: "dlg P defaultPublicKeyAsk (\<lambda>_. True)"
proof (rule dlgI)
  show "P op req" if "ECall op req \<in> set (fst (defaultPublicKeyAsk answers))" for answers op req
    using that by (induction answers rule: defaultPublicKeyAsk.induct)
      (auto simp: Let_def split: option.splits if_splits prod.splits)
qed simp

lemma public_key_valid:
  assumes "account_ok a"
  shows "validate (GetPublicKeyRequest V \<lparr>ra_accountId = a, ra_privateKey = None, ra_evmAddress = None\<rparr>) None = []"
  by (subst validate_Nil; simp add: GetPublicKeyRequest_def request_engine plain_account_check [OF assms])

lemma keys_calls:
  assumes "env_ok E" "update_ok coin r"
  shows "dlg call_ok (keysManagement E r keys) (\<lambda>(r', scr). update_ok coin r')"
proof -
  have answer: "dlg valid_call (checkAnswer E feature) (\<lambda>_. True)" for feature
    using assms(1) unfolding checkAnswer_def Let_def
    by (cases feature)
      (auto intro!: dlg_bind [OF dlg_call] dlg_bind [OF dlg_public_key] dlg_ret simp: public_key_valid env_ok_def)
  show ?thesis
    unfolding keysManagement_def
    by (intro dlg_bind [OF dlg_pick] dlg_option dlg_ret dlg_bind [OF dlg_call_ok [OF answer]])
      (simp_all add: assms(2) set_key_ok)
qed

lemma configuration_calls:
  assumes "env_ok E" "account_ok coin"
  shows "dlg valid_call (configuration E coin) (\<lambda>(u, scr). \<forall>r ks. u = Some (r, ks) \<longrightarrow> update_ok coin r)"
proof -
  have "update_ok coin (new_update coin)" by (simp add: update_ok_def new_update_def)
  then show ?thesis
    unfolding configuration_def tokenConfiguration_def
    by (intro dlg_bind [OF dlg_capabilities [OF assms]] dlg_bind [OF dlg_roles [OF assms]] dlg_bind [OF dlg_pick]
        dlg_bind [OF dlg_bind [OF dlg_details [OF assms] dlg_ret [where Q = "\<lambda>(r, ks). update_ok coin r"]]]
        dlg_option dlg_ret) auto
qed

definition collecting :: "string \<Rightarrow> cli_session \<Rightarrow> bool" where
  "collecting coin s \<longleftrightarrow> se_coin s = coin \<and> (\<forall>r ks. se_update s = Some (r, ks) \<longrightarrow> update_ok coin r)"

lemma flow_calls:
  assumes "collecting (se_coin s) s"
  shows "dlg valid_call m (\<lambda>_. True) \<Longrightarrow> dlg call_ok (flow s m) (collecting (se_coin s))"
    and "dlg valid_call m' (\<lambda>_. True) \<Longrightarrow> dlg call_ok (flags_flow s m') (collecting (se_coin s))"
    and "(\<And>r ks. update_ok (se_coin s) r \<Longrightarrow> dlg call_ok (c r ks) (\<lambda>(r', scr). update_ok (se_coin s) r')) \<Longrightarrow>
      dlg call_ok (update_flow s c) (collecting (se_coin s))"
proof -
  show "dlg call_ok (flow s m) (collecting (se_coin s))" if "dlg valid_call m (\<lambda>_. True)"
    unfolding flow_def
    by (rule dlg_bind [OF dlg_call_ok [OF that]], rule dlg_ret) (use assms in \<open>simp add: collecting_def\<close>)
  show "dlg call_ok (flags_flow s m') (collecting (se_coin s))" if "dlg valid_call m' (\<lambda>_. True)"
    unfolding flags_flow_def
    by (rule dlg_bind [OF dlg_call_ok [OF that]], rule dlg_prod, rule dlg_ret) (use assms in \<open>simp add: collecting_def\<close>)
  show "dlg call_ok (update_flow s c) (collecting (se_coin s))"
    if c: "\<And>r ks. update_ok (se_coin s) r \<Longrightarrow> dlg call_ok (c r ks) (\<lambda>(r', scr). update_ok (se_coin s) r')"
  proof (cases "se_update s")
    case None
    then show ?thesis by (simp add: update_flow_def dlg_waiting)
  next
    case (Some u)
    obtain r ks where u: "u = (r, ks)" by force
    then have r: "update_ok (se_coin s) r" using Some assms by (simp add: collecting_def)
    show ?thesis
      unfolding update_flow_def Some u option.case prod.case
      by (rule dlg_bind [OF c [OF r]], intro dlg_prod dlg_ret) (auto simp: collecting_def)
  qed
qed

lemma screen_calls:
  assumes "env_ok E" "account_ok (se_coin s)" "collecting (se_coin s) s"
  shows "dlg call_ok (screen_dialog E s) (collecting (se_coin s))"
proof -
  have configuration: "dlg call_ok
      (bindD (configuration E (se_coin s)) (\<lambda>(u, scr). retD (s\<lparr>se_update := u, se_screen := scr\<rparr>))) (collecting (se_coin s))"
    by (rule dlg_bind [OF dlg_call_ok [OF configuration_calls [OF assms(1,2)]]], rule dlg_prod, rule dlg_ret)
      (simp add: collecting_def)
  show ?thesis
    unfolding screen_dialog_def
    by (cases "se_screen s")
      (simp_all add: assms flow_calls configuration operations_menu_calls menu_calls fees_menu_calls role_menu_calls
        danger_menu_calls collect_calls keys_calls dlg_waiting)
qed


section \<open>The session\<close>

lemma turn_calls:
  assumes "env_ok E" "account_ok (se_coin s)" "collecting (se_coin s) s"
  shows "ECall op req \<in> set (fst (cli_turn E answers s)) \<Longrightarrow> call_ok op req"
    and "cli_turn E answers s = (ev, Some s') \<Longrightarrow> collecting (se_coin s) s'"
proof -
  assume "ECall op req \<in> set (fst (cli_turn E answers s))"
  then have "ECall op req \<in> set (fst (screen_dialog E s answers))"
    by (cases "screen_dialog E s answers"; cases "snd (screen_dialog E s answers)") (auto simp: cli_turn_def)
  then show "call_ok op req" using dlg_calls [OF screen_calls [OF assms]] by blast
next
  assume turn: "cli_turn E answers s = (ev, Some s')"
  show "collecting (se_coin s) s'"
  proof (cases "snd (screen_dialog E s answers)")
    case (Done t rest)
    then have "s' = t" using turn by (cases "screen_dialog E s answers") (simp add: cli_turn_def)
    then show ?thesis using dlg_result [OF screen_calls [OF assms] Done] by simp
  next
    case (Thrown e rest)
    then show ?thesis using turn assms(3)
      by (cases "screen_dialog E s answers") (auto simp: cli_turn_def collecting_def split: if_splits)
  qed (use turn in \<open>cases "screen_dialog E s answers"; simp add: cli_turn_def\<close>)
qed

lemma main_menu_waits: "se_screen s = MainMenu \<Longrightarrow> cli_turn E answers s = ([], None)"
  by (simp add: cli_turn_def screen_dialog_def)

lemma start_calls:
  assumes "account_ok coin" "start_coin E coin s = (ev, s')"
  shows "se_coin s' = coin" and "se_update s' = None" and "ECall op req \<in> set ev \<Longrightarrow> validate req None = []"
  using assms by (auto simp: start_coin_def Let_def details_valid split: sum.splits)

definition on_coin :: "cli_session \<Rightarrow> bool" where
  "on_coin s \<longleftrightarrow> se_screen s = MainMenu \<or>
     account_ok (se_coin s) \<and> collecting (se_coin s) s"

lemma session_invariant:
  assumes "session_trace env_ok s\<^sub>0 ev s" "se_screen s\<^sub>0 = MainMenu"
  shows "on_coin s \<and> (\<forall>op req. ECall op req \<in> set ev \<longrightarrow> call_ok op req)"
  using assms
proof induction
  case trace_begin
  then show ?case by (simp add: on_coin_def)
next
  case (trace_start ev s E coin ev' s')
  then have "account_ok coin" by (simp add: account_ok_def)
  then show ?case using trace_start start_calls [of coin E s ev' s'] by (auto simp: on_coin_def call_ok_def collecting_def)
next
  case (trace_turn ev s E answers ev' s')
  then have "se_screen s \<noteq> MainMenu" using main_menu_waits [of s E answers] by auto
  then have on: "account_ok (se_coin s)" "collecting (se_coin s) s"
    using trace_turn by (auto simp: on_coin_def)
  have "on_coin s'" using turn_calls(2) [OF trace_turn.hyps(2) on trace_turn.hyps(3)] on by (auto simp: on_coin_def collecting_def)
  moreover have "call_ok op req" if "ECall op req \<in> set ev'" for op req
    using turn_calls(1) [OF trace_turn.hyps(2) on, of op req answers] trace_turn.hyps(3) that by simp
  ultimately show ?case using trace_turn.IH [OF trace_turn.prems] by auto
qed



lemma cli_sample_ok: "env_ok cli_sample"
  using sample_accounts_ok exact.fixed_number_api_axioms
  by (simp add: env_ok_def MAX_CUSTOM_FEES_def)

definition idle_session :: cli_session where
  "idle_session =
     \<lparr>se_coin = [], se_flags = \<lparr>cs_deleted = False, cs_paused = False, cs_isFrozen = False, cs_hasKycKey = False,
        cs_hasFeeScheduleKey = False, cs_hasFreezeKey = False\<rparr>, se_screen = MainMenu, se_guarded = True,
      se_update = None\<rparr>"


end
