(* ===== verification/Cli_Results.thy ===== *)
theory Cli_Results
  imports Cli_Session_Properties
begin

text \<open>
  What single parts of the command line compute: the question that is asked until its answer validates, dates,
  the fees that remain, allowances of zero, and two ways out of trouble.
\<close>

section \<open>Questions and dates\<close>

text \<open>
  A question is asked until an answer validates: the answers before it only show the errors of the
  validation, in their order, the first valid answer is the result, and the answers behind it are left for the next
  question.
\<close>

theorem asks_until_valid:
  assumes "\<forall>a \<in> set wrong. \<exists>x. read a = Some x \<and> check x \<noteq> []" "read a = Some x" "check x = []"
  shows "cli_handleValidation read check (wrong @ a # rest) =
    (concat (map (\<lambda>w. map EError (concat (map snd (check (the (read w)))))) wrong), Done x rest)"
  using assms
proof (induction wrong)
  case (Cons w ws)
  then obtain y where "read w = Some y" "check y \<noteq> []" by auto
  then show ?case using Cons by simp
qed simp

theorem asks_until_valid_witness:
  "cli_handleValidation (line (\<lambda>s. s)) (\<lambda>t. validate (KYCRequest sample_lib t ''0.0.9'' None) (Some ''targetId''))
     [ALine ''0.0.0'', ALine ''0.0.8'', AConfirm True] =
   ([EError (IdError (AccountIdNotValid ''0.0.0''))], Done ''0.0.8'' [AConfirm True])"
proof -
  let ?check = "\<lambda>t. validate (KYCRequest sample_lib t ''0.0.9'' None) (Some ''targetId'')"
  have refused: "?check ''0.0.0'' = [(''targetId'', [IdError (AccountIdNotValid ''0.0.0'')])]" by code_simp
  have accepted: "?check ''0.0.8'' = []" by code_simp
  show ?thesis
    using asks_until_valid [of "[ALine ''0.0.0'']" "line (\<lambda>s. s)" ?check "ALine ''0.0.8''" "''0.0.8''" "[AConfirm True]"]
    by (simp add: line_def refused accepted)
qed

lemma match_digits_append: "length ds = n \<Longrightarrow> list_all is_digit ds \<Longrightarrow> match_digits n (ds @ r) = Some r"
  by (simp add: match_digits_def)

lemma str_nat_bound: "list_all is_digit s \<Longrightarrow> str_nat s < 10 ^ length s"
proof (induction s rule: rev_induct)
  case (snoc c s)
  then have "digit_val c < 10" by (auto simp: is_digit_def digit_val_def)
  moreover have "str_nat (s @ [c]) = str_nat s * 10 + digit_val c" by (simp add: str_nat_def)
  ultimately show ?case using snoc by simp
qed (simp add: str_nat_def)

lemma nat_str_length_ge: "10 ^ d \<le> n \<Longrightarrow> d < length (nat_str n)"
proof -
  assume "10 ^ d \<le> n"
  also have "n < 10 ^ length (nat_str n)" using str_nat_bound [OF nat_str_digits, of n] by simp
  finally show ?thesis by (simp add: power_strict_increasing_iff)
qed

lemma two_digits_shape:
  assumes "n < 100"
  shows "length (two_digits (int_str (int n))) = 2 \<and> list_all is_digit (two_digits (int_str (int n)))"
proof -
  have "length (nat_str n) \<le> 2" using nat_str_length [of 2 n] assms by simp
  moreover have "length (nat_str n) \<noteq> 0" by simp
  ultimately have "length (nat_str n) = 1 \<or> length (nat_str n) = 2" by linarith
  then show ?thesis
    using nat_str_digits [of n] by (auto simp: two_digits_def int_str_def is_digit_def char_code_def)
qed

text \<open>The components of a date.\<close>

definition utc_ok :: "utc_time \<Rightarrow> bool" where
  "utc_ok t \<longleftrightarrow> utc_Month t < 12 \<and> utc_Date t \<le> 31 \<and> utc_Hours t < 24 \<and> utc_Minutes t < 60 \<and> utc_Seconds t < 60"

lemma iso_after_year:
  assumes "list_all is_digit y" "length y = 4"
    and "\<forall>p \<in> {mo, d, h, mi, s}. length p = 2 \<and> list_all is_digit p"
  shows "ISO_8601_REGEX (y @ ''-'' @ mo @ ''-'' @ d @ ''T'' @ h @ '':'' @ mi @ '':'' @ s @ ''Z'')"
  using assms by (simp add: ISO_8601_REGEX_def match_digits_append match_char_def match_zone_def)

lemma year_four_digits:
  assumes "match_digits 4 (int_str y @ ''-'' @ r) = Some r'" "match_char (CHR ''-'') r' \<noteq> None"
  shows "1000 \<le> y \<and> y \<le> 9999"
proof -
  have head: "\<not> is_digit (CHR ''-'')" by (simp add: is_digit_def char_code_def)
  have digits: "list_all is_digit (take 4 (int_str y @ ''-'' @ r))" and r': "r' = drop 4 (int_str y @ ''-'' @ r)"
    using assms(1) by (auto simp: match_digits_def split: if_splits)
  have y: "0 \<le> y" using digits head by (auto simp: int_str_def split: if_splits)
  then have str: "int_str y = nat_str (nat y)" by (simp add: int_str_def)
  have "\<not> length (nat_str (nat y)) < 4"
  proof
    assume "length (nat_str (nat y)) < 4"
    then have "CHR ''-'' \<in> set (take 4 (int_str y @ ''-'' @ r))" by (simp add: str take_Cons')
    then show False using digits head by (auto simp: list_all_iff)
  qed
  moreover have "\<not> 4 < length (nat_str (nat y))"
  proof
    assume "4 < length (nat_str (nat y))"
    then obtain c cs where c: "drop 4 (nat_str (nat y)) = c # cs" by (cases "drop 4 (nat_str (nat y))") auto
    then have "is_digit c" using nat_str_digits [of "nat y"] by (metis in_set_dropD list.set_intros(1) list_all_iff)
    then show False using assms(2) r' str c head by (auto simp: match_char_def split: if_splits)
  qed
  ultimately have four: "length (nat_str (nat y)) = 4" by simp
  then have "nat y < 10000" using str_nat_bound [OF nat_str_digits, of "nat y"] by simp
  moreover have "\<not> nat y < 1000" using nat_str_length [of 3 "nat y"] four by auto
  ultimately show ?thesis using y by linarith
qed

text \<open>
  The start dates that the command line sends for a multisignature account: the text of a date
  has the format that the SDK asks for exactly when the date is valid and its year has four digits; an invalid date
  gives a text that is refused, so that the question is asked again.
\<close>

theorem start_date_format:
  assumes "\<forall>t. date = Some t \<longrightarrow> utc_ok t"
  shows "ISO_8601_REGEX (formatDateTime date) \<longleftrightarrow>
    (\<exists>t. date = Some t \<and> 1000 \<le> utc_FullYear t \<and> utc_FullYear t \<le> 9999)"
proof (cases date)
  case None
  have "\<not> ISO_8601_REGEX (formatDateTime None)" by code_simp
  then show ?thesis using None by simp
next
  case (Some t)
  let ?y = "int_str (utc_FullYear t)"
  let ?two = "\<lambda>n. two_digits (int_str (int n))"
  define rest where "rest = ?two (utc_Month t + 1) @ ''-'' @ ?two (utc_Date t) @ ''T'' @ ?two (utc_Hours t) @ '':'' @
      ?two (utc_Minutes t) @ '':'' @ ?two (utc_Seconds t) @ ''Z''"
  have formatted: "formatDateTime date = ?y @ ''-'' @ rest"
    by (simp add: formatDateTime_def Some Let_def rest_def add.commute)
  have small: "utc_Month t + 1 < 100" "utc_Date t < 100" "utc_Hours t < 100" "utc_Minutes t < 100" "utc_Seconds t < 100"
    using assms Some by (auto simp: utc_ok_def)
  have parts: "\<forall>p \<in> {?two (utc_Month t + 1), ?two (utc_Date t), ?two (utc_Hours t), ?two (utc_Minutes t), ?two (utc_Seconds t)}.
      length p = 2 \<and> list_all is_digit p"
    using small [THEN two_digits_shape] by blast
  have "ISO_8601_REGEX (formatDateTime date)" if "1000 \<le> utc_FullYear t" "utc_FullYear t \<le> 9999"
  proof -
    have "list_all is_digit ?y" using that nat_str_digits by (simp add: int_str_def)
    moreover have "length ?y = 4"
      using that nat_str_length [of 4 "nat (utc_FullYear t)"] nat_str_length_ge [of 3 "nat (utc_FullYear t)"]
      by (simp add: int_str_def nat_less_iff le_nat_iff)
    ultimately show ?thesis unfolding formatted rest_def by (rule iso_after_year [OF _ _ parts])
  qed
  moreover have "1000 \<le> utc_FullYear t \<and> utc_FullYear t \<le> 9999" if "ISO_8601_REGEX (formatDateTime date)"
  proof -
    note iso = that
    obtain r where r: "match_digits 4 (?y @ ''-'' @ rest) = Some r"
      using iso unfolding formatted ISO_8601_REGEX_def by (cases "match_digits 4 (?y @ ''-'' @ rest)") auto
    then have "match_char (CHR ''-'') r \<noteq> None"
      using iso unfolding formatted ISO_8601_REGEX_def by (cases "match_char (CHR ''-'') r") auto
    with r show ?thesis by (rule year_four_digits)
  qed
  ultimately show ?thesis using Some by auto
qed

theorem start_date_format_witness:
  "ISO_8601_REGEX (formatDateTime (Some \<lparr>utc_FullYear = 2024, utc_Month = 4, utc_Date = 4, utc_Hours = 14,
     utc_Minutes = 30, utc_Seconds = 0\<rparr>))"
  using start_date_format [of "Some \<lparr>utc_FullYear = 2024, utc_Month = 4, utc_Date = 4, utc_Hours = 14,
     utc_Minutes = 30, utc_Seconds = 0\<rparr>"] by (simp add: utc_ok_def)


section \<open>Fees\<close>

lemma splice_at:
  assumes "distinct (map g fees)" "c \<in> set (map g fees)"
  shows "splice_one (js_indexOf (map g fees) c) fees = filter (\<lambda>f. g f \<noteq> c) fees"
    and "splice_one (js_indexOf (map g fees) c) (map g fees) = map g (filter (\<lambda>f. g f \<noteq> c) fees)"
proof -
  have "\<exists>n. js_indexOf (map g fees) c = Some n \<and> take n fees @ drop (Suc n) fees = filter (\<lambda>f. g f \<noteq> c) fees"
    using assms
  proof (induction fees)
    case (Cons f fees)
    show ?case
    proof (cases "g f = c")
      case True
      then have "filter (\<lambda>f. g f \<noteq> c) fees = fees" using Cons.prems(1) by (auto simp: filter_id_conv rev_image_eqI)
      then show ?thesis using True by simp
    next
      case False
      then show ?thesis using Cons by auto
    qed
  qed simp
  then obtain n where n: "js_indexOf (map g fees) c = Some n" "take n fees @ drop (Suc n) fees = filter (\<lambda>f. g f \<noteq> c) fees"
    by blast
  then show "splice_one (js_indexOf (map g fees) c) fees = filter (\<lambda>f. g f \<noteq> c) fees"
    by (simp add: splice_one_def)
  show "splice_one (js_indexOf (map g fees) c) (map g fees) = map g (filter (\<lambda>f. g f \<noteq> c) fees)"
    unfolding n(2) [symmetric] by (simp add: splice_one_def n(1) take_map drop_map)
qed

lemma remaining_fees:
  assumes "distinct (map serialize_fee fees)" "distinct chosen" "set chosen \<subseteq> set (map serialize_fee fees)"
  shows "getRemainingFees fees (getSerializedFees fees) chosen = filter (\<lambda>f. serialize_fee f \<notin> set chosen) fees"
  using assms
proof (induction chosen arbitrary: fees)
  case (Cons c cs)
  let ?rest = "filter (\<lambda>f. serialize_fee f \<noteq> c) fees"
  have "getRemainingFees fees (getSerializedFees fees) (c # cs) = getRemainingFees ?rest (getSerializedFees ?rest) cs"
    using splice_at [of serialize_fee fees c] Cons.prems by (simp add: getSerializedFees_def)
  also have "\<dots> = filter (\<lambda>f. serialize_fee f \<notin> set cs) ?rest"
  proof (rule Cons.IH)
    have "set (map serialize_fee ?rest) = set (map serialize_fee fees) - {c}" by auto
    then show "set cs \<subseteq> set (map serialize_fee ?rest)" using Cons.prems(2,3) by auto
  qed (use Cons.prems in \<open>simp_all add: distinct_map_filter\<close>)
  finally show ?case by (simp add: conj_commute)
qed simp


definition sample_fee :: "string \<Rightarrow> request_fee" where
  "sample_fee mx =
     \<lparr>rf_collectorId = ''0.0.8'', rf_collectorsExempt = True, rf_decimals = 2, rf_amount = None,
      rf_tokenIdCollected = None, rf_amountNumerator = Some ''1'', rf_amountDenominator = ''4'',
      rf_percentage = ''25'', rf_min = ''0'', rf_max = mx, rf_net = True\<rparr>"


text \<open>
  A fraction is shown by its percentage with two decimals, so that different fees may have one line: then the first of
  them is removed, whichever is ticked.
\<close>

lemma equal_lines_remove_first:
  assumes "serialize_fee f = serialize_fee g"
  shows "getRemainingFees [f, g] (getSerializedFees [f, g]) (ticked [False, True] (getSerializedFees [f, g])) = [g]"
  using assms by (simp add: getSerializedFees_def splice_one_def)


section \<open>Allowances and roles\<close>

lemma grant_token: "validate (GrantMultiRolesRequest V coin ts roles am d) (Some ''tokenId'') = [] \<longleftrightarrow> account_ok coin"
  by (simp add: GrantMultiRolesRequest_def field_ok request_engine id_ok)

lemma bindD_same: "m a = m b \<Longrightarrow> bindD m f a = bindD m f b"
  by (simp add: bindD_def)

lemma bindD_done: "m a = ([], Done x rest) \<Longrightarrow> bindD m f a = f x rest"
  by (simp add: bindD_def)

lemma zero_answer:
  assumes "0 < n" "validate (req (ts @ [t]) as) (Some ''targetsId'') = []"
    and "validate (req (ts @ [t]) (as @ [''0''])) (Some ''amounts'') = []"
  shows "getAccounts n True req ts as (ALine t # AConfirm False # ALine ''0'' # rest) =
    getAccounts n True req ts as (ALine t # AConfirm True # rest)"
  using assms by (cases n) (simp_all add: run_dialog)

text \<open>
  Property C33. An account that grants the cash-in role with the allowance zero, the default of the question, grants
  it without a limit: from the same state the dialog makes the same calls as when the user chooses no limit.
\<close>

theorem zero_allowance_unlimited:
  assumes "fixed_number_api (rl_lib (ce_lib E))" "account_ok target"
    and "CASHIN_ROLE \<in> set (ticked bs (rolesAvailable caps (Some ks)))" "account_ok coin"
  shows "grantRoles E coin caps ks (ATicks bs # ALine target # AConfirm False # ALine ''0'' # rest) =
    grantRoles E coin caps ks (ATicks bs # ALine target # AConfirm True # rest)"
proof -
  let ?roles = "ticked bs (rolesAvailable caps (Some ks))"
  have roles: "?roles \<noteq> []" using assms(3) by auto
  have "targets_ok [target]" using assms(2) by (simp add: targets_ok_def)
  then have "getAccounts MAX_ACCOUNTS_ROLES True
        (\<lambda>ts as. GrantMultiRolesRequest (ce_lib E) coin ts ?roles (Some as) None) [] []
        (ALine target # AConfirm False # ALine ''0'' # rest) =
      getAccounts MAX_ACCOUNTS_ROLES True
        (\<lambda>ts as. GrantMultiRolesRequest (ce_lib E) coin ts ?roles (Some as) None) [] []
        (ALine target # AConfirm True # rest)"
    unfolding MAX_ACCOUNTS_ROLES_def
    by (intro zero_answer) (simp_all add: grant_fields zero_allowance [OF assms(1)])
  note same = this
  have first_answer: "bindD (checkBoxMultipleAsk (rolesAvailable caps (Some ks)) True) f (ATicks bs # r) = f ?roles r"
    for r and f :: "stable_coin_role list \<Rightarrow> screen dialog"
    using roles by (intro bindD_done) simp
  show ?thesis
    unfolding grantRoles_def Let_def validateTokenId_def
    by (simp only: grant_token assms(3,4) if_True first_answer simp_thms) (rule bindD_same, rule same)
qed

text \<open>The capabilities of an account that may cash in through the contract.\<close>

definition cash_in_capabilities :: stable_coin_capabilities where
  "cash_in_capabilities =
     \<lparr>caps_coin = admin_coin, caps_capabilities = [cap CONTRACT CASH_IN], caps_account = sample_account ''a1''\<rparr>"

lemma cash_in_available: "rolesAvailable cash_in_capabilities (Some [TK_supply]) = [CASHIN_ROLE]"
  by (simp add: rolesAvailable_def rolesAvailability_def operations_of_def cash_in_capabilities_def)

theorem zero_allowance_unlimited_witness:
  "grantRoles cli_sample ''0.0.9'' cash_in_capabilities [TK_supply]
     [ATicks [True], ALine ''0.0.8'', AConfirm False, ALine ''0'', AConfirm False, AConfirm True] =
   grantRoles cli_sample ''0.0.9'' cash_in_capabilities [TK_supply]
     [ATicks [True], ALine ''0.0.8'', AConfirm True, AConfirm False, AConfirm True]"
  using zero_allowance_unlimited [of cli_sample "''0.0.8''" "[True]" cash_in_capabilities "[TK_supply]" "''0.0.9''"]
    exact.fixed_number_api_axioms sample_accounts_ok
  by (simp add: cash_in_available ticked_def sample_lib_def)

lemma no_choice: "snd (checkBoxMultipleAsk [] True answers) = Waiting"
  by (induction "[] :: 'a list" True answers rule: checkBoxMultipleAsk.induct)
    (auto simp: ticked_def split: answer.splits prod.splits)

text \<open>
  A dialog without a way out. On a deleted coin whose admin key is not the contract, the option to grant
  roles is offered to the administrator, but it has no role to choose from, and the list of checkboxes asks again and again.
\<close>

theorem grant_on_deleted_coin_waits:
  assumes "getCapabilities get account target p d = Inr caps" "is_deleted (caps_coin caps) d"
    and "KeysAssignedToContract caps = Inr ks" "ks \<noteq> []" "TK_admin \<notin> set ks"
    and "DEFAULT_ADMIN_ROLE \<in> set roles" "account_ok coin"
  shows "OptGrant \<in> set (roleManagementOptions caps roles ks) \<and> rolesAvailable caps (Some ks) = [] \<and>
    snd (grantRoles E coin caps ks answers) = Waiting"
proof -
  have list: "caps_capabilities caps = capability_list (caps_coin caps) account p d"
    using assms(1) by (cases "case target of TargetCoin c \<Rightarrow> Inr c | TargetId i \<Rightarrow> get i") (auto simp: getCapabilities_def)
  have ops: "set (operations_of caps) = set MANAGEMENT_OPERATIONS"
    using assms(2) by (auto simp: operations_of_cap list capability_list_iff Let_def)
  have none: "rolesAvailable caps (Some ks) = []"
    using assms(5) by (simp add: rolesAvailable_def rolesAvailability_def ops MANAGEMENT_OPERATIONS_def)
  have "snd (grantRoles E coin caps ks answers) = Waiting"
    unfolding grantRoles_def Let_def none validateTokenId_def
    by (simp add: grant_token assms(7) bindD_parts no_choice)
  then show ?thesis using none assms(4,6) by (simp add: roleManagementOptions_def role_options_def)
qed

definition deleted_coin :: stable_coin where
  "deleted_coin = (minimal_props ''Coin'' ''C'' 6)
     \<lparr>sc_deleted := Some True, sc_proxyAddress := Some (HederaId ''0.0.5''),
      sc_supplyKey := Some (KeyContract (ContractId ''0.0.5''))\<rparr>"

theorem grant_on_deleted_coin_waits_witness:
  "\<exists>caps. getCapabilities (\<lambda>_. Inl TypeError) (sample_account ''a1'') (TargetCoin deleted_coin) None None = Inr caps \<and>
     OptGrant \<in> set (roleManagementOptions caps [DEFAULT_ADMIN_ROLE] [TK_supply]) \<and>
     snd (grantRoles cli_sample ''0.0.9'' caps [TK_supply] [ATicks []]) = Waiting"
proof -
  obtain caps where caps: "getCapabilities (\<lambda>_. Inl TypeError) (sample_account ''a1'') (TargetCoin deleted_coin) None None = Inr caps"
    and coin: "caps_coin caps = deleted_coin" by (simp add: getCapabilities_def)
  have keys: "KeysAssignedToContract caps = Inr [TK_supply]"
    by (simp add: KeysAssignedToContract_def key_of_contract_def coin deleted_coin_def minimal_props_def)
  show ?thesis
    using grant_on_deleted_coin_waits [OF caps _ keys, where roles = "[DEFAULT_ADMIN_ROLE]" and coin = "''0.0.9''"
        and E = cli_sample and answers = "[ATicks []]"] caps sample_accounts_ok
    by (auto simp: is_deleted_def coin deleted_coin_def)
qed

end
