(* ===== verification/Cli_Create.thy ===== *)
theory Cli_Create
  imports Cli_Update
begin

text \<open>
  The creation of a stablecoin from the command line (\<open>CreateStableCoinService\<close>): the wizard that collects the
  request, and the calls after it.
\<close>

section \<open>The account of the session\<close>

datatype account_type = SELF_CUSTODIAL | FIREBLOCKS | DFNS | MULTI_SIGNATURE | AWSKMS

text \<open>
  The configured account: its type, whether the part of its configuration for that type is there, the public key
  of a custodial account with its type, and the private key of the others. The configured factory and resolver, and
  those that the SDK has. \<open>parseFloat\<close> of the language, \<open>None\<close> for \<open>NaN\<close>. The identifier of the coin that a creation
  gives.
\<close>

record create_env =
  cw_cli :: cli_env
  cw_type :: account_type
  cw_configured :: bool
  cw_custodialKey :: "request_key option"
  cw_privateKey :: "(string \<times> string) option"
  cw_factory :: string
  cw_resolver :: string
  cw_sdkFactory :: string
  cw_sdkResolver :: string
  cw_parseFloat :: "string \<Rightarrow> rat option"
  cw_created :: "request \<Rightarrow> string result"

text \<open>\<open>isAccountConfigValid\<close>: the table of the checks has no entry for an account of several keys.\<close>

definition isAccountConfigValid :: "create_env \<Rightarrow> bool result" where
  "isAccountConfigValid E =
     (case cw_type E of MULTI_SIGNATURE \<Rightarrow> Inl TypeError | _ \<Rightarrow> Inr (cw_configured E))"

section \<open>Questions of the wizard\<close>

definition field_errors :: "create_env \<Rightarrow> string \<Rightarrow> create_request \<Rightarrow> validation_response list" where
  "field_errors E field r = validate (CreateRequest (ce_lib (cw_cli E)) r) (Some field)"

definition ask_create :: "create_env \<Rightarrow> (string \<Rightarrow> create_request) \<Rightarrow> string \<Rightarrow> create_request dialog" where
  "ask_create E set_field field = cli_handleValidation (line set_field) (field_errors E field)"

definition ask_create_number :: "create_env \<Rightarrow> (int \<Rightarrow> create_request) \<Rightarrow> string \<Rightarrow> create_request dialog" where
  "ask_create_number E set_field field =
     cli_handleValidation (\<lambda>a. map_option set_field (whole (cw_cli E) a)) (field_errors E field)"

text \<open>
  The decimals: the setter reads the answer with \<open>parseFloat\<close>, the validation wants a whole number. Negative
  numbers, which pass, are outside of the model.
\<close>

definition decimals_answer :: "create_env \<Rightarrow> answer \<Rightarrow> rat option option" where
  "decimals_answer E a = Option.bind (line (cw_parseFloat E) a)
     (\<lambda>n. case n of None \<Rightarrow> Some None | Some q \<Rightarrow> if q < 0 then None else Some (Some q))"

definition checkInteger :: "rat option \<Rightarrow> validation_response list" where
  "checkInteger n =
     (case n of
        Some q \<Rightarrow> if q = of_int \<lfloor>q\<rfloor> then [] else [(''decimals'', [RequestError (InvalidType ''a fraction'')])]
      | None \<Rightarrow> [(''decimals'', [RequestError (InvalidType ''NaN'')])])"

definition ask_decimals :: "create_env \<Rightarrow> create_request \<Rightarrow> create_request dialog" where
  "ask_decimals E r =
     bindD (cli_handleValidation (decimals_answer E) checkInteger)
       (\<lambda>n. retD (r\<lparr>rc_decimals := (case n of None \<Rightarrow> 0 | Some q \<Rightarrow> nat \<lfloor>q\<rfloor>)\<rparr>))"

definition selectResolverConfiguration :: "create_env \<Rightarrow> create_request \<Rightarrow> create_request dialog" where
  "selectResolverConfiguration E r =
     bindD (ask_create E (\<lambda>s. r\<lparr>rc_configId := s\<rparr>) ''configId'') (\<lambda>r.
     ask_create_number E (\<lambda>n. r\<lparr>rc_configVersion := n\<rparr>) ''configVersion'')"

text \<open>The optional properties: decimals, kind of supply and maximum, initial supply, metadata.\<close>

definition optional_props :: "create_env \<Rightarrow> create_request \<Rightarrow> create_request dialog" where
  "optional_props E r =
     bindD defaultConfirmAsk (\<lambda>optionalProps.
     if \<not> optionalProps then retD r
     else bindD (ask_decimals E r) (\<lambda>r.
       bindD defaultConfirmAsk (\<lambda>infinite.
       let r = r\<lparr>rc_supplyType := Some (if infinite then INFINITE else FINITE), rc_maxSupply := None\<rparr>
       in bindD (if infinite then retD r else ask_create E (\<lambda>s. r\<lparr>rc_maxSupply := Some s\<rparr>) ''maxSupply'') (\<lambda>r.
          bindD (ask_create E (\<lambda>s. r\<lparr>rc_initialSupply := Some s\<rparr>) ''initialSupply'') (\<lambda>r.
          ask_create E (\<lambda>s. r\<lparr>rc_metadata := Some s\<rparr>) ''metadata'')))))"

section \<open>Keys\<close>

definition featureOptions :: "feature_option list" where
  "featureOptions = [SmartContractFeature, CurrentUserFeature, NoneFeature, OtherKeyFeature]"

text \<open>The key of the current user is configured for a custodial account; otherwise it comes from the private key.\<close>

definition create_checkAnswer :: "create_env \<Rightarrow> feature_option \<Rightarrow> request_key option dialog" where
  "create_checkAnswer E choice =
     (case choice of
        CurrentUserFeature \<Rightarrow>
          if cw_type E \<in> {FIREBLOCKS, DFNS, AWSKMS}
          then liftD (case cw_custodialKey E of None \<Rightarrow> Inl TypeError | Some k \<Rightarrow> Inr (Some k))
          else (case cw_privateKey E of
                  None \<Rightarrow> liftD (Inl TypeError)
                | Some k \<Rightarrow>
                    (let req = GetPublicKeyRequest (ce_lib (cw_cli E))
                           \<lparr>ra_accountId = ce_accountId (cw_cli E), ra_privateKey = Some k, ra_evmAddress = None\<rparr>
                     in bindD (sdk_call Account_getPublicKey req (ce_publicKey (cw_cli E) req)) (\<lambda>k. retD (Some k))))
      | OtherKeyFeature \<Rightarrow> bindD defaultPublicKeyAsk (\<lambda>k. retD (Some (k, None)))
      | NoneFeature \<Rightarrow> retD None
      | SmartContractFeature \<Rightarrow> retD (Some NullPublicKey))"

definition ask_key :: "create_env \<Rightarrow> feature_option list \<Rightarrow> request_key option dialog" where
  "ask_key E options = bindD (defaultMultipleAsk options) (create_checkAnswer E)"

definition configureManagedFeatures :: "create_env \<Rightarrow> create_request \<Rightarrow> create_request dialog" where
  "configureManagedFeatures E r =
     bindD (ask_key E featureOptions) (\<lambda>freezeKey.
     bindD (ask_key E featureOptions) (\<lambda>wipeKey.
     bindD (ask_key E featureOptions) (\<lambda>pauseKey.
     retD (r\<lparr>rc_freezeKey := freezeKey, rc_wipeKey := wipeKey, rc_pauseKey := pauseKey\<rparr>))))"

definition managed_features :: "create_env \<Rightarrow> create_request \<Rightarrow> create_request dialog" where
  "managed_features E r =
     bindD defaultConfirmAsk (\<lambda>managedBySC.
     if managedBySC
     then retD (r\<lparr>rc_freezeKey := Some NullPublicKey, rc_wipeKey := Some NullPublicKey, rc_pauseKey := Some NullPublicKey\<rparr>)
     else configureManagedFeatures E r)"

text \<open>The key of KYC, and whether the creator is granted KYC; the key of the fees.\<close>

definition kyc_key :: "create_env \<Rightarrow> create_request \<Rightarrow> (create_request \<times> bool) dialog" where
  "kyc_key E r =
     bindD defaultConfirmAsk (\<lambda>kyc.
     if \<not> kyc then retD (r, False)
     else bindD (ask_key E nonNoneFeatureOptions) (\<lambda>key.
       let r = r\<lparr>rc_kycKey := key\<rparr>
       in if key = Some NullPublicKey then bindD defaultConfirmAsk (\<lambda>grant. retD (r, grant)) else retD (r, False)))"

definition fee_key :: "create_env \<Rightarrow> create_request \<Rightarrow> create_request dialog" where
  "fee_key E r =
     bindD defaultConfirmAsk (\<lambda>customFees.
     if \<not> customFees then retD r
     else bindD (ask_key E nonNoneFeatureOptions) (\<lambda>key. retD (r\<lparr>rc_feeScheduleKey := key\<rparr>)))"

section \<open>Roles\<close>

datatype account_choice = CurrentAccount | OtherAccount | NoAccount

text \<open>The account of one role; the choice is also the result.\<close>

definition askForAccount ::
  "create_env \<Rightarrow> (string option \<Rightarrow> create_request \<Rightarrow> create_request) \<Rightarrow> string \<Rightarrow> create_request \<Rightarrow>
     (create_request \<times> account_choice) dialog" where
  "askForAccount E set_account field r =
     bindD (defaultMultipleAsk [CurrentAccount, OtherAccount, NoAccount]) (\<lambda>choice.
     case choice of
       CurrentAccount \<Rightarrow> retD (set_account (Some (ce_accountId (cw_cli E))) r, choice)
     | OtherAccount \<Rightarrow> bindD (ask_create E (\<lambda>s. set_account (Some s) r) field) (\<lambda>r. retD (r, choice))
     | NoAccount \<Rightarrow> retD (r, choice))"

definition assign_role ::
  "create_env \<Rightarrow> bool \<Rightarrow> (string option \<Rightarrow> create_request \<Rightarrow> create_request) \<Rightarrow> string \<Rightarrow> create_request \<Rightarrow>
     create_request dialog" where
  "assign_role E asked set_account field r =
     (if asked then bindD (askForAccount E set_account field r) (\<lambda>(r, _). retD r) else retD r)"

definition initialRoleAssignments :: "create_env \<Rightarrow> create_request \<Rightarrow> create_request dialog" where
  "initialRoleAssignments E r =
     bindD (assign_role E True (\<lambda>a. rc_burnRoleAccount_update (\<lambda>_. a)) ''burnRoleAccount'' r) (\<lambda>r.
     bindD (assign_role E (rc_wipeKey r = Some NullPublicKey)
       (\<lambda>a. rc_wipeRoleAccount_update (\<lambda>_. a)) ''wipeRoleAccount'' r) (\<lambda>r.
     bindD (assign_role E True (\<lambda>a. rc_rescueRoleAccount_update (\<lambda>_. a)) ''rescueRoleAccount'' r) (\<lambda>r.
     bindD (assign_role E (rc_pauseKey r = Some NullPublicKey)
       (\<lambda>a. rc_pauseRoleAccount_update (\<lambda>_. a)) ''pauseRoleAccount'' r) (\<lambda>r.
     bindD (assign_role E (rc_freezeKey r = Some NullPublicKey)
       (\<lambda>a. rc_freezeRoleAccount_update (\<lambda>_. a)) ''freezeRoleAccount'' r) (\<lambda>r.
     bindD (assign_role E True (\<lambda>a. rc_deleteRoleAccount_update (\<lambda>_. a)) ''deleteRoleAccount'' r) (\<lambda>r.
     bindD (assign_role E (rc_kycKey r = Some NullPublicKey)
       (\<lambda>a. rc_kycRoleAccount_update (\<lambda>_. a)) ''kycRoleAccount'' r) (\<lambda>r.
     bindD (assign_role E (rc_feeScheduleKey r = Some NullPublicKey)
       (\<lambda>a. rc_feeRoleAccount_update (\<lambda>_. a)) ''feeRoleAccount'' r) (\<lambda>r.
     bindD (askForAccount E (\<lambda>a. rc_cashInRoleAccount_update (\<lambda>_. a)) ''cashInRoleAccount'' r) (\<lambda>(r, choice).
     bindD (if choice = NoAccount then retD r
            else ask_create E (\<lambda>s. r\<lparr>rc_cashInRoleAllowance := Some s\<rparr>) ''cashInRoleAllowance'') (\<lambda>r.
     assign_role E True (\<lambda>a. rc_holdCreatorRoleAccount_update (\<lambda>_. a)) ''holdCreatorRoleAccount'' r))))))))))"

text \<open>Without an assignment the current account has the roles of the contract.\<close>

definition default_roles :: "string \<Rightarrow> create_request \<Rightarrow> create_request" where
  "default_roles account r =
     r\<lparr>rc_burnRoleAccount := Some account, rc_deleteRoleAccount := Some account, rc_cashInRoleAccount := Some account,
       rc_cashInRoleAllowance := Some ''0'', rc_rescueRoleAccount := Some account,
       rc_wipeRoleAccount := (if rc_wipeKey r = Some NullPublicKey then Some account else rc_wipeRoleAccount r),
       rc_pauseRoleAccount := (if rc_pauseKey r = Some NullPublicKey then Some account else rc_pauseRoleAccount r),
       rc_freezeRoleAccount := (if rc_freezeKey r = Some NullPublicKey then Some account else rc_freezeRoleAccount r),
       rc_kycRoleAccount := (if rc_kycKey r = Some NullPublicKey then Some account else rc_kycRoleAccount r),
       rc_feeRoleAccount := (if rc_feeScheduleKey r = Some NullPublicKey then Some account else rc_feeRoleAccount r),
       rc_holdCreatorRoleAccount := Some account\<rparr>"

definition create_roles :: "create_env \<Rightarrow> create_request \<Rightarrow> create_request dialog" where
  "create_roles E r =
     bindD defaultConfirmAsk (\<lambda>changeRoleAssignment.
     if changeRoleAssignment then initialRoleAssignments E r else retD (default_roles (ce_accountId (cw_cli E)) r))"

section \<open>Reserve\<close>

definition configureReserve :: "create_env \<Rightarrow> bool \<Rightarrow> create_request \<Rightarrow> create_request dialog" where
  "configureReserve E existingReserve r =
     (if existingReserve then ask_create E (\<lambda>s. r\<lparr>rc_reserveAddress := Some s\<rparr>) ''reserveAddress''
      else let r = r\<lparr>rc_createReserve := True\<rparr>
        in bindD (ask_create E (\<lambda>s. r\<lparr>rc_reserveConfigId := Some s\<rparr>) ''reserveConfigId'') (\<lambda>r.
           bindD (ask_create_number E (\<lambda>n. r\<lparr>rc_reserveConfigVersion := Some n\<rparr>) ''reserveConfigVersion'') (\<lambda>r.
           ask_create E (\<lambda>s. r\<lparr>rc_reserveInitialAmount := Some s\<rparr>) ''reserveInitialAmount'')))"

definition create_reserve :: "create_env \<Rightarrow> create_request \<Rightarrow> create_request dialog" where
  "create_reserve E r =
     bindD defaultConfirmAsk (\<lambda>wanted.
     if \<not> wanted then retD r else bindD defaultConfirmAsk (\<lambda>existing. configureReserve E existing r))"

section \<open>The wizard\<close>

definition new_creation :: "string \<Rightarrow> create_request" where
  "new_creation account =
     \<lparr>rc_name = [], rc_symbol = [], rc_decimals = 6, rc_initialSupply = None, rc_maxSupply = None,
      rc_freezeDefault = None, rc_freezeKey = None, rc_kycKey = None, rc_wipeKey = None, rc_pauseKey = None,
      rc_feeScheduleKey = None, rc_supplyType = None, rc_stableCoinFactory = None, rc_reserveAddress = None,
      rc_updatedAtThreshold = None, rc_reserveInitialAmount = None, rc_reserveConfigId = None,
      rc_reserveConfigVersion = None, rc_createReserve = False, rc_grantKYCToOriginalSender = None,
      rc_burnRoleAccount = None, rc_wipeRoleAccount = None, rc_rescueRoleAccount = None, rc_pauseRoleAccount = None,
      rc_freezeRoleAccount = None, rc_deleteRoleAccount = None, rc_kycRoleAccount = None, rc_cashInRoleAccount = None,
      rc_feeRoleAccount = None, rc_holdCreatorRoleAccount = None, rc_cashInRoleAllowance = None, rc_metadata = None,
      rc_proxyOwnerAccount = Some account, rc_configId = [], rc_configVersion = 1\<rparr>"

text \<open>One round of the wizard; \<open>None\<close> when the user does not confirm, and the wizard begins again.\<close>

definition wizardCreateStableCoin :: "create_env \<Rightarrow> (create_request \<times> bool) option dialog" where
  "wizardCreateStableCoin E =
     (let r = new_creation (ce_accountId (cw_cli E))
      in bindD (ask_create E (\<lambda>s. r\<lparr>rc_name := s\<rparr>) ''name'') (\<lambda>r.
         bindD (ask_create E (\<lambda>s. r\<lparr>rc_symbol := s\<rparr>) ''symbol'') (\<lambda>r.
         bindD (selectResolverConfiguration E r) (\<lambda>r.
         bindD (optional_props E r) (\<lambda>r.
         bindD (managed_features E r) (\<lambda>r.
         bindD (kyc_key E r) (\<lambda>(r, grantKYC).
         bindD (fee_key E r) (\<lambda>r.
         bindD (create_roles E r) (\<lambda>r.
         bindD (create_reserve E r) (\<lambda>r.
         let r = r\<lparr>rc_stableCoinFactory := Some (cw_factory E)\<rparr>
         in bindD defaultConfirmAsk (\<lambda>confirmed. retD (if confirmed then Some (r, grantKYC) else None))))))))))))"

text \<open>
  The creation: the wizard, the configuration of the account and of the SDK, the call, the association of the
  account, and the grant of KYC. No error is caught here. An account whose configuration is missing begins the
  configuration of the command line, which is not followed.
\<close>

definition createStableCoin :: "create_env \<Rightarrow> string option dialog" where
  "createStableCoin E =
     bindD (wizardCreateStableCoin E) (\<lambda>res.
     case res of
       None \<Rightarrow> retD None
     | Some (r, grantKYC) \<Rightarrow>
         (let V = ce_lib (cw_cli E); account = ce_accountId (cw_cli E);
              config = SetConfigurationRequest V (cw_factory E) (cw_resolver E);
              req = CreateRequest V r
          in bindD (liftD (isAccountConfigValid E)) (\<lambda>valid.
             if \<not> valid then (\<lambda>answers. ([], Waiting))
             else bindD (if cw_factory E \<noteq> cw_sdkFactory E \<or> cw_resolver E \<noteq> cw_sdkResolver E
                         then run_sdk (cw_cli E) Network_setConfig config else retD ()) (\<lambda>_.
               bindD (sdk_call StableCoin_create req (cw_created E req)) (\<lambda>token.
               bindD (run_sdk (cw_cli E) StableCoin_associate (AssociateTokenRequest account token)) (\<lambda>_.
               bindD (if grantKYC then run_sdk (cw_cli E) StableCoin_grantKyc (KYCRequest V account token None)
                      else retD ()) (\<lambda>_. retD (Some token))))))))"

end
