(* ===== verification/Cli_Config.thy ===== *)
theory Cli_Config
  imports Cli_Create Cli_Multisig
begin

text \<open>
  The configuration of the command line and the dialogs that write it (\<open>cli/src/app/service/configuration\<close>). The file
  is the configuration that was written last; the objects of the configuration that the services share are parts of
  one record.
\<close>

section \<open>The configuration\<close>

text \<open>A mirror node or a JSON-RPC relay; they have the same fields.\<close>

record node_config =
  nd_name :: string
  nd_network :: string
  nd_baseUrl :: string
  nd_apiKey :: "string option"
  nd_headerName :: "string option"
  nd_selected :: bool

record fireblocks_config =
  fb_apiSecretKeyPath :: string
  fb_apiKey :: string
  fb_baseUrl :: string
  fb_assetId :: string
  fb_vaultAccountId :: string
  fb_hederaAccountPublicKey :: string

record dfns_config =
  df_authorizationToken :: string
  df_credentialId :: string
  df_privateKeyPath :: string
  df_appOrigin :: string
  df_appId :: string
  df_testUrl :: string
  df_walletId :: string
  df_hederaAccountPublicKey :: string
  df_hederaAccountKeyType :: string

record awskms_config =
  aw_accessKeyId :: string
  aw_secretAccessKey :: string
  aw_region :: string
  aw_kmsKeyId :: string
  aw_hederaAccountPublicKey :: string

text \<open>An account; the private key is a key and its type, an imported token its identifier and its symbol.\<close>

record account_config =
  ca_accountId :: string
  ca_type :: account_type
  ca_network :: string
  ca_alias :: string
  ca_importedTokens :: "(string \<times> string) list option"
  ca_selfCustodial :: "(string \<times> string) option"
  ca_fireblocks :: "fireblocks_config option"
  ca_dfns :: "dfns_config option"
  ca_awsKms :: "awskms_config option"

record network_config =
  nf_name :: string
  nf_chainId :: "rat option"
  nf_consensusNodes :: "(string \<times> string) list"

text \<open>Factories and resolvers are a network and an identifier. \<open>cf_backend\<close> is the endpoint.\<close>

record cli_configuration =
  cf_defaultNetwork :: string
  cf_networks :: "network_config list"
  cf_accounts :: "account_config list"
  cf_mirrors :: "node_config list"
  cf_rpcs :: "node_config list"
  cf_backend :: "string option"
  cf_factories :: "(string \<times> string) list"
  cf_resolvers :: "(string \<times> string) list"

text \<open>
  What the dialogs ask of the language and the machine: \<open>Number\<close>, the parser of URLs (\<open>None\<close> when it throws), whether
  a file exists, whether a path has a valid configuration, and the configuration that comes with the program.
\<close>

record config_env =
  ge_number :: "string \<Rightarrow> rat option"
  ge_url :: "string \<Rightarrow> string option"
  ge_exists :: "string \<Rightarrow> bool"
  ge_validPath :: "string \<Rightarrow> bool"
  ge_default :: cli_configuration

section \<open>Questions that are asked again\<close>

text \<open>A line is asked for until \<open>check\<close> gives \<open>None\<close>; the errors that it gives otherwise are shown.\<close>

fun ask_until :: "(string \<Rightarrow> js_error list option) \<Rightarrow> string dialog" where
  "ask_until check [] = ([], Waiting)"
| "ask_until check (a # rest) =
     (case line (\<lambda>s. s) a of
        None \<Rightarrow> ([], Waiting)
      | Some s \<Rightarrow>
          (case check s of
             None \<Rightarrow> ([], Done s rest)
           | Some es \<Rightarrow> (let (ev, r) = ask_until check rest in (map EError es @ ev, r))))"

text \<open>A second condition on an answer that has been given.\<close>

definition ask_again :: "(string \<Rightarrow> js_error list option) \<Rightarrow> string \<Rightarrow> string dialog" where
  "ask_again check s =
     (case check s of None \<Rightarrow> retD s | Some es \<Rightarrow> bindD (showD es) (\<lambda>_. ask_until check))"

definition silently :: "(string \<Rightarrow> bool) \<Rightarrow> string \<Rightarrow> js_error list option" where
  "silently ok s = (if ok s then None else Some [])"

definition telling :: "string \<Rightarrow> (string \<Rightarrow> bool) \<Rightarrow> string \<Rightarrow> js_error list option" where
  "telling message ok s = (if ok s then None else Some [JsError message])"

text \<open>
  \<open>while (more) ...\<close>: every round reads an answer, so that the number of answers is enough fuel.
\<close>

fun roundsD :: "nat \<Rightarrow> ('s \<Rightarrow> ('s \<times> bool) dialog) \<Rightarrow> 's \<Rightarrow> 's dialog" where
  "roundsD 0 f s = (\<lambda>_. ([], Waiting))"
| "roundsD (Suc n) f s = bindD (f s) (\<lambda>(s', more). if more then roundsD n f s' else retD s')"

definition loopD :: "('s \<Rightarrow> ('s \<times> bool) dialog) \<Rightarrow> 's \<Rightarrow> 's dialog" where
  "loopD f s answers = roundsD (Suc (length answers)) f s answers"

section \<open>Patterns\<close>

definition is_alnum :: "char \<Rightarrow> bool" where
  "is_alnum c \<longleftrightarrow> is_digit c \<or> is_lower c \<or> is_upper c"

definition is_lower_hex :: "char \<Rightarrow> bool" where
  "is_lower_hex c \<longleftrightarrow> is_hex c \<and> \<not> is_upper c"

definition is_slug :: "char \<Rightarrow> bool" where
  "is_slug c \<longleftrightarrow> is_digit c \<or> is_lower c"

text \<open>A pattern without anchors: it may begin anywhere.\<close>

definition anywhere :: "(string \<Rightarrow> bool) \<Rightarrow> string \<Rightarrow> bool" where
  "anywhere p s \<longleftrightarrow> list_ex (\<lambda>i. p (drop i s)) [0..<Suc (length s)]"

text \<open>The prefix of a length, all of a kind.\<close>

definition run :: "nat \<Rightarrow> (char \<Rightarrow> bool) \<Rightarrow> string \<Rightarrow> bool" where
  "run n p s \<longleftrightarrow> n \<le> length s \<and> list_all p (take n s)"

text \<open>\<open>/^(http(s)?:\/\/.)[-a-zA-Z0-9@:%._+~#=]{2,256}((\.[a-z]{2,6})?)\b([-a-zA-Z0-9@:%_+.~#?&//=]*)$/\<close>\<close>

definition host_char :: "char \<Rightarrow> bool" where
  "host_char c \<longleftrightarrow> is_alnum c \<or> c \<in> set ''-@:%._+~#=''"

definition path_char :: "char \<Rightarrow> bool" where
  "path_char c \<longleftrightarrow> is_alnum c \<or> c \<in> set ''-@:%_+.~#?&/=''"

definition is_word :: "char \<Rightarrow> bool" where
  "is_word c \<longleftrightarrow> is_alnum c \<or> c = CHR ''_''"

definition word_boundary :: "string \<Rightarrow> nat \<Rightarrow> bool" where
  "word_boundary s i \<longleftrightarrow>
     (0 < i \<and> i \<le> length s \<and> is_word (s ! (i - 1))) \<noteq> (i < length s \<and> is_word (s ! i))"

definition domain_end :: "string \<Rightarrow> nat \<Rightarrow> nat \<Rightarrow> bool" where
  "domain_end s i k \<longleftrightarrow> k = 0 \<or>
     (3 \<le> k \<and> k \<le> 7 \<and> i + k \<le> length s \<and> s ! i = CHR ''.'' \<and> run (k - 1) is_lower (drop (Suc i) s))"

definition URL_REG_EXP :: "string \<Rightarrow> bool" where
  "URL_REG_EXP s \<longleftrightarrow>
     list_ex (\<lambda>p. js_startsWith s p \<and>
        (let r = drop (length p) s
         in r \<noteq> [] \<and> hd r \<notin> {CHR 0x0A, CHR 0x0D} \<and>
            list_ex (\<lambda>n. run n host_char (tl r) \<and>
              list_ex (\<lambda>k. domain_end r (Suc n) k \<and> word_boundary r (Suc n + k) \<and>
                list_all path_char (drop (Suc n + k) r)) [0..<8])
              [2..<min 257 (length r)]))
       [''http://'', ''https://'']"

text \<open>\<open>/^(http|https):\/\/[-a-zA-Z0-9+&@#/%?=~_|!:,.;]*[-a-zA-Z0-9+&@#/%=~_|]$/\<close>\<close>

definition url_pattern :: "string \<Rightarrow> bool" where
  "url_pattern s \<longleftrightarrow>
     list_ex (\<lambda>p. js_startsWith s p \<and>
        (let r = drop (length p) s
         in r \<noteq> [] \<and> list_all (\<lambda>c. is_alnum c \<or> c \<in> set ''-+&@#/%?=~_|!:,.;'') r \<and>
            (is_alnum (last r) \<or> last r \<in> set ''-+&@#/%=~_|'')))
       [''http://'', ''https://'']"

text \<open>\<open>/[0-9a-f]{8}-[0-9a-f]{4}-[0-9a-f]{4}-[0-9a-f]{4}-[0-9a-f]{12}/\<close>\<close>

definition uuid_pattern :: "string \<Rightarrow> bool" where
  "uuid_pattern = anywhere (\<lambda>s. 36 \<le> length s \<and>
     list_all (\<lambda>(i, c). if i \<in> {8, 13, 18, 23} then c = CHR ''-'' else is_lower_hex c) (zip [0..<36] s))"

text \<open>\<open>/[0-9a-f]{64}/\<close>, \<open>/[a-zA-Z0-9]{42}$/\<close>, \<open>/^(\/[^/ ]*)+\/?$/\<close>\<close>

definition publicKey_pattern :: "string \<Rightarrow> bool" where
  "publicKey_pattern = anywhere (run 64 is_lower_hex)"

definition credentialId_pattern :: "string \<Rightarrow> bool" where
  "credentialId_pattern s \<longleftrightarrow> run 42 is_alnum (rev s)"

definition path_pattern :: "string \<Rightarrow> bool" where
  "path_pattern s \<longleftrightarrow> s \<noteq> [] \<and> hd s = CHR ''/'' \<and> CHR '' '' \<notin> set s"

text \<open>\<open>/ap-[a-z0-9]+-[a-z0-9]+-[a-z0-9]+/\<close>, and the same with \<open>wa\<close>.\<close>

definition slugs_pattern :: "string \<Rightarrow> string \<Rightarrow> bool" where
  "slugs_pattern p = anywhere (\<lambda>s. js_startsWith s (p @ ''-'') \<and>
     (let a = drop (length p + 1) s; b = dropWhile is_slug a; c = dropWhile is_slug (tl b)
      in run 1 is_slug a \<and> b \<noteq> [] \<and> hd b = CHR ''-'' \<and> run 1 is_slug (tl b) \<and>
         c \<noteq> [] \<and> hd c = CHR ''-'' \<and> run 1 is_slug (tl c)))"

section \<open>Mirror nodes and relays\<close>

definition HEDERA_MIRROR_NODE_NAME :: string where "HEDERA_MIRROR_NODE_NAME = ''HEDERA''"

definition HEDERA_RPC_NAME :: string where "HEDERA_RPC_NAME = ''HASHIO''"

definition getDefaultMirrorByNetwork :: "string \<Rightarrow> node_config" where
  "getDefaultMirrorByNetwork network =
     \<lparr>nd_name = HEDERA_MIRROR_NODE_NAME, nd_network = network,
      nd_baseUrl =
        (if network = ''previewnet'' then ''https://previewnet.mirrornode.hedera.com/api/v1/''
         else if network = ''mainnet'' then ''https://mainnet-public.mirrornode.hedera.com/api/v1/''
         else ''https://testnet.mirrornode.hedera.com/api/v1/''),
      nd_apiKey = None, nd_headerName = None, nd_selected = True\<rparr>"

definition getDefaultRPCByNetwork :: "string \<Rightarrow> node_config" where
  "getDefaultRPCByNetwork network =
     \<lparr>nd_name = HEDERA_RPC_NAME, nd_network = network,
      nd_baseUrl =
        (if network = ''previewnet'' then ''https://previewnet.hashio.io/api''
         else if network = ''mainnet'' then ''https://mainnet.hashio.io/api''
         else ''https://testnet.hashio.io/api''),
      nd_apiKey = None, nd_headerName = None, nd_selected = True\<rparr>"

definition name_used :: "node_config list \<Rightarrow> string \<Rightarrow> string \<Rightarrow> bool" where
  "name_used nodes network name \<longleftrightarrow> (\<exists>n \<in> set nodes. nd_name n = name \<and> nd_network n = network)"

definition isValidMirrorNode :: "node_config list \<Rightarrow> string \<Rightarrow> string \<Rightarrow> js_error list option" where
  "isValidMirrorNode mirrors network baseUrl =
     (if \<not> URL_REG_EXP baseUrl then Some [JsError ''wrongFormatUrl'']
      else if \<exists>n \<in> set mirrors. nd_network n = network \<and> nd_baseUrl n = baseUrl
      then Some [JsError ''duplicatedMirrorUrl''] else None)"

definition isValidRPC :: "node_config list \<Rightarrow> string \<Rightarrow> string \<Rightarrow> js_error list option" where
  "isValidRPC rpcs network baseUrl =
     (if \<not> URL_REG_EXP baseUrl then Some [JsError ''wrongFormatUrl'']
      else if \<exists>n \<in> set rpcs. nd_network n = network \<and> nd_baseUrl n = baseUrl
      then Some [JsError ''duplicatedRPCUrl''] else None)"

text \<open>The key of a node that is added: two empty strings without one.\<close>

definition ask_node_key :: "(string \<times> string) dialog" where
  "ask_node_key =
     bindD defaultConfirmAsk (\<lambda>addKey.
     if addKey then bindD defaultSingleAsk (\<lambda>k. bindD defaultSingleAsk (\<lambda>h. retD (k, h))) else retD ([], []))"

text \<open>The url of a mirror is compared with the mirrors of every network after its format has been looked at.\<close>

definition configureMirrorNode :: "string \<Rightarrow> cli_configuration \<Rightarrow> cli_configuration dialog" where
  "configureMirrorNode network = loopD (\<lambda>cfg.
     let mirrors = cf_mirrors cfg
     in bindD (ask_until (telling ''nameAlreadyInUse'' (\<lambda>name. \<not> name_used mirrors network name))) (\<lambda>name.
        bindD (ask_until (isValidMirrorNode mirrors network)) (\<lambda>url.
        bindD (ask_again (telling ''baseUrlAlreadyInUse'' (\<lambda>u. u \<notin> nd_baseUrl ` set mirrors)) url) (\<lambda>url.
        bindD ask_node_key (\<lambda>(apiKey, headerName).
        let node = \<lparr>nd_name = name, nd_network = network, nd_baseUrl = url, nd_apiKey = Some apiKey,
                    nd_headerName = Some headerName, nd_selected = False\<rparr>
        in bindD defaultConfirmAsk (\<lambda>more. retD (cfg\<lparr>cf_mirrors := mirrors @ [node]\<rparr>, more)))))))"

definition configureRPC :: "string \<Rightarrow> cli_configuration \<Rightarrow> cli_configuration dialog" where
  "configureRPC network = loopD (\<lambda>cfg.
     let rpcs = cf_rpcs cfg
     in bindD (ask_until (telling ''duplicatedRPCName'' (\<lambda>name. \<not> name_used rpcs network name))) (\<lambda>name.
        bindD (ask_until (isValidRPC rpcs network)) (\<lambda>url.
        bindD ask_node_key (\<lambda>(apiKey, headerName).
        let node = \<lparr>nd_name = name, nd_network = network, nd_baseUrl = url, nd_apiKey = Some apiKey,
                    nd_headerName = Some headerName, nd_selected = False\<rparr>
        in bindD defaultConfirmAsk (\<lambda>more. retD (cfg\<lparr>cf_rpcs := rpcs @ [node]\<rparr>, more))))))"

text \<open>The nodes of a network lose the selection.\<close>

definition deselect :: "(node_config \<Rightarrow> bool) \<Rightarrow> node_config list \<Rightarrow> node_config list" where
  "deselect p nodes = map (\<lambda>n. if p n then n\<lparr>nd_selected := False\<rparr> else n) nodes"

text \<open>
  The first configuration of the nodes: a new list. The url is compared without the slash that it is stored with;
  the key is asked for with a line each.
\<close>

definition first_node ::
  "(node_config list \<Rightarrow> string \<Rightarrow> string \<Rightarrow> js_error list option) \<Rightarrow> string \<Rightarrow> network_config list \<Rightarrow>
     node_config list \<Rightarrow> (node_config list \<times> bool) dialog" where
  "first_node valid message networks nodes =
     bindD (defaultMultipleAsk (map nf_name networks)) (\<lambda>network.
     bindD (ask_until (telling message (\<lambda>name. \<not> name_used nodes network name))) (\<lambda>name.
     bindD (ask_until (valid nodes network)) (\<lambda>url.
     bindD defaultConfirmAsk (\<lambda>hasKey.
     bindD (if hasKey then bindD defaultSingleAsk (\<lambda>k. bindD defaultSingleAsk (\<lambda>h. retD (Some k, Some h)))
            else retD (None, None)) (\<lambda>(apiKey, headerName).
     bindD defaultConfirmAsk (\<lambda>selected.
     let node = \<lparr>nd_name = name, nd_network = network,
                 nd_baseUrl = (if url \<noteq> [] \<and> last url = CHR ''/'' then url else url @ ''/''),
                 nd_apiKey = apiKey, nd_headerName = headerName, nd_selected = selected\<rparr>;
         others = (if selected then deselect (\<lambda>n. nd_network n = network) nodes else nodes)
     in bindD defaultConfirmAsk (\<lambda>more. retD (others @ [node], more))))))))"

definition configureMirrors :: "cli_configuration \<Rightarrow> cli_configuration dialog" where
  "configureMirrors cfg =
     bindD (loopD (first_node isValidMirrorNode ''duplicatedMirrorName'' (cf_networks cfg)) []) (\<lambda>mirrors.
     retD (cfg\<lparr>cf_mirrors := mirrors\<rparr>))"

definition configureRPCs :: "cli_configuration \<Rightarrow> cli_configuration dialog" where
  "configureRPCs cfg =
     bindD (loopD (first_node isValidRPC ''duplicatedRPCName'' (cf_networks cfg)) []) (\<lambda>rpcs.
     retD (cfg\<lparr>cf_rpcs := rpcs\<rparr>))"

definition configureDefaultMirrorsAndRPCs :: "cli_configuration \<Rightarrow> cli_configuration" where
  "configureDefaultMirrorsAndRPCs cfg =
     cfg\<lparr>cf_mirrors := map getDefaultMirrorByNetwork [''testnet'', ''previewnet'', ''mainnet''],
         cf_rpcs := map getDefaultRPCByNetwork [''testnet'', ''previewnet'', ''mainnet'']\<rparr>"

section \<open>Strings that the menus take apart\<close>

text \<open>\<open>s.split(sep)\<close> for a separator that is not empty.\<close>

fun split_str :: "string \<Rightarrow> string \<Rightarrow> string list" where
  "split_str sep [] = [[]]"
| "split_str sep (c # s) =
     (if js_startsWith (c # s) sep then [] # split_str sep (drop (length sep - 1) s)
      else case split_str sep s of [] \<Rightarrow> [[c]] | w # ws \<Rightarrow> (c # w) # ws)"

definition js_trim :: "string \<Rightarrow> string" where
  "js_trim s = rev (dropWhile is_blank (rev (dropWhile is_blank s)))"

text \<open>\<open>name (network)\<close>, and what \<open>split(' (')\<close> and \<open>split(')')\<close> read from it.\<close>

definition node_label :: "node_config \<Rightarrow> string" where
  "node_label n = nd_name n @ '' ('' @ nd_network n @ '')''"

definition read_label :: "string \<Rightarrow> string \<times> string" where
  "read_label label = (let ps = split_str '' ('' label in (ps ! 0, hd (js_split (CHR '')'') (ps ! 1))))"

text \<open>
  The removal of a node, of those of the network whose name is not the name of the current one. \<open>None\<close> is
  \<open>Go back\<close>.
\<close>

definition remove_node :: "node_config \<Rightarrow> string \<Rightarrow> node_config list \<Rightarrow> node_config list option dialog" where
  "remove_node current network nodes =
     (let options = filter (\<lambda>n. nd_name n \<noteq> nd_name current \<and> nd_network n = network) nodes
      in if options = [] then retD (Some nodes)
         else bindD (defaultMultipleAsk (with_back (map node_label options))) (\<lambda>choice.
           case choice of
             None \<Rightarrow> retD None
           | Some label \<Rightarrow>
               bindD defaultConfirmAsk (\<lambda>sure.
               let (name, net) = read_label label
               in retD (Some (if sure then filter (\<lambda>n. nd_name n \<noteq> name \<or> nd_network n \<noteq> net) nodes else nodes)))))"

definition removeMirrorNode ::
  "node_config \<Rightarrow> string \<Rightarrow> cli_configuration \<Rightarrow> cli_configuration option dialog" where
  "removeMirrorNode currentMirror network cfg =
     bindD (remove_node currentMirror network (cf_mirrors cfg)) (\<lambda>mirrors.
     retD (map_option (\<lambda>ms. cfg\<lparr>cf_mirrors := ms\<rparr>) mirrors))"

definition removeRPC :: "node_config \<Rightarrow> string \<Rightarrow> cli_configuration \<Rightarrow> cli_configuration option dialog" where
  "removeRPC currentRPC network cfg =
     bindD (remove_node currentRPC network (cf_rpcs cfg)) (\<lambda>rpcs.
     retD (map_option (\<lambda>rs. cfg\<lparr>cf_rpcs := rs\<rparr>) rpcs))"

text \<open>Showing the nodes deletes the keys that are empty from all of them.\<close>

definition maskMirrorNodes :: "node_config list \<Rightarrow> node_config list" where
  "maskMirrorNodes nodes =
     map (\<lambda>n. if nd_apiKey n = None \<or> nd_apiKey n = Some [] then n\<lparr>nd_apiKey := None, nd_headerName := None\<rparr> else n) nodes"

definition maskRPCs :: "node_config list \<Rightarrow> node_config list" where
  "maskRPCs nodes =
     map (\<lambda>n. if nd_apiKey n = None \<or> nd_apiKey n = Some [] then n\<lparr>nd_apiKey := None, nd_headerName := None\<rparr> else n) nodes"

section \<open>Accounts\<close>

definition account_types :: "account_type list" where
  "account_types = [SELF_CUSTODIAL, MULTI_SIGNATURE, FIREBLOCKS, DFNS, AWSKMS]"

definition askForAccountType :: "account_type dialog" where
  "askForAccountType = defaultMultipleAsk account_types"

definition askForPrivateKeyType :: "string dialog" where
  "askForPrivateKeyType = defaultMultipleAsk [''ED25519'', ''ECDSA'']"

text \<open>A key of 64 digits gets the prefix; the key and its type are asked for again until the length is possible.\<close>

definition askForPrivateKeyOfAccount :: "(string \<times> string) dialog" where
  "askForPrivateKeyOfAccount = loopD (\<lambda>_.
     bindD defaultSingleAsk (\<lambda>s.
     bindD askForPrivateKeyType (\<lambda>type.
     let key = (if length s = 64 then ''0x'' @ s else s)
     in if length key \<noteq> 96 \<and> length key \<noteq> 64 \<and> length key \<noteq> 66
        then bindD (showD [JsError ''Incorrect input, retrying'']) (\<lambda>_. retD (([], []), True))
        else retD ((key, type), False)))) ([], [])"

definition askForApiKey :: "string dialog" where
  "askForApiKey = ask_until (silently uuid_pattern)"

definition askForUrl :: "string dialog" where
  "askForUrl = ask_until (silently url_pattern)"

definition askForHederaAccountPublicKey :: "string dialog" where
  "askForHederaAccountPublicKey = ask_until (silently publicKey_pattern)"

definition askForDfnsCredentialId :: "string dialog" where
  "askForDfnsCredentialId = ask_until (silently credentialId_pattern)"

definition askForDfnsAppId :: "string dialog" where
  "askForDfnsAppId = ask_until (silently (slugs_pattern ''ap''))"

definition askForDfnsWalletId :: "string dialog" where
  "askForDfnsWalletId = ask_until (silently (slugs_pattern ''wa''))"

text \<open>
  The path of a file. The pattern is global and keeps where its last match ended: after a path that matches and
  does not exist (\<open>matched\<close>) the next test begins there, fails, and starts anew.
\<close>

fun askForFilePath :: "config_env \<Rightarrow> bool \<Rightarrow> string dialog" where
  "askForFilePath E matched [] = ([], Waiting)"
| "askForFilePath E matched (a # rest) =
     (case line (\<lambda>s. s) a of
        None \<Rightarrow> ([], Waiting)
      | Some s \<Rightarrow>
          (let matches = (\<not> matched \<and> path_pattern s)
           in if matches \<and> ge_exists E s then ([], Done s rest) else askForFilePath E matches rest))"

definition askForFireblocksOfAccount :: "config_env \<Rightarrow> fireblocks_config dialog" where
  "askForFireblocksOfAccount E =
     bindD (askForFilePath E False) (\<lambda>path.
     bindD askForApiKey (\<lambda>apiKey.
     bindD askForUrl (\<lambda>url.
     bindD defaultSingleAsk (\<lambda>assetId.
     bindD defaultSingleAsk (\<lambda>vaultAccountId.
     bindD askForHederaAccountPublicKey (\<lambda>publicKey.
     retD \<lparr>fb_apiSecretKeyPath = path, fb_apiKey = apiKey, fb_baseUrl = url, fb_assetId = assetId,
           fb_vaultAccountId = vaultAccountId, fb_hederaAccountPublicKey = publicKey\<rparr>))))))"

definition askForDfnsOfAccount :: "config_env \<Rightarrow> dfns_config dialog" where
  "askForDfnsOfAccount E =
     bindD defaultSingleAsk (\<lambda>token.
     bindD askForDfnsCredentialId (\<lambda>credentialId.
     bindD (askForFilePath E False) (\<lambda>path.
     bindD askForUrl (\<lambda>appOrigin.
     bindD askForDfnsAppId (\<lambda>appId.
     bindD askForUrl (\<lambda>testUrl.
     bindD askForDfnsWalletId (\<lambda>walletId.
     bindD askForHederaAccountPublicKey (\<lambda>publicKey.
     bindD askForPrivateKeyType (\<lambda>keyType.
     retD \<lparr>df_authorizationToken = token, df_credentialId = credentialId, df_privateKeyPath = path,
           df_appOrigin = appOrigin, df_appId = appId, df_testUrl = testUrl, df_walletId = walletId,
           df_hederaAccountPublicKey = publicKey, df_hederaAccountKeyType = keyType\<rparr>)))))))))"

definition askForAWSKMSAccountConfig :: "awskms_config dialog" where
  "askForAWSKMSAccountConfig =
     bindD defaultSingleAsk (\<lambda>accessKeyId.
     bindD defaultSingleAsk (\<lambda>secretAccessKey.
     bindD defaultSingleAsk (\<lambda>region.
     bindD defaultSingleAsk (\<lambda>kmsKeyId.
     bindD askForHederaAccountPublicKey (\<lambda>publicKey.
     retD \<lparr>aw_accessKeyId = accessKeyId, aw_secretAccessKey = secretAccessKey, aw_region = region,
           aw_kmsKeyId = kmsKeyId, aw_hederaAccountPublicKey = publicKey\<rparr>)))))"

text \<open>One account with the part of its configuration for its type.\<close>

definition ask_custodian :: "config_env \<Rightarrow> account_config \<Rightarrow> account_config dialog" where
  "ask_custodian E a =
     (case ca_type a of
        SELF_CUSTODIAL \<Rightarrow> bindD askForPrivateKeyOfAccount (\<lambda>k. retD (a\<lparr>ca_selfCustodial := Some k\<rparr>))
      | FIREBLOCKS \<Rightarrow> bindD (askForFireblocksOfAccount E) (\<lambda>c. retD (a\<lparr>ca_fireblocks := Some c\<rparr>))
      | DFNS \<Rightarrow> bindD (askForDfnsOfAccount E) (\<lambda>c. retD (a\<lparr>ca_dfns := Some c\<rparr>))
      | AWSKMS \<Rightarrow> bindD askForAWSKMSAccountConfig (\<lambda>c. retD (a\<lparr>ca_awsKms := Some c\<rparr>))
      | MULTI_SIGNATURE \<Rightarrow> retD a)"

definition ask_account :: "config_env \<Rightarrow> network_config list \<Rightarrow> account_config list \<Rightarrow> account_config dialog" where
  "ask_account E networks accounts =
     bindD (ask_until (telling ''wrongFormatAddress'' three_numbers)) (\<lambda>accountId.
     bindD askForAccountType (\<lambda>type.
     bindD (defaultMultipleAsk (map nf_name networks)) (\<lambda>network.
     bindD (ask_until (\<lambda>s. if s \<in> ca_alias ` set accounts then Some [JsError ''aliasAlreadyInUse'']
                           else silently (\<lambda>s. s \<noteq> []) s)) (\<lambda>alias.
     ask_custodian E
       \<lparr>ca_accountId = accountId, ca_type = type, ca_network = network, ca_alias = alias, ca_importedTokens = None,
        ca_selfCustodial = None, ca_fireblocks = None, ca_dfns = None, ca_awsKms = None\<rparr>))))"

text \<open>
  The accounts that the configuration comes with are given up when there is one only and it has an empty key or a
  custodian of the first two kinds.
\<close>

definition kept_accounts :: "account_config list \<Rightarrow> account_config list" where
  "kept_accounts accounts =
     (case accounts of
        [a] \<Rightarrow> if map_option fst (ca_selfCustodial a) = Some [] \<or> ca_fireblocks a \<noteq> None \<or> ca_dfns a \<noteq> None then [] else [a]
      | _ \<Rightarrow> accounts)"

definition configureAccounts :: "config_env \<Rightarrow> cli_configuration \<Rightarrow> cli_configuration dialog" where
  "configureAccounts E cfg =
     bindD (loopD (\<lambda>accounts.
       bindD (ask_account E (cf_networks cfg) accounts) (\<lambda>a.
       bindD defaultConfirmAsk (\<lambda>more. retD (accounts @ [a], more)))) (kept_accounts (cf_accounts cfg))) (\<lambda>accounts.
     retD (cfg\<lparr>cf_accounts := accounts\<rparr>))"

text \<open>
  The menu shows an account by \<open>account_label\<close>. The account that is deleted is read back from the label of the
  first option with the identifier of the chosen one, up to the first space of its alias.
\<close>

definition account_label :: "account_config \<Rightarrow> string" where
  "account_label a = ca_accountId a @ '' - '' @ ca_alias a @ '' ('' @ ca_network a @ '')''"

definition same_prefix :: "string \<Rightarrow> string \<Rightarrow> bool" where
  "same_prefix l1 l2 \<longleftrightarrow> js_trim (hd (js_split (CHR ''-'') l1)) = js_trim (hd (js_split (CHR ''-'') l2))"

definition delete_account :: "string list \<Rightarrow> string \<Rightarrow> account_config list \<Rightarrow> account_config list" where
  "delete_account options chosen accounts =
     (let account = hd (filter (\<lambda>l. same_prefix l chosen) options);
          accId = split_str '' - '' account ! 0;
          accAlias = hd (js_split (CHR '' '') (split_str '' - '' account ! 1))
      in filter (\<lambda>a. ca_accountId a \<noteq> accId \<or> ca_alias a \<noteq> accAlias) accounts)"

section \<open>Networks, factories, backend\<close>

definition configureCustomNetwork :: "config_env \<Rightarrow> string \<Rightarrow> cli_configuration \<Rightarrow> cli_configuration dialog" where
  "configureCustomNetwork E name cfg =
     bindD (loopD (\<lambda>nodes.
       bindD defaultSingleAsk (\<lambda>url.
       bindD defaultSingleAsk (\<lambda>nodeId.
       bindD defaultSingleAsk (\<lambda>response.
       retD (nodes @ [(url, nodeId)], response = ''y'' \<or> response = ''yes''))))) []) (\<lambda>nodes.
     bindD defaultSingleAsk (\<lambda>chainId.
     retD (cfg\<lparr>cf_networks := filter (\<lambda>n. nf_name n \<noteq> name) (cf_networks cfg) @
       [\<lparr>nf_name = name, nf_chainId = ge_number E chainId, nf_consensusNodes = nodes\<rparr>]\<rparr>)))"

text \<open>
  The default network. A name that stands for none and a custom network that the user does not want are asked for
  again; the fuel is the number of questions that remain.
\<close>

fun default_network ::
  "nat \<Rightarrow> config_env \<Rightarrow> string option \<Rightarrow> cli_configuration \<Rightarrow> (cli_configuration \<times> string) dialog" where
  "default_network 0 E given cfg = (\<lambda>_. ([], Waiting))"
| "default_network (Suc n) E given cfg =
     bindD (case given of Some s \<Rightarrow> retD s | None \<Rightarrow> defaultMultipleAsk (map nf_name (cf_networks cfg))) (\<lambda>network.
     bindD (if network = [] \<or> network = ''mainnet|previewnet|testnet|local''
            then bindD (showD [JsError ''Incorrect input, retrying'']) (\<lambda>_. default_network n E None cfg)
            else retD (cfg, network)) (\<lambda>(cfg, network).
     bindD (if network \<in> {''mainnet'', ''previewnet'', ''testnet'', ''local''} then retD (cfg, network)
            else bindD defaultSingleAsk (\<lambda>response.
              if response = ''y'' \<or> response = ''yes''
              then bindD (configureCustomNetwork E network cfg) (\<lambda>cfg. retD (cfg, network))
              else default_network n E None cfg)) (\<lambda>(cfg, network).
     retD (cfg\<lparr>cf_defaultNetwork := network\<rparr>, network))))"

text \<open>A network that is given and empty counts as none.\<close>

definition configureDefaultNetwork :: "config_env \<Rightarrow> string option \<Rightarrow> cli_configuration \<Rightarrow> cli_configuration dialog" where
  "configureDefaultNetwork E given cfg =
     bindD (\<lambda>answers. default_network (length answers + 2) E (if given = Some [] then None else given) cfg answers)
       (\<lambda>(cfg, _). retD cfg)"

text \<open>The factory and the resolver of the two test networks; those of every other network are forgotten.\<close>

definition ask_address :: "string dialog" where
  "ask_address = ask_until (telling ''wrongFormatAddress'' three_numbers)"

definition configureResolversAndFactories :: "cli_configuration \<Rightarrow> cli_configuration dialog" where
  "configureResolversAndFactories cfg =
     bindD ask_address (\<lambda>factory_testnet.
     bindD ask_address (\<lambda>resolver_testnet.
     bindD ask_address (\<lambda>factory_previewnet.
     bindD ask_address (\<lambda>resolver_previewnet.
     retD (cfg\<lparr>cf_factories := [(''testnet'', factory_testnet), (''previewnet'', factory_previewnet)],
               cf_resolvers := [(''testnet'', resolver_testnet), (''previewnet'', resolver_previewnet)]\<rparr>)))))"

definition DEFAULT_BACKEND_ENDPOINT :: string where
  "DEFAULT_BACKEND_ENDPOINT = ''http://localhost:3000/api/transactions''"

text \<open>An endpoint is asked for at most five times; then the configured one or the default is read.\<close>

fun try_endpoints :: "nat \<Rightarrow> config_env \<Rightarrow> string option dialog" where
  "try_endpoints 0 E = retD None"
| "try_endpoints (Suc n) E =
     bindD defaultSingleAsk (\<lambda>s.
     case ge_url E s of
       Some url \<Rightarrow> retD (Some url)
     | None \<Rightarrow> bindD (showD [JsError ''Incorrect input, retrying'']) (\<lambda>_. try_endpoints n E))"

definition setBackendEndpoint :: "config_env \<Rightarrow> cli_configuration \<Rightarrow> cli_configuration dialog" where
  "setBackendEndpoint E cfg =
     bindD (try_endpoints 5 E) (\<lambda>endpoint.
     bindD (case endpoint of
              Some url \<Rightarrow> retD url
            | None \<Rightarrow>
                (case ge_url E (case cf_backend cfg of
                           Some e \<Rightarrow> if e = [] then DEFAULT_BACKEND_ENDPOINT else e
                         | None \<Rightarrow> DEFAULT_BACKEND_ENDPOINT) of
                   Some url \<Rightarrow> retD url
                 | None \<Rightarrow> throwD TypeError)) (\<lambda>url.
     retD (cfg\<lparr>cf_backend := Some url\<rparr>)))"

section \<open>The first configuration\<close>

text \<open>
  The path, given or asked for. Without a valid configuration there the one of the program is taken; a user who
  does not want it leaves the program.
\<close>

definition configurePath :: "config_env \<Rightarrow> string option \<Rightarrow> cli_configuration \<Rightarrow> cli_configuration dialog" where
  "configurePath E path cfg =
     bindD (case path of Some p \<Rightarrow> if p = [] then defaultSingleAsk else retD p | None \<Rightarrow> defaultSingleAsk) (\<lambda>p.
     if ge_validPath E p then retD cfg
     else bindD defaultConfirmAsk (\<lambda>createAuto. if createAuto then retD (ge_default E) else (\<lambda>_. ([], Waiting))))"

definition initConfiguration ::
  "config_env \<Rightarrow> string option \<Rightarrow> string option \<Rightarrow> cli_configuration \<Rightarrow> cli_configuration dialog" where
  "initConfiguration E path network cfg =
     bindD (configurePath E path cfg) (\<lambda>cfg.
     bindD (configureDefaultNetwork E network cfg) (\<lambda>cfg.
     bindD (configureAccounts E cfg) (\<lambda>cfg.
     bindD defaultConfirmAsk (\<lambda>resolvers.
     bindD (if resolvers then configureResolversAndFactories cfg else retD cfg) (\<lambda>cfg.
     bindD defaultConfirmAsk (\<lambda>defaults.
     bindD (if defaults then retD (configureDefaultMirrorsAndRPCs cfg)
            else bindD (configureMirrors cfg) configureRPCs) (\<lambda>cfg.
     bindD defaultConfirmAsk (\<lambda>backend.
     if backend then setBackendEndpoint E cfg else retD cfg))))))))"

end
