(* ===== verification/Cli_Wizard.thy ===== *)
theory Cli_Wizard
  imports Cli_Config
begin

text \<open>
  The menus of the command line outside of a coin (\<open>WizardService\<close>, \<open>NetworkWizardService\<close>,
  \<open>ManageImportedTokenService\<close> and the menus of the configuration): the current account and nodes, the screens, and
  what one choice does.
\<close>

section \<open>What is current\<close>

text \<open>The current objects of \<open>UtilitiesService\<close>.\<close>

record cli_current =
  cu_account :: "account_config option"
  cu_network :: "network_config option"
  cu_mirror :: "node_config option"
  cu_rpc :: "node_config option"
  cu_backend :: "string option"
  cu_factory :: "string option"
  cu_resolver :: "string option"

record wizard =
  wz_config :: cli_configuration
  wz_current :: cli_current

text \<open>
  The answers of the SDK to \<open>Network.setNetwork\<close>, \<open>Network.init\<close> and \<open>Network.connect\<close> for what is current, and the
  symbol of a coin. \<open>we_config\<close> is what the configuration asks for.
\<close>

record wizard_env =
  we_config :: config_env
  we_setNetwork :: "cli_current \<Rightarrow> unit result"
  we_init :: "cli_current \<Rightarrow> unit result"
  we_connect :: "cli_current \<Rightarrow> unit result"
  we_symbol :: "request \<Rightarrow> string result"

definition no_current :: cli_current where
  "no_current =
     \<lparr>cu_account = None, cu_network = None, cu_mirror = None, cu_rpc = None, cu_backend = None, cu_factory = None,
      cu_resolver = None\<rparr>"

text \<open>The getters throw when nothing is current.\<close>

definition getCurrentAccount :: "wizard \<Rightarrow> account_config result" where
  "getCurrentAccount s =
     (case cu_account (wz_current s) of None \<Rightarrow> Inl (JsError ''Account not initialized'') | Some a \<Rightarrow> Inr a)"

definition getCurrentNetwork :: "wizard \<Rightarrow> network_config result" where
  "getCurrentNetwork s =
     (case cu_network (wz_current s) of None \<Rightarrow> Inl (JsError ''Network not initialized'') | Some n \<Rightarrow> Inr n)"

definition getCurrentMirror :: "wizard \<Rightarrow> node_config result" where
  "getCurrentMirror s =
     (case cu_mirror (wz_current s) of None \<Rightarrow> Inl (JsError ''Mirror not initialized'') | Some m \<Rightarrow> Inr m)"

definition getCurrentRPC :: "wizard \<Rightarrow> node_config result" where
  "getCurrentRPC s =
     (case cu_rpc (wz_current s) of None \<Rightarrow> Inl (JsError ''JSON-RPC-Relay not initialized'') | Some r \<Rightarrow> Inr r)"

text \<open>What the account needs for its kind of wallet.\<close>

definition wallet_settings :: "config_env \<Rightarrow> account_config \<Rightarrow> unit result" where
  "wallet_settings E a =
     (case ca_type a of
        SELF_CUSTODIAL \<Rightarrow> if ca_selfCustodial a = None then Inl TypeError else Inr ()
      | FIREBLOCKS \<Rightarrow>
          (case ca_fireblocks a of
             None \<Rightarrow> Inl TypeError
           | Some c \<Rightarrow> if ge_exists E (fb_apiSecretKeyPath c) then Inr () else Inl (JsError ''no such file''))
      | DFNS \<Rightarrow>
          (case ca_dfns a of
             None \<Rightarrow> Inl (JsError ''DFNS settings are required'')
           | Some c \<Rightarrow>
               if df_privateKeyPath c = [] then Inl (JsError ''Private key path is required for DFNS'')
               else if ge_exists E (df_privateKeyPath c) then Inr ()
               else Inl (JsError ''Private key file does not exist''))
      | AWSKMS \<Rightarrow> if ca_awsKms a = None then Inl TypeError else Inr ()
      | MULTI_SIGNATURE \<Rightarrow> Inr ())"

definition initSDK :: "wizard_env \<Rightarrow> wizard \<Rightarrow> unit result" where
  "initSDK E s =
     bindR (getCurrentAccount s) (\<lambda>account.
     bindR (getCurrentNetwork s) (\<lambda>_.
     bindR (getCurrentMirror s) (\<lambda>_.
     bindR (getCurrentRPC s) (\<lambda>_.
     bindR (we_init E (wz_current s)) (\<lambda>_.
     bindR (wallet_settings (we_config E) account) (\<lambda>_.
     we_connect E (wz_current s)))))))"

text \<open>
  An account becomes current, with the network, the selected nodes, the factory and the resolver of its network. An
  account that is not found (\<open>None\<close>) is current, and undefined, when its network is read; a network that is not found is
  undefined when its name is read, after everything else has been set.
\<close>

definition setSelectedAccount :: "wizard_env \<Rightarrow> account_config option \<Rightarrow> wizard \<Rightarrow> wizard \<times> unit result" where
  "setSelectedAccount E account s =
     (let cfg = wz_config s
      in case account of
           None \<Rightarrow> (s\<lparr>wz_current := (wz_current s)\<lparr>cu_account := None\<rparr>\<rparr>, Inl TypeError)
         | Some a \<Rightarrow>
             (let selected = find (\<lambda>n. ca_network a = nd_network n \<and> nd_selected n);
                  s' = s\<lparr>wz_current :=
                    \<lparr>cu_account = Some a, cu_network = find (\<lambda>n. ca_network a = nf_name n) (cf_networks cfg),
                     cu_mirror = selected (cf_mirrors cfg), cu_rpc = selected (cf_rpcs cfg),
                     cu_backend = cf_backend cfg, cu_factory = map_of (cf_factories cfg) (ca_network a),
                     cu_resolver = map_of (cf_resolvers cfg) (ca_network a)\<rparr>\<rparr>
              in (s', if cu_network (wz_current s') = None then Inl TypeError else we_setNetwork E (wz_current s'))))"

text \<open>The account with the identifier of a label, up to its first \<open> - \<close>.\<close>

definition find_account :: "string \<Rightarrow> account_config list \<Rightarrow> account_config option" where
  "find_account label accounts = find (\<lambda>a. ca_accountId a = split_str '' - '' label ! 0) accounts"

definition chooseAccount :: "wizard_env \<Rightarrow> string option \<Rightarrow> wizard \<Rightarrow> (wizard \<times> unit result) dialog" where
  "chooseAccount E network s =
     (let accounts = cf_accounts (wz_config s);
          here = (case network of
                    None \<Rightarrow> accounts
                  | Some n \<Rightarrow> if n = [] then accounts else filter (\<lambda>a. ca_network a = n) accounts);
          shown = (if here = [] then accounts else here)
      in bindD (defaultMultipleAsk (map account_label shown)) (\<lambda>label.
         retD (setSelectedAccount E (find_account label accounts) s)))"

definition chooseLastAccount :: "wizard_env \<Rightarrow> wizard \<Rightarrow> wizard \<times> unit result" where
  "chooseLastAccount E s =
     (let accounts = cf_accounts (wz_config s)
      in setSelectedAccount E (if accounts = [] then None else Some (last accounts)) s)"

text \<open>
  An account is chosen until the SDK can be initialised with it; only the errors of the initialisation are caught.
\<close>

definition chooseUntilInit :: "wizard_env \<Rightarrow> string option \<Rightarrow> wizard \<Rightarrow> (wizard \<times> unit result) dialog" where
  "chooseUntilInit E network s =
     loopD (\<lambda>(s, _).
       bindD (chooseAccount E network s) (\<lambda>(s, r).
       case r of
         Inl e \<Rightarrow> retD ((s, Inl e), False)
       | Inr _ \<Rightarrow> retD ((s, Inr ()), case initSDK E s of Inl _ \<Rightarrow> True | Inr _ \<Rightarrow> False))) (s, Inr ())"

section \<open>The selected nodes\<close>

fun select_first :: "(node_config \<Rightarrow> bool) \<Rightarrow> node_config list \<Rightarrow> node_config list" where
  "select_first p [] = []"
| "select_first p (n # ns) = (if p n then n\<lparr>nd_selected := True\<rparr> # ns else n # select_first p ns)"

definition select_node :: "string \<Rightarrow> string \<Rightarrow> node_config list \<Rightarrow> node_config list" where
  "select_node network name nodes =
     deselect (\<lambda>n. nd_network n = network \<and> nd_name n \<noteq> name)
       (select_first (\<lambda>n. nd_network n = network \<and> \<not> nd_selected n \<and> nd_name n = name) nodes)"

text \<open>
  Another node of the network is chosen; the result is whether there was one. \<open>Go back\<close> is looked for among the
  nodes and not found.
\<close>

definition chooseMirrorNodeNetwork :: "string \<Rightarrow> wizard \<Rightarrow> (wizard \<times> bool result) dialog" where
  "chooseMirrorNodeNetwork network s =
     (let cfg = wz_config s;
          selectedMirrors = filter (\<lambda>n. network = nd_network n \<and> \<not> nd_selected n) (cf_mirrors cfg)
      in case getCurrentMirror s of
           Inl e \<Rightarrow> retD (s, Inl e)
         | Inr currentMirror \<Rightarrow>
             if selectedMirrors = [] then retD (s, Inr False)
             else bindD (defaultMultipleAsk (with_back (map nd_name selectedMirrors))) (\<lambda>choice.
               case Option.bind choice (\<lambda>name. find (\<lambda>n. name = nd_name n) selectedMirrors) of
                 None \<Rightarrow> retD (s, Inl TypeError)
               | Some m \<Rightarrow>
                   (let s' = s\<lparr>wz_config := cfg\<lparr>cf_mirrors := select_node network (nd_name m) (cf_mirrors cfg)\<rparr>\<rparr>
                    in retD (if nd_network currentMirror = network
                             then s'\<lparr>wz_current := (wz_current s)\<lparr>cu_mirror := Some (m\<lparr>nd_selected := True\<rparr>)\<rparr>\<rparr>
                             else s', Inr True))))"

definition chooseRPCNetwork :: "string \<Rightarrow> wizard \<Rightarrow> (wizard \<times> bool result) dialog" where
  "chooseRPCNetwork network s =
     (let cfg = wz_config s;
          selectedRPCs = filter (\<lambda>n. network = nd_network n \<and> \<not> nd_selected n) (cf_rpcs cfg)
      in case getCurrentRPC s of
           Inl e \<Rightarrow> retD (s, Inl e)
         | Inr currentRPC \<Rightarrow>
             if selectedRPCs = [] then retD (s, Inr False)
             else bindD (defaultMultipleAsk (with_back (map nd_name selectedRPCs))) (\<lambda>choice.
               case Option.bind choice (\<lambda>name. find (\<lambda>n. name = nd_name n) selectedRPCs) of
                 None \<Rightarrow> retD (s, Inl TypeError)
               | Some m \<Rightarrow>
                   (let s' = s\<lparr>wz_config := cfg\<lparr>cf_rpcs := select_node network (nd_name m) (cf_rpcs cfg)\<rparr>\<rparr>
                    in retD (if nd_network currentRPC = network
                             then s'\<lparr>wz_current := (wz_current s)\<lparr>cu_rpc := Some (m\<lparr>nd_selected := True\<rparr>)\<rparr>\<rparr>
                             else s', Inr True))))"

text \<open>The last node of the list is selected, and the other nodes of the network lose the selection.\<close>

definition select_last :: "string \<Rightarrow> node_config list \<Rightarrow> node_config list" where
  "select_last network nodes =
     butlast (deselect (\<lambda>n. nd_network n = network) nodes) @ [(last nodes)\<lparr>nd_selected := True\<rparr>]"

definition setLastMirrorNodeAsSelected :: "string \<Rightarrow> wizard \<Rightarrow> wizard" where
  "setLastMirrorNodeAsSelected network s =
     s\<lparr>wz_config := (wz_config s)\<lparr>cf_mirrors := select_last network (cf_mirrors (wz_config s))\<rparr>\<rparr>"

definition chooseLastMirrorNode :: "string \<Rightarrow> wizard \<Rightarrow> wizard" where
  "chooseLastMirrorNode network s =
     setLastMirrorNodeAsSelected network
       (s\<lparr>wz_current := (wz_current s)\<lparr>cu_mirror := Some ((last (cf_mirrors (wz_config s)))\<lparr>nd_selected := True\<rparr>)\<rparr>\<rparr>)"

definition setLastRPCAsSelected :: "string \<Rightarrow> wizard \<Rightarrow> wizard" where
  "setLastRPCAsSelected network s =
     s\<lparr>wz_config := (wz_config s)\<lparr>cf_rpcs := select_last network (cf_rpcs (wz_config s))\<rparr>\<rparr>"

definition chooseLastRPC :: "string \<Rightarrow> wizard \<Rightarrow> wizard" where
  "chooseLastRPC network s =
     setLastRPCAsSelected network
       (s\<lparr>wz_current := (wz_current s)\<lparr>cu_rpc := Some ((last (cf_rpcs (wz_config s)))\<lparr>nd_selected := True\<rparr>)\<rparr>\<rparr>)"

section \<open>Screens\<close>

datatype main_option = WzCreate | WzManage | WzOperate | WzList | WzListPendingMultiSig | WzConfiguration | WzExit

text \<open>
  The menus; \<open>WService\<close> is a part of the program that another theory models, or that only shows, and that leads back
  to the main menu.
\<close>

datatype wizard_screen =
    WMain
  | WConfiguration
  | WAccounts
  | WMirrors string
  | WRPCs string
  | WBackend
  | WImported
  | WService main_option
  | WClosed

text \<open>A choice changes the state and leads to a screen, or it throws.\<close>

type_synonym menu_result = "wizard \<times> wizard_screen result"

definition with_config :: "wizard \<Rightarrow> wizard_screen \<Rightarrow> cli_configuration dialog \<Rightarrow> menu_result dialog" where
  "with_config s scr m = bindD m (\<lambda>cfg. retD (s\<lparr>wz_config := cfg\<rparr>, Inr scr))"

text \<open>The getters that a menu calls before it is shown.\<close>

definition header :: "wizard \<Rightarrow> account_config result" where
  "header s = bindR (getCurrentAccount s) (\<lambda>a. bindR (getCurrentMirror s) (\<lambda>_. bindR (getCurrentRPC s) (\<lambda>_. Inr a)))"

definition shown :: "wizard \<Rightarrow> (account_config \<Rightarrow> menu_result dialog) \<Rightarrow> menu_result dialog" where
  "shown s m = (case header s of Inl e \<Rightarrow> retD (s, Inl e) | Inr a \<Rightarrow> m a)"

text \<open>The SDK is initialised again, and the main menu comes.\<close>

definition init_then_main :: "wizard_env \<Rightarrow> wizard \<Rightarrow> menu_result" where
  "init_then_main E s = (s, bindR (initSDK E s) (\<lambda>_. Inr WMain))"

datatype node_option = NodeChange | NodeList | NodeAdd | NodeDelete | NodeBack

definition node_options :: "node_option list" where
  "node_options = [NodeChange, NodeList, NodeAdd, NodeDelete, NodeBack]"

definition manageMirrorNodeMenu :: "wizard_env \<Rightarrow> string \<Rightarrow> wizard \<Rightarrow> menu_result dialog" where
  "manageMirrorNodeMenu E network s = shown s (\<lambda>currentAccount.
     let cfg = wz_config s; here = WMirrors network
     in bindD (defaultMultipleAsk node_options) (\<lambda>opt.
     case opt of
       NodeChange \<Rightarrow>
         bindD (chooseMirrorNodeNetwork network s) (\<lambda>(s, r).
         case r of
           Inl e \<Rightarrow> retD (s, Inl e)
         | Inr False \<Rightarrow> retD (s, Inr here)
         | Inr True \<Rightarrow>
             (case getCurrentMirror s of
                Inl e \<Rightarrow> retD (s, Inl e)
              | Inr m \<Rightarrow> retD (if nd_network m = network then init_then_main E s else (s, Inr WMain))))
     | NodeList \<Rightarrow> retD (s\<lparr>wz_config := cfg\<lparr>cf_mirrors := maskMirrorNodes (cf_mirrors cfg)\<rparr>\<rparr>, Inr here)
     | NodeAdd \<Rightarrow>
         bindD (configureMirrorNode network cfg) (\<lambda>cfg.
         bindD defaultConfirmAsk (\<lambda>yes.
         let s = s\<lparr>wz_config := cfg\<rparr>
         in retD (if \<not> yes then (s, Inr here)
                  else if network = ca_network currentAccount
                  then init_then_main E (chooseLastMirrorNode network s)
                  else (setLastMirrorNodeAsSelected network s, Inr here))))
     | NodeDelete \<Rightarrow>
         (case getCurrentMirror s of
            Inl e \<Rightarrow> retD (s, Inl e)
          | Inr m \<Rightarrow>
              bindD (removeMirrorNode m network cfg) (\<lambda>res.
              retD (case res of None \<Rightarrow> s | Some cfg \<Rightarrow> s\<lparr>wz_config := cfg\<rparr>, Inr here)))
     | NodeBack \<Rightarrow> retD (s, Inr WConfiguration)))"

definition manageRPCMenu :: "wizard_env \<Rightarrow> string \<Rightarrow> wizard \<Rightarrow> menu_result dialog" where
  "manageRPCMenu E network s = shown s (\<lambda>currentAccount.
     let cfg = wz_config s; here = WRPCs network
     in bindD (defaultMultipleAsk node_options) (\<lambda>opt.
     case opt of
       NodeChange \<Rightarrow>
         (case getCurrentRPC s of
            Inl e \<Rightarrow> retD (s, Inl e)
          | Inr currentRPC \<Rightarrow>
              bindD (chooseRPCNetwork network s) (\<lambda>(s, r).
              case r of
                Inl e \<Rightarrow> retD (s, Inl e)
              | Inr False \<Rightarrow> retD (s, Inr here)
              | Inr True \<Rightarrow> retD (if nd_network currentRPC = network then init_then_main E s else (s, Inr WMain))))
     | NodeList \<Rightarrow> retD (s\<lparr>wz_config := cfg\<lparr>cf_rpcs := maskRPCs (cf_rpcs cfg)\<rparr>\<rparr>, Inr here)
     | NodeAdd \<Rightarrow>
         bindD (configureRPC network cfg) (\<lambda>cfg.
         bindD defaultConfirmAsk (\<lambda>yes.
         let s = s\<lparr>wz_config := cfg\<rparr>
         in retD (if \<not> yes then (s, Inr here)
                  else if network = ca_network currentAccount
                  then init_then_main E (chooseLastRPC network s)
                  else (setLastRPCAsSelected network s, Inr here))))
     | NodeDelete \<Rightarrow>
         (case getCurrentRPC s of
            Inl e \<Rightarrow> retD (s, Inl e)
          | Inr m \<Rightarrow>
              bindD (removeRPC m network cfg) (\<lambda>res.
              retD (case res of None \<Rightarrow> s | Some cfg \<Rightarrow> s\<lparr>wz_config := cfg\<rparr>, Inr here)))
     | NodeBack \<Rightarrow> retD (s, Inr WConfiguration)))"

section \<open>Accounts\<close>

datatype account_option = AccountChange | AccountList | AccountAdd | AccountDelete | AccountBack

definition account_options :: "account_option list" where
  "account_options = [AccountChange, AccountList, AccountAdd, AccountDelete, AccountBack]"

definition manageAccountMenu :: "wizard_env \<Rightarrow> wizard \<Rightarrow> menu_result dialog" where
  "manageAccountMenu E s =
     (case getCurrentAccount s of
        Inl e \<Rightarrow> retD (s, Inl e)
      | Inr currentAccount \<Rightarrow>
          bindD (defaultMultipleAsk account_options) (\<lambda>opt.
          case opt of
            AccountChange \<Rightarrow>
              bindD (chooseUntilInit E None s) (\<lambda>(s, r). retD (s, bindR r (\<lambda>_. Inr WMain)))
          | AccountList \<Rightarrow> retD (s, Inr WAccounts)
          | AccountAdd \<Rightarrow>
              bindD (configureAccounts (we_config E) (wz_config s)) (\<lambda>cfg.
              bindD defaultConfirmAsk (\<lambda>operate.
              let s = s\<lparr>wz_config := cfg\<rparr>
              in retD (if \<not> operate then (s, Inr WAccounts)
                       else (let (s, r) = chooseLastAccount E s
                             in (s, bindR r (\<lambda>_. bindR (initSDK E s) (\<lambda>_. Inr WMain)))))))
          | AccountDelete \<Rightarrow>
              (let accounts = cf_accounts (wz_config s);
                   options = map account_label (filter (\<lambda>a. ca_accountId a \<noteq> ca_accountId currentAccount \<or>
                     ca_alias a \<noteq> ca_alias currentAccount) accounts)
               in bindD (defaultMultipleAsk (with_back options)) (\<lambda>choice.
                  retD (case choice of
                      None \<Rightarrow> s
                    | Some label \<Rightarrow>
                        s\<lparr>wz_config := (wz_config s)\<lparr>cf_accounts := delete_account options label accounts\<rparr>\<rparr>,
                    Inr WAccounts)))
          | AccountBack \<Rightarrow> retD (s, Inr WConfiguration)))"

section \<open>Imported tokens\<close>

text \<open>The tokens are written to the accounts of the configuration with the alias and the identifier of the current one.\<close>

definition updateAccount :: "account_config \<Rightarrow> (string \<times> string) list \<Rightarrow> wizard \<Rightarrow> wizard" where
  "updateAccount current tokens s =
     s\<lparr>wz_config := (wz_config s)\<lparr>cf_accounts :=
         map (\<lambda>a. if ca_alias a = ca_alias current \<and> ca_accountId a = ca_accountId current
              then a\<lparr>ca_importedTokens := Some tokens\<rparr> else a) (cf_accounts (wz_config s))\<rparr>,
       wz_current := (wz_current s)\<lparr>cu_account := Some (current\<lparr>ca_importedTokens := Some tokens\<rparr>)\<rparr>\<rparr>"

definition token_label :: "string \<times> string \<Rightarrow> string" where
  "token_label t = fst t @ '' - '' @ snd t"

definition token_of_label :: "string \<Rightarrow> string" where
  "token_of_label label = split_str '' - '' label ! 0"

datatype token_menu_option = TokenAdd | TokenRefresh | TokenRemove | TokenBack

definition token_menu_options :: "token_menu_option list" where
  "token_menu_options = [TokenAdd, TokenRefresh, TokenRemove, TokenBack]"

text \<open>
  The identifier of a token to import is validated; one that is imported already is asked for again without
  validation. \<open>Refresh\<close> writes the tokens as they are.
\<close>

definition add_token :: "wizard_env \<Rightarrow> account_config \<Rightarrow> wizard \<Rightarrow> menu_result dialog" where
  "add_token E a s =
     (let imported = (case ca_importedTokens a of None \<Rightarrow> [] | Some ts \<Rightarrow> ts)
      in bindD (ask_field (GetRolesRequest (ca_accountId a)) ''tokenId'') (\<lambda>i.
         bindD (ask_again (telling ''importedTokenAlreadyAdded'' (\<lambda>i. i \<notin> fst ` set imported)) i) (\<lambda>i.
         let req = GetStableCoinDetailsRequest i
         in bindD (\<lambda>answers. ([ECall StableCoin_getInfo req], Done (we_symbol E req) answers)) (\<lambda>r.
            case r of
              Inl e \<Rightarrow> retD (s, Inl e)
            | Inr symbol \<Rightarrow> retD (updateAccount a (imported @ [(i, symbol)]) s, Inr WImported)))))"

definition manageImportedTokens :: "wizard_env \<Rightarrow> wizard \<Rightarrow> menu_result dialog" where
  "manageImportedTokens E s =
     (case getCurrentAccount s of
        Inl e \<Rightarrow> retD (s, Inl e)
      | Inr a \<Rightarrow>
          bindD (defaultMultipleAsk token_menu_options) (\<lambda>opt.
          case opt of
            TokenAdd \<Rightarrow> add_token E a s
          | TokenRefresh \<Rightarrow>
              (case ca_importedTokens a of
                 None \<Rightarrow> retD (s, Inl TypeError)
               | Some [] \<Rightarrow> retD (s, Inr WImported)
               | Some ts \<Rightarrow>
                   bindD (defaultMultipleAsk (with_back (map token_label ts))) (\<lambda>choice.
                   retD (if choice = None then s else updateAccount a ts s, Inr WImported)))
          | TokenRemove \<Rightarrow>
              (case ca_importedTokens a of
                 None \<Rightarrow> retD (s, Inr WImported)
               | Some [] \<Rightarrow> retD (s, Inr WImported)
               | Some ts \<Rightarrow>
                   bindD (defaultMultipleAsk (with_back (map token_label ts))) (\<lambda>choice.
                   retD (case choice of
                       None \<Rightarrow> s
                     | Some label \<Rightarrow> updateAccount a (filter (\<lambda>t. fst t \<noteq> token_of_label label) ts) s,
                     Inr WImported)))
          | TokenBack \<Rightarrow> retD (s, Inr WMain)))"

section \<open>The backend, the configuration and the main menu\<close>

datatype backend_option = BackendUpdate | BackendRemove

definition setBackend :: "wizard \<Rightarrow> cli_configuration \<Rightarrow> wizard" where
  "setBackend s cfg = s\<lparr>wz_config := cfg, wz_current := (wz_current s)\<lparr>cu_backend := cf_backend cfg\<rparr>\<rparr>"

definition manageBackendMenu :: "wizard_env \<Rightarrow> wizard \<Rightarrow> menu_result dialog" where
  "manageBackendMenu E s =
     bindD (defaultMultipleAsk (with_back [BackendUpdate, BackendRemove])) (\<lambda>opt.
     case opt of
       Some BackendUpdate \<Rightarrow>
         tryD (bindD (setBackendEndpoint (we_config E) (wz_config s)) (\<lambda>cfg. retD (setBackend s cfg, Inr WConfiguration)))
           (\<lambda>e. retD (s, Inl e))
     | Some BackendRemove \<Rightarrow> retD (setBackend s ((wz_config s)\<lparr>cf_backend := None\<rparr>), Inr WConfiguration)
     | None \<Rightarrow> retD (s, Inr WConfiguration))"

datatype change_option =
    ChangeShow | ChangeEditPath | ChangeEditNetwork | ChangeManage | ChangeManageMirrorNode | ChangeManageRPC
  | ChangeManageBackend | ChangeFactoryAndResolver | ChangeReturn

definition changeOptions :: "change_option list" where
  "changeOptions =
     [ChangeShow, ChangeEditPath, ChangeEditNetwork, ChangeManage, ChangeManageMirrorNode, ChangeManageRPC,
      ChangeManageBackend, ChangeFactoryAndResolver, ChangeReturn]"

text \<open>The network whose nodes are managed.\<close>

definition configureNetwork :: "(string \<Rightarrow> wizard_screen) \<Rightarrow> wizard \<Rightarrow> menu_result dialog" where
  "configureNetwork menu s = shown s (\<lambda>_.
     bindD (defaultMultipleAsk (map nf_name (cf_networks (wz_config s)))) (\<lambda>network. retD (s, Inr (menu network))))"

definition configurationMenu :: "wizard_env \<Rightarrow> wizard \<Rightarrow> menu_result dialog" where
  "configurationMenu E s = shown s (\<lambda>_.
     let cfg = wz_config s
     in bindD (defaultMultipleAsk changeOptions) (\<lambda>opt.
     case opt of
       ChangeShow \<Rightarrow> retD (s, Inr WConfiguration)
     | ChangeEditPath \<Rightarrow> with_config s WConfiguration (configurePath (we_config E) None cfg)
     | ChangeEditNetwork \<Rightarrow> with_config s WConfiguration (configureDefaultNetwork (we_config E) None cfg)
     | ChangeManage \<Rightarrow> retD (s, Inr WAccounts)
     | ChangeManageMirrorNode \<Rightarrow> configureNetwork WMirrors s
     | ChangeManageRPC \<Rightarrow> configureNetwork WRPCs s
     | ChangeManageBackend \<Rightarrow> retD (s, Inr WBackend)
     | ChangeFactoryAndResolver \<Rightarrow> with_config s WConfiguration (configureResolversAndFactories cfg)
     | ChangeReturn \<Rightarrow> retD (s, Inr WMain)))"

definition mainOptions :: "main_option list" where
  "mainOptions = [WzCreate, WzManage, WzOperate, WzList, WzListPendingMultiSig, WzConfiguration, WzExit]"

text \<open>
  A creation without a factory for the network asks for the factories first; then the factory and the resolver of
  the network, or none, are current.
\<close>

definition mainMenu :: "wizard_env \<Rightarrow> wizard \<Rightarrow> menu_result dialog" where
  "mainMenu E s = shown s (\<lambda>currentAccount.
     bindD (defaultMultipleAsk mainOptions) (\<lambda>opt.
     case opt of
       WzCreate \<Rightarrow>
         if map_of (cf_factories (wz_config s)) (ca_network currentAccount) \<noteq> None then retD (s, Inr (WService WzCreate))
         else bindD defaultConfirmAsk (\<lambda>yes.
           if \<not> yes then retD (s, Inr WMain)
           else bindD (configureResolversAndFactories (wz_config s)) (\<lambda>cfg.
             retD (s\<lparr>wz_config := cfg, wz_current := (wz_current s)
                 \<lparr>cu_factory := map_of (cf_factories cfg) (ca_network currentAccount),
                  cu_resolver := map_of (cf_resolvers cfg) (ca_network currentAccount)\<rparr>\<rparr>,
               Inr (WService WzCreate))))
     | WzManage \<Rightarrow> retD (s, Inr WImported)
     | WzConfiguration \<Rightarrow> retD (s, Inr WConfiguration)
     | WzExit \<Rightarrow> retD (s, Inr WClosed)
     | _ \<Rightarrow> retD (s, Inr (WService opt))))"

section \<open>Sessions\<close>

definition wizard_menu :: "wizard_env \<Rightarrow> wizard_screen \<Rightarrow> wizard \<Rightarrow> menu_result dialog" where
  "wizard_menu E scr s =
     (case scr of
        WMain \<Rightarrow> mainMenu E s
      | WConfiguration \<Rightarrow> configurationMenu E s
      | WAccounts \<Rightarrow> manageAccountMenu E s
      | WMirrors network \<Rightarrow> manageMirrorNodeMenu E network s
      | WRPCs network \<Rightarrow> manageRPCMenu E network s
      | WBackend \<Rightarrow> manageBackendMenu E s
      | WImported \<Rightarrow> manageImportedTokens E s
      | WService _ \<Rightarrow> retD (s, Inr WMain)
      | WClosed \<Rightarrow> (\<lambda>answers. ([], Waiting)))"

text \<open>
  Every menu is called, directly or through others, from within the main menu, which catches what is thrown, shows
  it, waits for a key and begins again.
\<close>

definition wizard_turn :: "wizard_env \<Rightarrow> wizard_screen \<Rightarrow> wizard \<Rightarrow> (wizard \<times> wizard_screen) dialog" where
  "wizard_turn E scr s =
     bindD (wizard_menu E scr s) (\<lambda>(s', r).
     case r of
       Inr scr' \<Rightarrow> retD (s', scr')
     | Inl e \<Rightarrow> bindD (askErrorConfirmation e) (\<lambda>_. retD (s', WMain)))"

text \<open>
  The command \<open>wizard\<close>: an account of the default network is chosen and the SDK initialised with it. What is thrown
  outside of the initialisation ends the program.
\<close>

definition wizard_start :: "wizard_env \<Rightarrow> cli_configuration \<Rightarrow> wizard dialog" where
  "wizard_start E cfg =
     bindD (chooseUntilInit E (Some (cf_defaultNetwork cfg)) \<lparr>wz_config = cfg, wz_current = no_current\<rparr>) (\<lambda>(s, r).
     case r of Inl e \<Rightarrow> throwD e | Inr _ \<Rightarrow> retD s)"

text \<open>The states that turns lead to, each with any environment of \<open>W\<close>.\<close>

inductive wizard_steps :: "(wizard_env \<Rightarrow> bool) \<Rightarrow> wizard \<Rightarrow> wizard_screen \<Rightarrow> wizard \<Rightarrow> wizard_screen \<Rightarrow> bool"
  for W s scr where
  steps_none: "wizard_steps W s scr s scr"
| steps_turn: "wizard_steps W s scr s' scr' \<Longrightarrow> W E \<Longrightarrow> snd (wizard_turn E scr' s' answers) = Done (s'', scr'') rest \<Longrightarrow>
    wizard_steps W s scr s'' scr''"

end
