(* ===== verification/Creation_Properties.thy ===== *)
theory Creation_Properties
  imports Port_Properties
begin

text \<open>
  Properties of the requests of creation: the amounts that pass are consistent with each other and
  with the limits of the network.
\<close>

section \<open>Creation\<close>

lemma passes_key:
  assumes "validate r None = []" "map_of (rq_schema r) k = Some check" "map_of (rq_props r) k = Some (Some v)"
    and "renamePrivateProp k = k"
  shows "check v = Inr []"
proof -
  have "k \<in> fst ` set (rq_schema r)" "k \<in> fst ` set (rq_props r)"
    using assms(2,3) by (metis map_of_eq_None_iff option.distinct(1))+
  then have "k \<in> set (filterSchemaFromProps r)"
    using assms(4) by (auto simp: filterSchemaFromProps_def Let_def) (metis fst_conv imageI)
  then have "pushValidations r k = []" using assms(1) by (simp add: validate_def)
  moreover have "getProperty r k = Some v" using assms(3) by (simp add: getProperty_def own_property_def)
  ultimately show ?thesis using assms(2) by (simp add: runValidation_none)
qed

lemma create_schema:
  "map_of (rq_schema (CreateRequest V r)) ''initialSupply'' = Some (initial_supply_check (rl_lib V) r)"
  "map_of (rq_schema (CreateRequest V r)) ''maxSupply'' = Some (max_supply_check (rl_lib V) r)"
  "map_of (rq_schema (CreateRequest V r)) ''reserveInitialAmount'' = Some (reserve_initial_check (rl_lib V) r)"
  "map_of (rq_schema (CreateRequest V r)) ''cashInRoleAllowance'' = Some (cashin_allowance_check (rl_lib V) r)"
  by (simp_all add: CreateRequest_def Let_def)

lemma create_props:
  "map_of (rq_props (CreateRequest V r)) ''initialSupply'' = Some (map_option JString (rc_initialSupply r))"
  "map_of (rq_props (CreateRequest V r)) ''maxSupply'' = Some (map_option JString (rc_maxSupply r))"
  "map_of (rq_props (CreateRequest V r)) ''reserveInitialAmount'' = Some (map_option JString (rc_reserveInitialAmount r))"
  "map_of (rq_props (CreateRequest V r)) ''cashInRoleAllowance'' = Some (map_option JString (rc_cashInRoleAllowance r))"
  by (simp_all add: CreateRequest_def Let_def)

lemma create_keys_checked:
  assumes "validate (CreateRequest V r) None = []"
  shows "rc_initialSupply r = Some s \<Longrightarrow> initial_supply_check (rl_lib V) r (JString s) = Inr []"
    and "rc_maxSupply r = Some s \<Longrightarrow> max_supply_check (rl_lib V) r (JString s) = Inr []"
    and "rc_reserveInitialAmount r = Some s \<Longrightarrow> reserve_initial_check (rl_lib V) r (JString s) = Inr []"
    and "rc_cashInRoleAllowance r = Some s \<Longrightarrow> cashin_allowance_check (rl_lib V) r (JString s) = Inr []"
  by (rule passes_key [OF assms create_schema(1)]; simp add: create_props renamePrivateProp_def js_startsWith_def)
    (rule passes_key [OF assms create_schema(2)] passes_key [OF assms create_schema(3)]
      passes_key [OF assms create_schema(4)];
      simp add: create_props renamePrivateProp_def js_startsWith_def)+

context fixed_number_api
begin

lemma fromString_le80: "bd_fromString L s (Some d) = Inr b \<Longrightarrow> d \<le> 80"
  using parse_fixed_fields by (auto simp: fromString_Inr)

text \<open>Another amount of the request counts when its own check has passed its decimals.\<close>

lemma other_amount_value:
  assumes "other_amount L d s n = Inr v"
  shows "case v of None \<Rightarrow> True | Some x \<Rightarrow> provided s \<and> bd_rat x = decimal_value (the s)"
  using assms by (auto simp: other_amount_def bindR_Inr_iff fromString_rat split: if_splits option.split)

lemma other_amount_given:
  assumes "other_amount L d s n = Inr v" "provided s" "isBigDecimal L (the s)"
    and "bd_fromString L (the s) None = Inr b" "bd_decimals b \<le> d"
  shows "\<exists>x. v = Some x \<and> bd_rat x = decimal_value (the s)"
  using assms by (auto simp: other_amount_def hasMoreDecimals_def bindR_Inr_iff fromString_rat)


text \<open>The four amounts of a request that passes.\<close>

lemma request_maximum:
  assumes "validate (CreateRequest V r) None = []" "rl_lib V = L" "rc_maxSupply r = Some s"
  shows "\<exists>v. other_amount L (rc_decimals r) (rc_initialSupply r) (rc_decimals r) = Inr v \<and>
    (case v of None \<Rightarrow> 0 | Some x \<Rightarrow> bd_rat x) \<le> decimal_value s \<and>
    decimal_value s \<le> 9223372036854775807 / 10 ^ rc_decimals r \<and>
    (rc_supplyType r = Some INFINITE \<longrightarrow> decimal_value s \<le> 0) \<and>
    (s \<noteq> [] \<longrightarrow> (\<forall>n x. other_amount L (rc_decimals r) (rc_maxSupply r) n = Inr x \<longrightarrow>
       (\<exists>b. x = Some b \<and> bd_rat b = decimal_value s)))"
proof -
  note check = create_keys_checked(2) [OF assms(1,3), unfolded assms(2) max_supply_check_def js_show.simps Let_def
      decimal_accepted bindR_Inr_iff]
  then obtain b v c where "bd_fromString L s (Some (rc_decimals r)) = Inr b"
    "other_amount L (rc_decimals r) (rc_initialSupply r) (rc_decimals r) = Inr v"
    "checkMaxSupply L b (rc_decimals r) v (rc_supplyType r) = Inr []"
    "isBigDecimal L s" "bd_fromString L s None = Inr c" "bd_decimals c \<le> rc_decimals r"
    by blast
  then show ?thesis
    using other_amount_given [where s = "rc_maxSupply r"] assms(3) checkMaxSupply_ok [OF fromString_le80] fromString_rat
    by (auto simp: provided_def)
qed

lemma request_initial:
  assumes "validate (CreateRequest V r) None = []" "rl_lib V = L" "rc_initialSupply r = Some s" "s \<noteq> []"
  shows "\<exists>v. other_amount L (rc_decimals r) (rc_maxSupply r) (rc_decimals r) = Inr v \<and> 0 \<le> decimal_value s \<and>
    decimal_value s \<le> (case v of None \<Rightarrow> 9223372036854775807 / 10 ^ rc_decimals r | Some x \<Rightarrow> bd_rat x) \<and>
    (\<forall>n x. other_amount L (rc_decimals r) (rc_initialSupply r) n = Inr x \<longrightarrow>
       (\<exists>b. x = Some b \<and> bd_rat b = decimal_value s))"
proof -
  note check = create_keys_checked(1) [OF assms(1,3), unfolded assms(2) initial_supply_check_def js_show.simps Let_def
      if_not_P [OF assms(4)] decimal_accepted bindR_Inr_iff]
  then obtain b v c where "bd_fromString L s (Some (rc_decimals r)) = Inr b"
    "other_amount L (rc_decimals r) (rc_maxSupply r) (rc_decimals r) = Inr v"
    "checkInitialSupply L b (rc_decimals r) v = Inr []"
    "isBigDecimal L s" "bd_fromString L s None = Inr c" "bd_decimals c \<le> rc_decimals r"
    by blast
  then show ?thesis
    using other_amount_given [where s = "rc_initialSupply r"] assms(3,4) checkInitialSupply_ok [OF fromString_le80]
      fromString_rat
    by (auto simp: provided_def)
qed

lemma request_maximum_given:
  assumes "validate (CreateRequest V r) None = []" "rl_lib V = L" "rc_maxSupply r = Some s"
  shows "s \<noteq> []"
proof -
  have "isBigDecimal L s"
    using create_keys_checked(2) [OF assms(1,3)] assms(2) by (simp add: max_supply_check_def Let_def decimal_accepted)
  then show ?thesis by (auto simp: isBigDecimal_def fromString parse_fixed_def js_startsWith_def)
qed

lemma request_reserve:
  assumes "validate (CreateRequest V r) None = []" "rl_lib V = L"
    and "rc_reserveInitialAmount r = Some s" "s \<noteq> []" "rc_createReserve r"
  shows "\<exists>v n. other_amount L (rc_decimals r) (rc_initialSupply r) n = Inr v \<and>
    (case v of None \<Rightarrow> 0 | Some x \<Rightarrow> bd_rat x) \<le> decimal_value s"
proof -
  let ?d = "max RESERVE_DECIMALS (rc_decimals r)"
  have "\<not> (s = [] \<or> \<not> rc_createReserve r)" using assms(4,5) by simp
  note check = create_keys_checked(3) [OF assms(1,3), unfolded assms(2) reserve_initial_check_def js_show.simps Let_def
      if_not_P [OF this] decimal_accepted bindR_Inr_iff]
  then obtain b v where b: "bd_fromString L s (Some ?d) = Inr b"
    "other_amount L (rc_decimals r) (rc_initialSupply r) ?d = Inr v"
    "checkReserveInitialAmount L b ?d v = Inr []"
    by blast
  then show ?thesis
    using checkReserveInitialAmount_ok [OF fromString_le80 [OF b(1)], of b v] fromString_rat [OF b(1)] by auto
qed

lemma request_allowance:
  assumes "validate (CreateRequest V r) None = []" "rl_lib V = L" "rc_cashInRoleAllowance r = Some s" "s \<noteq> []"
  shows "0 \<le> decimal_value s \<and> decimal_value s \<le> 9223372036854775807 / 10 ^ rc_decimals r"
proof -
  note check = create_keys_checked(4) [OF assms(1,3), unfolded assms(2) cashin_allowance_check_def js_show.simps
      Let_def if_not_P [OF assms(4)] decimal_accepted bindR_Inr_iff]
  then obtain b where b: "bd_fromString L s (Some (rc_decimals r)) = Inr b"
    "checkCashInAllowance L b (rc_decimals r) = Inr []"
    by blast
  then show ?thesis
    using checkCashInAllowance_ok [OF fromString_le80 [OF b(1)], of b] fromString_rat [OF b(1)] by auto
qed

end


definition creation_sample :: create_request where
  "creation_sample =
     \<lparr>rc_name = ''Coin'', rc_symbol = ''C'', rc_decimals = 2, rc_initialSupply = Some ''1.5'', rc_maxSupply = Some ''50.99'',
      rc_freezeDefault = None, rc_freezeKey = None, rc_kycKey = None, rc_wipeKey = None, rc_pauseKey = None,
      rc_feeScheduleKey = None, rc_supplyType = Some FINITE, rc_stableCoinFactory = None, rc_reserveAddress = None,
      rc_updatedAtThreshold = None, rc_reserveInitialAmount = None, rc_reserveConfigId = None,
      rc_reserveConfigVersion = None, rc_createReserve = False, rc_grantKYCToOriginalSender = None,
      rc_burnRoleAccount = None, rc_wipeRoleAccount = None, rc_rescueRoleAccount = None, rc_pauseRoleAccount = None,
      rc_freezeRoleAccount = None, rc_deleteRoleAccount = None, rc_kycRoleAccount = None, rc_cashInRoleAccount = None,
      rc_feeRoleAccount = None, rc_holdCreatorRoleAccount = None, rc_cashInRoleAllowance = None, rc_metadata = None,
      rc_proxyOwnerAccount = None, rc_configId = ''0x'' @ replicate 64 (CHR ''0''), rc_configVersion = 1\<rparr>"

lemma creation_sample_fields:
  "rc_name creation_sample = ''Coin''" "rc_symbol creation_sample = ''C''" "rc_decimals creation_sample = 2"
  "rc_initialSupply creation_sample = Some ''1.5''" "rc_maxSupply creation_sample = Some ''50.99''"
  "rc_supplyType creation_sample = Some FINITE" "rc_createReserve creation_sample = False"
  "rc_configId creation_sample = ''0x'' @ replicate 64 (CHR ''0'')" "rc_configVersion creation_sample = 1"
  by (simp_all add: creation_sample_def)

text \<open>The maximum is 50.99, the initial supply 1.5.\<close>

lemma sample_bounds:
  "checkInitialSupply exact_lib (bd2 150) 2 (Some (bd2 5099)) = Inr []"
  "checkMaxSupply exact_lib (bd2 5099) 2 (Some (bd2 150)) (Some FINITE) = Inr []"
proof -
  have "bd_rat (bd2 150) = 3 / 2" "bd_rat (bd2 5099) = 5099 / 100" by (simp_all add: fn_rat_def bd2_def)
  then show "checkInitialSupply exact_lib (bd2 150) 2 (Some (bd2 5099)) = Inr []"
    "checkMaxSupply exact_lib (bd2 5099) 2 (Some (bd2 150)) (Some FINITE) = Inr []"
    using exact.checkInitialSupply_ok [of 2 "bd2 150" "Some (bd2 5099)"]
      exact.checkMaxSupply_ok [of 2 "bd2 5099" "Some (bd2 150)" "Some FINITE"] by simp_all
qed

lemma creation_sample_checks:
  "initial_supply_check exact_lib creation_sample (JString ''1.5'') = Inr []"
  "max_supply_check exact_lib creation_sample (JString ''50.99'') = Inr []"
  by (simp_all add: initial_supply_check_def max_supply_check_def decimal_check_def hasMoreDecimals_def
      sample sample_isBigDecimal creation_sample_fields other_amount_def provided_def sample_bounds)

text \<open>A request passes when its keys do; the properties of a creation have their own names.\<close>

lemma passes_by_keys: "(\<And>k. k \<in> fst ` set (rq_schema r) \<Longrightarrow> pushValidations r k = []) \<Longrightarrow> validate r None = []"
  by (simp add: validate_def filterSchemaFromProps_def Let_def)

lemma public_names:
  assumes "list_all (\<lambda>k. k = renamePrivateProp k) (map fst (rq_props r))"
  shows "getProperty r k = own_property r k"
proof -
  have "own_property r (CHR ''_'' # k) = None" "own_property r (CHR ''#'' # k) = None"
    using assms
    by (auto simp: own_property_def list_all_iff renamePrivateProp_def js_startsWith_def split: option.split
        dest!: map_of_SomeD)
  then show ?thesis by (simp add: getProperty_def js_truthy_def split: option.split)
qed

lemma create_names: "getProperty (CreateRequest V r) k = own_property (CreateRequest V r) k"
  by (rule public_names) (simp add: CreateRequest_def Let_def renamePrivateProp_def js_startsWith_def)

lemma missing_key: "getProperty r k = None \<Longrightarrow> isOptional r k \<Longrightarrow> pushValidations r k = []"
  by (simp add: pushValidations_def runValidation_def split: option.split)

lemma given_key:
  "map_of (rq_schema r) k = Some check \<Longrightarrow> getProperty r k = Some v \<Longrightarrow> check v = Inr [] \<Longrightarrow> pushValidations r k = []"
  by (simp add: runValidation_none)

lemma creation_sample_passes: "validate (CreateRequest sample_lib creation_sample) None = []"
proof (rule passes_by_keys)
  fix k assume k: "k \<in> fst ` set (rq_schema (CreateRequest sample_lib creation_sample))"
  have basic: "checkBytes32Format (JString (rc_configId creation_sample)) = Inr []" "checkName ''Coin'' = []"
    "checkSymbol ''C'' = []"
    by code_simp+
  show "pushValidations (CreateRequest sample_lib creation_sample) k = []"
  proof (cases "k \<in> {''name'', ''symbol'', ''decimals'', ''initialSupply'', ''maxSupply'', ''configId'', ''configVersion''}")
    case True
    then show ?thesis
      using basic creation_sample_checks
      by (elim insertE emptyE)
        (hypsubst, rule given_key, simp add: CreateRequest_def Let_def, unfold create_names own_property_def,
          simp add: CreateRequest_def Let_def creation_sample_fields, simp add: creation_sample_fields checkNumber_def)+
  next
    case False
    have "own_property (CreateRequest sample_lib creation_sample) k = None"
      using k False by (auto simp: own_property_def CreateRequest_def Let_def creation_sample_def key_prop_def)
    moreover have "isOptional (CreateRequest sample_lib creation_sample) k"
      using k False by (auto simp: isOptional_def CreateRequest_def Let_def)
    ultimately show ?thesis using missing_key create_names by simp
  qed
qed


end
