(* ===== verification/Cli_Create_Properties.thy ===== *)
theory Cli_Create_Properties
  imports Cli_Create Cli_Session_Properties Creation_Properties
begin

text \<open>
  The wizard of creation: the request that it collects passes the validation of the SDK as a whole, although every
  answer is validated alone, when it is given.
\<close>

section \<open>When a request of creation passes\<close>

lemma create_field:
  assumes "map_of (rq_schema (CreateRequest V r)) k \<noteq> None"
  shows "validate (CreateRequest V r) (Some k) = [] \<longleftrightarrow>
    (case own_property (CreateRequest V r) k of
       None \<Rightarrow> isOptional (CreateRequest V r) k | Some v \<Rightarrow> the (map_of (rq_schema (CreateRequest V r)) k) v = Inr [])"
  using assms by (auto simp add: field_ok create_names split: option.splits)

definition account_given :: "string option \<Rightarrow> bool" where
  "account_given a \<longleftrightarrow> (\<forall>s. a = Some s \<longrightarrow> checkHederaIdFormat True (JString s) = Inr [])"

text \<open>The fields whose validity does not depend on another one.\<close>

definition plain_ok :: "request_lib \<Rightarrow> create_request \<Rightarrow> bool" where
  "plain_ok V r \<longleftrightarrow>
     account_given (rc_burnRoleAccount r) \<and> account_given (rc_wipeRoleAccount r) \<and>
     account_given (rc_rescueRoleAccount r) \<and> account_given (rc_pauseRoleAccount r) \<and>
     account_given (rc_freezeRoleAccount r) \<and> account_given (rc_deleteRoleAccount r) \<and>
     account_given (rc_kycRoleAccount r) \<and> account_given (rc_cashInRoleAccount r) \<and>
     account_given (rc_feeRoleAccount r) \<and>
     (\<forall>s. rc_proxyOwnerAccount r = Some s \<longrightarrow> checkHederaIdFormat False (JString s) = Inr []) \<and>
     (\<forall>s. rc_reserveAddress r = Some s \<longrightarrow> checkContractId (rl_parsesContract V) (JString s) = Inr []) \<and>
     (\<forall>s. rc_stableCoinFactory r = Some s \<longrightarrow> checkContractId (rl_parsesContract V) (JString s) = Inr []) \<and>
     (\<forall>s. rc_metadata r = Some s \<longrightarrow> checkString (Some 100) 0 False (JString s) = Inr []) \<and>
     (\<forall>s. rc_reserveConfigId r = Some s \<longrightarrow> checkBytes32Format (JString s) = Inr [])"

definition amounts_ok :: "fixed_number_lib \<Rightarrow> create_request \<Rightarrow> bool" where
  "amounts_ok L r \<longleftrightarrow>
     (\<forall>s. rc_initialSupply r = Some s \<longrightarrow> initial_supply_check L r (JString s) = Inr []) \<and>
     (\<forall>s. rc_maxSupply r = Some s \<longrightarrow> max_supply_check L r (JString s) = Inr []) \<and>
     (\<forall>s. rc_reserveInitialAmount r = Some s \<longrightarrow> reserve_initial_check L r (JString s) = Inr []) \<and>
     (\<forall>s. rc_cashInRoleAllowance r = Some s \<longrightarrow> cashin_allowance_check L r (JString s) = Inr [])"

definition create_ok :: "request_lib \<Rightarrow> create_request \<Rightarrow> bool" where
  "create_ok V r \<longleftrightarrow> checkName (rc_name r) = [] \<and> checkSymbol (rc_symbol r) = [] \<and>
     checkBytes32Format (JString (rc_configId r)) = Inr [] \<and> plain_ok V r \<and> amounts_ok (rl_lib V) r"

lemmas create_open = CreateRequest_def Let_def own_property_def isOptional_def

lemma number_free: "checkNumber L None None (JNumber n) = Inr []"
  by (simp add: checkNumber_def)

lemma create_fields:
  "validate (CreateRequest V r) (Some ''name'') = [] \<longleftrightarrow> checkName (rc_name r) = []"
  "validate (CreateRequest V r) (Some ''symbol'') = [] \<longleftrightarrow> checkSymbol (rc_symbol r) = []"
  "validate (CreateRequest V r) (Some ''decimals'') = []"
  "validate (CreateRequest V r) (Some ''configId'') = [] \<longleftrightarrow> checkBytes32Format (JString (rc_configId r)) = Inr []"
  "validate (CreateRequest V r) (Some ''configVersion'') = []"
  "validate (CreateRequest V r) (Some ''initialSupply'') = [] \<longleftrightarrow>
     (\<forall>s. rc_initialSupply r = Some s \<longrightarrow> initial_supply_check (rl_lib V) r (JString s) = Inr [])"
  "validate (CreateRequest V r) (Some ''maxSupply'') = [] \<longleftrightarrow>
     (\<forall>s. rc_maxSupply r = Some s \<longrightarrow> max_supply_check (rl_lib V) r (JString s) = Inr [])"
  "validate (CreateRequest V r) (Some ''reserveInitialAmount'') = [] \<longleftrightarrow>
     (\<forall>s. rc_reserveInitialAmount r = Some s \<longrightarrow> reserve_initial_check (rl_lib V) r (JString s) = Inr [])"
  "validate (CreateRequest V r) (Some ''cashInRoleAllowance'') = [] \<longleftrightarrow>
     (\<forall>s. rc_cashInRoleAllowance r = Some s \<longrightarrow> cashin_allowance_check (rl_lib V) r (JString s) = Inr [])"
  by (subst create_field; simp add: create_open number_free js_show.simps split: option.split)+

lemma create_accounts:
  "validate (CreateRequest V r) (Some ''burnRoleAccount'') = [] \<longleftrightarrow> account_given (rc_burnRoleAccount r)"
  "validate (CreateRequest V r) (Some ''wipeRoleAccount'') = [] \<longleftrightarrow> account_given (rc_wipeRoleAccount r)"
  "validate (CreateRequest V r) (Some ''rescueRoleAccount'') = [] \<longleftrightarrow> account_given (rc_rescueRoleAccount r)"
  "validate (CreateRequest V r) (Some ''pauseRoleAccount'') = [] \<longleftrightarrow> account_given (rc_pauseRoleAccount r)"
  "validate (CreateRequest V r) (Some ''freezeRoleAccount'') = [] \<longleftrightarrow> account_given (rc_freezeRoleAccount r)"
  "validate (CreateRequest V r) (Some ''deleteRoleAccount'') = [] \<longleftrightarrow> account_given (rc_deleteRoleAccount r)"
  "validate (CreateRequest V r) (Some ''kycRoleAccount'') = [] \<longleftrightarrow> account_given (rc_kycRoleAccount r)"
  "validate (CreateRequest V r) (Some ''cashInRoleAccount'') = [] \<longleftrightarrow> account_given (rc_cashInRoleAccount r)"
  "validate (CreateRequest V r) (Some ''feeRoleAccount'') = [] \<longleftrightarrow> account_given (rc_feeRoleAccount r)"
  by (subst create_field; simp add: create_open account_given_def split: option.split)+

lemma create_others:
  "validate (CreateRequest V r) (Some ''proxyOwnerAccount'') = [] \<longleftrightarrow>
     (\<forall>s. rc_proxyOwnerAccount r = Some s \<longrightarrow> checkHederaIdFormat False (JString s) = Inr [])"
  "validate (CreateRequest V r) (Some ''reserveAddress'') = [] \<longleftrightarrow>
     (\<forall>s. rc_reserveAddress r = Some s \<longrightarrow> checkContractId (rl_parsesContract V) (JString s) = Inr [])"
  "validate (CreateRequest V r) (Some ''stableCoinFactory'') = [] \<longleftrightarrow>
     (\<forall>s. rc_stableCoinFactory r = Some s \<longrightarrow> checkContractId (rl_parsesContract V) (JString s) = Inr [])"
  "validate (CreateRequest V r) (Some ''metadata'') = [] \<longleftrightarrow>
     (\<forall>s. rc_metadata r = Some s \<longrightarrow> checkString (Some 100) 0 False (JString s) = Inr [])"
  "validate (CreateRequest V r) (Some ''reserveConfigId'') = [] \<longleftrightarrow>
     (\<forall>s. rc_reserveConfigId r = Some s \<longrightarrow> checkBytes32Format (JString s) = Inr [])"
  "validate (CreateRequest V r) (Some ''reserveConfigVersion'') = []"
  "validate (CreateRequest V r) (Some ''freezeKey'') = []" "validate (CreateRequest V r) (Some ''kycKey'') = []"
  "validate (CreateRequest V r) (Some ''wipeKey'') = []" "validate (CreateRequest V r) (Some ''pauseKey'') = []"
  "validate (CreateRequest V r) (Some ''feeScheduleKey'') = []"
  by (subst create_field; simp add: create_open number_free checkPublicKey_def key_prop_def split: option.split)+

lemma create_keys:
  "fst ` set (rq_schema (CreateRequest V r)) = {''name'', ''symbol'', ''decimals'', ''initialSupply'', ''maxSupply'',
     ''freezeKey'', ''kycKey'', ''wipeKey'', ''pauseKey'', ''feeScheduleKey'', ''stableCoinFactory'', ''reserveAddress'',
     ''reserveInitialAmount'', ''burnRoleAccount'', ''wipeRoleAccount'', ''rescueRoleAccount'', ''pauseRoleAccount'',
     ''freezeRoleAccount'', ''deleteRoleAccount'', ''kycRoleAccount'', ''cashInRoleAccount'', ''feeRoleAccount'',
     ''cashInRoleAllowance'', ''metadata'', ''proxyOwnerAccount'', ''configId'', ''configVersion'', ''reserveConfigId'',
     ''reserveConfigVersion''}"
  by (simp add: CreateRequest_def Let_def)

lemma create_ok_passes:
  assumes "create_ok V r"
  shows "validate (CreateRequest V r) None = []"
proof (rule passes_by_keys)
  fix k assume "k \<in> fst ` set (rq_schema (CreateRequest V r))"
  then have "validate (CreateRequest V r) (Some k) = []"
    using assms unfolding create_keys create_ok_def plain_ok_def amounts_ok_def
    by (elim conjE) (elim insertE emptyE; simp only: create_fields create_accounts create_others; blast)
  then show "pushValidations (CreateRequest V r) k = []" by (simp add: validate_def)
qed

section \<open>What each part of the wizard keeps\<close>

text \<open>Every field but the amounts is valid; an amount may be invalid when no amount could be read at all.\<close>

definition named :: "request_lib \<Rightarrow> create_request \<Rightarrow> bool" where
  "named V r \<longleftrightarrow> checkName (rc_name r) = [] \<and> checkSymbol (rc_symbol r) = [] \<and>
     checkBytes32Format (JString (rc_configId r)) = Inr [] \<and> plain_ok V r"

definition create_ready :: "request_lib \<Rightarrow> create_request \<Rightarrow> bool" where
  "create_ready V r \<longleftrightarrow> named V r \<and> (rc_decimals r \<le> 80 \<longrightarrow> amounts_ok (rl_lib V) r)"

definition no_amounts :: "create_request \<Rightarrow> bool" where
  "no_amounts r \<longleftrightarrow> rc_initialSupply r = None \<and> rc_maxSupply r = None \<and> rc_reserveInitialAmount r = None \<and>
     rc_cashInRoleAllowance r = None"

lemma create_ready_ok: "create_ready V r \<Longrightarrow> rc_decimals r \<le> 80 \<Longrightarrow> create_ok V r"
  by (simp add: create_ready_def named_def create_ok_def)

lemma no_amounts_ok: "no_amounts r \<Longrightarrow> amounts_ok L r"
  by (simp add: no_amounts_def amounts_ok_def)

lemma amounts_cong:
  assumes "rc_decimals r' = rc_decimals r" "rc_initialSupply r' = rc_initialSupply r" "rc_maxSupply r' = rc_maxSupply r"
    "rc_supplyType r' = rc_supplyType r" "rc_createReserve r' = rc_createReserve r"
    "rc_reserveInitialAmount r' = rc_reserveInitialAmount r" "rc_cashInRoleAllowance r' = rc_cashInRoleAllowance r"
  shows "amounts_ok L r' = amounts_ok L r"
proof -
  have "initial_supply_check L r' = initial_supply_check L r" "max_supply_check L r' = max_supply_check L r"
    "reserve_initial_check L r' = reserve_initial_check L r" "cashin_allowance_check L r' = cashin_allowance_check L r"
    by (simp_all add: fun_eq_iff Let_def assms initial_supply_check_def max_supply_check_def reserve_initial_check_def
        cashin_allowance_check_def)
  then show ?thesis by (simp add: amounts_ok_def assms)
qed

text \<open>The checks of the amounts do not read the allowance or the reserve.\<close>

lemma check_frames:
  "initial_supply_check L (r\<lparr>rc_cashInRoleAllowance := a\<rparr>) = initial_supply_check L r"
  "max_supply_check L (r\<lparr>rc_cashInRoleAllowance := a\<rparr>) = max_supply_check L r"
  "reserve_initial_check L (r\<lparr>rc_cashInRoleAllowance := a\<rparr>) = reserve_initial_check L r"
  "cashin_allowance_check L (r\<lparr>rc_cashInRoleAllowance := a\<rparr>) = cashin_allowance_check L r"
  "initial_supply_check L (r\<lparr>rc_reserveInitialAmount := a\<rparr>) = initial_supply_check L r"
  "max_supply_check L (r\<lparr>rc_reserveInitialAmount := a\<rparr>) = max_supply_check L r"
  "reserve_initial_check L (r\<lparr>rc_reserveInitialAmount := a\<rparr>) = reserve_initial_check L r"
  "cashin_allowance_check L (r\<lparr>rc_reserveInitialAmount := a\<rparr>) = cashin_allowance_check L r"
  by (simp_all add: fun_eq_iff Let_def initial_supply_check_def max_supply_check_def reserve_initial_check_def
      cashin_allowance_check_def)

context fixed_number_api
begin

text \<open>An initial supply that passes against the maximum leaves the check of the maximum passed.\<close>

lemma maximum_still:
  assumes "rc_decimals r \<le> 80" "rc_maxSupply r = Some m" "max_supply_check L r (JString m) = Inr []"
    "rc_initialSupply r = None" "initial_supply_check L (r\<lparr>rc_initialSupply := Some s\<rparr>) (JString s) = Inr []"
  shows "max_supply_check L (r\<lparr>rc_initialSupply := Some s\<rparr>) (JString m) = Inr []"
proof (cases "s = []")
  case True
  then show ?thesis using assms by (simp add: max_supply_check_def Let_def other_amount_def provided_def)
next
  case False
  let ?d = "rc_decimals r"
  note max = assms(3) [unfolded max_supply_check_def js_show.simps Let_def decimal_accepted bindR_Inr_iff]
  obtain b v c where m: "bd_fromString L m (Some ?d) = Inr b" "other_amount L ?d (rc_initialSupply r) ?d = Inr v"
    "checkMaxSupply L b ?d v (rc_supplyType r) = Inr []" "isBigDecimal L m" "bd_fromString L m None = Inr c"
    "bd_decimals c \<le> ?d"
    using max by blast
  have "m \<noteq> []" using m(4) by (auto simp: isBigDecimal_def fromString parse_fixed_def js_startsWith_def)
  then have om: "other_amount L ?d (Some m) ?d = Inr (Some b)"
    using m by (simp add: other_amount_def provided_def hasMoreDecimals_def)
  have "decimal_check L s ?d (bindR (bd_fromString L s (Some ?d)) (\<lambda>b.
      bindR (other_amount L ?d (Some m) ?d) (\<lambda>m. checkInitialSupply L b ?d m))) = Inr []"
    using assms(5) False by (simp add: initial_supply_check_def Let_def assms(2))
  then obtain i j where i: "bd_fromString L s (Some ?d) = Inr i" "checkInitialSupply L i ?d (Some b) = Inr []"
    "isBigDecimal L s" "bd_fromString L s None = Inr j" "bd_decimals j \<le> ?d"
    unfolding decimal_accepted bindR_Inr_iff om by auto
  have oi: "other_amount L ?d (Some s) ?d = Inr (Some i)"
    using i False by (simp add: other_amount_def provided_def hasMoreDecimals_def)
  have "checkMaxSupply L b ?d (Some i) (rc_supplyType r) = Inr []"
    using i(2) m(3) assms(1) by (simp add: checkMaxSupply_ok checkInitialSupply_ok)
  then show ?thesis
    using m by (simp add: max_supply_check_def Let_def decimal_accepted oi)
qed

lemma zero_in_range:
  assumes "rc_decimals r \<le> 80"
  shows "cashin_allowance_check L r (JString ''0'') = Inr []"
proof -
  obtain z0 where z0: "bd_fromString L ''0'' (Some 0) = Inr z0" "bd_rat z0 = 0"
    using fromString_zero [of 0] by auto
  obtain z where z: "bd_fromString L ''0'' (Some (rc_decimals r)) = Inr z" "bd_rat z = 0"
    using fromString_zero assms by blast
  have "getDecimalsFromString ''0'' = 0" by code_simp
  then have n: "bd_fromString L ''0'' None = Inr z0" "bd_decimals z0 = 0"
    using z0 new_of_string_decimals [of "''0''" 0 z0] by (simp_all add: bd_fromString_def)
  have "isBigDecimal L ''0''"
    using parse_fixed_digits [of "''0''" 18] by (simp add: isBigDecimal_def fromString in_range128_def)
  then show ?thesis
    using z n assms by (simp add: cashin_allowance_check_def Let_def decimal_accepted checkCashInAllowance_ok)
qed

end

section \<open>The dialogs of the wizard\<close>

text \<open>Only the request of the creation is followed; the other calls of the wizard are free.\<close>

definition creation_ready :: "create_env \<Rightarrow> sdk_op \<Rightarrow> request \<Rightarrow> bool" where
  "creation_ready E op req \<longleftrightarrow> (op = StableCoin_create \<longrightarrow>
     (\<exists>r. req = CreateRequest (ce_lib (cw_cli E)) r \<and> create_ready (ce_lib (cw_cli E)) r))"

lemma free_calls [simp]:
  "creation_ready E Account_getPublicKey req" "creation_ready E Network_setConfig req"
  "creation_ready E StableCoin_associate req" "creation_ready E StableCoin_grantKyc req"
  by (simp_all add: creation_ready_def)

lemma line_Some: "line f a = Some x \<longleftrightarrow> (\<exists>s. a = ALine s \<and> x = f s)"
  by (cases a) (auto simp: line_def)

lemma dlg_ask_create:
  "dlg P (ask_create E f field) (\<lambda>r. \<exists>s. r = f s \<and> validate (CreateRequest (ce_lib (cw_cli E)) (f s)) (Some field) = [])"
  unfolding ask_create_def field_errors_def
  by (rule dlg_weaken, rule dlg_validated) (auto simp: line_Some)

lemma dlg_ask_create_number: "dlg P (ask_create_number E f field) (\<lambda>r. \<exists>n. r = f n)"
  unfolding ask_create_number_def by (rule dlg_weaken, rule dlg_validated) auto

lemma dlg_ask_decimals: "dlg P (ask_decimals E r) (\<lambda>r'. \<exists>n. r' = r\<lparr>rc_decimals := n\<rparr>)"
  unfolding ask_decimals_def by (rule dlg_bind dlg_validated dlg_ret)+ auto

text \<open>The keys and the other fields without a check are free.\<close>

lemma plain_frames:
  "plain_ok V (r\<lparr>rc_decimals := n\<rparr>) = plain_ok V r" "plain_ok V (r\<lparr>rc_supplyType := t\<rparr>) = plain_ok V r"
  "plain_ok V (r\<lparr>rc_maxSupply := a\<rparr>) = plain_ok V r" "plain_ok V (r\<lparr>rc_initialSupply := a\<rparr>) = plain_ok V r"
  "plain_ok V (r\<lparr>rc_reserveInitialAmount := a\<rparr>) = plain_ok V r"
  "plain_ok V (r\<lparr>rc_cashInRoleAllowance := a\<rparr>) = plain_ok V r"
  "plain_ok V (r\<lparr>rc_name := s\<rparr>) = plain_ok V r" "plain_ok V (r\<lparr>rc_symbol := s\<rparr>) = plain_ok V r"
  "plain_ok V (r\<lparr>rc_configId := s\<rparr>) = plain_ok V r" "plain_ok V (r\<lparr>rc_configVersion := i\<rparr>) = plain_ok V r"
  "plain_ok V (r\<lparr>rc_createReserve := b\<rparr>) = plain_ok V r"
  "plain_ok V (r\<lparr>rc_reserveConfigVersion := v\<rparr>) = plain_ok V r"
  "plain_ok V (r\<lparr>rc_freezeKey := k\<rparr>) = plain_ok V r" "plain_ok V (r\<lparr>rc_wipeKey := k\<rparr>) = plain_ok V r"
  "plain_ok V (r\<lparr>rc_pauseKey := k\<rparr>) = plain_ok V r" "plain_ok V (r\<lparr>rc_kycKey := k\<rparr>) = plain_ok V r"
  "plain_ok V (r\<lparr>rc_feeScheduleKey := k\<rparr>) = plain_ok V r"
  "plain_ok V (r\<lparr>rc_holdCreatorRoleAccount := a\<rparr>) = plain_ok V r"
  by (simp_all add: plain_ok_def)

lemma dlg_optional:
  assumes api: "fixed_number_api (rl_lib (ce_lib (cw_cli E)))"
    and start: "named (ce_lib (cw_cli E)) r" "no_amounts r"
  shows "dlg P (optional_props E r) (\<lambda>r'. create_ready (ce_lib (cw_cli E)) r' \<and> rc_reserveInitialAmount r' = None \<and>
    rc_cashInRoleAllowance r' = None)"
proof -
  let ?V = "ce_lib (cw_cli E)"
  define unset where "unset r \<longleftrightarrow> rc_reserveInitialAmount r = None \<and> rc_cashInRoleAllowance r = None"
    for r :: create_request
  define maximum where "maximum r \<longleftrightarrow> named ?V r \<and> unset r \<and> rc_initialSupply r = None \<and>
    (\<forall>m. rc_maxSupply r = Some m \<longrightarrow> max_supply_check (rl_lib ?V) r (JString m) = Inr [])" for r
  have max_step: "dlg P (if b then retD q else ask_create E (\<lambda>s. q\<lparr>rc_maxSupply := Some s\<rparr>) ''maxSupply'') maximum"
    if "named ?V q" "no_amounts q" for b q
    using that
    by (intro dlg_if dlg_ret dlg_weaken [OF dlg_ask_create])
      (auto simp: maximum_def unset_def no_amounts_def named_def plain_frames create_fields)
  have initial: "create_ready ?V (q\<lparr>rc_initialSupply := Some s\<rparr>)"
    if "maximum q" "validate (CreateRequest ?V (q\<lparr>rc_initialSupply := Some s\<rparr>)) (Some ''initialSupply'') = []" for q s
    using that fixed_number_api.maximum_still [OF api, of q _ s]
    by (auto simp: maximum_def unset_def create_ready_def named_def plain_frames create_fields amounts_ok_def)
  have metadata: "create_ready ?V (q\<lparr>rc_metadata := Some s\<rparr>)"
    if "create_ready ?V q" "validate (CreateRequest ?V (q\<lparr>rc_metadata := Some s\<rparr>)) (Some ''metadata'') = []" for q s
    using that amounts_cong [of "q\<lparr>rc_metadata := Some s\<rparr>" q "rl_lib ?V"]
    by (auto simp: create_ready_def named_def create_others plain_ok_def)
  show ?thesis
    unfolding optional_props_def Let_def
    apply (rule dlg_bind [OF dlg_asks(2)])
    apply (rule dlg_if)
     apply (rule dlg_ret, use start in \<open>simp add: create_ready_def no_amounts_ok no_amounts_def\<close>)
    apply (rule dlg_bind [OF dlg_ask_decimals])
    apply (rule dlg_bind [OF dlg_asks(2)])
    apply (rule dlg_bind [OF max_step])
      apply (use start in \<open>auto simp: named_def plain_frames\<close>)[1]
     apply (use start in \<open>auto simp: no_amounts_def\<close>)[1]
    apply (rule dlg_bind [OF dlg_ask_create])
    apply (rule dlg_weaken [OF dlg_ask_create])
    apply (use initial metadata in \<open>auto simp: maximum_def unset_def\<close>)
    done
qed

lemma amounts_frames:
  "amounts_ok L (r\<lparr>rc_freezeKey := k\<rparr>) = amounts_ok L r"
  "amounts_ok L (r\<lparr>rc_wipeKey := k\<rparr>) = amounts_ok L r"
  "amounts_ok L (r\<lparr>rc_pauseKey := k\<rparr>) = amounts_ok L r"
  "amounts_ok L (r\<lparr>rc_kycKey := k\<rparr>) = amounts_ok L r"
  "amounts_ok L (r\<lparr>rc_feeScheduleKey := k\<rparr>) = amounts_ok L r"
  "amounts_ok L (r\<lparr>rc_burnRoleAccount := a\<rparr>) = amounts_ok L r"
  "amounts_ok L (r\<lparr>rc_wipeRoleAccount := a\<rparr>) = amounts_ok L r"
  "amounts_ok L (r\<lparr>rc_rescueRoleAccount := a\<rparr>) = amounts_ok L r"
  "amounts_ok L (r\<lparr>rc_pauseRoleAccount := a\<rparr>) = amounts_ok L r"
  "amounts_ok L (r\<lparr>rc_freezeRoleAccount := a\<rparr>) = amounts_ok L r"
  "amounts_ok L (r\<lparr>rc_deleteRoleAccount := a\<rparr>) = amounts_ok L r"
  "amounts_ok L (r\<lparr>rc_kycRoleAccount := a\<rparr>) = amounts_ok L r"
  "amounts_ok L (r\<lparr>rc_cashInRoleAccount := a\<rparr>) = amounts_ok L r"
  "amounts_ok L (r\<lparr>rc_feeRoleAccount := a\<rparr>) = amounts_ok L r"
  "amounts_ok L (r\<lparr>rc_holdCreatorRoleAccount := a\<rparr>) = amounts_ok L r"
  "amounts_ok L (r\<lparr>rc_metadata := a\<rparr>) = amounts_ok L r"
  "amounts_ok L (r\<lparr>rc_reserveAddress := a\<rparr>) = amounts_ok L r"
  "amounts_ok L (r\<lparr>rc_reserveConfigId := a\<rparr>) = amounts_ok L r"
  "amounts_ok L (r\<lparr>rc_reserveConfigVersion := v\<rparr>) = amounts_ok L r"
  "amounts_ok L (r\<lparr>rc_stableCoinFactory := a\<rparr>) = amounts_ok L r"
  by (rule amounts_cong; simp)+

lemma ready_frames:
  "create_ready V (r\<lparr>rc_freezeKey := k\<rparr>) = create_ready V r"
  "create_ready V (r\<lparr>rc_wipeKey := k\<rparr>) = create_ready V r"
  "create_ready V (r\<lparr>rc_pauseKey := k\<rparr>) = create_ready V r"
  "create_ready V (r\<lparr>rc_kycKey := k\<rparr>) = create_ready V r"
  "create_ready V (r\<lparr>rc_feeScheduleKey := k\<rparr>) = create_ready V r"
  "create_ready V (r\<lparr>rc_holdCreatorRoleAccount := a\<rparr>) = create_ready V r"
  by (simp_all add: create_ready_def named_def plain_frames amounts_frames)

lemma ready_accounts:
  "create_ready V r \<Longrightarrow> account_given a \<Longrightarrow> create_ready V (r\<lparr>rc_burnRoleAccount := a\<rparr>)"
  "create_ready V r \<Longrightarrow> account_given a \<Longrightarrow> create_ready V (r\<lparr>rc_wipeRoleAccount := a\<rparr>)"
  "create_ready V r \<Longrightarrow> account_given a \<Longrightarrow> create_ready V (r\<lparr>rc_rescueRoleAccount := a\<rparr>)"
  "create_ready V r \<Longrightarrow> account_given a \<Longrightarrow> create_ready V (r\<lparr>rc_pauseRoleAccount := a\<rparr>)"
  "create_ready V r \<Longrightarrow> account_given a \<Longrightarrow> create_ready V (r\<lparr>rc_freezeRoleAccount := a\<rparr>)"
  "create_ready V r \<Longrightarrow> account_given a \<Longrightarrow> create_ready V (r\<lparr>rc_deleteRoleAccount := a\<rparr>)"
  "create_ready V r \<Longrightarrow> account_given a \<Longrightarrow> create_ready V (r\<lparr>rc_kycRoleAccount := a\<rparr>)"
  "create_ready V r \<Longrightarrow> account_given a \<Longrightarrow> create_ready V (r\<lparr>rc_cashInRoleAccount := a\<rparr>)"
  "create_ready V r \<Longrightarrow> account_given a \<Longrightarrow> create_ready V (r\<lparr>rc_feeRoleAccount := a\<rparr>)"
  by (simp_all add: create_ready_def named_def plain_ok_def amounts_frames)

lemma dlg_create_answer: "dlg (creation_ready E) (create_checkAnswer E choice) (\<lambda>_. True)"
  unfolding create_checkAnswer_def Let_def
  by (cases choice) (auto intro!: dlg_ret dlg_if dlg_weaken [OF dlg_lift_value] dlg_bind [OF dlg_call]
      dlg_bind [OF dlg_public_key] split: option.split)

lemma dlg_key: "dlg (creation_ready E) (ask_key E options) (\<lambda>_. True)"
  unfolding ask_key_def by (rule dlg_bind [OF dlg_pick]) (rule dlg_create_answer)

lemma dlg_keys:
  assumes "create_ready V r"
  shows "dlg (creation_ready E) (managed_features E r) (create_ready V)"
    and "dlg (creation_ready E) (kyc_key E r) (\<lambda>(r, _). create_ready V r)"
    and "dlg (creation_ready E) (fee_key E r) (create_ready V)"
  unfolding managed_features_def configureManagedFeatures_def kyc_key_def fee_key_def Let_def
  by (rule dlg_bind [OF dlg_asks(2)] dlg_bind [OF dlg_key] dlg_if dlg_ret | simp add: ready_frames assms)+

section \<open>Roles and reserve\<close>

lemma dlg_askForAccount:
  assumes "create_ready V r" "create_ready V (set_account (Some (ce_accountId (cw_cli E))) r)"
    and "\<And>s. validate (CreateRequest (ce_lib (cw_cli E)) (set_account (Some s) r)) (Some field) = [] \<Longrightarrow>
      create_ready V (set_account (Some s) r)"
  shows "dlg P (askForAccount E set_account field r) (\<lambda>(r, _). create_ready V r)"
  unfolding askForAccount_def
proof (rule dlg_bind [OF dlg_pick])
  fix choice
  show "dlg P (case choice of CurrentAccount \<Rightarrow> retD (set_account (Some (ce_accountId (cw_cli E))) r, choice)
     | OtherAccount \<Rightarrow> bindD (ask_create E (\<lambda>s. set_account (Some s) r) field) (\<lambda>r. retD (r, choice))
     | NoAccount \<Rightarrow> retD (r, choice)) (\<lambda>(r, _). create_ready V r)"
    using assms by (cases choice) (auto intro!: dlg_ret dlg_bind [OF dlg_ask_create])
qed

lemma dlg_assign_role:
  assumes "create_ready V r" "create_ready V (set_account (Some (ce_accountId (cw_cli E))) r)"
    and "\<And>s. validate (CreateRequest (ce_lib (cw_cli E)) (set_account (Some s) r)) (Some field) = [] \<Longrightarrow>
      create_ready V (set_account (Some s) r)"
  shows "dlg P (assign_role E asked set_account field r) (create_ready V)"
proof -
  have "dlg P (askForAccount E set_account field r) (\<lambda>(r, _). create_ready V r)"
    by (rule dlg_askForAccount) (use assms in auto)
  then have "dlg P (bindD (askForAccount E set_account field r) (\<lambda>(r, _). retD r)) (create_ready V)"
    by (rule dlg_bind) (auto intro: dlg_ret)
  then show ?thesis using assms(1) by (simp add: assign_role_def dlg_ret)
qed

lemma current_given: "account_ok a \<Longrightarrow> account_given (Some a)"
  by (simp add: account_given_def account_ok_def id_accepted)

lemma dlg_initial_roles:
  assumes me: "account_ok (ce_accountId (cw_cli E))" and r: "create_ready (ce_lib (cw_cli E)) r"
  shows "dlg P (initialRoleAssignments E r) (create_ready (ce_lib (cw_cli E)))"
proof -
  let ?V = "ce_lib (cw_cli E)"
  note given = current_given [OF me]
  have allowance: "dlg P (if choice = NoAccount then retD q
      else ask_create E (\<lambda>s. q\<lparr>rc_cashInRoleAllowance := Some s\<rparr>) ''cashInRoleAllowance'') (create_ready ?V)"
    if "create_ready ?V q" for q choice
    using that
    by (intro dlg_if dlg_ret dlg_weaken [OF dlg_ask_create])
      (auto simp: create_ready_def named_def plain_frames create_fields amounts_ok_def check_frames)
  have hold: "dlg P (assign_role E True (\<lambda>a. rc_holdCreatorRoleAccount_update (\<lambda>_. a)) f q) (create_ready ?V)"
    if "create_ready ?V q" for q f
    by (rule dlg_assign_role) (simp_all add: that ready_frames)
  show ?thesis
    unfolding initialRoleAssignments_def
    by (rule dlg_bind [OF dlg_assign_role [where V = ?V]] dlg_bind [OF dlg_askForAccount [where V = ?V]] dlg_bind [OF allowance] hold dlg_prod
      | (simp add: r ready_accounts create_accounts given; fail))+
qed

lemma default_roles_ready:
  assumes api: "fixed_number_api (rl_lib V)" and me: "account_ok a" and r: "create_ready V r"
  shows "create_ready V (default_roles a r)"
proof -
  have "amounts_ok (rl_lib V) (r\<lparr>rc_cashInRoleAllowance := Some ''0''\<rparr>)"
    if "rc_decimals r \<le> 80" "amounts_ok (rl_lib V) r"
    using that fixed_number_api.zero_in_range [OF api, of r] by (simp add: amounts_ok_def check_frames)
  moreover have "amounts_ok (rl_lib V) (default_roles a r) = amounts_ok (rl_lib V) (r\<lparr>rc_cashInRoleAllowance := Some ''0''\<rparr>)"
    by (rule amounts_cong) (simp_all add: default_roles_def)
  ultimately show ?thesis
    using r current_given [OF me] by (simp add: create_ready_def named_def plain_ok_def default_roles_def)
qed

lemma reserve_frames:
  "initial_supply_check L (r\<lparr>rc_createReserve := b\<rparr>) = initial_supply_check L r"
  "max_supply_check L (r\<lparr>rc_createReserve := b\<rparr>) = max_supply_check L r"
  "cashin_allowance_check L (r\<lparr>rc_createReserve := b\<rparr>) = cashin_allowance_check L r"
  "initial_supply_check L (r\<lparr>rc_reserveConfigId := c\<rparr>) = initial_supply_check L r"
  "max_supply_check L (r\<lparr>rc_reserveConfigId := c\<rparr>) = max_supply_check L r"
  "cashin_allowance_check L (r\<lparr>rc_reserveConfigId := c\<rparr>) = cashin_allowance_check L r"
  "initial_supply_check L (r\<lparr>rc_reserveConfigVersion := v\<rparr>) = initial_supply_check L r"
  "max_supply_check L (r\<lparr>rc_reserveConfigVersion := v\<rparr>) = max_supply_check L r"
  "cashin_allowance_check L (r\<lparr>rc_reserveConfigVersion := v\<rparr>) = cashin_allowance_check L r"
  by (simp_all add: fun_eq_iff Let_def initial_supply_check_def max_supply_check_def cashin_allowance_check_def)

lemma dlg_reserve:
  assumes "create_ready (ce_lib (cw_cli E)) r"
  shows "dlg P (create_reserve E r) (create_ready (ce_lib (cw_cli E)))"
proof -
  have "dlg P (configureReserve E b r) (create_ready (ce_lib (cw_cli E)))" for b
    unfolding configureReserve_def Let_def
    apply (rule dlg_if)
     apply (rule dlg_weaken [OF dlg_ask_create])
     apply (use assms in \<open>auto simp: create_ready_def named_def plain_ok_def amounts_frames create_others\<close>)[1]
    apply (rule dlg_bind [OF dlg_ask_create] dlg_bind [OF dlg_ask_create_number] dlg_weaken [OF dlg_ask_create])+
    apply (use assms in \<open>auto simp: create_ready_def named_def plain_ok_def amounts_ok_def check_frames reserve_frames
        create_fields create_others\<close>)
    done
  then show ?thesis
    unfolding create_reserve_def using assms by (intro dlg_bind [OF dlg_asks(2)] dlg_if dlg_ret) auto
qed

section \<open>The request of the wizard\<close>

lemma dlg_named:
  assumes me: "account_ok (ce_accountId (cw_cli E))"
    and n: "validate (CreateRequest (ce_lib (cw_cli E)) ((new_creation (ce_accountId (cw_cli E)))\<lparr>rc_name := n\<rparr>)) (Some ''name'') = []"
    and s: "validate (CreateRequest (ce_lib (cw_cli E)) ((new_creation (ce_accountId (cw_cli E)))\<lparr>rc_name := n, rc_symbol := s\<rparr>))
      (Some ''symbol'') = []"
  shows "dlg P (selectResolverConfiguration E ((new_creation (ce_accountId (cw_cli E)))\<lparr>rc_name := n, rc_symbol := s\<rparr>))
    (\<lambda>r. named (ce_lib (cw_cli E)) r \<and> no_amounts r)"
  unfolding selectResolverConfiguration_def
  apply (rule dlg_bind [OF dlg_ask_create] dlg_weaken [OF dlg_ask_create_number])+
  apply (use assms in \<open>auto simp: named_def plain_frames create_fields no_amounts_def new_creation_def plain_ok_def
      account_given_def account_ok_def id_accepted\<close>)
  done

lemma dlg_create_roles:
  assumes "fixed_number_api (rl_lib (ce_lib (cw_cli E)))" "account_ok (ce_accountId (cw_cli E))"
    "create_ready (ce_lib (cw_cli E)) r"
  shows "dlg P (create_roles E r) (create_ready (ce_lib (cw_cli E)))"
  unfolding create_roles_def
  by (intro dlg_bind [OF dlg_asks(2)] dlg_if dlg_ret dlg_initial_roles default_roles_ready assms)

lemma wizard_ready:
  assumes api: "fixed_number_api (rl_lib (ce_lib (cw_cli E)))" and me: "account_ok (ce_accountId (cw_cli E))"
    and factory: "checkContractId (rl_parsesContract (ce_lib (cw_cli E))) (JString (cw_factory E)) = Inr []"
  shows "dlg (creation_ready E) (wizardCreateStableCoin E)
    (\<lambda>res. \<forall>r grant. res = Some (r, grant) \<longrightarrow> create_ready (ce_lib (cw_cli E)) r)"
proof -
  let ?V = "ce_lib (cw_cli E)"
  have last: "dlg P (let r = r\<lparr>rc_stableCoinFactory := Some (cw_factory E)\<rparr>
      in bindD defaultConfirmAsk (\<lambda>confirmed. retD (if confirmed then Some (r, g) else None)))
      (\<lambda>res. \<forall>r g. res = Some (r, g) \<longrightarrow> create_ready ?V r)" if "create_ready ?V r" for r P g
    using that factory unfolding Let_def
    by (intro dlg_bind [OF dlg_asks(2)] dlg_ret) (auto simp: create_ready_def named_def plain_ok_def amounts_frames)
  show ?thesis
    unfolding wizardCreateStableCoin_def Let_def [where s = "new_creation _"]
    apply (rule dlg_bind [OF dlg_ask_create], elim exE conjE, hypsubst)+
    apply (rule dlg_bind [OF dlg_named [OF me]], assumption, assumption, elim conjE)
    apply (rule dlg_bind [OF dlg_optional [OF api]], assumption, assumption, elim conjE)
    apply (rule dlg_bind [OF dlg_keys(1)], assumption)
    apply (rule dlg_bind [OF dlg_keys(2)], assumption)
    apply (rule dlg_prod, simp only: prod.case)
    apply (rule dlg_bind [OF dlg_keys(3)], assumption)
    apply (rule dlg_bind [OF dlg_create_roles [OF api me]], assumption)
    apply (rule dlg_bind [OF dlg_reserve], assumption)
    apply (rule last, assumption)
    done
qed

lemma creation_ready_call: "create_ready (ce_lib (cw_cli E)) r \<Longrightarrow>
    creation_ready E StableCoin_create (CreateRequest (ce_lib (cw_cli E)) r)"
  by (auto simp: creation_ready_def)

lemma create_call:
  assumes "fixed_number_api (rl_lib (ce_lib (cw_cli E)))" "account_ok (ce_accountId (cw_cli E))"
    and "checkContractId (rl_parsesContract (ce_lib (cw_cli E))) (JString (cw_factory E)) = Inr []"
  shows "dlg (creation_ready E) (createStableCoin E) (\<lambda>_. True)"
  unfolding createStableCoin_def Let_def
  apply (rule dlg_bind [OF wizard_ready [OF assms]])
  apply (rule dlg_option)
   apply (rule dlg_ret, rule TrueI)
  apply (rule dlg_prod)
  apply (rule dlg_bind [OF dlg_lift_value])
  apply (rule dlg_if)
   apply (rule dlg_waiting)
  apply (rule dlg_bind [where R = "\<lambda>_. True"])
   apply (rule dlg_if; rule dlg_run dlg_ret; simp)
  apply (rule dlg_bind [OF dlg_call])
   apply (rule creation_ready_call, blast)
  apply (rule dlg_bind [OF dlg_run], simp)
  apply (rule dlg_bind [where R = "\<lambda>_. True"])
   apply (rule dlg_if; rule dlg_run dlg_ret; simp)
  apply (rule dlg_ret, rule TrueI)
  done

text \<open>
  Property C35. The wizard of creation sends only requests that pass the validation as a whole: every answer is
  checked when it is given, the later ones (the initial supply, the allowance, the reserve) against the earlier
  ones, and no part of the wizard makes an answer given before invalid. More than eighty decimals, which the request
  does not refuse, are outside of what the amounts can be read with.
\<close>

theorem wizard_request_validates:
  assumes "fixed_number_api (rl_lib (ce_lib (cw_cli E)))" "account_ok (ce_accountId (cw_cli E))"
    and "checkContractId (rl_parsesContract (ce_lib (cw_cli E))) (JString (cw_factory E)) = Inr []"
    and "ECall StableCoin_create req \<in> set (fst (createStableCoin E answers))"
  shows "\<exists>r. req = CreateRequest (ce_lib (cw_cli E)) r \<and> (rc_decimals r \<le> 80 \<longrightarrow> validate req None = [])"
proof -
  have "creation_ready E StableCoin_create req" by (rule dlg_calls [OF create_call [OF assms(1-3)] assms(4)])
  then show ?thesis using create_ready_ok create_ok_passes by (auto simp: creation_ready_def)
qed

text \<open>A creation with the answers of a user who takes every default and assigns no role.\<close>

definition create_sample :: create_env where
  "create_sample =
     \<lparr>cw_cli = cli_sample\<lparr>ce_number := \<lambda>_. Some 1\<rparr>, cw_type = SELF_CUSTODIAL, cw_configured = True,
      cw_custodialKey = None, cw_privateKey = None, cw_factory = ''0.0.5'', cw_resolver = ''0.0.6'',
      cw_sdkFactory = ''0.0.5'', cw_sdkResolver = ''0.0.6'', cw_parseFloat = (\<lambda>_. Some 6),
      cw_created = (\<lambda>_. Inr ''0.0.9'')\<rparr>"

definition sample_config :: string where
  "sample_config = ''0x'' @ replicate 64 (CHR ''1'')"

definition create_answers :: "answer list" where
  "create_answers =
     [ALine ''Coin'', ALine ''CN'', ALine sample_config, ALine ''1'', AConfirm False, AConfirm True,
      AConfirm False, AConfirm False, AConfirm False, AConfirm False, AConfirm True]"

theorem wizard_request_validates_witness:
  "\<exists>req. ECall StableCoin_create req \<in> set (fst (createStableCoin create_sample create_answers)) \<and>
     validate req None = []"
proof -
  let ?named = "(new_creation ''0.0.8'')\<lparr>rc_name := ''Coin'', rc_symbol := ''CN'',
    rc_configId := sample_config, rc_configVersion := 1, rc_freezeKey := Some NullPublicKey,
    rc_wipeKey := Some NullPublicKey, rc_pauseKey := Some NullPublicKey\<rparr>"
  let ?r = "(default_roles ''0.0.8'' ?named)\<lparr>rc_stableCoinFactory := Some ''0.0.5''\<rparr>"
  have checks: "checkName ''Coin'' = []" "checkSymbol ''CN'' = []"
    "checkBytes32Format (JString sample_config) = Inr []"
    by code_simp+
  have sent: "ECall StableCoin_create (CreateRequest sample_lib ?r)
      \<in> set (fst (createStableCoin create_sample create_answers))"
    by (simp add: createStableCoin_def wizardCreateStableCoin_def create_answers_def create_sample_def Let_def
        run_dialog ask_create_def ask_create_number_def field_errors_def selectResolverConfiguration_def whole_def
        create_fields checks optional_props_def managed_features_def kyc_key_def fee_key_def create_roles_def
        create_reserve_def liftD_def throwD_def isAccountConfigValid_def)
  have api: "fixed_number_api (rl_lib (ce_lib (cw_cli create_sample)))" "account_ok (ce_accountId (cw_cli create_sample))"
    "checkContractId (rl_parsesContract (ce_lib (cw_cli create_sample))) (JString (cw_factory create_sample)) = Inr []"
    using exact.fixed_number_api_axioms sample_accounts_ok
    by (simp_all add: create_sample_def) (simp add: sample_lib_def checkContractId_def ContractId_validate_def; code_simp)
  obtain r where "CreateRequest sample_lib ?r = CreateRequest (ce_lib (cw_cli create_sample)) r"
    "rc_decimals r \<le> 80 \<longrightarrow> validate (CreateRequest sample_lib ?r) None = []"
    using wizard_request_validates [OF api sent] by blast
  moreover from this(1) have "rc_decimals r = rc_decimals ?r"
    by (simp add: CreateRequest_def Let_def)
  ultimately have "validate (CreateRequest sample_lib ?r) None = []"
    by (simp add: default_roles_def new_creation_def)
  with sent show ?thesis by blast
qed

end
