(* ===== verification/Cli_Loops.thy ===== *)
theory Cli_Loops
  imports Cli_Wizard Cli_Create_Properties
begin

text \<open>
  The loops of the configuration dialogs: what a loop keeps, and that the fuel of the models is enough.
\<close>

section \<open>Loops\<close>

lemma dlg_rounds:
  assumes "Inv s" and "\<And>s. Inv s \<Longrightarrow> dlg P (f s) (\<lambda>(s', more). Inv s')"
  shows "dlg P (roundsD n f s) Inv"
  using assms(1)
proof (induction n arbitrary: s)
  case (Suc n)
  show ?case
    unfolding roundsD.simps
    by (rule dlg_bind [OF assms(2) [OF Suc.prems]]) (auto intro: Suc.IH dlg_ret)
qed (simp add: dlg_waiting)

text \<open>A loop that has run once: the invariant need not hold before.\<close>

lemma dlg_loop:
  assumes "\<And>s'. s' = s \<or> Inv s' \<Longrightarrow> dlg P (f s') (\<lambda>(s'', more). Inv s'')"
  shows "dlg P (loopD f s) Inv"
proof -
  have "dlg P (roundsD (Suc n) f s) Inv" for n
    unfolding roundsD.simps
    by (rule dlg_bind [where R = "\<lambda>(s', more). Inv s'"])
      (use assms in \<open>auto intro!: dlg_rounds [where Inv = Inv] dlg_ret\<close>)
  then show ?thesis by (auto simp: dlg_def loopD_def)
qed

lemma dlg_ask_until: "dlg P (ask_until check) (\<lambda>s. check s = None)"
proof (rule dlgI)
  show "P op req" if "ECall op req \<in> set (fst (ask_until check answers))" for answers op req
    using that by (induction check answers rule: ask_until.induct) (auto simp: Let_def split: option.splits prod.splits)
  show "check x = None" if "snd (ask_until check answers) = Done x rest" for answers x rest
    using that by (induction check answers rule: ask_until.induct) (auto simp: Let_def split: option.splits prod.splits)
qed

lemma dlg_ask_again: "dlg P (ask_again check s) (\<lambda>s. check s = None)"
  unfolding ask_again_def
  by (cases "check s") (auto intro: dlg_ret dlg_bind [OF dlg_show] dlg_ask_until)

lemma dlg_node_key: "dlg P ask_node_key (\<lambda>_. True)"
  unfolding ask_node_key_def by (rule dlg_rules | simp)+

lemma check_none [simp]: "telling m ok s = None \<longleftrightarrow> ok s" "silently ok s = None \<longleftrightarrow> ok s"
  by (simp_all add: telling_def silently_def)

lemma dlg_any: "dlg (\<lambda>_ _. True) m (\<lambda>_. True)"
  by (simp add: dlg_def)

text \<open>
  The fuel of a loop whose rounds read answers is enough: with more fuel it runs the same.
\<close>

definition reads :: "'a dialog \<Rightarrow> bool" where
  "reads m \<longleftrightarrow> (\<forall>answers x rest. snd (m answers) = Done x rest \<longrightarrow> length rest < length answers)"

lemma readsD: "reads m \<Longrightarrow> m answers = (ev, Done x rest) \<Longrightarrow> length rest < length answers"
  unfolding reads_def by (metis snd_conv)

lemma rounds_enough:
  assumes "\<And>s. reads (f s)" "length answers < n" "length answers < k"
  shows "roundsD n f s answers = roundsD k f s answers"
  using assms(2,3)
proof (induction n arbitrary: k s answers)
  case (Suc n)
  then obtain k' where k: "k = Suc k'" by (cases k) auto
  show ?case
  proof (cases "f s answers")
    case (Pair ev t)
    show ?thesis
    proof (cases t)
      case (Done x rest)
      obtain s' more where x: "x = (s', more)" by (cases x)
      have "length rest < length answers" by (rule readsD [OF assms(1) Pair [unfolded Done]])
      then have "roundsD n f s' rest = roundsD k' f s' rest" using Suc.prems k by (intro Suc.IH) simp_all
      then show ?thesis by (simp add: Pair Done k x bindD_def)
    qed (simp_all add: Pair k bindD_def)
  qed
qed simp

lemma loop_unfold:
  assumes "\<And>s. reads (f s)"
  shows "loopD f s answers = bindD (f s) (\<lambda>(s', more). if more then loopD f s' else retD s') answers"
proof (cases "f s answers")
  case (Pair ev t)
  show ?thesis
  proof (cases t)
    case (Done x rest)
    have "length rest < length answers" by (rule readsD [OF assms Pair [unfolded Done]])
    then have "roundsD (length answers) f s' rest = roundsD (Suc (length rest)) f s' rest" for s'
      by (intro rounds_enough assms) simp_all
    then show ?thesis using Pair Done by (cases x) (auto simp: loopD_def bindD_def)
  qed (simp_all add: Pair loopD_def bindD_def)
qed

text \<open>A dialog gives no answers back.\<close>

definition consumes :: "'a dialog \<Rightarrow> bool" where
  "consumes m \<longleftrightarrow> (\<forall>answers x rest. snd (m answers) = Done x rest \<longrightarrow> length rest \<le> length answers)"

named_theorems reading

lemma reads_consumes: "reads m \<Longrightarrow> consumes m"
  by (auto simp: reads_def consumes_def intro: less_imp_le)

lemma consumes_bind [reading]:
  assumes "consumes m" "\<And>x. consumes (f x)"
  shows "consumes (bindD m f)"
  unfolding consumes_def
proof (intro allI impI)
  fix answers y rest
  assume "snd (bindD m f answers) = Done y rest"
  then obtain x r where "snd (m answers) = Done x r" "snd (f x r) = Done y rest"
    by (auto simp: bindD_parts split: turn.splits)
  with assms show "length rest \<le> length answers" unfolding consumes_def by (meson order_trans)
qed

lemma reads_bind [reading]:
  assumes "reads m" "\<And>x. consumes (f x)"
  shows "reads (bindD m f)"
  unfolding reads_def
proof (intro allI impI)
  fix answers y rest
  assume "snd (bindD m f answers) = Done y rest"
  then obtain x r where "snd (m answers) = Done x r" "snd (f x r) = Done y rest"
    by (auto simp: bindD_parts split: turn.splits)
  with assms show "length rest < length answers" unfolding consumes_def reads_def by (meson order_le_less_trans)
qed

lemma consumes_basic [reading]:
  "consumes (retD x)" "consumes (showD es)" "consumes (throwD e)" "consumes (\<lambda>answers. ([], Waiting))"
  by (simp_all add: consumes_def retD_def showD_def throwD_def)

lemma reads_ask [reading]:
  "reads defaultSingleAsk" "reads defaultConfirmAsk" "reads (defaultMultipleAsk choices)"
  by (auto simp: reads_def defaultSingleAsk_def defaultConfirmAsk_def defaultMultipleAsk_def ask_def
      split: list.splits option.splits)

lemma reads_until [reading]: "reads (ask_until check)"
proof -
  have "length rest < length answers" if "snd (ask_until check answers) = Done x rest" for answers x rest
    using that by (induction check answers rule: ask_until.induct) (fastforce simp: Let_def split: option.splits prod.splits)+
  then show ?thesis by (simp add: reads_def)
qed

lemma reads_path [reading]: "reads (askForFilePath E matched)"
proof -
  have "length rest < length answers" if "snd (askForFilePath E matched answers) = Done x rest" for answers x rest
    using that by (induction E matched answers rule: askForFilePath.induct)
      (fastforce simp: Let_def split: option.splits if_splits)+
  then show ?thesis by (simp add: reads_def)
qed

lemma consumes_branch [reading]:
  "consumes m \<Longrightarrow> consumes n \<Longrightarrow> consumes (if b then m else n)"
  "consumes m \<Longrightarrow> (\<And>x. consumes (f x)) \<Longrightarrow> consumes (case opt of None \<Rightarrow> m | Some x \<Rightarrow> f x)"
  "(\<And>e. consumes (g e)) \<Longrightarrow> (\<And>x. consumes (f x)) \<Longrightarrow> consumes (case r of Inl e \<Rightarrow> g e | Inr x \<Rightarrow> f x)"
  "(\<And>x y. consumes (h x y)) \<Longrightarrow> consumes (case p of (x, y) \<Rightarrow> h x y)"
  by (simp_all split: option.split sum.split prod.split)

lemma consumes_again [reading]: "consumes (ask_again check s)"
  unfolding ask_again_def by (intro reading reads_consumes [OF reads_until])

lemma consumes_loop [reading]: "(\<And>s. consumes (f s)) \<Longrightarrow> consumes (loopD f s)"
proof -
  assume f: "\<And>s. consumes (f s)"
  have "consumes (roundsD n f s)" for n
    by (induction n arbitrary: s) (simp_all add: reading f case_prod_beta)
  then show ?thesis unfolding consumes_def loopD_def by blast
qed

lemmas consumes_asks [reading] = reads_ask [THEN reads_consumes] reads_until [THEN reads_consumes] reads_path [THEN reads_consumes]

lemma consumes_custodian [reading]: "consumes (ask_custodian E a)"
  unfolding ask_custodian_def askForPrivateKeyOfAccount_def askForPrivateKeyType_def
    askForFireblocksOfAccount_def askForDfnsOfAccount_def askForAWSKMSAccountConfig_def askForApiKey_def
    askForUrl_def askForHederaAccountPublicKey_def askForDfnsCredentialId_def askForDfnsAppId_def askForDfnsWalletId_def
    Let_def
  by (cases "ca_type a") (simp_all only: account_type.case, (intro reading)+)

lemma reads_account [reading]: "reads (ask_account E networks accounts)"
  unfolding ask_account_def askForAccountType_def by (intro reading)

lemma reads_nodes [reading]:
  "reads (first_node valid message networks nodes)"
  unfolding first_node_def Let_def by (intro reading)

lemma consumes_key [reading]: "consumes ask_node_key"
  unfolding ask_node_key_def by (intro reading)

lemma consumes_custom [reading]: "consumes (configureCustomNetwork E name cfg)"
  unfolding configureCustomNetwork_def by (intro reading)

section \<open>The fuel of the default network\<close>

lemma bindD_assoc: "bindD (bindD m f) g answers = bindD m (\<lambda>x. bindD (f x) g) answers"
  by (cases "m answers"; cases "snd (m answers)") (simp_all add: bindD_def split: prod.split turn.split)

lemma bindD_ret: "bindD (retD x) f = f x"
  by (rule ext) (simp add: bindD_def retD_def)

lemma bindD_cong: "(\<And>x rest. snd (m answers) = Done x rest \<Longrightarrow> f x rest = g x rest) \<Longrightarrow> bindD m f answers = bindD m g answers"
  by (cases "m answers"; cases "snd (m answers)") (simp_all add: bindD_def)

lemma bindD_cong2:
  assumes "m answers = m' answers"
    and "\<And>x rest. snd (m answers) = Done x rest \<Longrightarrow> f x rest = g x rest"
  shows "bindD m f answers = bindD m' g answers"
  using bindD_cong [of m answers f g] assms by (simp add: bindD_def)

lemma consumes_default [reading]: "consumes (default_network n E given cfg)"
  by (induction n arbitrary: given cfg) (simp_all only: default_network.simps, (intro reading | assumption)+)

lemma consumesD: "consumes m \<Longrightarrow> snd (m answers) = Done x rest \<Longrightarrow> length rest \<le> length answers"
  by (simp add: consumes_def)

lemma readsD2: "reads m \<Longrightarrow> snd (m answers) = Done x rest \<Longrightarrow> length rest < length answers"
  by (simp add: reads_def)

lemma default_network_step:
  assumes again: "\<And>c rest. length rest \<le> l \<Longrightarrow> default_network n E None c rest = default_network j E None c rest"
    and start: "\<And>network rest. snd ((case given of Some s \<Rightarrow> retD s | None \<Rightarrow> defaultMultipleAsk (map nf_name (cf_networks cfg)))
      answers) = Done network rest \<Longrightarrow> length rest \<le> l"
  shows "default_network (Suc n) E given cfg answers = default_network (Suc j) E given cfg answers"
proof -
  let ?bad = "\<lambda>n network. if network = [] \<or> network = ''mainnet|previewnet|testnet|local''
    then bindD (showD [JsError ''Incorrect input, retrying'']) (\<lambda>_. default_network n E None cfg) else retD (cfg, network)"
  let ?custom = "\<lambda>n (cfg, network). bindD (if network \<in> {''mainnet'', ''previewnet'', ''testnet'', ''local''} then retD (cfg, network)
    else bindD defaultSingleAsk (\<lambda>response. if response = ''y'' \<or> response = ''yes''
      then bindD (configureCustomNetwork E network cfg) (\<lambda>cfg. retD (cfg, network)) else default_network n E None cfg))
    (\<lambda>(cfg, network). retD (cfg\<lparr>cf_defaultNetwork := network\<rparr>, network))"
  have bad: "?bad n network rest = ?bad j network rest" if "length rest \<le> l" for network rest
    by (auto intro!: bindD_cong again simp: showD_def that)
  have custom: "?custom n p rest = ?custom j p rest" if "length rest \<le> l" for p rest
  proof -
    obtain c network where p: "p = (c, network)" by (cases p)
    show ?thesis
      unfolding p prod.case
      by (rule bindD_cong2, cases "network \<in> {''mainnet'', ''previewnet'', ''testnet'', ''local''}")
        (use that in \<open>auto intro!: bindD_cong again dest!: readsD2 [OF reads_ask(1)]\<close>)
  qed
  show ?thesis
    unfolding default_network.simps
  proof (rule bindD_cong)
    fix network rest
    assume "snd ((case given of Some s \<Rightarrow> retD s | None \<Rightarrow> defaultMultipleAsk (map nf_name (cf_networks cfg))) answers) = Done network rest"
    then have rest: "length rest \<le> l" by (rule start)
    show "bindD (?bad n network) (?custom n) rest = bindD (?bad j network) (?custom j) rest"
    proof (rule bindD_cong2, rule bad [OF rest])
      fix p rest'
      assume "snd (?bad n network rest) = Done p rest'"
      moreover have "consumes (?bad n network)" by (intro reading)
      ultimately have "length rest' \<le> length rest" by (rule consumesD [rotated])
      then show "?custom n p rest' = ?custom j p rest'" using rest by (intro custom) simp
    qed
  qed
qed

lemma default_network_none:
  assumes "length answers < n" "length answers < k"
  shows "default_network n E None cfg answers = default_network k E None cfg answers"
  using assms
proof (induction n arbitrary: k cfg answers)
  case (Suc n)
  then obtain j where k: "k = Suc j" by (cases k) auto
  show ?case
  proof (cases "answers = []")
    case True
    then show ?thesis unfolding k by (simp add: bindD_def defaultMultipleAsk_def ask_def)
  next
    case False
    show ?thesis
      unfolding k
    proof (rule default_network_step [where l = "length answers - 1"])
      show "length rest \<le> length answers - 1"
        if "snd ((case None of Some s \<Rightarrow> retD s | None \<Rightarrow> defaultMultipleAsk (map nf_name (cf_networks cfg))) answers) = Done network rest"
        for network rest
        using readsD2 [OF reads_ask(3), of "map nf_name (cf_networks cfg)"] that by fastforce
      show "default_network n E None c rest = default_network j E None c rest" if "length rest \<le> length answers - 1" for c rest
        using that Suc.prems k False by (intro Suc.IH) (cases answers; simp)+
    qed
  qed
qed simp

text \<open>The fuel of the default network: with one more than there are answers, and one more for a name that is given.\<close>
lemma default_network_enough:
  assumes "Suc (length answers) < n" "Suc (length answers) < k"
  shows "default_network n E given cfg answers = default_network k E given cfg answers"
proof (cases given)
  case (Some s)
  obtain i j where ij: "n = Suc i" "k = Suc j" using assms by (metis not_less_zero not0_implies_Suc)
  show ?thesis
    unfolding ij Some
    by (rule default_network_step [where l = "length answers"])
      (use assms ij in \<open>auto intro: default_network_none simp: retD_def\<close>)
qed (use assms in \<open>simp add: default_network_none\<close>)

section \<open>The loops of the configuration\<close>

lemma reads_choose [reading]: "reads (chooseAccount E network s)"
  unfolding chooseAccount_def Let_def by (intro reading)

text \<open>
  The loops of the configuration go on as the code's do: no dialog waits because the fuel of its
  model is used up. An account is chosen until the SDK can be initialised with it, each time from the accounts of the
  configuration; the loop of the first nodes goes round as long as the user wants more; and the question for the default
  network has the same result with any fuel beyond the number of the answers.
\<close>
theorem dialog_loops:
  "chooseUntilInit E network s answers =
     bindD (chooseAccount E network s) (\<lambda>(s', r).
       case r of Inl e \<Rightarrow> retD (s', Inl e)
       | Inr _ \<Rightarrow> (case initSDK E s' of Inl _ \<Rightarrow> chooseUntilInit E network s' | Inr _ \<Rightarrow> retD (s', Inr ()))) answers \<and>
   loopD (first_node valid message networks) nodes answers =
     bindD (first_node valid message networks nodes) (\<lambda>(nodes', more).
       if more then loopD (first_node valid message networks) nodes' else retD nodes') answers \<and>
   default_network (length answers + 2 + k) G given cfg answers = default_network (length answers + 2) G given cfg answers"
proof (intro conjI)
  let ?f = "\<lambda>(s, x). bindD (chooseAccount E network s) (\<lambda>(s, r).
       case r of
         Inl e \<Rightarrow> retD ((s, Inl e), False)
       | Inr _ \<Rightarrow> retD ((s, Inr ()), case initSDK E s of Inl _ \<Rightarrow> True | Inr _ \<Rightarrow> False))"
  have "reads (?f p)" for p
    by (cases p) (simp only: prod.case, intro reading)
  note loop = loop_unfold [of ?f, OF this]
  show "chooseUntilInit E network s answers =
     bindD (chooseAccount E network s) (\<lambda>(s', r).
       case r of Inl e \<Rightarrow> retD (s', Inl e)
       | Inr _ \<Rightarrow> (case initSDK E s' of Inl _ \<Rightarrow> chooseUntilInit E network s' | Inr _ \<Rightarrow> retD (s', Inr ()))) answers"
    unfolding chooseUntilInit_def loop [of "(s, Inr ())" answers] prod.case bindD_assoc
    by (rule bindD_cong) (auto simp: bindD_ret split: sum.split)
qed (rule loop_unfold [OF reads_nodes], rule default_network_enough, simp_all)

end
