(* ===== verification/Cli_Wizard_Properties.thy ===== *)
theory Cli_Wizard_Properties
  imports Cli_Loops
begin

text \<open>
  Properties of the configuration of the command line: what every session with its menus keeps, the sessions that
  cannot be continued, and the account that a deletion removes.
\<close>

section \<open>Nodes\<close>

text \<open>
  In each network the names of the nodes are different and at most one node is selected.
\<close>

definition nodes_ok :: "node_config list \<Rightarrow> bool" where
  "nodes_ok nodes \<longleftrightarrow>
     distinct (map (\<lambda>n. (nd_network n, nd_name n)) nodes) \<and>
     (\<forall>x \<in> set nodes. \<forall>y \<in> set nodes. nd_selected x \<and> nd_selected y \<and> nd_network x = nd_network y \<longrightarrow> x = y)"

lemma node_of_key:
  assumes "nodes_ok nodes" "x \<in> set nodes" "y \<in> set nodes" "nd_network x = nd_network y" "nd_name x = nd_name y"
  shows "x = y"
  using assms by (auto simp: nodes_ok_def distinct_map dest: inj_onD)

lemma deselect_member: "x \<in> set (deselect p nodes) \<Longrightarrow> x \<in> set nodes \<and> \<not> p x \<or> \<not> nd_selected x"
  by (auto simp: deselect_def)

lemma deselect_key: "map (\<lambda>n. (nd_network n, nd_name n)) (deselect p nodes) = map (\<lambda>n. (nd_network n, nd_name n)) nodes"
  by (auto simp: deselect_def)

lemma name_used_key:
  "name_used nodes network name \<longleftrightarrow> (network, name) \<in> set (map (\<lambda>n. (nd_network n, nd_name n)) nodes)"
  by (auto simp: name_used_def)

lemma deselect_ok: "nodes_ok nodes \<Longrightarrow> nodes_ok (deselect p nodes)"
  unfolding nodes_ok_def deselect_key using deselect_member by blast

lemma add_node_ok:
  assumes "nodes_ok nodes" "\<not> name_used nodes (nd_network n) (nd_name n)"
    and "nd_selected n \<Longrightarrow> \<forall>x \<in> set nodes. nd_network x = nd_network n \<longrightarrow> \<not> nd_selected x"
  shows "nodes_ok (nodes @ [n])"
  using assms by (auto simp: nodes_ok_def name_used_def)

lemma select_first_key:
  "map (\<lambda>n. (nd_network n, nd_name n)) (select_first p nodes) = map (\<lambda>n. (nd_network n, nd_name n)) nodes"
  by (induction p nodes rule: select_first.induct) auto

lemma select_first_member: "x \<in> set (select_first p nodes) \<Longrightarrow> x \<in> set nodes \<or> (\<exists>n \<in> set nodes. p n \<and> x = n\<lparr>nd_selected := True\<rparr>)"
  by (induction p nodes rule: select_first.induct) (auto split: if_splits)

lemma select_node_ok:
  assumes "nodes_ok nodes"
  shows "nodes_ok (select_node network name nodes)"
proof -
  let ?ns = "select_node network name nodes"
  have key: "map (\<lambda>n. (nd_network n, nd_name n)) ?ns = map (\<lambda>n. (nd_network n, nd_name n)) nodes"
    by (simp add: select_node_def deselect_key select_first_key)
  then have distinct: "distinct (map (\<lambda>n. (nd_network n, nd_name n)) ?ns)" using assms by (simp add: nodes_ok_def)
  have here: "nd_name x = name" if "x \<in> set ?ns" "nd_selected x" "nd_network x = network" for x
    using that deselect_member unfolding select_node_def by blast
  have other: "x \<in> set nodes" if "x \<in> set ?ns" "nd_selected x" "nd_network x \<noteq> network" for x
    using that unfolding select_node_def by (auto dest!: deselect_member select_first_member)
  have "x = y" if "x \<in> set ?ns" "y \<in> set ?ns" "nd_selected x" "nd_selected y" "nd_network x = nd_network y" for x y
  proof (cases "nd_network x = network")
    case True
    then have "nd_name x = nd_name y" using here that by metis
    then show ?thesis using distinct that by (auto simp: distinct_map dest: inj_onD)
  next
    case False
    then show ?thesis using other that assms by (auto simp: nodes_ok_def)
  qed
  then show ?thesis using distinct by (auto simp: nodes_ok_def)
qed

lemma select_last_ok:
  assumes "nodes_ok nodes" "nodes \<noteq> []" "nd_network (last nodes) = network"
  shows "nodes_ok (select_last network nodes)"
proof -
  let ?p = "\<lambda>n. nd_network n = network" and ?l = "(last nodes)\<lparr>nd_selected := True\<rparr>"
  have key: "map (\<lambda>n. (nd_network n, nd_name n)) (select_last network nodes) = map (\<lambda>n. (nd_network n, nd_name n)) nodes"
    using assms(2)
    by (induction nodes rule: rev_induct) (simp_all add: select_last_def deselect_def)
  have member: "x = ?l \<or> (x \<in> set nodes \<and> nd_network x \<noteq> network)"
    if "x \<in> set (select_last network nodes)" "nd_selected x" for x
    using that by (auto simp: select_last_def dest!: in_set_butlastD deselect_member)
  have "x = y" if "x \<in> set (select_last network nodes)" "y \<in> set (select_last network nodes)" "nd_selected x"
    "nd_selected y" "nd_network x = nd_network y" for x y
  proof (cases "nd_network x = network")
    case True
    then show ?thesis using member that by metis
  next
    case False
    then have "x \<noteq> ?l" "y \<noteq> ?l" using assms(3) that(5) by auto
    then have "x \<in> set nodes" "y \<in> set nodes" using member that by blast+
    then show ?thesis using assms(1) that by (auto simp: nodes_ok_def)
  qed
  moreover have "distinct (map (\<lambda>n. (nd_network n, nd_name n)) (select_last network nodes))"
    using key assms(1) by (simp add: nodes_ok_def)
  ultimately show ?thesis unfolding nodes_ok_def by blast
qed

lemma map_nodes_ok:
  assumes "nodes_ok nodes"
    and "\<And>n. nd_network (g n) = nd_network n" "\<And>n. nd_name (g n) = nd_name n" "\<And>n. nd_selected (g n) = nd_selected n"
  shows "nodes_ok (map g nodes)"
proof -
  have "map (\<lambda>n. (nd_network n, nd_name n)) (map g nodes) = map (\<lambda>n. (nd_network n, nd_name n)) nodes"
    by (simp add: assms(2,3))
  moreover have "x = y" if "x \<in> set (map g nodes)" "y \<in> set (map g nodes)" "nd_selected x" "nd_selected y"
    "nd_network x = nd_network y" for x y
  proof -
    obtain a b where ab: "x = g a" "a \<in> set nodes" "y = g b" "b \<in> set nodes" using \<open>x \<in> _\<close> \<open>y \<in> _\<close> by auto
    then have "a = b" using that assms by (auto simp: nodes_ok_def)
    then show ?thesis using ab by simp
  qed
  ultimately show ?thesis using assms(1) unfolding nodes_ok_def by metis
qed

lemma mask_ok: "nodes_ok nodes \<Longrightarrow> nodes_ok (maskMirrorNodes nodes)" "nodes_ok nodes \<Longrightarrow> nodes_ok (maskRPCs nodes)"
  unfolding maskMirrorNodes_def maskRPCs_def by (rule map_nodes_ok; simp)+

lemma filter_nodes_ok: "nodes_ok nodes \<Longrightarrow> nodes_ok (filter p nodes)"
  by (auto simp: nodes_ok_def distinct_map intro: inj_on_subset)

lemma dlg_remove_node:
  "nodes_ok nodes \<Longrightarrow> dlg P (remove_node current network nodes) (\<lambda>r. \<forall>ns. r = Some ns \<longrightarrow> nodes_ok ns)"
  unfolding remove_node_def Let_def
  by (intro dlg_if dlg_ret dlg_bind [OF dlg_pick] dlg_option dlg_bind [OF dlg_asks(2)])
    (auto split: prod.split intro: filter_nodes_ok dlg_ret)

section \<open>The dialogs of the configuration\<close>

definition tokens_ok :: "account_config \<Rightarrow> bool" where
  "tokens_ok a \<longleftrightarrow> (\<forall>ts. ca_importedTokens a = Some ts \<longrightarrow> distinct (map fst ts))"

text \<open>The nodes, the aliases and the imported tokens of a configuration.\<close>

definition config_ok :: "cli_configuration \<Rightarrow> bool" where
  "config_ok cfg \<longleftrightarrow> nodes_ok (cf_mirrors cfg) \<and> nodes_ok (cf_rpcs cfg) \<and>
     distinct (map ca_alias (cf_accounts cfg)) \<and> (\<forall>a \<in> set (cf_accounts cfg). tokens_ok a)"

text \<open>The mirrors after some have been added to the network.\<close>

definition mirrors_added :: "string \<Rightarrow> cli_configuration \<Rightarrow> cli_configuration \<Rightarrow> bool" where
  "mirrors_added network cfg cfg' \<longleftrightarrow> nodes_ok (cf_mirrors cfg') \<and> cf_mirrors cfg' \<noteq> [] \<and>
     nd_network (last (cf_mirrors cfg')) = network \<and> cfg' = cfg\<lparr>cf_mirrors := cf_mirrors cfg'\<rparr>"

definition rpcs_added :: "string \<Rightarrow> cli_configuration \<Rightarrow> cli_configuration \<Rightarrow> bool" where
  "rpcs_added network cfg cfg' \<longleftrightarrow> nodes_ok (cf_rpcs cfg') \<and> cf_rpcs cfg' \<noteq> [] \<and>
     nd_network (last (cf_rpcs cfg')) = network \<and> cfg' = cfg\<lparr>cf_rpcs := cf_rpcs cfg'\<rparr>"

text \<open>Every dialog of this theory is looked at for its results only.\<close>

abbreviation gives :: "'a dialog \<Rightarrow> ('a \<Rightarrow> bool) \<Rightarrow> bool" where
  "gives \<equiv> dlg (\<lambda>_ _. True)"

lemma gives_skip: "(\<And>x. gives (f x) Q) \<Longrightarrow> gives (bindD m f) Q"
  by (rule dlg_bind [OF dlg_any])

lemma node_added:
  assumes "name_used nodes network name = False" "nodes_ok nodes"
  shows "nodes_ok (nodes @ [\<lparr>nd_name = name, nd_network = network, nd_baseUrl = url, nd_apiKey = k, nd_headerName = h,
    nd_selected = False\<rparr>])"
  using assms by (intro add_node_ok) simp_all

lemma dlg_mirrors_added:
  assumes "nodes_ok (cf_mirrors cfg)"
  shows "dlg P (configureMirrorNode network cfg) (mirrors_added network cfg)"
  unfolding configureMirrorNode_def
proof (rule dlg_loop)
  fix c assume "c = cfg \<or> mirrors_added network cfg c"
  then have "c = cfg\<lparr>cf_mirrors := cf_mirrors c\<rparr> \<and> nodes_ok (cf_mirrors c)"
    using assms by (elim disjE) (simp_all add: mirrors_added_def)
  then obtain ms where ms: "c = cfg\<lparr>cf_mirrors := ms\<rparr>" and ok: "nodes_ok ms" by blast
  then have c: "nodes_ok (cf_mirrors c)" "c\<lparr>cf_mirrors := m\<rparr> = cfg\<lparr>cf_mirrors := m\<rparr>" for m by simp_all
  show "dlg P (let mirrors = cf_mirrors c
     in bindD (ask_until (telling ''nameAlreadyInUse'' (\<lambda>name. \<not> name_used mirrors network name))) (\<lambda>name.
        bindD (ask_until (isValidMirrorNode mirrors network)) (\<lambda>url.
        bindD (ask_again (telling ''baseUrlAlreadyInUse'' (\<lambda>u. u \<notin> nd_baseUrl ` set mirrors)) url) (\<lambda>url.
        bindD ask_node_key (\<lambda>(apiKey, headerName).
        let node = \<lparr>nd_name = name, nd_network = network, nd_baseUrl = url, nd_apiKey = Some apiKey,
                    nd_headerName = Some headerName, nd_selected = False\<rparr>
        in bindD defaultConfirmAsk (\<lambda>more. retD (c\<lparr>cf_mirrors := mirrors @ [node]\<rparr>, more)))))))
    (\<lambda>(c', more). mirrors_added network cfg c')"
    unfolding Let_def
  proof (rule dlg_bind [OF dlg_ask_until], rule dlg_bind [OF dlg_ask_until], rule dlg_bind [OF dlg_ask_again], rule dlg_bind [OF dlg_node_key])
    fix name url url' and k :: "string \<times> string"
    assume "telling ''nameAlreadyInUse'' (\<lambda>name. \<not> name_used (cf_mirrors c) network name) name = None"
    then have "nodes_ok (cf_mirrors c @ [\<lparr>nd_name = name, nd_network = network, nd_baseUrl = url', nd_apiKey = Some a,
      nd_headerName = Some h, nd_selected = False\<rparr>])" for a h
      using c(1) by (intro add_node_ok) simp_all
    then show "dlg P (case k of (apiKey, headerName) \<Rightarrow> bindD defaultConfirmAsk (\<lambda>more. retD (c\<lparr>cf_mirrors := cf_mirrors c @
        [\<lparr>nd_name = name, nd_network = network, nd_baseUrl = url', nd_apiKey = Some apiKey,
          nd_headerName = Some headerName, nd_selected = False\<rparr>]\<rparr>, more))) (\<lambda>(c', more). mirrors_added network cfg c')"
      by (cases k) (simp add: mirrors_added_def c dlg_bind [OF dlg_asks(2)] dlg_ret)
  qed
qed

lemma dlg_rpcs_added:
  assumes "nodes_ok (cf_rpcs cfg)"
  shows "gives (configureRPC network cfg) (rpcs_added network cfg)"
  unfolding configureRPC_def
proof (rule dlg_loop)
  fix c assume "c = cfg \<or> rpcs_added network cfg c"
  then have "c = cfg\<lparr>cf_rpcs := cf_rpcs c\<rparr> \<and> nodes_ok (cf_rpcs c)"
    using assms by (elim disjE) (simp_all add: rpcs_added_def)
  then obtain ms where ms: "c = cfg\<lparr>cf_rpcs := ms\<rparr>" and ok: "nodes_ok ms" by blast
  then have c: "nodes_ok (cf_rpcs c)" "c\<lparr>cf_rpcs := m\<rparr> = cfg\<lparr>cf_rpcs := m\<rparr>" for m by simp_all
  show "gives (let rpcs = cf_rpcs c
     in bindD (ask_until (telling ''duplicatedRPCName'' (\<lambda>name. \<not> name_used rpcs network name))) (\<lambda>name.
        bindD (ask_until (isValidRPC rpcs network)) (\<lambda>url.
        bindD ask_node_key (\<lambda>(apiKey, headerName).
        let node = \<lparr>nd_name = name, nd_network = network, nd_baseUrl = url, nd_apiKey = Some apiKey,
                    nd_headerName = Some headerName, nd_selected = False\<rparr>
        in bindD defaultConfirmAsk (\<lambda>more. retD (c\<lparr>cf_rpcs := rpcs @ [node]\<rparr>, more))))))
    (\<lambda>(c', more). rpcs_added network cfg c')"
    unfolding Let_def
    by (rule dlg_bind [OF dlg_ask_until], intro gives_skip)
      (auto simp: rpcs_added_def c node_added intro!: gives_skip dlg_ret)
qed

text \<open>The first configuration of the nodes makes a good list.\<close>

lemma first_node_ok:
  assumes "nodes_ok nodes"
  shows "gives (first_node valid message networks nodes) (\<lambda>(nodes', more). nodes_ok nodes')"
proof -
  have "nodes_ok ((if selected then deselect (\<lambda>n. nd_network n = network) nodes else nodes) @
      [\<lparr>nd_name = name, nd_network = network, nd_baseUrl = url, nd_apiKey = k, nd_headerName = h, nd_selected = selected\<rparr>])"
    if "\<not> name_used nodes network name" for network name url k h selected
  proof (cases selected)
    case True
    have "\<not> name_used (deselect (\<lambda>n. nd_network n = network) nodes) network name"
      using that unfolding name_used_key deselect_key .
    then have "nodes_ok (deselect (\<lambda>n. nd_network n = network) nodes @ [\<lparr>nd_name = name, nd_network = network,
        nd_baseUrl = url, nd_apiKey = k, nd_headerName = h, nd_selected = True\<rparr>])"
      using assms deselect_member by (intro add_node_ok) (simp_all add: deselect_ok, blast)
    then show ?thesis using True by simp
  qed (use that assms in \<open>simp add: node_added\<close>)
  then show ?thesis
    unfolding first_node_def Let_def
    by (intro gives_skip dlg_bind [OF dlg_ask_until]) (auto split: prod.split intro!: gives_skip dlg_ret)
qed

lemma nodes_ok_nil: "nodes_ok []"
  by (simp add: nodes_ok_def)

lemma first_nodes_ok: "gives (loopD (first_node valid message networks) []) nodes_ok"
  by (rule dlg_loop) (use first_node_ok nodes_ok_nil in blast)

lemma config_frames [simp]:
  "config_ok (cfg\<lparr>cf_networks := x\<rparr>) = config_ok cfg" "config_ok (cfg\<lparr>cf_defaultNetwork := n\<rparr>) = config_ok cfg"
  "config_ok (cfg\<lparr>cf_backend := b\<rparr>) = config_ok cfg" "config_ok (cfg\<lparr>cf_factories := f\<rparr>) = config_ok cfg"
  "config_ok (cfg\<lparr>cf_resolvers := f\<rparr>) = config_ok cfg"
  by (simp_all add: config_ok_def)

lemma config_mirrors: "config_ok cfg \<Longrightarrow> nodes_ok ms \<Longrightarrow> config_ok (cfg\<lparr>cf_mirrors := ms\<rparr>)"
  and config_rpcs: "config_ok cfg \<Longrightarrow> nodes_ok ms \<Longrightarrow> config_ok (cfg\<lparr>cf_rpcs := ms\<rparr>)"
  by (simp_all add: config_ok_def)

lemma first_mirrors_ok: "config_ok cfg \<Longrightarrow> gives (configureMirrors cfg) config_ok"
  unfolding configureMirrors_def by (rule dlg_bind [OF first_nodes_ok]) (simp add: dlg_ret config_mirrors)

lemma first_rpcs_ok: "config_ok cfg \<Longrightarrow> gives (configureRPCs cfg) config_ok"
  unfolding configureRPCs_def by (rule dlg_bind [OF first_nodes_ok]) (simp add: dlg_ret config_rpcs)

lemma default_nodes_ok: "config_ok cfg \<Longrightarrow> config_ok (configureDefaultMirrorsAndRPCs cfg)"
  unfolding configureDefaultMirrorsAndRPCs_def
  by (simp add: config_ok_def nodes_ok_def getDefaultMirrorByNetwork_def getDefaultRPCByNetwork_def)

lemma removal_ok:
  assumes "config_ok cfg"
  shows "gives (removeMirrorNode current network cfg) (\<lambda>r. \<forall>c. r = Some c \<longrightarrow> config_ok c)"
    and "gives (removeRPC current network cfg) (\<lambda>r. \<forall>c. r = Some c \<longrightarrow> config_ok c)"
  unfolding removeMirrorNode_def removeRPC_def
  by (rule dlg_bind [OF dlg_remove_node], use assms in \<open>simp add: config_ok_def\<close>,
      rule dlg_ret, use assms in \<open>auto simp: config_mirrors config_rpcs\<close>)+

section \<open>Accounts\<close>

lemma custodian_frame: "gives (ask_custodian E a) (\<lambda>a'. ca_alias a' = ca_alias a \<and> ca_importedTokens a' = ca_importedTokens a)"
  unfolding ask_custodian_def by (cases "ca_type a") (auto intro!: gives_skip dlg_ret)

lemma ask_account_new:
  "gives (ask_account E networks accounts) (\<lambda>a. ca_alias a \<notin> ca_alias ` set accounts \<and> tokens_ok a)"
  unfolding ask_account_def
  by (rule gives_skip, rule gives_skip, rule gives_skip, rule dlg_bind [OF dlg_ask_until],
      rule dlg_weaken [OF custodian_frame]) (auto simp: tokens_ok_def split: if_splits)

definition accounts_ok :: "account_config list \<Rightarrow> bool" where
  "accounts_ok accounts \<longleftrightarrow> distinct (map ca_alias accounts) \<and> (\<forall>a \<in> set accounts. tokens_ok a)"

lemma configure_accounts_ok:
  assumes "config_ok cfg"
  shows "gives (configureAccounts E cfg) config_ok"
  unfolding configureAccounts_def
proof (rule dlg_bind [OF dlg_loop [where Inv = accounts_ok]])
  have start: "accounts_ok (kept_accounts (cf_accounts cfg))"
    using assms by (auto simp: kept_accounts_def accounts_ok_def config_ok_def split: list.split)
  show "gives (bindD (ask_account E (cf_networks cfg) s) (\<lambda>a. bindD defaultConfirmAsk (\<lambda>more. retD (s @ [a], more))))
      (\<lambda>(s', more). accounts_ok s')" if "s = kept_accounts (cf_accounts cfg) \<or> accounts_ok s" for s
  proof -
    have s: "accounts_ok s" using that start by blast
    show ?thesis
      by (rule dlg_bind [OF ask_account_new], rule gives_skip, rule dlg_ret) (use s in \<open>auto simp: accounts_ok_def\<close>)
  qed
  show "gives (retD (cfg\<lparr>cf_accounts := accounts\<rparr>)) config_ok" if "accounts_ok accounts" for accounts
    using that assms by (intro dlg_ret) (simp add: config_ok_def accounts_ok_def)
qed

lemma delete_account_ok: "config_ok cfg \<Longrightarrow> config_ok (cfg\<lparr>cf_accounts := delete_account options chosen (cf_accounts cfg)\<rparr>)"
  by (auto simp: config_ok_def delete_account_def Let_def distinct_map intro: inj_on_subset)

section \<open>Networks, factories, backend\<close>

lemma custom_network_ok: "config_ok cfg \<Longrightarrow> gives (configureCustomNetwork E name cfg) config_ok"
  unfolding configureCustomNetwork_def by (intro gives_skip dlg_ret) simp

lemma default_network_ok: "config_ok cfg \<Longrightarrow> gives (default_network n E given cfg) (\<lambda>(c, network). config_ok c)"
proof (induction n arbitrary: given cfg)
  case (Suc n)
  have first: "gives (if network = [] \<or> network = ''mainnet|previewnet|testnet|local''
      then bindD (showD [JsError ''Incorrect input, retrying'']) (\<lambda>_. default_network n E None cfg) else retD (cfg, network))
      (\<lambda>(c, network). config_ok c)" for network
    using Suc by (intro dlg_if gives_skip dlg_ret) auto
  have second: "gives (if network \<in> {''mainnet'', ''previewnet'', ''testnet'', ''local''} then retD (c, network)
      else bindD defaultSingleAsk (\<lambda>response. if response = ''y'' \<or> response = ''yes''
        then bindD (configureCustomNetwork E network c) (\<lambda>cfg. retD (cfg, network)) else default_network n E None c))
      (\<lambda>(c, network). config_ok c)" if c: "config_ok c" for c network
    by (rule dlg_if, rule dlg_ret, simp add: c, rule gives_skip, rule dlg_if,
        rule dlg_bind [OF custom_network_ok [OF c]], simp add: dlg_ret, rule Suc.IH, rule c)
  show ?case
    unfolding default_network.simps
  proof (rule gives_skip, rule dlg_bind [OF first], elim case_prodE, simp only: prod.case, rule dlg_bind)
    fix network c network'
    assume "config_ok c"
    then show "gives (if network' \<in> {''mainnet'', ''previewnet'', ''testnet'', ''local''} then retD (c, network')
      else bindD defaultSingleAsk (\<lambda>response. if response = ''y'' \<or> response = ''yes''
        then bindD (configureCustomNetwork E network' c) (\<lambda>cfg. retD (cfg, network')) else default_network n E None c))
      (\<lambda>(c, network). config_ok c)" by (rule second)
  qed (auto intro!: dlg_ret)
qed (simp add: dlg_waiting)

lemma default_choice_ok:
  assumes "config_ok cfg"
  shows "gives (configureDefaultNetwork E given cfg) config_ok"
  unfolding configureDefaultNetwork_def
proof (rule dlg_bind)
  show "gives (\<lambda>answers. default_network (length answers + 2) E (if given = Some [] then None else given) cfg answers)
      (\<lambda>(c, network). config_ok c)"
    using default_network_ok [OF assms] unfolding dlg_def by blast
qed (auto intro: dlg_ret)

lemma factories_ok: "config_ok cfg \<Longrightarrow> gives (configureResolversAndFactories cfg) config_ok"
  unfolding configureResolversAndFactories_def by (intro gives_skip dlg_ret) simp

lemma backend_ok: "config_ok cfg \<Longrightarrow> gives (setBackendEndpoint E cfg) config_ok"
  unfolding setBackendEndpoint_def by (intro gives_skip dlg_ret) simp

lemma path_ok: "config_ok cfg \<Longrightarrow> config_ok (ge_default E) \<Longrightarrow> gives (configurePath E path cfg) config_ok"
  unfolding configurePath_def by (intro gives_skip dlg_if dlg_ret dlg_waiting)

section \<open>The menus\<close>

text \<open>
  The current account comes with tokens that are different, and the nodes that are current with it are of its network.
\<close>

definition current_ok :: "cli_current \<Rightarrow> bool" where
  "current_ok cu \<longleftrightarrow> (\<forall>a. cu_account cu = Some a \<longrightarrow> tokens_ok a \<and>
     (\<forall>m. cu_mirror cu = Some m \<longrightarrow> nd_network m = ca_network a) \<and>
     (\<forall>r. cu_rpc cu = Some r \<longrightarrow> nd_network r = ca_network a))"

definition wizard_ok :: "wizard \<Rightarrow> bool" where
  "wizard_ok s \<longleftrightarrow> config_ok (wz_config s) \<and> current_ok (wz_current s)"

abbreviation keeps :: "menu_result dialog \<Rightarrow> bool" where
  "keeps m \<equiv> gives m (\<lambda>(s, r). wizard_ok s)"

lemma keeps_ret: "wizard_ok s \<Longrightarrow> keeps (retD (s, r))"
  by (simp add: dlg_ret)

lemma wizard_config: "wizard_ok s \<Longrightarrow> config_ok cfg \<Longrightarrow> wizard_ok (s\<lparr>wz_config := cfg\<rparr>)"
  by (simp add: wizard_ok_def)

lemma config_of: "wizard_ok s \<Longrightarrow> config_ok (wz_config s)"
  by (simp add: wizard_ok_def)

lemma keeps_shown: "wizard_ok s \<Longrightarrow> (\<And>a. getCurrentAccount s = Inr a \<Longrightarrow> keeps (m a)) \<Longrightarrow> keeps (shown s m)"
  unfolding shown_def header_def
  by (cases "getCurrentAccount s"; cases "getCurrentMirror s"; cases "getCurrentRPC s") (simp_all add: keeps_ret)

lemma keeps_config:
  assumes "wizard_ok s" "gives m config_ok"
  shows "keeps (with_config s scr m)"
  unfolding with_config_def by (rule dlg_bind [OF assms(2)]) (simp add: keeps_ret wizard_config assms(1))

lemma selected_account_ok:
  assumes "wizard_ok s" "\<And>a. account = Some a \<Longrightarrow> a \<in> set (cf_accounts (wz_config s))"
  shows "wizard_ok (fst (setSelectedAccount E account s))"
proof (cases account)
  case (Some a)
  have "tokens_ok a" using assms Some by (simp add: wizard_ok_def config_ok_def)
  then show ?thesis
    using assms(1) Some
    by (auto simp: setSelectedAccount_def Let_def wizard_ok_def current_ok_def find_Some_iff)
qed (use assms(1) in \<open>simp add: setSelectedAccount_def wizard_ok_def current_ok_def\<close>)

lemma keeps_choose: "wizard_ok s \<Longrightarrow> gives (chooseAccount E network s) (\<lambda>(s, r). wizard_ok s)"
  unfolding chooseAccount_def Let_def
  by (rule gives_skip, rule dlg_ret)
    (auto simp: case_prod_beta find_account_def find_Some_iff intro!: selected_account_ok)

lemma keeps_until_init:
  assumes "wizard_ok s"
  shows "gives (chooseUntilInit E network s) (\<lambda>(s, r). wizard_ok s)"
  unfolding chooseUntilInit_def
proof (rule dlg_loop, goal_cases)
  case (1 x)
  obtain s1 r1 where x: "x = (s1, r1)" by (cases x)
  have s1: "wizard_ok s1" using 1 assms x by auto
  show ?case
    unfolding x prod.case
    by (rule dlg_bind [OF keeps_choose [OF s1]]) (auto split: sum.splits intro!: dlg_ret)
qed

lemma nodes_of: "wizard_ok s \<Longrightarrow> nodes_ok (cf_mirrors (wz_config s))" "wizard_ok s \<Longrightarrow> nodes_ok (cf_rpcs (wz_config s))"
  by (simp_all add: wizard_ok_def config_ok_def)

lemma current_node:
  "getCurrentMirror s = Inr m \<longleftrightarrow> cu_mirror (wz_current s) = Some m"
  "getCurrentRPC s = Inr m \<longleftrightarrow> cu_rpc (wz_current s) = Some m"
  by (simp_all add: getCurrentMirror_def getCurrentRPC_def split: option.split)

lemma found: "find p (filter q xs) = Some x \<Longrightarrow> q x"
  by (auto simp: find_Some_iff dest: nth_mem)

lemma keeps_choose_node:
  assumes "wizard_ok s"
  shows "gives (chooseMirrorNodeNetwork network s) (\<lambda>(s, r). wizard_ok s)"
    and "gives (chooseRPCNetwork network s) (\<lambda>(s, r). wizard_ok s)"
  unfolding chooseMirrorNodeNetwork_def chooseRPCNetwork_def Let_def using assms
  by (auto split: sum.split option.split intro!: gives_skip dlg_ret dest!: found
      simp: wizard_ok_def config_mirrors config_rpcs nodes_of select_node_ok current_ok_def bind_eq_Some_conv
        current_node)

lemma mirrors_addedD: "mirrors_added network cfg cfg' \<Longrightarrow>
    \<exists>ms. cfg' = cfg\<lparr>cf_mirrors := ms\<rparr> \<and> nodes_ok ms \<and> ms \<noteq> [] \<and> nd_network (last ms) = network"
  unfolding mirrors_added_def by blast

lemma rpcs_addedD: "rpcs_added network cfg cfg' \<Longrightarrow>
    \<exists>rs. cfg' = cfg\<lparr>cf_rpcs := rs\<rparr> \<and> nodes_ok rs \<and> rs \<noteq> [] \<and> nd_network (last rs) = network"
  unfolding rpcs_added_def by blast

lemma keeps_last:
  assumes "wizard_ok s" "getCurrentAccount s = Inr a"
  shows "mirrors_added network (wz_config s) cfg \<Longrightarrow> wizard_ok (setLastMirrorNodeAsSelected network (s\<lparr>wz_config := cfg\<rparr>))"
    and "rpcs_added network (wz_config s) cfg \<Longrightarrow> wizard_ok (setLastRPCAsSelected network (s\<lparr>wz_config := cfg\<rparr>))"
    and "mirrors_added (ca_network a) (wz_config s) cfg \<Longrightarrow>
      wizard_ok (chooseLastMirrorNode (ca_network a) (s\<lparr>wz_config := cfg\<rparr>))"
    and "rpcs_added (ca_network a) (wz_config s) cfg \<Longrightarrow> wizard_ok (chooseLastRPC (ca_network a) (s\<lparr>wz_config := cfg\<rparr>))"
  using assms
  by (auto simp: wizard_ok_def setLastMirrorNodeAsSelected_def setLastRPCAsSelected_def chooseLastMirrorNode_def
      chooseLastRPC_def select_last_ok config_ok_def current_ok_def getCurrentAccount_def
      split: option.splits dest!: mirrors_addedD rpcs_addedD)

lemma keeps_mirror_menu:
  assumes "wizard_ok s"
  shows "keeps (manageMirrorNodeMenu E network s)"
  unfolding manageMirrorNodeMenu_def Let_def
proof (rule keeps_shown [OF assms], rule dlg_bind [OF dlg_pick], goal_cases)
  case (1 a opt)
  show ?case
  proof (cases opt)
    case NodeChange
    show ?thesis
      unfolding NodeChange node_option.case
      by (rule dlg_bind [OF keeps_choose_node(1) [OF assms]])
        (auto simp: init_then_main_def split: sum.split bool.split intro!: dlg_ret)
  next
    case NodeList
    then show ?thesis
      using assms by (simp add: keeps_ret wizard_config config_of config_mirrors mask_ok nodes_of)
  next
    case NodeAdd
    show ?thesis
      unfolding NodeAdd node_option.case
      by (rule dlg_bind [OF dlg_mirrors_added [OF nodes_of(1) [OF assms]]], rule gives_skip, rule dlg_ret)
        (use assms 1 keeps_last in \<open>auto simp: init_then_main_def wizard_ok_def config_mirrors dest: mirrors_addedD\<close>)
  next
    case NodeDelete
    show ?thesis
      unfolding NodeDelete node_option.case
      by (cases "getCurrentMirror s")
        (auto split: option.split intro!: assms keeps_ret dlg_bind [OF removal_ok(1) [OF config_of [OF assms]]]
          wizard_config)
  qed (simp add: keeps_ret assms)
qed

lemma keeps_rpc_menu:
  assumes "wizard_ok s"
  shows "keeps (manageRPCMenu E network s)"
  unfolding manageRPCMenu_def Let_def
proof (rule keeps_shown [OF assms], rule dlg_bind [OF dlg_pick], goal_cases)
  case (1 a opt)
  show ?case
  proof (cases opt)
    case NodeChange
    show ?thesis
      unfolding NodeChange node_option.case
      by (cases "getCurrentRPC s")
        (auto simp: init_then_main_def split: sum.split bool.split intro!: assms keeps_ret dlg_ret
          dlg_bind [OF keeps_choose_node(2) [OF assms]])
  next
    case NodeList
    then show ?thesis
      using assms by (simp add: keeps_ret wizard_config config_of config_rpcs mask_ok nodes_of)
  next
    case NodeAdd
    show ?thesis
      unfolding NodeAdd node_option.case
      by (rule dlg_bind [OF dlg_rpcs_added [OF nodes_of(2) [OF assms]]], rule gives_skip, rule dlg_ret)
        (use assms 1 keeps_last in \<open>auto simp: init_then_main_def wizard_ok_def config_rpcs dest: rpcs_addedD\<close>)
  next
    case NodeDelete
    show ?thesis
      unfolding NodeDelete node_option.case
      by (cases "getCurrentRPC s")
        (auto split: option.split intro!: assms keeps_ret dlg_bind [OF removal_ok(2) [OF config_of [OF assms]]]
          wizard_config)
  qed (simp add: keeps_ret assms)
qed

lemma last_account_ok: "wizard_ok s \<Longrightarrow> wizard_ok (fst (chooseLastAccount E s))"
  unfolding chooseLastAccount_def Let_def by (rule selected_account_ok) (auto split: if_splits)

lemma keeps_account_menu:
  assumes "wizard_ok s"
  shows "keeps (manageAccountMenu E s)"
proof (cases "getCurrentAccount s")
  case (Inr current)
  show ?thesis
    unfolding manageAccountMenu_def Inr sum.case
  proof (rule gives_skip, goal_cases)
    case (1 opt)
    show ?case
    proof (cases opt)
      case AccountChange
      show ?thesis
        unfolding AccountChange account_option.case
        by (rule dlg_bind [OF keeps_until_init [OF assms]]) (auto intro: dlg_ret)
    next
      case AccountAdd
      show ?thesis
        unfolding AccountAdd account_option.case Let_def
        by (rule dlg_bind [OF configure_accounts_ok [OF config_of [OF assms]]], rule gives_skip, rule dlg_ret)
          (auto simp: wizard_config assms case_prod_beta intro!: last_account_ok)
    next
      case AccountDelete
      show ?thesis
        unfolding AccountDelete account_option.case Let_def
        by (intro gives_skip keeps_ret)
          (auto split: option.split intro!: assms wizard_config delete_account_ok config_of)
    qed (simp_all add: keeps_ret assms)
  qed
qed (simp add: manageAccountMenu_def keeps_ret assms)

lemma update_ok:
  assumes "wizard_ok s" "getCurrentAccount s = Inr a" "distinct (map fst ts)"
  shows "wizard_ok (updateAccount a ts s)"
proof -
  let ?f = "\<lambda>b. if ca_alias b = ca_alias a \<and> ca_accountId b = ca_accountId a then b\<lparr>ca_importedTokens := Some ts\<rparr> else b"
  have names: "map (ca_alias \<circ> ?f) xs = map ca_alias xs" for xs by simp
  have "tokens_ok b" if "b \<in> ?f ` set (cf_accounts (wz_config s))" for b
    using that assms(1,3) by (auto simp: wizard_ok_def config_ok_def tokens_ok_def split: if_splits)
  moreover have "tokens_ok (a\<lparr>ca_importedTokens := Some ts\<rparr>)" using assms(3) by (simp add: tokens_ok_def)
  moreover have "cu_account (wz_current s) = Some a" using assms(2) by (simp add: getCurrentAccount_def split: option.splits)
  ultimately show ?thesis
    using assms(1) unfolding updateAccount_def wizard_ok_def config_ok_def current_ok_def
    by (simp add: names del: map_eq_conv)
qed

lemma imported_distinct:
  assumes "wizard_ok s" "getCurrentAccount s = Inr a"
  shows "ca_importedTokens a = Some ts \<Longrightarrow> distinct (map fst ts)"
  using assms by (simp add: wizard_ok_def current_ok_def tokens_ok_def getCurrentAccount_def split: option.splits)

lemma keeps_add_token:
  assumes "wizard_ok s" "getCurrentAccount s = Inr a"
  shows "keeps (add_token E a s)"
  unfolding add_token_def Let_def
proof (rule gives_skip, rule dlg_bind [OF dlg_ask_again], rule gives_skip, goal_cases)
  case (1 i0 i r)
  let ?ts = "case ca_importedTokens a of None \<Rightarrow> [] | Some ts \<Rightarrow> ts"
  have "distinct (map fst ?ts)" using imported_distinct [OF assms] by (auto split: option.split)
  moreover have "i \<notin> fst ` set ?ts" using 1 by simp
  ultimately have "wizard_ok (updateAccount a (?ts @ [(i, symbol)]) s)" for symbol
    by (intro update_ok assms) simp
  then show ?case by (cases r) (simp_all add: keeps_ret assms)
qed

lemma keeps_token_menu:
  assumes "wizard_ok s"
  shows "keeps (manageImportedTokens E s)"
proof (cases "getCurrentAccount s")
  case (Inr a)
  have all: "distinct (map fst (filter p ts))" "distinct (map fst ts)" if "ca_importedTokens a = Some ts" for ts p
    using imported_distinct [OF assms Inr that] by (simp_all add: distinct_map_filter)
  show ?thesis
    unfolding manageImportedTokens_def Inr sum.case
  proof (rule gives_skip, goal_cases)
    case (1 opt)
    show ?case
    proof (cases "ca_importedTokens a = None \<or> ca_importedTokens a = Some []")
      case True
      then show ?thesis by (cases opt) (auto simp: keeps_ret assms keeps_add_token Inr)
    next
      case False
      then obtain t ts where ts: "ca_importedTokens a = Some (t # ts)" by (metis list.exhaust option.exhaust)
      show ?thesis
      proof (cases opt)
        case TokenRefresh
        show ?thesis
          unfolding TokenRefresh token_menu_option.case ts option.case list.case
          by (intro gives_skip keeps_ret) (simp only: assms update_ok Inr all [OF ts] if_cancel split: if_split, simp)
      next
        case TokenRemove
        show ?thesis
          unfolding TokenRemove token_menu_option.case ts option.case list.case
          by (rule gives_skip, rule keeps_ret, split option.split) (intro conjI allI impI assms update_ok Inr all [OF ts])
      qed (simp_all add: keeps_ret assms keeps_add_token Inr)
    qed
  qed
qed (simp add: manageImportedTokens_def keeps_ret assms)

lemma keeps_backend_menu:
  assumes "wizard_ok s"
  shows "keeps (manageBackendMenu E s)"
proof -
  have set: "wizard_ok (setBackend s cfg)" if "config_ok cfg" for cfg
    using that assms by (simp add: setBackend_def wizard_ok_def current_ok_def)
  have "keeps (tryD (bindD (setBackendEndpoint (we_config E) (wz_config s)) (\<lambda>cfg. retD (setBackend s cfg, Inr WConfiguration)))
      (\<lambda>e. retD (s, Inl e)))"
    by (intro dlg_try dlg_bind [OF backend_ok [OF config_of [OF assms]]] keeps_ret set assms)
  then show ?thesis
    unfolding manageBackendMenu_def
    by (intro gives_skip) (auto split: option.split backend_option.split intro!: keeps_ret assms set simp: config_of [OF assms])
qed

lemma keeps_configure_network: "wizard_ok s \<Longrightarrow> keeps (configureNetwork menu s)"
  unfolding configureNetwork_def by (rule keeps_shown, assumption, intro gives_skip keeps_ret)

lemma keeps_configuration_menu:
  assumes "wizard_ok s" "config_ok (ge_default (we_config E))"
  shows "keeps (configurationMenu E s)"
  unfolding configurationMenu_def Let_def
  by (rule keeps_shown [OF assms(1)], rule gives_skip)
    (auto split: change_option.split
      intro!: keeps_ret keeps_config keeps_configure_network path_ok default_choice_ok factories_ok assms config_of)

lemma keeps_main_menu:
  assumes "wizard_ok s"
  shows "keeps (mainMenu E s)"
proof -
  have "keeps (bindD (configureResolversAndFactories (wz_config s)) (\<lambda>cfg.
      retD (s\<lparr>wz_config := cfg, wz_current := (wz_current s)\<lparr>cu_factory := f cfg, cu_resolver := g cfg\<rparr>\<rparr>, r)))" for f g r
    by (rule dlg_bind [OF factories_ok [OF config_of [OF assms]]], rule keeps_ret)
      (use assms in \<open>simp add: wizard_ok_def current_ok_def\<close>)
  then show ?thesis
    unfolding mainMenu_def
    by (intro keeps_shown [OF assms] gives_skip)
      (auto split: main_option.split intro!: keeps_ret assms gives_skip)
qed

lemma keeps_menu:
  assumes "wizard_ok s" "config_ok (ge_default (we_config E))"
  shows "keeps (wizard_menu E scr s)"
  unfolding wizard_menu_def
  by (cases scr) (simp_all add: assms keeps_main_menu keeps_configuration_menu keeps_account_menu keeps_mirror_menu
      keeps_rpc_menu keeps_backend_menu keeps_token_menu keeps_ret dlg_waiting)

lemma keeps_turn:
  assumes "wizard_ok s" "config_ok (ge_default (we_config E))"
  shows "gives (wizard_turn E scr s) (\<lambda>(s', scr'). wizard_ok s')"
  unfolding wizard_turn_def
  by (rule dlg_bind [OF keeps_menu [OF assms]]) (auto split: sum.split intro!: dlg_ret gives_skip)

lemma keeps_steps:
  assumes "\<forall>E. W E \<longrightarrow> config_ok (ge_default (we_config E))"
  shows "wizard_steps W s scr s' scr' \<Longrightarrow> wizard_ok s \<Longrightarrow> wizard_ok s'"
proof (induction rule: wizard_steps.induct)
  case (steps_turn s' scr' E answers s'' scr'' rest)
  have "wizard_ok s'" "config_ok (ge_default (we_config E))" using steps_turn assms by simp_all
  from dlg_result [OF keeps_turn [OF this] steps_turn.hyps(3)] show ?case by simp
qed

lemma starts_ok:
  assumes "config_ok cfg"
  shows "gives (wizard_start E cfg) wizard_ok"
proof -
  have "wizard_ok \<lparr>wz_config = cfg, wz_current = no_current\<rparr>"
    using assms by (simp add: wizard_ok_def current_ok_def no_current_def)
  from keeps_until_init [OF this] show ?thesis
    unfolding wizard_start_def
    by (rule dlg_bind) (auto split: sum.split intro!: dlg_ret dlg_throw)
qed

lemma first_configuration_ok:
  assumes "config_ok cfg" "config_ok (ge_default E)"
  shows "gives (initConfiguration E path network cfg) config_ok"
proof -
  have nodes: "gives (if defaults then retD (configureDefaultMirrorsAndRPCs c)
      else bindD (configureMirrors c) configureRPCs) config_ok" if "config_ok c" for c defaults
    by (rule dlg_if, rule dlg_ret, rule default_nodes_ok [OF that], rule dlg_bind [OF first_mirrors_ok [OF that]],
        rule first_rpcs_ok)
  have factories: "gives (if yes then configureResolversAndFactories c else retD c) config_ok" if "config_ok c" for c yes
    using that by (simp add: factories_ok dlg_ret)
  have backend: "gives (if yes then setBackendEndpoint E c else retD c) config_ok" if "config_ok c" for c yes
    using that by (simp add: backend_ok dlg_ret)
  show ?thesis
    unfolding initConfiguration_def
    by (rule dlg_bind [OF path_ok [OF assms]], rule dlg_bind [OF default_choice_ok], assumption,
        rule dlg_bind [OF configure_accounts_ok], assumption, rule gives_skip, rule dlg_bind [OF factories], assumption,
        rule gives_skip, rule dlg_bind [OF nodes], assumption, rule gives_skip, rule backend)
qed

section \<open>The account that is deleted\<close>

lemma js_split_not_nil: "js_split c s \<noteq> []"
  by (cases s) (auto split: list.split)

lemma hd_js_split: "hd (js_split c s) = takeWhile (\<lambda>x. x \<noteq> c) s"
  by (induction s) (auto simp: js_split_not_nil split: list.split)

lemma split_str_not_nil: "split_str sep s \<noteq> []"
  by (cases "(sep, s)" rule: split_str.cases) (auto split: list.split)

lemma hd_split_dash: "takeWhile (\<lambda>x. x \<noteq> CHR '' '') (hd (split_str '' - '' t)) = takeWhile (\<lambda>x. x \<noteq> CHR '' '') t"
proof (induction t)
  case (Cons c t)
  obtain w ws where "split_str '' - '' t = w # ws" using split_str_not_nil by (cases "split_str '' - '' t") blast+
  then show ?case using Cons by (auto simp: js_startsWith_def)
qed simp

lemma split_at_dash: "CHR '' '' \<notin> set i \<Longrightarrow> split_str '' - '' (i @ '' - '' @ t) = i # split_str '' - '' t"
  by (induction i) (auto simp: js_startsWith_def)

lemma up_to_space: "takeWhile (\<lambda>x. x \<noteq> c) (s @ c # t) = takeWhile (\<lambda>x. x \<noteq> c) s"
  by (induction s) auto

text \<open>Identifiers that the labels can be taken apart at.\<close>

definition plain_id :: "string \<Rightarrow> bool" where
  "plain_id i \<longleftrightarrow> CHR ''-'' \<notin> set i \<and> list_all (\<lambda>c. \<not> is_blank c) i"

lemma space_blank: "is_blank (CHR '' '')"
  by (simp add: is_blank_def char_code_def)

lemma plain_no_space: "plain_id i \<Longrightarrow> CHR '' '' \<notin> set i"
  using space_blank by (auto simp: plain_id_def list_all_iff)

lemma label_id: "plain_id (ca_accountId a) \<Longrightarrow> js_trim (hd (js_split (CHR ''-'') (account_label a))) = ca_accountId a"
proof -
  assume plain: "plain_id (ca_accountId a)"
  let ?i = "ca_accountId a"
  have "hd (js_split (CHR ''-'') (account_label a)) = ?i @ '' ''"
    using plain by (auto simp: account_label_def hd_js_split plain_id_def takeWhile_append)
  moreover have "dropWhile is_blank (i @ '' '') = (if i = [] then [] else i @ '' '')" if "list_all (\<lambda>c. \<not> is_blank c) i" for i
    using that by (cases i) (auto simp: space_blank)
  moreover have "dropWhile is_blank (rev ?i) = rev ?i"
    using plain by (cases "rev ?i") (auto simp: plain_id_def list_all_iff dest: arg_cong [where f = set])
  ultimately show "js_trim (hd (js_split (CHR ''-'') (account_label a))) = ?i"
    using plain by (simp add: js_trim_def plain_id_def space_blank)
qed

lemma deletion:
  assumes "a \<in> set others" "\<forall>b \<in> set others. plain_id (ca_accountId b)"
  defines "f \<equiv> hd (filter (\<lambda>b. ca_accountId b = ca_accountId a) others)"
  shows "delete_account (map account_label others) (account_label a) accounts =
    filter (\<lambda>x. ca_accountId x \<noteq> ca_accountId a \<or> ca_alias x \<noteq> takeWhile (\<lambda>c. c \<noteq> CHR '' '') (ca_alias f)) accounts"
proof -
  have same: "same_prefix (account_label b) (account_label a) \<longleftrightarrow> ca_accountId b = ca_accountId a" if "b \<in> set others" for b
    using that assms(1,2) by (simp add: same_prefix_def label_id)
  have some: "filter (\<lambda>b. ca_accountId b = ca_accountId a) others \<noteq> []" using assms(1) by (auto simp: filter_empty_conv)
  have f: "f \<in> set others" "ca_accountId f = ca_accountId a" using some hd_in_set [OF some] by (auto simp: f_def)
  have "filter (\<lambda>l. same_prefix l (account_label a)) (map account_label others) =
      map account_label (filter (\<lambda>b. ca_accountId b = ca_accountId a) others)"
    using same by (simp add: filter_map o_def cong: filter_cong)
  then have first: "hd (filter (\<lambda>l. same_prefix l (account_label a)) (map account_label others)) = account_label f"
    using some by (simp add: hd_map f_def)
  have no_space: "CHR '' '' \<notin> set (ca_accountId f)" using plain_no_space assms(2) f(1) by blast
  have parts: "split_str '' - '' (account_label f) ! 0 = ca_accountId a"
    "hd (js_split (CHR '' '') (split_str '' - '' (account_label f) ! 1)) = takeWhile (\<lambda>c. c \<noteq> CHR '' '') (ca_alias f)"
    using split_str_not_nil unfolding account_label_def split_at_dash [OF no_space]
    by (simp_all add: f hd_js_split hd_split_dash up_to_space flip: hd_conv_nth)
  show ?thesis unfolding delete_account_def Let_def first parts ..
qed


section \<open>Sessions that cannot be continued\<close>

lemma main_menu_throws:
  assumes "cu_mirror (wz_current s) = None" "snd (wizard_turn E WMain s answers) = Done (s', scr) rest"
  shows "s' = s \<and> scr = WMain"
proof -
  obtain e where "header s = Inl e"
    using assms(1) by (cases "getCurrentAccount s") (simp_all add: header_def getCurrentMirror_def)
  then have "mainMenu E s = retD (s, Inl e)" by (simp add: mainMenu_def shown_def)
  then show ?thesis
    using assms(2) by (auto simp: wizard_turn_def wizard_menu_def bindD_parts retD_def split: turn.splits)
qed

lemma stuck_without_mirror:
  assumes "cu_mirror (wz_current s) = None"
  shows "wizard_steps W s WMain s' scr \<Longrightarrow> s' = s \<and> scr = WMain"
proof (induction rule: wizard_steps.induct)
  case (steps_turn s' scr' E answers s'' scr'' rest)
  then show ?case using main_menu_throws [OF assms] by simp
qed simp

lemma selected_none:
  assumes "\<forall>m \<in> set (cf_mirrors (wz_config s)). nd_network m = ca_network a \<longrightarrow> \<not> nd_selected m"
  shows "cu_mirror (wz_current (fst (setSelectedAccount E (Some a) s))) = None"
  using assms by (auto simp: setSelectedAccount_def Let_def find_None_iff)

lemma init_without_mirror: "cu_mirror (wz_current s) = None \<Longrightarrow> \<exists>e. initSDK E s = Inl e"
  by (cases "getCurrentAccount s"; cases "getCurrentNetwork s") (simp_all add: initSDK_def getCurrentMirror_def)

text \<open>
  Property C39. A user who adds an account of a network without a selected mirror node and wants to operate with it
  comes to the main menu with no mirror node current, whatever the SDK answers. The main menu throws before it is shown,
  and every session from there, however long, is still in the main menu with the same state: no choice of the user leads out.
\<close>
theorem new_account_without_mirror:
  assumes "getCurrentAccount s = Inr current"
    and "snd (configureAccounts (we_config E) (wz_config s) answers) = Done cfg (AConfirm True # ALine key # rest)"
    and "cf_accounts cfg \<noteq> []"
    and "\<forall>m \<in> set (cf_mirrors cfg). nd_network m = ca_network (last (cf_accounts cfg)) \<longrightarrow> \<not> nd_selected m"
  shows "\<exists>s'. snd (wizard_turn E WAccounts s (APick 2 # answers)) = Done (s', WMain) rest \<and>
    wz_config s' = cfg \<and> (\<forall>W s'' scr. wizard_steps W s' WMain s'' scr \<longrightarrow> s'' = s' \<and> scr = WMain)"
proof -
  let ?s = "s\<lparr>wz_config := cfg\<rparr>"
  obtain s' r where s': "chooseLastAccount E ?s = (s', r)" by (cases "chooseLastAccount E ?s")
  have set: "setSelectedAccount E (Some (last (cf_accounts cfg))) ?s = (s', r)"
    using s' assms(3) by (simp add: chooseLastAccount_def)
  have none: "cu_mirror (wz_current s') = None"
    using selected_none [of ?s "last (cf_accounts cfg)" E] assms(4) set by simp
  have cfg: "wz_config s' = cfg" using set by (auto simp: setSelectedAccount_def Let_def)
  obtain e where e: "bindR r (\<lambda>_. bindR (initSDK E s') (\<lambda>_. Inr WMain)) = Inl e"
    using init_without_mirror [OF none, of E] by (cases r) auto
  have "snd (manageAccountMenu E s (APick 2 # answers)) = Done (s', Inl e) (ALine key # rest)"
    using assms(1,2) s' e
    by (simp add: manageAccountMenu_def account_options_def defaultMultipleAsk_def defaultConfirmAsk_def ask_def
        bindD_parts retD_def)
  then have "snd (wizard_turn E WAccounts s (APick 2 # answers)) = Done (s', WMain) rest"
    by (simp add: wizard_turn_def wizard_menu_def bindD_parts askErrorConfirmation_def showD_def defaultSingleAsk_def
        ask_def line_def retD_def)
  then show ?thesis using cfg stuck_without_mirror [OF none] by blast
qed

section \<open>What every session keeps\<close>

text \<open>
  Property C38. The menus keep a configuration in order. Start with one that is in order, or with what the first
  configuration makes of it, choose an account, and go through the menus, each turn with any answers of the user, the
  machine and the SDK: then in each network the names of the mirror nodes are different and at most one is
  selected, and so for the relays; the aliases of the accounts are different; no account has imported a token twice; and the
  node and the relay that are current are of the network of the current account.
\<close>
theorem wizard_keeps_configuration:
  assumes "\<forall>E. W E \<longrightarrow> config_ok (ge_default (we_config E))"
    and "config_ok cfg0" "config_ok (ge_default G)"
    and "cfg = cfg0 \<or> snd (initConfiguration G path network cfg0 answers0) = Done cfg rest0"
    and "snd (wizard_start E cfg answers) = Done s rest"
    and "wizard_steps W s WMain s' scr"
  shows "config_ok (wz_config s') \<and> current_ok (wz_current s')"
proof -
  have "config_ok cfg" using assms(2-4) dlg_result [OF first_configuration_ok] by blast
  then have "wizard_ok s" using dlg_result [OF starts_ok] assms(5) by blast
  then have "wizard_ok s'" by (rule keeps_steps [OF assms(1,6)])
  then show ?thesis by (simp add: wizard_ok_def)
qed

section \<open>A sample\<close>

text \<open>One account of the test network; the main network is known and has no mirror node.\<close>

definition listed_account :: "string \<Rightarrow> string \<Rightarrow> string \<Rightarrow> account_config" where
  "listed_account i network alias =
     \<lparr>ca_accountId = i, ca_type = MULTI_SIGNATURE, ca_network = network, ca_alias = alias, ca_importedTokens = None,
      ca_selfCustodial = None, ca_fireblocks = None, ca_dfns = None, ca_awsKms = None\<rparr>"

definition sample_configuration :: cli_configuration where
  "sample_configuration =
     \<lparr>cf_defaultNetwork = ''testnet'',
      cf_networks = [\<lparr>nf_name = ''testnet'', nf_chainId = None, nf_consensusNodes = []\<rparr>,
        \<lparr>nf_name = ''mainnet'', nf_chainId = None, nf_consensusNodes = []\<rparr>],
      cf_accounts = [listed_account ''0.0.1'' ''testnet'' ''one'', listed_account ''0.0.2'' ''testnet'' ''two'',
        listed_account ''0.0.2'' ''testnet'' ''three''],
      cf_mirrors = [getDefaultMirrorByNetwork ''testnet''], cf_rpcs = [getDefaultRPCByNetwork ''testnet''],
      cf_backend = None, cf_factories = [], cf_resolvers = []\<rparr>"

definition sample_machine :: config_env where
  "sample_machine = \<lparr>ge_number = (\<lambda>_. None), ge_url = Some, ge_exists = (\<lambda>_. True), ge_validPath = (\<lambda>_. True),
     ge_default = sample_configuration\<rparr>"

definition sample_world :: wizard_env where
  "sample_world = \<lparr>we_config = sample_machine, we_setNetwork = (\<lambda>_. Inr ()), we_init = (\<lambda>_. Inr ()),
     we_connect = (\<lambda>_. Inr ()), we_symbol = (\<lambda>_. Inr ''SYM'')\<rparr>"

definition sample_wizard :: wizard where
  "sample_wizard = fst (setSelectedAccount sample_world (Some (hd (cf_accounts sample_configuration)))
     \<lparr>wz_config = sample_configuration, wz_current = no_current\<rparr>)"

lemma sample_ok: "config_ok sample_configuration"
  by (simp add: config_ok_def nodes_ok_def sample_configuration_def listed_account_def tokens_ok_def)

lemma sample_current: "getCurrentAccount sample_wizard = Inr (listed_account ''0.0.1'' ''testnet'' ''one'')"
  "wz_config sample_wizard = sample_configuration"
  by (simp_all add: sample_wizard_def getCurrentAccount_def setSelectedAccount_def sample_configuration_def Let_def)

lemma sample_accounts:
  "cf_accounts sample_configuration = [listed_account ''0.0.1'' ''testnet'' ''one'',
     listed_account ''0.0.2'' ''testnet'' ''two'', listed_account ''0.0.2'' ''testnet'' ''three'']"
  "ca_accountId (listed_account i n al) = i" "ca_alias (listed_account i n al) = al" "ca_network (listed_account i n al) = n"
  by (simp_all add: sample_configuration_def listed_account_def)

lemma sample_plain: "\<forall>a \<in> set (cf_accounts (wz_config sample_wizard)). plain_id (ca_accountId a)"
  unfolding sample_current sample_accounts by code_simp


lemma sample_add:
  "snd (configureAccounts sample_machine sample_configuration
     [ALine ''0.0.3'', APick 1, APick 1, ALine ''four'', AConfirm False, AConfirm True, ALine '''']) =
    Done (sample_configuration\<lparr>cf_accounts := cf_accounts sample_configuration @ [listed_account ''0.0.3'' ''mainnet'' ''four'']\<rparr>)
      [AConfirm True, ALine '''']"
  by code_simp

lemma new_account_without_mirror_witness:
  "\<exists>s'. snd (wizard_turn sample_world WAccounts sample_wizard
      [APick 2, ALine ''0.0.3'', APick 1, APick 1, ALine ''four'', AConfirm False, AConfirm True, ALine '''']) =
      Done (s', WMain) [] \<and>
    (\<forall>W s'' scr. wizard_steps W s' WMain s'' scr \<longrightarrow> s'' = s' \<and> scr = WMain)"
proof -
  let ?cfg = "sample_configuration\<lparr>cf_accounts := cf_accounts sample_configuration @ [listed_account ''0.0.3'' ''mainnet'' ''four'']\<rparr>"
  have add: "snd (configureAccounts (we_config sample_world) (wz_config sample_wizard)
     [ALine ''0.0.3'', APick 1, APick 1, ALine ''four'', AConfirm False, AConfirm True, ALine '''']) =
     Done ?cfg (AConfirm True # ALine '''' # [])"
    using sample_add by (simp add: sample_world_def sample_current(2))
  have "\<forall>m \<in> set (cf_mirrors ?cfg). nd_network m = ca_network (last (cf_accounts ?cfg)) \<longrightarrow> \<not> nd_selected m"
    by (simp add: sample_accounts sample_configuration_def getDefaultMirrorByNetwork_def)
  from new_account_without_mirror [OF sample_current(1) add _ this] show ?thesis by auto
qed

lemma sample_first:
  "snd (initConfiguration sample_machine (Some ''c'') (Some ''testnet'') sample_configuration
     [ALine ''0.0.3'', APick 1, APick 0, ALine ''four'', AConfirm False, AConfirm False, AConfirm True, AConfirm False]) =
   Done (configureDefaultMirrorsAndRPCs (sample_configuration\<lparr>cf_accounts := cf_accounts sample_configuration @
     [listed_account ''0.0.3'' ''testnet'' ''four'']\<rparr>)) []"
  by code_simp

definition sample_second :: wizard where
  "sample_second = fst (setSelectedAccount sample_world (Some (hd (cf_accounts sample_configuration)))
     \<lparr>wz_config = configureDefaultMirrorsAndRPCs (sample_configuration\<lparr>cf_accounts := cf_accounts sample_configuration @
     [listed_account ''0.0.3'' ''testnet'' ''four'']\<rparr>), wz_current = no_current\<rparr>)"

lemma sample_start:
  "snd (wizard_start sample_world (configureDefaultMirrorsAndRPCs (sample_configuration\<lparr>cf_accounts :=
     cf_accounts sample_configuration @ [listed_account ''0.0.3'' ''testnet'' ''four'']\<rparr>)) [APick 0]) = Done sample_second []"
  by code_simp

lemma sample_turns:
  "snd (wizard_turn sample_world WMain sample_second [APick 5]) = Done (sample_second, WConfiguration) []"
  "snd (wizard_turn sample_world WConfiguration sample_second [APick 3]) = Done (sample_second, WAccounts) []"
  by code_simp+

text \<open>The first configuration with the nodes of the program, and a session that goes to the accounts.\<close>
lemma wizard_keeps_configuration_witness:
  "wizard_steps (\<lambda>E. E = sample_world) sample_second WMain sample_second WAccounts \<and>
    config_ok (wz_config sample_second) \<and> current_ok (wz_current sample_second)"
proof -
  let ?W = "\<lambda>E. E = sample_world"
  have "wizard_steps ?W sample_second WMain sample_second WConfiguration"
    by (rule steps_turn [where W = ?W, OF steps_none refl sample_turns(1)])
  then have steps: "wizard_steps ?W sample_second WMain sample_second WAccounts"
    by (rule steps_turn [where W = ?W, OF _ refl sample_turns(2)])
  have "ge_default (we_config sample_world) = sample_configuration" "ge_default sample_machine = sample_configuration"
    by (simp_all add: sample_world_def sample_machine_def)
  then show ?thesis
    using wizard_keeps_configuration [OF _ sample_ok _ disjI2 [OF sample_first] sample_start steps] sample_ok steps by simp
qed

end
