(* ===== verification/Hold_Properties.thy ===== *)
theory Hold_Properties
  imports Cash_Properties Hold_Commands
begin

text \<open>
  The life of a hold as the handlers allow it: created within the holder's balance, executed or
  released by its escrow before it expires, reclaimed after that.
\<close>

section \<open>The checks\<close>

lemma hold_check_relation_Inr: "hold_check_relation i r = Inr u \<longleftrightarrow> active_relation r"
  by (auto simp: hold_check_relation_def active_relation_def)

definition destination_allows :: "env \<Rightarrow> hold_details \<Rightarrow> hedera_id option \<Rightarrow> bool" where
  "destination_allows E d targetId \<longleftrightarrow>
     (let dest = js_toLowerCase (hd_destinationAddress d) in
      case targetId of
        None \<Rightarrow> dest \<noteq> EVM_ZERO_ADDRESS
      | Some t \<Rightarrow> dest = EVM_ZERO_ADDRESS \<or>
          (\<exists>a. mn_accountToEvmAddress E t = Inr a \<and> js_toLowerCase (evm_value a) = dest))"

lemma checkHoldBalance_Inr:
  "getHoldForQuery E k s n = Inr d \<Longrightarrow>
   checkHoldBalance E k s n a = Inr u \<longleftrightarrow> \<not> isLowerThan (env_lib E) (hd_amount d) a"
  by (simp add: checkHoldBalance_def)

lemma checkEscrow_Inr:
  "getHoldForQuery E k s n = Inr d \<Longrightarrow>
   checkEscrow E k s n = Inr u \<longleftrightarrow> callerAddress E = Inr (Some (js_toLowerCase (hd_escrowAddress d)))"
  by (auto simp: checkEscrow_def bindR_Inr_iff Let_def split: if_splits)

lemma checkHoldTarget_Inr:
  assumes "getHoldForQuery E k s n = Inr d"
  shows "checkHoldTarget E k s n targetId = Inr u \<longleftrightarrow> destination_allows E d targetId"
proof (cases targetId)
  case (Some t)
  then show ?thesis
    using assms by (cases "mn_accountToEvmAddress E t") (auto simp: checkHoldTarget_def destination_allows_def Let_def)
qed (use assms in \<open>auto simp: checkHoldTarget_def destination_allows_def Let_def\<close>)

lemma checkHoldExpiration_Inr:
  "getHoldForQuery E k s n = Inr d \<Longrightarrow>
   checkHoldExpiration E k s n r = Inr u \<longleftrightarrow>
     (if r then hd_expirationTimeStamp d \<le> env_now E div 1000
      else env_now E div 1000 \<le> hd_expirationTimeStamp d)"
  by (auto simp: checkHoldExpiration_def Let_def)

section \<open>Creation\<close>

lemma createHold_checks_Inr:
  assumes "createHold_checks E holder amount expirationDate tokenId = Inr (caps, a, x)"
  shows "service_getCapabilities E tokenId = Inr caps"
    "proxy_holds_key (caps_coin caps) (sc_supplyKey (caps_coin caps))"
    "proxy_holds_key (caps_coin caps) (sc_wipeKey (caps_coin caps))"
    "bd_fromString (env_lib E) amount (Some (sc_decimals (caps_coin caps))) = Inr a"
    "bd_fromString (env_lib E) expirationDate None = Inr x"
    "\<exists>rel. mn_getAccountToken E holder tokenId = Inr rel \<and> (\<forall>r. rel = Some r \<longrightarrow> active_relation r)"
    "\<exists>balance. balanceOfQuery E tokenId holder = Inr balance \<and> \<not> isGreaterThan (env_lib E) a balance"
  using assms
  by (auto simp: createHold_checks_def bindR_Inr_iff Let_def not_allowed_def hold_check_relation_Inr
      getAccountTokenRelationshipQuery_def split: if_splits option.splits)

text \<open>
  Property C22. Hold creation, by the holder or by a controller: a submission is one call of the
  adapter with the exact amount, which is at most the holder's balance; the supply key and the wipe
  key of the coin are those of its proxy, and a holder with a relationship to the token is not
  frozen and not without KYC.
\<close>

theorem hold_creation_safe:
  assumes "fixed_number_api (env_lib E)"
    and "balanceOfQuery E tokenId holder = Inr balance"
    and "m = (if controller then createHoldByController_handler E A tokenId holder amount escrow expirationDate targetId
              else createHold_handler E A tokenId amount escrow expirationDate targetId)"
    and "\<not> controller \<Longrightarrow> holder = acc_id (env_account E)"
    and "actions m \<noteq> []"
  shows "\<exists>caps a x className. service_getCapabilities E tokenId = Inr caps \<and>
    proxy_holds_key (caps_coin caps) (sc_supplyKey (caps_coin caps)) \<and>
    proxy_holds_key (caps_coin caps) (sc_wipeKey (caps_coin caps)) \<and>
    bd_rat a = decimal_value amount \<and> decimal_value amount \<le> bd_rat balance \<and>
    bd_rat x = decimal_value expirationDate \<and>
    (\<forall>r. mn_getAccountToken E holder tokenId = Inr (Some r) \<longrightarrow> active_relation r) \<and>
    m = hold_created E className
          (if controller then ta_createHoldByController A caps a escrow x holder targetId
           else ta_createHold A caps a escrow x targetId)"
proof -
  obtain p where p: "createHold_checks E holder amount expirationDate tokenId = Inr p"
  proof (cases controller)
    case True
    then show ?thesis using assms(3,5) that
      by (simp add: createHoldByController_handler_def) (erule withR_acts, blast)
  next
    case False
    then show ?thesis using assms(3,4,5) that
      by (simp add: createHold_handler_def) (erule withR_acts, blast)
  qed
  obtain caps a x where [simp]: "p = (caps, a, x)" by (cases p)
  note c = createHold_checks_Inr [OF p [simplified]]
  have "bd_rat a = decimal_value amount" "bd_rat x = decimal_value expirationDate"
    using c(4,5) fixed_number_api.fromString_rat [OF assms(1)] by blast+
  moreover have "bd_rat a \<le> bd_rat balance"
    using c(7) assms(2) fixed_number_api.gt [OF assms(1)] by (simp add: isGreaterThan_def not_less)
  moreover have "m = hold_created E (if controller then ''CreateHoldByControllerCommandHandler'' else ''CreateHoldCommandHandler'')
      (if controller then ta_createHoldByController A caps a escrow x holder targetId
       else ta_createHold A caps a escrow x targetId)"
    using assms(3,4) p by (auto simp: createHoldByController_handler_def createHold_handler_def)
  ultimately show ?thesis
    using c by (intro exI conjI) (assumption | force)+
qed

section \<open>Execution and reclaim\<close>

text \<open>
  Property C3. Execution of a hold: a submission is one call of the adapter with the exact amount,
  which is at most what the hold still locks; the current account is the hold's escrow, the hold has
  not expired, its destination is the given target or is open, and the source is associated, not
  frozen and not without KYC, as is the target, when there is one.
\<close>

theorem execute_hold_safe:
  assumes "fixed_number_api (env_lib E)"
    and "service_getCapabilities E tokenId = Inr caps"
    and "getHoldForQuery E tokenId sourceId holdId = Inr d"
    and "actions (executeHold_handler E A tokenId holdId sourceId amount targetId) \<noteq> []"
  shows "decimal_value amount \<le> bd_rat (hd_amount d) \<and>
    callerAddress E = Inr (Some (js_toLowerCase (hd_escrowAddress d))) \<and>
    env_now E div 1000 \<le> hd_expirationTimeStamp d \<and> destination_allows E d targetId \<and>
    (\<exists>r. mn_getAccountToken E sourceId tokenId = Inr (Some r) \<and> active_relation r) \<and>
    (\<forall>t. targetId = Some t \<longrightarrow> (\<exists>r. mn_getAccountToken E t tokenId = Inr (Some r) \<and> active_relation r)) \<and>
    (\<exists>a. bd_rat a = decimal_value amount \<and>
       executeHold_handler E A tokenId holdId sourceId amount targetId =
         respond (ta_executeHold A caps a sourceId holdId targetId))"
proof -
  note checks = checkHoldBalance_Inr [OF assms(3)] checkEscrow_Inr [OF assms(3)]
    checkHoldTarget_Inr [OF assms(3)] checkHoldExpiration_Inr [OF assms(3)]
  obtain p where p: "executeHold_checks E tokenId holdId sourceId amount targetId = Inr p"
    using assms(4) unfolding executeHold_handler_def by (rule withR_acts)
  then obtain r a where a: "p = (caps, a)"
    "mn_getAccountToken E sourceId tokenId = Inr (Some r)" "active_relation r"
    "executeHold_target E targetId tokenId = Inr ()"
    "bd_fromString (env_lib E) amount (Some (sc_decimals (caps_coin caps))) = Inr a"
    "\<not> isLowerThan (env_lib E) (hd_amount d) a"
    "callerAddress E = Inr (Some (js_toLowerCase (hd_escrowAddress d)))"
    "destination_allows E d targetId" "env_now E div 1000 \<le> hd_expirationTimeStamp d"
    using assms(2)
    by (auto simp: executeHold_checks_def bindR_Inr_iff Let_def require_relation_Inr
        hold_check_relation_Inr checks)
  have "\<forall>t. targetId = Some t \<longrightarrow> (\<exists>r. mn_getAccountToken E t tokenId = Inr (Some r) \<and> active_relation r)"
    using a(4) by (auto simp: executeHold_target_def bindR_Inr_iff require_relation_Inr hold_check_relation_Inr)
  moreover have rat: "bd_rat a = decimal_value amount"
    using a(5) by (rule fixed_number_api.fromString_rat [OF assms(1)])
  moreover have "decimal_value amount \<le> bd_rat (hd_amount d)"
    using a(6) rat fixed_number_api.lt [OF assms(1)] by (simp add: isLowerThan_def not_less)
  moreover have "executeHold_handler E A tokenId holdId sourceId amount targetId =
      respond (ta_executeHold A caps a sourceId holdId targetId)"
    using p a(1) by (simp add: executeHold_handler_def)
  ultimately show ?thesis using a by blast
qed


section \<open>Witnesses\<close>

lemma hold_created_actions [simp]: "actions (hold_created E c m) = actions m"
  unfolding hold_created_def
  by (rule actions_bindIO_pure) (auto simp: withR_def split: sum.split)

definition sample_hold :: hold_details where
  "sample_hold =
     \<lparr>hd_expirationTimeStamp = 2000, hd_amount = bd2 300, hd_escrowAddress = sample_escrow,
      hd_tokenHolderAddress = sample_escrow, hd_destinationAddress = EVM_ZERO_ADDRESS, hd_data = ''0x''\<rparr>"

lemma sample_hold_query [sample]:
  "getHoldForQuery sample_net k s n = Inr sample_hold" "getHoldForQuery late_net k s n = Inr sample_hold"
proof -
  have "q_getHoldFor sample_net p t n =
      Inr (\<lparr>hd_expirationTimeStamp = 2000, hd_amount = bd_ZERO, hd_escrowAddress = sample_escrow,
            hd_tokenHolderAddress = sample_escrow, hd_destinationAddress = EVM_ZERO_ADDRESS, hd_data = ''0x''\<rparr>, 300)" for p t
    by (simp add: sample_net_def sample_env_def)
  moreover from this have "q_getHoldFor late_net = q_getHoldFor sample_net" by (simp add: late_net_def)
  ultimately show "getHoldForQuery sample_net k s n = Inr sample_hold" "getHoldForQuery late_net k s n = Inr sample_hold"
    by (simp_all add: getHoldForQuery_def sample exact.fromStringFixed_int in_range128_def sample_hold_def bd2_def)
qed

lemma sample_hold_fields [sample]:
  "hd_amount sample_hold = bd2 300" "hd_expirationTimeStamp sample_hold = 2000"
  "hd_escrowAddress sample_hold = sample_escrow" "hd_destinationAddress sample_hold = EVM_ZERO_ADDRESS"
  "js_toLowerCase EVM_ZERO_ADDRESS = EVM_ZERO_ADDRESS"
  by (simp_all add: sample_hold_def) (simp add: EVM_ZERO_ADDRESS_def js_toLowerCase_def is_upper_def char_code_def)

lemma sample_caller [sample]: "callerAddress sample_net = Inr (Some (js_toLowerCase sample_escrow))"
  by (simp add: callerAddress_def sample)

lemma sample_hold_adapter [sample]:
  "ta_createHold (sample_adapter E) = (\<lambda>a b c d e. op_createHold (sample_executor E) E a b c d e None)"
  "ta_executeHold (sample_adapter E) = (\<lambda>a b c d e. op_executeHold (sample_executor E) E a b c d e None)"
  "ta_releaseHold (sample_adapter E) = (\<lambda>a b c d. op_releaseHold (sample_executor E) E a b c d None)"
  by (simp_all add: sample_adapter_def base_adapter_def)

lemma sample_resolve [sample]: "resolve_id sample_net (HederaId ''0.0.8'') = Inr sample_escrow"
  "resolve_id sample_net (HederaId ''0.0.7'') = Inr sample_escrow"
  by (simp_all add: resolve_id_def sample HederaId_NULL_def)

lemma sample_keys [sample]:
  "proxy_holds_key sample_stored (Some (KeyContract (ContractId ''0.0.10'')))"
  by (simp add: proxy_holds_key_def sample)

lemma create_hold_sample_acts:
  "actions (createHold_handler sample_net (sample_adapter sample_net) sample_token ''1.5'' sample_target ''1.5'' None) \<noteq> []"
proof -
  have "createHold_checks sample_net (acc_id (env_account sample_net)) ''1.5'' ''1.5'' sample_token =
    Inr (sample_caps, bd2 150, \<lparr>bd_fn = \<lparr>fn_value = 15, fn_decimals = 1\<rparr>\<rparr>)"
    by (simp add: createHold_checks_def sample getAccountTokenRelationshipQuery_def hold_check_relation_def
        balance_sample del: One_nat_def)
  then show ?thesis
    by (simp add: createHold_handler_def sample op_createHold_def signing_def resolve_optional_def sample_target_def)
qed

theorem hold_creation_safe_witness: "decimal_value ''1.5'' \<le> bd_rat (bd2 5000)"
  using hold_creation_safe [of sample_net sample_token "acc_id (env_account sample_net)" "bd2 5000" _ False
      "sample_adapter sample_net" "''1.5''" sample_target "''1.5''" None, OF _ _ _ _ create_hold_sample_acts]
  by (auto simp: sample exact.fixed_number_api_axioms balance_sample)

lemma execute_hold_sample_acts:
  "actions (executeHold_handler sample_net (sample_adapter sample_net) sample_token 1 sample_id ''1.5'' (Some sample_target)) \<noteq> []"
proof -
  have "checkHoldBalance sample_net k i n (bd2 150) = Inr ()"
    "checkEscrow sample_net k i n = Inr ()" "checkHoldTarget sample_net k i n (Some t) = Inr ()"
    "checkHoldExpiration sample_net k i n False = Inr ()" for k i n t
    by (simp_all add: checkHoldBalance_def checkEscrow_def checkHoldTarget_def checkHoldExpiration_def sample Let_def)
  then have "executeHold_checks sample_net sample_token 1 sample_id ''1.5'' (Some sample_target) = Inr (sample_caps, bd2 150)"
    by (simp add: executeHold_checks_def executeHold_target_def sample require_relation_Inr [THEN iffD2]
        hold_check_relation_def)
  then show ?thesis
    by (simp add: executeHold_handler_def sample op_executeHold_def signing_def resolve_optional_def
        sample_target_def sample_id_def)
qed

theorem execute_hold_safe_witness:
  "decimal_value ''1.5'' \<le> bd_rat (bd2 300) \<and> destination_allows sample_net sample_hold (Some sample_target)"
  using execute_hold_safe [of sample_net sample_token sample_caps, OF _ _ _ execute_hold_sample_acts]
  by (simp add: sample exact.fixed_number_api_axioms)


end
