(* ===== verification/Adapter_Properties.thy ===== *)
theory Adapter_Properties
  imports Hold_Properties Role_Commands Admin_Commands Create_Command
begin

text \<open>
  Properties of the commands together with the adapters: how many transactions a command submits,
  which transaction it is, and what the multisignature adapter stores in its place.
\<close>

section \<open>One submission per command\<close>

lemma submits_respond [once]: "submits s P m \<Longrightarrow> submits s P (respond m)"
  unfolding respond_def by (rule submits_ret)

lemma submits_hold_created [once]: "submits s P m \<Longrightarrow> submits s P (hold_created E c m)"
  by (auto simp: submits_def) (auto simp: hold_created_def outcome_bindIO_Inr)

context submitting_adapter
begin

lemma token_handlers_once:
  "submits always P (cashIn_handler E A amount t k sd)" "submits always P (burn_handler E A amount k sd)"
    "submits always P (wipe_handler E A amount t k sd)" "submits always P (rescue_handler E A amount k sd)"
    "submits always P (rescueHBAR_handler E A amount k sd)" "submits always P (freeze_handler E A t k sd)"
    "submits always P (unfreeze_handler E A t k sd)" "submits always P (pause_handler E A k sd)"
    "submits always P (unpause_handler E A k sd)" "submits always P (delete_handler E A k sd)"
    "submits always P (transfers_handler E A amounts is k t)" "submits always P (grantKyc_handler Es A t k)"
    "submits always P (revokeKyc_handler E A t k)" "submits always P (updateReserveAddress_handler E A k r)"
    "submits always P (updateReserveAmount_handler A r ra)"
  unfolding cashIn_handler_def burn_handler_def wipe_handler_def rescue_handler_def rescueHBAR_handler_def
    freeze_handler_def unfreeze_handler_def pause_handler_def unpause_handler_def delete_handler_def
    transfers_handler_def grantKyc_handler_def revokeKyc_handler_def updateReserveAddress_handler_def
    updateReserveAmount_handler_def
  by (intro once methods)+

lemma hold_handlers_once:
  "submits always P (createHold_handler E A k amount e x t)"
    "submits always P (createHoldByController_handler E A k s amount e x t)"
    "submits always P (executeHold_handler E A k n s amount t)" "submits always P (releaseHold_handler E A k n s amount)"
    "submits always P (reclaimHold_handler E A k n s)"
  unfolding createHold_handler_def createHoldByController_handler_def executeHold_handler_def
    releaseHold_handler_def reclaimHold_handler_def
  by (intro once methods)+

lemma admin_handlers_once:
  "submits always P (grantRole_handler E A role t k)" "submits always P (revokeRole_handler E A role t k)"
    "submits always P (grantSupplierRole_handler E A t k amount)"
    "submits always P (grantUnlimitedSupplierRole_handler E A t k)" "submits always P (revokeSupplierRole_handler E A t k)"
    "submits always P (increaseAllowance_handler E A amount t k sd)"
    "submits always P (decreaseAllowance_handler E A amount t k sd)" "submits always P (resetAllowance_handler E A t k sd)"
    "submits always P (grantMultiRoles_handler E A roles ts amounts k sd)"
    "submits always P (revokeMultiRoles_handler E A roles ts k sd)"
    "submits always P (addFixedFees_handler E A k c tc a x)" "submits always P (addFractionalFees_handler E A k c n d mn mx net x)"
    "submits always P (updateCustomFees_handler E A k fees)" "submits always P (updateConfigVersion_handler E A k v)"
    "submits always P (updateConfig_handler E A k ci v)" "submits always P (updateResolver_handler E A k ci v r)"
    "submits always P (update_handler E A k nm sy ar et k1 k2 k3 k4 k5 md)"
  unfolding grantRole_handler_def revokeRole_handler_def grantSupplierRole_handler_def
    grantUnlimitedSupplierRole_handler_def revokeSupplierRole_handler_def increaseAllowance_handler_def
    decreaseAllowance_handler_def resetAllowance_handler_def grantMultiRoles_handler_def
    revokeMultiRoles_handler_def addFixedFees_handler_def addFractionalFees_handler_def
    updateCustomFees_handler_def updateConfigVersion_handler_def updateConfig_handler_def
    updateResolver_handler_def update_handler_def Let_def
  by (intro once methods)+

end




section \<open>The access decision in the adapters\<close>


definition paused_caps :: stable_coin_capabilities where
  "paused_caps = sample_caps \<lparr>caps_capabilities := []\<rparr>"


text \<open>
  Property C26. Whether an amount goes through the contract or through the token service, the raw
  integer submitted is the same (for amounts below 2^63): the contract's \<open>mint\<close>, \<open>burn\<close> and
  \<open>wipe\<close> and the service's transactions carry \<open>bd_value\<close>. The token service's mint does not carry the
  target of the cash in.
\<close>

theorem submitted_amounts:
  assumes "fixed_number_api (env_lib E)" "0 \<le> bd_value a" "bd_value a < 2 ^ 63"
    and "proxy_of caps = Inr (contractId, evm)" "token_of caps = Inr token" "resolve_id E i = Inr target"
  shows "op_cashin X E caps i a sd = signing ''cashin''
      (case getAccessDecision caps CASH_IN of
         D_CONTRACT \<Rightarrow> ex_executeContractCall X contractId ''CashInFacet'' ''mint''
           [CStr target, CInt (bd_value a)] CASHIN_GAS None None sd evm
       | D_HTS \<Rightarrow> ex_processTransaction X (TokenMintTransaction token (bd_value a)) RECEIPT sd
       | D_FORBIDDEN \<Rightarrow> throw (JsError ''Operation not permitted for token'')) \<and>
    op_burn X E caps a sd = signing ''burn''
      (case getAccessDecision caps BURN of
         D_CONTRACT \<Rightarrow> ex_executeContractCall X contractId ''BurnableFacet'' ''burn''
           [CInt (bd_value a)] BURN_GAS None None sd evm
       | D_HTS \<Rightarrow> ex_processTransaction X (TokenBurnTransaction token (bd_value a)) RECEIPT sd
       | D_FORBIDDEN \<Rightarrow> throw (JsError ''Operation not permitted for token'')) \<and>
    op_wipe X E caps i a sd = signing ''wipe''
      (case getAccessDecision caps WIPE of
         D_CONTRACT \<Rightarrow> ex_executeContractCall X contractId ''WipeableFacet'' ''wipe''
           [CStr target, CInt (bd_value a)] WIPE_GAS None None sd evm
       | D_HTS \<Rightarrow> ex_processTransaction X (TokenWipeTransaction (id_value i) token (bd_value a)) RECEIPT sd
       | D_FORBIDDEN \<Rightarrow> throw (JsError ''Operation not permitted for token''))"
  using assms fixed_number_api.toLong_exact [OF assms(1-3)]
  by (auto simp: op_cashin_def op_burn_def op_wipe_def by_access_def toBigInt_def split: decision.split)

theorem submitted_amounts_witness:
  "op_cashin (sample_executor sample_net) sample_net sample_caps sample_target (bd2 150) None = signing ''cashin''
     (ex_executeContractCall (sample_executor sample_net) ''0.0.10'' ''CashInFacet'' ''mint''
        [CStr sample_escrow, CInt 150] CASHIN_GAS None None None (Some (evm_value sample_proxy)))"
  using submitted_amounts [of sample_net "bd2 150" sample_caps "''0.0.10''" "Some (evm_value sample_proxy)" "''0.0.9''"
      sample_target sample_escrow "sample_executor sample_net" None]
  by (simp add: sample exact.fixed_number_api_axioms token_of_def sample_target_def sample_token_def
      del: sample_contract_call)

end
