(* ===== verification/Command_Properties.thy ===== *)
theory Command_Properties
  imports Adapter_Properties
begin

text \<open>
  Properties of the other commands: the KYC flag with its retries, association, transfers, roles,
  the version of the configuration and the creation of a coin.
\<close>

section \<open>KYC\<close>

lemma grantKyc_retry_found:
  "retry \<le> n \<Longrightarrow> n \<le> 3 \<Longrightarrow> (\<forall>i. retry < i \<longrightarrow> i < n \<longrightarrow> q i = Inr None) \<Longrightarrow>
   (if retry = n then rel = Some r else rel = None \<and> q n = Inr (Some r)) \<Longrightarrow>
   grantKyc_retry q retry rel = Inr (Some r)"
proof (induction "n - retry" arbitrary: retry rel)
  case 0
  then show ?case by (simp add: grantKyc_retry.simps)
next
  case (Suc m)
  then have lt: "retry < n" "retry < 3" and rel: "rel = None" "q n = Inr (Some r)" by (auto split: if_splits)
  show ?case
  proof (cases "Suc retry = n")
    case True
    then have "grantKyc_retry q (Suc retry) (Some r) = Inr (Some r)" by (simp add: grantKyc_retry.simps)
    then show ?thesis using True lt rel by (subst grantKyc_retry.simps) simp
  next
    case False
    then have "q (Suc retry) = Inr None" using Suc.prems(3) lt by simp
    moreover have "grantKyc_retry q (Suc retry) None = Inr (Some r)"
      using Suc.hyps(1) [of "Suc retry" None] Suc.hyps(2) Suc.prems lt rel False by auto
    ultimately show ?thesis using lt rel by (subst grantKyc_retry.simps) simp
  qed
qed

lemma grantKyc_retry_none:
  "retry \<le> 3 \<Longrightarrow> (\<forall>i\<le>3. q i = Inr None) \<Longrightarrow> grantKyc_retry q retry None = Inr None"
proof (induction "3 - retry" arbitrary: retry)
  case 0
  then show ?case by (simp add: grantKyc_retry.simps)
next
  case (Suc m)
  then have "q (Suc retry) = Inr None" "grantKyc_retry q (Suc retry) None = Inr None" by auto
  then show ?case using Suc by (subst grantKyc_retry.simps) simp
qed

text \<open>
  Granting KYC waits for the relationship: it is asked for up to four times, and the first
  one that exists decides; KYC is granted when its status is absent or revoked, and refused
  otherwise. When none of the four exists the command fails with \<open>StableCoinNotAssociated\<close>. The coin must have
  a KYC key.
\<close>

theorem grant_kyc_waits:
  assumes "service_getCapabilities (Es 0) tokenId = Inr caps" "sc_kycKey (caps_coin caps) = Some key"
    and "n \<le> 4" "\<forall>i<n. mn_getAccountToken (Es i) targetId tokenId = Inr None"
    and "n < 4 \<longrightarrow> mn_getAccountToken (Es n) targetId tokenId = Inr (Some r)"
  shows "grantKyc_handler Es A targetId tokenId =
    (if n = 4 then throw (CommandError (StableCoinNotAssociated (id_value targetId) (id_value tokenId)))
     else if tr_kycStatus r \<in> {None, Some REVOKED} then respond (ta_grantKyc A caps targetId)
     else throw (CommandError (OperationNotAllowed
       (''KYC cannot be granted for account '' @ id_value targetId @ '' on token '' @ id_value tokenId))))"
proof -
  let ?q = "\<lambda>n. getAccountTokenRelationshipQuery (Es n) targetId tokenId"
  have start: "bindR (?q 0) (grantKyc_retry ?q 0) = Inr (if n = 4 then None else Some r)"
  proof (cases "n = 0")
    case True
    then show ?thesis using assms(5) by (simp add: getAccountTokenRelationshipQuery_def grantKyc_retry.simps)
  next
    case False
    then have zero: "?q 0 = Inr None" using assms(4) by (simp add: getAccountTokenRelationshipQuery_def)
    show ?thesis
    proof (cases "n = 4")
      case True
      then have "grantKyc_retry ?q 0 None = Inr None"
        using assms(4) by (intro grantKyc_retry_none) (auto simp: getAccountTokenRelationshipQuery_def)
      then show ?thesis using True zero by simp
    next
      case n: False
      then have "grantKyc_retry ?q 0 None = Inr (Some r)"
        using False assms(3-5)
        by (intro grantKyc_retry_found [of 0 n]) (auto simp: getAccountTokenRelationshipQuery_def)
      then show ?thesis using n zero by simp
    qed
  qed
  have "grantKyc_checks Es targetId tokenId =
    bindR (bindR (?q 0) (grantKyc_retry ?q 0)) (\<lambda>rel.
      case rel of
        None \<Rightarrow> not_associated targetId tokenId
      | Some r \<Rightarrow>
          if tr_kycStatus r \<noteq> None \<and> tr_kycStatus r \<noteq> Some REVOKED
          then not_allowed (''KYC cannot be granted for account '' @ id_value targetId @ '' on token '' @ id_value tokenId)
          else Inr caps)"
    by (simp only: grantKyc_checks_def assms(1,2) bindR_assoc bindR.simps option.distinct if_False)
  then show ?thesis unfolding start
    by (auto simp: grantKyc_handler_def not_associated_def not_allowed_def)
qed

text \<open>A target without a relationship at first, whose KYC is revoked when it appears.\<close>

definition kyc_nets :: "nat \<Rightarrow> env" where
  "kyc_nets i = (if i < 2 then sample_env sample_coin (\<lambda>_. None) ''0.0.0'' 0
     else sample_env sample_coin (\<lambda>_. Some (sample_relation \<lparr>tr_kycStatus := Some REVOKED\<rparr>)) ''0.0.0'' 0)"

theorem grant_kyc_waits_witness:
  "grantKyc_handler kyc_nets (sample_adapter sample_net) sample_target sample_token =
     respond (ta_grantKyc (sample_adapter sample_net) sample_caps sample_target)"
proof -
  have "StableCoinService_get (kyc_nets 0) sample_token = Inr sample_stored"
    by (simp add: StableCoinService_get_def getStableCoinQuery_def kyc_nets_def sample_env_def sample_view_def
        sample_coin_def minimal_props_def toCustomFees_def sample_stored_def)
  then have caps: "service_getCapabilities (kyc_nets 0) sample_token = Inr sample_caps"
    by (simp add: service_getCapabilities_def getCapabilities_def sample_caps_def kyc_nets_def
        sample_env_def sample_net_def)
  have "mn_getAccountToken (kyc_nets i) sample_target sample_token =
      Inr (if i < 2 then None else Some (sample_relation \<lparr>tr_kycStatus := Some REVOKED\<rparr>))" for i
    by (simp add: kyc_nets_def sample_env_def)
  then show ?thesis
    using grant_kyc_waits [of kyc_nets sample_token sample_caps "KeyContract (ContractId ''0.0.10'')" 2 sample_target
        "sample_relation \<lparr>tr_kycStatus := Some REVOKED\<rparr>" "sample_adapter sample_net", OF caps]
    by (simp add: sample)
qed

section \<open>Association and transfers\<close>

text \<open>
  Associating an account that already has a relationship returns a success without
  submitting; otherwise the custodial and the client adapters associate the token with the adapter's own
  account, whatever the target of the command.
\<close>

theorem associate_own_account:
  assumes "getAccountTokenRelationshipQuery E targetId tokenId = Inr rel"
    and "ex_supportsEvmOperations X = False"
  shows "associate_handler E (base_adapter X E) targetId tokenId =
    (if rel \<noteq> None then ret (True, None)
     else respond (signing ''associateToken'' (ex_processTransaction X
       (TokenAssociateTransaction (id_value (acc_id (ex_getAccount X))) [id_value tokenId]) RECEIPT None)))"
  using assms by (simp add: associate_handler_def base_adapter_def op_associateToken_def Let_def)

theorem associate_own_account_witness:
  "actions (associate_handler (kyc_nets 0) (base_adapter (sample_executor sample_net) (kyc_nets 0)) sample_target sample_token) =
     [ExecuteTransaction (TokenAssociateTransaction ''0.0.7'' [''0.0.9''])]"
proof -
  have "getAccountTokenRelationshipQuery (kyc_nets 0) sample_target sample_token = Inr None"
    by (simp add: getAccountTokenRelationshipQuery_def kyc_nets_def sample_env_def)
  from associate_own_account [OF this, of "sample_executor sample_net"] show ?thesis
    by (simp add: sample_executor_def custodial_executor_def base_executor_def custodial_processTransaction_def
        sample_client_def actions_bindIO rethrow_def act_def sample_net_def sample_env_def sample_id_def sample_token_def)
qed

text \<open>
  The transfers command never moves a token with the adapters of this family: it has no
  effect outside and always throws, even when all of its checks pass, since none of them implements
  the operation.
\<close>

theorem transfers_never_submit:
  "actions (transfers_handler E (base_adapter X E) amounts targetsIds tokenId targetId) = [] \<and>
   (\<exists>e. outcome (transfers_handler E (base_adapter X E) amounts targetsIds tokenId targetId) = Inl e)"
  by (cases "transfers_checks E amounts targetsIds tokenId targetId")
    (auto simp: transfers_handler_def base_adapter_def respond_def)

section \<open>Roles\<close>

lemma format_role_amount_value:
  assumes "fixed_number_api (env_lib E)"
  shows "format_role_amount E a = Inr (if 0 < bd_rat a then bd_value a else 2 ^ 256 - 1)"
proof -
  have "getDecimalsFromString ''0'' = 0" "parse_fixed ''0'' 0 = Some \<lparr>fn_value = 0, fn_decimals = 0\<rparr>"
    by code_simp+
  then have "bd_fromString (env_lib E) ''0'' None = Inr bd_ZERO"
    using fixed_number_api.new_of_string_Inr [OF assms] by (simp add: bd_fromString_def bd_ZERO_def)
  then show ?thesis
    using fixed_number_api.gt [OF assms]
    by (simp add: format_role_amount_def isGreaterThan_def toBigInt_def UINT256_MAX_def bd_ZERO_def fn_rat_def)
qed

text \<open>
  Granting many roles is one contract call with the roles' hashes, the accounts' addresses and
  the raw amounts, in order; an amount that is zero or negative becomes the greatest word of 256 bits,
  an unlimited allowance. The gas is 200000 for each pair of an account and a role, up to 7000000.
\<close>

theorem grant_roles_call:
  assumes "fixed_number_api (env_lib E)"
    and "proxy_of caps = Inr (contractId, evm)" "mapR (resolve_id E) targetsId = Inr accounts"
  shows "op_grantRoles X E caps targetsId roles amounts = signing ''grantRoles''
    (ex_executeContractCall X contractId ''RoleManagementFacet'' ''grantRoles''
       [CSeq (map (CStr \<circ> role_hash) roles), CSeq (map CStr accounts),
        CSeq (map (\<lambda>a. CInt (if 0 < bd_rat a then bd_value a else 2 ^ 256 - 1)) amounts)]
       (min (int (length targetsId) * int (length roles) * 200000) 7000000) None None None evm)"
proof -
  have "mapR (format_role_amount E) amounts = Inr (map (\<lambda>a. if 0 < bd_rat a then bd_value a else 2 ^ 256 - 1) amounts)"
    by (rule mapR_map) (rule format_role_amount_value [OF assms(1)])
  then show ?thesis
    using assms(2,3)
    by (simp add: op_grantRoles_def roles_gas_def Let_def GRANT_ROLES_GAS_def MAX_ROLES_GAS_def min_def comp_def)
qed

theorem grant_roles_call_witness:
  "op_grantRoles (sample_executor sample_net) sample_net sample_caps [sample_target] [CASHIN_ROLE] [bd2 0] =
   signing ''grantRoles''
    (ex_executeContractCall (sample_executor sample_net) ''0.0.10'' ''RoleManagementFacet'' ''grantRoles''
       [CSeq [CStr (role_hash CASHIN_ROLE)], CSeq [CStr sample_escrow], CSeq [CInt (2 ^ 256 - 1)]]
       200000 None None None (Some (evm_value sample_proxy)))"
  using grant_roles_call [of sample_net sample_caps "''0.0.10''" "Some (evm_value sample_proxy)" "[sample_target]"
      "[sample_escrow]" "sample_executor sample_net" "[CASHIN_ROLE]" "[bd2 0]"]
  by (simp add: sample exact.fixed_number_api_axioms sample_target_def fn_rat_def del: sample_contract_call)

section \<open>The version of the configuration\<close>

lemma multisig_post:
  assumes "e \<in> set (actions (multisig_processTransaction M t tt sd))"
  shows "\<exists>body. e = BackendRequest (HttpPost body) \<and>
    ab_start_date body = (case sd of None \<Rightarrow> ms_now M | Some d \<Rightarrow> if d = [] then ms_now M else d)"
  using assms
  by (auto simp: multisig_processTransaction_def Let_def withR_def backend_add_actions
      split: sum.splits list.splits option.splits)

text \<open>
  With the multisignature adapter, the update of the configuration's version posts a
  transaction whose start date is the EVM address of the coin's proxy, whatever the start date of the
  request: the arguments of the contract call are shifted by one. The update of the configuration posts
  the start date that it is given.
\<close>

theorem config_version_start_date:
  assumes "sc_evmProxyAddress (caps_coin caps) = Some a" "evm_value a \<noteq> []"
  shows "(\<forall>e\<in>set (actions (op_updateConfigVersion (multisig_executor M enc) caps v sd)).
      \<exists>body. e = BackendRequest (HttpPost body) \<and> ab_start_date body = evm_value a) \<and>
    (\<forall>e\<in>set (actions (op_updateConfig (multisig_executor M enc) caps ci v (Some (c # d)))).
      \<exists>body. e = BackendRequest (HttpPost body) \<and> ab_start_date body = c # d)"
proof (intro conjI ballI)
  fix e assume "e \<in> set (actions (op_updateConfigVersion (multisig_executor M enc) caps v sd))"
  then obtain t tt where "e \<in> set (actions (multisig_processTransaction M t tt (Some (evm_value a))))"
    using assms(1)
    by (auto simp: op_updateConfigVersion_def proxy_of_def multisig_executor_def base_executor_def
        base_executeContractCall_def withR_def split: sum.splits option.splits if_splits)
  from multisig_post [OF this] assms(2) show "\<exists>body. e = BackendRequest (HttpPost body) \<and> ab_start_date body = evm_value a"
    by simp
next
  fix e assume "e \<in> set (actions (op_updateConfig (multisig_executor M enc) caps ci v (Some (c # d))))"
  then obtain t tt where "e \<in> set (actions (multisig_processTransaction M t tt (Some (c # d))))"
    by (auto simp: op_updateConfig_def proxy_of_def multisig_executor_def base_executor_def
        base_executeContractCall_def withR_def split: sum.splits option.splits if_splits)
  from multisig_post [OF this] show "\<exists>body. e = BackendRequest (HttpPost body) \<and> ab_start_date body = c # d"
    by simp
qed

definition sample_multisig :: multisig_env where
  "sample_multisig =
     \<lparr>ms_account = \<lparr>acc_id = sample_id, acc_evmAddress = None, acc_privateKey = None, acc_publicKey = None,
        acc_multiKey = Some \<lparr>mk_keys = [\<lparr>pk_key = ''a1'', pk_type = ''ED25519''\<rparr>], mk_threshold = 1\<rparr>\<rparr>,
      ms_environment = ''testnet'', ms_consensusNodes = [(''url'', ''0.0.3'')], ms_now = ''2024'',
      ms_timestamp = Inr, ms_description = (\<lambda>t. []), ms_freeze = (\<lambda>t a v n c. Inr []),
      ms_http = (\<lambda>r. Inr \<lparr>hr_status = 201, hr_statusText = [], hr_data = Some (DataTransactionId ''1'')\<rparr>)\<rparr>"

theorem config_version_start_date_witness:
  "\<exists>body. actions (op_updateConfigVersion (multisig_executor sample_multisig (\<lambda>f n p. Inr ())) sample_caps 2 None) =
     [BackendRequest (HttpPost body)] \<and> ab_start_date body = evm_value sample_proxy"
proof -
  have "evm_value sample_proxy \<noteq> []" by (simp add: sample_proxy_def)
  note dates = config_version_start_date [where caps = sample_caps and M = sample_multisig and
      enc = "\<lambda>f n p. Inr ()" and v = 2 and sd = None, OF _ this]
  have "\<exists>body. actions (op_updateConfigVersion (multisig_executor sample_multisig (\<lambda>f n p. Inr ())) sample_caps 2 None) =
      [BackendRequest (HttpPost body)]"
    by (simp add: op_updateConfigVersion_def sample multisig_executor_def base_executor_def
        base_executeContractCall_def buildContractTransaction_def multisig_processTransaction_def
        sample_multisig_def backend_add_actions)
  with dates show ?thesis by (auto simp: sample)
qed

section \<open>Creation\<close>

lemma exceeds_at_floor:
  assumes "fixed_number_api (env_lib E)" "n \<le> 18"
    and "0 \<le> bd_value a" "bd_value a < 2 ^ 64" "bd_decimals a \<le> n"
    and "0 \<le> bd_value b" "bd_value b < 2 ^ 64" "bd_decimals b \<le> n"
  shows "exceeds_at E n a b = Inr (\<lfloor>bd_rat b\<rfloor> < \<lfloor>bd_rat a\<rfloor>)"
proof -
  obtain a' b' where "setDecimals (env_lib E) a n = Inr a'" "bd_rat a' = of_int \<lfloor>bd_rat a\<rfloor>"
    "setDecimals (env_lib E) b n = Inr b'" "bd_rat b' = of_int \<lfloor>bd_rat b\<rfloor>"
    using fixed_number_api.setDecimals_floor [OF assms(1) assms(3-5) assms(2)]
      fixed_number_api.setDecimals_floor [OF assms(1) assms(6-8) assms(2)] by blast
  then show ?thesis
    using fixed_number_api.gt [OF assms(1)] by (simp add: exceeds_at_def isGreaterThan_def)
qed

definition amount_in_range :: "nat \<Rightarrow> big_decimal \<Rightarrow> bool" where
  "amount_in_range d b \<longleftrightarrow> 0 \<le> bd_value b \<and> bd_value b < 2 ^ 63 \<and> bd_decimals b \<le> max 2 d \<and> d \<le> 18"

text \<open>
  Property C24. A coin is created (the factory is called) only when the factory, the resolver, the
  configuration and the owner of the proxy are given, the initial supply is at most the maximum, and the
  whole part of the initial supply is at most the whole part of the initial amount of a new reserve and
  of the amount of an existing one.
\<close>

theorem create_safe:
  assumes "fixed_number_api (env_lib E)"
    and "sc_initialSupply (cr_coin c) = Some i" "amount_in_range (sc_decimals (cr_coin c)) i"
    and "actions (create_handler fromEvm fromString E A c) \<noteq> []"
  shows "cr_factory c \<noteq> None \<and> cr_resolver c \<noteq> None \<and> \<not> missing (cr_configId c) \<and>
    cr_proxyOwnerAccount c \<noteq> None \<and> cr_configVersion c \<noteq> None \<and>
    (\<forall>mx. sc_maxSupply (cr_coin c) = Some mx \<longrightarrow> bd_rat i \<le> bd_rat mx) \<and>
    (\<forall>r. cr_createReserve c \<longrightarrow> cr_reserveInitialAmount c = Some r \<longrightarrow>
       amount_in_range (sc_decimals (cr_coin c)) r \<longrightarrow> \<lfloor>bd_rat i\<rfloor> \<le> \<lfloor>bd_rat r\<rfloor>) \<and>
    (\<forall>address r. cr_reserveAddress c = Some address \<longrightarrow> create_reserve_amount E address = Inr r \<longrightarrow>
       amount_in_range (sc_decimals (cr_coin c)) r \<longrightarrow> \<lfloor>bd_rat i\<rfloor> \<le> \<lfloor>bd_rat r\<rfloor>)"
proof -
  obtain q where q: "create_required c = Inr q" "create_check_max E (cr_coin c) = Inr ()"
    "create_check_reserve E c = Inr ()"
    using assms(4) unfolding create_handler_def
    by (auto elim!: withR_acts simp: withR_def split: sum.splits)
  have "cr_factory c \<noteq> None \<and> cr_resolver c \<noteq> None \<and> \<not> missing (cr_configId c) \<and>
    cr_proxyOwnerAccount c \<noteq> None \<and> cr_configVersion c \<noteq> None"
    using q(1) by (auto simp: create_required_def invalid_request_def split: option.splits if_splits)
  moreover have "bd_rat i \<le> bd_rat mx" if "sc_maxSupply (cr_coin c) = Some mx" for mx
    using q(2) that assms(2) fixed_number_api.gt [OF assms(1)]
    by (simp add: create_check_max_def not_allowed_def isGreaterThan_def not_less split: if_splits)
  moreover have floor: "exceeds_at E (max RESERVE_DECIMALS (sc_decimals (cr_coin c))) i r =
      Inr (\<lfloor>bd_rat r\<rfloor> < \<lfloor>bd_rat i\<rfloor>)" if "amount_in_range (sc_decimals (cr_coin c)) r" for r
    using that assms(3)
    by (intro exceeds_at_floor [OF assms(1)]) (auto simp: amount_in_range_def RESERVE_DECIMALS_def)
  moreover have "\<lfloor>bd_rat i\<rfloor> \<le> \<lfloor>bd_rat r\<rfloor>"
    if "cr_createReserve c" "cr_reserveInitialAmount c = Some r" "amount_in_range (sc_decimals (cr_coin c)) r" for r
    using q(3) that(1,2) floor [OF that(3)] assms(2)
    by (simp add: create_check_reserve_def Let_def not_allowed_def split: if_splits)
  moreover have "\<lfloor>bd_rat i\<rfloor> \<le> \<lfloor>bd_rat r\<rfloor>"
    if "cr_reserveAddress c = Some address" "create_reserve_amount E address = Inr r"
      "amount_in_range (sc_decimals (cr_coin c)) r" for address r
  proof -
    have "create_check_existing E i (max RESERVE_DECIMALS (sc_decimals (cr_coin c))) (cr_reserveAddress c) = Inr ()"
      using q(3) assms(2)
      by (auto simp: create_check_reserve_def Let_def bindR_Inr_iff not_allowed_def split: if_splits)
    then show ?thesis
      using that(1,2) floor [OF that(3)] by (simp add: create_check_existing_def not_allowed_def split: if_splits)
  qed
  ultimately show ?thesis by blast
qed

definition sample_create :: create_command where
  "sample_create =
     \<lparr>cr_coin = (minimal_props ''Coin'' ''C'' 2) \<lparr>sc_initialSupply := Some (bd2 10050), sc_maxSupply := Some (bd2 20000)\<rparr>,
      cr_createReserve = True, cr_factory = Some (ContractId ''0.0.20''), cr_reserveAddress = None,
      cr_updatedAtThreshold = None, cr_reserveInitialAmount = Some (bd2 10000),
      cr_proxyOwnerAccount = Some sample_id, cr_resolver = Some (ContractId ''0.0.21''),
      cr_configId = Some ''0x01'', cr_configVersion = Some 1, cr_reserveConfigVersion = Some 1,
      cr_reserveConfigId = Some ''0x02''\<rparr>"

definition accepting_adapter :: "adapter_event tx_adapter" where
  "accepting_adapter = (sample_adapter sample_net)
     \<lparr>ta_create := (\<lambda>coin f cr r ci cv po ut ra ria rci rcv.
        act (ExecuteTransaction (TokenPauseTransaction [])) (Inr (createTransactionResponse (Some ''0.0.7@1''))))\<rparr>"

lemma create_sample_acts: "actions (create_handler Inr Inr sample_net accepting_adapter sample_create) \<noteq> []"
proof -
  have "create_required sample_create = Inr (ContractId ''0.0.20'', ContractId ''0.0.21'', ''0x01'', sample_id, 1)"
    by (simp add: create_required_def sample_create_def missing_def)
  moreover have "create_check_max sample_net (cr_coin sample_create) = Inr ()"
    by (simp add: create_check_max_def sample_create_def sample minimal_props_def)
  moreover have "exceeds_at sample_net 2 (bd2 10050) (bd2 10000) = Inr False"
    using exceeds_at_floor [of sample_net 2 "bd2 10050" "bd2 10000"]
    by (simp add: exact.fixed_number_api_axioms fn_rat_def bd2_def)
  then have "create_check_reserve sample_net sample_create = Inr ()"
    by (simp add: create_check_reserve_def sample_create_def minimal_props_def RESERVE_DECIMALS_def create_check_existing_def)
  ultimately show ?thesis
    by (simp add: create_handler_def accepting_adapter_def actions_bindIO)
qed

theorem create_safe_witness: "\<lfloor>bd_rat (bd2 10050)\<rfloor> \<le> \<lfloor>bd_rat (bd2 10000)\<rfloor> \<and> bd_rat (bd2 10000) < bd_rat (bd2 10050)"
  using create_safe [OF _ _ _ create_sample_acts, of "bd2 10050"]
  by (simp add: exact.fixed_number_api_axioms sample_create_def minimal_props_def amount_in_range_def)
    (simp add: bd2_def fn_rat_def)

end
