(* ===== verification/Domain_Properties.thy ===== *)
theory Domain_Properties
  imports Stable_Coin
begin

text \<open>
  Properties of the domain's values: amounts and their notations, the limits of a supply, the
  notations of bytes and addresses, and the memo of a coin.
\<close>

section \<open>Amounts\<close>

text \<open>
  Printing an amount and reading it back in its own format gives the same amount,
  for every value of 128 bits but the least one, and up to 80 decimals.
\<close>

theorem amount_roundtrip:
  assumes "fixed_number_api L" "bd_decimals b \<le> 80" "\<bar>bd_value b\<bar> < 2 ^ 127"
  shows "bd_fromString L (bd_toString L b) (Some (bd_decimals b)) = Inr b"
  using assms by (intro fixed_number_api.toString_roundtrip) (auto simp: in_range128_def abs_less_iff)

theorem amount_roundtrip_witness:
  "bd_fromString exact_lib (bd_toString exact_lib \<lparr>bd_fn = \<lparr>fn_value = 1500, fn_decimals = 3\<rparr>\<rparr>) (Some 3) =
     Inr \<lparr>bd_fn = \<lparr>fn_value = 1500, fn_decimals = 3\<rparr>\<rparr>"
  using amount_roundtrip [OF exact.fixed_number_api_axioms, of "\<lparr>bd_fn = \<lparr>fn_value = 1500, fn_decimals = 3\<rparr>\<rparr>"]
  by simp

text \<open>
  A raw integer of a contract, up to the greatest of 63 bits, becomes an amount that stands
  for that integer in the token's smallest unit, and both ways of submitting it, \<open>toBigInt\<close> and
  \<open>toLong\<close>, give the integer back.
\<close>

theorem raw_amount_roundtrip:
  assumes "fixed_number_api L" "0 \<le> v" "v < 2 ^ 63" "d \<le> 80"
  shows "\<exists>b. fromStringFixed L (int_str v) d = Inr b \<and> bd_rat b = of_int v / 10 ^ d \<and>
    toBigInt b = v \<and> toLong L b = v"
proof -
  let ?b = "\<lparr>bd_fn = \<lparr>fn_value = v, fn_decimals = d\<rparr>\<rparr>"
  have "fromStringFixed L (int_str v) d = Inr ?b"
    using assms by (intro fixed_number_api.fromStringFixed_int) (auto simp: in_range128_def)
  moreover have "toLong L ?b = v"
    using fixed_number_api.toLong_exact [OF assms(1), of ?b] assms(2,3) by simp
  ultimately show ?thesis by (auto simp: fn_rat_def toBigInt_def)
qed

theorem raw_amount_roundtrip_witness:
  "\<exists>b. fromStringFixed exact_lib (int_str 150) 2 = Inr b \<and> toLong exact_lib b = 150"
  using raw_amount_roundtrip [OF exact.fixed_number_api_axioms, of 150 2] by auto

text \<open>
  \<open>setDecimals\<close> to at least the amount's own decimals keeps only the whole part of a
  non-negative amount: the fraction is lost, and \<open>1.99\<close> with four decimals is \<open>1\<close>.
\<close>

theorem set_decimals_whole_part:
  assumes "fixed_number_api L" "0 \<le> bd_value b" "bd_decimals b \<le> n" "n \<le> 80"
    and "\<lfloor>bd_rat b\<rfloor> * 10 ^ n < 2 ^ 127"
  shows "\<exists>c. setDecimals L b n = Inr c \<and> bd_decimals c = n \<and> bd_rat c = of_int \<lfloor>bd_rat b\<rfloor>"
proof -
  have f: "\<lfloor>bd_rat b\<rfloor> = bd_value b div 10 ^ bd_decimals b"
    by (rule fixed_number_api.floor_rat [OF assms(1)])
  then have "0 \<le> \<lfloor>bd_rat b\<rfloor> * 10 ^ n" using assms(2) by (simp add: pos_imp_zdiv_nonneg_iff)
  then have "in_range128 (\<lfloor>bd_rat b\<rfloor> * 10 ^ n)" using assms(5) unfolding in_range128_def by simp
  then show ?thesis
    using fixed_number_api.setDecimals_whole [OF assms(1-4)] f by (simp add: fn_rat_def)
qed

theorem set_decimals_whole_part_witness:
  "\<exists>c. setDecimals exact_lib \<lparr>bd_fn = \<lparr>fn_value = 199, fn_decimals = 2\<rparr>\<rparr> 4 = Inr c \<and> bd_rat c = 1"
proof -
  have "\<lfloor>bd_rat \<lparr>bd_fn = \<lparr>fn_value = 199, fn_decimals = 2\<rparr>\<rparr>\<rfloor> = 1"
    by (simp add: fn_rat_def floor_eq_iff)
  then show ?thesis
    using set_decimals_whole_part [OF exact.fixed_number_api_axioms, of "\<lparr>bd_fn = \<lparr>fn_value = 199, fn_decimals = 2\<rparr>\<rparr>" 4]
    by auto
qed

section \<open>The supply of a coin\<close>

text \<open>
  The check of a maximum supply finds no fault exactly when the maximum is at least the
  initial supply (or zero, when there is none), at most the greatest supply of the network, and not
  positive for a coin of infinite supply.
\<close>

theorem max_supply_accepted:
  assumes "fixed_number_api L" "d \<le> 80"
  shows "checkMaxSupply L b d initial supplyType = Inr [] \<longleftrightarrow>
    (case initial of None \<Rightarrow> 0 | Some i \<Rightarrow> bd_rat i) \<le> bd_rat b \<and>
    bd_rat b \<le> 9223372036854775807 / 10 ^ d \<and> (supplyType = Some INFINITE \<longrightarrow> bd_rat b \<le> 0)"
  by (rule fixed_number_api.checkMaxSupply_ok [OF assms])

theorem max_supply_accepted_witness:
  "checkMaxSupply exact_lib \<lparr>bd_fn = \<lparr>fn_value = 500, fn_decimals = 2\<rparr>\<rparr> 2 None (Some FINITE) = Inr [] \<and>
   checkMaxSupply exact_lib \<lparr>bd_fn = \<lparr>fn_value = 500, fn_decimals = 2\<rparr>\<rparr> 2 None (Some INFINITE) \<noteq> Inr []"
  using max_supply_accepted [OF exact.fixed_number_api_axioms, of 2 "\<lparr>bd_fn = \<lparr>fn_value = 500, fn_decimals = 2\<rparr>\<rparr>" None "Some FINITE"]
    max_supply_accepted [OF exact.fixed_number_api_axioms, of 2 "\<lparr>bd_fn = \<lparr>fn_value = 500, fn_decimals = 2\<rparr>\<rparr>" None "Some INFINITE"]
  by (simp add: fn_rat_def)

text \<open>
  The proxy contract that a memo names does not survive the memo's own notation: reading
  what \<open>toJson\<close> wrote gives a memo without a contract, since the two use different property names.
\<close>

theorem memo_forgets_contract:
  "memo_proxyContract (StableCoinMemo_fromJson (StableCoinMemo_toJson m)) = None"
  by (simp add: StableCoinMemo_fromJson_def StableCoinMemo_toJson_def split: option.split)

section \<open>Bytes and addresses\<close>

text \<open>Bytes written in hexadecimal are read back unchanged.\<close>

theorem hex_notation_roundtrip: "toUint8Array (fromUint8Array bs) = bs"
  by (rule hex_roundtrip)

text \<open>
  An EVM address in its usual notation, \<open>0x\<close> and forty hexadecimal digits, which the
  class \<open>EvmAddress\<close> accepts, is not recognised by the check of addresses, so that
  \<open>toEvmAddress\<close> prefixes it a second time.
\<close>

theorem evm_address_prefixed_twice:
  assumes "length a = 40" "list_all is_hex a"
  shows "new_EvmAddress (''0x'' @ a) = Inr (EvmAddress (''0x'' @ a)) \<and> \<not> isEvmAddress (''0x'' @ a) \<and>
    toEvmAddress (''0x'' @ a) = ''0x0x'' @ js_toLowerCase a"
proof -
  have "\<not> isEvmAddress (''0x'' @ a)" using assms(1) by (simp add: isEvmAddress_def)
  moreover have "js_toLowerCase (''0x'' @ a) = ''0x'' @ js_toLowerCase a"
    by (simp add: js_toLowerCase_def is_upper_def char_code_def)
  ultimately show ?thesis
    using assms(1) by (simp add: new_EvmAddress_def js_startsWith_def toEvmAddress_def)
qed

theorem evm_address_prefixed_twice_witness:
  "toEvmAddress (''0x'' @ replicate 40 (CHR ''0'')) = ''0x0x'' @ js_toLowerCase (replicate 40 (CHR ''0''))"
proof -
  have "list_all is_hex (replicate 40 (CHR ''0''))"
    by (simp add: list_all_length is_hex_def is_digit_def char_code_def)
  with evm_address_prefixed_twice [of "replicate 40 (CHR ''0'')"] show ?thesis by simp
qed

end
