(* ===== verification/Mirror_Node.thy ===== *)
theory Mirror_Node
  imports Ports
begin

text \<open>
  \<open>MirrorNodeAdapter\<close> (\<open>sdk/src/port/out/mirror\<close>): the requests to the mirror node's REST interface
  and the view models that their answers become.

  The HTTP client is the record \<open>mirror\<close>: one field per endpoint, from the variable parts of its
  URL to the answer's data, or to the error with which axios rejects (every status but 2xx and 404).
  A field of the data that may be missing is an option. The two endpoints that are asked again have
  the number of the attempt as an argument, and the polling of contract results has the answers that
  arrive during each of its waits.
\<close>

section \<open>The answers\<close>

record key_json =
  kj_type :: string
  kj_key :: string

record fixed_fee_json =
  fx_amount :: "int option"
  fx_collector :: string
  fx_denominating :: "string option"
  fx_exempt :: bool

record fractional_fee_json =
  fr_numerator :: string
  fr_denominator :: string
  fr_collector :: string
  fr_minimum :: "int option"
  fr_maximum :: "int option"
  fr_net :: bool
  fr_exempt :: bool

text \<open>\<open>tj_memo\<close> is the memo after \<open>JSON.parse\<close>, \<open>None\<close> when that throws.\<close>

record token_json =
  tj_token_id :: "string option"
  tj_name :: "string option"
  tj_symbol :: "string option"
  tj_decimals :: "string option"
  tj_initial_supply :: "string option"
  tj_total_supply :: "string option"
  tj_max_supply :: "string option"
  tj_custom_fees :: "(fixed_fee_json list \<times> fractional_fee_json list) option"
  tj_treasury :: "string option"
  tj_expiry :: "int option"
  tj_memo :: "json_object option"
  tj_pause_status :: "string option"
  tj_freeze_default :: bool
  tj_auto_renew_account :: "string option"
  tj_auto_renew_period :: "int option"
  tj_deleted :: bool
  tj_admin_key :: "key_json option"
  tj_kyc_key :: "key_json option"
  tj_freeze_key :: "key_json option"
  tj_wipe_key :: "key_json option"
  tj_supply_key :: "key_json option"
  tj_pause_key :: "key_json option"
  tj_fee_schedule_key :: "key_json option"

record contract_json =
  cj_contract_id :: "string option"
  cj_evm_address :: "string option"

record account_json =
  aj_account :: "string option"
  aj_evm_address :: "string option"
  aj_alias :: "string option"
  aj_key :: "key_json option"
  aj_max_automatic :: "int option"

record relation_json =
  rj_automatic :: bool
  rj_balance :: int
  rj_created :: string
  rj_freeze :: "freeze_status option"
  rj_kyc :: "kyc_status option"
  rj_token_id :: string

text \<open>A page of relationships: those marked as automatic or not, and the link to the next page.\<close>

record relation_page =
  rp_relations :: "bool option list"
  rp_next :: "string option"

record 'a reply =
  rep_status :: int
  rep_data :: 'a

record mirror =
  mi_lib :: fixed_number_lib
  mi_decode :: "byte list \<Rightarrow> proto_key"
  mi_contractNum :: "byte list \<Rightarrow> int option \<times> int option"
    \<comment> \<open>\<open>contractID.contractNum\<close> and \<open>delegatableContractId.contractNum\<close> of a decoded key\<close>
  mi_toEthereumAddress :: "string \<Rightarrow> string result"
  mi_accountIdString :: "string \<Rightarrow> string"       \<comment> \<open>\<open>AccountId.fromString(v).toString()\<close>\<close>
  mi_getToken :: "string \<Rightarrow> nat \<Rightarrow> token_json reply result"
  mi_getContract :: "string \<Rightarrow> nat \<Rightarrow> contract_json reply result"
  mi_getTokens :: "string \<Rightarrow> (string \<times> string) list option result"   \<comment> \<open>id and symbol\<close>
  mi_getAccount :: "string \<Rightarrow> account_json result"
  mi_getAccountTokens :: "string \<Rightarrow> string \<Rightarrow> relation_json list option result"
  mi_getRelationPage :: "string \<Rightarrow> relation_page result"
  mi_getCallResult :: "string \<Rightarrow> string option result"
  mi_getTransactions :: "string \<Rightarrow> string list option result"
  mi_getBalances :: "string \<Rightarrow> int list option result"
  mi_arrivals :: "string \<Rightarrow> nat \<Rightarrow> string option reply list"

section \<open>Asking again\<close>

text \<open>
  The loop of \<open>getTokenInfo\<close> and of \<open>getContractInfo\<close>: ask until the status is 200, at most
  \<open>retry\<close> times; the last answer is handed on, whatever its status.
\<close>

function ask_again :: "(nat \<Rightarrow> 'a reply result) \<Rightarrow> nat \<Rightarrow> nat \<Rightarrow> 'a reply result" where
  "ask_again get retry i =
     bindR (get i) (\<lambda>response.
       if rep_status response \<noteq> 200 \<and> Suc i < retry then ask_again get retry (Suc i)
       else Inr response)"
  by pat_completeness auto
termination by (relation "measure (\<lambda>(get, retry, i). retry - i)") auto

declare ask_again.simps [simp del]

definition RETRY :: nat where "RETRY = 10"

definition getTokenInfo :: "mirror \<Rightarrow> hedera_id \<Rightarrow> token_json reply result" where
  "getTokenInfo M tokenId = ask_again (mi_getToken M (id_value tokenId)) RETRY 0"

text \<open>\<open>return Promise.reject(new InvalidResponse(error))\<close>\<close>

definition invalid_response :: "'a result \<Rightarrow> 'a result" where
  "invalid_response r = (case r of Inl e \<Rightarrow> Inl (InvalidResponse (Some e)) | Inr x \<Rightarrow> Inr x)"

text \<open>
  The contract's id and address are read from the last answer; on a contract that was never found
  they are missing. Every use of a missing one throws (a property of \<open>undefined\<close>), which
  \<open>mirror_getContractInfo\<close> says once for all.
\<close>

definition mirror_getContractInfo :: "mirror \<Rightarrow> string \<Rightarrow> contract_info result" where
  "mirror_getContractInfo M contractEvmAddress =
     bindR (invalid_response (ask_again (mi_getContract M contractEvmAddress) RETRY 0)) (\<lambda>response.
       case (cj_contract_id (rep_data response), cj_evm_address (rep_data response)) of
         (Some i, Some a) \<Rightarrow> Inr \<lparr>ci_id = i, ci_evmAddress = a\<rparr>
       | _ \<Rightarrow> Inl TypeError)"

section \<open>Keys\<close>

fun remove_0x :: "string \<Rightarrow> string" where
  "remove_0x (a # b # s) =
     (if a = CHR ''0'' \<and> b = CHR ''x'' then remove_0x s else a # remove_0x (b # s))"
| "remove_0x s = s"

text \<open>\<open>ContractId.fromProtoBufKey\<close> without the option \<open>strict\<close>, which no caller sets.\<close>

definition fromProtoBufKey :: "(byte list \<Rightarrow> int option \<times> int option) \<Rightarrow> string \<Rightarrow> contract_id result" where
  "fromProtoBufKey decode key =
     (let normalizedInput = filter (\<lambda>c. \<not> is_blank c) key;
          keyProto = toUint8Array (js_toLowerCase (remove_0x normalizedInput));
          i = (case decode keyProto of
                 (Some n, _) \<Rightarrow> n | (None, Some n) \<Rightarrow> n | (None, None) \<Rightarrow> 0)
      in new_ContractId (''0.0.'' @ int_str i))"

definition PROTOBUF_ENCODED :: string where "PROTOBUF_ENCODED = ''ProtobufEncoded''"

definition getKeyOrDefault :: "mirror \<Rightarrow> key_json option \<Rightarrow> token_key option result" where
  "getKeyOrDefault M val =
     (case val of
        None \<Rightarrow> Inr None
      | Some k \<Rightarrow>
          if kj_type k = PROTOBUF_ENCODED
          then bindR (fromProtoBufKey (mi_contractNum M) (kj_key k)) (\<lambda>c. Inr (Some (KeyContract c)))
          else bindR (new_PublicKey (\<lambda>_. Inl TypeError) (Some (kj_key k)) (Some (kj_type k)))
                 (\<lambda>pk. Inr (Some (KeyPublic pk))))"

section \<open>Custom fees\<close>

definition amount_or_zero :: "int option \<Rightarrow> string" where
  "amount_or_zero a = (case a of None \<Rightarrow> ''0'' | Some n \<Rightarrow> int_str n)"

text \<open>\<open>parseInt(data.decimals ?? '0')\<close>; decimals that are not a number are a fault of the format.\<close>

definition parse_decimals :: "string option \<Rightarrow> nat result" where
  "parse_decimals d =
     (case js_parseInt (case d of None \<Rightarrow> ''0'' | Some s \<Rightarrow> s) of
        None \<Rightarrow> Inl NumericFault
      | Some n \<Rightarrow> Inr (nat n))"

definition fixed_fee_decimals :: "mirror \<Rightarrow> hedera_id \<Rightarrow> nat \<Rightarrow> hedera_id \<Rightarrow> nat result" where
  "fixed_fee_decimals M tokenId decimals denominatingToken =
     (if id_isNull denominatingToken then Inr 8
      else if id_value denominatingToken \<noteq> id_value tokenId then
        bindR (getTokenInfo M denominatingToken) (\<lambda>response.
          parse_decimals (tj_decimals (rep_data response)))
      else Inr decimals)"

definition mirror_fixed_fee ::
  "mirror \<Rightarrow> hedera_id \<Rightarrow> nat \<Rightarrow> fixed_fee_json \<Rightarrow> request_fee result" where
  "mirror_fixed_fee M tokenId decimals fixedFee =
     bindR (case fx_denominating fixedFee of
              None \<Rightarrow> Inr HederaId_NULL
            | Some d \<Rightarrow> if d = [] then Inr HederaId_NULL else HederaId_from (Some d)) (\<lambda>denominatingToken.
     bindR (fixed_fee_decimals M tokenId decimals denominatingToken) (\<lambda>feeDecimals.
     bindR (fromStringFixed (mi_lib M) (amount_or_zero (fx_amount fixedFee)) feeDecimals) (\<lambda>amount.
       Inr \<lparr>rf_collectorId = fx_collector fixedFee, rf_collectorsExempt = fx_exempt fixedFee,
            rf_decimals = feeDecimals, rf_amount = Some (bd_toString (mi_lib M) amount),
            rf_tokenIdCollected = Some (case fx_denominating fixedFee of
              None \<Rightarrow> ''0.0.0'' | Some d \<Rightarrow> if d = [] then ''0.0.0'' else d),
            rf_amountNumerator = None, rf_amountDenominator = [], rf_percentage = [],
            rf_min = [], rf_max = [], rf_net = False\<rparr>)))"

text \<open>
  \<open>Math.round((100 * 10 ** 2 * numerator) / denominator).toString()\<close>, with exact arithmetic in
  place of the floating point numbers.
\<close>

definition percentage_string :: "string \<Rightarrow> string \<Rightarrow> string" where
  "percentage_string numerator denominator =
     (case (js_parseInt numerator, js_parseInt denominator) of
        (Some n, Some d) \<Rightarrow>
          if d = 0 then (if n = 0 then ''NaN'' else ''Infinity'')
          else int_str ((2 * (100 * 10 ^ MAX_PERCENTAGE_DECIMALS * n) + d) div (2 * d))
      | _ \<Rightarrow> ''NaN'')"

definition mirror_fractional_fee ::
  "mirror \<Rightarrow> nat \<Rightarrow> fractional_fee_json \<Rightarrow> request_fee result" where
  "mirror_fractional_fee M decimals fee =
     bindR (fromStringFixed (mi_lib M) (percentage_string (fr_numerator fee) (fr_denominator fee))
              MAX_PERCENTAGE_DECIMALS) (\<lambda>percentage.
     bindR (fromStringFixed (mi_lib M) (amount_or_zero (fr_minimum fee)) decimals) (\<lambda>mn.
     bindR (fromStringFixed (mi_lib M) (amount_or_zero (fr_maximum fee)) decimals) (\<lambda>mx.
       Inr \<lparr>rf_collectorId = fr_collector fee, rf_collectorsExempt = fr_exempt fee,
            rf_decimals = decimals, rf_amount = None, rf_tokenIdCollected = None,
            rf_amountNumerator = Some (fr_numerator fee), rf_amountDenominator = fr_denominator fee,
            rf_percentage = bd_toString (mi_lib M) percentage, rf_min = bd_toString (mi_lib M) mn,
            rf_max = bd_toString (mi_lib M) mx, rf_net = fr_net fee\<rparr>)))"

definition getCustomFeesOrDefault ::
  "mirror \<Rightarrow> hedera_id \<Rightarrow> nat \<Rightarrow> (fixed_fee_json list \<times> fractional_fee_json list) option \<Rightarrow>
     request_fee list option result" where
  "getCustomFeesOrDefault M tokenId decimals val =
     (case val of
        None \<Rightarrow> Inr None
      | Some (fixed, fractional) \<Rightarrow>
          bindR (mapR (mirror_fixed_fee M tokenId decimals) fixed) (\<lambda>fs.
          bindR (mapR (mirror_fractional_fee M decimals) fractional) (\<lambda>gs.
            Inr (Some (fs @ gs)))))"

section \<open>The stablecoin\<close>

definition getHederaIdfromContractAddress :: "mirror \<Rightarrow> string option \<Rightarrow> string result" where
  "getHederaIdfromContractAddress M contractAddress =
     (case contractAddress of
        None \<Rightarrow> Inr []
      | Some a \<Rightarrow>
          if a = [] then Inr []
          else if 40 \<le> length a then bindR (mirror_getContractInfo M a) (\<lambda>c. Inr (ci_id c))
          else Inr a)"

definition transformTokenMemo :: "mirror \<Rightarrow> json_object option \<Rightarrow> json_object result" where
  "transformTokenMemo M memo =
     (case memo of
        None \<Rightarrow> Inl (JsError ''JSON.parse'')
      | Some m \<Rightarrow>
          bindR (getHederaIdfromContractAddress M (m ''p'')) (\<lambda>p.
          bindR (getHederaIdfromContractAddress M (m ''a'')) (\<lambda>a.
            Inr (m(''p'' \<mapsto> p, ''a'' \<mapsto> a)))))"

text \<open>\<open>s ? BigDecimal.fromStringFixed(s, decimals) : otherwise\<close>\<close>

definition raw_supply ::
  "mirror \<Rightarrow> nat \<Rightarrow> string option \<Rightarrow> big_decimal option \<Rightarrow> big_decimal option result" where
  "raw_supply M decimals s otherwise =
     (case s of
        None \<Rightarrow> Inr otherwise
      | Some v \<Rightarrow> if v = [] then Inr otherwise
          else bindR (fromStringFixed (mi_lib M) v decimals) (\<lambda>b. Inr (Some b)))"

definition text_or_empty :: "string option \<Rightarrow> string" where
  "text_or_empty s = (case s of None \<Rightarrow> [] | Some v \<Rightarrow> v)"

definition token_keys :: "mirror \<Rightarrow> token_json \<Rightarrow> token_key option list result" where
  "token_keys M d =
     mapR (getKeyOrDefault M)
       [tj_admin_key d, tj_kyc_key d, tj_freeze_key d, tj_wipe_key d, tj_supply_key d,
        tj_pause_key d, tj_fee_schedule_key d]"

definition stable_coin_detail :: "mirror \<Rightarrow> hedera_id \<Rightarrow> token_json \<Rightarrow> coin_view result" where
  "stable_coin_detail M tokenId d =
     bindR (parse_decimals (tj_decimals d)) (\<lambda>decimals.
     bindR (transformTokenMemo M (tj_memo d)) (\<lambda>transformedMemo.
     let proxyAddress = text_or_empty (memo_proxyContract (StableCoinMemo_fromJson transformedMemo)) in
     bindR (mirror_getContractInfo M proxyAddress) (\<lambda>proxy.
     bindR (HederaId_from (tj_token_id d)) (\<lambda>i.
     bindR (raw_supply M decimals (tj_initial_supply d) (Some bd_ZERO)) (\<lambda>initialSupply.
     bindR (raw_supply M decimals (tj_total_supply d) (Some bd_ZERO)) (\<lambda>totalSupply.
     bindR (raw_supply M decimals (tj_max_supply d) None) (\<lambda>maxSupply.
     bindR (new_ContractId (ci_id proxy)) (\<lambda>proxyId.
     bindR (new_EvmAddress (ci_evmAddress proxy)) (\<lambda>evmProxy.
     bindR (HederaId_from (tj_treasury d)) (\<lambda>treasury.
     bindR (HederaId_from (tj_auto_renew_account d)) (\<lambda>autoRenewAccount.
     bindR (token_keys M d) (\<lambda>keys.
     bindR (getCustomFeesOrDefault M tokenId decimals (tj_custom_fees d)) (\<lambda>customFees.
     let name = text_or_empty (tj_name d); symbol = text_or_empty (tj_symbol d) in
       Inr \<lparr>cv_name = Some name, cv_symbol = Some symbol, cv_decimals = Some decimals,
            cv_customFees = customFees,
            cv_props = (minimal_props name symbol decimals)
              \<lparr>sc_tokenId := Some i, sc_initialSupply := initialSupply, sc_totalSupply := totalSupply,
               sc_maxSupply := maxSupply, sc_proxyAddress := Some (HederaId (contract_value proxyId)),
               sc_evmProxyAddress := Some evmProxy, sc_treasury := Some treasury,
               sc_paused := Some (tj_pause_status d = Some ''PAUSED''),
               sc_deleted := Some (tj_deleted d), sc_freezeDefault := Some (tj_freeze_default d),
               sc_autoRenewAccount := Some autoRenewAccount,
               sc_autoRenewPeriod := tj_auto_renew_period d, sc_expirationTimestamp := tj_expiry d,
               sc_adminKey := keys ! 0, sc_kycKey := keys ! 1, sc_freezeKey := keys ! 2,
               sc_wipeKey := keys ! 3, sc_supplyKey := keys ! 4, sc_pauseKey := keys ! 5,
               sc_feeScheduleKey := keys ! 6\<rparr>,
            cv_reserveAddress = None, cv_reserveAmount = None\<rparr>)))))))))))))"

definition mirror_getStableCoin :: "mirror \<Rightarrow> hedera_id \<Rightarrow> coin_view result" where
  "mirror_getStableCoin M tokenId =
     invalid_response
      (bindR (getTokenInfo M tokenId) (\<lambda>response.
        if rep_status response \<noteq> 200
        then Inl (CommandError (StableCoinNotFound (id_value tokenId)))
        else stable_coin_detail M tokenId (rep_data response)))"

definition mirror_getStableCoinsList :: "mirror \<Rightarrow> hedera_id \<Rightarrow> (string \<times> string) list result" where
  "mirror_getStableCoinsList M accountId =
     invalid_response (bindR (mi_getTokens M (id_value accountId)) (of_option TypeError))"

section \<open>Accounts\<close>

record account_view = account_info +
  av_alias :: "string option"
  av_multiKey :: "multi_key option"

definition mirror_account_keys ::
  "mirror \<Rightarrow> key_json option \<Rightarrow> (public_key option \<times> multi_key option) result" where
  "mirror_account_keys M key =
     (case key of
        None \<Rightarrow> Inr (None, None)
      | Some k \<Rightarrow>
          if kj_type k \<noteq> PROTOBUF_ENCODED
          then bindR (new_PublicKey (\<lambda>_. Inl TypeError) (Some (kj_key k)) (Some (kj_type k)))
                 (\<lambda>pk. Inr (Some pk, None))
          else if isMultiKey (mi_decode M) (kj_key k)
          then bindR (MultiKey_fromProtobuf (mi_decode M) (kj_key k)) (\<lambda>mk. Inr (None, Some mk))
          else Inr (None, None))"

definition mirror_getAccountInfo :: "mirror \<Rightarrow> string \<Rightarrow> account_view result" where
  "mirror_getAccountInfo M accountId =
     invalid_response
      (bindR (mi_getAccount M accountId) (\<lambda>d.
        case aj_account d of
          None \<Rightarrow> Inl (JsError (''No account ID returned from mirror node for '' @ accountId))
        | Some i \<Rightarrow>
            if i = [] then Inl (JsError (''No account ID returned from mirror node for '' @ accountId))
            else bindR (mirror_account_keys M (aj_key d)) (\<lambda>(pk, mk).
              Inr \<lparr>ai_id = Some i, ai_evmAddress = aj_evm_address d, ai_publicKey = pk,
                   av_alias = aj_alias d, av_multiKey = mk\<rparr>)))"

text \<open>The balance is read without the token's decimals.\<close>

definition mirror_getAccountToken ::
  "mirror \<Rightarrow> hedera_id \<Rightarrow> hedera_id \<Rightarrow> account_token_relation option result" where
  "mirror_getAccountToken M targetId tokenId =
     invalid_response
      (bindR (mi_getAccountTokens M (id_value targetId) (id_value tokenId)) (\<lambda>tokens.
        case tokens of
          Some (obj # _) \<Rightarrow>
            bindR (bd_fromString (mi_lib M) (int_str (rj_balance obj)) None) (\<lambda>balance.
            bindR (HederaId_from (Some (rj_token_id obj))) (\<lambda>token.
              Inr (Some \<lparr>tr_automaticAssociation = rj_automatic obj, tr_balance = balance,
                         tr_createdTimestamp = rj_created obj, tr_freezeStatus = rj_freeze obj,
                         tr_kycStatus = rj_kyc obj, tr_tokenId = token\<rparr>)))
        | _ \<Rightarrow> Inr None))"

text \<open>
  The loop over the pages of relationships, \<open>while (nextUrl)\<close>: a chain of links may come back to an
  earlier page (the links and \<open>url\<close> are without the base URL), hence the fuel \<open>n\<close>, the number of pages asked for; \<open>None\<close> is out of fuel.
\<close>

fun count_pages :: "(string \<Rightarrow> relation_page result) \<Rightarrow> nat \<Rightarrow> string \<Rightarrow> nat \<Rightarrow> nat result option" where
  "count_pages get 0 nextUrl count = None"
| "count_pages get (Suc n) nextUrl count =
     (case get nextUrl of
        Inl e \<Rightarrow> Some (Inl e)
      | Inr page \<Rightarrow>
          (let count' = count + length (filter (\<lambda>a. a = Some True) (rp_relations page)) in
           case rp_next page of
             None \<Rightarrow> Some (Inr count')
           | Some link \<Rightarrow> if link = [] then Some (Inr count') else count_pages get n link count'))"

definition first_page :: "string \<Rightarrow> string" where
  "first_page accountId = ''accounts/'' @ accountId @ ''/tokens?limit=100''"

text \<open>
  A chain of links that does not end within the fuel is a promise that never settles: what waits for
  it does not go on, and it stands here as an error.
\<close>

definition countAutoAssociatedTokensFromMirror :: "mirror \<Rightarrow> nat \<Rightarrow> string \<Rightarrow> nat result" where
  "countAutoAssociatedTokensFromMirror M fuel accountId =
     (case count_pages (mi_getRelationPage M) fuel (first_page accountId) 0 of
        None \<Rightarrow> Inl (JsError ''pending'')
      | Some r \<Rightarrow> r)"

definition mirror_getAccountAutoAssociationInfo ::
  "mirror \<Rightarrow> nat \<Rightarrow> hedera_id \<Rightarrow> auto_association option result" where
  "mirror_getAccountAutoAssociationInfo M fuel targetId =
     invalid_response
      (bindR (mi_getAccount M (id_value targetId)) (\<lambda>account.
        let mx = (case aj_max_automatic account of None \<Rightarrow> 0 | Some m \<Rightarrow> m) in
        bindR (countAutoAssociatedTokensFromMirror M fuel (id_value targetId)) (\<lambda>count.
          Inr (Some \<lparr>aa_maxAutoAssociations = Some mx, aa_autoAssociationsCount = Some (int count),
                     aa_remainingAutoAssociations =
                       Some (if mx = - 1 then - 1 else max 0 (mx - int count))\<rparr>))))"

section \<open>Addresses and balances\<close>

definition mirror_accountEvmAddressToHederaId :: "mirror \<Rightarrow> string \<Rightarrow> string result" where
  "mirror_accountEvmAddressToHederaId M accountAddress =
     (case checkEvmAddressFormat True (JString accountAddress) of
        Inr (e # _) \<Rightarrow> Inl e
      | _ \<Rightarrow>
          if accountAddress = EVM_ZERO_ADDRESS then Inr (id_value HederaId_NULL)
          else invalid_response
            (bindR (mirror_getAccountInfo M accountAddress) (\<lambda>info.
               of_option (JsError ''Account ID not found'') (ai_id info))))"

definition getAccountEvmAddressFromPrivateKeyType ::
  "mirror \<Rightarrow> string \<Rightarrow> string \<Rightarrow> hedera_id \<Rightarrow> evm_address result" where
  "getAccountEvmAddressFromPrivateKeyType M privateKeyType publicKey accountId =
     (if privateKeyType = KeyType_ECDSA
      then bindR (mi_toEthereumAddress M publicKey) new_EvmAddress
      else bindR (mirror_getContractInfo M (mi_accountIdString M (id_value accountId))) (\<lambda>c.
        new_EvmAddress (''0x'' @ ci_evmAddress c)))"

text \<open>
  \<open>accountToEvmAddress\<close> wraps what throws before it returns a promise; the promises that it returns
  are not awaited.
\<close>

definition mirror_accountToEvmAddress :: "mirror \<Rightarrow> hedera_id \<Rightarrow> evm_address result" where
  "mirror_accountToEvmAddress M accountId =
     (let wrap = (\<lambda>e. JsError (''EVM address could not be retrieved for '' @ id_value accountId)) in
      case mirror_getAccountInfo M (id_value accountId) of
        Inl e \<Rightarrow> Inl (wrap e)
      | Inr info \<Rightarrow>
          (case ai_evmAddress info of
             Some (c # a) \<Rightarrow>
               (case new_EvmAddress (c # a) of Inl e \<Rightarrow> Inl (wrap e) | Inr x \<Rightarrow> Inr x)
           | _ \<Rightarrow>
               (case ai_publicKey info of
                  Some k \<Rightarrow> getAccountEvmAddressFromPrivateKeyType M (pk_type k) (pk_key k) accountId
                | None \<Rightarrow> Inl (JsError []))))"

definition mirror_getHBARBalance :: "mirror \<Rightarrow> hedera_id \<Rightarrow> big_decimal result" where
  "mirror_getHBARBalance M accountId =
     invalid_response
      (bindR (mi_getBalances M (id_value accountId)) (\<lambda>balances.
        case balances of
          None \<Rightarrow> Inl (JsError ''Response does not contain a balances result'')
        | Some bs \<Rightarrow> if bs = [] then Inl TypeError else bd_fromString (mi_lib M) (int_str (last bs)) None))"

section \<open>Results of transactions\<close>

fun replace_first :: "char \<Rightarrow> char \<Rightarrow> string \<Rightarrow> string" where
  "replace_first c d [] = []"
| "replace_first c d (x # s) = (if x = c then d # s else x # replace_first c d s)"

text \<open>
  \<open>replace(/.([^.]*)$/, '-$1')\<close>: the leftmost character that only other characters than a dot
  follow, which is the last dot, or the first character of a string without dots.
\<close>

definition replace_last_dot :: "string \<Rightarrow> string" where
  "replace_last_dot s =
     (if CHR ''.'' \<in> set s
      then (let tail = takeWhile (\<lambda>c. c \<noteq> CHR ''.'') (rev s)
            in take (length s - length tail - 1) s @ ''-'' @ rev tail)
      else case s of [] \<Rightarrow> [] | _ # r \<Rightarrow> CHR ''-'' # r)"

definition dashed_id :: "string \<Rightarrow> string" where
  "dashed_id i = replace_last_dot (replace_first (CHR ''@'') (CHR ''-'') i)"

text \<open>\<open>REGEX_TRANSACTION\<close>: an identifier, an at sign and two numbers without a leading zero.\<close>

definition REGEX_TRANSACTION :: "string \<Rightarrow> bool" where
  "REGEX_TRANSACTION s \<longleftrightarrow>
     (case js_split (CHR ''@'') s of
        [i, t] \<Rightarrow> hedera_format i \<and>
          (case js_split (CHR ''.'') t of
             [a, b] \<Rightarrow> id_number a \<and> a \<noteq> ''0'' \<and> id_number b \<and> b \<noteq> ''0'' | _ \<Rightarrow> False)
      | _ \<Rightarrow> False)"

definition mirror_getTransactionResult :: "mirror \<Rightarrow> string \<Rightarrow> string result" where
  "mirror_getTransactionResult M transactionId =
     invalid_response
      (bindR (mi_getCallResult M transactionId) (\<lambda>r.
        case r of
          Some (c # s) \<Rightarrow> Inr (c # s)
        | _ \<Rightarrow> Inl (JsError ''Response does not contain a transaction result'')))"

definition mirror_getTransactionFinalError :: "mirror \<Rightarrow> string \<Rightarrow> string result" where
  "mirror_getTransactionFinalError M transactionId =
     invalid_response
      (bindR (mi_getTransactions M
                (if REGEX_TRANSACTION transactionId then dashed_id transactionId else transactionId)) (\<lambda>ts.
        case ts of
          None \<Rightarrow> Inl (JsError ''Response does not contain any transaction'')
        | Some rs \<Rightarrow> if rs = [] then Inl TypeError else Inr (last rs)))"

text \<open>
  The polling of contract results. The state is the number of hexadecimal digits asked for (the
  number of items times 64; 0 asks for as many as the first result has), \<open>call_OK\<close> and the results. An answer
  with a result sets \<open>call_OK\<close> and appends the words of its data, when they are enough.
\<close>

definition WORD_DIGITS :: nat where "WORD_DIGITS = 64"

definition result_words :: "string \<Rightarrow> nat \<Rightarrow> string list" where
  "result_words data digits =
     map (\<lambda>i. ''0x'' @ take WORD_DIGITS (drop (2 + i * WORD_DIGITS) data))
       [0..<(digits + WORD_DIGITS - 1) div WORD_DIGITS]"

definition take_result ::
  "string option reply \<Rightarrow> nat \<times> bool \<times> string list \<Rightarrow> nat \<times> bool \<times> string list" where
  "take_result response st =
     (case st of (digits, call_OK, results) \<Rightarrow>
      case rep_data response of
        Some data \<Rightarrow>
          if rep_status response = 200 \<and> 2 < length data then
            (let digits' = (if digits = 0 then length data - 2 else digits)
             in (digits', True,
                 if js_startsWith data ''0x'' \<and> 2 + digits' \<le> length data
                 then results @ result_words data digits' else results))
          else st
      | None \<Rightarrow> st)"

text \<open>
  The loop sends one request, then waits for the interval; \<open>arrivals k\<close> are the answers that arrive
  during the \<open>k\<close>-th wait, to whichever request.
\<close>

function poll_results ::
  "(nat \<Rightarrow> string option reply list) \<Rightarrow> nat \<Rightarrow> nat \<Rightarrow> nat \<times> bool \<times> string list \<Rightarrow> nat \<Rightarrow> string list" where
  "poll_results arrivals requestInterval timeout st k =
     (let st' = fold take_result (arrivals k) st;
          timeout' = timeout - requestInterval
      in if 0 < timeout' \<and> 0 < requestInterval \<and> \<not> fst (snd st')
         then poll_results arrivals requestInterval timeout' st' (Suc k)
         else snd (snd st'))"
  by pat_completeness auto
termination by (relation "measure (\<lambda>(arrivals, requestInterval, timeout, st, k). timeout)") auto

declare poll_results.simps [simp del]

definition mirror_getContractResults :: "mirror \<Rightarrow> string \<Rightarrow> nat \<Rightarrow> string list" where
  "mirror_getContractResults M transactionId numberOfResultItems =
     (let url = (if js_startsWith transactionId ''0.'' then dashed_id transactionId else transactionId)
      in poll_results (mi_arrivals M url) 3 30 (numberOfResultItems * WORD_DIGITS, False, []) 0)"

section \<open>The environment of the commands\<close>

text \<open>The environment whose mirror node is \<open>M\<close>; \<open>fuel\<close> bounds the pages of relationships.\<close>

definition mirror_env :: "mirror \<Rightarrow> nat \<Rightarrow> env \<Rightarrow> env" where
  "mirror_env M fuel E =
     E \<lparr>env_lib := mi_lib M,
        mn_getStableCoin := mirror_getStableCoin M,
        mn_getAccountToken := mirror_getAccountToken M,
        mn_getAccountAutoAssociationInfo := mirror_getAccountAutoAssociationInfo M fuel,
        mn_accountToEvmAddress := mirror_accountToEvmAddress M,
        mn_getHBARBalance := (\<lambda>i. bindR (mirror_getHBARBalance M i) (\<lambda>b. Inr (toBigInt b))),
        mn_getAccountInfo := (\<lambda>i. bindR (mirror_getAccountInfo M i) (\<lambda>a. Inr (account_info.truncate a))),
        mn_getContractInfo := mirror_getContractInfo M,
        mn_getContractResults := (\<lambda>i n. Inr (Some (mirror_getContractResults M i n))),
        mn_getStableCoinsList := (\<lambda>i. bindR (mirror_getStableCoinsList M i) (\<lambda>cs. Inr (map fst cs)))\<rparr>"

end
