(* ===== verification/Mirror_Properties.thy ===== *)
theory Mirror_Properties
  imports Mirror_Node Cash_Properties Hold_Commands
begin

text \<open>
  Properties of the mirror node adapter and of its composition with the commands: what the retried
  requests return, the loop over the pages, balances, keys that are lists, and contract results.
\<close>

lemma invalid_response_Inr [simp]: "invalid_response r = Inr x \<longleftrightarrow> r = Inr x"
  by (simp add: invalid_response_def split: sum.splits)

lemma invalid_response_return [simp]: "invalid_response (Inr x) = Inr x"
  by simp

section \<open>A sample\<close>

text \<open>
  A mirror node with one account and one token: the token is found at the third attempt, the pages of relationships are two,
  the account holds five raw units, and the first contract result arrives in the second wait.
\<close>

definition page :: "bool option list \<Rightarrow> string option \<Rightarrow> relation_page" where
  "page rs link = \<lparr>rp_relations = rs, rp_next = link\<rparr>"

definition sample_token_json :: token_json where
  "sample_token_json =
     \<lparr>tj_token_id = Some ''0.0.9'', tj_name = Some ''Coin'', tj_symbol = Some ''C'', tj_decimals = Some ''2'',
      tj_initial_supply = None, tj_total_supply = None, tj_max_supply = None, tj_custom_fees = None,
      tj_treasury = Some ''0.0.10'', tj_expiry = None, tj_memo = None, tj_pause_status = None,
      tj_freeze_default = False, tj_auto_renew_account = None, tj_auto_renew_period = None, tj_deleted = False,
      tj_admin_key = None, tj_kyc_key = None, tj_freeze_key = None, tj_wipe_key = None, tj_supply_key = None,
      tj_pause_key = None, tj_fee_schedule_key = None\<rparr>"

definition sample_answer :: "string option reply" where
  "sample_answer = \<lparr>rep_status = 200, rep_data = Some (''0x'' @ replicate 64 (CHR ''0''))\<rparr>"

definition sample_mirror :: mirror where
  "sample_mirror =
     \<lparr>mi_lib = exact_lib, mi_decode = (\<lambda>b. \<lparr>proto_keyList = None, proto_thresholdKey = None, proto_kind = None\<rparr>), mi_contractNum = (\<lambda>b. (None, None)),
      mi_toEthereumAddress = (\<lambda>k. Inr k), mi_accountIdString = (\<lambda>i. i),
      mi_getToken = (\<lambda>i n. Inr \<lparr>rep_status = (if n < 2 then 404 else 200), rep_data = sample_token_json\<rparr>),
      mi_getContract = (\<lambda>i n. Inl TypeError), mi_getTokens = (\<lambda>i. Inr None),
      mi_getAccount = (\<lambda>i. Inr \<lparr>aj_account = Some i, aj_evm_address = None, aj_alias = None, aj_key = None,
                                aj_max_automatic = Some 10\<rparr>),
      mi_getAccountTokens = (\<lambda>i t. Inr (Some [\<lparr>rj_automatic = False, rj_balance = 5, rj_created = [],
        rj_freeze = None, rj_kyc = None, rj_token_id = ''0.0.9''\<rparr>])),
      mi_getRelationPage = (\<lambda>u. Inr (if u = ''accounts/0.0.7/tokens?limit=100''
        then page [Some True, Some False] (Some ''next'') else page [None, Some True] None)),
      mi_getCallResult = (\<lambda>i. Inl TypeError), mi_getTransactions = (\<lambda>i. Inr None), mi_getBalances = (\<lambda>i. Inr None),
      mi_arrivals = (\<lambda>i n. if n = 0 then [] else [sample_answer, sample_answer])\<rparr>"

section \<open>Asking again\<close>

lemma ask_again_skip:
  "\<forall>j. i \<le> j \<and> j < n \<longrightarrow> (\<exists>r. get j = Inr r \<and> rep_status r \<noteq> 200) \<Longrightarrow> i \<le> n \<Longrightarrow> n < retry \<Longrightarrow>
   ask_again get retry i = ask_again get retry n"
proof (induction "n - i" arbitrary: i)
  case (Suc k)
  then have i: "i < n" by simp
  then obtain q where "get i = Inr q" "rep_status q \<noteq> 200" using Suc.prems(1) by blast
  moreover have "ask_again get retry (Suc i) = ask_again get retry n" using Suc i by (intro Suc.hyps) auto
  ultimately show ?case using i Suc.prems(3) by (simp add: ask_again.simps [of get retry i])
qed simp

text \<open>
  The request for a token is repeated until its status is 200, and ten times at most: the
  answer of the first attempt with status 200 is returned, or else that of the tenth; an attempt that
  is rejected ends the loop with its error. No attempt after that one matters.
\<close>

theorem token_info_attempts:
  assumes "n < 10" "\<forall>j<n. \<exists>r. mi_getToken M (id_value tokenId) j = Inr r \<and> rep_status r \<noteq> 200"
  shows "(\<forall>r. mi_getToken M (id_value tokenId) n = Inr r \<and> (rep_status r = 200 \<or> n = 9) \<longrightarrow>
      getTokenInfo M tokenId = Inr r) \<and>
    (\<forall>e. mi_getToken M (id_value tokenId) n = Inl e \<longrightarrow> getTokenInfo M tokenId = Inl e)"
proof -
  have "getTokenInfo M tokenId = ask_again (mi_getToken M (id_value tokenId)) 10 n"
    unfolding getTokenInfo_def RETRY_def using assms by (intro ask_again_skip) auto
  then show ?thesis by (auto simp: ask_again.simps [of "mi_getToken M (id_value tokenId)" 10 n])
qed

theorem token_info_attempts_witness:
  "getTokenInfo sample_mirror sample_token = Inr \<lparr>rep_status = 200, rep_data = sample_token_json\<rparr>"
  using token_info_attempts [of 2 sample_mirror sample_token] by (simp add: sample_mirror_def)

section \<open>The pages of relationships\<close>

text \<open>\<open>pages_chain get url ps\<close>: following the links from \<open>url\<close> gives the pages \<open>ps\<close>, the last of which has no link.\<close>

fun pages_chain :: "(string \<Rightarrow> relation_page result) \<Rightarrow> string \<Rightarrow> relation_page list \<Rightarrow> bool" where
  "pages_chain get url [] = False"
| "pages_chain get url (p # ps) \<longleftrightarrow>
     get url = Inr p \<and>
     (case rp_next p of
        None \<Rightarrow> ps = []
      | Some link \<Rightarrow> if link = [] then ps = [] else pages_chain get link ps)"

definition automatic_count :: "relation_page list \<Rightarrow> nat" where
  "automatic_count ps = length (filter (\<lambda>a. a = Some True) (concat (map rp_relations ps)))"

lemma automatic_count_simps [simp]:
  "automatic_count [] = 0"
  "automatic_count (p # ps) = length (filter (\<lambda>a. a = Some True) (rp_relations p)) + automatic_count ps"
  by (simp_all add: automatic_count_def)

lemma count_pages_chain:
  "pages_chain get url ps \<Longrightarrow> length ps \<le> fuel \<Longrightarrow>
   count_pages get fuel url c = Some (Inr (c + automatic_count ps))"
proof (induction get url ps arbitrary: fuel c rule: pages_chain.induct)
  case (2 get url p ps)
  then obtain n where "fuel = Suc n" by (cases fuel) auto
  then show ?case using 2 by (auto split: option.splits if_splits)
qed simp

lemma chain_of_count:
  "count_pages get fuel url c = Some (Inr n) \<Longrightarrow>
   \<exists>ps. pages_chain get url ps \<and> length ps \<le> fuel \<and> n = c + automatic_count ps"
proof (induction fuel arbitrary: url c)
  case (Suc fuel)
  then obtain p where p: "get url = Inr p" by (auto split: sum.splits)
  show ?case
  proof (cases "rp_next p = None \<or> rp_next p = Some []")
    case True
    then show ?thesis using Suc.prems p by (intro exI [of _ "[p]"]) (auto split: option.splits)
  next
    case False
    then obtain link where l: "rp_next p = Some link" "link \<noteq> []" by auto
    then obtain ps where "pages_chain get link ps" "length ps \<le> fuel"
      "n = c + length (filter (\<lambda>a. a = Some True) (rp_relations p)) + automatic_count ps"
      using Suc.IH [of link] Suc.prems p by (auto simp: Let_def)
    then show ?thesis using p l by (intro exI [of _ "p # ps"]) auto
  qed
qed simp

lemma count_pages_cycle:
  assumes "\<And>u. u \<in> S \<Longrightarrow> \<exists>p link. get u = Inr p \<and> rp_next p = Some link \<and> link \<noteq> [] \<and> link \<in> S"
  shows "url \<in> S \<Longrightarrow> count_pages get fuel url c = None"
proof (induction fuel arbitrary: url c)
  case (Suc fuel)
  then obtain p link where "get url = Inr p" "rp_next p = Some link" "link \<noteq> []" "link \<in> S"
    using assms by blast
  then show ?case using Suc.IH by (simp add: Let_def)
qed simp

text \<open>
  Property C28. The loop over the pages of an account's tokens ends with a count exactly when following
  the links leads to a page without one, and then the count is the number of automatic associations on
  all the pages, each of which is asked for once; the remaining associations are the maximum less that count, never
  negative, and -1 for an account without a maximum. When the links come back to an earlier page the
  loop does not end.
\<close>

theorem association_count:
  assumes "mi_getAccount M (id_value i) = Inr account" "aj_max_automatic account = Some mx"
  shows "((\<exists>fuel. mirror_getAccountAutoAssociationInfo M fuel i = Inr (Some a)) \<longleftrightarrow>
      (\<exists>ps. pages_chain (mi_getRelationPage M) (''accounts/'' @ id_value i @ ''/tokens?limit=100'') ps \<and>
         (\<forall>fuel\<ge>length ps. mirror_getAccountAutoAssociationInfo M fuel i = Inr (Some a)) \<and>
         a = \<lparr>aa_maxAutoAssociations = Some mx, aa_autoAssociationsCount = Some (int (automatic_count ps)),
              aa_remainingAutoAssociations =
                Some (if mx = - 1 then - 1 else max 0 (mx - int (automatic_count ps)))\<rparr>)) \<and>
    (\<forall>S. url \<in> S \<and>
       (\<forall>u\<in>S. \<exists>p link. mi_getRelationPage M u = Inr p \<and> rp_next p = Some link \<and> link \<noteq> [] \<and> link \<in> S) \<longrightarrow>
       count_pages (mi_getRelationPage M) fuel url c = None)"
    (is "(?ends \<longleftrightarrow> ?chain) \<and> ?cycle")
proof (intro conjI)
  let ?get = "mi_getRelationPage M"
  let ?info = "\<lambda>n. \<lparr>aa_maxAutoAssociations = Some mx, aa_autoAssociationsCount = Some (int n),
      aa_remainingAutoAssociations = Some (if mx = - 1 then - 1 else max 0 (mx - int n))\<rparr>"
  have info: "mirror_getAccountAutoAssociationInfo M fuel i = Inr (Some a) \<longleftrightarrow>
      (\<exists>n. count_pages ?get fuel (first_page (id_value i)) 0 = Some (Inr n) \<and> a = ?info n)" for fuel
    using assms by (auto simp: mirror_getAccountAutoAssociationInfo_def countAutoAssociatedTokensFromMirror_def
        bindR_Inr_iff split: option.splits)
  show "?ends \<longleftrightarrow> ?chain"
  proof
    assume ?ends
    then obtain fuel n where "count_pages ?get fuel (first_page (id_value i)) 0 = Some (Inr n)" "a = ?info n"
      using info by auto
    then show ?chain
      using chain_of_count [of ?get fuel "first_page (id_value i)" 0 n] count_pages_chain [of ?get _ _ _ 0]
      unfolding info by (fastforce simp: first_page_def)
  qed blast
  show ?cycle using count_pages_cycle [of _ ?get] by blast
qed

theorem association_count_witness:
  "\<exists>ps. pages_chain (mi_getRelationPage sample_mirror) ''accounts/0.0.7/tokens?limit=100'' ps \<and> automatic_count ps = 2"
proof -
  let ?account = "\<lparr>aj_account = Some ''0.0.7'', aj_evm_address = None, aj_alias = None, aj_key = None,
      aj_max_automatic = Some 10\<rparr>"
  let ?a = "\<lparr>aa_maxAutoAssociations = Some 10, aa_autoAssociationsCount = Some 2, aa_remainingAutoAssociations = Some 8\<rparr>"
  have "mirror_getAccountAutoAssociationInfo sample_mirror 2 (HederaId ''0.0.7'') = Inr (Some ?a)"
    by (simp add: mirror_getAccountAutoAssociationInfo_def countAutoAssociatedTokensFromMirror_def first_page_def
        sample_mirror_def page_def numeral_2_eq_2)
  then show ?thesis
    using association_count [of sample_mirror "HederaId ''0.0.7''" ?account 10 ?a undefined undefined undefined]
    by (auto simp: sample_mirror_def)
qed

section \<open>Balances\<close>

lemma decimal_value_int:
  assumes "0 \<le> v"
  shows "decimal_value (int_str v) = of_int v"
proof -
  let ?s = "nat_str (nat v)"
  have "\<not> js_startsWith ?s ''-''" "\<not> js_startsWith [] ''.''"
    using not_minus [OF nat_str_digits nat_str_nonempty, of "nat v" "[]"] by (simp_all add: js_startsWith_def)
  moreover have "takeWhile is_digit ?s = ?s" "dropWhile is_digit ?s = []"
    using digits_all [OF nat_str_digits] by blast+
  ultimately have "decimal_value ?s = of_nat (str_nat (?s @ [])) / 10 ^ length ([] :: string)"
    unfolding decimal_value_def Let_def by (simp only: if_False)
  then show ?thesis using assms by (simp add: int_str_def)
qed

lemma account_token_raw:
  assumes "fixed_number_api (mi_lib M)" "mi_getAccountTokens M (id_value i) (id_value k) = Inr (Some (obj # rest))"
    and "0 \<le> rj_balance obj" "mirror_getAccountToken M i k = Inr (Some rel)"
  shows "bd_rat (tr_balance rel) = of_int (rj_balance obj)"
  using assms(2-) fixed_number_api.fromString_rat [OF assms(1)] decimal_value_int [of "rj_balance obj"]
  by (auto simp: mirror_getAccountToken_def bindR_Inr_iff)

text \<open>
  The adapter reads the balance of a relationship without the token's decimals, and wipe
  compares the amount with that number: whatever the decimals of the token, an amount passes when it is
  at most the number of the smallest units that the account holds.
\<close>

theorem wipe_guard_in_raw_units:
  assumes "fixed_number_api (mi_lib M)" "env_lib E = mi_lib M" "mn_getAccountToken E = mirror_getAccountToken M"
    and "service_getCapabilities E tokenId = Inr caps"
    and "mi_getAccountTokens M (id_value targetId) (id_value tokenId) = Inr (Some (obj # rest))" "0 \<le> rj_balance obj"
    and "mirror_getAccountToken M targetId tokenId = Inr (Some rel)"
    and "bd_fromString (mi_lib M) amount (Some (sc_decimals (caps_coin caps))) = Inr a"
    and "check_decimals E amount (sc_decimals (caps_coin caps)) = Inr ()"
  shows "(\<exists>r. wipe_checks E amount targetId tokenId = Inr r) \<longleftrightarrow> decimal_value amount \<le> of_int (rj_balance obj)"
proof -
  have "isGreaterThan (mi_lib M) a (tr_balance rel) \<longleftrightarrow> of_int (rj_balance obj) < decimal_value amount"
    using fixed_number_api.gt [OF assms(1)] fixed_number_api.fromString_rat [OF assms(1,8)]
      account_token_raw [OF assms(1,5,6,7)] by (simp add: isGreaterThan_def)
  moreover have "require_relation E targetId targetId tokenId = Inr rel"
    using assms(3,7) by (simp add: require_relation_Inr)
  ultimately show ?thesis using assms(2,4,8,9) by (simp add: wipe_checks_def not_allowed_def not_less)
qed

text \<open>The sample account holds 0.05 of a token with two decimals: the checks let 1.5 through.\<close>

theorem wipe_guard_in_raw_units_witness:
  "\<exists>r. wipe_checks (sample_net \<lparr>mn_getAccountToken := mirror_getAccountToken sample_mirror\<rparr>) ''1.5''
     sample_target sample_token = Inr r"
proof -
  let ?E = "sample_net \<lparr>mn_getAccountToken := mirror_getAccountToken sample_mirror\<rparr>"
  let ?obj = "\<lparr>rj_automatic = False, rj_balance = 5, rj_created = [], rj_freeze = None, rj_kyc = None,
      rj_token_id = ''0.0.9''\<rparr>"
  let ?rel = "\<lparr>tr_automaticAssociation = False, tr_balance = \<lparr>bd_fn = \<lparr>fn_value = 5, fn_decimals = 0\<rparr>\<rparr>,
      tr_createdTimestamp = [], tr_freezeStatus = None, tr_kycStatus = None, tr_tokenId = sample_token\<rparr>"
  have lib: "mi_lib sample_mirror = exact_lib" by (simp add: sample_mirror_def)
  have "StableCoinService_get ?E i = Inr sample_stored" for i
    by (simp add: StableCoinService_get_def getStableCoinQuery_def sample_net_def sample_env_def sample_view_def
        sample_coin_def minimal_props_def toCustomFees_def sample_stored_def)
  then have "service_getCapabilities ?E sample_token = Inr sample_caps"
    by (simp add: service_getCapabilities_def getCapabilities_def sample_caps_def)
  moreover have "bd_fromString exact_lib ''5'' None = Inr \<lparr>bd_fn = \<lparr>fn_value = 5, fn_decimals = 0\<rparr>\<rparr>"
    by (simp add: bd_fromString_def exact.new_of_string_Inr) code_simp
  moreover have "HederaId_from (Some ''0.0.9'') = Inr sample_token" "int_str 5 = ''5''" by code_simp+
  moreover have "mi_getAccountTokens sample_mirror i k = Inr (Some [?obj])" for i k by (simp add: sample_mirror_def)
  moreover have "decimal_value ''1.5'' = 3 / 2" using exact.fromString_rat [OF sample_strings(1)] by (simp add: bd2_def fn_rat_def)
  ultimately show ?thesis
    using wipe_guard_in_raw_units [of sample_mirror ?E sample_token sample_caps sample_target ?obj "[]" ?rel "''1.5''" "bd2 150"]
    by (simp add: lib exact.fixed_number_api_axioms sample check_decimals_def hasMoreDecimals_def
        mirror_getAccountToken_def)
qed

section \<open>Keys\<close>

text \<open>
  A token key that is a list of keys or a threshold key (a protobuf without the number of a contract)
  becomes the key of the contract 0.0.0, so that every account, whether it holds the listed keys or
  not, is sent to the contract for the operations of that key.
\<close>

theorem key_list_read_as_contract:
  assumes "kj_type k = ''ProtobufEncoded''"
    and "mi_contractNum M (toUint8Array (js_toLowerCase (remove_0x (filter (\<lambda>c. \<not> is_blank c) (kj_key k))))) = (None, None)"
    and "getCapabilities get account target p d = Inr cs" "operation_key x = Some key"
    and "getKeyOrDefault M (Some k) = Inr (key (caps_coin cs))" "operation_active x (caps_coin cs) p d"
  shows "key (caps_coin cs) = Some (KeyContract (ContractId ''0.0.0'')) \<and> getAccessDecision cs x = D_CONTRACT"
proof -
  have "new_ContractId (''0.0.'' @ int_str 0) = Inr (ContractId ''0.0.0'')" by code_simp
  then have "key (caps_coin cs) = Some (KeyContract (ContractId ''0.0.0''))"
    using assms(1,2,5) by (simp add: getKeyOrDefault_def PROTOBUF_ENCODED_def fromProtoBufKey_def Let_def)
  then show ?thesis
    using key_decision [OF assms(3,4)] assms(6) by (simp add: key_matches_def key_is_contract_def)
qed

theorem key_list_read_as_contract_witness:
  "\<exists>cs. getCapabilities (\<lambda>_. Inl TypeError) (sample_account ''a1'')
       (TargetCoin (wipe_coin \<lparr>sc_wipeKey := Some (KeyContract (ContractId ''0.0.0''))\<rparr>)) None None = Inr cs \<and>
     getAccessDecision cs WIPE = D_CONTRACT"
proof -
  obtain cs where cs: "getCapabilities (\<lambda>_. Inl TypeError) (sample_account ''a1'')
      (TargetCoin (wipe_coin \<lparr>sc_wipeKey := Some (KeyContract (ContractId ''0.0.0''))\<rparr>)) None None = Inr cs"
    "caps_coin cs = wipe_coin \<lparr>sc_wipeKey := Some (KeyContract (ContractId ''0.0.0''))\<rparr>"
    by (simp add: getCapabilities_def)
  moreover have "getKeyOrDefault sample_mirror (Some \<lparr>kj_type = ''ProtobufEncoded'', kj_key = ''2a00''\<rparr>)
      = Inr (Some (KeyContract (ContractId ''0.0.0'')))" by code_simp
  ultimately show ?thesis
    using key_list_read_as_contract [of "\<lparr>kj_type = ''ProtobufEncoded'', kj_key = ''2a00''\<rparr>" sample_mirror _ _ _ _ _ cs WIPE sc_wipeKey]
    by (auto simp: sample_mirror_def operation_active_def is_deleted_def is_paused_def wipe_coin_def minimal_props_def)
qed

section \<open>Contract results\<close>

lemma result_words_length: "length (result_words d (n * WORD_DIGITS)) = n"
proof -
  have "(n * WORD_DIGITS + WORD_DIGITS - 1) div WORD_DIGITS = n"
    by (simp add: WORD_DIGITS_def) 
  then show ?thesis by (simp add: result_words_def)
qed

text \<open>An answer that carries at least \<open>n\<close> words.\<close>

definition answers :: "nat \<Rightarrow> string option reply \<Rightarrow> bool" where
  "answers n r \<longleftrightarrow> rep_status r = 200 \<and>
     (\<exists>d. rep_data r = Some d \<and> js_startsWith d ''0x'' \<and> 2 + n * WORD_DIGITS \<le> length d)"

lemma take_answers:
  assumes "0 < n" "\<forall>r\<in>set rs. answers n r"
  shows "fold take_result rs (n * WORD_DIGITS, ok, ws) =
    (n * WORD_DIGITS, ok \<or> rs \<noteq> [], ws @ concat (map (\<lambda>r. result_words (the (rep_data r)) (n * WORD_DIGITS)) rs))"
  using assms(2)
proof (induction rs arbitrary: ok ws)
  case (Cons r rs)
  then obtain d where d: "rep_status r = 200" "rep_data r = Some d" "js_startsWith d ''0x''"
    "2 + n * WORD_DIGITS \<le> length d" by (auto simp: answers_def)
  moreover have "0 < n * WORD_DIGITS" using assms(1) by (simp add: WORD_DIGITS_def)
  moreover from this d(4) have "2 < length d" by linarith
  ultimately have "take_result r (n * WORD_DIGITS, ok, ws) =
      (n * WORD_DIGITS, True, ws @ result_words d (n * WORD_DIGITS))"
    by (simp add: take_result_def Let_def)
  then show ?case using Cons d by simp
qed simp

lemma poll_skip:
  assumes "\<forall>j. i \<le> j \<and> j < k \<longrightarrow> arrivals j = []" "i \<le> k" "\<not> fst (snd st)" "0 < dt" "dt * Suc k \<le> t + dt * i"
  shows "poll_results arrivals dt t st i = poll_results arrivals dt (t - dt * (k - i)) st k"
  using assms
proof (induction "k - i" arbitrary: i t)
  case (Suc m)
  then have i: "i < k" "arrivals i = []" "Suc m = k - i" by auto
  then have "dt * Suc i \<le> dt * k" by (intro mult_le_mono2) simp
  then have t: "dt < t" using Suc.prems(4,5) by simp
  have "poll_results arrivals dt (t - dt) st (Suc i) =
      poll_results arrivals dt ((t - dt) - dt * (k - Suc i)) st k"
    using Suc i t by (intro Suc.hyps) auto
  moreover have "t - dt - dt * (k - Suc i) = t - dt * (k - i)"
    using i by (metis Suc_diff_Suc diff_diff_left mult_Suc_right)
  ultimately show ?case
    using i t Suc.prems(3,4) by (simp add: poll_results.simps [of arrivals dt t st i])
qed simp

lemma poll_first_answers:
  assumes "0 < n" "k < 10" "\<forall>j<k. arrivals j = []" "arrivals k = rs" "rs \<noteq> []" "\<forall>r\<in>set rs. answers n r"
  shows "poll_results arrivals 3 30 (n * WORD_DIGITS, False, []) 0 =
    concat (map (\<lambda>r. result_words (the (rep_data r)) (n * WORD_DIGITS)) rs)"
proof -
  have "poll_results arrivals 3 30 (n * WORD_DIGITS, False, []) 0 =
      poll_results arrivals 3 (30 - 3 * k) (n * WORD_DIGITS, False, []) k"
    using assms(2,3) poll_skip [of 0 k arrivals _ 3 30] by simp
  then show ?thesis
    using assms(4,5) take_answers [OF assms(1,6), of False "[]"]
    by (simp add: poll_results.simps [of arrivals 3 _ _ k])
qed

text \<open>
  When the first answers with the result of a transaction arrive within thirty seconds, one
  answer gives the requested words, and the caller reads the word at its position; but several requests
  are in flight, and two answers that arrive in the same wait are both appended, so that the caller finds
  twice as many words and reports an invalid response for a transaction that was performed.
\<close>

theorem contract_results_of_answers:
  assumes "0 < n" "k < 10" "js_startsWith i ''0x''" "\<forall>j<k. mi_arrivals M i j = []" "mi_arrivals M i k = rs" "rs \<noteq> []"
    and "\<forall>r\<in>set rs. rep_status r = 200 \<and>
           (\<exists>d. rep_data r = Some d \<and> js_startsWith d ''0x'' \<and> 2 + 64 * n \<le> length d)"
    and "res_id res = Some i" "result \<in> {None, Some []}" "mn_getContractResults E = mn_getContractResults (mirror_env M fuel E')"
    and "position < n"
  shows "length (mirror_getContractResults M i n) = length rs * n \<and>
    getTransactionResult E res result cls position n =
      (if length rs = 1
       then Inr (''0x'' @ take 64 (drop (2 + 64 * position) (the (rep_data (hd rs)))))
       else Inl (InvalidResponse None))"
proof -
  have "\<forall>r\<in>set rs. answers n r" using assms(7) by (auto simp: answers_def WORD_DIGITS_def mult.commute)
  then have words: "mirror_getContractResults M i n =
      concat (map (\<lambda>r. result_words (the (rep_data r)) (n * WORD_DIGITS)) rs)"
    using assms poll_first_answers [of n k "mi_arrivals M i" rs]
    by (auto simp: mirror_getContractResults_def js_startsWith_def)
  then have len: "length (mirror_getContractResults M i n) = length rs * n"
    by (simp add: length_concat comp_def result_words_length sum_list_triv)
  have one: "mirror_getContractResults M i n ! position =
      ''0x'' @ take 64 (drop (2 + 64 * position) (the (rep_data (hd rs))))" if "length rs = 1"
  proof -
    obtain r where "rs = [r]" using \<open>length rs = 1\<close> by (auto simp: length_Suc_conv)
    moreover have "(n * 64 + 63) div 64 = n" by simp
    ultimately show ?thesis using words assms(11) by (simp add: result_words_def WORD_DIGITS_def mult.commute)
  qed
  have "i \<noteq> []" using assms(3) by (auto simp: js_startsWith_def)
  then show ?thesis
    using assms(1,6,8,9,10) len one
    by (auto simp: getTransactionResult_def nonempty_def mirror_env_def)
qed

theorem contract_results_of_answers_witness:
  "length (mirror_getContractResults sample_mirror ''0xab'' (Suc 0)) = 2"
proof -
  have "mi_arrivals sample_mirror i j = (if j = 0 then [] else [sample_answer, sample_answer])" for i j
    by (simp add: sample_mirror_def)
  then show ?thesis
    using contract_results_of_answers [of 1 1 "''0xab''" sample_mirror "[sample_answer, sample_answer]"
        "createTransactionResponse (Some ''0xab'')" None "mirror_env sample_mirror 0 sample_net" 0 sample_net 0]
    by (simp add: sample_answer_def js_startsWith_def createTransactionResponse_def)
qed

end
