(* ===== verification/Tx_Description.thy ===== *)
theory Tx_Description
  imports Adapters
begin

text \<open>
  \<open>TransactionService.getDescription\<close> and \<open>decodeFunctionCall\<close>: the text that the multisignature adapter
  stores beside a transaction. The branches for other transactions of the SDK than those of the adapters
  are not modelled. The names and the printed values of the arguments of a call, as ethers gives them, and
  the account of an address, from the mirror node, are the record \<open>describer\<close>.
\<close>

record describer =
  ds_arguments :: "contract_call \<Rightarrow> (string \<times> string) list"
  ds_accountId :: "string \<Rightarrow> string option result"     \<comment> \<open>\<open>getAccountInfo(value)\<close> and its \<open>id\<close>\<close>

text \<open>
  The call is decoded with the interface of one facet only: the functions of \<open>HederaTokenManagerFacet.sol\<close>.
\<close>

definition token_manager_functions :: "string list" where
  "token_manager_functions =
     [''initialize'', ''name'', ''symbol'', ''decimals'', ''totalSupply'', ''balanceOf'', ''updateToken'', ''getMetadata'',
      ''getStaticResolverKey'', ''getStaticFunctionSelectors'', ''getStaticInterfaceIds'']"

definition decodeFunctionCall ::
  "describer \<Rightarrow> contract_call \<Rightarrow> (string \<times> (string \<times> string) list) option" where
  "decodeFunctionCall D call =
     (if cc_function call \<in> set token_manager_functions then Some (cc_function call, ds_arguments D call) else None)"

text \<open>\<open>EVM_ADDRESS_REGEX\<close> is \<open>/0x[a-fA-F0-9]{40}$/\<close>, the end of the string.\<close>

definition ends_with_address :: "string \<Rightarrow> bool" where
  "ends_with_address s \<longleftrightarrow>
     42 \<le> length s \<and> (let e = drop (length s - 42) s in take 2 e = ''0x'' \<and> list_all is_hex (drop 2 e))"

fun describe_arguments :: "describer \<Rightarrow> (string \<times> string) list \<Rightarrow> string result" where
  "describe_arguments D [] = Inr []"
| "describe_arguments D ((name, value) # rest) =
     bindR (if ends_with_address value
            then bindR (ds_accountId D value) (\<lambda>i. Inr (case i of None \<Rightarrow> ''undefined'' | Some x \<Rightarrow> x))
            else Inr value) (\<lambda>shown.
     bindR (describe_arguments D rest) (\<lambda>more.
       Inr (name @ '' : '' @ shown @ (if rest = [] then [] else '', '') @ more)))"

definition described :: "string result \<Rightarrow> string" where
  "described r = (case r of Inl e \<Rightarrow> ''Transaction description failed'' | Inr s \<Rightarrow> s)"

definition listed_tokens :: "string list \<Rightarrow> string" where
  "listed_tokens tokens = concat (map (\<lambda>t. t @ '' '') tokens)"

fun getDescription :: "describer \<Rightarrow> hedera_tx \<Rightarrow> string" where
  "getDescription D (ContractExecuteTransaction call) =
     (case decodeFunctionCall D call of
        None \<Rightarrow> ''Failed to decode function call''
      | Some (name, args) \<Rightarrow>
          described (bindR (describe_arguments D args) (\<lambda>shown.
            Inr (''Calling contract '' @ cc_contractId call @ ''. '' @ name @ '' : '' @ shown))))"
| "getDescription D (TokenWipeTransaction accountId tokenId amount) =
     ''Wiping from '' @ tokenId @ '', '' @ int_str amount @ '' tokens from account '' @ accountId"
| "getDescription D (TokenMintTransaction tokenId amount) =
     ''Minting for '' @ tokenId @ '', '' @ int_str amount @ '' tokens''"
| "getDescription D (TokenBurnTransaction tokenId amount) =
     ''Burning from '' @ tokenId @ '', '' @ int_str amount @ '' tokens''"
| "getDescription D (TokenPauseTransaction tokenId) = ''Pausing token '' @ tokenId"
| "getDescription D (TokenUnpauseTransaction tokenId) = ''Unpausing token '' @ tokenId"
| "getDescription D (TokenDeleteTransaction tokenId) = ''Deleting token '' @ tokenId"
| "getDescription D (TokenFreezeTransaction accountId tokenId) =
     ''Freezing account '' @ accountId @ '' for token '' @ tokenId"
| "getDescription D (TokenUnfreezeTransaction accountId tokenId) =
     ''Unfreezing account '' @ accountId @ '' for token '' @ tokenId"
| "getDescription D (TokenAssociateTransaction accountId tokenIds) =
     ''Associating tokens '' @ listed_tokens tokenIds @ ''to account '' @ accountId"
| "getDescription D (TokenGrantKycTransaction accountId tokenId) =
     ''Granting KYC to account '' @ accountId @ '' for token '' @ tokenId"
| "getDescription D (TokenRevokeKycTransaction accountId tokenId) =
     ''Revoking KYC from account '' @ accountId @ '' for token '' @ tokenId"

lemma description_given: "getDescription D tx \<noteq> []"
  by (cases tx) (auto simp: described_def bindR_Inr_iff split: option.split sum.split)

text \<open>What the multisignature adapter posts for a transaction, when it posts anything.\<close>

lemma multisig_posts:
  assumes "BackendRequest (HttpPost body) \<in> set (actions (multisig_processTransaction M tx tt sd))"
  shows "ab_description body = ms_description M tx"
  using assms
  by (auto simp: multisig_processTransaction_def Let_def withR_def bindIO_def backend_add_actions
      split: sum.splits list.splits option.splits)

lemma multisig_contract_posts:
  assumes "BackendRequest (HttpPost body) \<in> set (actions (ex_executeContractCall (multisig_executor M enc) c f fn ps g tto pay sd evm))"
  shows "\<exists>call. cc_contractId call = c \<and> cc_facet call = f \<and> cc_function call = fn \<and> cc_params call = ps \<and>
    ab_description body = ms_description M (ContractExecuteTransaction call)"
proof (cases "enc f fn ps")
  case (Inl e)
  then show ?thesis
    using assms by (simp add: multisig_executor_def base_executor_def base_executeContractCall_def buildContractTransaction_def)
next
  case (Inr u)
  let ?call = "\<lparr>cc_contractId = c, cc_facet = f, cc_function = fn, cc_params = ps, cc_gas = g,
    cc_payableAmount = (if pay = Some [] then None else pay)\<rparr>"
  have "BackendRequest (HttpPost body) \<in>
      set (actions (multisig_processTransaction M (ContractExecuteTransaction ?call) (case tto of None \<Rightarrow> RECEIPT | Some t \<Rightarrow> t) sd))"
    using assms Inr
    by (simp add: multisig_executor_def base_executor_def base_executeContractCall_def buildContractTransaction_def)
  from multisig_posts [OF this] show ?thesis by (intro exI [of _ ?call]) simp
qed

end
