(* ===== verification/Backend_Http.thy ===== *)
theory Backend_Http
  imports Backend_Transactions
begin

text \<open>
  The HTTP side of the multisignature backend: CORS (\<open>backend/src/main.ts\<close>), the guard of origins
  (\<open>guards/origin.guard.ts\<close>), the request DTOs with their transformations and validators
  (\<open>transaction/dto\<close>), and the routes of \<open>transaction.controller.ts\<close>. A request goes through CORS, the
  guard of its route, the validation of its body and the service; \<open>handle_http\<close> composes them in this
  order. JSON bodies are maps; the date library is the record \<open>date_lib\<close>.
\<close>

section \<open>Origins\<close>

text \<open>
  The guard builds a regular expression from an entry of \<open>ORIGIN\<close>: the first \<open>*\<close> becomes \<open>.*\<close>, everything else is
  kept. An entry has no other special characters than \<open>.\<close> and \<open>*\<close>; a star after another character
  repeats it, and a leading one is an error of the syntax.
\<close>

datatype origin_atom = AnyChar | ThisChar char

fun replace_star :: "string \<Rightarrow> string" where
  "replace_star [] = []"
| "replace_star (c # cs) = (if c = CHR ''*'' then ''.*'' @ cs else c # replace_star cs)"

definition origin_atom_of :: "char \<Rightarrow> origin_atom" where
  "origin_atom_of c = (if c = CHR ''.'' then AnyChar else ThisChar c)"

fun parse_pattern :: "string \<Rightarrow> (origin_atom \<times> bool) list option" where
  "parse_pattern [] = Some []"
| "parse_pattern [c] = (if c = CHR ''*'' then None else Some [(origin_atom_of c, False)])"
| "parse_pattern (c # d # cs) =
     (if c = CHR ''*'' then None
      else if d = CHR ''*'' then map_option (\<lambda>p. (origin_atom_of c, True) # p) (parse_pattern cs)
      else map_option (\<lambda>p. (origin_atom_of c, False) # p) (parse_pattern (d # cs)))"

fun atom_matches :: "origin_atom \<Rightarrow> char \<Rightarrow> bool" where
  "atom_matches AnyChar c \<longleftrightarrow> c \<noteq> CHR 0x0A \<and> c \<noteq> CHR 0x0D"
| "atom_matches (ThisChar d) c \<longleftrightarrow> c = d"

fun pattern_matches :: "(origin_atom \<times> bool) list \<Rightarrow> string \<Rightarrow> bool" where
  "pattern_matches [] s \<longleftrightarrow> s = []"
| "pattern_matches ((a, False) # p) [] \<longleftrightarrow> False"
| "pattern_matches ((a, False) # p) (c # s) \<longleftrightarrow> atom_matches a c \<and> pattern_matches p s"
| "pattern_matches ((a, True) # p) [] \<longleftrightarrow> pattern_matches p []"
| "pattern_matches ((a, True) # p) (c # s) \<longleftrightarrow>
     pattern_matches p (c # s) \<or> atom_matches a c \<and> pattern_matches ((a, True) # p) s"

text \<open>\<open>new RegExp(..).test(origin)\<close>; a missing header is the string \<open>undefined\<close>. \<open>None\<close> when the syntax is wrong.\<close>

definition origin_allowed :: "string \<Rightarrow> string option \<Rightarrow> bool option" where
  "origin_allowed allowedOrigin origin =
     map_option (\<lambda>p. pattern_matches p (case origin of None \<Rightarrow> ''undefined'' | Some s \<Rightarrow> s))
       (parse_pattern (replace_star allowedOrigin))"

text \<open>\<open>origins.some(..)\<close> stops at the first entry that matches.\<close>

fun some_origin :: "string list \<Rightarrow> string option \<Rightarrow> bool option" where
  "some_origin [] origin = Some False"
| "some_origin (a # as) origin =
     (case origin_allowed a origin of
        None \<Rightarrow> None
      | Some True \<Rightarrow> Some True
      | Some False \<Rightarrow> some_origin as origin)"

definition originGuard :: "string \<Rightarrow> string option \<Rightarrow> backend_exception option" where
  "originGuard ORIGIN origin =
     (case some_origin (js_split (CHR '','') ORIGIN) origin of
        None \<Rightarrow> Some (PlainError ''Invalid regular expression'')
      | Some True \<Rightarrow> None
      | Some False \<Rightarrow> Some (HttpException ''Forbidden resource'' 403))"

text \<open>The CORS option of \<open>main.ts\<close>: the entries of \<open>ORIGIN\<close> as they are.\<close>

definition cors_origin :: "string \<Rightarrow> string option \<Rightarrow> backend_exception option" where
  "cors_origin ORIGIN origin =
     (case origin of
        None \<Rightarrow> None
      | Some o' \<Rightarrow>
          if o' = [] \<or> o' \<in> set (js_split (CHR '','') ORIGIN) then None
          else Some (PlainError ''The CORS policy for this site does not allow access from the specified Origin.''))"

section \<open>Bodies\<close>

datatype json = JsonString string | JsonInt int | JsonArray "json list" | JsonOther

type_synonym body = "string \<rightharpoonup> json"

text \<open>\<open>hexRegex\<close> is \<open>/[0-9a-fA-F]+$/\<close>, without a beginning; \<open>hederaIdRegex\<close> is \<open>/^\d+\.\d+\.\d+$/\<close>.\<close>

definition hexRegex :: "string \<Rightarrow> bool" where
  "hexRegex s \<longleftrightarrow> s \<noteq> [] \<and> is_hex (last s)"

definition hederaIdRegex :: "string \<Rightarrow> bool" where
  "hederaIdRegex s \<longleftrightarrow>
     (let parts = js_split (CHR ''.'') s in
      length parts = 3 \<and> list_all (\<lambda>p. p \<noteq> [] \<and> list_all is_digit p) parts)"

fun json_string :: "json \<Rightarrow> string option" where
  "json_string (JsonString s) = Some s"
| "json_string _ = None"

fun json_strings :: "json list \<Rightarrow> string list option" where
  "json_strings [] = Some []"
| "json_strings (j # js) =
     (case (json_string j, json_strings js) of (Some s, Some ss) \<Rightarrow> Some (s # ss) | _ \<Rightarrow> None)"

text \<open>
  The transformations. \<open>RemoveHexPrefix\<close> on a string or on an array of strings; on anything else the method
  \<open>toLowerCase\<close> is missing and the pipe throws (\<open>Inl\<close>). A field that is missing is not transformed.
\<close>

fun RemoveHexPrefix :: "json \<Rightarrow> backend_exception + json" where
  "RemoveHexPrefix (JsonString s) = Inr (JsonString (removeHexPrefix s))"
| "RemoveHexPrefix (JsonArray js) =
     (case json_strings js of
        None \<Rightarrow> Inl (PlainError ''toLowerCase is not a function'')
      | Some ss \<Rightarrow> Inr (JsonArray (map (JsonString \<circ> removeHexPrefix) ss)))"
| "RemoveHexPrefix _ = Inl (PlainError ''toLowerCase is not a function'')"

definition network_key :: "string \<Rightarrow> network option" where
  "network_key s =
     (if s = ''MAINNET'' then Some MAINNET else if s = ''TESTNET'' then Some TESTNET
      else if s = ''PREVIEWNET'' then Some PREVIEWNET else None)"

text \<open>\<open>Network[value.toUpperCase()]\<close>, \<open>undefined\<close> (which no validator accepts) when there is no such key.\<close>

definition transform_network :: "json option \<Rightarrow> backend_exception + network option" where
  "transform_network value =
     (case value of
        None \<Rightarrow> Inr None
      | Some (JsonString s) \<Rightarrow> Inr (network_key (js_toUpperCase s))
      | Some _ \<Rightarrow> Inl (PlainError ''toUpperCase is not a function''))"

definition transform_hex :: "json option \<Rightarrow> backend_exception + json option" where
  "transform_hex value =
     (case value of
        None \<Rightarrow> Inr None
      | Some j \<Rightarrow> (case RemoveHexPrefix j of Inl e \<Rightarrow> Inl e | Inr j' \<Rightarrow> Inr (Some j')))"

definition bad_request :: backend_exception where
  "bad_request = HttpException ''Bad Request Exception'' 400"

record date_lib =
  dl_isDateString :: "string \<Rightarrow> bool"
  dl_milliseconds :: "string \<Rightarrow> int"    \<comment> \<open>of \<open>new Date(s)\<close>\<close>

definition CreateTransactionRequestDto :: "date_lib \<Rightarrow> body \<Rightarrow> backend_exception + create_dto" where
  "CreateTransactionRequestDto D b =
     (case transform_hex (b ''key_list'') of
        Inl e \<Rightarrow> Inl e
      | Inr key_list \<Rightarrow>
          (case transform_network (b ''network'') of
             Inl e \<Rightarrow> Inl e
           | Inr network \<Rightarrow>
               (case (b ''transaction_message'', b ''description'', b ''hedera_account_id'', key_list,
                      b ''threshold'', network, b ''start_date'') of
                  (Some (JsonString message), Some (JsonString description), Some (JsonString account),
                   Some (JsonArray js), Some (JsonInt threshold), Some nw, Some (JsonString date)) \<Rightarrow>
                    (case json_strings js of
                       None \<Rightarrow> Inl bad_request
                     | Some keys \<Rightarrow>
                         if message \<noteq> [] \<and> description \<noteq> [] \<and> hederaIdRegex account \<and>
                            keys \<noteq> [] \<and> list_all hexRegex keys \<and> 0 \<le> threshold \<and> dl_isDateString D date
                         then Inr \<lparr>d_transaction_message = message, d_description = description,
                                   d_hedera_account_id = account, d_key_list = keys,
                                   d_threshold = nat threshold, d_network = nw,
                                   d_start_date = dl_milliseconds D date\<rparr>
                         else Inl bad_request)
                | _ \<Rightarrow> Inl bad_request)))"

definition SignTransactionRequestDto :: "body \<Rightarrow> backend_exception + sign_dto" where
  "SignTransactionRequestDto b =
     (case (transform_hex (b ''signature''), transform_hex (b ''public_key'')) of
        (Inl e, _) \<Rightarrow> Inl e
      | (_, Inl e) \<Rightarrow> Inl e
      | (Inr (Some (JsonString signature)), Inr (Some (JsonString key))) \<Rightarrow>
          if signature \<noteq> [] \<and> key \<noteq> [] \<and> hexRegex key
          then Inr \<lparr>d_signature = signature, d_public_key = key\<rparr> else Inl bad_request
      | _ \<Rightarrow> Inl bad_request)"

definition status_of :: "string \<Rightarrow> transaction_status option" where
  "status_of s = find (\<lambda>st. status_value st = s) [SIGNED, PENDING, EXPIRED, ERROR, EXECUTED]"

definition UpdateTransactionRequestDto :: "body \<Rightarrow> backend_exception + transaction_status" where
  "UpdateTransactionRequestDto b =
     (case b ''status'' of
        Some (JsonString s) \<Rightarrow> (case status_of s of None \<Rightarrow> Inl bad_request | Some st \<Rightarrow> Inr st)
      | _ \<Rightarrow> Inl bad_request)"

section \<open>The routes\<close>

datatype route =
    AddTransaction body
  | SignTransactionRoute string body
  | UpdateTransactionStatus string body
  | DeleteTransactionRoute string
  | GetTransactionsRoute "string option" "string option" int nat "string option" "string option"
  | GetTransactionById string

datatype response_body =
    NoBody
  | CreatedId string
  | OneTransaction transaction
  | PageOfTransactions "transaction list" nat

type_synonym http_reply = "int \<times> response_body"

definition failed :: "backend_exception \<Rightarrow> http_reply" where
  "failed e = (exception_status e, NoBody)"

text \<open>The configuration, the libraries, and the identifier that the database generates.\<close>

record backend_env =
  be_ORIGIN :: string
  be_dates :: date_lib
  be_crypto :: crypto
  be_uuid :: string

definition guarded :: "route \<Rightarrow> bool" where
  "guarded r = (case r of AddTransaction _ \<Rightarrow> True | DeleteTransactionRoute _ \<Rightarrow> True | _ \<Rightarrow> False)"

definition controller :: "'r repository \<Rightarrow> backend_env \<Rightarrow> 'r \<Rightarrow> route \<Rightarrow> 'r \<times> http_reply" where
  "controller R B db r =
     (case r of
        AddTransaction b \<Rightarrow>
          (case CreateTransactionRequestDto (be_dates B) b of
             Inl e \<Rightarrow> (db, failed e)
           | Inr dto \<Rightarrow> (case service_create R db (be_uuid B) dto of (db', t) \<Rightarrow> (db', 201, CreatedId (t_id t))))
      | SignTransactionRoute i b \<Rightarrow>
          (case SignTransactionRequestDto b of
             Inl e \<Rightarrow> (db, failed e)
           | Inr dto \<Rightarrow>
               (case service_sign R (be_crypto B) db dto i of
                  Inl e \<Rightarrow> (db, failed e) | Inr (db', _) \<Rightarrow> (db', 204, NoBody)))
      | UpdateTransactionStatus i b \<Rightarrow>
          (case UpdateTransactionRequestDto b of
             Inl e \<Rightarrow> (db, failed e)
           | Inr st \<Rightarrow>
               (case service_updateStatus R db st i of
                  Inl e \<Rightarrow> (db, failed e) | Inr db' \<Rightarrow> (db', 204, NoBody)))
      | DeleteTransactionRoute i \<Rightarrow>
          (case service_delete R db i of Inl e \<Rightarrow> (db, failed e) | Inr db' \<Rightarrow> (db', 200, NoBody))
      | GetTransactionsRoute k st page limit nw acc \<Rightarrow>
          (case controller_getTransactions R db k st page limit nw acc of
             Inl e \<Rightarrow> (db, failed e) | Inr (items, pages) \<Rightarrow> (db, 200, PageOfTransactions items pages))
      | GetTransactionById i \<Rightarrow>
          (case service_getById R db i of
             Inl e \<Rightarrow> (db, failed e) | Inr t \<Rightarrow> (db, 200, OneTransaction t)))"

definition handle_http :: "'r repository \<Rightarrow> backend_env \<Rightarrow> 'r \<Rightarrow> string option \<Rightarrow> route \<Rightarrow> 'r \<times> http_reply" where
  "handle_http R B db origin r =
     (case cors_origin (be_ORIGIN B) origin of
        Some e \<Rightarrow> (db, failed e)
      | None \<Rightarrow>
          (case (if guarded r then originGuard (be_ORIGIN B) origin else None) of
             Some e \<Rightarrow> (db, failed e)
           | None \<Rightarrow> controller R B db r))"

end
