(* ===== verification/Backend_Http_Properties.thy ===== *)
theory Backend_Http_Properties
  imports Backend_Http Backend_Properties Backend_Adapter
begin

text \<open>
  Properties of the backend as a client sees it: what a request can do to the store, whose requests pass,
  and the way of a transaction from the client of the SDK to the store and back.
\<close>

section \<open>Requests and the store\<close>

lemma create_dto_valid:
  assumes "CreateTransactionRequestDto D b = Inr dto"
  shows "d_key_list dto \<noteq> [] \<and> list_all hexRegex (d_key_list dto) \<and> hederaIdRegex (d_hedera_account_id dto)"
  using assms
  by (auto simp: CreateTransactionRequestDto_def split: sum.splits option.splits json.splits if_splits)

lemma controller_step:
  assumes "rp_findOne R db (be_uuid B) = None" "controller R B db r = (db', st, x)"
  shows "(db' = db \<or> backend_step R (be_crypto B) db db') \<and> (400 \<le> st \<longrightarrow> db' = db)"
  using assms
  by (auto simp: controller_def split: route.splits sum.splits prod.splits
      intro: backend_step.create backend_step.sign backend_step.delete backend_step.update)

lemma handle_cases:
  "handle_http R B db origin r = controller R B db r \<or> (\<exists>e. handle_http R B db origin r = (db, failed e))"
  by (auto simp: handle_http_def split: option.splits)

text \<open>The stores that requests lead to; the database generates identifiers that are not in use.\<close>

inductive http_reachable :: "'r repository \<Rightarrow> crypto \<Rightarrow> 'r \<Rightarrow> bool" for R C where
  http_empty: "(\<And>i. rp_findOne R db i = None) \<Longrightarrow> http_reachable R C db"
| http_request: "http_reachable R C db \<Longrightarrow> be_crypto B = C \<Longrightarrow> rp_findOne R db (be_uuid B) = None \<Longrightarrow>
    http_reachable R C (fst (handle_http R B db origin r))"

definition http_valid :: "transaction \<Rightarrow> bool" where
  "http_valid t \<longleftrightarrow>
     t_key_list t \<noteq> [] \<and> 1 \<le> t_threshold t \<and> list_all hexRegex (t_key_list t) \<and> hederaIdRegex (t_hedera_account_id t)"

lemma entity_http_valid:
  assumes "CreateTransactionRequestDto D b = Inr dto"
  shows "http_valid (entity_of uuid dto)"
proof -
  have "set (removeDuplicates (d_key_list dto)) \<noteq> {}" using create_dto_valid [OF assms] by simp
  then have "removeDuplicates (d_key_list dto) \<noteq> []" by force
  then show ?thesis
    using create_dto_valid [OF assms] by (auto simp: http_valid_def entity_of_def Let_def list_all_iff Suc_le_eq)
qed

lemma http_valid_updates [simp]:
  "http_valid (signed_transaction t dto) = http_valid t" "http_valid (t \<lparr>t_status := st\<rparr>) = http_valid t"
  by (simp_all add: http_valid_def signed_transaction_def Let_def)

context tx_repository
begin

lemma http_backend_reachable: "http_reachable R C db \<Longrightarrow> backend_reachable R C db"
proof (induction rule: http_reachable.induct)
  case (http_request db B origin r)
  show ?case
    using handle_cases [of R B db origin r] controller_step [OF http_request.hyps(3), of r]
      http_request.IH http_request.hyps(2) backend_reachable.step
    by (cases "controller R B db r") force
qed (rule backend_reachable.init)

lemma http_reachable_valid:
  "http_reachable R C db \<Longrightarrow> rp_findOne R db i = Some t \<Longrightarrow> http_valid t"
proof (induction arbitrary: i t rule: http_reachable.induct)
  case (http_request db B origin r)
  have saved: "rp_findOne R (rp_save R db u) i = Some t \<Longrightarrow> http_valid u \<Longrightarrow> http_valid t" for u
    using http_request.IH by (simp add: find_save split: if_splits)
  have "http_valid t" if "rp_findOne R (fst (controller R B db r)) i = Some t"
  proof (cases r)
    case (AddTransaction b)
    then show ?thesis
      using that http_request.IH saved [OF _ entity_http_valid]
      by (cases "CreateTransactionRequestDto (be_dates B) b") (simp_all add: controller_def service_create_def Let_def)
  next
    case (SignTransactionRoute j b)
    show ?thesis
    proof (cases "\<exists>dto db' u. SignTransactionRequestDto b = Inr dto \<and> service_sign R (be_crypto B) db dto j = Inr (db', u)")
      case True
      then obtain dto db' u where d: "SignTransactionRequestDto b = Inr dto"
          "service_sign R (be_crypto B) db dto j = Inr (db', u)" by blast
      then have "fst (controller R B db r) = db'" by (simp add: controller_def SignTransactionRoute)
      then show ?thesis using that d(2) saved http_request.IH by (auto simp: service_Inr)
    next
      case False
      then have "fst (controller R B db r) = db"
        unfolding SignTransactionRoute controller_def by (auto split: sum.split prod.split)
      then show ?thesis using that http_request.IH by simp
    qed
  next
    case (UpdateTransactionStatus j b)
    show ?thesis
    proof (cases "\<exists>st db'. UpdateTransactionRequestDto b = Inr st \<and> service_updateStatus R db st j = Inr db'")
      case True
      then obtain st db' where d: "UpdateTransactionRequestDto b = Inr st" "service_updateStatus R db st j = Inr db'" by blast
      then have "fst (controller R B db r) = db'" by (simp add: controller_def UpdateTransactionStatus)
      then show ?thesis using that d(2) saved http_request.IH by (auto simp: service_Inr)
    next
      case False
      then have "fst (controller R B db r) = db"
        unfolding UpdateTransactionStatus controller_def by (auto split: sum.split)
      then show ?thesis using that http_request.IH by simp
    qed
  next
    case (DeleteTransactionRoute j)
    then show ?thesis
      using that http_request.IH
      by (cases "service_delete R db j") (auto simp: controller_def service_Inr find_delete split: if_splits)
  qed (use that http_request.IH in \<open>auto simp: controller_def split: sum.splits prod.splits\<close>)
  then show ?case using handle_cases [of R B db origin r] http_request by auto
qed simp

end

text \<open>
  Property C13. Whatever requests arrive, from whomever: in the store that they lead to, a transaction has at
  least one key and needs at least one signature (so none is born signed), each of its keys ends in a
  hexadecimal digit, its account has the format of an identifier, and the invariant of the service holds.
  A request that is answered with an error leaves the store as it was.
\<close>

theorem http_store_valid:
  assumes "tx_repository R" "http_reachable R C db" "rp_findOne R db i = Some t"
    and "be_crypto B = C" "rp_findOne R db (be_uuid B) = None"
  shows "t_key_list t \<noteq> [] \<and> 1 \<le> t_threshold t \<and> t_threshold t \<le> length (t_key_list t) \<and>
    list_all hexRegex (t_key_list t) \<and> hederaIdRegex (t_hedera_account_id t) \<and> well_formed C t \<and>
    (400 \<le> fst (snd (handle_http R B db origin r)) \<longrightarrow> fst (handle_http R B db origin r) = db)"
proof -
  have "well_formed C t"
    using tx_repository.reachable_well_formed [OF assms(1) tx_repository.http_backend_reachable [OF assms(1,2)]] assms(3)
    by (auto simp: all_well_formed_def)
  moreover have "http_valid t" by (rule tx_repository.http_reachable_valid [OF assms(1-3)])
  moreover have "400 \<le> fst (snd (handle_http R B db origin r)) \<longrightarrow> fst (handle_http R B db origin r) = db"
    using handle_cases [of R B db origin r] controller_step [OF assms(5), of r] by (cases "controller R B db r") force
  ultimately show ?thesis by (simp add: http_valid_def well_formed_def)
qed

section \<open>Origins\<close>

lemma replace_star_id: "CHR ''*'' \<notin> set s \<Longrightarrow> replace_star s = s"
  by (induction s) auto

lemma parse_plain: "CHR ''*'' \<notin> set s \<Longrightarrow> parse_pattern s = Some (map (\<lambda>c. (origin_atom_of c, False)) s)"
  by (induction s rule: parse_pattern.induct) auto

lemma plain_matches:
  "pattern_matches (map (\<lambda>c. (origin_atom_of c, False)) s) o' \<longleftrightarrow> list_all2 (\<lambda>c d. atom_matches (origin_atom_of c) d) s o'"
  by (induction s arbitrary: o'; case_tac o') auto

lemma origin_plain:
  "CHR ''*'' \<notin> set s \<Longrightarrow> origin_allowed s origin =
     Some (list_all2 (\<lambda>c d. atom_matches (origin_atom_of c) d) s (case origin of None \<Rightarrow> ''undefined'' | Some o' \<Rightarrow> o'))"
  by (simp add: origin_allowed_def replace_star_id parse_plain plain_matches)

lemma some_origin_plain:
  "\<forall>a \<in> set as. CHR ''*'' \<notin> set a \<Longrightarrow> some_origin as origin = Some (\<exists>a \<in> set as. origin_allowed a origin = Some True)"
  by (induction as) (auto simp: origin_plain split: option.splits bool.splits)

lemma guard_plain:
  assumes "\<forall>a \<in> set (js_split (CHR '','') ORIGIN). CHR ''*'' \<notin> set a"
  shows "originGuard ORIGIN origin =
    (if \<exists>a \<in> set (js_split (CHR '','') ORIGIN). origin_allowed a origin = Some True then None
     else Some (HttpException ''Forbidden resource'' 403))"
  unfolding originGuard_def some_origin_plain [OF assms] by (simp split: bool.split)

lemma split_chars: "\<exists>p \<in> set (js_split c s). x \<in> set p \<Longrightarrow> x \<in> set s"
  by (induction c s rule: js_split.induct) (auto split: list.splits if_splits)

lemma listed_origin:
  assumes "CHR ''*'' \<notin> set ORIGIN" "CHR 0x0A \<notin> set ORIGIN" "CHR 0x0D \<notin> set ORIGIN"
    and "a \<in> set (js_split (CHR '','') ORIGIN)"
  shows "originGuard ORIGIN (Some a) = None" "cors_origin ORIGIN (Some a) = None"
proof -
  have plain: "\<forall>a \<in> set (js_split (CHR '','') ORIGIN). CHR ''*'' \<notin> set a" using split_chars assms(1) by metis
  have "CHR ''*'' \<notin> set a" "CHR 0x0A \<notin> set a" "CHR 0x0D \<notin> set a" using split_chars assms by metis+
  then have "origin_allowed a (Some a) = Some True" by (auto simp: origin_plain list_all2_same origin_atom_of_def)
  then show "originGuard ORIGIN (Some a) = None" using assms(4) by (auto simp: guard_plain [OF plain])
  show "cors_origin ORIGIN (Some a) = None" using assms(4) by (simp add: cors_origin_def)
qed

text \<open>
  Whose requests pass, when \<open>ORIGIN\<close> has no pattern. A request with an origin passes CORS and every
  guard when the origin is an entry of \<open>ORIGIN\<close>, and is refused otherwise, on every route. A request
  without an origin (which no browser makes) passes on every route but the creation and the deletion,
  so that a signature and a change of status are open to it; on those two the guard compares the entries
  with the text \<open>undefined\<close>, and every entry of another length refuses.
\<close>

theorem origins_that_pass:
  assumes "CHR ''*'' \<notin> set (be_ORIGIN B)" "CHR 0x0A \<notin> set (be_ORIGIN B)" "CHR 0x0D \<notin> set (be_ORIGIN B)"
  shows "(\<forall>o'. o' \<noteq> [] \<and> o' \<in> set (js_split (CHR '','') (be_ORIGIN B)) \<longrightarrow>
      handle_http R B db (Some o') r = controller R B db r) \<and>
    (\<forall>o'. o' \<noteq> [] \<and> o' \<notin> set (js_split (CHR '','') (be_ORIGIN B)) \<longrightarrow>
      handle_http R B db (Some o') r = (db, 500, NoBody)) \<and>
    (\<not> guarded r \<longrightarrow> handle_http R B db None r = controller R B db r) \<and>
    (guarded r \<and> (\<forall>a \<in> set (js_split (CHR '','') (be_ORIGIN B)). length a \<noteq> 9) \<longrightarrow>
      handle_http R B db None r = (db, 403, NoBody))"
proof -
  let ?as = "js_split (CHR '','') (be_ORIGIN B)"
  have plain: "\<forall>a \<in> set ?as. CHR ''*'' \<notin> set a" using split_chars assms(1) by metis
  have undef: "origin_allowed a None = Some False" if "a \<in> set ?as" "length a \<noteq> 9" for a
    using that plain by (auto simp: origin_plain dest!: list_all2_lengthD)
  have "originGuard (be_ORIGIN B) None = Some (HttpException ''Forbidden resource'' 403)"
    if "\<forall>a \<in> set ?as. length a \<noteq> 9"
    using undef that by (auto simp: guard_plain [OF plain])
  then show ?thesis
    using listed_origin [OF assms] by (auto simp: handle_http_def cors_origin_def failed_def)
qed

definition sample_backend :: backend_env where
  "sample_backend =
     \<lparr>be_ORIGIN = ''http://localhost:3000,https://app.io'', be_dates = \<lparr>dl_isDateString = \<lambda>s. True, dl_milliseconds = \<lambda>s. 0\<rparr>,
      be_crypto = sample_crypto, be_uuid = ''00000000-0000-0000-0000-000000000000''\<rparr>"

definition sample_body :: body where
  "sample_body =
     [''transaction_message'' \<mapsto> JsonString ''0a1b'', ''description'' \<mapsto> JsonString ''mint'',
      ''hedera_account_id'' \<mapsto> JsonString ''0.0.7'', ''key_list'' \<mapsto> JsonArray [JsonString ''0xaa''],
      ''threshold'' \<mapsto> JsonInt 0, ''network'' \<mapsto> JsonString ''testnet'', ''start_date'' \<mapsto> JsonString ''2024'']"

definition posted_store :: store where
  "posted_store = fst (handle_http store_repository sample_backend [] (Some ''https://app.io'') (AddTransaction sample_body))"

theorem http_store_valid_witness:
  "\<exists>t. rp_findOne store_repository posted_store (be_uuid sample_backend) = Some t \<and> t_key_list t = [''aa''] \<and>
     1 \<le> t_threshold t"
proof -
  have "http_reachable store_repository sample_crypto []"
    by (rule http_empty) (simp add: store_find_def)
  then have r: "http_reachable store_repository sample_crypto posted_store"
    unfolding posted_store_def by (rule http_request) (simp_all add: sample_backend_def store_find_def)
  have f: "map_option t_key_list (store_find posted_store (be_uuid sample_backend)) = Some [''aa'']"
    by code_simp
  have "store_find posted_store sample_uuid = None" by code_simp
  then show ?thesis
    using f http_store_valid [OF store.tx_repository_axioms r, of "be_uuid sample_backend" _ "sample_backend \<lparr>be_uuid := sample_uuid\<rparr>"]
    by (auto simp: sample_backend_def)
qed

theorem origins_that_pass_witness:
  "handle_http store_repository sample_backend sample_store (Some ''https://evil.io'') (DeleteTransactionRoute sample_uuid) =
     (sample_store, 500, NoBody) \<and>
   fst (handle_http store_repository sample_backend sample_store None (UpdateTransactionStatus sample_uuid
     [''status'' \<mapsto> JsonString ''EXECUTED''])) \<noteq> sample_store"
proof -
  have o: "be_ORIGIN sample_backend = ''http://localhost:3000,https://app.io''" by (simp add: sample_backend_def)
  have s: "js_split (CHR '','') ''http://localhost:3000,https://app.io'' = [''http://localhost:3000'', ''https://app.io'']"
    by simp
  have "fst (controller store_repository sample_backend sample_store (UpdateTransactionStatus sample_uuid
     [''status'' \<mapsto> JsonString ''EXECUTED''])) \<noteq> sample_store"
    by code_simp
  then show ?thesis
    using origins_that_pass [of sample_backend store_repository sample_store "DeleteTransactionRoute sample_uuid"]
      origins_that_pass [of sample_backend store_repository sample_store "UpdateTransactionStatus sample_uuid
     [''status'' \<mapsto> JsonString ''EXECUTED'']"]
    by (simp add: o s guarded_def)
qed

end
