(* ===== verification/Backend_Roundtrip.thy ===== *)
theory Backend_Roundtrip
  imports Backend_Http_Properties
begin

text \<open>
  The client of the SDK (\<open>Backend_Adapter\<close>) against the backend (\<open>Backend_Http\<close>): the requests of the
  client as routes, the replies as the HTTP client hands them on (a status outside 200 to 299 is an
  error), and the way of a multisignature transaction to the store and back.
\<close>

section \<open>The client over the backend\<close>

text \<open>\<open>configureHeaders\<close>: outside of a browser the post and the deletion carry an origin, the others none.\<close>

definition configureHeaders :: "bool \<Rightarrow> string option" where
  "configureHeaders isWeb = (if \<not> isWeb then Some ''http://localhost:3000'' else None)"

definition request_origin :: "http_request \<Rightarrow> string option" where
  "request_origin r =
     (case r of HttpPost _ \<Rightarrow> configureHeaders False | HttpDelete _ \<Rightarrow> configureHeaders False | _ \<Rightarrow> None)"

definition add_json :: "add_body \<Rightarrow> body" where
  "add_json b =
     [''transaction_message'' \<mapsto> JsonString (ab_transaction_message b), ''description'' \<mapsto> JsonString (ab_description b),
      ''hedera_account_id'' \<mapsto> JsonString (ab_hedera_account_id b),
      ''key_list'' \<mapsto> JsonArray (map JsonString (ab_key_list b)), ''threshold'' \<mapsto> JsonInt (int (ab_threshold b)),
      ''network'' \<mapsto> JsonString (ab_network b), ''start_date'' \<mapsto> JsonString (ab_start_date b)]"

definition route_of :: "http_request \<Rightarrow> route" where
  "route_of r =
     (case r of
        HttpPost b \<Rightarrow> AddTransaction (add_json b)
      | HttpPutSignature i s k \<Rightarrow>
          SignTransactionRoute i [''signature'' \<mapsto> JsonString s, ''public_key'' \<mapsto> JsonString k]
      | HttpPutUpdate i st \<Rightarrow> UpdateTransactionStatus i [''status'' \<mapsto> JsonString st]
      | HttpDelete i \<Rightarrow> DeleteTransactionRoute i
      | HttpGetList q \<Rightarrow>
          GetTransactionsRoute (qp_publicKey q) (qp_status q) (qp_page q) (nat (qp_limit q)) (Some (qp_network q))
            (qp_hederaAccountId q)
      | HttpGet i \<Rightarrow> GetTransactionById i)"

text \<open>\<open>GetTransactionsResponseDto\<close>; \<open>show_date\<close> is \<open>toUTCString\<close>.\<close>

definition response_dto :: "(int \<Rightarrow> string) \<Rightarrow> transaction \<Rightarrow> multisig_transaction" where
  "response_dto show_date t =
     \<lparr>mst_id = t_id t, mst_transaction_message = t_transaction_message t, mst_description = t_description t,
      mst_status = status_value (t_status t), mst_threshold = t_threshold t, mst_key_list = t_key_list t,
      mst_signed_keys = t_signed_keys t, mst_signatures = t_signatures t, mst_network = network_value (t_network t),
      mst_hedera_account_id = t_hedera_account_id t, mst_start_date = show_date (t_start_date t)\<rparr>"

definition http_settled :: "(int \<Rightarrow> string) \<Rightarrow> http_reply \<Rightarrow> http_response result" where
  "http_settled show_date reply =
     (if 200 \<le> fst reply \<and> fst reply < 300
      then Inr \<lparr>hr_status = fst reply, hr_statusText = [],
             hr_data = (case snd reply of
                NoBody \<Rightarrow> None
              | CreatedId i \<Rightarrow> Some (DataTransactionId i)
              | OneTransaction t \<Rightarrow> Some (DataTransaction (response_dto show_date t))
              | PageOfTransactions ts n \<Rightarrow> Some (DataList (Some (map (response_dto show_date) ts))
                  \<lparr>pg_totalItems = 0, pg_itemCount = int (length ts), pg_itemsPerPage = 0,
                   pg_totalPages = int n, pg_currentPage = 0\<rparr>))\<rparr>
      else Inl (ProviderError [(''message'', ''Request failed with status code '' @ int_str (fst reply))]))"

definition over_http :: "'r repository \<Rightarrow> backend_env \<Rightarrow> (int \<Rightarrow> string) \<Rightarrow> 'r \<Rightarrow> http_client" where
  "over_http R B show_date db r = http_settled show_date (snd (handle_http R B db (request_origin r) (route_of r)))"

section \<open>There and back\<close>

lemma strings_json: "json_strings (map JsonString ks) = Some ks"
  by (induction ks) auto

lemma transformed_keys: "transform_hex (Some (JsonArray (map JsonString ks))) = Inr (Some (JsonArray (map JsonString (map removeHexPrefix ks))))"
  by (simp add: transform_hex_def strings_json)

lemma create_dto_of_client:
  "CreateTransactionRequestDto D (add_json b) =
     (case network_key (js_toUpperCase (ab_network b)) of
        None \<Rightarrow> Inl bad_request
      | Some n \<Rightarrow>
          if ab_transaction_message b \<noteq> [] \<and> ab_description b \<noteq> [] \<and> hederaIdRegex (ab_hedera_account_id b) \<and>
             ab_key_list b \<noteq> [] \<and> list_all hexRegex (map removeHexPrefix (ab_key_list b)) \<and>
             dl_isDateString D (ab_start_date b)
          then Inr \<lparr>d_transaction_message = ab_transaction_message b, d_description = ab_description b,
                d_hedera_account_id = ab_hedera_account_id b, d_key_list = map removeHexPrefix (ab_key_list b),
                d_threshold = ab_threshold b, d_network = n, d_start_date = dl_milliseconds D (ab_start_date b)\<rparr>
          else Inl bad_request)"
  using transformed_keys [of "ab_key_list b"] strings_json [of "map removeHexPrefix (ab_key_list b)"]
  by (auto simp: CreateTransactionRequestDto_def add_json_def transform_network_def split: option.split)

lemma outcome_request: "outcome (bindIO (request http r) f) = bindR (http r) (\<lambda>x. outcome (f x))"
  by (cases "http r") (simp_all add: request_def act_def bindIO_def)

text \<open>
  What the client of the SDK posts is what it reads back. A transaction with a message, a description, an
  account and keys in their formats, and a network of the backend, is stored under the new identifier: read
  again it is pending and without signatures, with the same message, account and network, its keys without
  prefix and without repetitions, and a threshold of all the keys when none or too many were asked for. On
  a network that the backend does not know, such as the local or an unrecognised one, the post fails with
  an error that does not say why.
\<close>

theorem post_and_read:
  assumes "tx_repository R" "rp_findOne R db (be_uuid B) = None" "uuidRegex (be_uuid B)"
    and "CHR ''*'' \<notin> set (be_ORIGIN B)" "CHR 0x0A \<notin> set (be_ORIGIN B)" "CHR 0x0D \<notin> set (be_ORIGIN B)"
    and "''http://localhost:3000'' \<in> set (js_split (CHR '','') (be_ORIGIN B))"
    and "m \<noteq> []" "d \<noteq> []" "hederaIdRegex a" "ks \<noteq> []" "list_all hexRegex (map removeHexPrefix ks)"
    and "dl_isDateString (be_dates B) sd"
    and "keys = removeDuplicates (map removeHexPrefix ks)"
    and "body = \<lparr>ab_transaction_message = m, ab_description = d, ab_hedera_account_id = a, ab_key_list = ks,
           ab_threshold = th, ab_network = nw, ab_start_date = sd\<rparr>"
    and "db' = fst (handle_http R B db (request_origin (HttpPost body)) (route_of (HttpPost body)))"
  shows "(\<forall>n. network_key (js_toUpperCase nw) = Some n \<longrightarrow>
      outcome (backend_addTransaction (over_http R B show_date db) m d a ks th nw sd) = Inr (be_uuid B) \<and>
      (\<exists>t. outcome (backend_getTransaction (over_http R B show_date db') (be_uuid B)) = Inr t \<and>
         mst_transaction_message t = m \<and> mst_hedera_account_id t = a \<and> mst_network t = network_value n \<and>
         mst_key_list t = keys \<and> mst_status t = ''PENDING'' \<and> mst_signed_keys t = [] \<and> mst_signatures t = [] \<and>
         mst_threshold t = (if th = 0 \<or> length keys < th then length keys else th))) \<and>
    (network_key (js_toUpperCase nw) = None \<longrightarrow>
      outcome (backend_addTransaction (over_http R B show_date db) m d a ks th nw sd) =
        Inl (BackendError (''Failed to add transaction '' @ m @ '': Unknown error'')) \<and> db' = db)"
proof -
  let ?dto = "\<lambda>n. \<lparr>d_transaction_message = m, d_description = d, d_hedera_account_id = a,
    d_key_list = map removeHexPrefix ks, d_threshold = th, d_network = n, d_start_date = dl_milliseconds (be_dates B) sd\<rparr>"
  have posted: "handle_http R B db (request_origin (HttpPost body)) (route_of (HttpPost body)) =
      controller R B db (AddTransaction (add_json body))"
    using listed_origin [OF assms(4-7)]
    by (simp add: request_origin_def configureHeaders_def route_of_def handle_http_def)
  have dto: "CreateTransactionRequestDto (be_dates B) (add_json body) =
      (case network_key (js_toUpperCase nw) of None \<Rightarrow> Inl bad_request | Some n \<Rightarrow> Inr (?dto n))"
    using assms(8-13) by (simp add: create_dto_of_client assms(15) split: option.split)
  show ?thesis
  proof (intro conjI allI impI)
    fix n assume n: "network_key (js_toUpperCase nw) = Some n"
    let ?t = "entity_of (be_uuid B) (?dto n)"
    have id: "t_id ?t = be_uuid B" by (simp add: entity_of_def Let_def)
    have c: "controller R B db (AddTransaction (add_json body)) = (rp_save R db ?t, 201, CreatedId (be_uuid B))"
      by (simp add: controller_def dto n service_create_def Let_def id)
    show "outcome (backend_addTransaction (over_http R B show_date db) m d a ks th nw sd) = Inr (be_uuid B)"
      unfolding backend_addTransaction_def outcome_backend_catch outcome_request assms(15) [symmetric]
      by (simp add: over_http_def posted c http_settled_def)
    have db': "db' = rp_save R db ?t" by (simp add: assms(16) posted c)
    have "rp_findOne R db' (be_uuid B) = Some ?t"
      using tx_repository.find_save [OF assms(1)] by (simp add: db' id)
    then have "over_http R B show_date db' (HttpGet (be_uuid B)) =
        Inr \<lparr>hr_status = 200, hr_statusText = [],
             hr_data = Some (DataTransaction (response_dto show_date (transformToDto ?t)))\<rparr>"
      using assms(3) by (simp add: over_http_def request_origin_def route_of_def handle_http_def cors_origin_def
          guarded_def controller_def service_getById_def http_settled_def)
    then have "outcome (backend_getTransaction (over_http R B show_date db') (be_uuid B)) =
        Inr (response_dto show_date (transformToDto ?t))"
      unfolding backend_getTransaction_def outcome_backend_catch outcome_request by simp
    then show "\<exists>t. outcome (backend_getTransaction (over_http R B show_date db') (be_uuid B)) = Inr t \<and>
         mst_transaction_message t = m \<and> mst_hedera_account_id t = a \<and> mst_network t = network_value n \<and>
         mst_key_list t = keys \<and> mst_status t = ''PENDING'' \<and> mst_signed_keys t = [] \<and> mst_signatures t = [] \<and>
         mst_threshold t = (if th = 0 \<or> length keys < th then length keys else th)"
      using assms(14) by (simp add: response_dto_def transformToDto_def entity_of_def Let_def)
  next
    assume n: "network_key (js_toUpperCase nw) = None"
    have c: "controller R B db (AddTransaction (add_json body)) = (db, 400, NoBody)"
      by (simp add: controller_def dto n failed_def bad_request_def)
    then show "db' = db" by (simp add: assms(16) posted)
    have "over_http R B show_date db (HttpPost body) =
        Inl (ProviderError [(''message'', ''Request failed with status code '' @ int_str 400)])"
      by (simp add: over_http_def posted c http_settled_def)
    then show "outcome (backend_addTransaction (over_http R B show_date db) m d a ks th nw sd) =
        Inl (BackendError (''Failed to add transaction '' @ m @ '': Unknown error''))"
      unfolding backend_addTransaction_def assms(15) [symmetric]
      by (simp add: backend_catch_def unknown_error_def rethrow_def bindIO_def request_def act_def)
  qed
qed

theorem post_and_read_witness:
  "outcome (backend_addTransaction (over_http store_repository sample_backend (\<lambda>_. []) []) ''0a1b'' ''mint'' ''0.0.7''
     [''0xaa'', ''aa'', ''bb''] 5 ''TestNet'' ''2024'') = Inr (be_uuid sample_backend) \<and>
   outcome (backend_addTransaction (over_http store_repository sample_backend (\<lambda>_. []) []) ''0a1b'' ''mint'' ''0.0.7''
     [''0xaa'', ''aa'', ''bb''] 5 ''local'' ''2024'') =
     Inl (BackendError (''Failed to add transaction '' @ ''0a1b'' @ '': Unknown error''))"
proof -
  have "rp_findOne store_repository [] (be_uuid sample_backend) = None" by (simp add: store_find_def)
  moreover have "uuidRegex (be_uuid sample_backend)" "CHR ''*'' \<notin> set (be_ORIGIN sample_backend)"
      "CHR 0x0A \<notin> set (be_ORIGIN sample_backend)" "CHR 0x0D \<notin> set (be_ORIGIN sample_backend)"
      "''http://localhost:3000'' \<in> set (js_split (CHR '','') (be_ORIGIN sample_backend))"
      "hederaIdRegex ''0.0.7''" "list_all hexRegex (map removeHexPrefix [''0xaa'', ''aa'', ''bb''])"
      "network_key (js_toUpperCase ''TestNet'') = Some TESTNET" "network_key (js_toUpperCase ''local'') = None"
    by code_simp+
  moreover have "dl_isDateString (be_dates sample_backend) ''2024''" by (simp add: sample_backend_def)
  ultimately show ?thesis
    using post_and_read [OF store.tx_repository_axioms, of "[]" sample_backend "''0a1b''" "''mint''" "''0.0.7''"
        "[''0xaa'', ''aa'', ''bb'']" "''2024''" _ _ 5 _ _ "\<lambda>_. []"]
    by simp
qed

end
