(* ===== verification/Multisig_Properties.thy ===== *)
theory Multisig_Properties
  imports Tx_Description Adapter_Properties Backend_Roundtrip
begin

text \<open>
  The multisignature adapter together with the backend: the descriptions that it stores, and the way of an
  operation to a pending transaction of the store.
\<close>

section \<open>Descriptions\<close>

text \<open>
  What the signers read. When an operation of the token goes through the contract, the description
  that the multisignature adapter stores is always that the call could not be decoded, because only the
  interface of the token manager is consulted, and none of these operations is one of its functions.
\<close>

theorem multisig_descriptions:
  assumes "ms_description M = getDescription D" "X = multisig_executor M enc"
    and "(x, m) \<in> {(CASH_IN, op_cashin X E caps i a sd), (BURN, op_burn X E caps a sd), (WIPE, op_wipe X E caps i a sd),
      (FREEZE, op_freeze X E caps i sd), (UNFREEZE, op_unfreeze X E caps i sd), (GRANT_KYC, op_grantKyc X E caps i),
      (REVOKE_KYC, op_revokeKyc X E caps i), (PAUSE, op_pause X caps sd), (UNPAUSE, op_unpause X caps),
      (DELETE, op_delete X caps sd)}"
    and "getAccessDecision caps x = D_CONTRACT" "BackendRequest (HttpPost body) \<in> set (actions m)"
  shows "ab_description body = ''Failed to decode function call''"
proof -
  have posts: "ab_description body = ''Failed to decode function call''"
    if "BackendRequest (HttpPost body) \<in> set (actions (ex_executeContractCall X c f fn ps g tto pay s evm))"
      "fn \<notin> set token_manager_functions" for c f fn ps g tto pay s evm
    using multisig_contract_posts [OF that(1) [unfolded assms(2)]] that(2)
    by (auto simp: assms(1) decodeFunctionCall_def)
  show ?thesis
    using assms(3-5)
    unfolding op_cashin_def op_burn_def op_wipe_def op_freeze_def op_unfreeze_def op_grantKyc_def
      op_revokeKyc_def op_pause_def op_unpause_def op_delete_def
    by (elim insertE emptyE)
      (auto simp: by_access_def signing_def withR_def token_manager_functions_def split: sum.splits dest!: posts)
qed

text \<open>A multisignature account with two keys, on a backend that accepts the SDK.\<close>

definition multisig_sample :: "http_client \<Rightarrow> multisig_env" where
  "multisig_sample http =
     \<lparr>ms_account = \<lparr>acc_id = HederaId ''0.0.7'', acc_evmAddress = None, acc_privateKey = None, acc_publicKey = None,
        acc_multiKey = Some \<lparr>mk_keys = [\<lparr>pk_key = ''aa'', pk_type = ''ED25519''\<rparr>, \<lparr>pk_key = ''bb'', pk_type = ''ED25519''\<rparr>],
          mk_threshold = 2\<rparr>\<rparr>,
      ms_environment = ''testnet'', ms_consensusNodes = [(''node'', ''0.0.3'')], ms_now = ''2024'',
      ms_timestamp = (\<lambda>d. Inr d),
      ms_description = getDescription \<lparr>ds_arguments = \<lambda>_. [], ds_accountId = \<lambda>_. Inr None\<rparr>,
      ms_freeze = (\<lambda>_ _ _ _ _. Inr [10, 27]), ms_http = http\<rparr>"

definition refusing :: http_client where
  "refusing = (\<lambda>_. Inl (ProviderError []))"

theorem multisig_descriptions_witness:
  "\<exists>body. actions (op_burn (multisig_executor (multisig_sample refusing) (\<lambda>_ _ _. Inr ())) sample_net sample_caps (bd2 150) None) =
      [BackendRequest (HttpPost body)] \<and> ab_description body = ''Failed to decode function call''"
proof -
  let ?X = "multisig_executor (multisig_sample refusing) (\<lambda>_ _ _. Inr ())"
  obtain body where "actions (op_burn ?X sample_net sample_caps (bd2 150) None) = [BackendRequest (HttpPost body)]"
    by (simp add: op_burn_def signing_def by_access_def sample multisig_executor_def base_executor_def
        base_executeContractCall_def buildContractTransaction_def multisig_processTransaction_def multisig_sample_def
        Let_def actions_bindIO_pure backend_add_actions)
  then show ?thesis
    using multisig_descriptions [of "multisig_sample refusing" _ ?X _ BURN _ sample_net sample_caps undefined "bd2 150" None body]
    by (auto simp: multisig_sample_def sample)
qed

section \<open>From the adapter to the store\<close>

text \<open>
  Property C12. An operation of the multisignature adapter, from the SDK to the store of the backend. When the
  account has keys, the network has consensus nodes and is one of the backend's, and the backend admits the
  SDK's origin, the adapter returns the identifier of a new transaction, and reading it back gives a
  pending transaction without signatures, with the bytes of the frozen transaction, the account, its keys
  and a threshold that they can reach. On another network the operation fails and stores nothing.
\<close>

theorem multisig_reaches_store:
  assumes "tx_repository R" "rp_findOne R db (be_uuid B) = None" "uuidRegex (be_uuid B)"
    and "CHR ''*'' \<notin> set (be_ORIGIN B)" "CHR 0x0A \<notin> set (be_ORIGIN B)" "CHR 0x0D \<notin> set (be_ORIGIN B)"
    and "''http://localhost:3000'' \<in> set (js_split (CHR '','') (be_ORIGIN B))"
    and "ms_http M = over_http R B show_date db" "ms_description M = getDescription D"
    and "date = (case sd of None \<Rightarrow> ms_now M | Some s \<Rightarrow> if s = [] then ms_now M else s)"
    and "ms_timestamp M date = Inr validStart" "ms_consensusNodes M = node # nodes"
    and "acc_multiKey (ms_account M) = Some mk" "mk_keys mk \<noteq> []"
    and "list_all (\<lambda>k. hexRegex (removeHexPrefix (pk_key k))) (mk_keys mk)"
    and "hederaIdRegex (id_value (acc_id (ms_account M)))" "dl_isDateString (be_dates B) date"
    and "ms_freeze M t (id_value (acc_id (ms_account M))) validStart (ms_environment M) node = Inr bytes" "bytes \<noteq> []"
  shows "\<exists>r. actions (multisig_processTransaction M t tt sd) = [BackendRequest r] \<and>
    (\<forall>n. network_key (js_toUpperCase (ms_environment M)) = Some n \<longrightarrow>
       (\<exists>resp u. outcome (multisig_processTransaction M t tt sd) = Inr resp \<and> res_id resp = Some (be_uuid B) \<and>
          outcome (backend_getTransaction (over_http R B show_date
            (fst (handle_http R B db (request_origin r) (route_of r)))) (be_uuid B)) = Inr u \<and>
          toUint8Array (mst_transaction_message u) = bytes \<and> mst_hedera_account_id u = id_value (acc_id (ms_account M)) \<and>
          mst_key_list u = removeDuplicates (map (removeHexPrefix \<circ> pk_key) (mk_keys mk)) \<and>
          mst_status u = ''PENDING'' \<and> mst_signatures u = [] \<and> 1 \<le> mst_threshold u \<and>
          mst_threshold u \<le> length (mst_key_list u))) \<and>
    (network_key (js_toUpperCase (ms_environment M)) = None \<longrightarrow>
       (\<exists>e. outcome (multisig_processTransaction M t tt sd) = Inl (BackendError e)) \<and>
       fst (handle_http R B db (request_origin r) (route_of r)) = db)"
proof -
  let ?acc = "id_value (acc_id (ms_account M))" and ?ks = "map pk_key (mk_keys mk)"
  let ?keys = "removeDuplicates (map removeHexPrefix ?ks)"
  let ?body = "\<lparr>ab_transaction_message = fromUint8Array bytes, ab_description = getDescription D t, ab_hedera_account_id = ?acc,
    ab_key_list = ?ks, ab_threshold = mk_threshold mk, ab_network = ms_environment M, ab_start_date = date\<rparr>"
  let ?post = "backend_addTransaction (ms_http M) (fromUint8Array bytes) (getDescription D t) ?acc ?ks (mk_threshold mk)
    (ms_environment M) date"
  have run: "multisig_processTransaction M t tt sd =
      bindIO ?post (\<lambda>i. ret \<lparr>res_id = Some i, res_response = NoResponse, res_error = None\<rparr>)"
    using assms(11-13,18) by (simp add: multisig_processTransaction_def Let_def assms(9) assms(10) [symmetric])
  have message: "fromUint8Array bytes \<noteq> []" "toUint8Array (fromUint8Array bytes) = bytes"
    using assms(19) hex_roundtrip [of bytes] by auto
  have keys: "?ks \<noteq> []" "list_all hexRegex (map removeHexPrefix ?ks)"
    using assms(14,15) by (simp_all add: list_all_iff)
  have "set ?keys \<noteq> {}" using assms(14) by simp
  then have key_count: "1 \<le> length ?keys" by (metis One_nat_def Suc_leI length_greater_0_conv set_empty)
  note stored = post_and_read [OF assms(1-7) message(1) description_given assms(16) keys assms(17) refl refl refl,
      where th = "mk_threshold mk" and nw = "ms_environment M" and show_date = show_date, folded assms(8)]
  show ?thesis
  proof (intro exI [of _ "HttpPost ?body"] conjI allI impI)
    show "actions (multisig_processTransaction M t tt sd) = [BackendRequest (HttpPost ?body)]"
      by (simp add: run actions_bindIO_pure backend_add_actions)
  next
    fix n assume "network_key (js_toUpperCase (ms_environment M)) = Some n"
    with stored show "\<exists>resp u. outcome (multisig_processTransaction M t tt sd) = Inr resp \<and> res_id resp = Some (be_uuid B) \<and>
          outcome (backend_getTransaction (over_http R B show_date
            (fst (handle_http R B db (request_origin (HttpPost ?body)) (route_of (HttpPost ?body))))) (be_uuid B)) = Inr u \<and>
          toUint8Array (mst_transaction_message u) = bytes \<and> mst_hedera_account_id u = ?acc \<and>
          mst_key_list u = removeDuplicates (map (removeHexPrefix \<circ> pk_key) (mk_keys mk)) \<and>
          mst_status u = ''PENDING'' \<and> mst_signatures u = [] \<and> 1 \<le> mst_threshold u \<and>
          mst_threshold u \<le> length (mst_key_list u)"
      using message(2) key_count by (fastforce simp: run outcome_bindIO_Inr)
  next
    assume n: "network_key (js_toUpperCase (ms_environment M)) = None"
    show "\<exists>e. outcome (multisig_processTransaction M t tt sd) = Inl (BackendError e)"
      using stored n by (auto simp: run bindIO_def)
    show "fst (handle_http R B db (request_origin (HttpPost ?body)) (route_of (HttpPost ?body))) = db"
      using stored n by blast
  qed
qed

theorem multisig_reaches_store_witness:
  "\<exists>r. actions (multisig_processTransaction (multisig_sample (over_http store_repository sample_backend (\<lambda>_. []) [])) undefined undefined None) =
      [BackendRequest r] \<and>
     (\<exists>u. outcome (backend_getTransaction (over_http store_repository sample_backend (\<lambda>_. [])
        (fst (handle_http store_repository sample_backend [] (request_origin r) (route_of r)))) (be_uuid sample_backend)) = Inr u \<and>
        mst_key_list u = [''aa'', ''bb''] \<and> mst_status u = ''PENDING'' \<and> mst_signatures u = [])"
proof -
  let ?M = "multisig_sample (over_http store_repository sample_backend (\<lambda>_. []) [])"
  let ?mk = "\<lparr>mk_keys = [\<lparr>pk_key = ''aa'', pk_type = ''ED25519''\<rparr>, \<lparr>pk_key = ''bb'', pk_type = ''ED25519''\<rparr>], mk_threshold = 2\<rparr>"
  have "rp_findOne store_repository [] (be_uuid sample_backend) = None" by (simp add: store_find_def)
  moreover have "uuidRegex (be_uuid sample_backend)" "CHR ''*'' \<notin> set (be_ORIGIN sample_backend)"
      "CHR 0x0A \<notin> set (be_ORIGIN sample_backend)" "CHR 0x0D \<notin> set (be_ORIGIN sample_backend)"
      "''http://localhost:3000'' \<in> set (js_split (CHR '','') (be_ORIGIN sample_backend))"
      "hexRegex (removeHexPrefix ''aa'')" "hexRegex (removeHexPrefix ''bb'')" "hederaIdRegex ''0.0.7''"
      "network_key (js_toUpperCase ''testnet'') = Some TESTNET"
      "removeDuplicates [removeHexPrefix ''aa'', removeHexPrefix ''bb''] = [''aa'', ''bb'']"
    by code_simp+
  moreover have "dl_isDateString (be_dates sample_backend) ''2024''" by (simp add: sample_backend_def)
  moreover have fields: "ms_http ?M = over_http store_repository sample_backend (\<lambda>_. []) []"
      "ms_description ?M = getDescription \<lparr>ds_arguments = \<lambda>_. [], ds_accountId = \<lambda>_. Inr None\<rparr>"
      "ms_now ?M = ''2024''" "ms_timestamp ?M = (\<lambda>d. Inr d)" "ms_consensusNodes ?M = [(''node'', ''0.0.3'')]"
      "ms_freeze ?M = (\<lambda>_ _ _ _ _. Inr [10, 27])" "ms_environment ?M = ''testnet''"
      "id_value (acc_id (ms_account ?M)) = ''0.0.7''"
      "acc_multiKey (ms_account ?M) = Some ?mk"
    by (simp_all add: multisig_sample_def)
  ultimately show ?thesis
    using multisig_reaches_store [OF store.tx_repository_axioms, of "[]" sample_backend ?M "\<lambda>_. []"
        "\<lparr>ds_arguments = \<lambda>_. [], ds_accountId = \<lambda>_. Inr None\<rparr>" "''2024''" None "''2024''" "(''node'', ''0.0.3'')" "[]"
        ?mk undefined "[10, 27]" undefined]
    unfolding fields by simp blast
qed

end
