(* ===== verification/Rpc_Queries.thy ===== *)
theory Rpc_Queries
  imports Transactions Mirror_Node
begin

text \<open>
  \<open>RPCQueryAdapter\<close> (\<open>sdk/src/port/out/rpc\<close>): the read calls of the coin's contracts through ethers'
  JSON-RPC provider. The provider is the parameter \<open>evm_read\<close>: the address, the facet, the function
  and its arguments to the value that the call returns; a tuple or an array is a sequence. A value of
  another type than the one that the code reads is a \<open>TypeError\<close>.
\<close>

type_synonym evm_read = "string \<Rightarrow> string \<Rightarrow> string \<Rightarrow> cparam list \<Rightarrow> cparam result"

section \<open>Reading values\<close>

fun as_int :: "cparam \<Rightarrow> int result" where
  "as_int (CInt n) = Inr n"
| "as_int _ = Inl TypeError"

fun as_string :: "cparam \<Rightarrow> string result" where
  "as_string (CStr s) = Inr s"
| "as_string _ = Inl TypeError"

fun as_bool :: "cparam \<Rightarrow> bool result" where
  "as_bool (CBool b) = Inr b"
| "as_bool _ = Inl TypeError"

fun as_list :: "cparam \<Rightarrow> cparam list result" where
  "as_list (CSeq vs) = Inr vs"
| "as_list _ = Inl TypeError"

definition as_strings :: "cparam \<Rightarrow> string list result" where
  "as_strings v = bindR (as_list v) (mapR as_string)"

definition as_ints :: "cparam \<Rightarrow> int list result" where
  "as_ints v = bindR (as_list v) (mapR as_int)"

definition first_of :: "cparam \<Rightarrow> cparam result" where
  "first_of v = bindR (as_list v) (\<lambda>vs. case vs of [] \<Rightarrow> Inl TypeError | x # _ \<Rightarrow> Inr x)"

section \<open>The queries\<close>

definition rpc_balanceOf :: "evm_read \<Rightarrow> evm_address \<Rightarrow> evm_address \<Rightarrow> int result" where
  "rpc_balanceOf R address target =
     bindR (R (evm_value address) ''HederaTokenManagerFacet'' ''balanceOf'' [CStr (evm_value target)]) as_int"

text \<open>\<open>fromString\<close> is \<open>HContractId.fromString(id)\<close> of the SDK, followed by its \<open>toString\<close>.\<close>

definition rpc_getReserveAddress ::
  "evm_read \<Rightarrow> (string \<Rightarrow> contract_info result) \<Rightarrow> (string \<Rightarrow> string result) \<Rightarrow> evm_address \<Rightarrow> contract_id result" where
  "rpc_getReserveAddress R getContractInfo fromString address =
     bindR (bindR (R (evm_value address) ''ReserveFacet'' ''getReserveAddress'' []) as_string) (\<lambda>val.
       if val = ''0x0000000000000000000000000000000000000000'' then new_ContractId ''0.0.0''
       else bindR (getContractInfo val) (\<lambda>info. bindR (fromString (ci_id info)) new_ContractId))"

definition rpc_getReserveAmount :: "evm_read \<Rightarrow> evm_address \<Rightarrow> int result" where
  "rpc_getReserveAmount R address =
     bindR (R (evm_value address) ''ReserveFacet'' ''getReserveAmount'' []) (\<lambda>v. bindR (first_of v) as_int)"

definition rpc_getReserveLatestRoundData :: "evm_read \<Rightarrow> evm_address \<Rightarrow> int list result" where
  "rpc_getReserveLatestRoundData R address =
     bindR (R (evm_value address) ''HederaReserveFacet'' ''latestRoundData'' []) as_ints"

definition rpc_isLimited :: "evm_read \<Rightarrow> evm_address \<Rightarrow> evm_address \<Rightarrow> bool result" where
  "rpc_isLimited R address target =
     bindR (R (evm_value address) ''SupplierAdminFacet'' ''isUnlimitedSupplierAllowance''
              [CStr (evm_value target)]) as_bool"

definition rpc_isUnlimited :: "evm_read \<Rightarrow> evm_address \<Rightarrow> evm_address \<Rightarrow> bool result" where
  "rpc_isUnlimited R address target =
     bindR (R (evm_value address) ''SupplierAdminFacet'' ''isUnlimitedSupplierAllowance''
              [CStr (evm_value target)]) as_bool"

definition rpc_getRoles :: "evm_read \<Rightarrow> evm_address \<Rightarrow> evm_address \<Rightarrow> string list result" where
  "rpc_getRoles R address target =
     bindR (R (evm_value address) ''RolesFacet'' ''getRoles'' [CStr (evm_value target)]) as_strings"

definition rpc_getAccountsWithRole :: "evm_read \<Rightarrow> evm_address \<Rightarrow> string \<Rightarrow> string list result" where
  "rpc_getAccountsWithRole R address role =
     bindR (R (evm_value address) ''RolesFacet'' ''getAccountsWithRole'' [CStr role]) as_strings"

definition rpc_hasRole :: "evm_read \<Rightarrow> evm_address \<Rightarrow> evm_address \<Rightarrow> stable_coin_role \<Rightarrow> bool result" where
  "rpc_hasRole R address target role =
     bindR (R (evm_value address) ''RolesFacet'' ''hasRole'' [CStr (role_hash role), CStr (evm_value target)]) as_bool"

definition rpc_supplierAllowance :: "evm_read \<Rightarrow> evm_address \<Rightarrow> evm_address \<Rightarrow> int result" where
  "rpc_supplierAllowance R address target =
     bindR (R (evm_value address) ''SupplierAdminFacet'' ''getSupplierAllowance'' [CStr (evm_value target)]) as_int"

definition rpc_getReserveDecimals :: "evm_read \<Rightarrow> evm_address \<Rightarrow> nat result" where
  "rpc_getReserveDecimals R address =
     bindR (bindR (R (evm_value address) ''Reserve'' ''decimals'' []) as_int) (\<lambda>n. Inr (nat n))"

definition rpc_getMetadata :: "evm_read \<Rightarrow> evm_address \<Rightarrow> string result" where
  "rpc_getMetadata R address =
     bindR (R (evm_value address) ''HederaTokenManagerFacet'' ''getMetadata'' []) as_string"

definition rpc_getConfigInfo :: "evm_read \<Rightarrow> evm_address \<Rightarrow> (string \<times> string \<times> int) result" where
  "rpc_getConfigInfo R address =
     bindR (bindR (R (evm_value address) ''DiamondFacet'' ''getConfigInfo'' []) as_list) (\<lambda>vs.
       case vs of
         [CStr resolver, CStr configurationId, CInt version] \<Rightarrow> Inr (resolver, configurationId, version)
       | _ \<Rightarrow> Inl TypeError)"

text \<open>
  The amount of a hold becomes a decimal in the default format; the handler prints it and reads the
  notation in the coin's decimals. The raw amount, which that notation is, stands beside the details.
\<close>

definition rpc_getHoldFor ::
  "fixed_number_lib \<Rightarrow> evm_read \<Rightarrow> evm_address \<Rightarrow> evm_address \<Rightarrow> int \<Rightarrow> (hold_details \<times> int) result" where
  "rpc_getHoldFor L R address target holdId =
     bindR (bindR (R (evm_value address) ''HoldManagementFacet'' ''getHoldFor''
                     [CSeq [CStr (evm_value target), CInt holdId]]) as_list) (\<lambda>hold.
       case hold of
         CInt amount # CInt expiration # CStr escrow # CStr destination # CStr data # _ \<Rightarrow>
           bindR (new_of_string L (int_str amount) None) (\<lambda>amountBd.
             Inr (\<lparr>hd_expirationTimeStamp = expiration, hd_amount = amountBd, hd_escrowAddress = escrow,
                   hd_tokenHolderAddress = evm_value target, hd_destinationAddress = destination,
                   hd_data = data\<rparr>, amount))
       | _ \<Rightarrow> Inl TypeError)"

definition rpc_getHoldsIdFor :: "evm_read \<Rightarrow> evm_address \<Rightarrow> evm_address \<Rightarrow> int \<Rightarrow> int \<Rightarrow> int list result" where
  "rpc_getHoldsIdFor R address target start stop =
     bindR (R (evm_value address) ''HoldManagementFacet'' ''getHoldsIdFor''
              [CStr (evm_value target), CInt start, CInt stop]) as_ints"

definition rpc_getHeldAmountFor :: "fixed_number_lib \<Rightarrow> evm_read \<Rightarrow> evm_address \<Rightarrow> evm_address \<Rightarrow> int result" where
  "rpc_getHeldAmountFor L R address target =
     bindR (bindR (R (evm_value address) ''HoldManagementFacet'' ''getHeldAmountFor'' [CStr (evm_value target)]) as_int)
       (\<lambda>amount. bindR (new_of_string L (int_str amount) None) (\<lambda>_. Inr amount))"

definition rpc_getHoldCountFor :: "evm_read \<Rightarrow> evm_address \<Rightarrow> evm_address \<Rightarrow> int result" where
  "rpc_getHoldCountFor R address target =
     bindR (R (evm_value address) ''HoldManagementFacet'' ''getHoldCountFor'' [CStr (evm_value target)]) as_int"

definition rpc_getBurnableAmount :: "evm_read \<Rightarrow> evm_address \<Rightarrow> int result" where
  "rpc_getBurnableAmount R address =
     bindR (R (evm_value address) ''BurnableFacet'' ''getBurnableAmount'' []) as_int"

section \<open>The environment of the commands\<close>

definition rpc_env :: "evm_read \<Rightarrow> (string \<Rightarrow> string result) \<Rightarrow> env \<Rightarrow> env" where
  "rpc_env R fromString E =
     E \<lparr>q_balanceOf := rpc_balanceOf R,
        q_getReserveAddress := rpc_getReserveAddress R (mn_getContractInfo E) fromString,
        q_getReserveAmount := rpc_getReserveAmount R,
        q_getReserveDecimals := rpc_getReserveDecimals R,
        q_getReserveLatestRoundData := rpc_getReserveLatestRoundData R,
        q_getBurnableAmount := rpc_getBurnableAmount R,
        q_getMetadata := rpc_getMetadata R,
        q_isUnlimited := rpc_isUnlimited R,
        q_supplierAllowance := rpc_supplierAllowance R,
        q_hasRole := rpc_hasRole R,
        q_getRoles := rpc_getRoles R,
        q_getAccountsWithRole := (\<lambda>p r. bindR (rpc_getAccountsWithRole R p r) (\<lambda>as. Inr (Some as))),
        q_getHoldFor := rpc_getHoldFor (env_lib E) R,
        q_getHoldsIdFor := rpc_getHoldsIdFor R,
        q_getHoldCountFor := rpc_getHoldCountFor R,
        q_getHeldAmountFor := rpc_getHeldAmountFor (env_lib E) R,
        q_getConfigInfo := rpc_getConfigInfo R\<rparr>"

text \<open>Mirror node and contracts together: the network as both adapters see it.\<close>

definition network_env :: "mirror \<Rightarrow> nat \<Rightarrow> evm_read \<Rightarrow> (string \<Rightarrow> string result) \<Rightarrow> env \<Rightarrow> env" where
  "network_env M fuel R fromString E = rpc_env R fromString (mirror_env M fuel E)"

section \<open>Lemmas\<close>

text \<open>What an amount that was read becomes when the handler prints it.\<close>

lemma print_frac_of_zero:
  assumes "0 < d"
  shows "print_frac 0 d = ''0''"
proof -
  have "nat_str 0 = [CHR ''0'']" by (simp add: nat_str.simps) code_simp
  then have "frac_digits 0 d = replicate d (CHR ''0'')"
    using assms by (cases d) (simp_all add: frac_digits_def js_padStart_def replicate_append_same)
  moreover have "trim_zeros (replicate d (CHR ''0'')) = []" by (simp add: trim_zeros_def)
  ultimately show ?thesis by (simp add: print_frac_def)
qed

context fixed_number_api
begin

lemma printed_amount:
  assumes "0 \<le> v" "v * 10 ^ 18 < 2 ^ 127"
  shows "\<exists>b. new_of_string L (int_str v) None = Inr b \<and> bd_toString L b = int_str v"
proof -
  let ?n = "nat v" and ?x = "\<lparr>fn_value = v * 10 ^ 18, fn_decimals = 18\<rparr>"
  have s: "int_str v = nat_str ?n" using assms(1) by (simp add: int_str_def)
  have "parse_fixed (nat_str ?n) 18 = Some ?x"
    using parse_fixed_digits [OF nat_str_digits nat_str_nonempty, of 18 ?n] assms by (simp add: in_range128_def)
  then have new: "new_of_string L (int_str v) None = Inr \<lparr>bd_fn = ?x\<rparr>" by (simp add: new_of_string_Inr s)
  have "nat (v * 10 ^ 18) = ?n * 10 ^ 18" using assms(1) by (simp add: nat_mult_distrib)
  moreover have "print_frac (?n * 10 ^ 18) 18 = print_frac 0 18" by (simp add: print_frac_def frac_digits_def)
  moreover have "print_frac 0 18 = ''0''" by (rule print_frac_of_zero) simp
  ultimately have "print_fixed ?x = nat_str ?n @ ''.0''"
    using assms(1) by (simp add: print_fixed_def Let_def abs_mult)
  then have "bd_toString L \<lparr>bd_fn = ?x\<rparr> = nat_str ?n"
    by (simp add: bd_toString_def toString endsWith_append substring_prefix)
  with new s show ?thesis by auto
qed

end

end
