(* ===== verification/Rpc_Adapter.thy ===== *)
theory Rpc_Adapter
  imports Adapters Rpc_Queries
begin

text \<open>
  \<open>RPCTransactionAdapter\<close> (\<open>sdk/src/port/out/rpc\<close>) and \<open>RPCTransactionResponseAdapter\<close>
  (\<open>sdk/src/port/out/response\<close>): the operations through a wallet (MetaMask), which sends contract calls by
  JSON-RPC. The wallet and the provider are the record \<open>rpc_network\<close>; what ethers throws is a
  \<open>ProviderError\<close> with the properties that the code looks for. The adapter has no executor: it
  implements the interface \<open>tx_adapter\<close> of the handlers by itself and keeps the contract
  \<open>submitting_adapter\<close> in its weak form, because a forbidden operation returns without sending.
\<close>

section \<open>Wallet and provider\<close>

record evm_log =
  lg_address :: string
  lg_topics :: "string list"
  lg_data :: string

record evm_receipt =
  rc_hash :: string
  rc_status :: "int option"
  rc_logs :: "evm_log list option"

text \<open>
  \<open>rn_send\<close> sends a contract call and gives the hash of the transaction; \<open>rn_wait\<close> is the \<open>wait()\<close> of the
  response, \<open>None\<close> the receipt \<open>null\<close>; \<open>rn_eventTopic\<close> is \<open>interface.getEvent(name)?.topicHash\<close> and
  \<open>rn_decodeLog\<close> is \<open>interface.decodeEventLog\<close>, of a facet.
\<close>

record rpc_network =
  rn_account :: account
  rn_send :: "contract_call \<Rightarrow> string result"
  rn_wait :: "string \<Rightarrow> evm_receipt option result"
  rn_read :: evm_read
  rn_eventTopic :: "string \<Rightarrow> string \<Rightarrow> string option"
  rn_decodeLog :: "string \<Rightarrow> string \<Rightarrow> evm_log \<Rightarrow> cparam result"

text \<open>A property of an error by its path, \<open>None\<close> when it is missing.\<close>

fun error_path :: "js_error \<Rightarrow> string \<Rightarrow> string option" where
  "error_path (ProviderError props) p = map_of props p"
| "error_path (TransactionResponseError msg transactionId) p =
     (if p = ''error'' then Some [] else if p = ''error.transactionId'' then transactionId else None)"
| "error_path _ p = None"

section \<open>Responses\<close>

text \<open>An event that the response is read from: facet, name and address of the contract.\<close>

type_synonym event_data = "string \<times> string \<times> string"

definition decodeEvent :: "rpc_network \<Rightarrow> event_data \<Rightarrow> evm_log list \<Rightarrow> cparam result" where
  "decodeEvent N ev logs =
     (case ev of (facet, eventName, contractAddress) \<Rightarrow>
        (case rn_eventTopic N facet eventName of
           None \<Rightarrow> Inl (JsError (''Event '' @ eventName @ '' does not exist in the contract''))
         | Some topic \<Rightarrow>
             (case find (\<lambda>l. js_toLowerCase (lg_address l) = js_toLowerCase contractAddress \<and>
                        (case lg_topics l of [] \<Rightarrow> False | t # _ \<Rightarrow> t = topic)) logs of
                None \<Rightarrow> Inl (JsError (''Event log for '' @ eventName @ '' not found in transaction receipt''))
              | Some eventLog \<Rightarrow> rn_decodeLog N facet eventName eventLog)))"

definition rpc_confirmed ::
  "rpc_network \<Rightarrow> string \<Rightarrow> event_data option \<Rightarrow> transaction_response result" where
  "rpc_confirmed N hash event =
     bindR (rn_wait N hash) (\<lambda>receipt.
       case receipt of
         None \<Rightarrow> Inl (TransactionResponseError
           ''The transaction could not be confirmed or was rejected by the network..'' (Some hash))
       | Some r \<Rightarrow>
           bindR (case (rc_logs r, event) of
                    (Some logs, Some ev) \<Rightarrow> bindR (decodeEvent N ev logs) (\<lambda>v. Inr (ContractResponse v))
                  | _ \<Rightarrow> Inr (case rc_status r of None \<Rightarrow> NoResponse | Some s \<Rightarrow> ContractResponse (CInt s)))
             (\<lambda>txResponse. Inr \<lparr>res_id = Some (rc_hash r), res_response = txResponse, res_error = None\<rparr>))"

text \<open>
  \<open>manageResponse\<close>: whatever throws, the error of the missing receipt included, becomes an error with
  the hash that the caught error has under \<open>transactionHash\<close>.
\<close>

definition rpc_manageResponse ::
  "rpc_network \<Rightarrow> string \<Rightarrow> event_data option \<Rightarrow> transaction_response result" where
  "rpc_manageResponse N hash event =
     (case rpc_confirmed N hash event of
        Inl e \<Rightarrow> Inl (TransactionResponseError [] (error_path e ''transactionHash''))
      | Inr r \<Rightarrow> Inr r)"

section \<open>Sending\<close>

definition rpc_call :: "string \<Rightarrow> string \<Rightarrow> string \<Rightarrow> cparam list \<Rightarrow> int \<Rightarrow> contract_call" where
  "rpc_call address facet function params gasLimit =
     \<lparr>cc_contractId = address, cc_facet = facet, cc_function = function, cc_params = params,
      cc_gas = gasLimit, cc_payableAmount = None\<rparr>"

definition rpc_send :: "rpc_network \<Rightarrow> contract_call \<Rightarrow> (adapter_event, string) io" where
  "rpc_send N call = act (SendContractCall call) (rn_send N call)"

definition rpc_proxy :: "stable_coin_capabilities \<Rightarrow> js_error \<Rightarrow> string result" where
  "rpc_proxy coin e =
     (case sc_evmProxyAddress (caps_coin coin) of
        None \<Rightarrow> Inl e
      | Some a \<Rightarrow> if evm_value a = [] then Inl e else Inr (evm_value a))"

definition no_proxy :: "stable_coin_capabilities \<Rightarrow> string" where
  "no_proxy coin = ''StableCoin '' @ sc_name (caps_coin coin) @ '' does not have a proxy address''"

text \<open>
  The methods that call a contract without asking the \<open>CapabilityDecider\<close>. The error of everything up to
  the sending becomes a \<open>TransactionResponseError\<close>; the promise of \<open>manageResponse\<close> is returned without
  being awaited, so that its errors are not caught.
\<close>

definition direct_error :: "string \<Rightarrow> js_error \<Rightarrow> js_error" where
  "direct_error operation e =
     TransactionResponseError (''Unexpected error in RPCTransactionAdapter '' @ operation @ '' operation'')
       (error_path e ''error.transactionId'')"

definition rpc_direct ::
  "rpc_network \<Rightarrow> string \<Rightarrow> contract_call result \<Rightarrow> (adapter_event, transaction_response) io" where
  "rpc_direct N operation call =
     bindIO (rethrow (withR call (rpc_send N)) (direct_error operation)) (\<lambda>hash.
       ([], rpc_manageResponse N hash None))"

definition rpc_on_proxy ::
  "rpc_network \<Rightarrow> string \<Rightarrow> stable_coin_capabilities \<Rightarrow> string \<Rightarrow> string \<Rightarrow> cparam list result \<Rightarrow> int \<Rightarrow>
     (adapter_event, transaction_response) io" where
  "rpc_on_proxy N operation coin facet function params gasLimit =
     rpc_direct N operation
      (bindR (rpc_proxy coin (TransactionResponseError (no_proxy coin) None)) (\<lambda>address.
       bindR params (\<lambda>ps. Inr (rpc_call address facet function ps gasLimit))))"

text \<open>The methods that read: nothing is sent, and the response has no identifier.\<close>

definition rpc_reading ::
  "string \<Rightarrow> response_data result \<Rightarrow> (adapter_event, transaction_response) io" where
  "rpc_reading operation r =
     rethrow (withR r (\<lambda>v. ret \<lparr>res_id = None, res_response = v, res_error = None\<rparr>)) (direct_error operation)"

definition rpc_read_proxy ::
  "rpc_network \<Rightarrow> string \<Rightarrow> stable_coin_capabilities \<Rightarrow> string \<Rightarrow> string \<Rightarrow> cparam list result \<Rightarrow>
     (cparam \<Rightarrow> response_data result) \<Rightarrow> (adapter_event, transaction_response) io" where
  "rpc_read_proxy N operation coin facet function params f =
     rpc_reading operation
      (bindR (rpc_proxy coin (TransactionResponseError (no_proxy coin) None)) (\<lambda>address.
       bindR params (\<lambda>ps. bindR (rn_read N address facet function ps) f)))"

section \<open>performOperation\<close>

text \<open>
  The class \<open>Params\<close>: what an operation hands to \<open>performOperation\<close>. Its field \<open>role\<close> has no use.
  A fee whose collector has no EVM address is \<open>None\<close>: ethers rejects it when it encodes the call.
\<close>

record rpc_params =
  pa_targetId :: "string option"
  pa_sourceId :: "string option"
  pa_amount :: "big_decimal option"
  pa_name :: "string option"
  pa_symbol :: "string option"
  pa_autoRenewPeriod :: "int option"
  pa_expirationTime :: "int option"
  pa_kycKey :: "public_key option"
  pa_freezeKey :: "public_key option"
  pa_feeScheduleKey :: "public_key option"
  pa_pauseKey :: "public_key option"
  pa_wipeKey :: "public_key option"
  pa_supplyKey :: "public_key option"
  pa_metadata :: "string option"
  pa_fixedFees :: "sc_fee option list option"
  pa_fractionalFees :: "sc_fee option list option"
  pa_configId :: "string option"
  pa_configVersion :: "int option"
  pa_resolver :: "string option"
  pa_hold :: "hold option"
  pa_holdIdentifier :: "hold_identifier option"

definition no_params :: rpc_params where
  "no_params =
     \<lparr>pa_targetId = None, pa_sourceId = None, pa_amount = None, pa_name = None, pa_symbol = None,
      pa_autoRenewPeriod = None, pa_expirationTime = None, pa_kycKey = None, pa_freezeKey = None,
      pa_feeScheduleKey = None, pa_pauseKey = None, pa_wipeKey = None, pa_supplyKey = None, pa_metadata = None,
      pa_fixedFees = None, pa_fractionalFees = None, pa_configId = None, pa_configVersion = None,
      pa_resolver = None, pa_hold = None, pa_holdIdentifier = None\<rparr>"

text \<open>
  A contract call without its address: facet, function, arguments and gas. An argument that is missing is
  rejected by ethers; a method or a property of one is a \<open>TypeError\<close>.
\<close>

type_synonym facet_call = "string \<times> string \<times> cparam list result \<times> int"

definition argument :: "('a \<Rightarrow> cparam) \<Rightarrow> 'a option \<Rightarrow> cparam result" where
  "argument f x = (case x of None \<Rightarrow> Inl (ProviderError []) | Some v \<Rightarrow> Inr (f v))"

definition raw_amount :: "big_decimal option \<Rightarrow> cparam result" where
  "raw_amount amount = bindR (of_option TypeError amount) (\<lambda>a. Inr (CInt (toBigInt a)))"

definition token_call :: "env \<Rightarrow> operation \<Rightarrow> rpc_params \<Rightarrow> facet_call option" where
  "token_call E x P =
     (let target = argument CStr (pa_targetId P); amount = raw_amount (pa_amount P);
          one = (\<lambda>a. bindR a (\<lambda>v. Inr [v]))
      in case x of
           CASH_IN \<Rightarrow> Some (''CashInFacet'', ''mint'',
             bindR (HederaId_from (pa_targetId P)) (\<lambda>t. bindR (resolve_id E t) (\<lambda>targetEvm.
             bindR amount (\<lambda>a. Inr [CStr targetEvm, a]))), CASHIN_GAS)
         | BURN \<Rightarrow> Some (''BurnableFacet'', ''burn'', one amount, BURN_GAS)
         | WIPE \<Rightarrow> Some (''WipeableFacet'', ''wipe'',
             bindR amount (\<lambda>a. bindR target (\<lambda>t. Inr [t, a])), WIPE_GAS)
         | RESCUE \<Rightarrow> Some (''RescuableFacet'', ''rescue'', one amount, RESCUE_GAS)
         | RESCUE_HBAR \<Rightarrow> Some (''RescuableFacet'', ''rescueHBAR'', one amount, RESCUE_HBAR_GAS)
         | FREEZE \<Rightarrow> Some (''FreezableFacet'', ''freeze'', one target, FREEZE_GAS)
         | UNFREEZE \<Rightarrow> Some (''FreezableFacet'', ''unfreeze'', one target, UNFREEZE_GAS)
         | GRANT_KYC \<Rightarrow> Some (''KYCFacet'', ''grantKyc'', one target, GRANT_KYC_GAS)
         | REVOKE_KYC \<Rightarrow> Some (''KYCFacet'', ''revokeKyc'', one target, REVOKE_KYC_GAS)
         | PAUSE \<Rightarrow> Some (''PausableFacet'', ''pause'', Inr [], PAUSE_GAS)
         | UNPAUSE \<Rightarrow> Some (''PausableFacet'', ''unpause'', Inr [], UNPAUSE_GAS)
         | DELETE \<Rightarrow> Some (''DeletableFacet'', ''deleteToken'', Inr [], DELETE_GAS)
         | _ \<Rightarrow> None)"

definition fees_argument :: "sc_fee option list option \<Rightarrow> cparam result" where
  "fees_argument fees =
     (case fees of
        None \<Rightarrow> Inl (ProviderError [])
      | Some fs \<Rightarrow> if None \<in> set fs then Inl (ProviderError []) else Inr (CSeq (map (sc_fee_param \<circ> the) fs)))"

definition text_or :: "string option \<Rightarrow> cparam" where
  "text_or s = CStr (case s of None \<Rightarrow> [] | Some t \<Rightarrow> t)"

definition management_call :: "env \<Rightarrow> operation \<Rightarrow> rpc_params \<Rightarrow> facet_call option" where
  "management_call E x P =
     (case x of
        UPDATE \<Rightarrow> Some (''HederaTokenManagerFacet'', ''updateToken'',
          bindR (buildKeysForSmartContract E (map (map_option KeyPublic)
                   [None, pa_kycKey P, pa_freezeKey P, pa_wipeKey P, pa_supplyKey P, pa_feeScheduleKey P,
                    pa_pauseKey P])) (\<lambda>keys.
            Inr [CSeq
              [text_or (pa_name P), text_or (pa_symbol P), CSeq keys,
               CInt (case pa_expirationTime P of
                       None \<Rightarrow> - 1 | Some t \<Rightarrow> if t = 0 then - 1 else t div 1000000000),
               CInt (case pa_autoRenewPeriod P of None \<Rightarrow> - 1 | Some p \<Rightarrow> if p = 0 then - 1 else p),
               text_or (pa_metadata P)]]), UPDATE_TOKEN_GAS)
      | CREATE_CUSTOM_FEE \<Rightarrow> Some (''CustomFeesFacet'', ''updateTokenCustomFees'',
          bindR (fees_argument (pa_fixedFees P)) (\<lambda>fixed.
          bindR (fees_argument (pa_fractionalFees P)) (\<lambda>fractional. Inr [fixed, fractional])),
          UPDATE_CUSTOM_FEES_GAS)
      | UPDATE_CONFIG_VERSION \<Rightarrow> Some (''DiamondFacet'', ''updateConfigVersion'',
          bindR (argument CInt (pa_configVersion P)) (\<lambda>v. Inr [v]), UPDATE_CONFIG_VERSION_GAS)
      | UPDATE_CONFIG \<Rightarrow> Some (''DiamondFacet'', ''updateConfig'',
          bindR (argument CStr (pa_configId P)) (\<lambda>i.
          bindR (argument CInt (pa_configVersion P)) (\<lambda>v. Inr [i, v])), UPDATE_CONFIG_GAS)
      | UPDATE_RESOLVER \<Rightarrow> Some (''DiamondFacet'', ''updateResolver'',
          bindR (argument CStr (pa_resolver P)) (\<lambda>r.
          bindR (argument CStr (pa_configId P)) (\<lambda>i.
          bindR (argument CInt (pa_configVersion P)) (\<lambda>v. Inr [r, i, v]))), UPDATE_RESOLVER_GAS)
      | _ \<Rightarrow> None)"

text \<open>\<open>formattedHold\<close>: the hold with the addresses of its escrow and of its target.\<close>

definition formatted_hold :: "env \<Rightarrow> hold option \<Rightarrow> cparam result" where
  "formatted_hold E h =
     bindR (of_option TypeError h) (\<lambda>hold.
     bindR (resolve_id E (hold_escrow hold)) (\<lambda>evmEscrow.
     bindR (resolve_id E (hold_to hold)) (\<lambda>evmTo.
       Inr (CSeq [CInt (hold_amount hold), CInt (hold_expiration hold), CStr evmEscrow, CStr evmTo,
                  CStr (hold_data hold)]))))"

definition hold_call :: "env \<Rightarrow> operation \<Rightarrow> rpc_params \<Rightarrow> facet_call option" where
  "hold_call E x P =
     (let identifier = argument (\<lambda>i. CSeq [CStr (hi_tokenHolder i), CInt (hi_holdId i)]) (pa_holdIdentifier P);
          amount = raw_amount (pa_amount P)
      in case x of
           CREATE_HOLD \<Rightarrow> Some (''HoldManagementFacet'', ''createHold'',
             bindR (formatted_hold E (pa_hold P)) (\<lambda>h. Inr [h]), CREATE_HOLD_GAS)
         | CONTROLLER_CREATE_HOLD \<Rightarrow> Some (''HoldManagementFacet'', ''createHoldByController'',
             bindR (formatted_hold E (pa_hold P)) (\<lambda>h.
             bindR (argument CStr (pa_sourceId P)) (\<lambda>s. Inr [s, h, CStr ''0x''])), CONTROLLER_CREATE_HOLD_GAS)
         | EXECUTE_HOLD \<Rightarrow> Some (''HoldManagementFacet'', ''executeHold'',
             bindR amount (\<lambda>a. bindR identifier (\<lambda>i.
             bindR (argument CStr (pa_targetId P)) (\<lambda>t. Inr [i, t, a]))), EXECUTE_HOLD_GAS)
         | RELEASE_HOLD \<Rightarrow> Some (''HoldManagementFacet'', ''releaseHold'',
             bindR amount (\<lambda>a. bindR identifier (\<lambda>i. Inr [i, a])), RELEASE_HOLD_GAS)
         | RECLAIM_HOLD \<Rightarrow> Some (''HoldManagementFacet'', ''reclaimHold'',
             bindR identifier (\<lambda>i. Inr [i]), RECLAIM_HOLD_GAS)
         | _ \<Rightarrow> None)"

text \<open>The cases of \<open>performSmartContractOperation\<close>.\<close>

definition facet_call_of :: "env \<Rightarrow> operation \<Rightarrow> rpc_params \<Rightarrow> facet_call option" where
  "facet_call_of E x P =
     (case token_call E x P of
        Some c \<Rightarrow> Some c
      | None \<Rightarrow> (case management_call E x P of Some c \<Rightarrow> Some c | None \<Rightarrow> hold_call E x P))"

definition performSmartContractOperation ::
  "rpc_network \<Rightarrow> env \<Rightarrow> string \<Rightarrow> operation \<Rightarrow> rpc_params \<Rightarrow> (adapter_event, transaction_response) io" where
  "performSmartContractOperation N E evmProxy x P =
     (case facet_call_of E x P of
        None \<Rightarrow> throw (JsError ''Operation not implemented through Smart Contracts'')
      | Some (facet, function, params, gasLimit) \<Rightarrow>
          withR params (\<lambda>ps.
          bindIO (rpc_send N (rpc_call evmProxy facet function ps gasLimit)) (\<lambda>hash.
            ([], rpc_manageResponse N hash None))))"

text \<open>
  Only an operation that goes through the contract is sent; every other decision gives a response with
  the error \<open>CapabilityError\<close>. The handler of the errors reads \<open>error.transactionHash\<close> of the caught
  error's property \<open>error\<close>, which is a \<open>TypeError\<close> when there is no such property.
\<close>

definition operation_error :: "operation \<Rightarrow> js_error \<Rightarrow> js_error" where
  "operation_error x e =
     (if error_path e ''error'' = None then TypeError
      else TransactionResponseError
        (''Unexpected error in RPCTransactionAdapter '' @ operation_value x @ '' operation'')
        (error_path e ''error.transactionHash''))"

definition performOperation ::
  "rpc_network \<Rightarrow> env \<Rightarrow> stable_coin_capabilities \<Rightarrow> operation \<Rightarrow> rpc_params \<Rightarrow>
     (adapter_event, transaction_response) io" where
  "performOperation N E coin x P =
     (case getAccessDecision coin x of
        D_CONTRACT \<Rightarrow>
          rethrow
           (withR (rpc_proxy coin (JsError (no_proxy coin))) (\<lambda>evmProxy.
            performSmartContractOperation N E evmProxy x P))
           (operation_error x)
      | _ \<Rightarrow>
          ret \<lparr>res_id = None, res_response = NoResponse,
               res_error = Some (CapabilityError (id_value (acc_id (rn_account N))) (operation_value x)
                 (case sc_tokenId (caps_coin coin) of None \<Rightarrow> [] | Some t \<Rightarrow> id_value t))\<rparr>)"

section \<open>The operations that it performs\<close>

definition rpc_cashin ::
  "rpc_network \<Rightarrow> env \<Rightarrow> stable_coin_capabilities \<Rightarrow> hedera_id \<Rightarrow> big_decimal \<Rightarrow>
     (adapter_event, transaction_response) io" where
  "rpc_cashin N E coin targetId amount =
     performOperation N E coin CASH_IN
       (no_params \<lparr>pa_targetId := Some (id_value targetId), pa_amount := Some amount\<rparr>)"

definition rpc_burn ::
  "rpc_network \<Rightarrow> env \<Rightarrow> stable_coin_capabilities \<Rightarrow> big_decimal \<Rightarrow> (adapter_event, transaction_response) io" where
  "rpc_burn N E coin amount = performOperation N E coin BURN (no_params \<lparr>pa_amount := Some amount\<rparr>)"

text \<open>The target is resolved before the operation is performed: a failure there is not wrapped.\<close>

definition rpc_wipe ::
  "rpc_network \<Rightarrow> env \<Rightarrow> stable_coin_capabilities \<Rightarrow> hedera_id \<Rightarrow> big_decimal \<Rightarrow>
     (adapter_event, transaction_response) io" where
  "rpc_wipe N E coin targetId amount =
     withR (resolve_id E targetId) (\<lambda>target.
       performOperation N E coin WIPE (no_params \<lparr>pa_targetId := Some target, pa_amount := Some amount\<rparr>))"

definition rpc_rescue ::
  "rpc_network \<Rightarrow> env \<Rightarrow> stable_coin_capabilities \<Rightarrow> big_decimal \<Rightarrow> (adapter_event, transaction_response) io" where
  "rpc_rescue N E coin amount = performOperation N E coin RESCUE (no_params \<lparr>pa_amount := Some amount\<rparr>)"

definition rpc_rescueHBAR ::
  "rpc_network \<Rightarrow> env \<Rightarrow> stable_coin_capabilities \<Rightarrow> big_decimal \<Rightarrow> (adapter_event, transaction_response) io" where
  "rpc_rescueHBAR N E coin amount =
     performOperation N E coin RESCUE_HBAR (no_params \<lparr>pa_amount := Some amount\<rparr>)"

definition rpc_freeze ::
  "rpc_network \<Rightarrow> env \<Rightarrow> stable_coin_capabilities \<Rightarrow> hedera_id \<Rightarrow> (adapter_event, transaction_response) io" where
  "rpc_freeze N E coin targetId =
     withR (resolve_id E targetId) (\<lambda>target.
       performOperation N E coin FREEZE (no_params \<lparr>pa_targetId := Some target\<rparr>))"

definition rpc_unfreeze ::
  "rpc_network \<Rightarrow> env \<Rightarrow> stable_coin_capabilities \<Rightarrow> hedera_id \<Rightarrow> (adapter_event, transaction_response) io" where
  "rpc_unfreeze N E coin targetId =
     withR (resolve_id E targetId) (\<lambda>target.
       performOperation N E coin UNFREEZE (no_params \<lparr>pa_targetId := Some target\<rparr>))"

definition rpc_grantKyc ::
  "rpc_network \<Rightarrow> env \<Rightarrow> stable_coin_capabilities \<Rightarrow> hedera_id \<Rightarrow> (adapter_event, transaction_response) io" where
  "rpc_grantKyc N E coin targetId =
     withR (resolve_id E targetId) (\<lambda>target.
       performOperation N E coin GRANT_KYC (no_params \<lparr>pa_targetId := Some target\<rparr>))"

definition rpc_revokeKyc ::
  "rpc_network \<Rightarrow> env \<Rightarrow> stable_coin_capabilities \<Rightarrow> hedera_id \<Rightarrow> (adapter_event, transaction_response) io" where
  "rpc_revokeKyc N E coin targetId =
     withR (resolve_id E targetId) (\<lambda>target.
       performOperation N E coin REVOKE_KYC (no_params \<lparr>pa_targetId := Some target\<rparr>))"

definition rpc_pause ::
  "rpc_network \<Rightarrow> env \<Rightarrow> stable_coin_capabilities \<Rightarrow> (adapter_event, transaction_response) io" where
  "rpc_pause N E coin = performOperation N E coin PAUSE no_params"

definition rpc_unpause ::
  "rpc_network \<Rightarrow> env \<Rightarrow> stable_coin_capabilities \<Rightarrow> (adapter_event, transaction_response) io" where
  "rpc_unpause N E coin = performOperation N E coin UNPAUSE no_params"

definition rpc_delete ::
  "rpc_network \<Rightarrow> env \<Rightarrow> stable_coin_capabilities \<Rightarrow> (adapter_event, transaction_response) io" where
  "rpc_delete N E coin = performOperation N E coin DELETE no_params"

section \<open>Update, fees and configuration\<close>

definition rpc_update ::
  "rpc_network \<Rightarrow> env \<Rightarrow> stable_coin_capabilities \<Rightarrow> string option \<Rightarrow> string option \<Rightarrow> int option \<Rightarrow>
     int option \<Rightarrow> public_key option \<Rightarrow> public_key option \<Rightarrow> public_key option \<Rightarrow> public_key option \<Rightarrow>
     public_key option \<Rightarrow> string option \<Rightarrow> (adapter_event, transaction_response) io" where
  "rpc_update N E coin name symbol autoRenewPeriod expirationTime kycKey freezeKey feeScheduleKey pauseKey
       wipeKey metadata =
     performOperation N E coin UPDATE
       (no_params \<lparr>pa_name := name, pa_symbol := symbol, pa_autoRenewPeriod := autoRenewPeriod,
                   pa_expirationTime := expirationTime, pa_kycKey := kycKey, pa_freezeKey := freezeKey,
                   pa_feeScheduleKey := feeScheduleKey, pa_pauseKey := pauseKey, pa_wipeKey := wipeKey,
                   pa_metadata := metadata\<rparr>)"

text \<open>Whether the fee is a fixed one, and the fee in the contract's form.\<close>

definition rpc_sc_fee ::
  "env \<Rightarrow> stable_coin_capabilities \<Rightarrow> h_custom_fee \<Rightarrow> (bool \<times> sc_fee option) result" where
  "rpc_sc_fee E coin customFee =
     bindR (mn_getAccountInfo E (h_collector customFee)) (\<lambda>info.
     bindR (of_option TypeError (sc_tokenId (caps_coin coin))) (\<lambda>tokenId.
     let fee = fromHCustomFeeToSCFee (sdk_toSolidityAddress E) customFee (id_value tokenId)
     in Inr (is_fixed_fee (fee []), map_option fee (ai_evmAddress info))))"

definition rpc_updateCustomFees ::
  "rpc_network \<Rightarrow> env \<Rightarrow> stable_coin_capabilities \<Rightarrow> h_custom_fee list \<Rightarrow>
     (adapter_event, transaction_response) io" where
  "rpc_updateCustomFees N E coin customFees =
     withR (mapR (rpc_sc_fee E coin) customFees) (\<lambda>fees.
       performOperation N E coin CREATE_CUSTOM_FEE
         (no_params \<lparr>pa_fixedFees := Some (map snd (filter fst fees)),
                     pa_fractionalFees := Some (map snd (filter (\<lambda>f. \<not> fst f) fees))\<rparr>))"

definition rpc_updateConfigVersion ::
  "rpc_network \<Rightarrow> env \<Rightarrow> stable_coin_capabilities \<Rightarrow> int \<Rightarrow> (adapter_event, transaction_response) io" where
  "rpc_updateConfigVersion N E coin configVersion =
     performOperation N E coin UPDATE_CONFIG_VERSION (no_params \<lparr>pa_configVersion := Some configVersion\<rparr>)"

definition rpc_updateConfig ::
  "rpc_network \<Rightarrow> env \<Rightarrow> stable_coin_capabilities \<Rightarrow> string \<Rightarrow> int \<Rightarrow>
     (adapter_event, transaction_response) io" where
  "rpc_updateConfig N E coin configId configVersion =
     performOperation N E coin UPDATE_CONFIG
       (no_params \<lparr>pa_configId := Some configId, pa_configVersion := Some configVersion\<rparr>)"

definition rpc_updateResolver ::
  "rpc_network \<Rightarrow> env \<Rightarrow> stable_coin_capabilities \<Rightarrow> contract_id \<Rightarrow> int \<Rightarrow> string \<Rightarrow>
     (adapter_event, transaction_response) io" where
  "rpc_updateResolver N E coin resolver configVersion configId =
     withR (resolve_contract E resolver) (\<lambda>resolverEvm.
       performOperation N E coin UPDATE_RESOLVER
         (no_params \<lparr>pa_resolver := Some resolverEvm, pa_configVersion := Some configVersion,
                     pa_configId := Some configId\<rparr>))"

section \<open>Holds\<close>

definition rpc_new_hold :: "big_decimal \<Rightarrow> big_decimal \<Rightarrow> hedera_id \<Rightarrow> hedera_id option \<Rightarrow> hold" where
  "rpc_new_hold amount expirationDate escrow targetId =
     \<lparr>hold_amount = toBigInt amount, hold_expiration = toBigInt expirationDate, hold_escrow = escrow,
      hold_to = (case targetId of None \<Rightarrow> HederaId_NULL | Some t \<Rightarrow> t), hold_data = ''0x''\<rparr>"

definition rpc_createHold ::
  "rpc_network \<Rightarrow> env \<Rightarrow> stable_coin_capabilities \<Rightarrow> big_decimal \<Rightarrow> hedera_id \<Rightarrow> big_decimal \<Rightarrow>
     hedera_id option \<Rightarrow> (adapter_event, transaction_response) io" where
  "rpc_createHold N E coin amount escrow expirationDate targetId =
     performOperation N E coin CREATE_HOLD
       (no_params \<lparr>pa_hold := Some (rpc_new_hold amount expirationDate escrow targetId)\<rparr>)"

definition rpc_createHoldByController ::
  "rpc_network \<Rightarrow> env \<Rightarrow> stable_coin_capabilities \<Rightarrow> big_decimal \<Rightarrow> hedera_id \<Rightarrow> big_decimal \<Rightarrow> hedera_id \<Rightarrow>
     hedera_id option \<Rightarrow> (adapter_event, transaction_response) io" where
  "rpc_createHoldByController N E coin amount escrow expirationDate sourceId targetId =
     withR (resolve_id E sourceId) (\<lambda>source.
       performOperation N E coin CONTROLLER_CREATE_HOLD
         (no_params \<lparr>pa_hold := Some (rpc_new_hold amount expirationDate escrow targetId),
                     pa_sourceId := Some source\<rparr>))"

definition rpc_executeHold ::
  "rpc_network \<Rightarrow> env \<Rightarrow> stable_coin_capabilities \<Rightarrow> big_decimal \<Rightarrow> hedera_id \<Rightarrow> int \<Rightarrow> hedera_id option \<Rightarrow>
     (adapter_event, transaction_response) io" where
  "rpc_executeHold N E coin amount sourceId holdId targetId =
     withR (resolve_id E sourceId) (\<lambda>tokenHolder.
     withR (resolve_optional E targetId) (\<lambda>target.
       performOperation N E coin EXECUTE_HOLD
         (no_params \<lparr>pa_amount := Some amount, pa_targetId := Some target,
                     pa_holdIdentifier := Some \<lparr>hi_tokenHolder = tokenHolder, hi_holdId = holdId\<rparr>\<rparr>)))"

definition rpc_releaseHold ::
  "rpc_network \<Rightarrow> env \<Rightarrow> stable_coin_capabilities \<Rightarrow> big_decimal \<Rightarrow> hedera_id \<Rightarrow> int \<Rightarrow>
     (adapter_event, transaction_response) io" where
  "rpc_releaseHold N E coin amount sourceId holdId =
     withR (resolve_id E sourceId) (\<lambda>tokenHolder.
       performOperation N E coin RELEASE_HOLD
         (no_params \<lparr>pa_amount := Some amount,
                     pa_holdIdentifier := Some \<lparr>hi_tokenHolder = tokenHolder, hi_holdId = holdId\<rparr>\<rparr>))"

definition rpc_reclaimHold ::
  "rpc_network \<Rightarrow> env \<Rightarrow> stable_coin_capabilities \<Rightarrow> hedera_id \<Rightarrow> int \<Rightarrow>
     (adapter_event, transaction_response) io" where
  "rpc_reclaimHold N E coin sourceId holdId =
     withR (resolve_id E sourceId) (\<lambda>tokenHolder.
       performOperation N E coin RECLAIM_HOLD
         (no_params \<lparr>pa_holdIdentifier := Some \<lparr>hi_tokenHolder = tokenHolder, hi_holdId = holdId\<rparr>\<rparr>))"

section \<open>Roles and allowances\<close>

definition rpc_grantRole ::
  "rpc_network \<Rightarrow> env \<Rightarrow> stable_coin_capabilities \<Rightarrow> hedera_id \<Rightarrow> stable_coin_role \<Rightarrow>
     (adapter_event, transaction_response) io" where
  "rpc_grantRole N E coin targetId role =
     rpc_on_proxy N ''grantRole'' coin ''RolesFacet'' ''grantRole''
       (bindR (resolve_id E targetId) (\<lambda>t. Inr [CStr (role_hash role), CStr t])) GRANT_ROLES_GAS"

definition rpc_revokeRole ::
  "rpc_network \<Rightarrow> env \<Rightarrow> stable_coin_capabilities \<Rightarrow> hedera_id \<Rightarrow> stable_coin_role \<Rightarrow>
     (adapter_event, transaction_response) io" where
  "rpc_revokeRole N E coin targetId role =
     rpc_on_proxy N ''revokeRole'' coin ''RolesFacet'' ''revokeRole''
       (bindR (resolve_id E targetId) (\<lambda>t. Inr [CStr (role_hash role), CStr t])) REVOKE_ROLES_GAS"

definition rpc_grantRoles ::
  "rpc_network \<Rightarrow> env \<Rightarrow> stable_coin_capabilities \<Rightarrow> hedera_id list \<Rightarrow> stable_coin_role list \<Rightarrow>
     big_decimal list \<Rightarrow> (adapter_event, transaction_response) io" where
  "rpc_grantRoles N E coin targetsId roles amounts =
     rpc_on_proxy N ''grantRoles'' coin ''RoleManagementFacet'' ''grantRoles''
       (bindR (mapR (format_role_amount E) amounts) (\<lambda>amountsFormatted.
        bindR (mapR (resolve_id E) targetsId) (\<lambda>accounts.
          Inr [CSeq (map (CStr \<circ> role_hash) roles), CSeq (map CStr accounts), CSeq (map CInt amountsFormatted)])))
       (roles_gas (length targetsId) (length roles) GRANT_ROLES_GAS)"

definition rpc_revokeRoles ::
  "rpc_network \<Rightarrow> env \<Rightarrow> stable_coin_capabilities \<Rightarrow> hedera_id list \<Rightarrow> stable_coin_role list \<Rightarrow>
     (adapter_event, transaction_response) io" where
  "rpc_revokeRoles N E coin targetsId roles =
     rpc_on_proxy N ''revokeRoles'' coin ''RoleManagementFacet'' ''revokeRoles''
       (bindR (mapR (resolve_id E) targetsId) (\<lambda>accounts.
          Inr [CSeq (map (CStr \<circ> role_hash) roles), CSeq (map CStr accounts)]))
       (roles_gas (length targetsId) (length roles) REVOKE_ROLES_GAS)"

text \<open>The methods of the \<open>SupplierAdminFacet\<close> that take the target, and those that take an amount as well.\<close>

definition rpc_supplier ::
  "rpc_network \<Rightarrow> env \<Rightarrow> string \<Rightarrow> int \<Rightarrow> stable_coin_capabilities \<Rightarrow> hedera_id \<Rightarrow>
     (adapter_event, transaction_response) io" where
  "rpc_supplier N E method gasLimit coin targetId =
     rpc_on_proxy N method coin ''SupplierAdminFacet'' method
       (bindR (resolve_id E targetId) (\<lambda>t. Inr [CStr t])) gasLimit"

definition rpc_supplier_amount ::
  "rpc_network \<Rightarrow> env \<Rightarrow> string \<Rightarrow> int \<Rightarrow> stable_coin_capabilities \<Rightarrow> hedera_id \<Rightarrow> big_decimal \<Rightarrow>
     (adapter_event, transaction_response) io" where
  "rpc_supplier_amount N E method gasLimit coin targetId amount =
     rpc_on_proxy N method coin ''SupplierAdminFacet'' method
       (bindR (resolve_id E targetId) (\<lambda>t. Inr [CStr t, CInt (toBigInt amount)])) gasLimit"

definition rpc_grantSupplierRole where
  "rpc_grantSupplierRole N E = rpc_supplier_amount N E ''grantSupplierRole'' GRANT_ROLES_GAS"

definition rpc_grantUnlimitedSupplierRole where
  "rpc_grantUnlimitedSupplierRole N E = rpc_supplier N E ''grantUnlimitedSupplierRole'' GRANT_ROLES_GAS"

definition rpc_revokeSupplierRole where
  "rpc_revokeSupplierRole N E = rpc_supplier N E ''revokeSupplierRole'' REVOKE_ROLES_GAS"

definition rpc_resetSupplierAllowance where
  "rpc_resetSupplierAllowance N E = rpc_supplier N E ''resetSupplierAllowance'' RESET_SUPPLY_GAS"

definition rpc_increaseSupplierAllowance where
  "rpc_increaseSupplierAllowance N E =
     rpc_supplier_amount N E ''increaseSupplierAllowance'' INCREASE_SUPPLY_GAS"

definition rpc_decreaseSupplierAllowance where
  "rpc_decreaseSupplierAllowance N E =
     rpc_supplier_amount N E ''decreaseSupplierAllowance'' DECREASE_SUPPLY_GAS"

section \<open>The reserve\<close>

definition rpc_updateReserveAddress ::
  "rpc_network \<Rightarrow> env \<Rightarrow> stable_coin_capabilities \<Rightarrow> contract_id \<Rightarrow> (adapter_event, transaction_response) io" where
  "rpc_updateReserveAddress N E coin reserveAddress =
     rpc_on_proxy N ''update reserve'' coin ''ReserveFacet'' ''updateReserveAddress''
       (bindR (resolve_contract E reserveAddress) (\<lambda>a. Inr [CStr a])) UPDATE_RESERVE_ADDRESS_GAS"

definition rpc_updateReserveAmount ::
  "rpc_network \<Rightarrow> env \<Rightarrow> contract_id \<Rightarrow> big_decimal \<Rightarrow> (adapter_event, transaction_response) io" where
  "rpc_updateReserveAmount N E reserveAddress amount =
     rpc_direct N ''updatePorAmount''
      (bindR (resolve_contract E reserveAddress) (\<lambda>address.
         Inr (rpc_call address ''HederaReserveFacet'' ''setAmount'' [CInt (toBigInt amount)]
                UPDATE_RESERVE_AMOUNT_GAS)))"

definition rpc_ta_getReserveAddress ::
  "rpc_network \<Rightarrow> stable_coin_capabilities \<Rightarrow> (adapter_event, transaction_response) io" where
  "rpc_ta_getReserveAddress N coin =
     rpc_read_proxy N ''update reserve'' coin ''ReserveFacet'' ''getReserveAddress'' (Inr [])
       (\<lambda>v. bindR (as_string v) (\<lambda>s. Inr (ContractResponse (CStr s))))"

definition rpc_ta_getReserveAmount ::
  "rpc_network \<Rightarrow> env \<Rightarrow> stable_coin_capabilities \<Rightarrow> (adapter_event, transaction_response) io" where
  "rpc_ta_getReserveAmount N E coin =
     rpc_read_proxy N ''update reserve'' coin ''ReserveFacet'' ''getReserveAmount'' (Inr [])
       (\<lambda>v. bindR (bindR (first_of v) as_int) (\<lambda>n.
            bindR (fromStringFixed (env_lib E) (int_str n) RESERVE_DECIMALS) (\<lambda>b. Inr (DecimalResponse b))))"

section \<open>Queries\<close>

definition rpc_ta_hasRole ::
  "rpc_network \<Rightarrow> env \<Rightarrow> stable_coin_capabilities \<Rightarrow> hedera_id \<Rightarrow> stable_coin_role \<Rightarrow>
     (adapter_event, transaction_response) io" where
  "rpc_ta_hasRole N E coin targetId role =
     rpc_read_proxy N ''hasRole'' coin ''RolesFacet'' ''hasRole''
       (bindR (resolve_id E targetId) (\<lambda>t. Inr [CStr (role_hash role), CStr t]))
       (\<lambda>v. bindR (as_bool v) (\<lambda>b. Inr (ContractResponse (CBool b))))"

definition rpc_ta_getRoles ::
  "rpc_network \<Rightarrow> env \<Rightarrow> stable_coin_capabilities \<Rightarrow> hedera_id \<Rightarrow> (adapter_event, transaction_response) io" where
  "rpc_ta_getRoles N E coin targetId =
     rpc_read_proxy N ''getRoles'' coin ''RolesFacet'' ''getRoles''
       (bindR (resolve_id E targetId) (\<lambda>t. Inr [CStr t]))
       (\<lambda>v. bindR (as_strings v) (\<lambda>rs. Inr (ContractResponse (CSeq (map CStr rs)))))"

text \<open>An integer that the contract returns, as an amount in the coin's decimals.\<close>

definition amount_response :: "env \<Rightarrow> stable_coin_capabilities \<Rightarrow> cparam \<Rightarrow> response_data result" where
  "amount_response E coin v =
     bindR (as_int v) (\<lambda>n.
     bindR (fromStringFixed (env_lib E) (int_str n) (sc_decimals (caps_coin coin))) (\<lambda>b. Inr (DecimalResponse b)))"

definition rpc_ta_balanceOf ::
  "rpc_network \<Rightarrow> env \<Rightarrow> stable_coin_capabilities \<Rightarrow> hedera_id \<Rightarrow> (adapter_event, transaction_response) io" where
  "rpc_ta_balanceOf N E coin targetId =
     rpc_read_proxy N ''balanceOf'' coin ''HederaTokenManagerFacet'' ''balanceOf''
       (bindR (resolve_id E targetId) (\<lambda>t. Inr [CStr t])) (amount_response E coin)"

definition rpc_ta_isUnlimitedSupplierAllowance ::
  "rpc_network \<Rightarrow> env \<Rightarrow> stable_coin_capabilities \<Rightarrow> hedera_id \<Rightarrow> (adapter_event, transaction_response) io" where
  "rpc_ta_isUnlimitedSupplierAllowance N E coin targetId =
     rpc_read_proxy N ''isUnlimitedSupplierAllowance'' coin ''SupplierAdminFacet'' ''isUnlimitedSupplierAllowance''
       (bindR (resolve_id E targetId) (\<lambda>t. Inr [CStr t]))
       (\<lambda>v. bindR (as_bool v) (\<lambda>b. Inr (ContractResponse (CBool b))))"

definition rpc_ta_supplierAllowance ::
  "rpc_network \<Rightarrow> env \<Rightarrow> stable_coin_capabilities \<Rightarrow> hedera_id \<Rightarrow> (adapter_event, transaction_response) io" where
  "rpc_ta_supplierAllowance N E coin targetId =
     rpc_read_proxy N ''supplierAllowance'' coin ''SupplierAdminFacet'' ''getSupplierAllowance''
       (bindR (resolve_id E targetId) (\<lambda>t. Inr [CStr t])) (amount_response E coin)"

section \<open>Association and creation\<close>

text \<open>The hash that the error of an association carries, empty when none of the three properties exists.\<close>

definition association_hash :: "js_error \<Rightarrow> string" where
  "association_hash e =
     (case error_path e ''transactionHash'' of
        Some h \<Rightarrow> h
      | None \<Rightarrow>
          (case error_path e ''transaction.hash'' of
             Some h \<Rightarrow> h
           | None \<Rightarrow> (case error_path e ''error.transactionHash'' of Some h \<Rightarrow> h | None \<Rightarrow> [])))"

text \<open>The wallet's own account is associated; the target of the command is not used.\<close>

definition rpc_associateToken ::
  "rpc_network \<Rightarrow> env \<Rightarrow> hedera_id \<Rightarrow> hedera_id \<Rightarrow> (adapter_event, transaction_response) io" where
  "rpc_associateToken N E tokenId targetId =
     rethrow
      (bindIO (rpc_send N (rpc_call (toEvmAddress (sdk_toSolidityAddress E (id_value tokenId)))
                 ''IHRC'' ''associate'' [] ASSOCIATE_GAS)) (\<lambda>hash. ([], rpc_manageResponse N hash None)))
      (\<lambda>e. TransactionResponseError ''Unexpected error in RPCTransactionAdapter association operation''
         (Some (association_hash e)))"

text \<open>
  \<open>create\<close>: \<open>reserveConfigId!\<close> and \<open>reserveConfigVersion!\<close> that are missing are rejected by ethers when it
  encodes the call. The value is \<open>parseEther\<close> of the creation cost, in units of ten to the minus eighteen.
\<close>

definition rpc_reserve_configuration :: "bool \<Rightarrow> string option \<Rightarrow> int option \<Rightarrow> cparam result" where
  "rpc_reserve_configuration createReserve reserveConfigId reserveConfigVersion =
     (if createReserve
      then (case (reserveConfigId, reserveConfigVersion) of
              (Some k, Some v) \<Rightarrow> Inr (CSeq [CStr k, CInt v])
            | _ \<Rightarrow> Inl (ProviderError []))
      else Inr (CSeq [CStr (''0x'' @ replicate 64 (CHR ''0'')), CInt 0]))"

definition rpc_create ::
  "rpc_network \<Rightarrow> env \<Rightarrow> stable_coin \<Rightarrow> contract_id \<Rightarrow> bool \<Rightarrow> contract_id \<Rightarrow> string \<Rightarrow> int \<Rightarrow>
     hedera_id \<Rightarrow> string \<Rightarrow> contract_id option \<Rightarrow> big_decimal option \<Rightarrow> string option \<Rightarrow> int option \<Rightarrow>
     (adapter_event, transaction_response) io" where
  "rpc_create N E coin factory createReserve resolver configId configVersion proxyOwnerAccount
       updatedAtThreshold reserveAddress reserveInitialAmount reserveConfigId reserveConfigVersion =
     rethrow
      (withR (cashin_role E coin) (\<lambda>cashinRole.
       withR (buildKeysForSmartContract E
                [sc_adminKey coin, sc_kycKey coin, sc_freezeKey coin, sc_wipeKey coin,
                 sc_supplyKey coin, sc_feeScheduleKey coin, sc_pauseKey coin]) (\<lambda>keys.
       withR (factory_roles E coin proxyOwnerAccount) (\<lambda>roles.
       withR (case reserveAddress of
                None \<Rightarrow> Inr EVM_ZERO_ADDRESS
              | Some r \<Rightarrow> if contract_value r = ''0.0.0'' then Inr EVM_ZERO_ADDRESS else resolve_contract E r)
         (\<lambda>reserveEvm.
       withR (resolve_contract E resolver) (\<lambda>resolverEvm.
       withR (resolve_contract E factory) (\<lambda>factoryEvm.
       withR (rpc_reserve_configuration createReserve reserveConfigId reserveConfigVersion)
         (\<lambda>reserveConfiguration.
       let stableCoinToCreate = CSeq
             [CStr (sc_name coin), CStr (sc_symbol coin),
              CBool (sc_freezeDefault coin = Some True), CBool (sc_supplyType coin = Some FINITE),
              fixed_or_zero (sc_maxSupply coin), fixed_or_zero (sc_initialSupply coin),
              CInt (int (sc_decimals coin)), CStr reserveEvm, CStr updatedAtThreshold,
              fixed_or_zero reserveInitialAmount, CBool createReserve, CSeq keys, CSeq roles,
              cashinRole, CStr (case sc_metadata coin of None \<Rightarrow> [] | Some m \<Rightarrow> m),
              CStr resolverEvm, CSeq [CStr configId, CInt configVersion], reserveConfiguration];
           call = (rpc_call factoryEvm ''StableCoinFactoryFacet'' ''deployStableCoin'' [stableCoinToCreate] CREATE_SC_GAS)
             \<lparr>cc_payableAmount := Some (int_str (TOKEN_CREATION_COST_HBAR * 10 ^ 18))\<rparr>
       in bindIO (rpc_send N call) (\<lambda>hash.
            ([], rpc_manageResponse N hash (Some (''StableCoinFactoryFacet'', ''Deployed'', factoryEvm))))))))))))
      (SigningError ''Unexpected error in RPCTransactionAdapter create operation'')"

section \<open>The adapter\<close>

definition rpc_adapter :: "rpc_network \<Rightarrow> env \<Rightarrow> adapter_event tx_adapter" where
  "rpc_adapter N E =
     \<lparr>ta_getAccount = rn_account N,
      ta_create = rpc_create N E,
      ta_associateToken = rpc_associateToken N E,
      ta_wipe = (\<lambda>a b c d. rpc_wipe N E a b c),
      ta_cashin = (\<lambda>a b c d. rpc_cashin N E a b c),
      ta_burn = (\<lambda>a b c. rpc_burn N E a b),
      ta_freeze = (\<lambda>a b c. rpc_freeze N E a b),
      ta_unfreeze = (\<lambda>a b c. rpc_unfreeze N E a b),
      ta_grantKyc = rpc_grantKyc N E,
      ta_revokeKyc = rpc_revokeKyc N E,
      ta_pause = (\<lambda>a b. rpc_pause N E a),
      ta_unpause = (\<lambda>a b. rpc_unpause N E a),
      ta_delete = (\<lambda>a b. rpc_delete N E a),
      ta_rescue = (\<lambda>a b c. rpc_rescue N E a b),
      ta_rescueHBAR = (\<lambda>a b c. rpc_rescueHBAR N E a b),
      ta_grantRole = rpc_grantRole N E,
      ta_revokeRole = rpc_revokeRole N E,
      ta_grantRoles = (\<lambda>a b c d e. rpc_grantRoles N E a b c d),
      ta_revokeRoles = (\<lambda>a b c d. rpc_revokeRoles N E a b c),
      ta_grantSupplierRole = rpc_grantSupplierRole N E,
      ta_grantUnlimitedSupplierRole = rpc_grantUnlimitedSupplierRole N E,
      ta_revokeSupplierRole = rpc_revokeSupplierRole N E,
      ta_increaseSupplierAllowance = (\<lambda>a b c d. rpc_increaseSupplierAllowance N E a b c),
      ta_decreaseSupplierAllowance = (\<lambda>a b c d. rpc_decreaseSupplierAllowance N E a b c),
      ta_resetSupplierAllowance = (\<lambda>a b c. rpc_resetSupplierAllowance N E a b),
      ta_transfers = (\<lambda>a b c d. throw (JsError ''Method not implemented.'')),
      ta_updateCustomFees = rpc_updateCustomFees N E,
      ta_createHold = rpc_createHold N E,
      ta_createHoldByController = rpc_createHoldByController N E,
      ta_executeHold = rpc_executeHold N E,
      ta_releaseHold = rpc_releaseHold N E,
      ta_reclaimHold = rpc_reclaimHold N E,
      ta_getReserveAddress = rpc_ta_getReserveAddress N,
      ta_updateReserveAddress = rpc_updateReserveAddress N E,
      ta_getReserveAmount = rpc_ta_getReserveAmount N E,
      ta_updateReserveAmount = rpc_updateReserveAmount N E,
      ta_hasRole = rpc_ta_hasRole N E,
      ta_getRoles = rpc_ta_getRoles N E,
      ta_balanceOf = rpc_ta_balanceOf N E,
      ta_isUnlimitedSupplierAllowance = rpc_ta_isUnlimitedSupplierAllowance N E,
      ta_supplierAllowance = rpc_ta_supplierAllowance N E,
      ta_update = rpc_update N E,
      ta_updateConfigVersion = rpc_updateConfigVersion N E,
      ta_updateConfig = rpc_updateConfig N E,
      ta_updateResolver = rpc_updateResolver N E\<rparr>"

section \<open>The adapter keeps the contract\<close>

definition sends :: "adapter_event \<Rightarrow> bool" where
  "sends e \<longleftrightarrow> (\<exists>call. e = SendContractCall call)"

lemma submits_nothing: "actions m = [] \<Longrightarrow> submits False P m"
  by (simp add: submits_def)

lemma submits_send [once]: "submits always sends (bindIO (rpc_send N call) (\<lambda>hash. ([], r hash)))"
  by (auto simp: submits_def rpc_send_def sends_def actions_bindIO outcome_bindIO_Inr split: sum.splits)

lemma submits_direct [once]: "submits always sends (rpc_direct N operation call)"
  by (cases call)
    (auto simp: submits_def rpc_direct_def rpc_send_def sends_def actions_bindIO outcome_bindIO_Inr
      split: sum.splits)

lemma submits_on_proxy [once]: "submits always sends (rpc_on_proxy N n coin f fn ps g)"
  unfolding rpc_on_proxy_def by (rule submits_direct)

lemma submits_operation: "submits False sends (performSmartContractOperation N E evmProxy x P)"
  unfolding performSmartContractOperation_def
  by (auto simp: submits_nothing intro!: submits_withR submits_send split: option.splits prod.splits)

lemma submits_perform [once]: "submits False sends (performOperation N E coin x P)"
  unfolding performOperation_def
  by (cases "getAccessDecision coin x")
    (simp_all add: submits_nothing submits_rethrow submits_withR submits_operation)

lemmas rpc_operations = rpc_wipe_def rpc_cashin_def rpc_burn_def rpc_freeze_def rpc_unfreeze_def rpc_grantKyc_def
  rpc_revokeKyc_def rpc_pause_def rpc_unpause_def rpc_delete_def rpc_rescue_def rpc_rescueHBAR_def
  rpc_updateCustomFees_def rpc_createHold_def rpc_createHoldByController_def rpc_executeHold_def
  rpc_releaseHold_def rpc_reclaimHold_def rpc_update_def rpc_updateConfigVersion_def rpc_updateConfig_def
  rpc_updateResolver_def

lemmas facet_call_defs = facet_call_of_def token_call_def management_call_def hold_call_def raw_amount_def
  argument_def fees_argument_def formatted_hold_def no_params_def

lemmas rpc_calls = rpc_grantRole_def rpc_revokeRole_def rpc_grantRoles_def rpc_revokeRoles_def
  rpc_grantSupplierRole_def rpc_grantUnlimitedSupplierRole_def rpc_revokeSupplierRole_def
  rpc_increaseSupplierAllowance_def rpc_decreaseSupplierAllowance_def rpc_resetSupplierAllowance_def
  rpc_supplier_def rpc_supplier_amount_def rpc_updateReserveAddress_def rpc_updateReserveAmount_def

interpretation rpc: submitting_adapter False sends "rpc_adapter N E" for N E
  by unfold_locales
    (unfold rpc_adapter_def tx_adapter.simps rpc_operations rpc_calls rpc_create_def rpc_associateToken_def Let_def;
      intro once)+

end
