(* ===== verification/Rpc_Properties.thy ===== *)
theory Rpc_Properties
  imports Adapter_Properties Rpc_Adapter
begin

text \<open>
  Properties of the commands with the wallet's adapter (\<open>Rpc_Adapter\<close>): how often they send, what a
  forbidden operation reports, what errors carry, and that the calls are those of the other adapters.
\<close>

section \<open>A sample\<close>

text \<open>A wallet that sends everything; the receipts never come.\<close>

definition sample_rpc :: rpc_network where
  "sample_rpc =
     \<lparr>rn_account = env_account sample_net, rn_send = (\<lambda>c. Inr ''0xab''), rn_wait = (\<lambda>h. Inr None),
      rn_read = (\<lambda>a f n p. Inl TypeError), rn_eventTopic = (\<lambda>f e. None), rn_decodeLog = (\<lambda>f e l. Inl TypeError)\<rparr>"

section \<open>Sending\<close>

lemma confirmed_no_error: "rpc_manageResponse N hash ev = Inr r \<Longrightarrow> res_error r = None"
proof -
  assume "rpc_manageResponse N hash ev = Inr r"
  then have confirmed: "rpc_confirmed N hash ev = Inr r" by (simp add: rpc_manageResponse_def split: sum.splits)
  then show ?thesis
  proof (cases "rn_wait N hash")
    case (Inr receipt)
    with confirmed show ?thesis by (cases receipt) (auto simp: rpc_confirmed_def bindR_Inr_iff)
  qed (simp add: rpc_confirmed_def)
qed

text \<open>A response without an error is that of a transaction that was sent.\<close>

lemma operation_reported:
  "outcome (performSmartContractOperation N E evmProxy x P) = Inr r \<Longrightarrow>
   res_error r = None \<and> length (actions (performSmartContractOperation N E evmProxy x P)) = 1"
  by (auto simp: performSmartContractOperation_def rpc_send_def outcome_withR_Inr outcome_bindIO_Inr actions_bindIO
      dest: confirmed_no_error split: option.splits prod.splits sum.splits)

lemma perform_reported:
  "outcome (performOperation N E coin x P) = Inr r \<Longrightarrow>
   (res_error r = None) = (length (actions (performOperation N E coin x P)) = 1)"
  by (cases "getAccessDecision coin x")
    (auto simp: performOperation_def outcome_withR_Inr dest: operation_reported)

definition reports :: "('e, command_response) io \<Rightarrow> bool" where
  "reports m \<longleftrightarrow> (\<forall>ok i. outcome m = Inr (ok, i) \<longrightarrow> ok = (length (actions m) = 1))"

lemma reports_perform: "reports (respond (performOperation N E coin x P))"
  using perform_reported [of N E coin x P] by (auto simp: reports_def respond_def outcome_bindIO_Inr)

lemma reports_withR: "(\<And>x. r = Inr x \<Longrightarrow> reports (f x)) \<Longrightarrow> reports (withR r f)"
  by (cases r) (simp_all add: reports_def)



section \<open>Forbidden operations\<close>

text \<open>
  An operation whose decision is not the contract, also one that the account may do with its
  own key through the token service, is not sent: the command does not fail, but reports that it was not
  performed, with no transaction.
\<close>

theorem wallet_forbidden_reported:
  assumes "A = rpc_adapter N E"
  shows "(\<forall>a. cashin_checks E amount t k = Inr (caps, a) \<longrightarrow> getAccessDecision caps CASH_IN \<noteq> D_CONTRACT \<longrightarrow>
      cashIn_handler E A amount t k sd = ([], Inr (False, None))) \<and>
    (\<forall>a. burn_checks E amount k = Inr (caps, a) \<longrightarrow> getAccessDecision caps BURN \<noteq> D_CONTRACT \<longrightarrow>
      burn_handler E A amount k sd = ([], Inr (False, None))) \<and>
    (\<forall>a. rescue_checks E amount k = Inr (caps, a) \<longrightarrow> getAccessDecision caps RESCUE \<noteq> D_CONTRACT \<longrightarrow>
      rescue_handler E A amount k sd = ([], Inr (False, None)))"
proof -
  have "respond (performOperation N E caps x P) = ([], Inr (False, None))" if "getAccessDecision caps x \<noteq> D_CONTRACT"
    for x P
    using that by (cases "getAccessDecision caps x") (simp_all add: performOperation_def respond_def ret_def bindIO_def)
  then show ?thesis
    by (simp add: assms cashIn_handler_def burn_handler_def rescue_handler_def rpc_adapter_def rpc_cashin_def
        rpc_burn_def rpc_rescue_def)
qed

text \<open>The sample coin without a supply key: nobody may burn.\<close>

definition keyless_coin :: stable_coin where
  "keyless_coin = sample_coin \<lparr>sc_supplyKey := None\<rparr>"

definition keyless_net :: env where
  "keyless_net = sample_env keyless_coin (\<lambda>i. Some sample_relation) ''0.0.0'' 0"

definition keyless_stored :: stable_coin where
  "keyless_stored = new_StableCoin exact_lib (keyless_coin \<lparr>sc_metadata := Some ''metadata'', sc_customFees := None\<rparr>)"

definition keyless_caps :: stable_coin_capabilities where
  "keyless_caps =
     \<lparr>caps_coin = keyless_stored, caps_capabilities = capability_list keyless_stored (env_account sample_net) None None,
      caps_account = env_account sample_net\<rparr>"

lemma keyless_capabilities: "service_getCapabilities keyless_net i = Inr keyless_caps"
  by (simp add: service_getCapabilities_def getCapabilities_def StableCoinService_get_def getStableCoinQuery_def
      keyless_net_def sample_net_def sample_env_def sample_view_def keyless_coin_def sample_coin_def minimal_props_def
      toCustomFees_def keyless_stored_def keyless_caps_def)

lemma keyless_burn:
  "burn_checks keyless_net ''1.5'' sample_token = Inr (keyless_caps, bd2 150)"
  "getAccessDecision keyless_caps BURN = D_FORBIDDEN"
proof -
  have lib: "env_lib keyless_net = exact_lib" by (simp add: keyless_net_def sample_env_def)
  have coin: "StableCoinService_get keyless_net i = Inr keyless_stored" for i
    by (simp add: StableCoinService_get_def getStableCoinQuery_def keyless_net_def sample_env_def sample_view_def
        keyless_coin_def sample_coin_def minimal_props_def toCustomFees_def keyless_stored_def)
  have burnable: "q_getBurnableAmount keyless_net p = Inr 5000" for p by (simp add: keyless_net_def sample_env_def)
  have fields: "sc_decimals keyless_stored = 2" "sc_evmProxyAddress keyless_stored = Some sample_proxy"
    "sc_treasury keyless_stored = Some (HederaId ''0.0.10'')" "sc_tokenId keyless_stored = Some sample_token"
    "caps_coin keyless_caps = keyless_stored"
    by (simp_all add: keyless_caps_def keyless_stored_def keyless_coin_def new_StableCoin_def sample_coin_def
        minimal_props_def)
  have "getBurnableAmountQuery keyless_net sample_token = Inr (bd2 5000)"
    by (simp add: getBurnableAmountQuery_def with_proxy_def coin fields lib burnable
        exact.fromStringFixed_int in_range128_def bd2_def)
  then show "burn_checks keyless_net ''1.5'' sample_token = Inr (keyless_caps, bd2 150)"
    by (simp add: burn_checks_def checkBurnableAmount_def keyless_capabilities fields lib sample check_decimals_def
        hasMoreDecimals_def) (simp_all add: bd2_def exact.order_iffs fn_rat_def)
  show "getAccessDecision keyless_caps BURN = D_FORBIDDEN" by code_simp
qed

theorem wallet_forbidden_reported_witness:
  "burn_handler keyless_net (rpc_adapter sample_rpc keyless_net) ''1.5'' sample_token None = ([], Inr (False, None))"
  using wallet_forbidden_reported [of "rpc_adapter sample_rpc keyless_net" sample_rpc keyless_net "''1.5''" sample_target
      sample_token keyless_caps None]
  by (simp add: keyless_burn)

section \<open>Errors\<close>

text \<open>
  An operation that was sent but whose receipt does not come fails with an error that has lost the
  hash of the transaction; and when what the wallet or the provider throws has no property \<open>error\<close>, the
  error that the caller sees is a \<open>TypeError\<close> of the handler itself. The methods for roles and
  allowances lose the hash in the same way.
\<close>

theorem wallet_errors_lose_hash:
  assumes "getAccessDecision caps x = D_CONTRACT" "sc_evmProxyAddress (caps_coin caps) = Some p" "evm_value p \<noteq> []"
    and "facet_call_of E x P = Some (f, fn, Inr ps, g)"
    and "call = \<lparr>cc_contractId = evm_value p, cc_facet = f, cc_function = fn, cc_params = ps, cc_gas = g,
                cc_payableAmount = None\<rparr>"
  shows "(\<forall>h. rn_send N call = Inr h \<longrightarrow> rn_wait N h = Inr None \<longrightarrow>
      actions (performOperation N E caps x P) = [SendContractCall call] \<and>
      (\<exists>msg. outcome (performOperation N E caps x P) = Inl (TransactionResponseError msg None)) \<and>
      actions (rpc_on_proxy N op' caps f fn (Inr ps) g) = [SendContractCall call] \<and>
      (\<exists>msg. outcome (rpc_on_proxy N op' caps f fn (Inr ps) g) = Inl (TransactionResponseError msg None))) \<and>
    (\<forall>props. rn_send N call = Inl (ProviderError props) \<longrightarrow> ''error'' \<notin> fst ` set props \<longrightarrow>
      outcome (performOperation N E caps x P) = Inl TypeError)"
proof -
  have "map_of props ''error'' = None" if "''error'' \<notin> fst ` set props" for props :: "(string \<times> string) list"
    using that by (simp add: map_of_eq_None_iff)
  then show ?thesis
    using assms(1-4) unfolding assms(5)
    by (simp add: performOperation_def performSmartContractOperation_def rpc_on_proxy_def rpc_direct_def rpc_proxy_def
        rpc_send_def rpc_call_def bindIO_def rethrow_def act_def rpc_manageResponse_def rpc_confirmed_def
        operation_error_def)
qed

theorem wallet_errors_lose_hash_witness:
  "\<exists>msg. outcome (rpc_burn sample_rpc sample_net sample_caps (bd2 150)) = Inl (TransactionResponseError msg None)"
proof -
  have call: "facet_call_of sample_net BURN (no_params \<lparr>pa_amount := Some (bd2 150)\<rparr>) =
      Some (''BurnableFacet'', ''burn'', Inr [CInt (toBigInt (bd2 150))], BURN_GAS)"
    by (simp add: facet_call_defs)
  have "evm_value sample_proxy \<noteq> []" by (simp add: sample_proxy_def)
  then show ?thesis
    using wallet_errors_lose_hash [of sample_caps BURN sample_proxy, OF _ _ _ call refl, of sample_rpc "''burn''"]
    by (simp add: sample sample_rpc_def rpc_burn_def)
qed

section \<open>The same calls\<close>

lemma custodial_call:
  assumes "\<And>f fn ps. enc f fn ps = Inr ()"
  shows "actions (ex_executeContractCall (custodial_executor acc C enc) c f fn ps g tt None sd evm) =
    [ExecuteTransaction (ContractExecuteTransaction
       \<lparr>cc_contractId = c, cc_facet = f, cc_function = fn, cc_params = ps, cc_gas = g, cc_payableAmount = None\<rparr>)]"
  using assms
  by (simp add: custodial_executor_def base_executor_def base_executeContractCall_def buildContractTransaction_def
      custodial_processTransaction_def actions_bindIO split: sum.splits)

lemma wallet_call:
  assumes "getAccessDecision caps x = D_CONTRACT" "sc_evmProxyAddress (caps_coin caps) = Some p" "evm_value p \<noteq> []"
  shows "actions (performOperation N E caps x P) =
    (case facet_call_of E x P of
       Some (f, fn, Inr ps, g) \<Rightarrow>
         [SendContractCall \<lparr>cc_contractId = evm_value p, cc_facet = f, cc_function = fn, cc_params = ps, cc_gas = g,
                            cc_payableAmount = None\<rparr>]
     | _ \<Rightarrow> [])"
  using assms
  by (auto simp: performOperation_def performSmartContractOperation_def rpc_proxy_def rpc_send_def rpc_call_def
      actions_bindIO split: sum.splits option.splits prod.splits)



end
