(* ===== verification/Wallet_Connect.thy ===== *)
theory Wallet_Connect
  imports Rpc_Adapter Admin_Commands
begin

text \<open>
  \<open>HederaWalletConnectTransactionAdapter\<close> (\<open>sdk/src/port/out/hs/walletconnect\<close>): the adapter of the base
  family whose transactions go to a wallet over WalletConnect. The session decides the route: with a
  namespace \<open>hedera\<close> a transaction of the SDK is signed and executed by the wallet, without one (an EVM wallet)
  a contract call is sent as an Ethereum transaction. The wallet, the provider and the SDK's
  serialisation are the record \<open>wc_net\<close>. Its connection is in \<open>Wallet_Handlers\<close>.
\<close>

section \<open>State\<close>

text \<open>
  \<open>session.namespaces\<close>: whether there is a namespace \<open>hedera\<close>, and the accounts of \<open>eip155\<close> (as
  \<open>eip155:<chain>:<address>\<close>); \<open>pr_eip155Provider\<close> says that the provider has built its \<open>eip155Provider\<close>.
\<close>

record wc_session =
  ws_hedera :: bool
  ws_eip155 :: "string list option"

record wc_provider =
  pr_session :: "wc_session option"
  pr_eip155Provider :: bool

record wc_adapter =
  wc_account :: "account option"
  wc_provider :: "wc_provider option"

text \<open>
  What the wallet and the network answer. \<open>wn_freeze\<close> freezes a transaction for an account and serialises it,
  \<open>wn_bodyBytes\<close> gives the body of its first signed transaction; \<open>wn_execute\<close> and \<open>wn_sign\<close> are the requests
  \<open>hedera_signAndExecuteTransaction\<close> and \<open>hedera_signTransaction\<close> with the chain, the signer and the bytes.
  The properties of an object are given by their path. \<open>wn_signatureMap\<close> decodes the signatures (ED25519
  and ECDSA bytes of each pair). \<open>wn_rpc\<close> has the sending of contract calls and the waiting for receipts;
  \<open>wn_encodes\<close> and \<open>wn_parseEther\<close> are ethers' encoding of a call and of an amount.
\<close>

record wc_net =
  wn_environment :: string
  wn_consensusNodes :: "(string \<times> string) list option"
  wn_freeze :: "hedera_tx \<Rightarrow> string \<Rightarrow> byte list result"
  wn_execute :: "string \<Rightarrow> string \<Rightarrow> byte list \<Rightarrow> (string \<rightharpoonup> string) option result"
  wn_bodyBytes :: "byte list \<Rightarrow> string \<Rightarrow> byte list option result"
  wn_sign :: "string \<Rightarrow> string \<Rightarrow> byte list \<Rightarrow> string option result"
  wn_signatureMap :: "string \<Rightarrow> (byte list option \<times> byte list option) list result"
  wn_encodes :: "string \<Rightarrow> string \<Rightarrow> cparam list \<Rightarrow> unit result"
  wn_parseEther :: "string \<Rightarrow> unit result"
  wn_rpc :: rpc_network

text \<open>Without a provider or a session there is no namespace \<open>hedera\<close> either.\<close>

definition isEvmSession :: "wc_adapter \<Rightarrow> bool" where
  "isEvmSession W =
     (case wc_provider W of
        None \<Rightarrow> True
      | Some p \<Rightarrow> (case pr_session p of None \<Rightarrow> True | Some s \<Rightarrow> \<not> ws_hedera s))"

definition ensureInitialized :: "wc_adapter \<Rightarrow> account result" where
  "ensureInitialized W =
     (case wc_provider W of
        None \<Rightarrow> Inl (JsError ''Hedera WalletConnect not initialized'')
      | Some _ \<Rightarrow> of_option (JsError ''Account not set'') (wc_account W))"

definition isTestnet :: "wc_net \<Rightarrow> bool" where
  "isTestnet N \<longleftrightarrow> wn_environment N = ''testnet''"

definition hedera_chainRef :: "wc_net \<Rightarrow> string" where
  "hedera_chainRef N = (if isTestnet N then ''hedera:testnet'' else ''hedera:mainnet'')"

definition evmChainId :: "wc_net \<Rightarrow> string" where
  "evmChainId N = (if isTestnet N then ''296'' else ''295'')"

definition currentEvmChainRef :: "wc_net \<Rightarrow> string" where
  "currentEvmChainRef N = ''eip155:'' @ evmChainId N"

definition signerAccountId :: "wc_net \<Rightarrow> account \<Rightarrow> string" where
  "signerAccountId N acc = hedera_chainRef N @ '':'' @ id_value (acc_id acc)"

section \<open>Native transactions\<close>

text \<open>\<open>r?.transactionId || r?.result?.transactionId\<close>\<close>

definition wc_transactionId :: "(string \<rightharpoonup> string) option \<Rightarrow> string option" where
  "wc_transactionId r =
     (case r of
        None \<Rightarrow> None
      | Some m \<Rightarrow>
          (case m ''transactionId'' of
             Some (c # cs) \<Rightarrow> Some (c # cs)
           | _ \<Rightarrow> m ''result.transactionId''))"

text \<open>
  Every error becomes a \<open>SigningError\<close>. The wallet is asked once; the type of the response and the start
  date are not used.
\<close>

definition executeNativeTransaction ::
  "wc_net \<Rightarrow> wc_adapter \<Rightarrow> hedera_tx \<Rightarrow> (adapter_event, transaction_response) io" where
  "executeNativeTransaction N W tx =
     rethrow
       (withR (ensureInitialized W) (\<lambda>acc.
        withR (wn_freeze N tx (id_value (acc_id acc))) (\<lambda>bytes.
        bindIO (act (ExecuteTransaction tx) (wn_execute N (hedera_chainRef N) (signerAccountId N acc) bytes)) (\<lambda>r.
          ret \<lparr>res_id = wc_transactionId r,
               res_response = (case r of None \<Rightarrow> NoResponse | Some m \<Rightarrow> ObjectResponse m), res_error = None\<rparr>))))
       (SigningError ''Native Hedera transaction failed'')"

definition wc_processTransaction ::
  "wc_net \<Rightarrow> wc_adapter \<Rightarrow> hedera_tx \<Rightarrow> transaction_type \<Rightarrow> string option \<Rightarrow>
     (adapter_event, transaction_response) io" where
  "wc_processTransaction N W tx transactionType startDate = executeNativeTransaction N W tx"

section \<open>Contract calls of an EVM wallet\<close>

text \<open>
  The receipt is awaited before the response is built, so that the errors of the waiting are those of the
  provider and only those of the building are \<open>TransactionResponseError\<close>s.
\<close>

definition executeEvmContractCall ::
  "wc_net \<Rightarrow> wc_adapter \<Rightarrow> string \<Rightarrow> string \<Rightarrow> string \<Rightarrow> cparam list \<Rightarrow> int \<Rightarrow> string option \<Rightarrow>
     (adapter_event, transaction_response) io" where
  "executeEvmContractCall N W proxyAddress facet functionName params gasLimit payableAmountHbar =
     (let value = (if payableAmountHbar = Some [] then None else payableAmountHbar) in
      withR (ensureInitialized W) (\<lambda>acc.
      withR (of_option (JsError ''Account EVM address is not set'')
               (if acc_evmAddress acc = Some [] then None else acc_evmAddress acc)) (\<lambda>from.
      withR (wn_encodes N facet functionName params) (\<lambda>_.
      withR (case value of None \<Rightarrow> Inr () | Some v \<Rightarrow> wn_parseEther N v) (\<lambda>_.
      let call = \<lparr>cc_contractId = proxyAddress, cc_facet = facet, cc_function = functionName,
                  cc_params = params, cc_gas = gasLimit, cc_payableAmount = value\<rparr> in
      bindIO (act (SendContractCall call) (rn_send (wn_rpc N) call)) (\<lambda>txHash.
        ([], bindR (rn_wait (wn_rpc N) txHash) (\<lambda>receipt.
               rpc_manageResponse (wn_rpc N \<lparr>rn_wait := \<lambda>_. Inr receipt\<rparr>) txHash None))))))))"

text \<open>\<open>contractId.match(/^0\.0\.\d+$/)\<close>\<close>

definition hedera_contract_format :: "string \<Rightarrow> bool" where
  "hedera_contract_format s \<longleftrightarrow>
     js_startsWith s ''0.0.'' \<and> drop 4 s \<noteq> [] \<and> list_all is_digit (drop 4 s)"

text \<open>
  An EVM session calls the EVM address, looked up in the mirror node when only a Hedera identifier is known;
  a native session uses the method of the base class.
\<close>

definition wc_contractAddress :: "env \<Rightarrow> string \<Rightarrow> string option \<Rightarrow> string result" where
  "wc_contractAddress E contractId evmAddress =
     (case evmAddress of
        Some (c # cs) \<Rightarrow> Inr (c # cs)
      | _ \<Rightarrow>
          if hedera_contract_format contractId
          then bindR (mn_getContractInfo E contractId) (\<lambda>info. Inr (ci_evmAddress info))
          else Inr contractId)"

definition wc_executeContractCall ::
  "wc_net \<Rightarrow> env \<Rightarrow> wc_adapter \<Rightarrow> string \<Rightarrow> string \<Rightarrow> string \<Rightarrow> cparam list \<Rightarrow> int \<Rightarrow>
     transaction_type option \<Rightarrow> string option \<Rightarrow> string option \<Rightarrow> string option \<Rightarrow>
     (adapter_event, transaction_response) io" where
  "wc_executeContractCall N E W contractId facet functionName params gasLimit transactionType
       payableAmountHbar startDate evmAddress =
     (if isEvmSession W
      then withR (wc_contractAddress E contractId evmAddress) (\<lambda>addressToUse.
             executeEvmContractCall N W addressToUse facet functionName params gasLimit payableAmountHbar)
      else base_executeContractCall (wc_processTransaction N W) (wn_encodes N) contractId facet functionName
             params gasLimit transactionType payableAmountHbar startDate evmAddress)"

text \<open>The executor, once the account is resolved; \<open>acc\<close> is what \<open>getAccount\<close> returns.\<close>

definition wc_executor :: "wc_net \<Rightarrow> env \<Rightarrow> account \<Rightarrow> wc_adapter \<Rightarrow> adapter_event executor" where
  "wc_executor N E acc W =
     (let W' = W \<lparr>wc_account := Some acc\<rparr> in
      \<lparr>ex_getAccount = acc, ex_supportsEvmOperations = isEvmSession W',
       ex_processTransaction = wc_processTransaction N W',
       ex_executeContractCall = wc_executeContractCall N E W'\<rparr>)"

section \<open>Signing\<close>

text \<open>
  \<open>sign\<close>, for the multisignature flow: the first signature of the map that the wallet returns. An empty
  array of bytes is a value; \<open>signatureMap\<close> is \<open>None\<close> unless it is a string. The conversion of a caught
  error by \<open>JSON.stringify\<close> does not keep its message.
\<close>

definition first_signature :: "(byte list option \<times> byte list option) list \<Rightarrow> byte list result" where
  "first_signature sigPair =
     (case sigPair of
        [] \<Rightarrow> Inl (JsError ''No signatures found in signature map'')
      | (ed25519, ecdsa) # _ \<Rightarrow>
          of_option (JsError ''Signature is empty'') (case ed25519 of None \<Rightarrow> ecdsa | Some s \<Rightarrow> Some s))"

definition wc_signature :: "wc_net \<Rightarrow> account \<Rightarrow> byte list \<Rightarrow> string result" where
  "wc_signature N acc message =
     bindR (wn_bodyBytes N message (id_value (acc_id acc))) (\<lambda>body.
     bindR (of_option (JsError ''No body bytes found in frozen transaction'') body) (\<lambda>bodyBytes.
     bindR (wn_sign N (hedera_chainRef N) (signerAccountId N acc) bodyBytes) (\<lambda>signatureMap.
     bindR (of_option (JsError ''No signatureMap returned from WalletConnect sign'')
              (if signatureMap = Some [] then None else signatureMap)) (\<lambda>base64SigMap.
     bindR (wn_signatureMap N base64SigMap) (\<lambda>sigPair.
     bindR (first_signature sigPair) (\<lambda>signature. Inr (fromUint8Array signature)))))))"

definition wc_sign :: "wc_net \<Rightarrow> wc_adapter \<Rightarrow> sign_input \<Rightarrow> string result" where
  "wc_sign N W message =
     bindR (ensureInitialized W) (\<lambda>acc.
       if isEvmSession W
       then Inl (SigningError ''Multisig signing is not supported when connected with an EVM wallet via WalletConnect.''
                   (JsError []))
       else case message of
         SignBytes _ \<Rightarrow>
           Inl (SigningError ''Hedera WalletConnect must sign a transaction not a string'' (JsError []))
       | SignTransaction tx \<Rightarrow>
           if wn_consensusNodes N = None \<or> wn_consensusNodes N = Some []
           then Inl (JsError ''In order to sign multisignature transactions you must set consensus nodes for the environment'')
           else case wc_signature N acc tx of
             Inl e \<Rightarrow> Inl (SigningError [] e)
           | Inr s \<Rightarrow> Inr s)"

section \<open>The patched provider\<close>

text \<open>
  \<open>patchInitProviders\<close>: \<open>orig\<close>, the provider's own method, takes the session and may throw; the patched method
  calls it with the accounts of the Hedera chains only, when there are any, and puts the list back whether it
  throws or not. \<open>chain_of\<close> is \<open>ns:chainId\<close> of an account.
\<close>

definition chain_of :: "string \<Rightarrow> string" where
  "chain_of acc =
     (case js_split (CHR '':'') acc of
        ns # chainId # _ \<Rightarrow> ns @ '':'' @ chainId
      | [ns] \<Rightarrow> ns @ '':undefined''
      | [] \<Rightarrow> [])"

definition hederaEvmChains :: "string list" where
  "hederaEvmChains = [''eip155:295'', ''eip155:296'']"

definition hederaOnly :: "string list \<Rightarrow> string list" where
  "hederaOnly original = filter (\<lambda>acc. chain_of acc \<in> set hederaEvmChains) original"

text \<open>The result is that of \<open>orig\<close>, with the session afterwards: \<open>orig\<close> gives back the session it leaves.\<close>

definition patched_initProviders ::
  "(wc_session \<Rightarrow> wc_session \<times> unit result) \<Rightarrow> wc_session \<Rightarrow> wc_session \<times> unit result" where
  "patched_initProviders orig s =
     (case ws_eip155 s of
        None \<Rightarrow> orig s
      | Some original \<Rightarrow>
          if original = [] \<or> hederaOnly original = [] then orig s
          else (case orig (s \<lparr>ws_eip155 := Some (hederaOnly original)\<rparr>) of
                  (s', r) \<Rightarrow> (s' \<lparr>ws_eip155 := Some original\<rparr>, r)))"

section \<open>The executor keeps the interface\<close>

text \<open>The effects: the wallet executes a transaction or sends a contract call.\<close>

definition wc_submits :: "wc_adapter \<Rightarrow> adapter_event \<Rightarrow> bool" where
  "wc_submits W e \<longleftrightarrow>
     (if isEvmSession W then (\<exists>tx. e = ExecuteTransaction tx) \<or> (\<exists>call. e = SendContractCall call)
      else \<exists>tx. e = ExecuteTransaction tx)"

lemma native_once: "submits_once (wc_submits W) (executeNativeTransaction N W' tx)"
  unfolding executeNativeTransaction_def
  by (intro submits_rethrow submits_withR submits_ret submits_act) (simp add: wc_submits_def)

lemma evm_once: "isEvmSession W \<Longrightarrow> submits_once (wc_submits W) (executeEvmContractCall N W' a f n ps g pay)"
  unfolding executeEvmContractCall_def Let_def
  by (intro submits_withR)
    (auto simp: submits_def actions_bindIO outcome_bindIO_Inr wc_submits_def split: sum.splits)

lemma isEvmSession_account [simp]: "isEvmSession (W \<lparr>wc_account := a\<rparr>) = isEvmSession W"
  by (simp add: isEvmSession_def)

interpretation wallet_connect: single_submission "wc_submits W" "wc_executor N E acc W" for W N E acc
proof
  show "submits_once (wc_submits W) (ex_processTransaction (wc_executor N E acc W) tx tt sd)" for tx tt sd
    by (simp add: wc_executor_def Let_def wc_processTransaction_def native_once)
  show "submits_once (wc_submits W) (ex_executeContractCall (wc_executor N E acc W) c i f ps g tto pay sd evm)"
    for c i f ps g tto pay sd evm
    by (auto simp: wc_executor_def Let_def wc_executeContractCall_def wc_processTransaction_def
        intro!: submits_withR evm_once base_contract_once native_once)
qed

end
