(* ===== verification/Session_State.thy ===== *)
theory Session_State
  imports Mirror_Node Requests Wallet_Connect
begin

text \<open>
  The state of the SDK between two calls of its ports: \<open>NetworkService\<close>, the adapters that the network
  commands configure, the current transaction handler of \<open>Injectable\<close>, what each transaction adapter keeps
  of its connection, the listeners of \<open>EventService\<close> and the events emitted so far. Then the command
  handlers of \<open>sdk/src/app/usecase/command/network\<close> that change it and the registry of handlers.
  A computation on the state is an exception monad over it: what was assigned before an error stays.
\<close>

section \<open>State\<close>

datatype supported_wallet =
    METAMASK | HASHPACK | CLIENT | FIREBLOCKS | DFNS | MULTISIG | AWSKMS | HWALLETCONNECT

definition wallet_name :: "supported_wallet \<Rightarrow> string" where
  "wallet_name w =
     (case w of METAMASK \<Rightarrow> ''Metamask'' | HASHPACK \<Rightarrow> ''HashPack'' | CLIENT \<Rightarrow> ''Client''
      | FIREBLOCKS \<Rightarrow> ''Fireblocks'' | DFNS \<Rightarrow> ''DFNS'' | MULTISIG \<Rightarrow> ''MultiSig'' | AWSKMS \<Rightarrow> ''AWSKMS''
      | HWALLETCONNECT \<Rightarrow> ''HederaWalletConnect'')"

text \<open>The transaction adapters, singletons of the container.\<close>

datatype tx_handler =
    RpcHandler | ClientHandler | MultiSigHandler | HwcHandler | FireblocksHandler | DfnsHandler | AwsKmsHandler

text \<open>\<open>MirrorNode\<close> and \<open>JsonRpcRelay\<close>; their field \<open>name\<close> has no use.\<close>

record network_node =
  nd_baseUrl :: string
  nd_apiKey :: "string option"
  nd_headerName :: "string option"

record network_service =
  ns_environment :: string
  ns_mirrorNode :: network_node
  ns_rpcNode :: network_node
  ns_consensusNodes :: "(string \<times> string) list option"
  ns_configuration :: "(string \<times> string) option"
  ns_backend :: "string option"

text \<open>The events of \<open>WalletEvent.ts\<close> that the adapters emit, with their data.\<close>

record paired_network =
  pn_name :: string
  pn_recognized :: bool
  pn_factoryId :: string
  pn_resolverId :: "string option"

datatype wallet_event =
    WalletInit supported_wallet "account option"
  | WalletFound supported_wallet
  | WalletPaired supported_wallet "account option" paired_network "bool option"
  | WalletConnectionStatusChanged supported_wallet string
  | WalletDisconnect supported_wallet

text \<open>
  \<open>se_mirror\<close> and \<open>se_rpcUrl\<close> are the configuration of \<open>MirrorNodeAdapter\<close> and the url of the provider of
  \<open>RPCQueryAdapter\<close>, \<open>None\<close> before the first network command. \<open>se_client\<close> is the SDK's client of an
  adapter: its network and whether it is open. The adapter of WalletConnect keeps its provider and whether
  it has an \<open>appKit\<close>; \<open>se_hwcStops\<close> counts the calls of its \<open>stop\<close> that nobody awaits and that have not
  finished. The lists by environment are those of the MetaMask adapter.
\<close>

record session =
  se_network :: network_service
  se_mirror :: "network_node option"
  se_rpcUrl :: "string option"
  se_backend :: "string option"
  se_handler :: "tx_handler option"
  se_account :: "tx_handler \<Rightarrow> account option"
  se_client :: "tx_handler \<Rightarrow> (string \<times> bool) option"
  se_custodial :: "tx_handler \<Rightarrow> bool"
  se_hwcProvider :: "wc_provider option"
  se_appKit :: bool
  se_hwcStops :: nat
  se_mirrorNodes :: "(string \<times> network_node) list option"
  se_jsonRpcRelays :: "(string \<times> network_node) list option"
  se_factories :: "(string \<times> string) list option"
  se_resolvers :: "(string \<times> string) list option"
  se_listeners :: "(string \<times> nat) list"
  se_emitted :: "(wallet_event \<times> nat list) list"

definition start_network :: network_service where
  "start_network =
     \<lparr>ns_environment = ''testnet'',
      ns_mirrorNode = \<lparr>nd_baseUrl = ''https://testnet.mirrornode.hedera.com'', nd_apiKey = None, nd_headerName = None\<rparr>,
      ns_rpcNode = \<lparr>nd_baseUrl = ''https://testnet.hashio.io/api'', nd_apiKey = None, nd_headerName = None\<rparr>,
      ns_consensusNodes = None, ns_configuration = None, ns_backend = None\<rparr>"

definition start_session :: session where
  "start_session =
     \<lparr>se_network = start_network, se_mirror = None, se_rpcUrl = None, se_backend = None, se_handler = None,
      se_account = (\<lambda>_. None), se_client = (\<lambda>_. None), se_custodial = (\<lambda>_. False), se_hwcProvider = None,
      se_appKit = False, se_hwcStops = 0, se_mirrorNodes = None, se_jsonRpcRelays = None, se_factories = None,
      se_resolvers = None, se_listeners = [], se_emitted = []\<rparr>"

section \<open>Computations on the state\<close>

type_synonym 'a stateful = "session \<Rightarrow> session \<times> 'a result"

definition returnS :: "'a \<Rightarrow> 'a stateful" where "returnS x s = (s, Inr x)"
definition throwS :: "js_error \<Rightarrow> 'a stateful" where "throwS e s = (s, Inl e)"
definition liftS :: "'a result \<Rightarrow> 'a stateful" where "liftS r s = (s, r)"
definition modifyS :: "(session \<Rightarrow> session) \<Rightarrow> unit stateful" where "modifyS f s = (f s, Inr ())"
definition readS :: "(session \<Rightarrow> 'a stateful) \<Rightarrow> 'a stateful" where "readS f s = f s s"

definition bindS :: "'a stateful \<Rightarrow> ('a \<Rightarrow> 'b stateful) \<Rightarrow> 'b stateful" where
  "bindS m f s = (case m s of (s', Inl e) \<Rightarrow> (s', Inl e) | (s', Inr x) \<Rightarrow> f x s')"

definition thenS :: "'a stateful \<Rightarrow> 'b stateful \<Rightarrow> 'b stateful" where
  "thenS m m' = bindS m (\<lambda>_. m')"

text \<open>\<open>try { m } catch (e) { throw h(e) }\<close>, and \<open>try { m } catch (e) { }\<close> with the value as an option.\<close>

definition rethrowS :: "'a stateful \<Rightarrow> (js_error \<Rightarrow> js_error) \<Rightarrow> 'a stateful" where
  "rethrowS m h s = (case m s of (s', Inl e) \<Rightarrow> (s', Inl (h e)) | (s', Inr x) \<Rightarrow> (s', Inr x))"

section \<open>Events\<close>

definition WalletEvents :: "string list" where
  "WalletEvents =
     [''walletInit'', ''walletFound'', ''walletPaired'', ''walletConnectionStatusChanged'',
      ''walletAcknowledgeMessage'', ''walletDisconnect'']"

definition event_name :: "wallet_event \<Rightarrow> string" where
  "event_name e =
     (case e of WalletInit _ _ \<Rightarrow> ''walletInit'' | WalletFound _ \<Rightarrow> ''walletFound''
      | WalletPaired _ _ _ _ \<Rightarrow> ''walletPaired''
      | WalletConnectionStatusChanged _ _ \<Rightarrow> ''walletConnectionStatusChanged''
      | WalletDisconnect _ \<Rightarrow> ''walletDisconnect'')"

text \<open>\<open>EventService.on\<close> and \<open>emit\<close>: an event goes to the listeners of its name, in the order of their registration.\<close>

definition event_on :: "string \<Rightarrow> nat \<Rightarrow> unit stateful" where
  "event_on event listener =
     (if event \<notin> set WalletEvents then throwS (WalletError (EventListenerNotFound event))
      else modifyS (\<lambda>s. s \<lparr>se_listeners := se_listeners s @ [(event, listener)]\<rparr>))"

definition listeners_of :: "session \<Rightarrow> string \<Rightarrow> nat list" where
  "listeners_of s event = map snd (filter (\<lambda>(n, _). n = event) (se_listeners s))"

definition emit :: "wallet_event \<Rightarrow> unit stateful" where
  "emit e =
     (if event_name e \<notin> set WalletEvents then throwS (WalletError (EventNotFound (event_name e)))
      else modifyS (\<lambda>s. s \<lparr>se_emitted := se_emitted s @ [(e, listeners_of s (event_name e))]\<rparr>))"

text \<open>\<open>Event.register\<close>: names that are not wallet events are skipped.\<close>

fun event_register :: "(string \<times> nat) list \<Rightarrow> unit stateful" where
  "event_register [] = returnS ()"
| "event_register ((name, cll) # events) =
     thenS (if name \<in> set WalletEvents then event_on name cll else returnS ()) (event_register events)"

section \<open>Network commands\<close>

definition with_slash :: "string \<Rightarrow> string" where
  "with_slash url = (if js_endsWith url ''/'' then url else url @ ''/'')"

text \<open>
  \<open>MirrorNodeAdapter.set\<close> writes the normalised url into the object that it was given, which is the one that
  \<open>NetworkService\<close> keeps. \<open>RPCQueryAdapter.init\<close> builds the url of its provider from the url of the node and
  its key.
\<close>

definition normalised :: "network_node \<Rightarrow> network_node" where
  "normalised n = n \<lparr>nd_baseUrl := with_slash (nd_baseUrl n)\<rparr>"

definition LOCAL_JSON_RPC_RELAY_URL :: string where
  "LOCAL_JSON_RPC_RELAY_URL = ''http://127.0.0.1:7546/api''"

definition rpc_query_url :: "network_node \<Rightarrow> string" where
  "rpc_query_url n =
     (if nd_baseUrl n = [] then LOCAL_JSON_RPC_RELAY_URL
      else case nd_apiKey n of None \<Rightarrow> nd_baseUrl n | Some k \<Rightarrow> nd_baseUrl n @ k)"

record network_response =
  nr_environment :: string
  nr_mirrorNode :: network_node
  nr_rpcNode :: network_node
  nr_consensusNodes :: "(string \<times> string) list"

definition setNetwork_handler ::
  "string \<Rightarrow> network_node \<Rightarrow> network_node option \<Rightarrow> (string \<times> string) list option \<Rightarrow> network_response stateful" where
  "setNetwork_handler environment mirrorNode rpcNode consensusNodes =
     thenS (modifyS (\<lambda>s. s \<lparr>se_network := se_network s \<lparr>ns_environment := environment\<rparr>\<rparr>))
     (thenS (modifyS (\<lambda>s.
        case consensusNodes of None \<Rightarrow> s
        | Some ns \<Rightarrow> s \<lparr>se_network := se_network s \<lparr>ns_consensusNodes := Some ns\<rparr>\<rparr>))
     (thenS (modifyS (\<lambda>s.
        case rpcNode of None \<Rightarrow> s | Some n \<Rightarrow> s \<lparr>se_network := se_network s \<lparr>ns_rpcNode := n\<rparr>\<rparr>))
     (thenS (modifyS (\<lambda>s. s \<lparr>se_mirror := Some (normalised mirrorNode)\<rparr>))
     (thenS (modifyS (\<lambda>s. s \<lparr>se_network := se_network s \<lparr>ns_mirrorNode := normalised mirrorNode\<rparr>\<rparr>))
     (thenS (modifyS (\<lambda>s. s \<lparr>se_rpcUrl := Some (rpc_query_url (ns_rpcNode (se_network s)))\<rparr>))
     (readS (\<lambda>s. returnS
        \<lparr>nr_environment = ns_environment (se_network s), nr_mirrorNode = ns_mirrorNode (se_network s),
         nr_rpcNode = ns_rpcNode (se_network s),
         nr_consensusNodes = (case ns_consensusNodes (se_network s) of None \<Rightarrow> [] | Some l \<Rightarrow> l)\<rparr>)))))))"

definition setConfiguration_handler :: "string \<Rightarrow> string \<Rightarrow> (string \<times> string) stateful" where
  "setConfiguration_handler factoryAddress resolverAddress =
     thenS (modifyS (\<lambda>s. s \<lparr>se_network := se_network s \<lparr>ns_configuration := Some (factoryAddress, resolverAddress)\<rparr>\<rparr>))
       (returnS (factoryAddress, resolverAddress))"

text \<open>\<open>BackendAdapter.set\<close> normalises the url in the object, as the mirror adapter does.\<close>

definition setBackend_handler :: "string \<Rightarrow> string stateful" where
  "setBackend_handler url =
     thenS (modifyS (\<lambda>s. s \<lparr>se_backend := Some (with_slash url)\<rparr>))
     (thenS (modifyS (\<lambda>s. s \<lparr>se_network := se_network s \<lparr>ns_backend := Some (with_slash url)\<rparr>\<rparr>))
       (returnS (with_slash url)))"

section \<open>What the outside answers\<close>

text \<open>
  During one call. \<open>wo_mirror\<close> is the mirror node behind a configuration. For the SDK's client of a network:
  \<open>wo_forName\<close> (\<open>Client.forName\<close>), \<open>wo_setOperator\<close> with a private key and \<open>wo_setOperatorWith\<close> with the
  key of a custodian; \<open>wo_custodialService\<close> builds the custodian's service. MetaMask: the detection
  (\<open>isMetaMask\<close> of the provider, when there is one), \<open>isConnected\<close>, the requests of accounts and chain, and
  \<open>getSigner\<close>. WalletConnect: \<open>HederaProvider.init\<close>, the state of the provider when the pairing ends,
  its accounts, \<open>disconnect\<close> of the provider and of the \<open>appKit\<close>; \<open>wo_stops\<close> says when the pending calls of
  \<open>stop\<close> finish: before the new provider is assigned, while the pairing waits, or after the call.
\<close>

datatype stop_time = BeforeProvider | DuringPairing | AfterCall

record world =
  wo_isWeb :: bool
  wo_mirror :: "network_node \<Rightarrow> mirror"
  wo_forName :: "string \<Rightarrow> unit result"
  wo_setOperator :: "string \<Rightarrow> private_key \<Rightarrow> unit result"
  wo_setOperatorWith :: "string \<Rightarrow> string \<Rightarrow> unit result"
  wo_custodialService :: "tx_handler \<Rightarrow> unit result"
  wo_detect :: "bool option result"
  wo_isConnected :: bool
  wo_requestAccounts :: "string list option result"
  wo_chainId :: "string result"
  wo_getSigner :: "unit result"
  wo_hwcInit :: "unit result"
  wo_pairing :: "wc_provider result"
  wo_accountAddresses :: "wc_provider \<Rightarrow> string list"
  wo_disconnect :: "unit result"
  wo_stops :: stop_time

text \<open>
  \<open>getAccountInfo\<close> of the mirror adapter; an identifier that is \<open>undefined\<close> and an adapter without
  configuration throw inside of its \<open>try\<close>.
\<close>

definition mirror_account :: "world \<Rightarrow> string option \<Rightarrow> account_view stateful" where
  "mirror_account W accountId =
     readS (\<lambda>s. liftS (case (se_mirror s, accountId) of
        (Some node, Some i) \<Rightarrow> mirror_getAccountInfo (wo_mirror W node) i
      | _ \<Rightarrow> Inl (InvalidResponse (Some TypeError))))"

section \<open>The registry of handlers\<close>

text \<open>\<open>TransactionService.getHandlerClass\<close>: HashPack and any other wallet get the client's adapter.\<close>

definition getHandlerClass :: "world \<Rightarrow> supported_wallet \<Rightarrow> tx_handler result" where
  "getHandlerClass W type =
     (case type of
        METAMASK \<Rightarrow>
          if \<not> wo_isWeb W then Inl (WalletError (InvalidWalletTypeError (wallet_name type))) else Inr RpcHandler
      | FIREBLOCKS \<Rightarrow> Inr FireblocksHandler
      | DFNS \<Rightarrow> Inr DfnsHandler
      | MULTISIG \<Rightarrow> Inr MultiSigHandler
      | HWALLETCONNECT \<Rightarrow> Inr HwcHandler
      | AWSKMS \<Rightarrow> Inr AwsKmsHandler
      | _ \<Rightarrow> Inr ClientHandler)"

definition wallet_of :: "tx_handler \<Rightarrow> supported_wallet" where
  "wallet_of h =
     (case h of RpcHandler \<Rightarrow> METAMASK | ClientHandler \<Rightarrow> CLIENT | MultiSigHandler \<Rightarrow> MULTISIG
      | HwcHandler \<Rightarrow> HWALLETCONNECT | FireblocksHandler \<Rightarrow> FIREBLOCKS | DfnsHandler \<Rightarrow> DFNS
      | AwsKmsHandler \<Rightarrow> AWSKMS)"

text \<open>\<open>registerTransactionAdapterInstances\<close>\<close>

definition adapter_instances :: "world \<Rightarrow> tx_handler list" where
  "adapter_instances W =
     (if wo_isWeb W then [RpcHandler, FireblocksHandler, DfnsHandler, HwcHandler, AwsKmsHandler]
      else [ClientHandler]) @ [MultiSigHandler]"

text \<open>
  \<open>stop\<close> of the WalletConnect adapter after its first \<open>await\<close>; an error leaves everything as it is.
\<close>

definition hwc_stopped :: "world \<Rightarrow> bool stateful" where
  "hwc_stopped W =
     readS (\<lambda>s.
       case (if se_hwcProvider s = None \<and> \<not> se_appKit s then Inr () else wo_disconnect W) of
         Inl _ \<Rightarrow> returnS False
       | Inr _ \<Rightarrow>
           thenS (modifyS (\<lambda>s. s \<lparr>se_hwcProvider := None, se_appKit := False\<rparr>))
             (thenS (emit (WalletDisconnect HWALLETCONNECT)) (returnS True)))"

definition close_client :: "tx_handler \<Rightarrow> unit stateful" where
  "close_client h =
     modifyS (\<lambda>s. s \<lparr>se_client := (se_client s)(h := map_option (\<lambda>(n, _). (n, False)) (se_client s h))\<rparr>)"

definition stop :: "world \<Rightarrow> tx_handler \<Rightarrow> bool stateful" where
  "stop W h =
     (case h of
        RpcHandler \<Rightarrow>
          thenS (emit (WalletConnectionStatusChanged METAMASK ''Disconnected''))
            (thenS (emit (WalletDisconnect METAMASK)) (returnS True))
      | MultiSigHandler \<Rightarrow> thenS (emit (WalletDisconnect MULTISIG)) (returnS True)
      | HwcHandler \<Rightarrow> hwc_stopped W
      | _ \<Rightarrow> thenS (close_client h) (thenS (emit (WalletDisconnect (wallet_of h))) (returnS True)))"

text \<open>
  \<open>Injectable.registerTransactionHandler\<close> calls \<open>stop\<close> of the previous handler without awaiting it: all
  adapters but WalletConnect's finish at once.
\<close>

definition registerTransactionHandler :: "world \<Rightarrow> tx_handler \<Rightarrow> unit stateful" where
  "registerTransactionHandler W h =
     thenS (readS (\<lambda>s. case se_handler s of
         None \<Rightarrow> returnS ()
       | Some old \<Rightarrow>
           if old = HwcHandler then modifyS (\<lambda>s. s \<lparr>se_hwcStops := Suc (se_hwcStops s)\<rparr>)
           else thenS (stop W old) (returnS ())))
     (modifyS (\<lambda>s. s \<lparr>se_handler := Some h\<rparr>))"

definition resolveTransactionHandler :: "session \<Rightarrow> tx_handler result" where
  "resolveTransactionHandler s = of_option (RuntimeError ''No Transaction Handler registered!'') (se_handler s)"

text \<open>The pending calls of \<open>stop\<close> finish.\<close>

fun finish_calls :: "world \<Rightarrow> nat \<Rightarrow> unit stateful" where
  "finish_calls W 0 = returnS ()"
| "finish_calls W (Suc n) = thenS (hwc_stopped W) (finish_calls W n)"

definition finish_stops :: "world \<Rightarrow> unit stateful" where
  "finish_stops W =
     readS (\<lambda>s. thenS (finish_calls W (se_hwcStops s)) (modifyS (\<lambda>s. s \<lparr>se_hwcStops := 0\<rparr>)))"

definition disconnect_handler :: "world \<Rightarrow> bool stateful" where
  "disconnect_handler W = readS (\<lambda>s. bindS (liftS (resolveTransactionHandler s)) (stop W))"

end
