(* ===== verification/Wallet_Handlers.thy ===== *)
theory Wallet_Handlers
  imports Session_State
begin

text \<open>
  The connection side of the transaction adapters (\<open>sdk/src/port/out\<close>): \<open>init\<close> and \<open>register\<close> of each, the
  pairing and the two events of MetaMask, and the session of WalletConnect, on the state of
  \<open>Session_State\<close>.
\<close>

section \<open>Input of a registration\<close>

text \<open>
  What \<open>ConnectCommandHandler\<close> hands to \<open>register\<close>: an account (or \<open>undefined\<close>), the settings of a custodian
  (of which the adapters read the account), or those of WalletConnect. An adapter that gets the wrong kind
  reads \<open>undefined\<close> from it.
\<close>

datatype connect_input =
    InputAccount "account option"
  | InputCustodial string
  | InputWalletConnect

definition configured :: "session \<Rightarrow> (string \<times> string)" where
  "configured s = (case ns_configuration (se_network s) of None \<Rightarrow> ([], []) | Some c \<Rightarrow> c)"

definition network_data :: "session \<Rightarrow> bool \<Rightarrow> string option \<Rightarrow> paired_network" where
  "network_data s recognized resolverId =
     \<lparr>pn_name = ns_environment (se_network s), pn_recognized = recognized,
      pn_factoryId = fst (configured s), pn_resolverId = resolverId\<rparr>"

definition set_account :: "tx_handler \<Rightarrow> account \<Rightarrow> unit stateful" where
  "set_account h acc = modifyS (\<lambda>s. s \<lparr>se_account := (se_account s)(h := Some acc)\<rparr>)"

definition set_client :: "tx_handler \<Rightarrow> string \<Rightarrow> unit stateful" where
  "set_client h network = modifyS (\<lambda>s. s \<lparr>se_client := (se_client s)(h := Some (network, True))\<rparr>)"

definition emit_paired :: "tx_handler \<Rightarrow> unit stateful" where
  "emit_paired h =
     readS (\<lambda>s. emit (WalletPaired (wallet_of h) (se_account s h) (network_data s True None) None))"

section \<open>Client\<close>

text \<open>Each \<open>register\<close> is the registration of the handler followed by the rest, which is a definition of its own.\<close>

definition client_attach :: "world \<Rightarrow> connect_input \<Rightarrow> account option stateful" where
  "client_attach W input =
      (case input of
         InputAccount None \<Rightarrow> throwS TypeError
       | InputAccount (Some account) \<Rightarrow>
           bindS (mirror_account W (Some (id_value (acc_id account)))) (\<lambda>accountMirror.
           thenS (set_account ClientHandler (account \<lparr>acc_publicKey := ai_publicKey accountMirror\<rparr>))
           (readS (\<lambda>s. let network = ns_environment (se_network s) in
              thenS (liftS (wo_forName W network))
              (thenS (set_client ClientHandler network)
              (case acc_privateKey account of
                 None \<Rightarrow> throwS (WalletError (WalletConnectError ''A private key is needed for the account''))
               | Some privateKey \<Rightarrow>
                   thenS (liftS (wo_setOperator W (id_value (acc_id account)) privateKey))
                   (thenS (emit_paired ClientHandler)
                   (readS (\<lambda>s. returnS (se_account s ClientHandler)))))))))
       | _ \<Rightarrow> bindS (mirror_account W None) (\<lambda>_. throwS TypeError))"

definition client_register :: "world \<Rightarrow> connect_input \<Rightarrow> account option stateful" where
  "client_register W input = thenS (registerTransactionHandler W ClientHandler) (client_attach W input)"

section \<open>Custodians\<close>

definition initClient :: "world \<Rightarrow> tx_handler \<Rightarrow> string \<Rightarrow> string \<Rightarrow> unit stateful" where
  "initClient W h accountId publicKey =
     readS (\<lambda>s. let currentNetwork = ns_environment (se_network s) in
       if currentNetwork \<in> {''testnet'', ''mainnet'', ''previewnet''}
       then thenS (set_client h currentNetwork) (liftS (wo_setOperatorWith W accountId publicKey))
       else throwS (JsError ''Network not supported''))"

definition custodial_attach :: "world \<Rightarrow> tx_handler \<Rightarrow> connect_input \<Rightarrow> account option stateful" where
  "custodial_attach W h input =
      (case input of
         InputAccount None \<Rightarrow> throwS TypeError
       | InputCustodial hederaAccountId \<Rightarrow>
           bindS (mirror_account W (Some hederaAccountId)) (\<lambda>accountMirror.
             case ai_publicKey accountMirror of
               None \<Rightarrow> throwS (JsError ''PublicKey not found in the mirror node'')
             | Some publicKey \<Rightarrow>
                 bindS (liftS (new_Account hederaAccountId None None (Some publicKey) None)) (\<lambda>account.
                 thenS (set_account h account)
                 (thenS (liftS (wo_custodialService W h))
                 (thenS (modifyS (\<lambda>s. s \<lparr>se_custodial := (se_custodial s)(h := True)\<rparr>))
                 (thenS (initClient W h hederaAccountId (pk_key publicKey))
                 (thenS (emit_paired h)
                 (readS (\<lambda>s. returnS (se_account s h)))))))))
       | _ \<Rightarrow> bindS (mirror_account W None) (\<lambda>_. throwS TypeError))"

definition custodial_register :: "world \<Rightarrow> tx_handler \<Rightarrow> connect_input \<Rightarrow> account option stateful" where
  "custodial_register W h input = thenS (registerTransactionHandler W h) (custodial_attach W h input)"

section \<open>Multisignature\<close>

definition multisig_attach :: "world \<Rightarrow> connect_input \<Rightarrow> account option stateful" where
  "multisig_attach W input =
      (case input of
         InputAccount None \<Rightarrow> throwS TypeError
       | InputAccount (Some account) \<Rightarrow>
           bindS (mirror_account W (Some (id_value (acc_id account)))) (\<lambda>accountMirror.
             case av_multiKey accountMirror of
               None \<Rightarrow> throwS (JsError ''multiKey not found in the mirror node'')
             | Some multiKey \<Rightarrow>
                 thenS (set_account MultiSigHandler
                    (account \<lparr>acc_publicKey := ai_publicKey accountMirror, acc_multiKey := Some multiKey,
                              acc_evmAddress := ai_evmAddress accountMirror\<rparr>))
                 (thenS (emit_paired MultiSigHandler)
                 (readS (\<lambda>s. returnS (se_account s MultiSigHandler)))))
       | _ \<Rightarrow> bindS (mirror_account W None) (\<lambda>_. throwS TypeError))"

definition multisig_register :: "world \<Rightarrow> connect_input \<Rightarrow> account option stateful" where
  "multisig_register W input = thenS (registerTransactionHandler W MultiSigHandler) (multisig_attach W input)"

section \<open>MetaMask\<close>

fun hex_str :: "nat \<Rightarrow> string" where
  "hex_str n = (if n < 16 then [hex_char n] else hex_str (n div 16) @ [hex_char (n mod 16)])"

declare hex_str.simps [simp del]

definition HederaNetworks :: "(string \<times> nat) list" where
  "HederaNetworks = [(''testnet'', 296), (''previewnet'', 297), (''mainnet'', 295), (''local'', 298)]"

definition empty_node :: network_node where
  "empty_node = \<lparr>nd_baseUrl = [], nd_apiKey = Some [], nd_headerName = Some []\<rparr>"

text \<open>The entry of an environment in a list that \<open>Network.init\<close> may have given.\<close>

definition listed :: "(string \<times> 'a) list option \<Rightarrow> string \<Rightarrow> 'a \<Rightarrow> 'a" where
  "listed l network absent =
     (case l of None \<Rightarrow> absent
      | Some entries \<Rightarrow> (case map_of entries network of None \<Rightarrow> absent | Some x \<Rightarrow> x))"

text \<open>
  \<open>setMetamaskNetwork\<close>: the network, the nodes and the contracts that go with a chain. The command is
  executed without consensus nodes.
\<close>

definition setMetamaskNetwork :: "world \<Rightarrow> string \<Rightarrow> unit stateful" where
  "setMetamaskNetwork W chainId =
     readS (\<lambda>s.
       thenS (case find (\<lambda>(_, i). ''0x'' @ hex_str i = chainId) HederaNetworks of
           None \<Rightarrow>
             thenS (setNetwork_handler ''unrecognized'' empty_node (Some empty_node) None)
               (setConfiguration_handler [] [])
         | Some (network, _) \<Rightarrow>
             thenS (setNetwork_handler network (listed (se_mirrorNodes s) network empty_node)
                      (Some (listed (se_jsonRpcRelays s) network empty_node)) None)
               (setConfiguration_handler (listed (se_factories s) network [])
                  (listed (se_resolvers s) network [])))
       (liftS (wo_getSigner W)))"

text \<open>\<open>setMetasmaskAccount\<close>: an account that the mirror node does not give becomes the null account.\<close>

definition Account_NULL :: account where
  "Account_NULL =
     \<lparr>acc_id = HederaId_NULL, acc_evmAddress = None, acc_privateKey = None, acc_publicKey = None, acc_multiKey = None\<rparr>"

definition setMetamaskAccount :: "world \<Rightarrow> string option \<Rightarrow> unit stateful" where
  "setMetamaskAccount W evmAddress =
     readS (\<lambda>s.
       case snd (mirror_account W evmAddress s) of
         Inl _ \<Rightarrow> set_account RpcHandler Account_NULL
       | Inr mirrorAccount \<Rightarrow>
           bindS (liftS (HederaId_from (ai_id mirrorAccount))) (\<lambda>i.
           thenS (set_account RpcHandler
              \<lparr>acc_id = i, acc_evmAddress = ai_evmAddress mirrorAccount, acc_privateKey = None,
               acc_publicKey = ai_publicKey mirrorAccount, acc_multiKey = None\<rparr>)
             (liftS (wo_getSigner W))))"

definition recognized :: "session \<Rightarrow> bool" where
  "recognized s \<longleftrightarrow> ns_environment (se_network s) \<noteq> ''unrecognized''"

definition emit_metamask_paired :: "unit stateful" where
  "emit_metamask_paired =
     readS (\<lambda>s. emit (WalletPaired METAMASK (se_account s RpcHandler)
       (network_data s (recognized s) (Some (snd (configured s)))) None))"

definition pairWallet :: "world \<Rightarrow> unit stateful" where
  "pairWallet W =
     bindS (liftS (wo_requestAccounts W)) (\<lambda>accts.
       case accts of
         Some accounts \<Rightarrow>
           bindS (liftS (wo_chainId W)) (\<lambda>chainId.
           thenS (setMetamaskNetwork W chainId)
           (thenS (setMetamaskAccount W (case accounts of [] \<Rightarrow> None | a # _ \<Rightarrow> Some a))
              emit_metamask_paired))
       | None \<Rightarrow> emit (WalletDisconnect METAMASK))"

text \<open>The errors of the connection: rejected by the user (code 4001), those of the code itself, and others.\<close>

fun connection_error :: "js_error \<Rightarrow> js_error" where
  "connection_error (ProviderError props) =
     (if map_of props ''code'' = Some ''4001'' then WalletError (WalletConnectRejectedError (wallet_name METAMASK))
      else RuntimeError (case map_of props ''message'' of None \<Rightarrow> [] | Some m \<Rightarrow> m))"
| "connection_error (WalletError (WalletConnectError m)) = WalletError (WalletConnectError m)"
| "connection_error (JsError m) = RuntimeError m"
| "connection_error _ = RuntimeError []"

definition connectMetamask :: "world \<Rightarrow> bool \<Rightarrow> unit stateful" where
  "connectMetamask W pair =
     rethrowS
      (bindS (liftS (wo_detect W)) (\<lambda>ethProvider.
         case ethProvider of
           None \<Rightarrow> returnS ()
         | Some isMetaMask \<Rightarrow>
             thenS (emit (WalletFound METAMASK))
             (if \<not> isMetaMask then throwS (WalletError (WalletConnectError ''Metamask was not found!''))
              else if pair \<and> \<not> wo_isConnected W
              then throwS (WalletError (WalletConnectError ''Metamask is not connected!''))
              else thenS (if pair then pairWallet W else returnS ()) (liftS (wo_getSigner W)))))
      connection_error"

definition rpc_register :: "world \<Rightarrow> connect_input \<Rightarrow> account option stateful" where
  "rpc_register W input =
     thenS (case input of
         InputAccount None \<Rightarrow> returnS ()
       | InputAccount (Some account) \<Rightarrow>
           bindS (mirror_account W (Some (id_value (acc_id account)))) (\<lambda>accountMirror.
             set_account RpcHandler (account \<lparr>acc_publicKey := ai_publicKey accountMirror\<rparr>))
       | _ \<Rightarrow> bindS (mirror_account W None) (\<lambda>_. throwS TypeError))
     (thenS (registerTransactionHandler W RpcHandler)
     (thenS (connectMetamask W True)
       (returnS (case input of
          InputAccount (Some account) \<Rightarrow> Some account | _ \<Rightarrow> None))))"

text \<open>
  The listeners of MetaMask that \<open>registerMetamaskEvents\<close> installs when the adapter is built, whoever the
  current handler is. The first one reads \<open>configuration\<close> without looking whether there is one.
\<close>

definition accountsChanged :: "world \<Rightarrow> string list \<Rightarrow> unit stateful" where
  "accountsChanged W accounts =
     readS (\<lambda>s.
       case (accounts, se_account s RpcHandler) of
         (a # _, Some account) \<Rightarrow>
           if acc_evmAddress account = Some a then emit (WalletDisconnect METAMASK)
           else thenS (setMetamaskAccount W (Some a))
             (readS (\<lambda>s. case ns_configuration (se_network s) of
                 None \<Rightarrow> throwS TypeError
               | Some _ \<Rightarrow> emit_metamask_paired))
       | _ \<Rightarrow> emit (WalletDisconnect METAMASK))"

definition chainChanged :: "world \<Rightarrow> string \<Rightarrow> unit stateful" where
  "chainChanged W chainId =
     thenS (setMetamaskNetwork W chainId)
     (readS (\<lambda>s. case se_account s RpcHandler of
         None \<Rightarrow> throwS TypeError
       | Some account \<Rightarrow>
           bindS (case acc_evmAddress account of
               Some (c # cs) \<Rightarrow> returnS (Some (c # cs))
             | _ \<Rightarrow> bindS (liftS (wo_requestAccounts W)) (\<lambda>accts.
                 returnS (case accts of None \<Rightarrow> Some [] | Some [] \<Rightarrow> None | Some (a # _) \<Rightarrow> Some a)))
           (\<lambda>evmAddress. thenS (setMetamaskAccount W evmAddress) emit_metamask_paired)))"

section \<open>WalletConnect\<close>

text \<open>
  The chains in the order in which they are offered to the wallet, and the url that the provider uses; the
  rest of the options is constant.
\<close>

definition ordered :: "string \<Rightarrow> 'a \<Rightarrow> 'a \<Rightarrow> 'a list" where
  "ordered currentNetwork test main = (if currentNetwork = ''testnet'' then [test, main] else [main, test])"

definition offered_chains :: "string \<Rightarrow> string list \<times> string list" where
  "offered_chains currentNetwork =
     (ordered currentNetwork ''hedera:testnet'' ''hedera:mainnet'',
      ordered currentNetwork ''eip155:296'' ''eip155:295'')"

definition hashio :: "bool \<Rightarrow> string" where
  "hashio test = (if test then ''https://testnet.hashio.io/api'' else ''https://mainnet.hashio.io/api'')"

text \<open>\<open>rpcMap\<close>: both entries get the node's url on the testnet, and neither on any other network.\<close>

definition wc_rpcMap :: "network_service \<Rightarrow> string \<Rightarrow> (string \<times> string) list" where
  "wc_rpcMap ns currentNetwork =
     (let isTest = currentNetwork = ''testnet'';
          rpcUrl = (if nd_baseUrl (ns_rpcNode ns) = [] then hashio isTest else nd_baseUrl (ns_rpcNode ns))
      in [(''eip155:296'', if isTest then rpcUrl else hashio True),
          (''eip155:295'', if isTest then rpcUrl else hashio False)])"

definition initAdaptersAndProvider :: "world \<Rightarrow> unit stateful" where
  "initAdaptersAndProvider W =
     thenS (liftS (wo_hwcInit W))
     (thenS (if wo_stops W = BeforeProvider then finish_stops W else returnS ())
     (modifyS (\<lambda>s. s \<lparr>se_hwcProvider := Some \<lparr>pr_session = None, pr_eip155Provider = False\<rparr>, se_appKit := True\<rparr>)))"

text \<open>The approval of the wallet, or the timeout: the provider that the pairing leaves.\<close>

definition openPairingModal :: "world \<Rightarrow> unit stateful" where
  "openPairingModal W =
     readS (\<lambda>s. if \<not> se_appKit s then throwS (JsError ''AppKit not initialized'')
       else bindS (liftS (wo_pairing W)) (\<lambda>p.
         thenS (modifyS (\<lambda>s. s \<lparr>se_hwcProvider := Some p\<rparr>))
           (if wo_stops W = DuringPairing then finish_stops W else returnS ())))"

definition session_adapter :: "session \<Rightarrow> wc_adapter" where
  "session_adapter s = \<lparr>wc_account = se_account s HwcHandler, wc_provider = se_hwcProvider s\<rparr>"

definition eip155_missing :: "session \<Rightarrow> bool" where
  "eip155_missing s \<longleftrightarrow>
     isEvmSession (session_adapter s) \<and>
     (case se_hwcProvider s of None \<Rightarrow> True | Some p \<Rightarrow> \<not> pr_eip155Provider p)"

definition resolveAndCacheAccount :: "world \<Rightarrow> string \<Rightarrow> unit stateful" where
  "resolveAndCacheAccount W currentNetwork =
     readS (\<lambda>s. case se_hwcProvider s of
         None \<Rightarrow> throwS (JsError ''HederaProvider not initialized after connection'')
       | Some p \<Rightarrow>
           (case wo_accountAddresses W p of
              [] \<Rightarrow> throwS (JsError ''No Hedera account from WalletConnect session'')
            | hederaAccount # _ \<Rightarrow>
                if hederaAccount = [] then throwS (JsError ''No Hedera account from WalletConnect session'')
                else bindS (rethrowS (mirror_account W (Some hederaAccount)) (\<lambda>_.
                    JsError (''Account '' @ hederaAccount @ '' does not exist in '' @ currentNetwork @
                      ''. Please create or import an account for this network in your wallet.''))) (\<lambda>accountMirror.
                  case ai_id accountMirror of
                    Some (c # cs) \<Rightarrow>
                      bindS (liftS (new_Account (c # cs) (ai_evmAddress accountMirror) None
                               (ai_publicKey accountMirror) None)) (\<lambda>account.
                      thenS (set_account HwcHandler account)
                      (readS (\<lambda>s. case ns_configuration (se_network s) of
                          None \<Rightarrow> throwS TypeError
                        | Some (factory, resolver) \<Rightarrow>
                            emit (WalletPaired HWALLETCONNECT (Some account)
                              \<lparr>pn_name = currentNetwork, pn_recognized = True, pn_factoryId = factory,
                               pn_resolverId = Some resolver\<rparr>
                              (Some (isEvmSession (session_adapter s)))))))
                  | _ \<Rightarrow> throwS (JsError (''Account '' @ hederaAccount @ '' does not exist in '' @ currentNetwork @
                      ''. Please verify your account exists in this network.'')))))"

definition connectWalletConnect :: "world \<Rightarrow> unit stateful" where
  "connectWalletConnect W =
     readS (\<lambda>s. let currentNetwork = ns_environment (se_network s) in
       thenS (initAdaptersAndProvider W)
       (thenS (openPairingModal W)
       (readS (\<lambda>s.
          if eip155_missing s
          then thenS (stop W HwcHandler) (throwS (JsError ''MetaMask is not connected to a Hedera EVM network''))
          else resolveAndCacheAccount W currentNetwork))))"

definition hwc_attach :: "world \<Rightarrow> connect_input \<Rightarrow> account option stateful" where
  "hwc_attach W input =
      (if input = InputAccount None then throwS (JsError ''Hedera WalletConnect settings not set'')
       else thenS (connectWalletConnect W) (readS (\<lambda>s. returnS (se_account s HwcHandler))))"

definition hwc_register :: "world \<Rightarrow> connect_input \<Rightarrow> account option stateful" where
  "hwc_register W input = thenS (registerTransactionHandler W HwcHandler) (hwc_attach W input)"

section \<open>All adapters\<close>

definition register :: "world \<Rightarrow> tx_handler \<Rightarrow> connect_input \<Rightarrow> account option stateful" where
  "register W h input =
     (case h of
        RpcHandler \<Rightarrow> rpc_register W input
      | ClientHandler \<Rightarrow> client_register W input
      | MultiSigHandler \<Rightarrow> multisig_register W input
      | HwcHandler \<Rightarrow> hwc_register W input
      | _ \<Rightarrow> custodial_register W h input)"

definition init_handler :: "world \<Rightarrow> tx_handler \<Rightarrow> string stateful" where
  "init_handler W h =
     thenS (if h = RpcHandler then connectMetamask W False else returnS ())
     (readS (\<lambda>s.
       thenS (emit (WalletInit (wallet_of h) (if h \<in> {RpcHandler, HwcHandler} then se_account s h else None)))
         (returnS (ns_environment (se_network s)))))"

text \<open>\<open>ConnectCommandHandler\<close>\<close>

definition connect_handler :: "world \<Rightarrow> supported_wallet \<Rightarrow> connect_input \<Rightarrow> account option stateful" where
  "connect_handler W wallet input =
     bindS (liftS (getHandlerClass W wallet)) (\<lambda>h. register W h input)"

end
