(* ===== verification/Network_Port.thy ===== *)
theory Network_Port
  imports Wallet_Handlers Input_Ports
begin

text \<open>
  The ports \<open>Network\<close> and \<open>Event\<close> of \<open>sdk/src/port/in\<close> with their requests, and the sessions that they
  lead to: \<open>session_step\<close> has a clause for every call of the ports and for everything that happens between
  two calls (an event of MetaMask, the end of a WalletConnect session, a pending \<open>stop\<close> that finishes).
\<close>

section \<open>Requests\<close>

definition SetNetworkRequest :: "string \<Rightarrow> request" where
  "SetNetworkRequest environment =
     \<lparr>rq_schema = [(''environment'', checkString None 0 True)],
      rq_props = [(''environment'', Some (JString environment)), (''mirrorNode'', Some JObject),
                  (''rpcNode'', Some JObject), (''consensusNodes'', Some JObject)],
      rq_optional = []\<rparr>"

record init_request =
  ir_network :: string
  ir_mirrorNode :: network_node
  ir_rpcNode :: network_node
  ir_events :: "(string \<times> nat) list option"
  ir_configuration :: "(string \<times> string) option"
  ir_consensusNodes :: "(string \<times> string) list option"
  ir_mirrorNodes :: "(string \<times> network_node) list option"
  ir_jsonRpcRelays :: "(string \<times> network_node) list option"
  ir_factories :: "(string \<times> string) list option"
  ir_resolvers :: "(string \<times> string) list option"
  ir_backend :: "string option"

definition InitializationRequest :: "init_request \<Rightarrow> request" where
  "InitializationRequest r =
     \<lparr>rq_schema = [], rq_props = [(''network'', Some (JString (ir_network r))), (''mirrorNode'', Some JObject),
      (''rpcNode'', Some JObject)], rq_optional = []\<rparr>"

text \<open>
  Of the settings of a custodian only the account is used here. The validator of an account that is not
  given is never reached: the field is optional.
\<close>

record connect_request =
  cr_account :: "request_account option"
  cr_network :: string
  cr_mirrorNode :: network_node
  cr_rpcNode :: network_node
  cr_wallet :: supported_wallet
  cr_custodialWalletSettings :: "string option"
  cr_consensusNodes :: "(string \<times> string) list option"
  cr_hwcSettings :: bool

definition ConnectRequest :: "request_lib \<Rightarrow> connect_request \<Rightarrow> request" where
  "ConnectRequest V r =
     \<lparr>rq_schema =
        (case cr_account r of None \<Rightarrow> [] | Some account \<Rightarrow> [(''account'', account_check V account)]) @
        [(''wallet'', checkString None 0 True)],
      rq_props = [(''account'', map_option (\<lambda>_. JObject) (cr_account r)), (''network'', Some (JString (cr_network r))),
                  (''mirrorNode'', Some JObject), (''rpcNode'', Some JObject),
                  (''wallet'', Some (JString (wallet_name (cr_wallet r))))],
      rq_optional = [''account'']\<rparr>"

section \<open>The port Network\<close>

definition validatedS :: "string \<Rightarrow> request \<Rightarrow> 'a stateful \<Rightarrow> 'a stateful" where
  "validatedS name req m = thenS (liftS (handleValidation name req)) m"

definition network_setConfig :: "request_lib \<Rightarrow> string \<Rightarrow> string \<Rightarrow> (string \<times> string) stateful" where
  "network_setConfig V factoryAddress resolverAddress =
     validatedS ''SetConfigurationRequest'' (SetConfigurationRequest V factoryAddress resolverAddress)
       (setConfiguration_handler factoryAddress resolverAddress)"

definition network_getFactoryAddress :: "session \<Rightarrow> string" where
  "network_getFactoryAddress s =
     (case ns_configuration (se_network s) of None \<Rightarrow> [] | Some (factoryAddress, _) \<Rightarrow> factoryAddress)"

definition network_getResolverAddress :: "session \<Rightarrow> string" where
  "network_getResolverAddress s =
     (case ns_configuration (se_network s) of None \<Rightarrow> [] | Some (_, resolverAddress) \<Rightarrow> resolverAddress)"

definition network_getNetwork :: "session \<Rightarrow> string" where
  "network_getNetwork s = ns_environment (se_network s)"

definition network_isNetworkRecognized :: "session \<Rightarrow> bool" where
  "network_isNetworkRecognized s \<longleftrightarrow> ns_environment (se_network s) \<noteq> ''unrecognized''"

definition network_setNetwork ::
  "string \<Rightarrow> network_node \<Rightarrow> network_node option \<Rightarrow> (string \<times> string) list option \<Rightarrow> network_response stateful" where
  "network_setNetwork environment mirrorNode rpcNode consensusNodes =
     validatedS ''SetNetworkRequest'' (SetNetworkRequest environment)
       (setNetwork_handler environment mirrorNode rpcNode consensusNodes)"

definition network_setBackend :: "string \<Rightarrow> string stateful" where
  "network_setBackend url = validatedS ''SetBackendRequest'' (SetBackendRequest url) (setBackend_handler url)"

text \<open>\<open>setMirrorNodes\<close> and the like keep the old list when none is given.\<close>

definition set_lists :: "init_request \<Rightarrow> session \<Rightarrow> session" where
  "set_lists r s =
     s \<lparr>se_mirrorNodes := (if ir_mirrorNodes r = None then se_mirrorNodes s else ir_mirrorNodes r),
        se_jsonRpcRelays := (if ir_jsonRpcRelays r = None then se_jsonRpcRelays s else ir_jsonRpcRelays r),
        se_factories := (if ir_factories r = None then se_factories s else ir_factories r),
        se_resolvers := (if ir_resolvers r = None then se_resolvers s else ir_resolvers r)\<rparr>"

fun init_adapters :: "world \<Rightarrow> init_request \<Rightarrow> tx_handler list \<Rightarrow> supported_wallet list stateful" where
  "init_adapters W r [] = returnS []"
| "init_adapters W r (h # hs) =
     thenS (init_handler W h)
     (thenS (if h = RpcHandler then modifyS (set_lists r) else returnS ())
     (bindS (init_adapters W r hs) (\<lambda>wallets. returnS (wallet_of h # wallets))))"

definition network_init :: "world \<Rightarrow> request_lib \<Rightarrow> init_request \<Rightarrow> supported_wallet list stateful" where
  "network_init W V r =
     validatedS ''InitializationRequest'' (InitializationRequest r)
      (thenS (network_setNetwork (ir_network r) (ir_mirrorNode r) (Some (ir_rpcNode r)) (ir_consensusNodes r))
      (thenS (case ir_configuration r of
          Some (factoryAddress, resolverAddress) \<Rightarrow>
            if factoryAddress \<noteq> [] \<and> resolverAddress \<noteq> []
            then thenS (network_setConfig V factoryAddress resolverAddress) (returnS ()) else returnS ()
        | None \<Rightarrow> returnS ())
      (thenS (case ir_backend r of
          Some url \<Rightarrow> thenS (network_setBackend url) (returnS ()) | None \<Rightarrow> returnS ())
      (thenS (case ir_events r of Some events \<Rightarrow> event_register events | None \<Rightarrow> returnS ())
        (init_adapters W r (adapter_instances W))))))"

text \<open>\<open>RequestMapper.mapAccount\<close>: a private key without a key or a type is dropped.\<close>

definition mapAccount :: "request_lib \<Rightarrow> request_account \<Rightarrow> account result" where
  "mapAccount V account =
     bindR (case ra_privateKey account of
         Some (key, type) \<Rightarrow>
           if key \<noteq> [] \<and> type \<noteq> []
           then bindR (new_PrivateKey (rl_derive V) (rl_sdkType V) key (Some type)) (\<lambda>k. Inr (Some k))
           else Inr None
       | None \<Rightarrow> Inr None) (\<lambda>privateKey.
     new_Account (ra_accountId account) (ra_evmAddress account) privateKey None None)"

definition getCustodialSettings :: "connect_request \<Rightarrow> string option" where
  "getCustodialSettings r =
     (if cr_wallet r \<in> {DFNS, FIREBLOCKS, AWSKMS} then cr_custodialWalletSettings r else None)"

definition connect_input_of :: "connect_request \<Rightarrow> account option \<Rightarrow> connect_input" where
  "connect_input_of r account =
     (case getCustodialSettings r of
        Some hederaAccountId \<Rightarrow> InputCustodial hederaAccountId
      | None \<Rightarrow> if cr_hwcSettings r then InputWalletConnect else InputAccount account)"

definition network_connect :: "world \<Rightarrow> request_lib \<Rightarrow> connect_request \<Rightarrow> account option stateful" where
  "network_connect W V r =
     validatedS ''ConnectRequest'' (ConnectRequest V r)
      (bindS (liftS (case cr_account r of
          None \<Rightarrow> Inr None | Some a \<Rightarrow> bindR (mapAccount V a) (\<lambda>acc. Inr (Some acc)))) (\<lambda>account.
       thenS (setNetwork_handler (cr_network r) (cr_mirrorNode r) (Some (cr_rpcNode r)) (cr_consensusNodes r))
         (connect_handler W (cr_wallet r) (connect_input_of r account))))"

definition network_disconnect :: "world \<Rightarrow> bool stateful" where
  "network_disconnect W = readS (\<lambda>s. bindS (liftS (resolveTransactionHandler s)) (stop W))"

section \<open>Sessions\<close>

inductive session_step :: "request_lib \<Rightarrow> session \<Rightarrow> session \<Rightarrow> bool" for V where
  step_init: "session_step V s (fst (network_init W V ir s))"
| step_connect: "session_step V s (fst (network_connect W V cr s))"
| step_disconnect: "session_step V s (fst (network_disconnect W s))"
| step_setNetwork: "session_step V s (fst (network_setNetwork e m rp c s))"
| step_setConfig: "session_step V s (fst (network_setConfig V f r s))"
| step_setBackend: "session_step V s (fst (network_setBackend u s))"
| step_register: "session_step V s (fst (event_register es s))"
| step_accountsChanged: "wo_isWeb W \<Longrightarrow> session_step V s (fst (accountsChanged W accts s))"
| step_chainChanged: "wo_isWeb W \<Longrightarrow> session_step V s (fst (chainChanged W chainId s))"
| step_sessionEnd: "se_hwcProvider s \<noteq> None \<Longrightarrow> session_step V s (fst (stop W HwcHandler s))"
| step_stopsFinish: "session_step V s (fst (finish_stops W s))"

definition session_steps :: "request_lib \<Rightarrow> session \<Rightarrow> session \<Rightarrow> bool" where
  "session_steps V = (session_step V)\<^sup>*\<^sup>*"

definition reachable_session :: "request_lib \<Rightarrow> session \<Rightarrow> bool" where
  "reachable_session V s \<longleftrightarrow> session_steps V start_session s"

end
