(* ===== verification/Session_Relations.thy ===== *)
theory Session_Relations
  imports Network_Port
begin

text \<open>
  How a session may develop. The locale \<open>quiet_relation\<close> is the interface: a reflexive and transitive
  relation between sessions that holds across each network command, each event and each change of a
  connection that leaves the current handler. Every operation then keeps to it, up to the change of the
  handler; \<open>session_relation\<close> adds that one, and with it all the calls of the ports and every sequence of
  steps. The first is interpreted on the handler itself, the second on the agreement of the adapters
  with \<open>NetworkService\<close> and on the history.
\<close>

section \<open>The interface\<close>

definition follows :: "(session \<Rightarrow> session \<Rightarrow> bool) \<Rightarrow> 'a stateful \<Rightarrow> bool" where
  "follows R m \<longleftrightarrow> (\<forall>s. R s (fst (m s)))"

text \<open>A change of a connection: the network, the listeners, the emitted events and the handler stay.\<close>

definition connection_change :: "session \<Rightarrow> session \<Rightarrow> bool" where
  "connection_change s t \<longleftrightarrow>
     se_network t = se_network s \<and> se_mirror t = se_mirror s \<and> se_rpcUrl t = se_rpcUrl s \<and>
     se_backend t = se_backend s \<and> se_listeners t = se_listeners s \<and> se_emitted t = se_emitted s \<and>
     se_handler t = se_handler s"

named_theorems follow

locale quiet_relation =
  fixes R :: "session \<Rightarrow> session \<Rightarrow> bool"
  assumes refl: "R s s"
    and trans: "R s t \<Longrightarrow> R t u \<Longrightarrow> R s u"
    and network: "follows R (setNetwork_handler e m r c)"
    and configuration: "follows R (setConfiguration_handler fa ra)"
    and backend: "follows R (setBackend_handler url)"
    and emits: "follows R (emit ev)"
    and listens: "follows R (event_on n l)"
    and connection: "connection_change s t \<Longrightarrow> R s t"
begin

lemma follows_returnS [follow]: "follows R (returnS x)"
  by (simp add: follows_def returnS_def refl)

lemma follows_throwS [follow]: "follows R (throwS e)"
  by (simp add: follows_def throwS_def refl)

lemma follows_liftS [follow]: "follows R (liftS r)"
  by (simp add: follows_def liftS_def refl)

lemma follows_readS [follow]: "(\<And>s. follows R (f s)) \<Longrightarrow> follows R (readS f)"
  by (simp add: follows_def readS_def)

lemma follows_bindS [follow]: "follows R m \<Longrightarrow> (\<And>x. follows R (f x)) \<Longrightarrow> follows R (bindS m f)"
  unfolding follows_def bindS_def
  by (auto split: prod.split sum.split) (metis fst_conv, metis fst_conv trans)

lemma follows_thenS [follow]: "follows R m \<Longrightarrow> follows R m' \<Longrightarrow> follows R (thenS m m')"
  unfolding thenS_def by (rule follows_bindS)

lemma follows_rethrowS [follow]: "follows R m \<Longrightarrow> follows R (rethrowS m h)"
  unfolding follows_def rethrowS_def by (auto split: prod.split sum.split) (metis fst_conv)+

lemma follows_change: "(\<And>s. connection_change s (f s)) \<Longrightarrow> follows R (modifyS f)"
  by (simp add: follows_def modifyS_def connection)

lemma follows_if [follow]: "(c \<Longrightarrow> follows R m) \<Longrightarrow> (\<not> c \<Longrightarrow> follows R m') \<Longrightarrow> follows R (if c then m else m')"
  by simp

lemma follows_option [follow]:
  "follows R m \<Longrightarrow> (\<And>x. follows R (f x)) \<Longrightarrow> follows R (case v of None \<Rightarrow> m | Some x \<Rightarrow> f x)"
  by (cases v) simp_all

lemma follows_sum [follow]:
  "(\<And>e. follows R (g e)) \<Longrightarrow> (\<And>x. follows R (f x)) \<Longrightarrow> follows R (case v of Inl e \<Rightarrow> g e | Inr x \<Rightarrow> f x)"
  by (cases v) simp_all

lemma follows_list [follow]:
  "follows R m \<Longrightarrow> (\<And>x xs. follows R (f x xs)) \<Longrightarrow> follows R (case v of [] \<Rightarrow> m | x # xs \<Rightarrow> f x xs)"
  by (cases v) simp_all

lemma follows_pair [follow]: "(\<And>a b. follows R (f a b)) \<Longrightarrow> follows R (case p of (a, b) \<Rightarrow> f a b)"
  by (cases p) simp

lemma follows_input [follow]:
  "(\<And>a. follows R (f a)) \<Longrightarrow> (\<And>a. follows R (g a)) \<Longrightarrow> follows R h \<Longrightarrow>
   follows R (case i of InputAccount a \<Rightarrow> f a | InputCustodial a \<Rightarrow> g a | InputWalletConnect \<Rightarrow> h)"
  by (cases i) simp_all

text \<open>The operations, from the inside out.\<close>

lemma small_follow [follow]:
  "follows R (set_account h acc)" "follows R (set_client h n)" "follows R (emit_paired h)"
  "follows R emit_metamask_paired" "follows R (mirror_account W i)" "follows R (close_client h)"
  unfolding set_account_def set_client_def emit_paired_def emit_metamask_paired_def mirror_account_def close_client_def
  by ((intro follow emits follows_change)?; simp add: connection_change_def)+

lemma stop_follow [follow]:
  "follows R (hwc_stopped W)" "follows R (stop W h)"
proof -
  show hwc: "follows R (hwc_stopped W)"
    unfolding hwc_stopped_def by (intro follow emits follows_change) (simp add: connection_change_def)
  show "follows R (stop W h)"
    by (cases h; simp add: stop_def hwc; intro follow emits)
qed

lemma finish_follow [follow]: "follows R (finish_stops W)"
proof -
  have "follows R (finish_calls W n)" for n by (induction n) (simp_all add: follow)
  then show ?thesis
    unfolding finish_stops_def by (intro follow follows_change) (auto simp: connection_change_def)
qed

lemma client_follow [follow]: "follows R (client_attach W i)"
  unfolding client_attach_def Let_def by (intro follow)

lemma custodial_follow [follow]: "follows R (custodial_attach W h i)"
  unfolding custodial_attach_def initClient_def Let_def
  by (intro follow follows_change) (simp add: connection_change_def)

lemma multisig_follow [follow]: "follows R (multisig_attach W i)"
  unfolding multisig_attach_def by (intro follow)

lemma metamask_follow [follow]:
  "follows R (setMetamaskNetwork W ch)" "follows R (setMetamaskAccount W a)" "follows R (pairWallet W)"
  "follows R (connectMetamask W p)" "follows R (accountsChanged W accts)"
  "follows R (chainChanged W ch)"
proof -
  show nw: "follows R (setMetamaskNetwork W ch)" for ch
    unfolding setMetamaskNetwork_def by (intro follow network configuration)
  show acc: "follows R (setMetamaskAccount W a)" for a
    unfolding setMetamaskAccount_def by (intro follow)
  show pair: "follows R (pairWallet W)"
    unfolding pairWallet_def by (intro follow nw acc emits)
  show "follows R (connectMetamask W p)"
    unfolding connectMetamask_def by (intro follow pair emits)
  show "follows R (accountsChanged W accts)"
    unfolding accountsChanged_def by (intro follow acc emits)
  show "follows R (chainChanged W ch)"
    unfolding chainChanged_def by (intro follow nw acc)
qed

lemma walletconnect_follow [follow]: "follows R (hwc_attach W i)"
proof -
  have 1: "follows R (initAdaptersAndProvider W)" and 2: "follows R (openPairingModal W)"
    unfolding initAdaptersAndProvider_def openPairingModal_def
    by (intro follow follows_change; simp add: connection_change_def)+
  have 3: "follows R (resolveAndCacheAccount W n)" for n
    unfolding resolveAndCacheAccount_def by (intro follow emits)
  show ?thesis
    unfolding hwc_attach_def connectWalletConnect_def Let_def by (intro follow 1 2 3)
qed

lemma init_follow [follow]: "follows R (init_handler W h)"
  unfolding init_handler_def by (intro follow emits)

lemma init_adapters_follow [follow]: "follows R (init_adapters W r hs)"
  by (induction hs) (auto intro!: follow follows_change simp: connection_change_def set_lists_def)

lemma events_follow [follow]: "follows R (event_register es)"
  by (induction es) (auto intro!: follow listens)

lemma command_follow [follow]:
  "follows R (network_setConfig V f g)" "follows R (network_setNetwork e m rp c)" "follows R (network_setBackend u)"
  unfolding network_setConfig_def network_setNetwork_def network_setBackend_def validatedS_def
  by (intro follow network configuration backend)+

lemma port_init_follow [follow]: "follows R (network_init W V ir)" "follows R (network_disconnect W)"
  unfolding network_init_def network_disconnect_def validatedS_def by (intro follow)+

end

locale session_relation = quiet_relation +
  assumes handles: "follows R (modifyS (\<lambda>s. s \<lparr>se_handler := Some h\<rparr>))"
begin

lemma registry_follow [follow]: "follows R (registerTransactionHandler W h)"
  unfolding registerTransactionHandler_def
  by (intro follow follows_change handles) (auto simp: connection_change_def)

lemma register_follow [follow]: "follows R (register W h i)"
  by (cases h; simp add: register_def client_register_def custodial_register_def multisig_register_def
      hwc_register_def rpc_register_def; intro follow)

lemma port_connect_follow [follow]: "follows R (network_connect W V cr)"
  unfolding network_connect_def validatedS_def connect_handler_def by (intro follow network)

lemma step_follows: "session_step V s t \<Longrightarrow> R s t"
  by (induction rule: session_step.induct)
    (use command_follow port_init_follow port_connect_follow events_follow metamask_follow stop_follow
      finish_follow in \<open>simp_all add: follows_def\<close>)

lemma steps_follow: "session_steps V s t \<Longrightarrow> R s t"
  unfolding session_steps_def
  by (induction rule: rtranclp_induct) (use refl trans step_follows in blast)+

end

section \<open>Agreement of the adapters\<close>

text \<open>
  The adapters agree with \<open>NetworkService\<close>: once a network command has run, the mirror adapter has its node
  (with the final slash) and the provider of the queries the url of its relay; the backend's client has its
  url, also with a final slash.
\<close>

definition agreeing :: "session \<Rightarrow> bool" where
  "agreeing s \<longleftrightarrow>
     (se_mirror s = None \<longleftrightarrow> se_rpcUrl s = None) \<and>
     (\<forall>n. se_mirror s = Some n \<longrightarrow>
        ns_mirrorNode (se_network s) = n \<and> js_endsWith (nd_baseUrl n) ''/'' \<and>
        se_rpcUrl s = Some (rpc_query_url (ns_rpcNode (se_network s)))) \<and>
     se_backend s = ns_backend (se_network s) \<and>
     (\<forall>u. se_backend s = Some u \<longrightarrow> js_endsWith u ''/'')"

text \<open>
  The history: what was emitted stays, with its receivers; listeners are only added; a handler, consensus
  nodes, a configuration and a backend are replaced but never unset.
\<close>

definition history :: "session \<Rightarrow> session \<Rightarrow> bool" where
  "history s t \<longleftrightarrow>
     (\<exists>es. se_emitted t = se_emitted s @ es) \<and> (\<exists>ls. se_listeners t = se_listeners s @ ls) \<and>
     (se_handler s \<noteq> None \<longrightarrow> se_handler t \<noteq> None) \<and>
     (ns_consensusNodes (se_network s) \<noteq> None \<longrightarrow> ns_consensusNodes (se_network t) \<noteq> None) \<and>
     (ns_configuration (se_network s) \<noteq> None \<longrightarrow> ns_configuration (se_network t) \<noteq> None) \<and>
     (ns_backend (se_network s) \<noteq> None \<longrightarrow> ns_backend (se_network t) \<noteq> None)"

lemma with_slash_ends: "js_endsWith (with_slash u) ''/''"
  by (simp add: with_slash_def js_endsWith_def js_startsWith_def)

lemmas stateful_defs = thenS_def bindS_def modifyS_def readS_def returnS_def throwS_def liftS_def

lemma setNetwork_state:
  "fst (setNetwork_handler e m r c s) =
     s \<lparr>se_network := se_network s \<lparr>ns_environment := e,
           ns_consensusNodes := (case c of None \<Rightarrow> ns_consensusNodes (se_network s) | Some l \<Rightarrow> Some l),
           ns_rpcNode := (case r of None \<Rightarrow> ns_rpcNode (se_network s) | Some n \<Rightarrow> n),
           ns_mirrorNode := normalised m\<rparr>,
        se_mirror := Some (normalised m),
        se_rpcUrl := Some (rpc_query_url (case r of None \<Rightarrow> ns_rpcNode (se_network s) | Some n \<Rightarrow> n))\<rparr>"
  by (simp add: setNetwork_handler_def stateful_defs split: option.split)

lemma setConfiguration_state:
  "fst (setConfiguration_handler f g s) = s \<lparr>se_network := se_network s \<lparr>ns_configuration := Some (f, g)\<rparr>\<rparr>"
  by (simp add: setConfiguration_handler_def stateful_defs)

lemma setBackend_state:
  "fst (setBackend_handler u s) =
     s \<lparr>se_backend := Some (with_slash u), se_network := se_network s \<lparr>ns_backend := Some (with_slash u)\<rparr>\<rparr>"
  by (simp add: setBackend_handler_def stateful_defs)

lemma emit_state:
  "fst (emit ev s) = s \<lparr>se_emitted := se_emitted s @ [(ev, listeners_of s (event_name ev))]\<rparr>"
  by (cases ev) (simp_all add: emit_def event_name_def WalletEvents_def stateful_defs)

lemma event_on_state:
  "fst (event_on n l s) = (if n \<in> set WalletEvents then s \<lparr>se_listeners := se_listeners s @ [(n, l)]\<rparr> else s)"
  by (simp add: event_on_def stateful_defs)

lemmas session_states = setNetwork_state setConfiguration_state setBackend_state emit_state event_on_state

lemma normalised_ends: "js_endsWith (nd_baseUrl (normalised n)) ''/''"
  by (simp add: normalised_def with_slash_ends)

interpretation agreement: session_relation "\<lambda>s t. agreeing s \<longrightarrow> agreeing t"
proof
  show "follows (\<lambda>s t. agreeing s \<longrightarrow> agreeing t) (setNetwork_handler e m r c)" for e m r c
    by (simp add: follows_def setNetwork_state agreeing_def normalised_ends split: option.split)
  show "follows (\<lambda>s t. agreeing s \<longrightarrow> agreeing t) (setConfiguration_handler fa ra)" for fa ra
    by (simp add: follows_def setConfiguration_state agreeing_def)
  show "follows (\<lambda>s t. agreeing s \<longrightarrow> agreeing t) (setBackend_handler url)" for url
    by (simp add: follows_def setBackend_state agreeing_def with_slash_ends)
  show "follows (\<lambda>s t. agreeing s \<longrightarrow> agreeing t) (emit ev)" for ev
    by (simp add: follows_def emit_state agreeing_def)
  show "follows (\<lambda>s t. agreeing s \<longrightarrow> agreeing t) (event_on n l)" for n l
    by (simp add: follows_def event_on_state agreeing_def)
  show "connection_change s t \<Longrightarrow> agreeing s \<longrightarrow> agreeing t" for s t
    by (simp add: connection_change_def agreeing_def)
  show "follows (\<lambda>s t. agreeing s \<longrightarrow> agreeing t) (modifyS (\<lambda>s. s \<lparr>se_handler := Some h\<rparr>))" for h
    by (simp add: follows_def modifyS_def agreeing_def)
qed auto

interpretation history: session_relation history
proof
  show "history s s" for s by (simp add: history_def)
  show "history s t \<Longrightarrow> history t u \<Longrightarrow> history s u" for s t u by (auto simp: history_def)
qed (auto simp: follows_def session_states modifyS_def history_def connection_change_def split: option.split)

text \<open>The handler, and what was emitted.\<close>

definition handler_kept :: "session \<Rightarrow> session \<Rightarrow> bool" where
  "handler_kept s t \<longleftrightarrow> se_handler t = se_handler s \<and> (\<exists>es. se_emitted t = se_emitted s @ es)"

interpretation handler: quiet_relation handler_kept
proof
  show "handler_kept s t \<Longrightarrow> handler_kept t u \<Longrightarrow> handler_kept s u" for s t u by (auto simp: handler_kept_def)
qed (auto simp: follows_def session_states handler_kept_def connection_change_def split: option.split)

end
