(* ===== verification/Session_Properties.thy ===== *)
theory Session_Properties
  imports Session_Relations Port_Properties Mirror_Properties
begin

text \<open>
  Properties of the sessions: the agreement of the adapters, the history, the change of handler, and what
  goes wrong between two calls (a change of chain, a client that outlives its network, a \<open>stop\<close> that nobody
  awaits).
\<close>

section \<open>Concrete worlds\<close>

definition wallet_mirror :: mirror where
  "wallet_mirror = sample_mirror \<lparr>mi_getAccount := \<lambda>i. Inr
     \<lparr>aj_account = Some ''0.0.7'', aj_evm_address = Some sample_escrow, aj_alias = None,
      aj_key = Some \<lparr>kj_type = ''ED25519'', kj_key = ''ab''\<rparr>, aj_max_automatic = None\<rparr>\<rparr>"

definition paired_provider :: wc_provider where
  "paired_provider = \<lparr>pr_session = Some \<lparr>ws_hedera = True, ws_eip155 = None\<rparr>, pr_eip155Provider = False\<rparr>"

definition sample_world :: world where
  "sample_world =
     \<lparr>wo_isWeb = True, wo_mirror = (\<lambda>_. wallet_mirror), wo_forName = (\<lambda>_. Inr ()), wo_setOperator = (\<lambda>_ _. Inr ()),
      wo_setOperatorWith = (\<lambda>_ _. Inr ()), wo_custodialService = (\<lambda>_. Inr ()), wo_detect = Inr (Some True),
      wo_isConnected = True, wo_requestAccounts = Inr (Some [sample_escrow]), wo_chainId = Inr ''0x128'',
      wo_getSigner = Inr (), wo_hwcInit = Inr (), wo_pairing = Inr paired_provider,
      wo_accountAddresses = (\<lambda>_. [''0.0.7'']), wo_disconnect = Inr (), wo_stops = AfterCall\<rparr>"

definition sample_node :: network_node where
  "sample_node = \<lparr>nd_baseUrl = ''https://node'', nd_apiKey = None, nd_headerName = None\<rparr>"

definition connect_to :: "supported_wallet \<Rightarrow> connect_request" where
  "connect_to w =
     \<lparr>cr_account = None, cr_network = ''testnet'', cr_mirrorNode = sample_node, cr_rpcNode = sample_node, cr_wallet = w,
      cr_custodialWalletSettings = (if w = DFNS then Some ''0.0.7'' else None), cr_consensusNodes = None,
      cr_hwcSettings = (w = HWALLETCONNECT)\<rparr>"

section \<open>Agreement and history\<close>

lemma start_reachable: "reachable_session V start_session"
  by (simp add: reachable_session_def session_steps_def)

lemma reachable_step: "reachable_session V s \<Longrightarrow> session_step V s t \<Longrightarrow> reachable_session V t"
  unfolding reachable_session_def session_steps_def by (rule rtranclp.rtrancl_into_rtrancl)

lemma start_agreeing: "agreeing start_session"
  by (simp add: agreeing_def start_session_def start_network_def)

text \<open>
  Property C11. In every session that the ports and the events of the wallets can reach, the adapters agree with
  the service of the network: the mirror adapter has the service's node, with the final slash, the
  queries go to the url of the service's relay, and the client of the backend has the service's backend.
\<close>

theorem reachable_sessions_agree:
  assumes "reachable_session V s"
  shows "(se_mirror s = None \<longleftrightarrow> se_rpcUrl s = None) \<and>
    (\<forall>n. se_mirror s = Some n \<longrightarrow> ns_mirrorNode (se_network s) = n \<and> js_endsWith (nd_baseUrl n) ''/'' \<and>
       se_rpcUrl s = Some (rpc_query_url (ns_rpcNode (se_network s)))) \<and>
    se_backend s = ns_backend (se_network s) \<and> (\<forall>u. se_backend s = Some u \<longrightarrow> js_endsWith u ''/'')"
proof -
  have "agreeing s"
    using assms agreement.steps_follow start_agreeing unfolding reachable_session_def by blast
  then show ?thesis unfolding agreeing_def .
qed

lemma network_validates: "e \<noteq> [] \<Longrightarrow> handleValidation name (SetNetworkRequest e) = Inr ()"
proof -
  assume "e \<noteq> []"
  then have "validate (SetNetworkRequest e) None = []"
    by (subst validate_Nil; auto simp: SetNetworkRequest_def request_engine checkString_def isNotEmpty_def)
  then show ?thesis by (simp add: handleValidation_def)
qed

lemma connect_validates:
  assumes "cr_account r = None" shows "handleValidation name (ConnectRequest V r) = Inr ()"
proof -
  have "wallet_name w \<noteq> []" for w by (cases w) (simp_all add: wallet_name_def)
  then have "validate (ConnectRequest V r) None = []"
    using assms by (subst validate_Nil; auto simp: ConnectRequest_def request_engine checkString_def isNotEmpty_def)
  then show ?thesis by (simp add: handleValidation_def)
qed

lemma network_state:
  "e \<noteq> [] \<Longrightarrow> fst (network_setNetwork e m r c s) = fst (setNetwork_handler e m r c s)"
  by (simp add: network_setNetwork_def validatedS_def network_validates thenS_def bindS_def liftS_def)

theorem reachable_sessions_agree_witness:
  "js_endsWith (nd_baseUrl (ns_mirrorNode (se_network
     (fst (network_setNetwork ''mainnet'' sample_node None None start_session))))) ''/''"
proof -
  let ?s = "fst (network_setNetwork ''mainnet'' sample_node None None start_session)"
  have "reachable_session V ?s" for V
    by (rule reachable_step [OF start_reachable]) (rule step_setNetwork)
  moreover have "se_mirror ?s = Some (normalised sample_node)"
    by (simp add: network_state setNetwork_state)
  ultimately show ?thesis using reachable_sessions_agree [of _ ?s] by simp
qed

text \<open>
  Whatever happens between two moments of a session: the events emitted so far stay, each with the
  listeners that got it, and listeners are only added; a handler, once registered, is replaced but never
  removed, not even by \<open>disconnect\<close>; and consensus nodes, a configuration and a backend, once set, are
  replaced but never cleared.
\<close>

theorem session_history:
  assumes "session_steps V s t"
  shows "(\<exists>es. se_emitted t = se_emitted s @ es) \<and> (\<exists>ls. se_listeners t = se_listeners s @ ls) \<and>
    (se_handler s \<noteq> None \<longrightarrow> se_handler t \<noteq> None) \<and>
    (ns_consensusNodes (se_network s) \<noteq> None \<longrightarrow> ns_consensusNodes (se_network t) \<noteq> None) \<and>
    (ns_configuration (se_network s) \<noteq> None \<longrightarrow> ns_configuration (se_network t) \<noteq> None) \<and>
    (ns_backend (se_network s) \<noteq> None \<longrightarrow> ns_backend (se_network t) \<noteq> None)"
  using history.steps_follow [OF assms] unfolding history_def .

definition client_session :: session where
  "client_session = start_session \<lparr>se_handler := Some ClientHandler\<rparr>"

theorem session_history_witness:
  "se_handler (fst (network_disconnect sample_world client_session)) \<noteq> None"
proof -
  have "session_steps V client_session (fst (network_disconnect sample_world client_session))" for V
    unfolding session_steps_def using step_disconnect by (rule r_into_rtranclp)
  from session_history [OF this] show ?thesis by (simp add: client_session_def)
qed

section \<open>Change of handler\<close>

lemma stop_emits:
  assumes "old \<noteq> HwcHandler"
  shows "\<exists>es. se_emitted (fst (stop W old s)) = se_emitted s @ es \<and>
    (WalletDisconnect (wallet_of old), listeners_of s ''walletDisconnect'') \<in> set es"
  using assms
  by (cases old) (auto simp: stop_def close_client_def stateful_defs emit_def event_name_def WalletEvents_def
      wallet_of_def listeners_of_def)

lemma registered:
  "se_handler (fst (registerTransactionHandler W h s)) = Some h"
  "snd (registerTransactionHandler W h s) = Inr ()"
proof -
  have stop: "\<exists>t b. stop W old s = (t, Inr b)" if "old \<noteq> HwcHandler" for old
    using that
    by (cases old) (auto simp: stop_def close_client_def stateful_defs emit_def event_name_def WalletEvents_def)
  have "\<exists>t. registerTransactionHandler W h s = (t \<lparr>se_handler := Some h\<rparr>, Inr ())"
  proof (cases "se_handler s")
    case (Some old)
    then show ?thesis
      using stop [of old]
      by (cases "old = HwcHandler") (auto simp: registerTransactionHandler_def stateful_defs)
  qed (auto simp: registerTransactionHandler_def stateful_defs)
  then show "se_handler (fst (registerTransactionHandler W h s)) = Some h"
    "snd (registerTransactionHandler W h s) = Inr ()" by auto
qed

lemma registered_emits:
  assumes "se_handler s = Some old" "old \<noteq> HwcHandler"
  shows "\<exists>es. se_emitted (fst (registerTransactionHandler W h s)) = se_emitted s @ es \<and>
    (WalletDisconnect (wallet_of old), listeners_of s ''walletDisconnect'') \<in> set es"
proof -
  have "se_emitted (fst (registerTransactionHandler W h s)) = se_emitted (fst (stop W old s))"
    using assms
    by (auto simp: registerTransactionHandler_def stateful_defs split: prod.split sum.split)
  then show ?thesis using stop_emits [OF assms(2)] by metis
qed

lemma then_run: "snd (m s) = Inr x \<Longrightarrow> thenS m m' s = m' (fst (m s))"
  by (cases "m s") (auto simp: thenS_def bindS_def)

lemma attached:
  assumes "h \<noteq> RpcHandler"
  shows "\<exists>rest. register W h i = thenS (registerTransactionHandler W h) rest \<and> follows handler_kept rest"
  using assms handler.client_follow handler.custodial_follow handler.multisig_follow handler.walletconnect_follow
  by (cases h) (auto simp: register_def client_register_def custodial_register_def multisig_register_def hwc_register_def)



section \<open>A change of chain\<close>

lemma chain_ids:
  "hex_str 295 = ''127''" "hex_str 296 = ''128''" "hex_str 297 = ''129''" "hex_str 298 = ''12a''"
  by (simp add: hex_str.simps hex_char_def, code_simp)+

definition settled :: "session \<Rightarrow> session \<Rightarrow> bool" where
  "settled s t \<longleftrightarrow>
     se_network t = se_network s \<and> se_rpcUrl t = se_rpcUrl s \<and> se_handler t = se_handler s \<and> se_client t = se_client s"

lemma settled_account: "settled s (fst (setMetamaskAccount W a s))"
  by (auto simp: settled_def setMetamaskAccount_def set_account_def stateful_defs split: sum.split)

lemma settled_trans: "settled s t \<Longrightarrow> settled t u \<Longrightarrow> settled s u"
  by (simp add: settled_def)

lemma settled_paired: "settled s (fst (emit_metamask_paired s))"
  by (simp add: settled_def emit_metamask_paired_def readS_def emit_state)

lemma settled_bind:
  "settled s (fst (m s)) \<Longrightarrow> (\<And>x t. settled t (fst (f x t))) \<Longrightarrow> settled s (fst (bindS m f s))"
  by (auto simp: bindS_def split: prod.split sum.split) (metis fst_conv settled_trans)

lemma chain_settled:
  "settled (fst (setMetamaskNetwork W chainId s)) (fst (chainChanged W chainId s))"
proof -
  have refl: "settled t t" for t by (simp add: settled_def)
  let ?rest = "readS (\<lambda>s. case se_account s RpcHandler of
         None \<Rightarrow> throwS TypeError
       | Some account \<Rightarrow>
           bindS (case acc_evmAddress account of
               Some (c # cs) \<Rightarrow> returnS (Some (c # cs))
             | _ \<Rightarrow> bindS (liftS (wo_requestAccounts W)) (\<lambda>accts.
                 returnS (case accts of None \<Rightarrow> Some [] | Some [] \<Rightarrow> None | Some (a # _) \<Rightarrow> Some a)))
           (\<lambda>evmAddress. thenS (setMetamaskAccount W evmAddress) emit_metamask_paired))"
  have "settled t (fst (?rest t))" for t
    unfolding readS_def
    by (cases "se_account t RpcHandler")
      (auto intro!: settled_bind settled_account settled_paired refl
        simp: thenS_def throwS_def returnS_def liftS_def split: option.split list.split)
  then show ?thesis
    unfolding chainChanged_def by (cases "setMetamaskNetwork W chainId s") (auto simp: thenS_def bindS_def refl split: sum.split)
qed

lemma metamask_network_state:
  "fst (setMetamaskNetwork W chainId s) =
     (case find (\<lambda>(_, i). ''0x'' @ hex_str i = chainId) HederaNetworks of
        None \<Rightarrow> fst (setConfiguration_handler [] [] (fst (setNetwork_handler ''unrecognized'' empty_node (Some empty_node) None s)))
      | Some (n, _) \<Rightarrow> fst (setConfiguration_handler (listed (se_factories s) n []) (listed (se_resolvers s) n [])
          (fst (setNetwork_handler n (listed (se_mirrorNodes s) n empty_node)
             (Some (listed (se_jsonRpcRelays s) n empty_node)) None s))))"
  by (auto simp: setMetamaskNetwork_def setNetwork_handler_def setConfiguration_handler_def stateful_defs
      split: option.split prod.split)

text \<open>
  A change of chain in MetaMask changes the network of the SDK whoever the current handler is: the
  handler, the clients of the other adapters and the consensus nodes stay, those of the old network. On
  a chain of Hedera the network, its nodes and its contracts are those that the initialisation listed; on
  any other chain the configuration is emptied, the mirror node has the url \<open>/\<close>, and the queries go
  to a relay on the local machine.
\<close>

theorem chain_changed_network:
  assumes "t = fst (chainChanged W chainId s)"
  shows "se_handler t = se_handler s \<and> se_client t = se_client s \<and>
    ns_consensusNodes (se_network t) = ns_consensusNodes (se_network s) \<and>
    (\<forall>(n, i) \<in> set HederaNetworks. chainId = ''0x'' @ hex_str i \<longrightarrow>
       ns_environment (se_network t) = n \<and>
       ns_rpcNode (se_network t) = listed (se_jsonRpcRelays s) n empty_node \<and>
       ns_configuration (se_network t) = Some (listed (se_factories s) n [], listed (se_resolvers s) n [])) \<and>
    (chainId \<notin> {''0x127'', ''0x128'', ''0x129'', ''0x12a''} \<longrightarrow>
       ns_environment (se_network t) = ''unrecognized'' \<and> nd_baseUrl (ns_mirrorNode (se_network t)) = ''/'' \<and>
       ns_configuration (se_network t) = Some ([], []) \<and> se_rpcUrl t = Some ''http://127.0.0.1:7546/api'')"
proof -
  let ?u = "fst (setMetamaskNetwork W chainId s)"
  have t: "se_network t = se_network ?u" "se_rpcUrl t = se_rpcUrl ?u" "se_handler t = se_handler ?u"
      "se_client t = se_client ?u"
    using chain_settled [of W chainId s] assms by (simp_all add: settled_def)
  show ?thesis
    unfolding t metamask_network_state
    by (auto simp: HederaNetworks_def chain_ids session_states empty_node_def normalised_def with_slash_def
        js_endsWith_def js_startsWith_def rpc_query_url_def LOCAL_JSON_RPC_RELAY_URL_def)
qed

theorem chain_changed_network_witness:
  "se_rpcUrl (fst (chainChanged sample_world ''0x1'' client_session)) = Some ''http://127.0.0.1:7546/api'' \<and>
   se_handler (fst (chainChanged sample_world ''0x1'' client_session)) = Some ClientHandler"
  using chain_changed_network [OF refl, of sample_world "''0x1''" client_session]
  by (simp add: client_session_def)

section \<open>What the connection does not follow\<close>

lemma wallet_mirror_account:
  "mirror_getAccountInfo wallet_mirror i = Inr \<lparr>ai_id = Some ''0.0.7'', ai_evmAddress = Some sample_escrow,
     ai_publicKey = Some \<lparr>pk_key = ''ab'', pk_type = ''ED25519''\<rparr>, av_alias = None, av_multiKey = None\<rparr>"
  by (simp add: mirror_getAccountInfo_def wallet_mirror_def invalid_response_def mirror_account_keys_def
      PROTOBUF_ENCODED_def new_PublicKey_def formatKey_def js_startsWith_def)

lemma sample_format: "hedera_format ''0.0.7''" by code_simp

definition session_account :: account where
  "session_account =
     \<lparr>acc_id = HederaId ''0.0.7'', acc_evmAddress = None, acc_privateKey = None,
      acc_publicKey = Some \<lparr>pk_key = ''ab'', pk_type = ''ED25519''\<rparr>, acc_multiKey = None\<rparr>"

lemma sample_new_account:
  "new_Account ''0.0.7'' evm None pk None =
     Inr \<lparr>acc_id = HederaId ''0.0.7'', acc_evmAddress = evm, acc_privateKey = None, acc_publicKey = pk, acc_multiKey = None\<rparr>"
  using sample_format by (simp add: new_Account_def HederaId_from_def new_HederaId_def)

text \<open>The connection to a custodian from the first session, on the test network.\<close>

lemma custodian_connected:
  "\<exists>t. network_connect sample_world V (connect_to DFNS) start_session = (t, Inr (Some session_account)) \<and>
     se_handler t = Some DfnsHandler \<and> se_client t DfnsHandler = Some (''testnet'', True)"
proof -
  have req: "cr_account (connect_to DFNS) = None" by (simp add: connect_to_def)
  show ?thesis
    unfolding network_connect_def validatedS_def
    by (simp add: connect_validates [OF req] req) (simp add: connect_to_def connect_handler_def getHandlerClass_def
        sample_world_def register_def custodial_register_def custodial_attach_def connect_input_of_def
        getCustodialSettings_def registerTransactionHandler_def setNetwork_handler_def start_session_def
        start_network_def stateful_defs mirror_account_def wallet_mirror_account sample_new_account set_account_def
        initClient_def set_client_def emit_paired_def emit_def event_name_def WalletEvents_def wallet_of_def
        session_account_def)
qed

text \<open>
  A client of the SDK outlives its network: there are sessions, reached by a connection and a change
  of network, in which the current handler executes with an open client of the test network while the
  network service is on the main one.
\<close>

theorem client_outlives_network:
  "\<exists>s h. reachable_session V s \<and> se_handler s = Some h \<and> se_client s h = Some (''testnet'', True) \<and>
     ns_environment (se_network s) = ''mainnet''"
proof -
  obtain t where t: "network_connect sample_world V (connect_to DFNS) start_session = (t, Inr (Some session_account))"
      "se_handler t = Some DfnsHandler" "se_client t DfnsHandler = Some (''testnet'', True)"
    using custodian_connected by blast
  have "reachable_session V t"
    using reachable_step [OF start_reachable step_connect, of V sample_world "connect_to DFNS"] t(1) by simp
  then have "reachable_session V (fst (network_setNetwork ''mainnet'' sample_node None None t))"
    by (rule reachable_step) (rule step_setNetwork)
  moreover have "ns_environment (se_network (fst (network_setNetwork ''mainnet'' sample_node None None t))) = ''mainnet''"
      "se_handler (fst (network_setNetwork ''mainnet'' sample_node None None t)) = se_handler t"
      "se_client (fst (network_setNetwork ''mainnet'' sample_node None None t)) = se_client t"
    by (simp_all add: network_state setNetwork_state)
  ultimately show ?thesis using t(2,3) by metis
qed

text \<open>
  A session over WalletConnect, and the connection to the same wallet again: the second registration stops
  the adapter that it registers.
\<close>

definition wc_session0 :: session where
  "wc_session0 = fst (chainChanged sample_world ''0x128'' start_session)"

lemma wc_session0_fields:
  "ns_configuration (se_network wc_session0) \<noteq> None" "se_handler wc_session0 = None" "se_hwcStops wc_session0 = 0"
  by (simp_all add: wc_session0_def chainChanged_def setMetamaskNetwork_def HederaNetworks_def chain_ids
      setNetwork_handler_def setConfiguration_handler_def stateful_defs start_session_def start_network_def
      sample_world_def)

definition wallet_account :: account where
  "wallet_account = session_account \<lparr>acc_evmAddress := Some sample_escrow\<rparr>"

lemma wallet_connected:
  assumes "ns_configuration (se_network s) \<noteq> None" "se_handler s \<in> {None, Some HwcHandler}"
  shows "\<exists>t. network_connect sample_world V (connect_to HWALLETCONNECT) s = (t, Inr (Some wallet_account)) \<and>
     se_handler t = Some HwcHandler \<and> se_hwcProvider t = Some paired_provider \<and>
     ns_configuration (se_network t) \<noteq> None \<and>
     se_hwcStops t = (if se_handler s = None then se_hwcStops s else Suc (se_hwcStops s))"
proof -
  have req: "cr_account (connect_to HWALLETCONNECT) = None" by (simp add: connect_to_def)
  obtain c where "ns_configuration (se_network s) = Some c" using assms(1) by blast
  then show ?thesis
    unfolding network_connect_def validatedS_def using assms(2)
    by (simp add: connect_validates [OF req] req) (auto simp: connect_to_def connect_handler_def getHandlerClass_def
        sample_world_def register_def hwc_register_def hwc_attach_def connect_input_of_def connectWalletConnect_def
        getCustodialSettings_def registerTransactionHandler_def setNetwork_handler_def initAdaptersAndProvider_def
        openPairingModal_def eip155_missing_def isEvmSession_def session_adapter_def paired_provider_def
        resolveAndCacheAccount_def rethrowS_def wallet_account_def session_account_def
        stateful_defs mirror_account_def wallet_mirror_account sample_new_account set_account_def
        emit_def event_name_def WalletEvents_def split: prod.splits)
qed

text \<open>
  The registration of a handler does not wait for the old one to stop. When the wallet of
  WalletConnect is connected a second time, the connection succeeds and returns the account; then the
  \<open>stop\<close> of the first one finishes and takes the new provider away: the current handler is left without a
  session, and every transaction that it is asked for fails.
\<close>

theorem second_connection_lost:
  "\<exists>s t. reachable_session V s \<and> network_connect sample_world V (connect_to HWALLETCONNECT) s = (t, Inr (Some wallet_account)) \<and>
     se_hwcProvider t = Some paired_provider \<and>
     (\<exists>u. session_step V t u \<and> se_handler u = Some HwcHandler \<and> se_hwcProvider u = None \<and>
        (\<forall>N tx. executeNativeTransaction N (session_adapter u) tx =
           throw (SigningError ''Native Hedera transaction failed'' (JsError ''Hedera WalletConnect not initialized''))))"
proof -
  have r0: "reachable_session V wc_session0"
    unfolding wc_session0_def
    by (rule reachable_step [OF start_reachable], rule step_chainChanged) (simp add: sample_world_def)
  obtain s where s: "network_connect sample_world V (connect_to HWALLETCONNECT) wc_session0 = (s, Inr (Some wallet_account))"
      "se_handler s = Some HwcHandler" "ns_configuration (se_network s) \<noteq> None" "se_hwcStops s = 0"
    using wallet_connected [of wc_session0 V] wc_session0_fields by auto
  have rs: "reachable_session V s"
    using reachable_step [OF r0 step_connect, of sample_world "connect_to HWALLETCONNECT"] s(1) by simp
  obtain t where t: "network_connect sample_world V (connect_to HWALLETCONNECT) s = (t, Inr (Some wallet_account))"
      "se_handler t = Some HwcHandler" "se_hwcProvider t = Some paired_provider" "se_hwcStops t = 1"
    using wallet_connected [of s V] s by auto
  let ?u = "fst (finish_stops sample_world t)"
  have u: "se_handler ?u = Some HwcHandler" "se_hwcProvider ?u = None"
    using t by (simp_all add: finish_stops_def stateful_defs hwc_stopped_def sample_world_def emit_def event_name_def
        WalletEvents_def)
  have "executeNativeTransaction N (session_adapter ?u) tx =
      throw (SigningError ''Native Hedera transaction failed'' (JsError ''Hedera WalletConnect not initialized''))" for N tx
    by (simp add: executeNativeTransaction_def ensureInitialized_def session_adapter_def u)
  then show ?thesis
    using rs t(1,3) u step_stopsFinish [of V t sample_world] by blast
qed

end
