(* ===== verification/Wallet_Properties.thy ===== *)
theory Wallet_Properties
  imports Wallet_Connect Adapter_Properties
begin

text \<open>
  Properties of the WalletConnect adapter: what a command asks of the wallet, the call that it sends for a
  contract operation in each kind of session, the signature for the multisignature flow, and the
  patched provider.
\<close>

section \<open>Commands\<close>


definition native_wallet :: wc_adapter where
  "native_wallet = \<lparr>wc_account = None, wc_provider = Some
     \<lparr>pr_session = Some \<lparr>ws_hedera = True, ws_eip155 = None\<rparr>, pr_eip155Provider = False\<rparr>\<rparr>"

definition evm_wallet :: wc_adapter where
  "evm_wallet = \<lparr>wc_account = None, wc_provider = Some
     \<lparr>pr_session = Some \<lparr>ws_hedera = False, ws_eip155 = Some [''eip155:1:0xab'', ''eip155:296:0xab'']\<rparr>, pr_eip155Provider = True\<rparr>\<rparr>"

definition wallet_rpc :: rpc_network where
  "wallet_rpc =
     \<lparr>rn_account = env_account sample_net, rn_send = (\<lambda>_. Inr ''0x01''),
      rn_wait = (\<lambda>_. Inr (Some \<lparr>rc_hash = ''0x01'', rc_status = Some 1, rc_logs = None\<rparr>)),
      rn_read = (\<lambda>_ _ _ _. Inl TypeError), rn_eventTopic = (\<lambda>_ _. None), rn_decodeLog = (\<lambda>_ _ _. Inl TypeError)\<rparr>"

definition sample_wc_net :: wc_net where
  "sample_wc_net =
     \<lparr>wn_environment = ''testnet'', wn_consensusNodes = Some [(''node'', ''0.0.3'')], wn_freeze = (\<lambda>_ _. Inr []),
      wn_execute = (\<lambda>_ _ _. Inr (Some [''transactionId'' \<mapsto> ''0.0.7@1''])), wn_bodyBytes = (\<lambda>_ _. Inr (Some [1])),
      wn_sign = (\<lambda>_ _ _. Inr (Some ''map'')), wn_signatureMap = (\<lambda>_. Inr [(Some [171], None)]),
      wn_encodes = (\<lambda>_ _ _. Inr ()), wn_parseEther = (\<lambda>_. Inr ()), wn_rpc = wallet_rpc\<rparr>"


section \<open>Contract calls in both kinds of session\<close>

text \<open>
  For a contract call that both kinds of session can make, they submit the same call: the function of the
  facet with the same arguments, gas and amount, by an Ethereum transaction to the EVM address of the
  contract in an EVM session, and by a transaction of the SDK to its Hedera identifier in a native one. The
  EVM address is the one of the operation or, when it has none, that of the mirror node.
\<close>

theorem wallet_connect_calls:
  assumes "isEvmSession W" "\<not> isEvmSession W'" "wc_provider W \<noteq> None"
    and "acc_evmAddress acc = Some (c # cs)" "wn_encodes N f fn ps = Inr ()"
    and "pay = None \<or> pay = Some [] \<or> wn_parseEther N (the pay) = Inr ()"
    and "wc_contractAddress E contractId evm = Inr address" "wn_freeze N
       (ContractExecuteTransaction \<lparr>cc_contractId = contractId, cc_facet = f, cc_function = fn, cc_params = ps,
          cc_gas = g, cc_payableAmount = (if pay = Some [] then None else pay)\<rparr>) (id_value (acc_id acc)) = Inr bytes"
  shows "actions (ex_executeContractCall (wc_executor N E acc W) contractId f fn ps g tt pay sd evm) =
      [SendContractCall \<lparr>cc_contractId = address, cc_facet = f, cc_function = fn, cc_params = ps,
         cc_gas = g, cc_payableAmount = (if pay = Some [] then None else pay)\<rparr>] \<and>
    actions (ex_executeContractCall (wc_executor N E acc W') contractId f fn ps g tt pay sd evm) =
      [ExecuteTransaction (ContractExecuteTransaction
         \<lparr>cc_contractId = contractId, cc_facet = f, cc_function = fn, cc_params = ps,
          cc_gas = g, cc_payableAmount = (if pay = Some [] then None else pay)\<rparr>)] \<and>
    (evm \<noteq> None \<and> evm \<noteq> Some [] \<longrightarrow> Some address = evm)"
proof -
  have W': "wc_provider W' \<noteq> None" using assms(2) by (cases "wc_provider W'") (auto simp: isEvmSession_def)
  have "ensureInitialized (W \<lparr>wc_account := Some acc\<rparr>) = Inr acc" "ensureInitialized (W' \<lparr>wc_account := Some acc\<rparr>) = Inr acc"
    using assms(3) W' by (auto simp: ensureInitialized_def)
  moreover have "(case if pay = Some [] then None else pay of None \<Rightarrow> Inr () | Some v \<Rightarrow> wn_parseEther N v) = Inr ()"
    using assms(6) by (cases pay) auto
  ultimately show ?thesis
    using assms(1,2,4,5,7,8)
    by (auto simp: wc_executor_def Let_def wc_executeContractCall_def executeEvmContractCall_def actions_bindIO
        base_executeContractCall_def buildContractTransaction_def wc_processTransaction_def
        executeNativeTransaction_def wc_contractAddress_def split: sum.splits option.splits list.splits)
qed

theorem wallet_connect_calls_witness:
  "actions (ex_executeContractCall (wc_executor sample_wc_net sample_net (env_account sample_net) evm_wallet)
     ''0.0.10'' ''BurnableFacet'' ''burn'' [CInt 150] BURN_GAS None None None None) =
   [SendContractCall \<lparr>cc_contractId = sample_escrow, cc_facet = ''BurnableFacet'', cc_function = ''burn'',
      cc_params = [CInt 150], cc_gas = BURN_GAS, cc_payableAmount = None\<rparr>]"
proof -
  have "hedera_contract_format ''0.0.10''" by code_simp
  then have "wc_contractAddress sample_net ''0.0.10'' None = Inr sample_escrow"
    by (simp add: wc_contractAddress_def sample_net_def sample_env_def)
  then show ?thesis
    using wallet_connect_calls [of evm_wallet native_wallet "env_account sample_net" "CHR ''0''" "tl sample_escrow"
        sample_wc_net "''BurnableFacet''" "''burn''" "[CInt 150]" None sample_net "''0.0.10''" None sample_escrow BURN_GAS "[]"
        None None]
    by (simp add: isEvmSession_def evm_wallet_def native_wallet_def sample_wc_net_def sample_queries)
      (simp add: sample_escrow_def)
qed

section \<open>Signatures\<close>

text \<open>
  \<open>sign\<close> gives a signature exactly when the adapter is initialised with a session of Hedera, is given a
  transaction, the network has consensus nodes, and the wallet returns a map with at least one pair: then it is
  the hexadecimal of the first pair's ED25519 signature, or else of its ECDSA one. An EVM wallet never signs.
\<close>

theorem wallet_connect_sign_iff:
  "(wc_sign N W message = Inr s \<longleftrightarrow>
     (\<exists>acc tx body m ed ec rest sig. ensureInitialized W = Inr acc \<and> \<not> isEvmSession W \<and> message = SignTransaction tx \<and>
        wn_consensusNodes N \<noteq> None \<and> wn_consensusNodes N \<noteq> Some [] \<and>
        wn_bodyBytes N tx (id_value (acc_id acc)) = Inr (Some body) \<and>
        wn_sign N (hedera_chainRef N) (signerAccountId N acc) body = Inr (Some m) \<and> m \<noteq> [] \<and>
        wn_signatureMap N m = Inr ((ed, ec) # rest) \<and> (ed = Some sig \<or> ed = None \<and> ec = Some sig) \<and>
        s = fromUint8Array sig)) \<and>
   (isEvmSession W \<longrightarrow> (\<exists>e. wc_sign N W message = Inl e))"
proof -
  have first: "first_signature l = Inr sig \<longleftrightarrow>
      (\<exists>ed ec rest. l = (ed, ec) # rest \<and> (ed = Some sig \<or> ed = None \<and> ec = Some sig))" for l sig
    by (auto simp: first_signature_def split: list.splits option.splits)
  have sig: "wc_signature N acc tx = Inr s \<longleftrightarrow>
      (\<exists>body m l sig. wn_bodyBytes N tx (id_value (acc_id acc)) = Inr (Some body) \<and>
        wn_sign N (hedera_chainRef N) (signerAccountId N acc) body = Inr (Some m) \<and> m \<noteq> [] \<and>
        wn_signatureMap N m = Inr l \<and> first_signature l = Inr sig \<and> s = fromUint8Array sig)" for acc tx
    unfolding wc_signature_def bindR_Inr_iff of_option_Inr by (fastforce split: if_splits)
  have signed: "wc_sign N W message = Inr s \<longleftrightarrow>
      (\<exists>acc tx. ensureInitialized W = Inr acc \<and> \<not> isEvmSession W \<and> message = SignTransaction tx \<and>
        wn_consensusNodes N \<noteq> None \<and> wn_consensusNodes N \<noteq> Some [] \<and> wc_signature N acc tx = Inr s)"
    by (cases "ensureInitialized W"; cases message) (auto simp: wc_sign_def split: sum.splits)
  have "isEvmSession W \<Longrightarrow> \<exists>e. wc_sign N W message = Inl e"
    by (cases "ensureInitialized W") (simp_all add: wc_sign_def)
  then show ?thesis unfolding signed sig first by blast
qed

theorem wallet_connect_sign_iff_witness:
  "\<exists>e. wc_sign sample_wc_net evm_wallet (SignTransaction []) = Inl e"
  using wallet_connect_sign_iff [of sample_wc_net evm_wallet "SignTransaction []"]
  by (simp add: isEvmSession_def evm_wallet_def)

section \<open>The patched provider\<close>

text \<open>
  Whatever the provider does with its session, the patch hides the accounts of other chains from it: when
  the session has an account on a chain of Hedera, the provider sees exactly the accounts on these chains,
  in their order, and afterwards, also when it throws, the session has its whole list again. Otherwise
  it sees the session as it is.
\<close>

theorem patched_provider:
  assumes "patched_initProviders orig s = (s', r)"
  shows "(\<forall>accs. ws_eip155 s = Some accs \<and> (\<exists>a \<in> set accs. chain_of a \<in> {''eip155:295'', ''eip155:296''}) \<longrightarrow>
      r = snd (orig (s \<lparr>ws_eip155 := Some (filter (\<lambda>a. chain_of a \<in> {''eip155:295'', ''eip155:296''}) accs)\<rparr>)) \<and>
      ws_eip155 s' = Some accs) \<and>
    ((\<forall>accs. ws_eip155 s = Some accs \<longrightarrow> (\<forall>a \<in> set accs. chain_of a \<notin> {''eip155:295'', ''eip155:296''})) \<longrightarrow>
      (s', r) = orig s)"
proof -
  have only: "hederaOnly accs = filter (\<lambda>a. chain_of a \<in> {''eip155:295'', ''eip155:296''}) accs" for accs
    by (simp add: hederaOnly_def hederaEvmChains_def)
  show ?thesis
    using assms unfolding patched_initProviders_def only
    by (auto simp: filter_empty_conv split: option.splits if_splits prod.splits)
qed

theorem patched_provider_witness:
  "ws_eip155 (fst (patched_initProviders (\<lambda>s. (s \<lparr>ws_eip155 := None\<rparr>, Inl TypeError))
     \<lparr>ws_hedera = False, ws_eip155 = Some [''eip155:1:0xab'', ''eip155:296:0xab'']\<rparr>)) =
   Some [''eip155:1:0xab'', ''eip155:296:0xab'']"
proof -
  let ?s = "\<lparr>ws_hedera = False, ws_eip155 = Some [''eip155:1:0xab'', ''eip155:296:0xab'']\<rparr>"
  have chains: "chain_of ''eip155:296:0xab'' = ''eip155:296''" by code_simp
  obtain s' r where p: "patched_initProviders (\<lambda>s. (s \<lparr>ws_eip155 := None\<rparr>, Inl TypeError)) ?s = (s', r)" by fastforce
  show ?thesis using patched_provider [OF p] chains unfolding p by simp
qed

end
