(* ===== verification/Spec2Isabelle.thy ===== *)
theory Spec2Isabelle
  imports Backend_Properties Cli_Multisig_Properties Cli_Results Cli_Wizard_Properties Command_Properties Creation_Properties Domain_Properties Mirror_Properties
    Multisig_Properties Rpc_Properties Session_Properties Wallet_Properties
begin

text \<open>
  A model of the Hedera Stablecoin Studio: the TypeScript SDK (\<open>sdk/src\<close>), the backend that
  stores multisignature transactions (\<open>backend/src\<close>) and the command line (\<open>cli/src\<close>): its
  configuration and main menu, the creation of a coin, the session of a user with one coin, and the menu of
  multisignature transactions.

  The parts of the program. A request of an application is validated against its schema and becomes
  a command. The command's handler reads the network (mirror node and contracts), computes what the
  connected account may do with the coin, checks the command, and calls one operation of the
  connected transaction adapter. The operation decides between the coin's contract and the token
  service, and hands a contract call or a native transaction to the adapter's executor. The
  custodial and the client executors submit it; the multisignature executor posts it to the backend,
  where the keys of the account sign it one by one until the threshold is reached, and a periodic
  job submits it. The command line asks its user for the fields of a request, one by one, until each
  validates, and calls the SDK with it.

  The theories, in the order of the layers.

  \<^item> \<open>Js_Prelude\<close>: the errors of the program, results (\<open>error + value\<close>), computations with effects
    outside (a list of effects and a result), and the string operations of the language.
  \<^item> \<open>Fixed_Number\<close>, \<open>Big_Decimal\<close>: amounts. The library ethers is the record
    \<open>fixed_number_lib\<close>; what the code relies on is the locale \<open>fixed_number_api\<close>, interpreted on the
    exact arithmetic \<open>exact_lib\<close>. \<open>decimal_value\<close> is the number that a decimal notation stands for.
  \<^item> \<open>Ids\<close>, \<open>Fees_Holds\<close>, \<open>Stable_Coin\<close>: identifiers, keys, fees, holds and the stablecoin, of
    \<open>domain/context\<close> and \<open>core\<close>.
  \<^item> \<open>Capabilities\<close>: \<open>StableCoinService.getCapabilities\<close> and \<open>CapabilityDecider\<close>.
  \<^item> \<open>Request_Validation\<close>: \<open>Validation\<close> and \<open>ValidatedRequest\<close>.
  \<^item> \<open>Ports\<close>, \<open>Queries\<close>: the record \<open>env\<close> of what the network answers during one command, the query
    handlers, and the services that rest on them.
  \<^item> \<open>Transactions\<close>, \<open>Token_Operations\<close>, \<open>Contract_Operations\<close>: the operations of
    \<open>port/out/hs/operations\<close> over an executor; the locale \<open>single_submission\<close> says that an operation
    submits at most one transaction when the executor does.
  \<^item> \<open>Backend_Adapter\<close>, \<open>Adapters\<close>: the backend's client, the base adapter and its three executors,
    each of which interprets \<open>single_submission\<close>.
  \<^item> \<open>Token_Commands\<close>, \<open>Hold_Commands\<close>, \<open>Role_Commands\<close>, \<open>Admin_Commands\<close>, \<open>Create_Command\<close>: the
    command handlers of \<open>app/usecase/command\<close>, over any adapter.
  \<^item> \<open>Requests\<close>, \<open>Input_Ports\<close>: the request classes of \<open>port/in/request\<close>, each a definition with its
    name, and the methods of the ports of \<open>port/in\<close>, each a definition \<open>port_\<close> with its name: validation,
    identifiers, handler.
  \<^item> \<open>Backend_Transactions\<close>, \<open>Backend_Job\<close>: the entity and the service of \<open>backend/src/transaction\<close>
    and the job of \<open>backend/src/jobs\<close>. The database is the locale \<open>tx_repository\<close>, interpreted on a
    keyed list; \<open>backend_reachable\<close> are the states that any sequence of requests can reach.
  \<^item> \<open>Backend_Ledger\<close>: what the backend promises, as a ledger of sets of signers, and the lemmas that the
    service refines it.
  \<^item> \<open>Mirror_Node\<close>: \<open>MirrorNodeAdapter\<close>, whose HTTP client is the record \<open>mirror\<close>; \<open>mirror_env\<close> puts its
    results into the environment of the commands.
  \<^item> \<open>Rpc_Queries\<close>, \<open>Rpc_Adapter\<close>: \<open>port/out/rpc\<close>, the queries of the contracts by JSON-RPC, whose answers are
    the \<open>q_\<close> fields of the environment, and the operations through a wallet. The adapter implements the
    interface \<open>tx_adapter\<close> by itself; it and the base adapter keep the contract \<open>submitting_adapter\<close>,
    from which the commands' properties of submission follow.
  \<^item> \<open>Wallet_Connect\<close>: the adapter of WalletConnect, a member of the base family whose transactions the
    wallet executes; it interprets \<open>single_submission\<close>. The provider and the wallet are the record \<open>wc_net\<close>.
  \<^item> \<open>Session_State\<close>, \<open>Wallet_Handlers\<close>, \<open>Network_Port\<close>: the state of the SDK between two calls (the services
    \<open>NetworkService\<close> and \<open>EventService\<close>, the registry of \<open>Injectable\<close>, what each adapter keeps of its connection),
    the network commands, the registration of every adapter, MetaMask's pairing and events, and the ports
    \<open>Network\<close> and \<open>Event\<close>. \<open>session_step\<close> is the step relation of all the calls and of the events between them.
  \<^item> \<open>Session_Relations\<close>: the locales \<open>quiet_relation\<close> and \<open>session_relation\<close>: a relation between two sessions
    that the elementary changes keep is kept by every operation. Each is interpreted on the relations that the
    properties of sessions need.
  \<^item> \<open>Backend_Http\<close>, \<open>Backend_Roundtrip\<close>: the web layer of the backend (CORS, guard, validation of the requests,
    controller), and the client of the SDK over it.
  \<^item> \<open>Tx_Description\<close>: the descriptions that the signers of a multisignature transaction read.
  \<^item> \<open>Cli_Menus\<close>: which options the menus of the command line offer an account
    (\<open>cli/src/app/service/stablecoin/OperationStableCoinService.ts\<close>).
  \<^item> \<open>Cli_Dialogs\<close>, \<open>Cli_Operations\<close>, \<open>Cli_Session\<close>: the dialogs of that service. A dialog is a function from
    the answers of the user to the calls of the SDK, the errors shown, and a result, the state of waiting for an
    answer or an error; \<open>cli_env\<close> is what the SDK and the language answer. \<open>cli_turn\<close> is one screen, and
    \<open>session_trace\<close> the step relation of the session.
  \<^item> \<open>Cli_Update\<close>: the token configuration, which collects an update of the coin between the screens of a session;
    a part of \<open>Cli_Session\<close>.
  \<^item> \<open>Cli_Create\<close>: the wizard of creation and the calls after it (\<open>CreateStableCoinService.ts\<close>).
  \<^item> \<open>Cli_Multisig\<close>: the list of multisignature transactions and what can be done with them
    (\<open>ManageMultiSigTxService.ts\<close>, \<open>ListMultiSigTxService.ts\<close>, \<open>cli/src/domain/stablecoin\<close>); \<open>ms_reachable\<close> are the
    screens that a session in this menu can reach.
  \<^item> \<open>Cli_Config\<close>: the configuration and the dialogs that change it (\<open>cli/src/app/service/configuration\<close>). The loops
    are \<open>loopD\<close>, with the number of answers as fuel.
  \<^item> \<open>Cli_Wizard\<close>: the main menu, the menus of accounts, nodes, backend and imported tokens, and the current account
    (\<open>WizardService.ts\<close>, \<open>NetworkWizardService.ts\<close>, \<open>ManageImportedTokenService.ts\<close>, a part of
    \<open>UtilitiesService.ts\<close>); \<open>wizard_turn\<close> is one menu, and \<open>wizard_steps\<close> the states that turns lead to.
  \<^item> \<open>Sample_Network\<close>: concrete networks on which the properties are applied.
  \<^item> \<open>Domain_Properties\<close>, \<open>Cash_Properties\<close>, \<open>Hold_Properties\<close>, \<open>Command_Properties\<close>,
    \<open>Adapter_Properties\<close>, \<open>Backend_Properties\<close>, \<open>Mirror_Properties\<close>, \<open>Rpc_Properties\<close>,
    \<open>Port_Properties\<close>, \<open>Creation_Properties\<close>, \<open>Session_Properties\<close>, \<open>Wallet_Properties\<close>, \<open>Backend_Http_Properties\<close>,
    \<open>Multisig_Properties\<close>, \<open>Cli_Properties\<close>, \<open>Cli_Session_Properties\<close>, \<open>Cli_Results\<close>, \<open>Cli_Create_Properties\<close>,
    \<open>Cli_Multisig_Properties\<close>, \<open>Cli_Loops\<close>, \<open>Cli_Wizard_Properties\<close>: the properties.

  What the lemmas show. Amounts: notations are read and printed exactly and the comparisons are
  those of the numbers. Capabilities: the decision for each operation as a function of the coin's
  keys and flags. Commands: whatever a handler submits, it submits once, with the exact amount, and
  only when the conditions on balances, supply, reserve, holds and relationships hold. Ports: which
  requests pass, and that the handler runs on well-formed identifiers and amounts or not at all. Adapters:
  forbidden operations submit nothing, the multisignature adapter only posts to the backend, the wallet's
  adapter sends the calls that the custodial adapter executes. Backend:
  the stored transactions keep their invariant under every sequence of requests, also of HTTP requests from
  anywhere, and the job's effect is given for each transaction; an operation of the multisignature adapter is
  followed from the SDK to the store and back. Sessions: whatever the ports and the wallets do, the adapters
  agree with the network service, and what a connection, a change of chain and a pending stop do to a session.
  Command line: whatever a user answers, every call of a session carries a request that passes the validation of the
  SDK, but for the expiration of an update; the request of the wizard of creation passes as a whole; what the menus
  offer, what a dialog sends, what is signed and submitted, and the answers that lead nowhere. The menus keep the
  configuration in order whatever is answered, which account a deletion removes, and the state that no choice leads out of.

  Bounds. Amounts are values of 128 bits, as ethers' default format; token amounts stay below
  \<open>2 ^ 63\<close>. The waits of \<open>grantKyc\<close> are three retries, as in the code; the job's loop over the pages
  is a recursion whose termination is proved. The mirror node is asked ten times for a token and for a contract,
  and polled ten times for a contract's result, as in the code; the pages of relationships are followed with
  a fuel, and \<open>association_count\<close> says that the number of pages is enough. A loop of the configuration has one unit of
  fuel for each answer; every round reads one, and \<open>dialog_loops\<close> says that the loops go on as those of the code.

  Parameters. Code that is not in the repository is an argument: ethers' fixed numbers and ABI
  encoding, its provider and the wallets, WalletConnect's provider and its modal, the Hedera SDK (execution,
  receipts, protobuf, signatures), axios, the database, the clock, and the answers of the mirror node's REST interface and of the contracts.

  The end of a \<open>stop\<close> that nobody awaits is a step of its own; inside of a connection it falls before the
  new provider, into the pairing or after the call (\<open>stop_time\<close>), which are the places where the code awaits.

  Not modelled: the web interface, which only calls the SDK; of the command line the file of the configuration, what is
  only shown, and the choice of the coin at the entry of a session; answers to the questions for identifiers and versions that
  \<open>Number\<close> reads as \<open>NaN\<close> or as a fraction, and negative decimals (such a question waits); the Solidity
  contracts, whose answers are parameters; the container of dependencies, buses and logging, which
  only route calls; of WalletConnect the metadata and the listeners that only log. The messages of errors
  that quote a caught error are constants.
\<close>

end
